(* ===== verification/Prelude.thy ===== *)
theory Prelude
  imports Main "HOL-Library.Multiset" "HOL-Library.Char_ord" "HOL-Library.List_Lexorder"
begin

text \<open>
  Shared vocabulary of the development: the error monad in which every function of the
  source that can raise is written, the exceptions of the navigation modules, decimal
  rendering of indices for error details, order-preserving removal of duplicates
  (\<open>list(dict.fromkeys(xs))\<close> of the source), and the hint collections the component
  theories add to.
\<close>

named_theorems err_simps \<open>elimination of the error monad in assumptions\<close>

subsection \<open>Exceptions and the error monad\<close>

text \<open>
  The exceptions that can leave the navigation modules. The first two carry the
  machine-readable code and the detail of \<open>PortableNavigationContractError\<close> and
  \<open>PortableNavigationCoreError\<close>; the others are the interpreter's own.
\<close>

datatype py_exc =
    ContractError string string
  | CoreError string string
  | PyTypeError
  | PyValueError
  | PyOverflowError
  | PyKeyError
  | PyIndexError
  | PyZeroDivisionError
  | PyNoReturn

text \<open>\<open>PyNoReturn\<close> stands for a loop that used up its fuel.\<close>

definition bindE :: "('e + 'a) \<Rightarrow> ('a \<Rightarrow> 'e + 'b) \<Rightarrow> 'e + 'b" where
  "bindE m f = (case m of Inl e \<Rightarrow> Inl e | Inr x \<Rightarrow> f x)"

definition guardE :: "bool \<Rightarrow> 'e \<Rightarrow> 'e + unit" where
  "guardE ok e = (if ok then Inr () else Inl e)"

fun mapE :: "('a \<Rightarrow> 'e + 'b) \<Rightarrow> 'a list \<Rightarrow> 'e + 'b list" where
  "mapE f [] = Inr []"
| "mapE f (x # xs) = bindE (f x) (\<lambda>y. bindE (mapE f xs) (\<lambda>ys. Inr (y # ys)))"

fun mapiE :: "(nat \<Rightarrow> 'a \<Rightarrow> 'e + 'b) \<Rightarrow> nat \<Rightarrow> 'a list \<Rightarrow> 'e + 'b list" where
  "mapiE f i [] = Inr []"
| "mapiE f i (x # xs) =
     bindE (f i x) (\<lambda>y. bindE (mapiE f (Suc i) xs) (\<lambda>ys. Inr (y # ys)))"

fun foldE :: "('s \<Rightarrow> 'a \<Rightarrow> 'e + 's) \<Rightarrow> 's \<Rightarrow> 'a list \<Rightarrow> 'e + 's" where
  "foldE f s [] = Inr s"
| "foldE f s (x # xs) = bindE (f s x) (\<lambda>s'. foldE f s' xs)"

text \<open>\<open>try: m except e: h e\<close>.\<close>

definition catchE :: "('e + 'a) \<Rightarrow> ('e \<Rightarrow> 'f + 'a) \<Rightarrow> 'f + 'a" where
  "catchE m h = (case m of Inl e \<Rightarrow> h e | Inr x \<Rightarrow> Inr x)"

definition is_ok :: "'e + 'a \<Rightarrow> bool" where
  "is_ok m = (case m of Inl _ \<Rightarrow> False | Inr _ \<Rightarrow> True)"

lemma bindE_simps [simp]:
  "bindE (Inl e) f = Inl e"
  "bindE (Inr x) f = f x"
  by (simp_all add: bindE_def)

lemma bindE_Inr_iff [err_simps]: "bindE m f = Inr y \<longleftrightarrow> (\<exists>x. m = Inr x \<and> f x = Inr y)"
  by (cases m) simp_all

lemma bindE_InrE: "bindE m f = Inr y \<Longrightarrow> (\<And>x. m = Inr x \<Longrightarrow> f x = Inr y \<Longrightarrow> thesis) \<Longrightarrow> thesis"
  by (auto simp: bindE_Inr_iff)

lemma bindE_Inl_iff: "bindE m f = Inl e \<longleftrightarrow> m = Inl e \<or> (\<exists>x. m = Inr x \<and> f x = Inl e)"
  by (cases m) simp_all

lemma bindE_assoc: "bindE (bindE m f) g = bindE m (\<lambda>x. bindE (f x) g)"
  by (cases m) simp_all

lemma bindE_cong [fundef_cong]:
  "m = n \<Longrightarrow> (\<And>x. n = Inr x \<Longrightarrow> f x = g x) \<Longrightarrow> bindE m f = bindE n g"
  by (cases n) simp_all

text \<open>Orients the result of an accepting run for substitution.\<close>

lemma Inr_out: "(Inr a = (Inr b :: 'e + 'a)) = (b = a)" 
  by auto

lemma guardE_Inr_iff [err_simps]: "guardE b e = Inr u \<longleftrightarrow> b"
  by (simp add: guardE_def)

lemma guardE_Inl_iff [err_simps]: "guardE b e = Inl e' \<longleftrightarrow> \<not> b \<and> e' = e"
  by (auto simp: guardE_def)

lemma guardE_simps [simp]:
  "guardE True e = Inr ()"
  "guardE False e = Inl e"
  by (simp_all add: guardE_def)

lemma mapE_Inr_iff: "mapE f xs = Inr ys \<longleftrightarrow> list_all2 (\<lambda>x y. f x = Inr y) xs ys"
  by (induction xs arbitrary: ys) (auto simp: bindE_Inr_iff list_all2_Cons1)

lemma mapE_length: "mapE f xs = Inr ys \<Longrightarrow> length ys = length xs"
  by (auto simp: mapE_Inr_iff list_all2_lengthD)

lemma mapiE_Inr_iff:
  "mapiE f i xs = Inr ys \<longleftrightarrow>
     length ys = length xs \<and> (\<forall>k < length xs. f (i + k) (xs ! k) = Inr (ys ! k))"
proof (induction xs arbitrary: i ys)
  case Nil
  then show ?case by auto
next
  case (Cons x xs)
  show ?case
  proof (cases ys)
    case Nil
    then show ?thesis by (auto simp: bindE_Inr_iff)
  next
    case (Cons z zs)
    then show ?thesis
      by (auto simp: bindE_Inr_iff Cons.IH nth_Cons less_Suc_eq_0_disj all_conj_distrib
          split: nat.splits)
  qed
qed

lemma mapiE_length: "mapiE f i xs = Inr ys \<Longrightarrow> length ys = length xs"
  by (simp add: mapiE_Inr_iff)

lemma mapiE_all:
  assumes "mapiE f i xs = Inr ys" and "\<And>k x y. f k x = Inr y \<Longrightarrow> P y" and "y \<in> set ys"
  shows "P y"
  using assms by (auto simp: mapiE_Inr_iff in_set_conv_nth)

lemma mapiE_refeed:
  assumes "mapiE f i xs = Inr ys" and "\<And>k x y. f k x = Inr y \<Longrightarrow> g k (h y) = Inr y"
  shows "mapiE g i (map h ys) = Inr ys"
  using assms(1) by (auto simp: mapiE_Inr_iff intro: assms(2))

lemma foldE_append: "foldE f s (xs @ ys) = bindE (foldE f s xs) (\<lambda>s'. foldE f s' ys)"
  by (induction xs arbitrary: s) (simp_all add: bindE_assoc)

lemma foldE_invariant:
  assumes "foldE f s xs = Inr s'" and "P s"
    and "\<And>t x t'. x \<in> set xs \<Longrightarrow> P t \<Longrightarrow> f t x = Inr t' \<Longrightarrow> P t'"
  shows "P s'"
  using assms
proof (induction xs arbitrary: s)
  case Nil
  then show ?case by simp
next
  case (Cons x xs)
  from Cons.prems(1) obtain t where t: "f s x = Inr t" and r: "foldE f t xs = Inr s'"
    by (auto simp: bindE_Inr_iff)
  have "P t" using Cons.prems(2,3) t by (meson list.set_intros(1))
  from Cons.IH [OF r this] Cons.prems(3) show ?case by (meson list.set_intros(2))
qed

subsection \<open>Decimal rendering\<close>

text \<open>\<open>str(n)\<close> for a non-negative integer, as the error details use it.\<close>

fun show_nat :: "nat \<Rightarrow> string" where
  "show_nat n =
     (if n < 10 then [char_of (48 + n)] else show_nat (n div 10) @ [char_of (48 + n mod 10)])"

declare show_nat.simps [simp del]

definition show_int :: "int \<Rightarrow> string" where
  "show_int n = (if n < 0 then ''-'' @ show_nat (nat (- n)) else show_nat (nat n))"

definition indexed :: "string \<Rightarrow> nat \<Rightarrow> string" where
  "indexed field i = field @ ''['' @ show_nat i @ '']''"

fun join :: "string \<Rightarrow> string list \<Rightarrow> string" where
  "join sep [] = []"
| "join sep [x] = x"
| "join sep (x # y # xs) = x @ sep @ join sep (y # xs)"

subsection \<open>Order-preserving removal of duplicates\<close>

text \<open>\<open>list(dict.fromkeys(xs))\<close>: the first occurrence of every element, in order.\<close>

fun dedup_from :: "'a list \<Rightarrow> 'a list \<Rightarrow> 'a list" where
  "dedup_from seen [] = []"
| "dedup_from seen (x # xs) =
     (if x \<in> set seen then dedup_from seen xs else x # dedup_from (x # seen) xs)"

definition fromkeys :: "'a list \<Rightarrow> 'a list" where
  "fromkeys xs = dedup_from [] xs"

lemma set_dedup_from: "set (dedup_from seen xs) = set xs - set seen"
  by (induction xs arbitrary: seen) auto

lemma distinct_dedup_from: "distinct (dedup_from seen xs)"
  by (induction xs arbitrary: seen) (auto simp: set_dedup_from)

lemma set_fromkeys [simp]: "set (fromkeys xs) = set xs"
  by (simp add: fromkeys_def set_dedup_from)

lemma distinct_fromkeys [simp]: "distinct (fromkeys xs)"
  by (simp add: fromkeys_def distinct_dedup_from)

lemma hd_fromkeys: "xs \<noteq> [] \<Longrightarrow> hd (fromkeys xs) = hd xs"
  by (cases xs) (simp_all add: fromkeys_def)

lemma fromkeys_eq_Nil [simp]: "fromkeys xs = [] \<longleftrightarrow> xs = []"
  by (cases xs) (simp_all add: fromkeys_def)

subsection \<open>Stable sorting\<close>

text \<open>
  \<open>sorted(xs, key=...)\<close> and \<open>xs.sort(key=...)\<close> with the order of the keys as a
  function: a stable sort that compares with \<open>lt\<close> only, like the interpreter's.
\<close>

fun py_insert :: "('a \<Rightarrow> 'a \<Rightarrow> bool) \<Rightarrow> 'a \<Rightarrow> 'a list \<Rightarrow> 'a list" where
  "py_insert lt x [] = [x]"
| "py_insert lt x (y # ys) = (if lt y x then y # py_insert lt x ys else x # y # ys)"

fun py_sort :: "('a \<Rightarrow> 'a \<Rightarrow> bool) \<Rightarrow> 'a list \<Rightarrow> 'a list" where
  "py_sort lt [] = []"
| "py_sort lt (x # xs) = py_insert lt x (py_sort lt xs)"

text \<open>\<open>min(xs, key=...)\<close>: the first element no later one is smaller than.\<close>

fun py_min :: "('a \<Rightarrow> 'a \<Rightarrow> bool) \<Rightarrow> 'a \<Rightarrow> 'a list \<Rightarrow> 'a" where
  "py_min lt x [] = x"
| "py_min lt x (y # ys) = py_min lt (if lt y x then y else x) ys"

lemma mset_py_insert [simp]: "mset (py_insert lt x ys) = add_mset x (mset ys)"
  by (induction ys) auto

lemma set_py_insert [simp]: "set (py_insert lt x ys) = insert x (set ys)"
  by (induction ys) auto

lemma mset_py_sort [simp]: "mset (py_sort lt xs) = mset xs"
  by (induction xs) auto

lemma set_py_sort [simp]: "set (py_sort lt xs) = set xs"
  by (rule mset_eq_setD) simp

lemma length_py_sort [simp]: "length (py_sort lt xs) = length xs"
  by (rule mset_eq_length) simp

lemma py_sort_eq_Nil [simp]: "py_sort lt xs = [] \<longleftrightarrow> xs = []"
  using length_py_sort [of lt xs] by (metis length_0_conv)

lemma py_min_mem: "py_min lt x ys \<in> insert x (set ys)"
  by (induction ys arbitrary: x) (auto split: if_splits)

text \<open>The result is sorted when \<open>lt\<close> is the strict part of a total preorder on the elements.\<close>

definition strict_order_on :: "'a set \<Rightarrow> ('a \<Rightarrow> 'a \<Rightarrow> bool) \<Rightarrow> bool" where
  "strict_order_on A lt = ((\<forall>x \<in> A. \<not> lt x x)
     \<and> (\<forall>x \<in> A. \<forall>y \<in> A. \<forall>z \<in> A. lt x y \<longrightarrow> lt y z \<longrightarrow> lt x z)
     \<and> (\<forall>x \<in> A. \<forall>y \<in> A. \<forall>z \<in> A. \<not> lt y x \<longrightarrow> \<not> lt z y \<longrightarrow> \<not> lt z x))"

lemma sorted_py_insert:
  assumes "strict_order_on A lt" and "set ys \<subseteq> A" and "x \<in> A"
    and "sorted_wrt (\<lambda>a b. \<not> lt b a) ys"
  shows "sorted_wrt (\<lambda>a b. \<not> lt b a) (py_insert lt x ys)"
  using assms(2-)
proof (induction ys)
  case Nil
  then show ?case by simp
next
  case (Cons y ys)
  have tr: "\<And>a b c. a \<in> A \<Longrightarrow> b \<in> A \<Longrightarrow> c \<in> A \<Longrightarrow> \<not> lt b a \<Longrightarrow> \<not> lt c b \<Longrightarrow> \<not> lt c a"
    and asym: "\<And>a b. a \<in> A \<Longrightarrow> b \<in> A \<Longrightarrow> lt a b \<Longrightarrow> \<not> lt b a"
    using assms(1) unfolding strict_order_on_def by blast+
  show ?case
  proof (cases "lt y x")
    case True
    from True Cons show ?thesis using asym [of y x] by auto
  next
    case False
    have "\<not> lt z x" if "z \<in> set ys" for z
      using tr [of x y z] False that Cons.prems by auto
    with False Cons.prems show ?thesis by simp
  qed
qed

lemma sorted_py_sort:
  "strict_order_on (set xs) lt \<Longrightarrow> sorted_wrt (\<lambda>a b. \<not> lt b a) (py_sort lt xs)"
proof (induction xs)
  case Nil
  then show ?case by simp
next
  case (Cons x xs)
  have "strict_order_on (set xs) lt"
    using Cons.prems unfolding strict_order_on_def by (meson list.set_intros(2))
  then have "sorted_wrt (\<lambda>a b. \<not> lt b a) (py_sort lt xs)" by (rule Cons.IH)
  then show ?case using sorted_py_insert [OF Cons.prems, of "py_sort lt xs" x] by auto
qed

subsection \<open>Invariants of a step relation\<close>

text \<open>The contract of a step relation and a property that every step preserves; the state machines
  of the development are its instances.\<close>

locale step_invariant =
  fixes step :: "'s \<Rightarrow> 's \<Rightarrow> bool" and inv :: "'s \<Rightarrow> bool"
  assumes preserved: "step s s' \<Longrightarrow> inv s \<Longrightarrow> inv s'"
begin

lemma reached: "step\<^sup>*\<^sup>* s s' \<Longrightarrow> inv s \<Longrightarrow> inv s'"
  by (induction rule: rtranclp_induct) (auto intro: preserved)

end

end
