(* ===== verification/PyFloat.thy ===== *)
theory PyFloat
  imports Complex_Main Prelude
begin

text \<open>
  Python's \<open>float\<close>: IEEE-754 binary64. A value is a rational number, an infinity or a
  NaN; every arithmetic operation is the exact rational operation followed by
  \<open>round64\<close>, rounding to nearest, ties to even, with gradual underflow and overflow to
  an infinity. The two zeros are one value (no function modelled here can tell them
  apart). \<open>math.sqrt\<close> is correctly rounded, as IEEE-754 asks; \<open>math.hypot\<close> and
  \<open>math.dist\<close> are modelled as correctly rounded too. Operations that raise in Python
  (division by zero, \<open>math.floor\<close> of an infinity or NaN, conversion of a huge integer)
  return an exception.
\<close>

subsection \<open>Rounding\<close>

text \<open>The bit length of a positive integer.\<close>

function nbits :: "int \<Rightarrow> int" where
  "nbits n = (if n \<le> 0 then 0 else 1 + nbits (n div 2))"
  by auto

termination by (relation "measure nat") auto

declare nbits.simps [simp del]

definition pow2 :: "int \<Rightarrow> rat" where
  "pow2 e = (2::rat) powi e"

text \<open>The binary exponent of a positive rational: \<open>pow2 (ilog2 x) \<le> x < pow2 (ilog2 x + 1)\<close>.\<close>

definition ilog2 :: "rat \<Rightarrow> int" where
  "ilog2 x = (case quotient_of x of (n, d) \<Rightarrow>
     let e = nbits n - nbits d
     in if pow2 e \<le> x then e else e - 1)"

text \<open>Nearest integer of a non-negative rational, ties to even.\<close>

definition nearest_even :: "rat \<Rightarrow> int" where
  "nearest_even x = (let f = \<lfloor>x\<rfloor>; d = x - of_int f
     in if d < 1/2 then f else if d > 1/2 then f + 1 else if even f then f else f + 1)"

text \<open>The exponent of the last place of a positive rational in binary64.\<close>

definition ulp_exp :: "rat \<Rightarrow> int" where
  "ulp_exp x = max (ilog2 x - 52) (- 1074)"

definition round_pos :: "rat \<Rightarrow> rat" where
  "round_pos x = (if x \<le> 0 then 0
     else of_int (nearest_even (x / pow2 (ulp_exp x))) * pow2 (ulp_exp x))"

datatype pyfloat = Fin rat | PInf | NInf | NaN

fun fneg :: "pyfloat \<Rightarrow> pyfloat" where
  "fneg (Fin a) = Fin (- a)"
| "fneg PInf = NInf"
| "fneg NInf = PInf"
| "fneg NaN = NaN"

definition overflow_pos :: "rat \<Rightarrow> pyfloat" where
  "overflow_pos r = (if pow2 1024 \<le> r then PInf else Fin r)"

definition round64 :: "rat \<Rightarrow> pyfloat" where
  "round64 x = (if x < 0 then fneg (overflow_pos (round_pos (- x))) else overflow_pos (round_pos x))"

text \<open>The value of a decimal float literal of the source (all are well inside the range).\<close>

definition lit :: "rat \<Rightarrow> rat" where
  "lit x = (case round64 x of Fin r \<Rightarrow> r | _ \<Rightarrow> 0)"

subsection \<open>Comparison\<close>

fun is_finite :: "pyfloat \<Rightarrow> bool" where
  "is_finite (Fin _) = True"
| "is_finite _ = False"

fun flt :: "pyfloat \<Rightarrow> pyfloat \<Rightarrow> bool" where
  "flt (Fin a) (Fin b) = (a < b)"
| "flt NaN _ = False"
| "flt _ NaN = False"
| "flt PInf _ = False"
| "flt _ NInf = False"
| "flt _ _ = True"

fun fle :: "pyfloat \<Rightarrow> pyfloat \<Rightarrow> bool" where
  "fle (Fin a) (Fin b) = (a \<le> b)"
| "fle NaN _ = False"
| "fle _ NaN = False"
| "fle NInf _ = True"
| "fle _ PInf = True"
| "fle _ _ = False"

definition feq :: "pyfloat \<Rightarrow> pyfloat \<Rightarrow> bool" where
  "feq x y = (x = y \<and> x \<noteq> NaN)"

text \<open>\<open>min(a, b)\<close> and \<open>max(a, b)\<close> keep their first argument unless the second is strictly better.\<close>

definition fmin :: "pyfloat \<Rightarrow> pyfloat \<Rightarrow> pyfloat" where
  "fmin a b = (if flt b a then b else a)"

definition fmax :: "pyfloat \<Rightarrow> pyfloat \<Rightarrow> pyfloat" where
  "fmax a b = (if flt a b then b else a)"

subsection \<open>Arithmetic\<close>

fun fabs :: "pyfloat \<Rightarrow> pyfloat" where
  "fabs (Fin a) = Fin \<bar>a\<bar>"
| "fabs PInf = PInf"
| "fabs NInf = PInf"
| "fabs NaN = NaN"

fun fadd :: "pyfloat \<Rightarrow> pyfloat \<Rightarrow> pyfloat" where
  "fadd (Fin a) (Fin b) = round64 (a + b)"
| "fadd NaN _ = NaN"
| "fadd _ NaN = NaN"
| "fadd PInf NInf = NaN"
| "fadd NInf PInf = NaN"
| "fadd PInf _ = PInf"
| "fadd _ PInf = PInf"
| "fadd NInf _ = NInf"
| "fadd _ NInf = NInf"

definition fsub :: "pyfloat \<Rightarrow> pyfloat \<Rightarrow> pyfloat" where
  "fsub a b = fadd a (fneg b)"

definition inf_of_sign :: "rat \<Rightarrow> pyfloat" where
  "inf_of_sign a = (if a = 0 then NaN else if 0 < a then PInf else NInf)"

fun fmul :: "pyfloat \<Rightarrow> pyfloat \<Rightarrow> pyfloat" where
  "fmul (Fin a) (Fin b) = round64 (a * b)"
| "fmul NaN _ = NaN"
| "fmul _ NaN = NaN"
| "fmul PInf (Fin b) = inf_of_sign b"
| "fmul NInf (Fin b) = fneg (inf_of_sign b)"
| "fmul (Fin a) PInf = inf_of_sign a"
| "fmul (Fin a) NInf = fneg (inf_of_sign a)"
| "fmul PInf PInf = PInf"
| "fmul NInf NInf = PInf"
| "fmul _ _ = NInf"

text \<open>True division raises \<open>ZeroDivisionError\<close> whenever the divisor is zero.\<close>

fun fdiv :: "pyfloat \<Rightarrow> pyfloat \<Rightarrow> py_exc + pyfloat" where
  "fdiv a (Fin b) =
     (if b = 0 then Inl PyZeroDivisionError
      else Inr (case a of Fin x \<Rightarrow> round64 (x / b)
                | NaN \<Rightarrow> NaN
                | PInf \<Rightarrow> inf_of_sign b
                | NInf \<Rightarrow> fneg (inf_of_sign b)))"
| "fdiv a NaN = Inr NaN"
| "fdiv a _ = Inr (case a of Fin x \<Rightarrow> Fin 0 | _ \<Rightarrow> NaN)"

text \<open>\<open>float(n)\<close> of an integer raises \<open>OverflowError\<close> when the rounded value is too large.\<close>

definition float_of_int :: "int \<Rightarrow> py_exc + pyfloat" where
  "float_of_int n = (case round64 (of_int n) of Fin r \<Rightarrow> Inr (Fin r) | _ \<Rightarrow> Inl PyOverflowError)"

text \<open>\<open>math.floor\<close>, \<open>math.ceil\<close>, \<open>int\<close> and \<open>round\<close> of a float.\<close>

definition float_to_intE :: "(rat \<Rightarrow> int) \<Rightarrow> pyfloat \<Rightarrow> py_exc + int" where
  "float_to_intE f x = (case x of Fin a \<Rightarrow> Inr (f a) | NaN \<Rightarrow> Inl PyValueError | _ \<Rightarrow> Inl PyOverflowError)"

definition ffloor :: "pyfloat \<Rightarrow> py_exc + int" where
  "ffloor = float_to_intE floor"

definition fceil :: "pyfloat \<Rightarrow> py_exc + int" where
  "fceil = float_to_intE ceiling"

definition ftrunc :: "pyfloat \<Rightarrow> py_exc + int" where
  "ftrunc = float_to_intE (\<lambda>a. if a < 0 then - \<lfloor>- a\<rfloor> else \<lfloor>a\<rfloor>)"

definition fround :: "pyfloat \<Rightarrow> py_exc + int" where
  "fround = float_to_intE (\<lambda>a. if a < 0 then - nearest_even (- a) else nearest_even a)"

subsection \<open>Square root and Euclidean length\<close>

text \<open>Integer square root by bisection on the bits below \<open>k\<close>.\<close>

fun isqrt_bits :: "nat \<Rightarrow> int \<Rightarrow> int \<Rightarrow> int" where
  "isqrt_bits 0 acc n = acc"
| "isqrt_bits (Suc k) acc n =
     (let c = acc + 2 ^ k in isqrt_bits k (if c * c \<le> n then c else acc) n)"

definition isqrt :: "int \<Rightarrow> int" where
  "isqrt n = isqrt_bits (nat (nbits n)) 0 n"

text \<open>
  The correctly rounded square root of a positive rational \<open>x\<close>: with \<open>q\<close> the unit in the
  last place of the root, \<open>m\<close> is the integer part of \<open>sqrt x / q\<close> and the comparison of
  \<open>x / q^2\<close> with \<open>(m + 1/2)^2\<close> decides the rounding.
\<close>

definition sqrt_exp :: "rat \<Rightarrow> int" where
  "sqrt_exp x = max ((ilog2 x) div 2 - 52) (- 1074)"

definition sqrt_pos :: "rat \<Rightarrow> rat" where
  "sqrt_pos x = (if x \<le> 0 then 0 else
     let q = pow2 (sqrt_exp x); y = x / (q * q); m = isqrt \<lfloor>y\<rfloor>;
         h = of_int m + 1/2;
         k = (if y < h * h then m else if h * h < y then m + 1
              else if even m then m else m + 1)
     in of_int k * q)"

fun fsqrt :: "pyfloat \<Rightarrow> py_exc + pyfloat" where
  "fsqrt (Fin a) = (if a < 0 then Inl PyValueError else Inr (overflow_pos (sqrt_pos a)))"
| "fsqrt PInf = Inr PInf"
| "fsqrt NInf = Inl PyValueError"
| "fsqrt NaN = Inr NaN"

fun all_fin :: "pyfloat list \<Rightarrow> rat list option" where
  "all_fin [] = Some []"
| "all_fin (Fin a # xs) = map_option ((#) a) (all_fin xs)"
| "all_fin (_ # xs) = None"

text \<open>\<open>math.hypot(*xs)\<close>: an infinite coordinate dominates, even a NaN.\<close>

definition fhypot :: "pyfloat list \<Rightarrow> pyfloat" where
  "fhypot xs = (case all_fin xs of
       Some rs \<Rightarrow> overflow_pos (sqrt_pos (sum_list (map (\<lambda>a. a * a) rs)))
     | None \<Rightarrow> if PInf \<in> set xs \<or> NInf \<in> set xs then PInf else NaN)"

definition fdist :: "pyfloat list \<Rightarrow> pyfloat list \<Rightarrow> py_exc + pyfloat" where
  "fdist xs ys = (if length xs \<noteq> length ys then Inl PyValueError
     else Inr (fhypot (map (\<lambda>(x, y). fsub x y) (zip xs ys))))"

text \<open>
  \<open>sum(xs)\<close> of floats, as Python 3.12 computes it: the running sum \<open>s\<close> together with
  Neumaier's compensation \<open>c\<close>, which is added at the end when it is finite and not zero.
\<close>

fun neumaier :: "pyfloat \<Rightarrow> pyfloat \<Rightarrow> pyfloat list \<Rightarrow> pyfloat" where
  "neumaier s c [] = (if c \<noteq> Fin 0 \<and> is_finite c then fadd s c else s)"
| "neumaier s c (x # xs) =
     (let t = fadd s x;
          d = (if fle (fabs x) (fabs s) then fadd (fsub s t) x else fadd (fsub x t) s)
      in neumaier t (fadd c d) xs)"

definition fsum :: "pyfloat list \<Rightarrow> pyfloat" where
  "fsum xs = (case xs of [] \<Rightarrow> Fin 0 | x # ys \<Rightarrow> neumaier x (Fin 0) ys)"

text \<open>\<open>x ** 2\<close> raises \<open>OverflowError\<close> where the square of a finite number is too large.\<close>

definition fsquare :: "pyfloat \<Rightarrow> py_exc + pyfloat" where
  "fsquare x = (case x of
       Fin a \<Rightarrow> (case round64 (a * a) of Fin r \<Rightarrow> Inr (Fin r) | _ \<Rightarrow> Inl PyOverflowError)
     | NaN \<Rightarrow> Inr NaN
     | _ \<Rightarrow> Inr PInf)"

text \<open>An integer operand of a float operation (all are far below the overflow limit).\<close>

definition fint :: "int \<Rightarrow> pyfloat" where
  "fint n = round64 (of_int n)"

text \<open>\<open>min(xs)\<close> and \<open>max(xs)\<close> of a sequence keep the first best element; empty raises.\<close>

fun fmin_list :: "pyfloat list \<Rightarrow> py_exc + pyfloat" where
  "fmin_list [] = Inl PyValueError"
| "fmin_list (x # xs) = Inr (foldl fmin x xs)"

fun fmax_list :: "pyfloat list \<Rightarrow> py_exc + pyfloat" where
  "fmax_list [] = Inl PyValueError"
| "fmax_list (x # xs) = Inr (foldl fmax x xs)"

subsection \<open>Rounding is monotone and exact on integers up to \<open>2 ^ 53\<close>\<close>

lemma pow2_pos [simp]: "0 < pow2 e"
  by (simp add: pow2_def)

lemma pow2_nonzero [simp]: "pow2 e \<noteq> 0"
  by (simp add: pow2_def)

lemma pow2_0 [simp]: "pow2 0 = 1"
  by (simp add: pow2_def)

lemma pow2_add: "pow2 (a + b) = pow2 a * pow2 b"
  by (simp add: pow2_def power_int_add)

lemma pow2_diff: "pow2 (a - b) = pow2 a / pow2 b"
  by (simp add: pow2_def power_int_diff)

lemma pow2_le_iff [simp]: "pow2 a \<le> pow2 b \<longleftrightarrow> a \<le> b"
  unfolding pow2_def
  by (metis leI order_less_imp_not_less power_int_increasing power_int_strict_increasing
      one_le_numeral one_less_numeral_iff linorder_not_less semiring_norm(76))

lemma pow2_less_iff [simp]: "pow2 a < pow2 b \<longleftrightarrow> a < b"
  by (simp flip: not_le)

lemma pow2_int: "0 \<le> e \<Longrightarrow> pow2 e = of_int (2 ^ nat e)"
  by (simp add: pow2_def power_int_nonneg_exp)

lemma nbits_nonneg: "0 \<le> nbits n"
proof (induction n rule: nbits.induct)
  case (1 n)
  then show ?case by (subst nbits.simps) simp
qed

lemma nbits_bounds: "0 < n \<Longrightarrow> 2 ^ nat (nbits n) \<le> 2 * n \<and> n < 2 ^ nat (nbits n)"
proof (induction n rule: nbits.induct)
  case (1 n)
  show ?case
  proof (cases "n = 1")
    case True
    then show ?thesis by (simp add: nbits.simps)
  next
    case False
    with 1 have h: "2 ^ nat (nbits (n div 2)) \<le> 2 * (n div 2) \<and> n div 2 < 2 ^ nat (nbits (n div 2))"
      by simp
    have "nat (nbits n) = Suc (nat (nbits (n div 2)))"
      using 1(2) nbits_nonneg [of "n div 2"] by (subst nbits.simps) simp
    then have "2 ^ nat (nbits n) = 2 * (2 ^ nat (nbits (n div 2)) :: int)" by simp
    with h show ?thesis by linarith
  qed
qed

lemma nbits_bounds_rat:
  assumes "0 < n"
  shows "(2::rat) ^ nat (nbits n) \<le> 2 * of_int n" and "of_int n < (2::rat) ^ nat (nbits n)"
proof -
  have "of_int (2 ^ nat (nbits n)) \<le> (of_int (2 * n) :: rat)"
    using nbits_bounds [OF assms] by (simp only: of_int_le_iff)
  then show "(2::rat) ^ nat (nbits n) \<le> 2 * of_int n" by simp
  have "of_int n < (of_int (2 ^ nat (nbits n)) :: rat)"
    using nbits_bounds [OF assms] by (simp only: of_int_less_iff)
  then show "of_int n < (2::rat) ^ nat (nbits n)" by simp
qed

text \<open>The bit lengths bound a quotient within a factor of two on either side.\<close>

lemma quotient_log:
  assumes n: "0 < n" and d: "0 < d"
  shows "pow2 (nbits n - nbits d - 1) \<le> of_int n / of_int d" and "of_int n / of_int d < pow2 (nbits n - nbits d + 1)"
proof -
  define a b where "a = nat (nbits n)" and "b = nat (nbits d)"
  have A: "(2::rat) ^ a \<le> 2 * of_int n" "of_int n < (2::rat) ^ a"
    using nbits_bounds_rat [OF n] by (simp_all add: a_def)
  have B: "(2::rat) ^ b \<le> 2 * of_int d" "of_int d < (2::rat) ^ b"
    using nbits_bounds_rat [OF d] by (simp_all add: b_def)
  have dd: "(0::rat) < of_int d" using d by simp
  have ab: "nbits n - nbits d = int a - int b" by (simp add: a_def b_def nbits_nonneg)
  have pe: "pow2 (int a - int b) = 2 ^ a / 2 ^ b" by (simp add: pow2_diff) (simp add: pow2_def)
  have "of_int n * 2 ^ b < (2 ^ a * 2 ^ b :: rat)" using A(2) by simp
  also have "\<dots> \<le> 2 ^ a * (2 * of_int d)" using B(1) by (intro mult_left_mono) simp_all
  finally have "of_int n / of_int d < (2 * (2 ^ a / 2 ^ b) :: rat)" using dd by (simp add: field_simps)
  then show "of_int n / of_int d < pow2 (nbits n - nbits d + 1)"
    by (simp add: ab pow2_add pe) (simp add: pow2_def mult.commute)
  have "2 ^ a * of_int d \<le> (2 * of_int n) * (2 ^ b :: rat)"
    using A(1) B(2) n dd by (intro mult_mono) auto
  then have "(2 ^ a / 2 ^ b) / 2 \<le> (of_int n / of_int d :: rat)" using dd by (simp add: field_simps)
  then show "pow2 (nbits n - nbits d - 1) \<le> of_int n / of_int d"
    by (simp add: ab pow2_diff pe) (simp add: pow2_def)
qed

lemma ilog2_bounds:
  assumes "0 < x"
  shows "pow2 (ilog2 x) \<le> x" and "x < pow2 (ilog2 x + 1)"
proof -
  obtain n d where q: "quotient_of x = (n, d)" by (cases "quotient_of x")
  have d: "0 < d" using quotient_of_denom_pos [OF q] .
  have x: "x = of_int n / of_int d" using quotient_of_div [OF q] .
  have n: "0 < n" using assms x d by (simp add: zero_less_divide_iff)
  have il: "ilog2 x = (if pow2 (nbits n - nbits d) \<le> x then nbits n - nbits d else nbits n - nbits d - 1)"
    by (simp add: ilog2_def q Let_def)
  show "pow2 (ilog2 x) \<le> x" "x < pow2 (ilog2 x + 1)"
    using quotient_log [OF n d] by (simp_all add: il flip: x)
qed

lemma ilog2_mono: "0 < x \<Longrightarrow> x \<le> y \<Longrightarrow> ilog2 x \<le> ilog2 y"
proof -
  assume x: "0 < x" and xy: "x \<le> y"
  have "pow2 (ilog2 x) < pow2 (ilog2 y + 1)"
    using ilog2_bounds [OF x] ilog2_bounds [of y] x xy by linarith
  then show ?thesis by simp
qed

lemma nearest_even_of_int [simp]: "nearest_even (of_int k) = k"
  by (simp add: nearest_even_def)

lemma nearest_even_mono: "x \<le> y \<Longrightarrow> nearest_even x \<le> nearest_even y"
proof -
  assume xy: "x \<le> y"
  have f: "\<lfloor>x\<rfloor> \<le> \<lfloor>y\<rfloor>" using xy by (rule floor_mono)
  show ?thesis
  proof (cases "\<lfloor>x\<rfloor> = \<lfloor>y\<rfloor>")
    case True
    then show ?thesis using xy by (auto simp: nearest_even_def Let_def)
  next
    case False
    with f have "\<lfloor>x\<rfloor> + 1 \<le> \<lfloor>y\<rfloor>" by simp
    then show ?thesis by (auto simp: nearest_even_def Let_def)
  qed
qed

lemma nearest_even_nonneg: "0 \<le> x \<Longrightarrow> 0 \<le> nearest_even x"
  using nearest_even_mono [of 0 x] nearest_even_of_int [of 0] by simp

text \<open>A value that is a multiple of its last place is not changed by rounding.\<close>

lemma round_pos_exact:
  assumes "0 < x" and "x = of_int m * pow2 (ulp_exp x)"
  shows "round_pos x = x"
proof -
  have "x / pow2 (ulp_exp x) = of_int m" using assms(2) by (simp add: field_simps)
  then show ?thesis using assms by (simp add: round_pos_def)
qed

lemma round_pos_nonneg: "0 \<le> round_pos x"
  by (auto simp: round_pos_def less_imp_le intro!: mult_nonneg_nonneg nearest_even_nonneg divide_nonneg_nonneg)

lemma round_pos_mono:
  assumes "x \<le> y"
  shows "round_pos x \<le> round_pos y"
proof (cases "0 < x")
  case False
  then show ?thesis using round_pos_nonneg [of y] by (simp add: round_pos_def)
next
  case True
  with assms have y: "0 < y" by simp
  let ?ex = "ulp_exp x" and ?ey = "ulp_exp y"
  have il: "ilog2 x \<le> ilog2 y" using True assms by (rule ilog2_mono)
  have rx: "round_pos x = of_int (nearest_even (x / pow2 ?ex)) * pow2 ?ex"
    and ry: "round_pos y = of_int (nearest_even (y / pow2 ?ey)) * pow2 ?ey"
    using True y by (simp_all add: round_pos_def)
  show ?thesis
  proof (cases "?ex = ?ey")
    case True
    have "nearest_even (x / pow2 ?ey) \<le> nearest_even (y / pow2 ?ey)"
      by (intro nearest_even_mono divide_right_mono assms) (simp add: less_imp_le)
    then show ?thesis using rx ry True by (simp add: mult_right_mono less_imp_le)
  next
    case False
    with il have l: "?ex < ?ey" and ey: "?ey = ilog2 y - 52" and ll: "ilog2 x < ilog2 y"
      by (auto simp: ulp_exp_def split: if_splits)
    have "of_int (nearest_even (x / pow2 ?ex)) \<le> pow2 (ilog2 y - ?ex)"
    proof -
      have "x \<le> pow2 (ilog2 y)"
        using ilog2_bounds(2) [OF \<open>0 < x\<close>] ll
        by (meson order.trans less_imp_le pow2_le_iff zless_imp_add1_zle)
      then have "x / pow2 ?ex \<le> pow2 (ilog2 y - ?ex)"
        by (simp add: pow2_diff divide_right_mono less_imp_le)
      then have "nearest_even (x / pow2 ?ex) \<le> nearest_even (of_int (2 ^ nat (ilog2 y - ?ex)))"
        using l ey by (intro nearest_even_mono) (simp add: pow2_int)
      then show ?thesis using l ey by (simp add: pow2_int del: of_int_power)
    qed
    then have "round_pos x \<le> pow2 (ilog2 y)"
      unfolding rx by (simp add: pow2_diff field_simps)
    moreover have "pow2 (ilog2 y) \<le> round_pos y"
    proof -
      have "pow2 52 \<le> y / pow2 ?ey"
        using ilog2_bounds(1) [OF y] by (simp add: ey pow2_diff field_simps)
      then have "nearest_even (of_int (2 ^ 52)) \<le> nearest_even (y / pow2 ?ey)"
        by (intro nearest_even_mono) (simp add: pow2_int)
      then have "pow2 52 \<le> of_int (nearest_even (y / pow2 ?ey))"
        by (simp only: nearest_even_of_int) (simp add: pow2_int)
      then have "pow2 52 * pow2 ?ey \<le> round_pos y"
        unfolding ry by (intro mult_right_mono) (simp_all add: less_imp_le)
      then show ?thesis by (simp add: ey flip: pow2_add)
    qed
    ultimately show ?thesis by simp
  qed
qed


lemma round_pos_of_int:
  assumes "0 \<le> n" and "n \<le> 2 ^ 53"
  shows "round_pos (of_int n) = of_int n"
proof (cases "n = 0")
  case True
  then show ?thesis by (simp add: round_pos_def)
next
  case False
  with assms(1) have n: "1 \<le> n" by simp
  let ?x = "of_int n :: rat"
  have x: "0 < ?x" using n by simp
  have "pow2 0 \<le> ?x" using n by simp
  then have "pow2 0 < pow2 (ilog2 ?x + 1)" using ilog2_bounds(2) [OF x] by linarith
  then have "0 < ilog2 ?x + 1" by (simp only: pow2_less_iff)
  then have l0: "0 \<le> ilog2 ?x" by simp
  have top: "?x \<le> pow2 53" using assms(2) by (simp add: pow2_int flip: of_int_le_iff)
  then have "pow2 (ilog2 ?x) \<le> pow2 53" using ilog2_bounds(1) [OF x] by linarith
  then have l53: "ilog2 ?x \<le> 53" by simp
  show ?thesis
  proof (cases "ilog2 ?x = 53")
    case True
    then have "?x = pow2 53" using ilog2_bounds(1) [OF x] top by simp
    then have "?x = of_int (2 ^ 52) * pow2 (ulp_exp ?x)"
      using True by (simp add: ulp_exp_def) (simp add: pow2_def)
    then show ?thesis by (rule round_pos_exact [OF x])
  next
    case False
    then have u: "ulp_exp ?x \<le> 0" "ulp_exp ?x = ilog2 ?x - 52" using l53 l0 by (simp_all add: ulp_exp_def)
    have "?x = ?x * pow2 (- ulp_exp ?x) * pow2 (ulp_exp ?x)"
      by (simp flip: pow2_add add: mult.assoc)
    also have "?x * pow2 (- ulp_exp ?x) = of_int (n * 2 ^ nat (- ulp_exp ?x))"
      using u by (simp add: pow2_int)
    finally show ?thesis by (rule round_pos_exact [OF x])
  qed
qed

lemma pow2_1024_large: "(n::int) \<le> 2 ^ 53 \<Longrightarrow> of_int n < pow2 1024"
proof -
  assume "n \<le> 2 ^ 53"
  then have "of_int n \<le> pow2 53" by (simp add: pow2_int flip: of_int_le_iff)
  also have "\<dots> < pow2 1024" by simp
  finally show ?thesis .
qed

lemma round64_of_int:
  assumes "\<bar>n\<bar> \<le> 2 ^ 53"
  shows "round64 (of_int n) = Fin (of_int n)"
proof (cases "n < 0")
  case True
  then have "round_pos (of_int (- n)) = of_int (- n)" using assms by (intro round_pos_of_int) simp_all
  moreover have "of_int (- n) < pow2 1024" using assms True by (intro pow2_1024_large) simp
  ultimately show ?thesis using True by (simp add: round64_def overflow_pos_def)
next
  case False
  then have "round_pos (of_int n) = of_int n" using assms by (intro round_pos_of_int) simp_all
  moreover have "of_int n < pow2 1024" using assms False by (intro pow2_1024_large) simp
  ultimately show ?thesis using False by (simp add: round64_def overflow_pos_def)
qed

lemma round64_numeral [simp]: "(numeral k :: int) \<le> 2 ^ 53 \<Longrightarrow> round64 (numeral k) = Fin (numeral k)"
  using round64_of_int [of "numeral k"] by simp

lemma round64_neg_numeral [simp]: "(numeral k :: int) \<le> 2 ^ 53 \<Longrightarrow> round64 (- numeral k) = Fin (- numeral k)"
  using round64_of_int [of "- numeral k"] by simp

lemma float_of_int_small [simp]: "\<bar>n\<bar> \<le> 2 ^ 53 \<Longrightarrow> float_of_int n = Inr (Fin (of_int n))"
  by (simp add: float_of_int_def round64_of_int)

lemma pow2_code [code]:
  "pow2 e = (if 0 \<le> e then of_int (2 ^ nat e) else inverse (of_int (2 ^ nat (- e))))"
  by (simp add: pow2_def power_int_def power_inverse power_one_over inverse_eq_divide)

text \<open>Evaluation avoids the 1024-bit comparison for ordinary magnitudes.\<close>

lemma overflow_pos_code [code]:
  "overflow_pos r = (if r < 9007199254740992 then Fin r else if pow2 1024 \<le> r then PInf else Fin r)"
  using pow2_1024_large [of "2 ^ 53"] by (simp add: overflow_pos_def)

lemma round64_0 [simp]: "round64 0 = Fin 0"
  using round64_of_int [of 0] by simp

lemma round64_1 [simp]: "round64 1 = Fin 1"
  using round64_of_int [of 1] by simp

lemma overflow_pos_mono: "a \<le> b \<Longrightarrow> fle (overflow_pos a) (overflow_pos b)"
  by (simp add: overflow_pos_def)

lemma fle_refl [simp]: "x \<noteq> NaN \<Longrightarrow> fle x x"
  by (cases x) simp_all

lemma fle_trans: "fle x y \<Longrightarrow> fle y z \<Longrightarrow> fle x z"
  by (cases x; cases y; cases z) simp_all

lemma flt_fle_trans: "flt x y \<Longrightarrow> fle y z \<Longrightarrow> flt x z"
  by (cases x; cases y; cases z) simp_all

lemma fle_flt_trans: "fle x y \<Longrightarrow> flt y z \<Longrightarrow> flt x z"
  by (cases x; cases y; cases z) simp_all

lemma fneg_mono: "fle x y \<Longrightarrow> fle (fneg y) (fneg x)"
  by (cases x; cases y) simp_all

lemma fle_0_overflow_pos: "0 \<le> r \<Longrightarrow> fle (Fin 0) (overflow_pos r)"
  by (simp add: overflow_pos_def)

lemma round64_mono: "x \<le> y \<Longrightarrow> fle (round64 x) (round64 y)"
proof -
  assume xy: "x \<le> y"
  consider "0 \<le> x" | "x < 0" "y < 0" | "x < 0" "0 \<le> y" by linarith
  then show ?thesis
  proof cases
    case 1
    then show ?thesis using xy by (simp add: round64_def overflow_pos_mono round_pos_mono)
  next
    case 2
    then show ?thesis using xy
      by (simp add: round64_def overflow_pos_mono round_pos_mono fneg_mono)
  next
    case 3
    have "fle (fneg (overflow_pos (round_pos (- x)))) (fneg (Fin 0))"
      by (intro fneg_mono fle_0_overflow_pos round_pos_nonneg)
    moreover have "fle (Fin 0) (overflow_pos (round_pos y))"
      by (intro fle_0_overflow_pos round_pos_nonneg)
    ultimately show ?thesis using 3 by (auto simp: round64_def intro: fle_trans)
  qed
qed

lemma round64_not_NaN [simp]: "round64 x \<noteq> NaN"
  by (simp add: round64_def overflow_pos_def)

text \<open>Adding at least one to a cost below \<open>2 ^ 53\<close> gives a strictly larger float.\<close>

lemma fadd_strict_increase:
  assumes "0 \<le> a" and "a + 1 \<le> of_int n" and "n \<le> 2 ^ 53" and "1 \<le> s"
  shows "flt (Fin a) (fadd (Fin a) (Fin s))"
proof -
  let ?k = "\<lfloor>a\<rfloor> + 1"
  have k: "a < of_int ?k" "of_int ?k \<le> a + s" using assms(4) by linarith+
  have "of_int \<lfloor>a\<rfloor> + 1 \<le> (of_int n :: rat)" using assms(2) by linarith
  then have "?k \<le> n" by linarith
  moreover have "0 \<le> \<lfloor>a\<rfloor>" using assms(1) by simp
  ultimately have kb: "\<bar>?k\<bar> \<le> 2 ^ 53" using assms(3) by linarith
  have "fle (round64 (of_int ?k)) (round64 (a + s))" using k(2) by (rule round64_mono)
  then have "fle (Fin (of_int ?k)) (fadd (Fin a) (Fin s))" using round64_of_int [OF kb] by simp
  moreover have "flt (Fin a) (Fin (of_int ?k))" using k(1) by simp
  ultimately show ?thesis by (rule flt_fle_trans [rotated])
qed

lemma fadd_upper:
  assumes "a + s \<le> of_int n" and "0 \<le> a + s" and "n \<le> 2 ^ 53"
  shows "fle (fadd (Fin a) (Fin s)) (Fin (of_int n))"
proof -
  have "(0::rat) \<le> of_int n" using assms by linarith
  then have "\<bar>n\<bar> \<le> 2 ^ 53" using assms(3) by simp
  moreover have "fle (round64 (a + s)) (round64 (of_int n))" using assms(1) by (rule round64_mono)
  ultimately show ?thesis using round64_of_int [of n] by simp
qed

lemma fadd_finite_between:
  assumes "fle (Fin 0) x" and "fle x (Fin b)"
  shows "\<exists>r. x = Fin r \<and> 0 \<le> r \<and> r \<le> b"
  using assms by (cases x) simp_all

text \<open>An integer of at least \<open>2 ^ 1024\<close> is not a float.\<close>

lemma round_pos_pow2: "- 1022 \<le> e \<Longrightarrow> round_pos (pow2 e) = pow2 e"
proof (rule round_pos_exact)
  assume e: "- 1022 \<le> e"
  have p: "0 < pow2 e" by simp
  have "ilog2 (pow2 e) = e"
    using ilog2_bounds [OF p] by (simp only: pow2_le_iff pow2_less_iff)
  then have "ulp_exp (pow2 e) = e - 52" using e by (simp add: ulp_exp_def)
  then have "pow2 e = of_int (2 ^ 52) * pow2 (ulp_exp (pow2 e))" by (simp add: pow2_diff) (simp add: pow2_def)
  then show "pow2 e = of_int (2 ^ 52) * pow2 (ulp_exp (pow2 e))" .
qed simp

lemma float_of_int_huge:
  assumes "2 ^ 1024 \<le> n"
  shows "float_of_int n = Inl PyOverflowError"
proof -
  have "pow2 1024 = of_int (2 ^ 1024)" by (simp only: pow2_int) simp
  then have "pow2 1024 \<le> of_int n" using assms by (simp only: of_int_le_iff)
  then have "pow2 1024 \<le> round_pos (of_int n)" using round_pos_mono [of "pow2 1024" "of_int n"] round_pos_pow2 [of 1024] by simp
  moreover have "0 \<le> n" using assms by (rule order_trans [rotated]) simp
  ultimately show ?thesis by (simp add: float_of_int_def round64_def overflow_pos_def)
qed

lemma flt_irrefl: "\<not> flt x x"
  by (cases x) simp_all

end
