(* ===== verification/FloatEval.thy ===== *)
theory FloatEval
  imports PyFloat
begin

text \<open>
  Evaluation of the float model: code equations that round a quotient of two integers with
  shifts and one integer division, instead of with normalised rationals. Each is proved equal
  to the definition of \<open>PyFloat\<close> it evaluates.
\<close>

subsection \<open>Bits\<close>

lemma nbits_code [code]:
  "nbits 0 = 0" "nbits (Int.Neg k) = 0" "nbits (Int.Pos num.One) = 1"
  "nbits (Int.Pos (num.Bit0 k)) = 1 + nbits (Int.Pos k)" "nbits (Int.Pos (num.Bit1 k)) = 1 + nbits (Int.Pos k)"
proof -
  show "nbits (Int.Pos (num.Bit0 k)) = 1 + nbits (Int.Pos k)"
    by (subst nbits.simps) (simp add: Int.Pos_def)
  show "nbits (Int.Pos (num.Bit1 k)) = 1 + nbits (Int.Pos k)"
    by (subst nbits.simps) (simp add: Int.Pos_def)
qed (simp_all add: nbits.simps Int.Pos_def Int.Neg_def)

definition shl :: "int \<Rightarrow> int \<Rightarrow> int" where
  "shl n k = n * 2 ^ nat k"

lemma shl_code [code]:
  "shl n k = (if k \<le> 0 then n else if 16 \<le> k then shl (65536 * n) (k - 16) else shl (2 * n) (k - 1))"
proof -
  have "(2::int) ^ nat k = 65536 * 2 ^ nat (k - 16)" if "16 \<le> k"
  proof -
    have "nat k = 16 + nat (k - 16)" using that by simp
    then show ?thesis by (simp only: power_add) simp
  qed
  moreover have "(2::int) ^ nat k = 2 * 2 ^ nat (k - 1)" if "0 < k"
  proof -
    have "nat k = Suc (nat (k - 1))" using that by simp
    then show ?thesis by (simp only: power_Suc)
  qed
  ultimately show ?thesis by (simp add: shl_def)
qed

text \<open>A dyadic fraction in lowest terms.\<close>

function strip :: "int \<Rightarrow> int \<Rightarrow> int \<times> int" where
  "strip m k = (if k \<le> 0 \<or> odd m then (m, k) else strip (m div 2) (k - 1))"
  by auto

termination by (relation "measure (\<lambda>(m, k). nat k)") auto

declare strip.simps [simp del]

lemma strip_zero: "0 \<le> k \<Longrightarrow> strip 0 k = (0, 0)"
proof (induction "0::int" k rule: strip.induct)
  case (1 k)
  then show ?case by (subst strip.simps) auto
qed

lemma strip_code [code]:
  "strip 0 k = (0, if k \<le> 0 then k else 0)"
  "strip (Int.Pos num.One) k = (1, k)"
  "strip (Int.Pos (num.Bit1 n)) k = (Int.Pos (num.Bit1 n), k)"
  "strip (Int.Pos (num.Bit0 n)) k = (if k \<le> 0 then (Int.Pos (num.Bit0 n), k) else strip (Int.Pos n) (k - 1))"
  "strip (Int.Neg num.One) k = (- 1, k)"
  "strip (Int.Neg (num.Bit1 n)) k = (Int.Neg (num.Bit1 n), k)"
  "strip (Int.Neg (num.Bit0 n)) k = (if k \<le> 0 then (Int.Neg (num.Bit0 n), k) else strip (Int.Neg n) (k - 1))"
proof -
  show "strip 0 k = (0, if k \<le> 0 then k else 0)"
  proof (cases "k \<le> 0")
    case True
    then show ?thesis by (simp add: strip.simps)
  qed (simp add: strip_zero)
qed (use strip.simps [of "Int.Pos num.One" k] strip.simps [of "Int.Pos (num.Bit1 n)" k]
    strip.simps [of "Int.Pos (num.Bit0 n)" k] strip.simps [of "Int.Neg num.One" k] strip.simps [of "Int.Neg (num.Bit1 n)" k]
    strip.simps [of "Int.Neg (num.Bit0 n)" k]
  in \<open>simp_all add: Int.Pos_def Int.Neg_def\<close>)

definition dyadic :: "int \<Rightarrow> int \<Rightarrow> rat" where
  "dyadic m k = of_int m / of_int (2 ^ nat k)"

lemma strip_dyadic: "strip m k = (m', k') \<Longrightarrow> dyadic m' k' = dyadic m k \<and> coprime m' (2 ^ nat k')"
proof (induction m k rule: strip.induct)
  case (1 m k)
  show ?case
  proof (cases "k \<le> 0 \<or> odd m")
    case True
    then have "m' = m" "k' = k" using "1.prems" by (simp_all add: strip.simps)
    then show ?thesis using True by auto
  next
    case False
    then have "strip (m div 2) (k - 1) = (m', k')" using "1.prems" by (subst (asm) strip.simps) simp
    then have ih: "dyadic m' k' = dyadic (m div 2) (k - 1) \<and> coprime m' (2 ^ nat k')" using "1.IH" False by blast
    have "even m" using False by simp
    then obtain j where j: "m = 2 * j" by (rule evenE)
    have "nat k = Suc (nat (k - 1))" using False by linarith
    then have "dyadic m k = dyadic (m div 2) (k - 1)" by (simp add: dyadic_def j)
    then show ?thesis using ih by simp
  qed
qed

lemma dyadic_code [code abstract]:
  "quotient_of (dyadic m k) = (case strip m k of (m', k') \<Rightarrow> (m', shl 1 k'))"
proof -
  obtain m' k' where s: "strip m k = (m', k')" by fastforce
  have d: "dyadic m k = Fract m' (2 ^ nat k')" "coprime m' (2 ^ nat k')"
    using strip_dyadic [OF s] by (simp_all add: dyadic_def Fract_of_int_quotient)
  have "Rat.normalize (m', 2 ^ nat k') = (m', 2 ^ nat k')" by (rule normalize_stable [OF _ d(2)]) simp
  then show ?thesis by (simp only: d(1) quotient_of_Fract s shl_def prod.case mult_1)
qed

subsection \<open>Rounding a quotient\<close>

definition ilogq :: "int \<Rightarrow> int \<Rightarrow> int" where
  "ilogq n d = (let e = nbits n - nbits d in
     if (if 0 \<le> e then shl d e \<le> n else d \<le> shl n (- e)) then e else e - 1)"

definition nearest_div :: "int \<Rightarrow> int \<Rightarrow> int" where
  "nearest_div a b = (let q = a div b; r = 2 * (a - q * b)
     in if r < b then q else if b < r then q + 1 else if even q then q else q + 1)"

lemma nearest_div: "0 < b \<Longrightarrow> nearest_even (of_int a / of_int b) = nearest_div a b"
proof -
  assume b: "0 < b"
  have f: "\<lfloor>of_int a / of_int b :: rat\<rfloor> = a div b" by (rule floor_divide_of_int_eq)
  have m: "a - a div b * b = a mod b" by (simp add: minus_div_mult_eq_mod)
  have e: "of_int a = of_int (a div b) * of_int b + (of_int (a mod b) :: rat)"
    unfolding of_int_mult [symmetric] of_int_add [symmetric] by simp
  have d: "of_int a / of_int b - of_int (a div b) = (of_int (a mod b) / of_int b :: rat)"
    using b by (simp add: e field_simps)
  have c: "(of_int (a mod b) / of_int b < (1/2 :: rat)) = (2 * (a mod b) < b)"
    "((1/2 :: rat) < of_int (a mod b) / of_int b) = (b < 2 * (a mod b))"
    using b by (simp_all add: field_simps) (metis of_int_less_iff of_int_mult of_int_numeral mult.commute)+
  show ?thesis by (simp only: nearest_even_def nearest_div_def Let_def f d c m)
qed

lemma pow2_neg: "0 \<le> e \<Longrightarrow> pow2 (- e) = 1 / of_int (2 ^ nat e)"
  using pow2_diff [of 0 e] by (simp add: pow2_int)

lemma inverse_le_quotient: "0 < p \<Longrightarrow> 0 < d \<Longrightarrow> (1 / p \<le> n / d) = (d \<le> n * (p::rat))"
  by (simp add: field_simps)

lemma of_int_shl: "of_int (shl n k) = (of_int n * of_int (2 ^ nat k) :: rat)"
  by (simp add: shl_def)

lemma ilogq: "0 < n \<Longrightarrow> 0 < d \<Longrightarrow> ilog2 (of_int n / of_int d) = ilogq n d"
proof -
  assume n: "0 < n" and d: "0 < d"
  let ?x = "of_int n / of_int d :: rat" and ?e = "nbits n - nbits d"
  have x: "0 < ?x" using n d by simp
  have dd: "(0::rat) < of_int d" using d by simp
  have c: "(if 0 \<le> ?e then shl d ?e \<le> n else d \<le> shl n (- ?e)) = (pow2 ?e \<le> ?x)"
  proof (cases "0 \<le> ?e")
    case True
    have "(pow2 ?e \<le> ?x) = (of_int (shl d ?e) \<le> (of_int n :: rat))"
      using dd by (simp only: pow2_int [OF True] of_int_shl pos_le_divide_eq mult.commute)
    then show ?thesis using True by simp
  next
    case False
    then have "pow2 ?e = 1 / of_int (2 ^ nat (- ?e))" using pow2_neg [of "- ?e"] by simp
    moreover have "(0::rat) < of_int (2 ^ nat (- ?e))" by simp
    ultimately have "(pow2 ?e \<le> ?x) = (of_int d \<le> (of_int (shl n (- ?e)) :: rat))"
      using dd by (simp only: of_int_shl inverse_le_quotient)
    then show ?thesis using False by simp
  qed
  define i where "i = ilogq n d"
  have "pow2 i \<le> ?x \<and> ?x < pow2 (i + 1)"
    using quotient_log [OF n d] unfolding i_def ilogq_def Let_def c by auto
  moreover have "pow2 (ilog2 ?x) \<le> ?x" "?x < pow2 (ilog2 ?x + 1)" using ilog2_bounds [OF x] by simp_all
  ultimately have "pow2 i < pow2 (ilog2 ?x + 1)" "pow2 (ilog2 ?x) < pow2 (i + 1)"
    by (meson le_less_trans)+
  then show ?thesis by (simp add: i_def)
qed

definition round_quotient :: "int \<Rightarrow> int \<Rightarrow> rat" where
  "round_quotient n d = (let e = max (ilogq n d - 52) (- 1074) in
     if e \<le> 0 then dyadic (nearest_div (shl n (- e)) d) (- e) else of_int (shl (nearest_div n (shl d e)) e))"

lemma round_quotient: "0 < n \<Longrightarrow> 0 < d \<Longrightarrow> round_pos (of_int n / of_int d) = round_quotient n d"
proof -
  assume n: "0 < n" and d: "0 < d"
  let ?x = "of_int n / of_int d :: rat"
  obtain e where e: "max (ilogq n d - 52) (- 1074) = e" by blast
  then have u: "ulp_exp ?x = e" using ilogq [OF n d] by (simp add: ulp_exp_def)
  have x: "\<not> ?x \<le> 0" using n d by (simp add: not_le)
  show ?thesis
  proof (cases "e \<le> 0")
    case True
    then have p: "pow2 e = 1 / of_int (2 ^ nat (- e))" using pow2_neg [of "- e"] by simp
    have "?x / pow2 e = of_int (shl n (- e)) / of_int d" by (simp add: p of_int_shl)
    then have "nearest_even (?x / pow2 e) = nearest_div (shl n (- e)) d" using nearest_div [OF d] by metis
    then have "round_pos ?x = dyadic (nearest_div (shl n (- e)) d) (- e)"
      using x by (simp add: round_pos_def u dyadic_def) (simp add: p)
    then show ?thesis using True by (simp add: round_quotient_def e)
  next
    case False
    then have p: "pow2 e = of_int (2 ^ nat e)" by (simp add: pow2_int)
    have "?x / pow2 e = of_int n / of_int (shl d e)" by (simp only: p of_int_shl divide_divide_eq_left)
    moreover have "0 < shl d e" using d by (simp add: shl_def)
    ultimately have "nearest_even (?x / pow2 e) = nearest_div n (shl d e)" using nearest_div by metis
    then have "round_pos ?x = of_int (shl (nearest_div n (shl d e)) e)"
      using x by (simp add: round_pos_def u) (simp add: p shl_def)
    then show ?thesis using False by (simp add: round_quotient_def e)
  qed
qed

definition round_fraction :: "int \<Rightarrow> int \<Rightarrow> pyfloat" where
  "round_fraction n d = (if n = 0 then Fin 0 else if n < 0 then fneg (overflow_pos (round_quotient (- n) d))
     else overflow_pos (round_quotient n d))"

lemma round_fraction: "0 < d \<Longrightarrow> round64 (of_int n / of_int d) = round_fraction n d"
proof -
  assume d: "0 < d"
  consider "n = 0" | "n < 0" | "0 < n" by linarith
  then show ?thesis
  proof cases
    case 2
    then have "(of_int n / of_int d :: rat) < 0" using d by (simp add: divide_less_0_iff)
    moreover have "- (of_int n / of_int d :: rat) = of_int (- n) / of_int d" by simp
    ultimately show ?thesis using 2 round_quotient [of "- n" d] d by (simp add: round64_def round_fraction_def)
  next
    case 3
    then have "\<not> (of_int n / of_int d :: rat) < 0" using d by (simp add: divide_less_0_iff)
    then show ?thesis using 3 round_quotient [OF 3 d] by (simp add: round64_def round_fraction_def)
  qed (simp add: round_fraction_def)
qed

subsection \<open>Operations\<close>

lemma quotient_of_parts: "quotient_of a = (n, d) \<Longrightarrow> a = of_int n / of_int d \<and> 0 < d"
  using quotient_of_div quotient_of_denom_pos by blast

lemma round64_code [code]: "round64 x = (case quotient_of x of (n, d) \<Rightarrow> round_fraction n d)"
proof -
  obtain n d where q: "quotient_of x = (n, d)" by fastforce
  from quotient_of_parts [OF q] have "x = of_int n / of_int d" "0 < d" by simp_all
  then show ?thesis using round_fraction [of d n] q by simp
qed

definition add_fin :: "rat \<Rightarrow> rat \<Rightarrow> pyfloat" where "add_fin a b = round64 (a + b)"
definition mult_fin :: "rat \<Rightarrow> rat \<Rightarrow> pyfloat" where "mult_fin a b = round64 (a * b)"

lemma add_fin_code [code]: "add_fin a b = (case quotient_of a of (n, d) \<Rightarrow> case quotient_of b of (m, e) \<Rightarrow>
    round_fraction (if d = e then n + m else n * e + m * d) (if d = e then d else d * e))"
proof -
  obtain n d where a: "quotient_of a = (n, d)" by fastforce
  obtain m e where b: "quotient_of b = (m, e)" by fastforce
  note p = quotient_of_parts [OF a] quotient_of_parts [OF b]
  show ?thesis
  proof (cases "d = e")
    case True
    then have "a + b = of_int (n + m) / of_int d" using p by (simp add: add_divide_distrib)
    then show ?thesis using p a b True round_fraction [of d "n + m"] by (simp add: add_fin_def)
  next
    case False
    have "a + b = of_int (n * e + m * d) / of_int (d * e)" using p by (simp add: field_simps)
    then show ?thesis using p a b False round_fraction [of "d * e" "n * e + m * d"] by (simp add: add_fin_def)
  qed
qed

lemma mult_fin_code [code]: "mult_fin a b = (case quotient_of a of (n, d) \<Rightarrow> case quotient_of b of (m, e) \<Rightarrow>
    round_fraction (n * m) (d * e))"
proof -
  obtain n d where a: "quotient_of a = (n, d)" by fastforce
  obtain m e where b: "quotient_of b = (m, e)" by fastforce
  note p = quotient_of_parts [OF a] quotient_of_parts [OF b]
  have "a * b = of_int (n * m) / of_int (d * e)" using p by simp
  then show ?thesis using p a b round_fraction [of "d * e" "n * m"] by (simp add: mult_fin_def)
qed

lemma fadd_code [code]:
  "fadd (Fin a) (Fin b) = add_fin a b" "fadd NaN x = NaN" "fadd x NaN = NaN"
  "fadd PInf NInf = NaN" "fadd NInf PInf = NaN"
  "fadd PInf (Fin a) = PInf" "fadd PInf PInf = PInf" "fadd (Fin a) PInf = PInf"
  "fadd NInf (Fin a) = NInf" "fadd NInf NInf = NInf" "fadd (Fin a) NInf = NInf"
  by (cases x; simp add: add_fin_def)+

lemma fmul_code [code]:
  "fmul (Fin a) (Fin b) = mult_fin a b" "fmul NaN x = NaN" "fmul x NaN = NaN"
  "fmul PInf (Fin b) = inf_of_sign b" "fmul NInf (Fin b) = fneg (inf_of_sign b)"
  "fmul (Fin a) PInf = inf_of_sign a" "fmul (Fin a) NInf = fneg (inf_of_sign a)"
  "fmul PInf PInf = PInf" "fmul NInf NInf = PInf" "fmul PInf NInf = NInf" "fmul NInf PInf = NInf"
  by (cases x; simp add: mult_fin_def)+

end
