(* ===== verification/PyValue.thy ===== *)
theory PyValue
  imports FloatEval
begin

text \<open>
  The Python values that cross the module boundaries: JSON values plus tuples and one
  constructor for every other object. A \<open>str\<close> is its UTF-8 encoding, so literals are
  written as they stand in the source; \<open>py_len\<close> counts code points and \<open>py_blank\<close>
  is \<open>not s.strip()\<close>. A \<open>dict\<close> is the list of its items, looked up by \<open>map_of\<close>.
  The identifier patterns of the contract are the predicates \<open>id_pattern\<close>,
  \<open>sha256_pattern\<close>, \<open>target_id_pattern\<close> and \<open>surface_id_pattern\<close>.
  \<open>pylib\<close> holds the compiled library functions the sources call on opaque bytes.
\<close>

subsection \<open>Strings\<close>

text \<open>The code points of a UTF-8 string; a stray continuation byte counts as a code point.\<close>

definition cont_byte :: "char \<Rightarrow> bool" where
  "cont_byte c = (128 \<le> (of_char c :: nat) \<and> (of_char c :: nat) < 192)"

fun utf8_decode :: "string \<Rightarrow> nat list" where
  "utf8_decode (a # b # c # d # s) =
     (let n = (of_char a :: nat); k = (\<lambda>x. (of_char x :: nat) - 128) in
      if n < 192 then n # utf8_decode (b # c # d # s)
      else if n < 224 then ((n - 192) * 64 + k b) # utf8_decode (c # d # s)
      else if n < 240 then ((n - 224) * 4096 + k b * 64 + k c) # utf8_decode (d # s)
      else ((n - 240) * 262144 + k b * 4096 + k c * 64 + k d) # utf8_decode s)"
| "utf8_decode (a # b # c # []) =
     (let n = (of_char a :: nat); k = (\<lambda>x. (of_char x :: nat) - 128) in
      if n < 192 then n # utf8_decode (b # c # [])
      else if n < 224 then ((n - 192) * 64 + k b) # utf8_decode (c # [])
      else [(n - 224) * 4096 + k b * 64 + k c])"
| "utf8_decode (a # b # []) =
     (let n = (of_char a :: nat); k = (\<lambda>x. (of_char x :: nat) - 128) in
      if n < 192 then n # utf8_decode (b # [])
      else [(n - 192) * 64 + k b])"
| "utf8_decode (a # []) = [of_char a]"
| "utf8_decode [] = []"

definition py_len :: "string \<Rightarrow> nat" where
  "py_len s = length (filter (\<lambda>c. \<not> cont_byte c) s)"

text \<open>\<open>str.isspace\<close> of one code point (Unicode white space as Python defines it).\<close>

definition py_space :: "nat \<Rightarrow> bool" where
  "py_space n = ((9 \<le> n \<and> n \<le> 13) \<or> (28 \<le> n \<and> n \<le> 32) \<or> n = 133 \<or> n = 160 \<or> n = 5760
     \<or> (8192 \<le> n \<and> n \<le> 8202) \<or> n = 8232 \<or> n = 8233 \<or> n = 8239 \<or> n = 8287 \<or> n = 12288)"

definition py_blank :: "string \<Rightarrow> bool" where
  "py_blank s = list_all py_space (utf8_decode s)"

subsection \<open>Identifier patterns\<close>

definition is_digit :: "char \<Rightarrow> bool" where
  "is_digit c = (CHR ''0'' \<le> c \<and> c \<le> CHR ''9'')"

definition is_lower_hex :: "char \<Rightarrow> bool" where
  "is_lower_hex c = (is_digit c \<or> (CHR ''a'' \<le> c \<and> c \<le> CHR ''f''))"

definition is_alnum :: "char \<Rightarrow> bool" where
  "is_alnum c = (is_digit c \<or> (CHR ''A'' \<le> c \<and> c \<le> CHR ''Z'') \<or> (CHR ''a'' \<le> c \<and> c \<le> CHR ''z''))"

definition is_id_char :: "char \<Rightarrow> bool" where
  "is_id_char c = (is_alnum c \<or> c = CHR ''_'' \<or> c = CHR ''.'' \<or> c = CHR '':'' \<or> c = CHR ''-'')"

text \<open>\<open>^[A-Za-z0-9][A-Za-z0-9_.:-]{0,127}$\<close> with \<open>fullmatch\<close>.\<close>

fun id_pattern :: "string \<Rightarrow> bool" where
  "id_pattern [] = False"
| "id_pattern (c # cs) = (is_alnum c \<and> length cs \<le> 127 \<and> list_all is_id_char cs)"

text \<open>\<open>^[0-9a-f]{64}$\<close> with \<open>fullmatch\<close>.\<close>

definition sha256_pattern :: "string \<Rightarrow> bool" where
  "sha256_pattern s = (length s = 64 \<and> list_all is_lower_hex s)"

text \<open>\<open>^target:[0-9a-f]{16,64}$\<close> with \<open>fullmatch\<close>.\<close>

definition target_id_pattern :: "string \<Rightarrow> bool" where
  "target_id_pattern s = (take 7 s = ''target:''
     \<and> 16 \<le> length (drop 7 s) \<and> length (drop 7 s) \<le> 64 \<and> list_all is_lower_hex (drop 7 s))"

text \<open>\<open>^surface:[0-9a-f]{64}$\<close> with \<open>fullmatch\<close>.\<close>

definition surface_id_pattern :: "string \<Rightarrow> bool" where
  "surface_id_pattern s = (take 8 s = ''surface:''
     \<and> length (drop 8 s) = 64 \<and> list_all is_lower_hex (drop 8 s))"

text \<open>
  \<open>re.match\<close> with a pattern that ends in \<open>$\<close>: the match may also stop before one final
  newline.
\<close>

definition re_match_dollar :: "(string \<Rightarrow> bool) \<Rightarrow> string \<Rightarrow> bool" where
  "re_match_dollar p s = (p s \<or> (s \<noteq> [] \<and> last s = CHR 0x0A \<and> p (butlast s)))"

subsection \<open>Values\<close>

datatype pyval =
    PNone
  | PBool bool
  | PInt int
  | PFloat pyfloat
  | PStr string
  | PList "pyval list"
  | PTuple "pyval list"
  | PDict "(string \<times> pyval) list"
  | PObj nat

text \<open>\<open>d.get(k)\<close> of a mapping: \<open>None\<close> for a missing key.\<close>

definition dget :: "(string \<times> pyval) list \<Rightarrow> string \<Rightarrow> pyval" where
  "dget d k = (case map_of d k of None \<Rightarrow> PNone | Some v \<Rightarrow> v)"

definition has_key :: "(string \<times> pyval) list \<Rightarrow> string \<Rightarrow> bool" where
  "has_key d k = (k \<in> set (map fst d))"

text \<open>\<open>v in S\<close> and \<open>v not in S\<close> hash \<open>v\<close> first: a list or dict raises \<open>TypeError\<close>.\<close>

fun hashable :: "pyval \<Rightarrow> bool" where
  "hashable (PList _) = False"
| "hashable (PDict _) = False"
| "hashable (PTuple vs) = list_all hashable vs"
| "hashable _ = True"

definition in_str_setE :: "pyval \<Rightarrow> string list \<Rightarrow> py_exc + bool" where
  "in_str_setE v S = (if hashable v then Inr (case v of PStr s \<Rightarrow> s \<in> set S | _ \<Rightarrow> False)
                      else Inl PyTypeError)"

text \<open>\<open>json.dumps(v, allow_nan=False)\<close> succeeds: every float finite, no other object.\<close>

fun json_ok :: "pyval \<Rightarrow> bool" where
  "json_ok (PFloat x) = is_finite x"
| "json_ok (PList vs) = list_all json_ok vs"
| "json_ok (PTuple vs) = list_all json_ok vs"
| "json_ok (PDict kvs) = list_all (\<lambda>kv. json_ok (snd kv)) kvs"
| "json_ok (PObj _) = False"
| "json_ok _ = True"

text \<open>The elements of a list or tuple, as \<open>isinstance(v, (list, tuple))\<close> admits them.\<close>

fun seq_elems :: "pyval \<Rightarrow> pyval list option" where
  "seq_elems (PList vs) = Some vs"
| "seq_elems (PTuple vs) = Some vs"
| "seq_elems _ = None"

fun list_elems :: "pyval \<Rightarrow> pyval list option" where
  "list_elems (PList vs) = Some vs"
| "list_elems _ = None"

text \<open>\<open>bool(v)\<close>.\<close>

fun py_truthy :: "pyval \<Rightarrow> bool" where
  "py_truthy PNone = False"
| "py_truthy (PBool b) = b"
| "py_truthy (PInt n) = (n \<noteq> 0)"
| "py_truthy (PFloat x) = (x \<noteq> Fin 0)"
| "py_truthy (PStr s) = (s \<noteq> [])"
| "py_truthy (PList xs) = (xs \<noteq> [])"
| "py_truthy (PTuple xs) = (xs \<noteq> [])"
| "py_truthy (PDict d) = (d \<noteq> [])"
| "py_truthy (PObj _) = True"

text \<open>
  Library functions on opaque data: strict base64 decoding (\<open>None\<close> where
  \<open>base64.b64decode(s, validate=True)\<close> raises \<open>ValueError\<close>), the SHA-256 hex digest,
  canonical JSON text (\<open>json.dumps\<close> with sorted keys) and its inverse direction
  \<open>base64.b64encode\<close>.
\<close>

record pylib =
  b64decode :: "string \<Rightarrow> string option"
  b64encode :: "string \<Rightarrow> string"
  sha256hex :: "string \<Rightarrow> string"
  json_text :: "pyval \<Rightarrow> string"

lemma dget_simps [simp]:
  "dget [] k = PNone"
  "dget ((k', v) # d) k = (if k = k' then v else dget d k)"
  by (auto simp: dget_def)

lemma has_key_simps [simp]:
  "has_key [] k = False"
  "has_key ((k', v) # d) k = (k = k' \<or> has_key d k)"
  by (auto simp: has_key_def)

lemma dget_append: "dget (d @ e) k = (if has_key d k then dget d k else dget e k)"
  by (induction d) auto

lemma has_key_append [simp]: "has_key (d @ e) k = (has_key d k \<or> has_key e k)"
  by (induction d) auto

lemma in_str_setE_PStr [simp]: "in_str_setE (PStr s) S = Inr (s \<in> set S)"
  by (simp add: in_str_setE_def)

lemma in_str_setE_True: "in_str_setE v S = Inr True \<longleftrightarrow> (\<exists>s. v = PStr s \<and> s \<in> set S)"
  by (auto simp: in_str_setE_def split: pyval.splits)

end
