(* ===== verification/ContractBase.thy ===== *)
theory ContractBase
  imports PyValue
begin

text \<open>
  The field validators of \<open>lumina_next/portable_navigation_contract_v1.py\<close> (from
  \<open>_mapping\<close> to \<open>_not_future\<close>). Each takes the untrusted value and the field name that
  goes into the error detail; a validated number is its exact rational value, a validated
  vector a tuple. An absent \<open>request\<close> or \<open>now_unix\<close> argument is \<open>PNone\<close>. The locale
  \<open>field_codec\<close> states what the envelope validators need of a field validator: a value
  it returned is accepted again, unchanged, and is canonical JSON.
\<close>

subsection \<open>Constants\<close>

definition COORDINATE_CONVENTION :: string where
  "COORDINATE_CONVENTION = ''right_handed_x_forward_y_left_z_up''"

definition SURFACE_ID_SEMANTICS_REVISION :: string where
  "SURFACE_ID_SEMANTICS_REVISION = ''single_connected_component_world_pose_epoch_v2''"

definition SURFACE_ROLES :: "string list" where
  "SURFACE_ROLES = [''navigation_obstacle'', ''walkable_ground'', ''physical_surface'']"

definition MAX_FRAME_DIMENSION_PX :: int where "MAX_FRAME_DIMENSION_PX = 8192"
definition MAX_INLINE_PLANE_BYTES :: int where "MAX_INLINE_PLANE_BYTES = 64 * 1024 * 1024"
definition MAX_GRID_DIMENSION_CELLS :: int where "MAX_GRID_DIMENSION_CELLS = 4096"
definition MAX_GRID_CELLS :: int where "MAX_GRID_CELLS = 16 * 1024 * 1024"
definition MAX_WAYPOINTS :: nat where "MAX_WAYPOINTS = 4096"
definition MAX_SPARSE_DEPTH_SAMPLES :: nat where "MAX_SPARSE_DEPTH_SAMPLES = 65536"
definition MAX_GROUND_OCCLUDER_BBOXES :: nat where "MAX_GROUND_OCCLUDER_BBOXES = 8"
definition MAX_GROUND_SURFACE_POINTS :: nat where "MAX_GROUND_SURFACE_POINTS = 256"
definition MAX_GROUND_CONTINUITY_DISTANCE_M :: rat where
  "MAX_GROUND_CONTINUITY_DISTANCE_M = lit (45/100)"
definition MAX_CLOCK_SKEW_SECONDS :: rat where "MAX_CLOCK_SKEW_SECONDS = 1"

subsection \<open>Scalars\<close>

definition cerr :: "string \<Rightarrow> string \<Rightarrow> py_exc + 'a" where
  "cerr code detail = Inl (ContractError code detail)"

lemma cerr_simps [simp]:
  "cerr c d \<noteq> Inr r" "Inr r \<noteq> cerr c d" "bindE (cerr c d) f = cerr c d"
  by (simp_all add: cerr_def)

definition c_mapping :: "pyval \<Rightarrow> string \<Rightarrow> py_exc + (string \<times> pyval) list" where
  "c_mapping v field = (case v of PDict d \<Rightarrow> Inr d | _ \<Rightarrow> cerr ''PORTABLE_OBJECT_REQUIRED'' field)"

definition c_fields :: "(string \<times> pyval) list \<Rightarrow> string list \<Rightarrow> string list \<Rightarrow> string \<Rightarrow> py_exc + unit" where
  "c_fields d required optional field =
     (let missing = filter (\<lambda>k. \<not> has_key d k) required;
          unknown = filter (\<lambda>k. k \<notin> set required \<and> k \<notin> set optional) (map fst d)
      in if missing \<noteq> [] then
           cerr ''PORTABLE_FIELDS_MISSING'' (field @ '':'' @ join '','' (sort missing))
         else if unknown \<noteq> [] then
           cerr ''PORTABLE_FIELDS_UNKNOWN'' (field @ '':'' @ join '','' (sort unknown))
         else Inr ())"

text \<open>\<open>if v not in S: raise\<close>; a list or dict is not hashable and raises \<open>TypeError\<close>.\<close>

definition require_in :: "pyval \<Rightarrow> string list \<Rightarrow> py_exc \<Rightarrow> py_exc + unit" where
  "require_in v S e = bindE (in_str_setE v S) (\<lambda>b. guardE b e)"

definition c_schema :: "(string \<times> pyval) list \<Rightarrow> string \<Rightarrow> string \<Rightarrow> py_exc + unit" where
  "c_schema d expected field =
     guardE (dget d ''schema_version'' = PStr expected) (ContractError ''PORTABLE_SCHEMA_MISMATCH'' field)"

definition c_pattern :: "(string \<Rightarrow> bool) \<Rightarrow> string \<Rightarrow> pyval \<Rightarrow> string \<Rightarrow> py_exc + string" where
  "c_pattern p code v field =
     (case v of PStr s \<Rightarrow> if p s then Inr s else cerr code field | _ \<Rightarrow> cerr code field)"

definition c_identifier :: "pyval \<Rightarrow> string \<Rightarrow> py_exc + string" where
  "c_identifier = c_pattern id_pattern ''PORTABLE_ID_INVALID''"

definition c_target_identifier :: "pyval \<Rightarrow> string \<Rightarrow> py_exc + string" where
  "c_target_identifier = c_pattern target_id_pattern ''PORTABLE_TARGET_ID_NOT_OPAQUE''"

definition c_surface_identifier :: "pyval \<Rightarrow> string \<Rightarrow> py_exc + string" where
  "c_surface_identifier = c_pattern surface_id_pattern ''PORTABLE_SURFACE_ID_NOT_OPAQUE''"

definition c_surface_role :: "pyval \<Rightarrow> string \<Rightarrow> py_exc + string" where
  "c_surface_role = c_pattern (\<lambda>s. s \<in> set SURFACE_ROLES) ''PORTABLE_SURFACE_ROLE_INVALID''"

definition c_sha256 :: "pyval \<Rightarrow> string \<Rightarrow> py_exc + string" where
  "c_sha256 = c_pattern sha256_pattern ''PORTABLE_SHA256_INVALID''"

definition c_text :: "nat \<Rightarrow> bool \<Rightarrow> pyval \<Rightarrow> string \<Rightarrow> py_exc + string" where
  "c_text maximum allow_empty =
     c_pattern (\<lambda>s. py_len s \<le> maximum \<and> (allow_empty \<or> \<not> py_blank s)) ''PORTABLE_TEXT_INVALID''"

definition c_boolean :: "pyval \<Rightarrow> string \<Rightarrow> py_exc + bool" where
  "c_boolean v field = (case v of PBool b \<Rightarrow> Inr b | _ \<Rightarrow> cerr ''PORTABLE_BOOLEAN_INVALID'' field)"

text \<open>
  \<open>_number\<close>: \<open>float(value)\<close> of an integer too large for binary64 raises \<open>OverflowError\<close>
  inside the guard, before the contract's own error can be raised.
\<close>

definition c_number :: "rat option \<Rightarrow> rat option \<Rightarrow> pyval \<Rightarrow> string \<Rightarrow> py_exc + rat" where
  "c_number minimum maximum v field =
     bindE (case v of PInt n \<Rightarrow> float_of_int n
                    | PFloat x \<Rightarrow> Inr x
                    | _ \<Rightarrow> cerr ''PORTABLE_NUMBER_INVALID'' field) (\<lambda>x.
     case x of Fin r \<Rightarrow>
         if (case minimum of Some m \<Rightarrow> r < m | None \<Rightarrow> False) then cerr ''PORTABLE_NUMBER_RANGE'' field
         else if (case maximum of Some m \<Rightarrow> m < r | None \<Rightarrow> False) then cerr ''PORTABLE_NUMBER_RANGE'' field
         else Inr r
     | _ \<Rightarrow> cerr ''PORTABLE_NUMBER_INVALID'' field)"

definition c_integer :: "int \<Rightarrow> int \<Rightarrow> pyval \<Rightarrow> string \<Rightarrow> py_exc + int" where
  "c_integer minimum maximum v field =
     (case v of PInt n \<Rightarrow> if minimum \<le> n \<and> n \<le> maximum then Inr n
                         else cerr ''PORTABLE_INTEGER_INVALID'' field
      | _ \<Rightarrow> cerr ''PORTABLE_INTEGER_INVALID'' field)"

definition c_timestamp :: "pyval \<Rightarrow> string \<Rightarrow> py_exc + rat" where
  "c_timestamp = c_number (Some 0) None"

subsection \<open>Vectors\<close>

type_synonym vec3 = "rat \<times> rat \<times> rat"
type_synonym vec4 = "rat \<times> rat \<times> rat \<times> rat"

text \<open>\<open>isinstance(v, (list, tuple)) and len(v) == n\<close>, with the elements.\<close>

fun seq2 :: "pyval \<Rightarrow> (pyval \<times> pyval) option" where
  "seq2 v = (case seq_elems v of Some [a, b] \<Rightarrow> Some (a, b) | _ \<Rightarrow> None)"

fun seq3 :: "pyval \<Rightarrow> (pyval \<times> pyval \<times> pyval) option" where
  "seq3 v = (case seq_elems v of Some [a, b, c] \<Rightarrow> Some (a, b, c) | _ \<Rightarrow> None)"

fun seq4 :: "pyval \<Rightarrow> (pyval \<times> pyval \<times> pyval \<times> pyval) option" where
  "seq4 v = (case seq_elems v of Some [a, b, c, d] \<Rightarrow> Some (a, b, c, d) | _ \<Rightarrow> None)"

declare seq2.simps [simp del] seq3.simps [simp del] seq4.simps [simp del]

lemma seq_PList [simp]:
  "seq2 (PList [a, b]) = Some (a, b)"
  "seq3 (PList [a, b, c]) = Some (a, b, c)"
  "seq4 (PList [a, b, c, d]) = Some (a, b, c, d)"
  by (simp_all add: seq2.simps seq3.simps seq4.simps)

definition c_vector3 :: "pyval \<Rightarrow> string \<Rightarrow> py_exc + vec3" where
  "c_vector3 v field =
     (case seq3 v of Some (a, b, c) \<Rightarrow>
        bindE (c_number None None a (indexed field 0)) (\<lambda>x.
        bindE (c_number None None b (indexed field 1)) (\<lambda>y.
        bindE (c_number None None c (indexed field 2)) (\<lambda>z. Inr (x, y, z))))
      | _ \<Rightarrow> cerr ''PORTABLE_VECTOR3_INVALID'' field)"

definition norm_squared4 :: "vec4 \<Rightarrow> pyfloat" where
  "norm_squared4 q = (case q of (a, b, c, d) \<Rightarrow>
     fsum [fmul (Fin a) (Fin a), fmul (Fin b) (Fin b), fmul (Fin c) (Fin c), fmul (Fin d) (Fin d)])"

definition unit_norm :: "pyfloat \<Rightarrow> bool" where
  "unit_norm n = (fle (Fin (lit (999/1000))) n \<and> fle n (Fin (lit (1001/1000))))"

definition c_quaternion :: "pyval \<Rightarrow> string \<Rightarrow> py_exc + vec4" where
  "c_quaternion v field =
     (case seq4 v of Some (a, b, c, d) \<Rightarrow>
        bindE (c_number None None a (indexed field 0)) (\<lambda>x.
        bindE (c_number None None b (indexed field 1)) (\<lambda>y.
        bindE (c_number None None c (indexed field 2)) (\<lambda>z.
        bindE (c_number None None d (indexed field 3)) (\<lambda>w.
        bindE (fsqrt (norm_squared4 (x, y, z, w))) (\<lambda>n.
        if unit_norm n then Inr (x, y, z, w)
        else cerr ''PORTABLE_QUATERNION_NOT_NORMALIZED'' field)))))
      | _ \<Rightarrow> cerr ''PORTABLE_QUATERNION_INVALID'' field)"

definition c_bbox :: "pyval \<Rightarrow> string \<Rightarrow> py_exc + vec4" where
  "c_bbox v field =
     (case seq4 v of Some (a, b, c, d) \<Rightarrow>
        bindE (c_number (Some 0) (Some 1) a (indexed field 0)) (\<lambda>x0.
        bindE (c_number (Some 0) (Some 1) b (indexed field 1)) (\<lambda>y0.
        bindE (c_number (Some 0) (Some 1) c (indexed field 2)) (\<lambda>x1.
        bindE (c_number (Some 0) (Some 1) d (indexed field 3)) (\<lambda>y1.
        if x1 \<le> x0 \<or> y1 \<le> y0 then cerr ''PORTABLE_BBOX_INVALID'' field
        else Inr (x0, y0, x1, y1)))))
      | _ \<Rightarrow> cerr ''PORTABLE_BBOX_INVALID'' field)"

definition v3_val :: "vec3 \<Rightarrow> pyval" where
  "v3_val p = (case p of (x, y, z) \<Rightarrow> PList [PFloat (Fin x), PFloat (Fin y), PFloat (Fin z)])"

definition v4_val :: "vec4 \<Rightarrow> pyval" where
  "v4_val p = (case p of (x, y, z, w) \<Rightarrow>
     PList [PFloat (Fin x), PFloat (Fin y), PFloat (Fin z), PFloat (Fin w)])"

definition num_val :: "rat \<Rightarrow> pyval" where
  "num_val r = PFloat (Fin r)"

subsection \<open>Inline data and digests\<close>

definition c_inline_bytes :: "pylib \<Rightarrow> string \<Rightarrow> pyval \<Rightarrow> string \<Rightarrow> py_exc + string" where
  "c_inline_bytes L expected_sha256 v field =
     (case v of PStr s \<Rightarrow>
        if int (py_len s) > MAX_INLINE_PLANE_BYTES * 4 div 3 + 8
        then cerr ''PORTABLE_INLINE_DATA_INVALID'' field
        else (case b64decode L s of
            None \<Rightarrow> cerr ''PORTABLE_BASE64_INVALID'' field
          | Some raw \<Rightarrow>
              if int (length raw) > MAX_INLINE_PLANE_BYTES
              then cerr ''PORTABLE_INLINE_DATA_TOO_LARGE'' field
              else if sha256hex L raw \<noteq> expected_sha256
              then cerr ''PORTABLE_DATA_HASH_MISMATCH'' field
              else Inr raw)
      | _ \<Rightarrow> cerr ''PORTABLE_INLINE_DATA_INVALID'' field)"

definition c_canonical_json :: "pyval \<Rightarrow> string \<Rightarrow> py_exc + unit" where
  "c_canonical_json v field = guardE (json_ok v) (ContractError ''PORTABLE_NONCANONICAL_JSON'' field)"

definition c_canonical_sha256 :: "pylib \<Rightarrow> pyval \<Rightarrow> string \<Rightarrow> py_exc + string" where
  "c_canonical_sha256 L v field =
     (if json_ok v then Inr (sha256hex L (json_text L v)) else cerr ''PORTABLE_NONCANONICAL_JSON'' field)"

subsection \<open>Envelope heads\<close>

record request_head =
  rq_request_id :: string
  rq_environment_id :: string
  rq_session_id :: string
  rq_requested_unix :: rat

record result_head =
  rs_request_id :: string
  rs_environment_id :: string
  rs_session_id :: string

definition c_common_request ::
  "pyval \<Rightarrow> string \<Rightarrow> string list \<Rightarrow> string list \<Rightarrow> py_exc + (string \<times> pyval) list \<times> request_head" where
  "c_common_request v schema extra optional =
     bindE (c_mapping v ''request'') (\<lambda>src.
     bindE (c_fields src ([''schema_version'', ''request_id'', ''environment_id'', ''session_id'',
                           ''requested_unix''] @ extra) optional ''request'') (\<lambda>_.
     bindE (c_schema src schema ''request.schema_version'') (\<lambda>_.
     bindE (c_identifier (dget src ''request_id'') ''request.request_id'') (\<lambda>rid.
     bindE (c_identifier (dget src ''environment_id'') ''request.environment_id'') (\<lambda>eid.
     bindE (c_identifier (dget src ''session_id'') ''request.session_id'') (\<lambda>sid.
     bindE (c_timestamp (dget src ''requested_unix'') ''request.requested_unix'') (\<lambda>t.
     Inr (src, \<lparr>rq_request_id = rid, rq_environment_id = eid, rq_session_id = sid,
                rq_requested_unix = t\<rparr>))))))))"

definition c_common_result ::
  "pyval \<Rightarrow> string \<Rightarrow> string list \<Rightarrow> string list \<Rightarrow> py_exc + (string \<times> pyval) list \<times> result_head" where
  "c_common_result v schema extra optional =
     bindE (c_mapping v ''result'') (\<lambda>src.
     bindE (c_fields src ([''schema_version'', ''request_id'', ''environment_id'', ''session_id'']
                          @ extra) optional ''result'') (\<lambda>_.
     bindE (c_schema src schema ''result.schema_version'') (\<lambda>_.
     bindE (c_identifier (dget src ''request_id'') ''result.request_id'') (\<lambda>rid.
     bindE (c_identifier (dget src ''environment_id'') ''result.environment_id'') (\<lambda>eid.
     bindE (c_identifier (dget src ''session_id'') ''result.session_id'') (\<lambda>sid.
     Inr (src, \<lparr>rs_request_id = rid, rs_environment_id = eid, rs_session_id = sid\<rparr>)))))))"

definition request_head_items :: "string \<Rightarrow> 'a request_head_scheme \<Rightarrow> (string \<times> pyval) list" where
  "request_head_items schema h =
     [(''schema_version'', PStr schema), (''request_id'', PStr (rq_request_id h)),
      (''environment_id'', PStr (rq_environment_id h)), (''session_id'', PStr (rq_session_id h)),
      (''requested_unix'', num_val (rq_requested_unix h))]"

definition result_head_items :: "string \<Rightarrow> 'a result_head_scheme \<Rightarrow> (string \<times> pyval) list" where
  "result_head_items schema h =
     [(''schema_version'', PStr schema), (''request_id'', PStr (rs_request_id h)),
      (''environment_id'', PStr (rs_environment_id h)), (''session_id'', PStr (rs_session_id h))]"

definition c_cross_common :: "'a request_head_scheme \<Rightarrow> 'b result_head_scheme \<Rightarrow> py_exc + unit" where
  "c_cross_common q r =
     bindE (guardE (rq_request_id q = rs_request_id r)
              (ContractError ''PORTABLE_LINEAGE_MISMATCH'' ''request_id'')) (\<lambda>_.
     bindE (guardE (rq_environment_id q = rs_environment_id r)
              (ContractError ''PORTABLE_LINEAGE_MISMATCH'' ''environment_id'')) (\<lambda>_.
     guardE (rq_session_id q = rs_session_id r)
              (ContractError ''PORTABLE_LINEAGE_MISMATCH'' ''session_id'')))"

definition c_not_future :: "rat \<Rightarrow> pyval \<Rightarrow> string \<Rightarrow> py_exc + unit" where
  "c_not_future timestamp now_unix field =
     (if now_unix = PNone then Inr ()
      else bindE (c_timestamp now_unix ''now_unix'') (\<lambda>now.
           guardE (\<not> flt (fadd (Fin now) (Fin MAX_CLOCK_SKEW_SECONDS)) (Fin timestamp))
             (ContractError ''PORTABLE_TIMESTAMP_IN_FUTURE'' field)))"

text \<open>The two lower bounds a result's time is checked against: the request time less one skew.\<close>

definition before_request :: "rat \<Rightarrow> rat \<Rightarrow> bool" where
  "before_request timestamp requested = flt (Fin timestamp) (fsub (Fin requested) (Fin MAX_CLOCK_SKEW_SECONDS))"

subsection \<open>What a field validator promises\<close>

text \<open>
  The interface between the field validators and the envelope validators: \<open>emb\<close> is the
  Python value the validator returns for its typed result.
\<close>

locale field_codec =
  fixes chk :: "pyval \<Rightarrow> string \<Rightarrow> py_exc + 'a"
    and emb :: "'a \<Rightarrow> pyval"
  assumes refeed: "chk v f = Inr r \<Longrightarrow> chk (emb r) g = Inr r"
    and json_emb: "json_ok (emb r)"
begin

text \<open>Validating the elements of a list, each under its indexed field name.\<close>

lemma list_refeed:
  assumes "mapiE (\<lambda>i v. chk v (field i)) k vs = Inr rs"
  shows "mapiE (\<lambda>i v. chk v (field' i)) j (map emb rs) = Inr rs"
proof -
  have "\<forall>m < length rs. \<exists>v f. chk v f = Inr (rs ! m)"
    using assms by (auto simp: mapiE_Inr_iff)
  then have "\<forall>m < length rs. \<forall>g. chk (emb (rs ! m)) g = Inr (rs ! m)"
    using refeed by blast
  then show ?thesis by (simp add: mapiE_Inr_iff)
qed

lemma json_list: "json_ok (PList (map emb rs))"
  by (simp add: list_all_iff json_emb)

text \<open>An optional field is validated when present and emitted when it was.\<close>

lemma optional_refeed:
  assumes "(if has_key d k then bindE (chk (dget d k) f) (\<lambda>r. Inr (Some r)) else Inr None) = Inr x"
    and "x = Some r"
  shows "chk (emb r) g = Inr r"
  using assms by (auto simp: bindE_Inr_iff split: if_splits intro: refeed)

end

lemma c_pattern_Inr: "c_pattern p code v f = Inr s \<longleftrightarrow> v = PStr s \<and> p s"
  by (auto simp: c_pattern_def cerr_def split: pyval.splits)

text \<open>An accepted number is the value of a finite float or of an integer in float range.\<close>

definition as_number :: "pyval \<Rightarrow> rat option" where
  "as_number v = (case v of
       PInt n \<Rightarrow> (case float_of_int n of Inr (Fin r) \<Rightarrow> Some r | _ \<Rightarrow> None)
     | PFloat (Fin r) \<Rightarrow> Some r
     | _ \<Rightarrow> None)"

definition in_range :: "rat option \<Rightarrow> rat option \<Rightarrow> rat \<Rightarrow> bool" where
  "in_range lo hi r = ((case lo of Some m \<Rightarrow> m \<le> r | None \<Rightarrow> True)
     \<and> (case hi of Some m \<Rightarrow> r \<le> m | None \<Rightarrow> True))"

lemma in_range_simps [simp]:
  "in_range None None r" "in_range (Some a) None r = (a \<le> r)"
  "in_range (Some a) (Some b) r = (a \<le> r \<and> r \<le> b)"
  by (simp_all add: in_range_def)

lemma as_number_PFloat [simp]: "as_number (PFloat (Fin r)) = Some r"
  by (simp add: as_number_def)

lemma as_number_num_val [simp]: "as_number (num_val r) = Some r"
  by (simp add: num_val_def)

lemma c_number_Inr: "c_number lo hi v f = Inr r \<longleftrightarrow> as_number v = Some r \<and> in_range lo hi r"
proof -
  have fin: "c_number lo hi (PFloat (Fin a)) f = Inr r \<longleftrightarrow> a = r \<and> in_range lo hi r" for a
    by (cases lo; cases hi) (auto simp: c_number_def in_range_def cerr_def)
  have int: "c_number lo hi (PInt n) f = bindE (float_of_int n) (\<lambda>x. c_number lo hi (PFloat x) f)" for n
    by (simp add: c_number_def)
  show ?thesis
  proof (cases v)
    case (PInt n)
    then show ?thesis
      by (cases "float_of_int n")
        (auto simp: int fin as_number_def float_of_int_def split: pyfloat.splits)
  next
    case (PFloat x)
    then show ?thesis
      by (cases x) (simp_all add: fin as_number_def, simp_all add: c_number_def)
  qed (simp_all add: c_number_def as_number_def)
qed

lemma c_timestamp_Inr: "c_timestamp v f = Inr r \<longleftrightarrow> as_number v = Some r \<and> 0 \<le> r"
  by (simp add: c_timestamp_def c_number_Inr)

lemma c_vector3_Inr:
  "c_vector3 v f = Inr r \<longleftrightarrow> (\<exists>a b c x y z. seq3 v = Some (a, b, c) \<and> r = (x, y, z)
     \<and> as_number a = Some x \<and> as_number b = Some y \<and> as_number c = Some z)"
  by (auto simp: c_vector3_def bindE_Inr_iff c_number_Inr split: option.splits)

lemma c_quaternion_Inr:
  "c_quaternion v f = Inr r \<longleftrightarrow> (\<exists>a b c d x y z w n. seq4 v = Some (a, b, c, d) \<and> r = (x, y, z, w)
     \<and> as_number a = Some x \<and> as_number b = Some y \<and> as_number c = Some z \<and> as_number d = Some w
     \<and> fsqrt (norm_squared4 r) = Inr n \<and> unit_norm n)"
  by (auto simp: c_quaternion_def bindE_Inr_iff c_number_Inr split: option.splits if_splits)

lemma c_bbox_Inr:
  "c_bbox v f = Inr r \<longleftrightarrow> (\<exists>a b c d x0 y0 x1 y1. seq4 v = Some (a, b, c, d) \<and> r = (x0, y0, x1, y1)
     \<and> as_number a = Some x0 \<and> as_number b = Some y0 \<and> as_number c = Some x1 \<and> as_number d = Some y1
     \<and> 0 \<le> x0 \<and> x0 < x1 \<and> x1 \<le> 1 \<and> 0 \<le> y0 \<and> y0 < y1 \<and> y1 \<le> 1)"
  by (auto simp: c_bbox_def bindE_Inr_iff c_number_Inr not_le split: option.splits if_splits)

interpretation plain_identifier: field_codec c_identifier PStr
  by unfold_locales (auto simp: c_identifier_def c_pattern_Inr)

interpretation target_identifier: field_codec c_target_identifier PStr
  by unfold_locales (auto simp: c_target_identifier_def c_pattern_Inr)

interpretation surface_identifier: field_codec c_surface_identifier PStr
  by unfold_locales (auto simp: c_surface_identifier_def c_pattern_Inr)

interpretation surface_role: field_codec c_surface_role PStr
  by unfold_locales (auto simp: c_surface_role_def c_pattern_Inr)

interpretation digest: field_codec c_sha256 PStr
  by unfold_locales (auto simp: c_sha256_def c_pattern_Inr)

interpretation bounded_text: field_codec "c_text m e" PStr for m e
  by unfold_locales (auto simp: c_text_def c_pattern_Inr)

interpretation boolean_field: field_codec c_boolean PBool
  by unfold_locales (auto simp: c_boolean_def)

interpretation integer_field: field_codec "c_integer lo hi" PInt for lo hi
  by unfold_locales (auto simp: c_integer_def cerr_def split: pyval.splits if_splits)

interpretation number_field: field_codec "c_number lo hi" num_val for lo hi
  by unfold_locales (auto simp: c_number_Inr num_val_def)

interpretation timestamp_field: field_codec c_timestamp num_val
  by unfold_locales (auto simp: c_timestamp_Inr num_val_def)

interpretation vector3_field: field_codec c_vector3 v3_val
  by unfold_locales (auto simp: c_vector3_Inr v3_val_def)

interpretation quaternion_field: field_codec c_quaternion v4_val
  by unfold_locales (auto simp: c_quaternion_Inr v4_val_def)

interpretation bbox_field: field_codec c_bbox v4_val
  by unfold_locales (auto simp: c_bbox_Inr v4_val_def)

lemmas refeed_facts =
  plain_identifier.refeed target_identifier.refeed surface_identifier.refeed surface_role.refeed
  digest.refeed bounded_text.refeed boolean_field.refeed integer_field.refeed number_field.refeed
  timestamp_field.refeed vector3_field.refeed quaternion_field.refeed bbox_field.refeed

lemmas json_facts =
  number_field.json_emb vector3_field.json_emb quaternion_field.json_emb vector3_field.json_list
  bbox_field.json_emb bbox_field.json_list

subsection \<open>Facts about accepted fields\<close>

lemma c_identifier_Inr: "c_identifier v f = Inr s \<longleftrightarrow> v = PStr s \<and> id_pattern s"
  by (simp add: c_identifier_def c_pattern_Inr)

lemma c_target_identifier_Inr: "c_target_identifier v f = Inr s \<longleftrightarrow> v = PStr s \<and> target_id_pattern s"
  by (simp add: c_target_identifier_def c_pattern_Inr)

lemma c_surface_identifier_Inr: "c_surface_identifier v f = Inr s \<longleftrightarrow> v = PStr s \<and> surface_id_pattern s"
  by (simp add: c_surface_identifier_def c_pattern_Inr)

lemma c_surface_role_Inr: "c_surface_role v f = Inr s \<longleftrightarrow> v = PStr s \<and> s \<in> set SURFACE_ROLES"
  by (simp add: c_surface_role_def c_pattern_Inr)

lemma c_sha256_Inr: "c_sha256 v f = Inr s \<longleftrightarrow> v = PStr s \<and> sha256_pattern s"
  by (simp add: c_sha256_def c_pattern_Inr)

lemma c_text_Inr:
  "c_text m e v f = Inr s \<longleftrightarrow> v = PStr s \<and> py_len s \<le> m \<and> (e \<or> \<not> py_blank s)"
  by (simp add: c_text_def c_pattern_Inr)

lemma c_boolean_Inr: "c_boolean v f = Inr b \<longleftrightarrow> v = PBool b"
  by (auto simp: c_boolean_def cerr_def split: pyval.splits)

lemma c_integer_Inr: "c_integer lo hi v f = Inr n \<longleftrightarrow> v = PInt n \<and> lo \<le> n \<and> n \<le> hi"
  by (auto simp: c_integer_def cerr_def split: pyval.splits)

lemma c_mapping_Inr: "c_mapping v f = Inr d \<longleftrightarrow> v = PDict d"
  by (auto simp: c_mapping_def cerr_def split: pyval.splits)

lemma c_mapping_PDict [simp]: "c_mapping (PDict d) f = Inr d"
  by (simp add: c_mapping_Inr)

lemma c_inline_bytes_Inr:
  "c_inline_bytes L h v f = Inr raw \<longleftrightarrow>
     (\<exists>s. v = PStr s \<and> b64decode L s = Some raw \<and> sha256hex L raw = h
        \<and> int (py_len s) \<le> MAX_INLINE_PLANE_BYTES * 4 div 3 + 8
        \<and> int (length raw) \<le> MAX_INLINE_PLANE_BYTES)"
  by (auto simp: c_inline_bytes_def cerr_def split: pyval.splits option.splits if_splits)

lemma c_canonical_json_Inr: "c_canonical_json v f = Inr u \<longleftrightarrow> json_ok v"
  by (simp add: c_canonical_json_def guardE_Inr_iff)

lemma c_fields_Inr:
  "c_fields d req opt f = Inr u \<longleftrightarrow>
     (\<forall>k \<in> set req. has_key d k) \<and> (\<forall>k \<in> fst ` set d. k \<in> set req \<or> k \<in> set opt)"
  by (auto simp: c_fields_def Let_def cerr_def filter_empty_conv)

lemma c_fields_ok:
  "list_all (has_key d) req \<Longrightarrow> list_all (\<lambda>kv. fst kv \<in> set req \<or> fst kv \<in> set opt) d \<Longrightarrow>
     c_fields d req opt f = Inr ()"
  by (auto simp: c_fields_Inr list_all_iff)

lemma c_common_request_Inr:
  "c_common_request v schema extra opt = Inr (src, h) \<longleftrightarrow>
     v = PDict src \<and>
     c_fields src ([''schema_version'', ''request_id'', ''environment_id'', ''session_id'',
                    ''requested_unix''] @ extra) opt ''request'' = Inr () \<and>
     dget src ''schema_version'' = PStr schema \<and>
     dget src ''request_id'' = PStr (rq_request_id h) \<and> id_pattern (rq_request_id h) \<and>
     dget src ''environment_id'' = PStr (rq_environment_id h) \<and> id_pattern (rq_environment_id h) \<and>
     dget src ''session_id'' = PStr (rq_session_id h) \<and> id_pattern (rq_session_id h) \<and>
     c_timestamp (dget src ''requested_unix'') ''request.requested_unix'' = Inr (rq_requested_unix h)"
  by (cases h) (auto simp: c_common_request_def bindE_Inr_iff c_mapping_Inr c_schema_def
      guardE_Inr_iff c_identifier_Inr)

lemma c_common_result_Inr:
  "c_common_result v schema extra opt = Inr (src, h) \<longleftrightarrow>
     v = PDict src \<and>
     c_fields src ([''schema_version'', ''request_id'', ''environment_id'', ''session_id'']
                   @ extra) opt ''result'' = Inr () \<and>
     dget src ''schema_version'' = PStr schema \<and>
     dget src ''request_id'' = PStr (rs_request_id h) \<and> id_pattern (rs_request_id h) \<and>
     dget src ''environment_id'' = PStr (rs_environment_id h) \<and> id_pattern (rs_environment_id h) \<and>
     dget src ''session_id'' = PStr (rs_session_id h) \<and> id_pattern (rs_session_id h)"
  by (cases h) (auto simp: c_common_result_def bindE_Inr_iff c_mapping_Inr c_schema_def
      guardE_Inr_iff c_identifier_Inr)

lemma require_in_Inr: "require_in v S e = Inr u \<longleftrightarrow> (\<exists>s. v = PStr s \<and> s \<in> set S)"
  by (auto simp: require_in_def bindE_Inr_iff guardE_Inr_iff in_str_setE_True)

lemma require_in_PStr [simp]: "require_in (PStr s) S e = guardE (s \<in> set S) e"
  by (simp add: require_in_def)

lemma c_cross_common_Inr:
  "c_cross_common q r = Inr u \<longleftrightarrow> rq_request_id q = rs_request_id r
     \<and> rq_environment_id q = rs_environment_id r \<and> rq_session_id q = rs_session_id r"
  by (auto simp: c_cross_common_def bindE_Inr_iff guardE_Inr_iff)

lemma c_not_future_PNone [simp]: "c_not_future t PNone f = Inr ()"
  by (simp add: c_not_future_def)

lemmas field_Inr_iffs =
  c_identifier_Inr c_target_identifier_Inr c_surface_identifier_Inr c_surface_role_Inr
  c_sha256_Inr c_text_Inr c_boolean_Inr c_integer_Inr c_mapping_Inr c_inline_bytes_Inr
  c_canonical_json_Inr c_number_Inr c_timestamp_Inr require_in_Inr

lemmas accept_iffs = err_simps field_Inr_iffs Inr_out

lemma json_head [simp]:
  "list_all (\<lambda>kv. json_ok (snd kv)) (request_head_items sch q)"
  "list_all (\<lambda>kv. json_ok (snd kv)) (result_head_items sch r)"
  by (simp_all add: request_head_items_def result_head_items_def num_val_def)

text \<open>A head that was accepted is accepted again in front of any items that complete the fields.\<close>

lemma c_common_request_refeed:
  assumes "c_common_request v sch extra opt = Inr (src, h)"
    and "request_head.truncate q = h"
    and "d = request_head_items sch q @ items"
    and "c_fields d ([''schema_version'', ''request_id'', ''environment_id'', ''session_id'',
                    ''requested_unix''] @ extra) opt ''request'' = Inr ()"
  shows "c_common_request (PDict d) sch extra opt = Inr (d, h)"
  using assms by (auto simp: c_common_request_Inr request_head_items_def request_head.defs
      intro: timestamp_field.refeed)

lemma c_common_result_refeed:
  assumes "c_common_result v sch extra opt = Inr (src, h)"
    and "result_head.truncate r = h"
    and "d = result_head_items sch r @ items"
    and "c_fields d ([''schema_version'', ''request_id'', ''environment_id'', ''session_id''] @ extra) opt ''result'' = Inr ()"
  shows "c_common_result (PDict d) sch extra opt = Inr (d, h)"
  using assms by (auto simp: c_common_result_Inr result_head_items_def result_head.defs)

text \<open>The definitions that evaluate validators on concrete values.\<close>

lemmas eval_contract =
  c_common_request_def c_common_result_def c_schema_def c_identifier_def c_target_identifier_def
  c_surface_identifier_def c_surface_role_def c_sha256_def c_pattern_def c_boolean_def c_number_def
  c_integer_def c_timestamp_def is_id_char_def is_alnum_def is_lower_hex_def is_digit_def c_text_def
  py_len_def cont_byte_def py_blank_def py_space_def c_not_future_def before_request_def
  c_canonical_json_def num_val_def result_head_items_def request_head_items_def request_head.defs
  result_head.defs c_cross_common_def Let_def MAX_CLOCK_SKEW_SECONDS_def fsub_def

end
