(* ===== verification/ContractSensor.thy ===== *)
theory ContractSensor
  imports ContractBase
begin

text \<open>
  The observation envelopes of \<open>lumina_next/portable_navigation_contract_v1.py\<close>: the RGB
  plane, dense and sparse depth, the camera, capture requests and results, the occupancy
  grid, the agent, and map requests and results. Each validator returns a typed record; the
  \<open>_val\<close> functions give the dictionary the source returns, in its key order.
\<close>

definition pstr :: "pyval \<Rightarrow> string" where
  "pstr v = (case v of PStr s \<Rightarrow> s | _ \<Rightarrow> [])"

lemma pstr_PStr [simp]: "pstr (PStr s) = s"
  by (simp add: pstr_def)

subsection \<open>RGB plane\<close>

record rgb_plane =
  rgb_encoding :: string
  rgb_width_px :: int
  rgb_height_px :: int
  rgb_data_base64 :: string
  rgb_sha256 :: string

definition RGB_ENCODINGS :: "string list" where
  "RGB_ENCODINGS = [''png'', ''jpeg'']"

definition png_signature :: string where
  "png_signature = [CHR 0x89, CHR ''P'', CHR ''N'', CHR ''G'', CHR 0x0D, CHR 0x0A, CHR 0x1A, CHR 0x0A]"

definition jpeg_signature :: string where
  "jpeg_signature = [CHR 0xFF, CHR 0xD8]"

definition starts_with :: "string \<Rightarrow> string \<Rightarrow> bool" where
  "starts_with s p = (take (length p) s = p)"

definition validate_rgb_plane :: "pylib \<Rightarrow> pyval \<Rightarrow> py_exc + rgb_plane" where
  "validate_rgb_plane L v =
     bindE (c_mapping v ''result.rgb'') (\<lambda>src.
     bindE (c_fields src [''encoding'', ''width_px'', ''height_px'', ''data_base64'', ''sha256''] []
              ''result.rgb'') (\<lambda>_.
     bindE (require_in (dget src ''encoding'') RGB_ENCODINGS
              (ContractError ''PORTABLE_RGB_ENCODING_UNSUPPORTED'' ''result.rgb.encoding'')) (\<lambda>_.
     bindE (c_integer 1 MAX_FRAME_DIMENSION_PX (dget src ''width_px'') ''result.rgb.width_px'') (\<lambda>width.
     bindE (c_integer 1 MAX_FRAME_DIMENSION_PX (dget src ''height_px'') ''result.rgb.height_px'') (\<lambda>height.
     bindE (c_sha256 (dget src ''sha256'') ''result.rgb.sha256'') (\<lambda>digest.
     bindE (c_inline_bytes L digest (dget src ''data_base64'') ''result.rgb.data_base64'') (\<lambda>raw.
     bindE (guardE (raw \<noteq> []) (ContractError ''PORTABLE_RGB_EMPTY'' ''result.rgb.data_base64'')) (\<lambda>_.
     bindE (guardE (\<not> (dget src ''encoding'' = PStr ''png'' \<and> \<not> starts_with raw png_signature))
              (ContractError ''PORTABLE_RGB_SIGNATURE_INVALID'' ''result.rgb.data_base64'')) (\<lambda>_.
     bindE (guardE (\<not> (dget src ''encoding'' = PStr ''jpeg'' \<and> \<not> starts_with raw jpeg_signature))
              (ContractError ''PORTABLE_RGB_SIGNATURE_INVALID'' ''result.rgb.data_base64'')) (\<lambda>_.
     Inr \<lparr>rgb_encoding = pstr (dget src ''encoding''), rgb_width_px = width, rgb_height_px = height,
          rgb_data_base64 = pstr (dget src ''data_base64''), rgb_sha256 = digest\<rparr>))))))))))"

definition rgb_val :: "rgb_plane \<Rightarrow> pyval" where
  "rgb_val r = PDict [(''encoding'', PStr (rgb_encoding r)), (''width_px'', PInt (rgb_width_px r)),
     (''height_px'', PInt (rgb_height_px r)), (''data_base64'', PStr (rgb_data_base64 r)),
     (''sha256'', PStr (rgb_sha256 r))]"

subsection \<open>Depth\<close>

record dense_depth =
  dd_encoding :: string
  dd_measurement_model :: string
  dd_invalid_value :: pyval
  dd_width_px :: int
  dd_height_px :: int
  dd_alignment :: string
  dd_data_base64 :: string
  dd_sha256 :: string

record depth_sample =
  ds_uv :: "rat \<times> rat"
  ds_distance_m :: rat
  ds_confidence :: rat
  ds_surface_id :: "string option"
  ds_surface_role :: "string option"

record sparse_depth =
  sd_alignment :: string
  sd_samples :: "depth_sample list"
  sd_samples_sha256 :: string
  sd_semantics_revision :: "string option"

datatype depth_plane = DenseDepth dense_depth | SparseDepth sparse_depth

definition DEPTH_ENCODINGS :: "string list" where
  "DEPTH_ENCODINGS = [''f32_le_m'', ''u16_le_mm'']"

definition DEPTH_ALIGNMENTS :: "string list" where
  "DEPTH_ALIGNMENTS = [''registered_normalized_to_rgb'']"

definition DEPTH_MEASUREMENT_MODELS :: "string list" where
  "DEPTH_MEASUREMENT_MODELS = [''optical_axis_z_m'', ''ray_range_m'']"

definition validate_dense_depth :: "pylib \<Rightarrow> (string \<times> pyval) list \<Rightarrow> py_exc + dense_depth" where
  "validate_dense_depth L src =
     bindE (c_fields src [''representation'', ''encoding'', ''measurement_model'', ''width_px'', ''height_px'',
              ''alignment'', ''invalid_value'', ''data_base64'', ''sha256''] [] ''result.depth'') (\<lambda>_.
     bindE (require_in (dget src ''alignment'') DEPTH_ALIGNMENTS
              (ContractError ''PORTABLE_DEPTH_ALIGNMENT_UNSUPPORTED'' ''result.depth.alignment'')) (\<lambda>_.
     bindE (require_in (dget src ''encoding'') DEPTH_ENCODINGS
              (ContractError ''PORTABLE_DEPTH_ENCODING_UNSUPPORTED'' ''result.depth.encoding'')) (\<lambda>_.
     bindE (require_in (dget src ''measurement_model'') DEPTH_MEASUREMENT_MODELS
              (ContractError ''PORTABLE_DEPTH_MEASUREMENT_MODEL_UNSUPPORTED'' ''result.depth.measurement_model'')) (\<lambda>_.
     bindE (if dget src ''encoding'' = PStr ''f32_le_m''
            then require_in (dget src ''invalid_value'') [''nan'', ''zero'']
              (ContractError ''PORTABLE_DEPTH_INVALID_VALUE_UNSUPPORTED'' ''result.depth.invalid_value'')
            else guardE (case dget src ''invalid_value'' of PInt n \<Rightarrow> 0 \<le> n \<and> n \<le> 65535 | _ \<Rightarrow> False)
              (ContractError ''PORTABLE_DEPTH_INVALID_VALUE_UNSUPPORTED'' ''result.depth.invalid_value'')) (\<lambda>_.
     bindE (c_integer 1 MAX_FRAME_DIMENSION_PX (dget src ''width_px'') ''result.depth.width_px'') (\<lambda>width.
     bindE (c_integer 1 MAX_FRAME_DIMENSION_PX (dget src ''height_px'') ''result.depth.height_px'') (\<lambda>height.
     bindE (c_sha256 (dget src ''sha256'') ''result.depth.sha256'') (\<lambda>digest.
     bindE (c_inline_bytes L digest (dget src ''data_base64'') ''result.depth.data_base64'') (\<lambda>raw.
     bindE (guardE (int (length raw) = width * height * (if dget src ''encoding'' = PStr ''f32_le_m'' then 4 else 2))
              (ContractError ''PORTABLE_DEPTH_SIZE_MISMATCH'' ''result.depth.data_base64'')) (\<lambda>_.
     Inr \<lparr>dd_encoding = pstr (dget src ''encoding''),
          dd_measurement_model = pstr (dget src ''measurement_model''),
          dd_invalid_value = dget src ''invalid_value'', dd_width_px = width, dd_height_px = height,
          dd_alignment = pstr (dget src ''alignment''),
          dd_data_base64 = pstr (dget src ''data_base64''), dd_sha256 = digest\<rparr>))))))))))"

definition dense_val :: "dense_depth \<Rightarrow> pyval" where
  "dense_val d = PDict [(''representation'', PStr ''dense''), (''encoding'', PStr (dd_encoding d)),
     (''measurement_model'', PStr (dd_measurement_model d)), (''invalid_value'', dd_invalid_value d),
     (''width_px'', PInt (dd_width_px d)), (''height_px'', PInt (dd_height_px d)),
     (''alignment'', PStr (dd_alignment d)), (''data_base64'', PStr (dd_data_base64 d)),
     (''sha256'', PStr (dd_sha256 d))]"

text \<open>An optional key of a returned dictionary.\<close>

definition opt_item :: "string \<Rightarrow> ('a \<Rightarrow> pyval) \<Rightarrow> 'a option \<Rightarrow> (string \<times> pyval) list" where
  "opt_item k emb x = (case x of None \<Rightarrow> [] | Some y \<Rightarrow> [(k, emb y)])"

definition sample_val :: "depth_sample \<Rightarrow> pyval" where
  "sample_val s = PDict ([(''uv_norm'', PList [num_val (fst (ds_uv s)), num_val (snd (ds_uv s))]),
     (''distance_m'', num_val (ds_distance_m s)), (''confidence'', num_val (ds_confidence s))]
     @ opt_item ''surface_id'' PStr (ds_surface_id s)
     @ opt_item ''surface_role'' PStr (ds_surface_role s))"

text \<open>
  One sample of the sparse loop, before the duplicate and role-conflict checks against the
  earlier samples, and the loop body with its state: the samples so far, the image points
  seen and the role recorded for every surface id.
\<close>

definition sparse_uv :: "pyval \<Rightarrow> string \<Rightarrow> py_exc + rat \<times> rat" where
  "sparse_uv v field =
     (case seq2 v of
        Some (a, b) \<Rightarrow>
          bindE (c_number (Some 0) (Some 1) a (field @ ''.uv_norm[0]'')) (\<lambda>u.
          bindE (c_number (Some 0) (Some 1) b (field @ ''.uv_norm[1]'')) (\<lambda>w. Inr (u, w)))
      | None \<Rightarrow> cerr ''PORTABLE_DEPTH_SAMPLE_UV_INVALID'' field)"

definition optE :: "(string \<times> pyval) list \<Rightarrow> string \<Rightarrow> (pyval \<Rightarrow> py_exc + 'a) \<Rightarrow> py_exc + 'a option" where
  "optE d k f = (if has_key d k then bindE (f (dget d k)) (\<lambda>r. Inr (Some r)) else Inr None)"

type_synonym sparse_state = "depth_sample list \<times> (rat \<times> rat) list \<times> (string \<times> string) list"

definition sparse_step :: "nat \<Rightarrow> sparse_state \<Rightarrow> pyval \<Rightarrow> py_exc + sparse_state" where
  "sparse_step i st raw = (case st of (samples, seen_uv, roles) \<Rightarrow>
     let field = indexed ''result.depth.samples'' i in
     bindE (c_mapping raw field) (\<lambda>src.
     bindE (c_fields src [''uv_norm'', ''distance_m'', ''confidence''] [''surface_id'', ''surface_role''] field) (\<lambda>_.
     bindE (sparse_uv (dget src ''uv_norm'') field) (\<lambda>uv.
     bindE (guardE (uv \<notin> set seen_uv) (ContractError ''PORTABLE_DEPTH_SAMPLE_DUPLICATE'' field)) (\<lambda>_.
     bindE (c_number (Some (lit (1/1000))) (Some 10000) (dget src ''distance_m'') (field @ ''.distance_m'')) (\<lambda>dist.
     bindE (c_number (Some 0) (Some 1) (dget src ''confidence'') (field @ ''.confidence'')) (\<lambda>conf.
     bindE (optE src ''surface_id'' (\<lambda>v. c_surface_identifier v (field @ ''.surface_id''))) (\<lambda>sid.
     bindE (optE src ''surface_role'' (\<lambda>v. c_surface_role v (field @ ''.surface_role''))) (\<lambda>role.
     let sample = \<lparr>ds_uv = uv, ds_distance_m = dist, ds_confidence = conf,
                   ds_surface_id = sid, ds_surface_role = role\<rparr>;
         st' = (\<lambda>roles'. (samples @ [sample], uv # seen_uv, roles')) in
     case role of None \<Rightarrow> Inr (st' roles)
     | Some r \<Rightarrow>
         (case sid of None \<Rightarrow> cerr ''PORTABLE_SURFACE_ROLE_REQUIRES_SURFACE_ID'' (field @ ''.surface_role'')
          | Some s \<Rightarrow>
              (case map_of roles s of
                 None \<Rightarrow> Inr (st' ((s, r) # roles))
               | Some previous \<Rightarrow>
                   if previous \<noteq> r then cerr ''PORTABLE_SURFACE_ID_ROLE_CONFLICT'' (field @ ''.surface_role'')
                   else Inr (st' roles))))))))))))"

fun sparse_loop :: "nat \<Rightarrow> sparse_state \<Rightarrow> pyval list \<Rightarrow> py_exc + sparse_state" where
  "sparse_loop i st [] = Inr st"
| "sparse_loop i st (v # vs) = bindE (sparse_step i st v) (\<lambda>st'. sparse_loop (Suc i) st' vs)"

definition validate_sparse_depth :: "pylib \<Rightarrow> (string \<times> pyval) list \<Rightarrow> py_exc + sparse_depth" where
  "validate_sparse_depth L src =
     bindE (c_fields src [''representation'', ''measurement_model'', ''alignment'', ''samples'', ''samples_sha256'']
              [''surface_id_semantics_revision''] ''result.depth'') (\<lambda>_.
     bindE (require_in (dget src ''alignment'') DEPTH_ALIGNMENTS
              (ContractError ''PORTABLE_DEPTH_ALIGNMENT_UNSUPPORTED'' ''result.depth.alignment'')) (\<lambda>_.
     bindE (guardE (dget src ''measurement_model'' = PStr ''ray_range_m'')
              (ContractError ''PORTABLE_DEPTH_MEASUREMENT_MODEL_UNSUPPORTED'' ''result.depth.measurement_model'')) (\<lambda>_.
     bindE (case list_elems (dget src ''samples'') of
              Some vs \<Rightarrow> if 1 \<le> length vs \<and> length vs \<le> MAX_SPARSE_DEPTH_SAMPLES then Inr vs
                         else cerr ''PORTABLE_DEPTH_SAMPLES_INVALID'' ''result.depth.samples''
            | None \<Rightarrow> cerr ''PORTABLE_DEPTH_SAMPLES_INVALID'' ''result.depth.samples'') (\<lambda>raw.
     bindE (sparse_loop 0 ([], [], []) raw) (\<lambda>(samples, _, _).
     let rev = dget src ''surface_id_semantics_revision'' in
     bindE (guardE (\<not> (rev \<noteq> PNone \<and> rev \<noteq> PStr SURFACE_ID_SEMANTICS_REVISION))
              (ContractError ''PORTABLE_SURFACE_ID_SEMANTICS_MISMATCH'' ''result.depth.surface_id_semantics_revision'')) (\<lambda>_.
     bindE (guardE (\<not> (list_ex (\<lambda>s. ds_surface_id s \<noteq> None) samples \<and> rev \<noteq> PStr SURFACE_ID_SEMANTICS_REVISION))
              (ContractError ''PORTABLE_SURFACE_ID_SEMANTICS_MISMATCH'' ''result.depth.surface_id_semantics_revision'')) (\<lambda>_.
     bindE (c_sha256 (dget src ''samples_sha256'') ''result.depth.samples_sha256'') (\<lambda>expected.
     bindE (c_canonical_sha256 L (PList (map sample_val samples)) ''result.depth.samples'') (\<lambda>digest.
     bindE (guardE (digest = expected)
              (ContractError ''PORTABLE_DATA_HASH_MISMATCH'' ''result.depth.samples'')) (\<lambda>_.
     Inr \<lparr>sd_alignment = pstr (dget src ''alignment''), sd_samples = samples, sd_samples_sha256 = expected,
          sd_semantics_revision = (if rev = PNone then None else Some (pstr rev))\<rparr>))))))))))"

definition sparse_val :: "sparse_depth \<Rightarrow> pyval" where
  "sparse_val d = PDict ([(''representation'', PStr ''sparse_rays''), (''measurement_model'', PStr ''ray_range_m''),
     (''alignment'', PStr (sd_alignment d)), (''samples'', PList (map sample_val (sd_samples d))),
     (''samples_sha256'', PStr (sd_samples_sha256 d))]
     @ opt_item ''surface_id_semantics_revision'' PStr (sd_semantics_revision d))"

definition validate_depth :: "pylib \<Rightarrow> pyval \<Rightarrow> py_exc + depth_plane option" where
  "validate_depth L v =
     (if v = PNone then Inr None else
      bindE (c_mapping v ''result.depth'') (\<lambda>src.
      if dget src ''representation'' = PStr ''dense''
      then bindE (validate_dense_depth L src) (\<lambda>d. Inr (Some (DenseDepth d)))
      else if dget src ''representation'' = PStr ''sparse_rays''
      then bindE (validate_sparse_depth L src) (\<lambda>d. Inr (Some (SparseDepth d)))
      else cerr ''PORTABLE_DEPTH_REPRESENTATION_UNSUPPORTED'' ''result.depth.representation''))"

fun depth_val :: "depth_plane option \<Rightarrow> pyval" where
  "depth_val None = PNone"
| "depth_val (Some (DenseDepth d)) = dense_val d"
| "depth_val (Some (SparseDepth d)) = sparse_val d"

subsection \<open>Camera\<close>

record intrinsics =
  fx_px :: rat
  fy_px :: rat
  cx_px :: rat
  cy_px :: rat

record camera =
  cam_coordinate_frame_id :: string
  cam_position_m :: vec3
  cam_orientation_xyzw :: vec4
  cam_intrinsics :: intrinsics

definition validate_camera :: "pyval \<Rightarrow> py_exc + camera" where
  "validate_camera v =
     bindE (c_mapping v ''result.camera'') (\<lambda>src.
     bindE (c_fields src [''coordinate_frame_id'', ''coordinate_convention'', ''position_m'',
              ''orientation_xyzw'', ''intrinsics''] [] ''result.camera'') (\<lambda>_.
     bindE (guardE (dget src ''coordinate_convention'' = PStr COORDINATE_CONVENTION)
              (ContractError ''PORTABLE_COORDINATE_CONVENTION_MISMATCH'' ''result.camera'')) (\<lambda>_.
     bindE (c_mapping (dget src ''intrinsics'') ''result.camera.intrinsics'') (\<lambda>k.
     bindE (c_fields k [''fx_px'', ''fy_px'', ''cx_px'', ''cy_px''] [] ''result.camera.intrinsics'') (\<lambda>_.
     bindE (c_identifier (dget src ''coordinate_frame_id'') ''result.camera.coordinate_frame_id'') (\<lambda>frame.
     bindE (c_vector3 (dget src ''position_m'') ''result.camera.position_m'') (\<lambda>position.
     bindE (c_quaternion (dget src ''orientation_xyzw'') ''result.camera.orientation_xyzw'') (\<lambda>orientation.
     bindE (c_number (Some (lit (1/1000))) None (dget k ''fx_px'') ''result.camera.intrinsics.fx_px'') (\<lambda>fx.
     bindE (c_number (Some (lit (1/1000))) None (dget k ''fy_px'') ''result.camera.intrinsics.fy_px'') (\<lambda>fy.
     bindE (c_number (Some 0) None (dget k ''cx_px'') ''result.camera.intrinsics.cx_px'') (\<lambda>cx.
     bindE (c_number (Some 0) None (dget k ''cy_px'') ''result.camera.intrinsics.cy_px'') (\<lambda>cy.
     Inr \<lparr>cam_coordinate_frame_id = frame, cam_position_m = position, cam_orientation_xyzw = orientation,
          cam_intrinsics = \<lparr>fx_px = fx, fy_px = fy, cx_px = cx, cy_px = cy\<rparr>\<rparr>))))))))))))"

definition camera_val :: "camera \<Rightarrow> pyval" where
  "camera_val c = PDict [(''coordinate_frame_id'', PStr (cam_coordinate_frame_id c)),
     (''coordinate_convention'', PStr COORDINATE_CONVENTION), (''position_m'', v3_val (cam_position_m c)),
     (''orientation_xyzw'', v4_val (cam_orientation_xyzw c)),
     (''intrinsics'', PDict [(''fx_px'', num_val (fx_px (cam_intrinsics c))), (''fy_px'', num_val (fy_px (cam_intrinsics c))),
        (''cx_px'', num_val (cx_px (cam_intrinsics c))), (''cy_px'', num_val (cy_px (cam_intrinsics c)))])]"

subsection \<open>Capture\<close>

definition CAPTURE_REQUEST_SCHEMA :: string where
  "CAPTURE_REQUEST_SCHEMA = ''lumina.portable.capture.request.v1''"

definition CAPTURE_RESULT_SCHEMA :: string where
  "CAPTURE_RESULT_SCHEMA = ''lumina.portable.capture.result.v1''"

record capture_request = request_head +
  cq_require_depth :: bool
  cq_max_age_ms :: int

record capture_result = result_head +
  cap_frame_id :: string
  cap_captured_unix :: rat
  cap_rgb :: rgb_plane
  cap_depth :: "depth_plane option"
  cap_camera :: camera

definition capture_request_val :: "capture_request \<Rightarrow> pyval" where
  "capture_request_val q = PDict (request_head_items CAPTURE_REQUEST_SCHEMA q
     @ [(''require_depth'', PBool (cq_require_depth q)), (''max_age_ms'', PInt (cq_max_age_ms q))])"

definition validate_capture_request :: "pyval \<Rightarrow> py_exc + capture_request" where
  "validate_capture_request v =
     bindE (c_common_request v CAPTURE_REQUEST_SCHEMA [''require_depth'', ''max_age_ms''] []) (\<lambda>(src, h).
     bindE (c_boolean (dget src ''require_depth'') ''request.require_depth'') (\<lambda>depth.
     bindE (c_integer 1 5000 (dget src ''max_age_ms'') ''request.max_age_ms'') (\<lambda>age.
     let q = request_head.extend h \<lparr>cq_require_depth = depth, cq_max_age_ms = age\<rparr> in
     bindE (c_canonical_json (capture_request_val q) ''request'') (\<lambda>_. Inr q))))"

definition capture_result_val :: "capture_result \<Rightarrow> pyval" where
  "capture_result_val r = PDict (result_head_items CAPTURE_RESULT_SCHEMA r
     @ [(''frame_id'', PStr (cap_frame_id r)), (''captured_unix'', num_val (cap_captured_unix r)),
        (''rgb'', rgb_val (cap_rgb r)), (''depth'', depth_val (cap_depth r)),
        (''camera'', camera_val (cap_camera r))])"

text \<open>\<open>expected["requested_unix"] - expected["max_age_ms"] / 1000.0\<close>.\<close>

definition capture_earliest :: "capture_request \<Rightarrow> py_exc + pyfloat" where
  "capture_earliest q =
     bindE (float_of_int (cq_max_age_ms q)) (\<lambda>ms.
     bindE (fdiv ms (Fin 1000)) (\<lambda>age. Inr (fsub (Fin (rq_requested_unix q)) age)))"

definition check_capture_request :: "pyval \<Rightarrow> capture_result \<Rightarrow> py_exc + unit" where
  "check_capture_request request r =
     (if request = PNone then Inr () else
      bindE (validate_capture_request request) (\<lambda>q.
      bindE (c_cross_common q r) (\<lambda>_.
      bindE (capture_earliest q) (\<lambda>earliest.
      bindE (guardE (\<not> flt (Fin (cap_captured_unix r)) earliest)
               (ContractError ''PORTABLE_CAPTURE_STALE'' ''result.captured_unix'')) (\<lambda>_.
      guardE (\<not> (cq_require_depth q \<and> cap_depth r = None))
               (ContractError ''PORTABLE_DEPTH_REQUIRED'' ''result.depth''))))))"

definition validate_capture_result :: "pylib \<Rightarrow> pyval \<Rightarrow> pyval \<Rightarrow> pyval \<Rightarrow> py_exc + capture_result" where
  "validate_capture_result L v request now_unix =
     bindE (c_common_result v CAPTURE_RESULT_SCHEMA
              [''frame_id'', ''captured_unix'', ''rgb'', ''depth'', ''camera''] []) (\<lambda>(src, h).
     bindE (validate_rgb_plane L (dget src ''rgb'')) (\<lambda>rgb.
     bindE (validate_depth L (dget src ''depth'')) (\<lambda>depth.
     bindE (c_identifier (dget src ''frame_id'') ''result.frame_id'') (\<lambda>frame.
     bindE (c_timestamp (dget src ''captured_unix'') ''result.captured_unix'') (\<lambda>captured.
     bindE (validate_camera (dget src ''camera'')) (\<lambda>camera.
     let r = result_head.extend h \<lparr>cap_frame_id = frame, cap_captured_unix = captured, cap_rgb = rgb,
               cap_depth = depth, cap_camera = camera\<rparr> in
     bindE (c_not_future captured now_unix ''result.captured_unix'') (\<lambda>_.
     bindE (check_capture_request request r) (\<lambda>_.
     bindE (c_canonical_json (capture_result_val r) ''result'') (\<lambda>_. Inr r)))))))))"

subsection \<open>Map\<close>

definition MAP_REQUEST_SCHEMA :: string where
  "MAP_REQUEST_SCHEMA = ''lumina.portable.map.request.v1''"

definition MAP_RESULT_SCHEMA :: string where
  "MAP_RESULT_SCHEMA = ''lumina.portable.map.result.v1''"

record map_request = request_head +
  mq_source_frame_id :: string
  mq_resolution_m :: rat
  mq_footprint_radius_m :: rat

record grid =
  width_cells :: int
  height_cells :: int
  resolution_m :: rat
  origin_position_m :: vec3
  origin_orientation_xyzw :: vec4
  occupancy_base64 :: string
  occupancy_sha256 :: string
  unknown_value :: int
  occupied_threshold :: int

record agent =
  agent_position_m :: vec3
  agent_orientation_xyzw :: vec4
  agent_footprint_radius_m :: rat

record map_result = result_head +
  mr_map_id :: string
  mr_source_frame_id :: string
  mr_created_unix :: rat
  mr_coordinate_frame_id :: string
  mr_grid :: grid
  mr_agent :: agent

definition map_request_val :: "map_request \<Rightarrow> pyval" where
  "map_request_val q = PDict (request_head_items MAP_REQUEST_SCHEMA q
     @ [(''source_frame_id'', PStr (mq_source_frame_id q)), (''resolution_m'', num_val (mq_resolution_m q)),
        (''footprint_radius_m'', num_val (mq_footprint_radius_m q))])"

definition validate_map_request :: "pyval \<Rightarrow> py_exc + map_request" where
  "validate_map_request v =
     bindE (c_common_request v MAP_REQUEST_SCHEMA
              [''source_frame_id'', ''resolution_m'', ''footprint_radius_m''] []) (\<lambda>(src, h).
     bindE (c_identifier (dget src ''source_frame_id'') ''request.source_frame_id'') (\<lambda>frame.
     bindE (c_number (Some (lit (1/100))) (Some 2) (dget src ''resolution_m'') ''request.resolution_m'') (\<lambda>res.
     bindE (c_number (Some (lit (1/100))) (Some 5) (dget src ''footprint_radius_m'') ''request.footprint_radius_m'') (\<lambda>rad.
     let q = request_head.extend h \<lparr>mq_source_frame_id = frame, mq_resolution_m = res, mq_footprint_radius_m = rad\<rparr> in
     bindE (c_canonical_json (map_request_val q) ''request'') (\<lambda>_. Inr q)))))"

definition validate_grid :: "pylib \<Rightarrow> pyval \<Rightarrow> py_exc + grid" where
  "validate_grid L v =
     bindE (c_mapping v ''result.grid'') (\<lambda>src.
     bindE (c_fields src [''width_cells'', ''height_cells'', ''resolution_m'', ''origin_position_m'',
              ''origin_orientation_xyzw'', ''occupancy_encoding'', ''occupancy_base64'', ''occupancy_sha256'',
              ''unknown_value'', ''occupied_threshold''] [] ''result.grid'') (\<lambda>_.
     bindE (c_integer 1 MAX_GRID_DIMENSION_CELLS (dget src ''width_cells'') ''result.grid.width_cells'') (\<lambda>width.
     bindE (c_integer 1 MAX_GRID_DIMENSION_CELLS (dget src ''height_cells'') ''result.grid.height_cells'') (\<lambda>height.
     bindE (guardE (width * height \<le> MAX_GRID_CELLS)
              (ContractError ''PORTABLE_GRID_TOO_LARGE'' ''result.grid'')) (\<lambda>_.
     bindE (guardE (dget src ''occupancy_encoding'' = PStr ''u8_probability'')
              (ContractError ''PORTABLE_OCCUPANCY_ENCODING_UNSUPPORTED'' ''result.grid.occupancy_encoding'')) (\<lambda>_.
     bindE (c_sha256 (dget src ''occupancy_sha256'') ''result.grid.occupancy_sha256'') (\<lambda>digest.
     bindE (c_inline_bytes L digest (dget src ''occupancy_base64'') ''result.grid.occupancy_base64'') (\<lambda>raw.
     bindE (guardE (int (length raw) = width * height)
              (ContractError ''PORTABLE_OCCUPANCY_SIZE_MISMATCH'' ''result.grid.occupancy_base64'')) (\<lambda>_.
     bindE (c_integer 0 255 (dget src ''unknown_value'') ''result.grid.unknown_value'') (\<lambda>unknown.
     bindE (c_integer 1 255 (dget src ''occupied_threshold'') ''result.grid.occupied_threshold'') (\<lambda>threshold.
     bindE (guardE (unknown < threshold)
              (ContractError ''PORTABLE_OCCUPANCY_SEMANTICS_INVALID'' ''result.grid'')) (\<lambda>_.
     bindE (c_number (Some (lit (1/100))) (Some 2) (dget src ''resolution_m'') ''result.grid.resolution_m'') (\<lambda>res.
     bindE (c_vector3 (dget src ''origin_position_m'') ''result.grid.origin_position_m'') (\<lambda>origin.
     bindE (c_quaternion (dget src ''origin_orientation_xyzw'') ''result.grid.origin_orientation_xyzw'') (\<lambda>orient.
     Inr \<lparr>width_cells = width, height_cells = height, resolution_m = res, origin_position_m = origin,
          origin_orientation_xyzw = orient, occupancy_base64 = pstr (dget src ''occupancy_base64''),
          occupancy_sha256 = digest, unknown_value = unknown, occupied_threshold = threshold\<rparr>)))))))))))))))"

definition grid_val :: "grid \<Rightarrow> pyval" where
  "grid_val g = PDict [(''width_cells'', PInt (width_cells g)), (''height_cells'', PInt (height_cells g)),
     (''resolution_m'', num_val (resolution_m g)), (''origin_position_m'', v3_val (origin_position_m g)),
     (''origin_orientation_xyzw'', v4_val (origin_orientation_xyzw g)),
     (''occupancy_encoding'', PStr ''u8_probability''), (''occupancy_base64'', PStr (occupancy_base64 g)),
     (''occupancy_sha256'', PStr (occupancy_sha256 g)), (''unknown_value'', PInt (unknown_value g)),
     (''occupied_threshold'', PInt (occupied_threshold g))]"

definition validate_agent :: "pyval \<Rightarrow> py_exc + agent" where
  "validate_agent v =
     bindE (c_mapping v ''result.agent'') (\<lambda>src.
     bindE (c_fields src [''position_m'', ''orientation_xyzw'', ''footprint_radius_m''] [] ''result.agent'') (\<lambda>_.
     bindE (c_vector3 (dget src ''position_m'') ''result.agent.position_m'') (\<lambda>pos.
     bindE (c_quaternion (dget src ''orientation_xyzw'') ''result.agent.orientation_xyzw'') (\<lambda>orient.
     bindE (c_number (Some (lit (1/100))) (Some 5) (dget src ''footprint_radius_m'') ''result.agent.footprint_radius_m'') (\<lambda>rad.
     Inr \<lparr>agent_position_m = pos, agent_orientation_xyzw = orient, agent_footprint_radius_m = rad\<rparr>)))))"

definition agent_val :: "agent \<Rightarrow> pyval" where
  "agent_val a = PDict [(''position_m'', v3_val (agent_position_m a)),
     (''orientation_xyzw'', v4_val (agent_orientation_xyzw a)),
     (''footprint_radius_m'', num_val (agent_footprint_radius_m a))]"

definition map_result_val :: "map_result \<Rightarrow> pyval" where
  "map_result_val r = PDict (result_head_items MAP_RESULT_SCHEMA r
     @ [(''map_id'', PStr (mr_map_id r)), (''source_frame_id'', PStr (mr_source_frame_id r)),
        (''created_unix'', num_val (mr_created_unix r)),
        (''coordinate_frame_id'', PStr (mr_coordinate_frame_id r)),
        (''coordinate_convention'', PStr COORDINATE_CONVENTION),
        (''grid'', grid_val (mr_grid r)), (''agent'', agent_val (mr_agent r))])"

text \<open>\<open>math.isclose(a, b, rel_tol=0.0, abs_tol=1e-9)\<close> of two finite numbers.\<close>

definition isclose_nano :: "rat \<Rightarrow> rat \<Rightarrow> bool" where
  "isclose_nano a b = (a = b \<or> fle (fabs (fsub (Fin b) (Fin a))) (Fin (lit (1/1000000000))))"

definition check_map_request :: "pyval \<Rightarrow> map_result \<Rightarrow> py_exc + unit" where
  "check_map_request request r =
     (if request = PNone then Inr () else
      bindE (validate_map_request request) (\<lambda>q.
      bindE (c_cross_common q r) (\<lambda>_.
      bindE (guardE (\<not> before_request (mr_created_unix r) (rq_requested_unix q))
               (ContractError ''PORTABLE_MAP_STALE'' ''result.created_unix'')) (\<lambda>_.
      bindE (guardE (mr_source_frame_id r = mq_source_frame_id q)
               (ContractError ''PORTABLE_LINEAGE_MISMATCH'' ''source_frame_id'')) (\<lambda>_.
      bindE (guardE (isclose_nano (resolution_m (mr_grid r)) (mq_resolution_m q))
               (ContractError ''PORTABLE_MAP_RESOLUTION_MISMATCH'' ''result.grid.resolution_m'')) (\<lambda>_.
      guardE (mq_footprint_radius_m q \<le> agent_footprint_radius_m (mr_agent r))
               (ContractError ''PORTABLE_FOOTPRINT_UNDERSIZED'' ''result.agent.footprint_radius_m'')))))))"

definition validate_map_result :: "pylib \<Rightarrow> pyval \<Rightarrow> pyval \<Rightarrow> pyval \<Rightarrow> py_exc + map_result" where
  "validate_map_result L v request now_unix =
     bindE (c_common_result v MAP_RESULT_SCHEMA [''map_id'', ''source_frame_id'', ''created_unix'',
              ''coordinate_frame_id'', ''coordinate_convention'', ''grid'', ''agent''] []) (\<lambda>(src, h).
     bindE (guardE (dget src ''coordinate_convention'' = PStr COORDINATE_CONVENTION)
              (ContractError ''PORTABLE_COORDINATE_CONVENTION_MISMATCH'' ''result.coordinate_convention'')) (\<lambda>_.
     bindE (c_identifier (dget src ''map_id'') ''result.map_id'') (\<lambda>mid.
     bindE (c_identifier (dget src ''source_frame_id'') ''result.source_frame_id'') (\<lambda>frame.
     bindE (c_timestamp (dget src ''created_unix'') ''result.created_unix'') (\<lambda>created.
     bindE (c_identifier (dget src ''coordinate_frame_id'') ''result.coordinate_frame_id'') (\<lambda>cframe.
     bindE (validate_grid L (dget src ''grid'')) (\<lambda>g.
     bindE (validate_agent (dget src ''agent'')) (\<lambda>a.
     let r = result_head.extend h \<lparr>mr_map_id = mid, mr_source_frame_id = frame, mr_created_unix = created,
               mr_coordinate_frame_id = cframe, mr_grid = g, mr_agent = a\<rparr> in
     bindE (c_not_future created now_unix ''result.created_unix'') (\<lambda>_.
     bindE (check_map_request request r) (\<lambda>_.
     bindE (c_canonical_json (map_result_val r) ''result'') (\<lambda>_. Inr r)))))))))))"

subsection \<open>Accepted envelopes are accepted again\<close>

lemma rgb_refeed: "validate_rgb_plane L v = Inr r \<Longrightarrow> validate_rgb_plane L (rgb_val r) = Inr r"
  by (simp only: validate_rgb_plane_def accept_iffs; elim exE conjE; (hypsubst)+)
    (simp add: rgb_val_def; simp add: c_fields_Inr)

lemma dense_refeed:
  "validate_dense_depth L src = Inr d \<Longrightarrow>
     \<exists>src'. dense_val d = PDict src' \<and> dget src' ''representation'' = PStr ''dense''
       \<and> validate_dense_depth L src' = Inr d"
  by (simp only: validate_dense_depth_def accept_iffs; elim exE conjE; (hypsubst)+)
    (simp add: dense_val_def split: if_splits; simp add: c_fields_Inr)

lemma camera_refeed: "validate_camera v = Inr c \<Longrightarrow> validate_camera (camera_val c) = Inr c"
  by (simp only: validate_camera_def accept_iffs; elim exE conjE; (hypsubst)+)
    (simp add: camera_val_def refeed_facts del: split_paired_Ex; simp add: c_fields_Inr)

lemma grid_refeed: "validate_grid L v = Inr g \<Longrightarrow> validate_grid L (grid_val g) = Inr g"
  by (simp only: validate_grid_def accept_iffs; elim exE conjE; (hypsubst)+)
    (simp add: grid_val_def refeed_facts del: split_paired_Ex; simp add: c_fields_Inr)

lemma agent_refeed: "validate_agent v = Inr a \<Longrightarrow> validate_agent (agent_val a) = Inr a"
  by (simp only: validate_agent_def accept_iffs; elim exE conjE; (hypsubst)+)
    (simp add: agent_val_def refeed_facts del: split_paired_Ex; simp add: c_fields_Inr)

lemma optE_Inr: "optE d k f = Inr x \<longleftrightarrow> (if has_key d k then \<exists>r. f (dget d k) = Inr r \<and> x = Some r else x = None)"
  by (auto simp: optE_def bindE_Inr_iff)

lemma opt_item_simps [simp]:
  "opt_item k emb None = []" "opt_item k emb (Some y) = [(k, emb y)]"
  by (simp_all add: opt_item_def)

lemma sparse_uv_Inr:
  "sparse_uv v f = Inr uv \<longleftrightarrow> (\<exists>a b u w. seq2 v = Some (a, b) \<and> uv = (u, w)
     \<and> as_number a = Some u \<and> as_number b = Some w \<and> 0 \<le> u \<and> u \<le> 1 \<and> 0 \<le> w \<and> w \<le> 1)"
  by (auto simp: sparse_uv_def bindE_Inr_iff c_number_Inr split: option.splits)

text \<open>What an accepted sample and its state satisfy.\<close>

definition sample_fits :: "sparse_state \<Rightarrow> depth_sample \<Rightarrow> bool" where
  "sample_fits st s = (case st of (samples, seen_uv, roles) \<Rightarrow>
     ds_uv s \<notin> set seen_uv
     \<and> 0 \<le> fst (ds_uv s) \<and> fst (ds_uv s) \<le> 1 \<and> 0 \<le> snd (ds_uv s) \<and> snd (ds_uv s) \<le> 1
     \<and> lit (1/1000) \<le> ds_distance_m s \<and> ds_distance_m s \<le> 10000
     \<and> 0 \<le> ds_confidence s \<and> ds_confidence s \<le> 1
     \<and> pred_option surface_id_pattern (ds_surface_id s)
     \<and> pred_option (\<lambda>r. r \<in> set SURFACE_ROLES) (ds_surface_role s)
     \<and> (\<forall>r. ds_surface_role s = Some r \<longrightarrow>
          (\<exists>i. ds_surface_id s = Some i \<and> (map_of roles i = None \<or> map_of roles i = Some r))))"

definition add_sample :: "sparse_state \<Rightarrow> depth_sample \<Rightarrow> sparse_state" where
  "add_sample st s = (case st of (samples, seen_uv, roles) \<Rightarrow>
     (samples @ [s], ds_uv s # seen_uv,
      case (ds_surface_role s, ds_surface_id s) of
        (Some r, Some i) \<Rightarrow> if map_of roles i = None then (i, r) # roles else roles
      | _ \<Rightarrow> roles))"

lemma sparse_step_accepts:
  assumes "sparse_step i st raw = Inr st'"
  shows "\<exists>s. sample_fits st s \<and> st' = add_sample st s"
proof -
  obtain samples seen roles where st: "st = (samples, seen, roles)" by (cases st)
  from assms show ?thesis
    unfolding st sparse_step_def Let_def
    apply (simp only: accept_iffs optE_Inr sparse_uv_Inr prod.case)
    apply (elim exE conjE)
    apply (rule exI [where x = "last (fst st')"])
    apply (hypsubst)+
    apply (simp split: option.splits if_splits)
    apply (clarsimp simp: sample_fits_def add_sample_def)+
    done
qed
lemma sparse_step_fits:
  assumes "sample_fits st s"
  shows "sparse_step i st (sample_val s) = Inr (add_sample st s)"
proof -
  obtain samples seen roles where st: "st = (samples, seen, roles)" by (cases st)
  obtain u w d c si sr where s: "s = \<lparr>ds_uv = (u, w), ds_distance_m = d, ds_confidence = c,
                   ds_surface_id = si, ds_surface_role = sr\<rparr>" by (cases s) auto
  have uv: "sparse_uv (PList [num_val u, num_val w]) f = Inr (u, w)" for f
    using assms by (simp add: sparse_uv_Inr s sample_fits_def st)
  have n: "c_number (Some (lit (1/1000))) (Some 10000) (num_val d) f = Inr d" 
      "c_number (Some 0) (Some 1) (num_val c) f = Inr c" for f
    using assms by (simp_all add: c_number_Inr s sample_fits_def st)
  have o: "si = Some x \<Longrightarrow> c_surface_identifier (PStr x) f = Inr x" 
      "sr = Some x \<Longrightarrow> c_surface_role (PStr x) f = Inr x"for f x
    using assms by (simp_all add: c_surface_identifier_Inr c_surface_role_Inr s sample_fits_def st)
  from assms show ?thesis unfolding sparse_step_def Let_def sample_val_def
    apply (cases si; cases sr)
    apply (simp_all add: st s uv n o c_fields_ok optE_def sample_fits_def add_sample_def)
    apply (auto)
    done
qed

lemma sparse_loop_refeed:
  "sparse_loop i st raws = Inr st' \<Longrightarrow>
     \<exists>ns. fst st' = fst st @ ns \<and> length ns = length raws \<and> sparse_loop j st (map sample_val ns) = Inr st'"
proof (induction raws arbitrary: i j st)
  case Nil
  then show ?case by simp
next
  case (Cons v vs)
  from Cons.prems obtain t where t: "sparse_step i st v = Inr t" and l: "sparse_loop (Suc i) t vs = Inr st'"
    by (auto simp: bindE_Inr_iff)
  obtain s where s: "sample_fits st s" and t': "t = add_sample st s"
    using sparse_step_accepts [OF t] by blast
  obtain ns where ns: "fst st' = fst t @ ns" "length ns = length vs"
    "sparse_loop (Suc j) t (map sample_val ns) = Inr st'"
    using Cons.IH [OF l] by blast
  have "fst t = fst st @ [s]" by (cases st) (simp add: t' add_sample_def)
  with ns have "fst st' = fst st @ (s # ns)" by simp
  moreover have "sparse_loop j st (map sample_val (s # ns)) = Inr st'"
    using ns(3) by (simp add: sparse_step_fits [OF s] t')
  ultimately show ?case using ns(2) by (intro exI [of _ "s # ns"]) simp
qed

text \<open>The state of the loop: image points are distinct, and every role is the recorded one.\<close>

definition sparse_inv :: "sparse_state \<Rightarrow> bool" where
  "sparse_inv st = (case st of (samples, seen_uv, roles) \<Rightarrow>
     seen_uv = rev (map ds_uv samples) \<and> distinct seen_uv
     \<and> (\<forall>s \<in> set samples. \<forall>r. ds_surface_role s = Some r \<longrightarrow>
          (\<exists>i. ds_surface_id s = Some i \<and> map_of roles i = Some r)))"

lemma add_sample_inv:
  assumes inv: "sparse_inv st" and fits: "sample_fits st s"
  shows "sparse_inv (add_sample st s)"
proof -
  obtain samples seen roles where st: "st = (samples, seen, roles)" by (cases st)
  obtain roles' where roles': "add_sample st s = (samples @ [s], ds_uv s # seen, roles')"
    and ext: "\<And>i r. map_of roles i = Some r \<Longrightarrow> map_of roles' i = Some r"
    and own: "\<And>r. ds_surface_role s = Some r \<Longrightarrow> \<exists>i. ds_surface_id s = Some i \<and> map_of roles' i = Some r"
  proof (cases "ds_surface_role s")
    case None
    then show ?thesis using that by (simp add: st add_sample_def)
  next
    case (Some r)
    with fits obtain i where i: "ds_surface_id s = Some i" "map_of roles i = None \<or> map_of roles i = Some r"
      by (auto simp: st sample_fits_def)
    show ?thesis
      by (rule that [of "if map_of roles i = None then (i, r) # roles else roles"])
        (use Some i in \<open>auto simp: st add_sample_def\<close>)
  qed
  have "ds_uv s \<notin> set seen" using fits by (simp add: st sample_fits_def)
  moreover have "seen = rev (map ds_uv samples)" "distinct seen"
    "\<forall>t \<in> set samples. \<forall>r. ds_surface_role t = Some r \<longrightarrow>
       (\<exists>i. ds_surface_id t = Some i \<and> map_of roles' i = Some r)"
    using inv ext unfolding st sparse_inv_def prod.case by blast+
  ultimately show ?thesis using own by (simp add: roles' sparse_inv_def)
qed

lemma sparse_loop_inv: "sparse_loop i st raws = Inr st' \<Longrightarrow> sparse_inv st \<Longrightarrow> sparse_inv st'"
proof (induction raws arbitrary: i st)
  case Nil
  then show ?case by simp
next
  case (Cons v vs)
  from Cons.prems obtain t where "sparse_step i st v = Inr t" and l: "sparse_loop (Suc i) t vs = Inr st'"
    by (auto simp: bindE_Inr_iff)
  then have "sparse_inv t" using sparse_step_accepts add_sample_inv Cons.prems(2) by blast
  then show ?case using Cons.IH [OF l] by blast
qed

lemma json_sample [simp]: "json_ok (sample_val s)"
  by (simp add: sample_val_def opt_item_def num_val_def split: option.split)

text \<open>What an accepted sparse plane went through.\<close>

lemma sparse_shape:
  assumes "validate_sparse_depth L src = Inr d"
  obtains al raw samples seen roles h rv where "al \<in> set DEPTH_ALIGNMENTS"
    and "1 \<le> length raw" and "length raw \<le> MAX_SPARSE_DEPTH_SAMPLES"
    and "sparse_loop 0 ([], [], []) raw = Inr (samples, seen, roles)"
    and "d = \<lparr>sd_alignment = al, sd_samples = samples, sd_samples_sha256 = h, sd_semantics_revision = rv\<rparr>"
    and "\<And>f. c_sha256 (PStr h) f = Inr h"
    and "c_canonical_sha256 L (PList (map sample_val samples)) ''result.depth.samples'' = Inr h"
    and "rv = None \<or> rv = Some SURFACE_ID_SEMANTICS_REVISION"
    and "list_ex (\<lambda>s. ds_surface_id s \<noteq> None) samples \<Longrightarrow> rv = Some SURFACE_ID_SEMANTICS_REVISION"
proof -
  from assms obtain al raw st where s: "dget src ''alignment'' = PStr al" "al \<in> set DEPTH_ALIGNMENTS"
    "dget src ''measurement_model'' = PStr ''ray_range_m''"
    "list_elems (dget src ''samples'') = Some raw" "1 \<le> length raw" "length raw \<le> MAX_SPARSE_DEPTH_SAMPLES"
    "sparse_loop 0 ([], [], []) raw = Inr st"
    and rest: "bindE (Inr st) (\<lambda>(samples, _, _).
     let rev = dget src ''surface_id_semantics_revision'' in
     bindE (guardE (\<not> (rev \<noteq> PNone \<and> rev \<noteq> PStr SURFACE_ID_SEMANTICS_REVISION))
              (ContractError ''PORTABLE_SURFACE_ID_SEMANTICS_MISMATCH'' ''result.depth.surface_id_semantics_revision'')) (\<lambda>_.
     bindE (guardE (\<not> (list_ex (\<lambda>s. ds_surface_id s \<noteq> None) samples \<and> rev \<noteq> PStr SURFACE_ID_SEMANTICS_REVISION))
              (ContractError ''PORTABLE_SURFACE_ID_SEMANTICS_MISMATCH'' ''result.depth.surface_id_semantics_revision'')) (\<lambda>_.
     bindE (c_sha256 (dget src ''samples_sha256'') ''result.depth.samples_sha256'') (\<lambda>expected.
     bindE (c_canonical_sha256 L (PList (map sample_val samples)) ''result.depth.samples'') (\<lambda>digest.
     bindE (guardE (digest = expected)
              (ContractError ''PORTABLE_DATA_HASH_MISMATCH'' ''result.depth.samples'')) (\<lambda>_.
     Inr \<lparr>sd_alignment = pstr (dget src ''alignment''), sd_samples = samples, sd_samples_sha256 = expected,
          sd_semantics_revision = (if rev = PNone then None else Some (pstr rev))\<rparr>)))))) = Inr d"
    unfolding validate_sparse_depth_def
    by (auto simp: bindE_Inr_iff require_in_Inr guardE_Inr_iff split: option.splits if_splits)
  obtain samples seen roles where st: "st = (samples, seen, roles)" by (cases st)
  obtain h rv where d: "d = \<lparr>sd_alignment = al, sd_samples = samples, sd_samples_sha256 = h, sd_semantics_revision = rv\<rparr>"
    and sha: "\<And>f. c_sha256 (PStr h) f = Inr h"
       "c_canonical_sha256 L (PList (map sample_val samples)) ''result.depth.samples'' = Inr h"
     and rv: "rv = None \<or> rv = Some SURFACE_ID_SEMANTICS_REVISION"
       "list_ex (\<lambda>s. ds_surface_id s \<noteq> None) samples \<Longrightarrow> rv = Some SURFACE_ID_SEMANTICS_REVISION"
    using rest s(1) unfolding Let_def
    by (auto simp: st bindE_Inr_iff guardE_Inr_iff c_sha256_Inr)
  show thesis by (rule that [OF s(2,5,6) s(7) [unfolded st] d sha rv])
qed

lemma sparse_refeed:
  assumes "validate_sparse_depth L src = Inr d"
  shows "\<exists>src'. sparse_val d = PDict src' \<and> dget src' ''representation'' = PStr ''sparse_rays''
       \<and> validate_sparse_depth L src' = Inr d"
proof (rule sparse_shape [OF assms])
  fix al raw samples seen roles h rv
  assume s: "al \<in> set DEPTH_ALIGNMENTS" "1 \<le> length raw" "length raw \<le> MAX_SPARSE_DEPTH_SAMPLES"
    and l: "sparse_loop 0 ([], [], []) raw = Inr (samples, seen, roles)"
    and d: "d = \<lparr>sd_alignment = al, sd_samples = samples, sd_samples_sha256 = h, sd_semantics_revision = rv\<rparr>"
    and sha: "\<And>f. c_sha256 (PStr h) f = Inr h"
      "c_canonical_sha256 L (PList (map sample_val samples)) ''result.depth.samples'' = Inr h"
    and rv: "rv = None \<or> rv = Some SURFACE_ID_SEMANTICS_REVISION"
      "list_ex (\<lambda>s. ds_surface_id s \<noteq> None) samples \<Longrightarrow> rv = Some SURFACE_ID_SEMANTICS_REVISION"
  have loop: "sparse_loop 0 ([], [], []) (map sample_val samples) = Inr (samples, seen, roles)"
    and len: "length samples = length raw"
    using sparse_loop_refeed [OF l, of 0] by auto
  from rv(1) show ?thesis
  proof
    assume n: "rv = None"
    with rv(2) have "\<not> list_ex (\<lambda>s. ds_surface_id s \<noteq> None) samples" by auto
    then show ?thesis using s
      by (simp add: d n sparse_val_def validate_sparse_depth_def Let_def c_fields_ok len loop sha)
  next
    assume "rv = Some SURFACE_ID_SEMANTICS_REVISION"
    then show ?thesis using s
      by (simp add: d sparse_val_def validate_sparse_depth_def Let_def c_fields_ok len loop sha)
  qed
qed

lemma depth_refeed: "validate_depth L v = Inr d \<Longrightarrow> validate_depth L (depth_val d) = Inr d"
proof -
  assume a: "validate_depth L v = Inr d"
  then consider "d = None" | dd src where "validate_dense_depth L src = Inr dd" "d = Some (DenseDepth dd)"
    | sd src where "validate_sparse_depth L src = Inr sd" "d = Some (SparseDepth sd)"
    by (auto simp: validate_depth_def accept_iffs split: if_splits)
  then show ?thesis
  proof cases
    case 1
    then show ?thesis by (simp add: validate_depth_def)
  next
    case 2
    then show ?thesis using dense_refeed by (fastforce simp: validate_depth_def)
  next
    case 3
    then show ?thesis using sparse_refeed by (fastforce simp: validate_depth_def)
  qed
qed

lemma capture_request_refeed:
  assumes "validate_capture_request v = Inr q"
  shows "validate_capture_request (capture_request_val q) = Inr q"
proof -
  obtain src h depth age where c: "c_common_request v CAPTURE_REQUEST_SCHEMA [''require_depth'', ''max_age_ms''] [] = Inr (src, h)"
    and f: "dget src ''require_depth'' = PBool depth" "1 \<le> age" "age \<le> 5000"
    and q: "q = request_head.extend h \<lparr>cq_require_depth = depth, cq_max_age_ms = age\<rparr>"
    using assms by (auto simp: validate_capture_request_def Let_def accept_iffs)
  have t: "request_head.truncate q = h" by (simp add: q request_head.defs)
  have "json_ok (capture_request_val q)" by (simp add: capture_request_val_def)
  then show ?thesis using f
    unfolding validate_capture_request_def capture_request_val_def
    by (subst c_common_request_refeed [OF c t refl])
      (simp add: request_head_items_def c_fields_Inr,
       simp add: q request_head_items_def request_head.defs accept_iffs c_canonical_json_def)
qed

lemma map_request_refeed:
  assumes "validate_map_request v = Inr q"
  shows "validate_map_request (map_request_val q) = Inr q"
proof -
  obtain src h frame res rad where
    c: "c_common_request v MAP_REQUEST_SCHEMA [''source_frame_id'', ''resolution_m'', ''footprint_radius_m''] [] = Inr (src, h)"
    and f: "id_pattern frame" "lit (1/100) \<le> res" "res \<le> 2" "lit (1/100) \<le> rad" "rad \<le> 5"
    and q: "q = request_head.extend h \<lparr>mq_source_frame_id = frame, mq_resolution_m = res, mq_footprint_radius_m = rad\<rparr>"
    using assms by (auto simp: validate_map_request_def Let_def accept_iffs)
  have t: "request_head.truncate q = h" by (simp add: q request_head.defs)
  have j: "json_ok (map_request_val q)" by (simp add: map_request_val_def num_val_def)
  show ?thesis using f j
    unfolding validate_map_request_def map_request_val_def
    by (subst c_common_request_refeed [OF c t refl])
      (simp add: request_head_items_def c_fields_Inr,
       simp add: q request_head_items_def request_head.defs accept_iffs c_canonical_json_def)
qed

lemma json_rgb [simp]: "json_ok (rgb_val r)"
  by (simp add: rgb_val_def)

lemma json_camera [simp]: "json_ok (camera_val c)"
  by (simp add: camera_val_def json_facts num_val_def)

lemma json_grid [simp]: "json_ok (grid_val g)"
  by (simp add: grid_val_def json_facts num_val_def)

lemma json_agent [simp]: "json_ok (agent_val a)"
  by (simp add: agent_val_def json_facts num_val_def)

lemma map_result_refeed:
  assumes "validate_map_result L v request now_unix = Inr r"
  shows "validate_map_result L (map_result_val r) request now_unix = Inr r"
proof -
  let ?extra = "[''map_id'', ''source_frame_id'', ''created_unix'', ''coordinate_frame_id'',
     ''coordinate_convention'', ''grid'', ''agent'']"
  obtain src h mid frame cr cframe g a gv av where
    c: "c_common_result v MAP_RESULT_SCHEMA ?extra [] = Inr (src, h)"
    and f: "id_pattern mid" "id_pattern frame" "0 \<le> cr" "id_pattern cframe"
    and g: "validate_grid L gv = Inr g" and a: "validate_agent av = Inr a"
    and r: "r = result_head.extend h \<lparr>mr_map_id = mid, mr_source_frame_id = frame, mr_created_unix = cr,
               mr_coordinate_frame_id = cframe, mr_grid = g, mr_agent = a\<rparr>"
    and k: "c_not_future cr now_unix ''result.created_unix'' = Inr ()" "check_map_request request r = Inr ()"
    using assms by (auto simp: validate_map_result_def Let_def accept_iffs)
  have t: "result_head.truncate r = h" by (simp add: r result_head.defs)
  have j: "json_ok (map_result_val r)" by (simp add: map_result_val_def num_val_def)
  show ?thesis using f j k
    unfolding validate_map_result_def map_result_val_def
    by (subst c_common_result_refeed [OF c t refl])
      (simp add: result_head_items_def c_fields_Inr,
       simp add: r result_head_items_def result_head.defs accept_iffs c_canonical_json_def
          grid_refeed [OF g] agent_refeed [OF a])
qed

lemma json_dense: "validate_dense_depth L src = Inr d \<Longrightarrow> json_ok (dense_val d)"
  by (simp only: validate_dense_depth_def accept_iffs; elim exE conjE; (hypsubst)+)
    (auto simp: dense_val_def accept_iffs split: if_splits pyval.splits)

lemma json_sparse [simp]: "json_ok (sparse_val d)"
  by (cases "sd_semantics_revision d") (simp_all add: sparse_val_def list_all_iff)

lemma json_depth: "validate_depth L v = Inr d \<Longrightarrow> json_ok (depth_val d)"
  by (cases d rule: depth_val.cases)
    (auto simp: validate_depth_def accept_iffs json_dense split: if_splits)

lemma capture_result_refeed:
  assumes "validate_capture_result L v request now_unix = Inr r"
  shows "validate_capture_result L (capture_result_val r) request now_unix = Inr r"
proof -
  let ?extra = "[''frame_id'', ''captured_unix'', ''rgb'', ''depth'', ''camera'']"
  obtain src h fr cap rgb rv d dv cam cv where
    c: "c_common_result v CAPTURE_RESULT_SCHEMA ?extra [] = Inr (src, h)"
    and f: "id_pattern fr" "0 \<le> cap"
    and sub: "validate_rgb_plane L rv = Inr rgb" "validate_depth L dv = Inr d" "validate_camera cv = Inr cam"
    and r: "r = result_head.extend h \<lparr>cap_frame_id = fr, cap_captured_unix = cap, cap_rgb = rgb,
               cap_depth = d, cap_camera = cam\<rparr>"
    and k: "c_not_future cap now_unix ''result.captured_unix'' = Inr ()" "check_capture_request request r = Inr ()"
    using assms by (auto simp: validate_capture_result_def Let_def accept_iffs)
  have t: "result_head.truncate r = h" by (simp add: r result_head.defs)
  have j: "json_ok (capture_result_val r)"
    using json_depth [OF sub(2)] by (simp add: capture_result_val_def num_val_def r result_head.defs)
  show ?thesis using f j k
    unfolding validate_capture_result_def capture_result_val_def
    by (subst c_common_result_refeed [OF c t refl])
      (simp add: result_head_items_def c_fields_Inr,
       simp add: r result_head_items_def result_head.defs accept_iffs c_canonical_json_def
          rgb_refeed [OF sub(1)] depth_refeed [OF sub(2)] camera_refeed [OF sub(3)])
qed

end
