(* ===== verification/ContractTarget.thy ===== *)
theory ContractTarget
  imports ContractSensor
begin

text \<open>
  The target envelopes of \<open>lumina_next/portable_navigation_contract_v1.py\<close>: detections,
  the arrival continuity surface, ground requests and ground results. The optional keys of
  the returned dictionaries are the \<open>option\<close> fields of the records.
\<close>

subsection \<open>Detection and continuity surface\<close>

record detection =
  det_detection_id :: string
  det_label :: string
  det_confidence :: rat
  det_bbox_norm :: vec4
  det_expected_surface_role :: "string option"
  det_occluder_bboxes_norm :: "vec4 list option"

record continuity =
  con_target_id :: string
  con_points_m :: "vec3 list"
  con_maximum_distance_m :: rat
  con_surface_id :: "string option"
  con_surface_role :: "string option"

definition occluder_bboxes :: "pyval \<Rightarrow> py_exc + vec4 list" where
  "occluder_bboxes v =
     (case seq_elems v of
        Some vs \<Rightarrow> if length vs > MAX_GROUND_OCCLUDER_BBOXES
                   then cerr ''PORTABLE_OCCLUDER_BBOXES_INVALID'' ''request.detection.occluder_bboxes_norm''
                   else mapiE (\<lambda>i item. c_bbox item (indexed ''request.detection.occluder_bboxes_norm'' i)) 0 vs
      | None \<Rightarrow> cerr ''PORTABLE_OCCLUDER_BBOXES_INVALID'' ''request.detection.occluder_bboxes_norm'')"

definition validate_detection :: "pyval \<Rightarrow> py_exc + detection" where
  "validate_detection v =
     bindE (c_mapping v ''request.detection'') (\<lambda>src.
     bindE (c_fields src [''detection_id'', ''label'', ''confidence'', ''bbox_norm'']
              [''occluder_bboxes_norm'', ''expected_surface_role''] ''request.detection'') (\<lambda>_.
     bindE (c_identifier (dget src ''detection_id'') ''request.detection.detection_id'') (\<lambda>did.
     bindE (c_text 120 False (dget src ''label'') ''request.detection.label'') (\<lambda>label.
     bindE (c_number (Some 0) (Some 1) (dget src ''confidence'') ''request.detection.confidence'') (\<lambda>conf.
     bindE (c_bbox (dget src ''bbox_norm'') ''request.detection.bbox_norm'') (\<lambda>bbox.
     bindE (optE src ''expected_surface_role''
              (\<lambda>w. c_surface_role w ''request.detection.expected_surface_role'')) (\<lambda>role.
     bindE (optE src ''occluder_bboxes_norm'' occluder_bboxes) (\<lambda>occ.
     Inr \<lparr>det_detection_id = did, det_label = label, det_confidence = conf, det_bbox_norm = bbox,
          det_expected_surface_role = role, det_occluder_bboxes_norm = occ\<rparr>))))))))"

definition detection_val :: "detection \<Rightarrow> pyval" where
  "detection_val d = PDict ([(''detection_id'', PStr (det_detection_id d)), (''label'', PStr (det_label d)),
     (''confidence'', num_val (det_confidence d)), (''bbox_norm'', v4_val (det_bbox_norm d))]
     @ opt_item ''expected_surface_role'' PStr (det_expected_surface_role d)
     @ opt_item ''occluder_bboxes_norm'' (\<lambda>bs. PList (map v4_val bs)) (det_occluder_bboxes_norm d))"

text \<open>A non-empty bounded sequence of points, as a list (\<open>list_elems\<close>) or also a tuple (\<open>seq_elems\<close>).\<close>

definition bounded_seq :: "(pyval \<Rightarrow> pyval list option) \<Rightarrow> nat \<Rightarrow> string \<Rightarrow> pyval \<Rightarrow> string \<Rightarrow> py_exc + pyval list" where
  "bounded_seq elems maximum code v field =
     (case elems v of
        Some vs \<Rightarrow> if 1 \<le> length vs \<and> length vs \<le> maximum then Inr vs else cerr code field
      | None \<Rightarrow> cerr code field)"

definition c_points :: "string \<Rightarrow> pyval list \<Rightarrow> py_exc + vec3 list" where
  "c_points field vs = mapiE (\<lambda>i p. c_vector3 p (indexed field i)) 0 vs"

definition validate_continuity :: "pyval \<Rightarrow> py_exc + continuity" where
  "validate_continuity v =
     bindE (c_mapping v ''request.arrival_continuity_surface'') (\<lambda>src.
     bindE (c_fields src [''target_id'', ''points_m'', ''maximum_distance_m''] [''surface_id'', ''surface_role'']
              ''request.arrival_continuity_surface'') (\<lambda>_.
     bindE (bounded_seq seq_elems MAX_GROUND_SURFACE_POINTS ''PORTABLE_GROUND_CONTINUITY_POINTS_INVALID''
              (dget src ''points_m'') ''request.arrival_continuity_surface.points_m'') (\<lambda>raw.
     bindE (c_target_identifier (dget src ''target_id'') ''request.arrival_continuity_surface.target_id'') (\<lambda>tid.
     bindE (c_points ''request.arrival_continuity_surface.points_m'' raw) (\<lambda>points.
     bindE (c_number (Some 0) (Some MAX_GROUND_CONTINUITY_DISTANCE_M) (dget src ''maximum_distance_m'')
              ''request.arrival_continuity_surface.maximum_distance_m'') (\<lambda>dist.
     bindE (optE src ''surface_id''
              (\<lambda>w. c_surface_identifier w ''request.arrival_continuity_surface.surface_id'')) (\<lambda>sid.
     bindE (optE src ''surface_role''
              (\<lambda>w. c_surface_role w ''request.arrival_continuity_surface.surface_role'')) (\<lambda>role.
     bindE (guardE (\<not> (role \<noteq> None \<and> sid = None))
              (ContractError ''PORTABLE_SURFACE_ROLE_REQUIRES_SURFACE_ID''
                 ''request.arrival_continuity_surface.surface_role'')) (\<lambda>_.
     Inr \<lparr>con_target_id = tid, con_points_m = points, con_maximum_distance_m = dist,
          con_surface_id = sid, con_surface_role = role\<rparr>)))))))))"

definition continuity_val :: "continuity \<Rightarrow> pyval" where
  "continuity_val c = PDict ([(''target_id'', PStr (con_target_id c)),
     (''points_m'', PList (map v3_val (con_points_m c))),
     (''maximum_distance_m'', num_val (con_maximum_distance_m c))]
     @ opt_item ''surface_id'' PStr (con_surface_id c)
     @ opt_item ''surface_role'' PStr (con_surface_role c))"

subsection \<open>Ground request\<close>

definition GROUND_REQUEST_SCHEMA :: string where
  "GROUND_REQUEST_SCHEMA = ''lumina.portable.ground.request.v1''"

definition GROUND_RESULT_SCHEMA :: string where
  "GROUND_RESULT_SCHEMA = ''lumina.portable.ground.result.v1''"

record ground_request = request_head +
  gq_source_frame_id :: string
  gq_map_id :: string
  gq_detection :: detection
  gq_continuity :: "continuity option"

definition ground_request_val :: "ground_request \<Rightarrow> pyval" where
  "ground_request_val q = PDict (request_head_items GROUND_REQUEST_SCHEMA q
     @ [(''source_frame_id'', PStr (gq_source_frame_id q)), (''map_id'', PStr (gq_map_id q)),
        (''detection'', detection_val (gq_detection q))]
     @ opt_item ''arrival_continuity_surface'' continuity_val (gq_continuity q))"

definition validate_ground_request :: "pyval \<Rightarrow> py_exc + ground_request" where
  "validate_ground_request v =
     bindE (c_common_request v GROUND_REQUEST_SCHEMA [''source_frame_id'', ''map_id'', ''detection'']
              [''arrival_continuity_surface'']) (\<lambda>(src, h).
     bindE (c_identifier (dget src ''source_frame_id'') ''request.source_frame_id'') (\<lambda>frame.
     bindE (c_identifier (dget src ''map_id'') ''request.map_id'') (\<lambda>mid.
     bindE (validate_detection (dget src ''detection'')) (\<lambda>det.
     bindE (optE src ''arrival_continuity_surface'' validate_continuity) (\<lambda>con.
     let q = request_head.extend h \<lparr>gq_source_frame_id = frame, gq_map_id = mid, gq_detection = det, gq_continuity = con\<rparr> in
     bindE (c_canonical_json (ground_request_val q) ''request'') (\<lambda>_. Inr q))))))"

subsection \<open>Ground result\<close>

definition GROUND_STATUSES :: "string list" where
  "GROUND_STATUSES = [''grounded'', ''unresolved'']"

definition GROUND_FAILURE_REASONS :: "string list" where
  "GROUND_FAILURE_REASONS = [''ambiguous'', ''insufficient_depth_support'', ''no_depth'', ''out_of_range'',
     ''not_visible'', ''stale_frame'', ''unsupported'']"

record ground_body =
  gb_target_id :: "string option"
  gb_coordinate_frame_id :: "string option"
  gb_position_m :: "vec3 option"
  gb_uncertainty_radius_m :: "rat option"
  gb_reason :: "string option"
  gb_surface_points_m :: "vec3 list option"
  gb_surface_id :: "string option"
  gb_surface_role :: "string option"

record ground_result = result_head +
  gr_source_frame_id :: string
  gr_map_id :: string
  gr_detection_id :: string
  gr_grounded_unix :: rat
  gr_status :: string
  gr_label :: string
  gr_confidence :: rat
  gr_body :: ground_body

text \<open>The branch for \<open>status == "grounded"\<close>.\<close>

definition grounded_body :: "(string \<times> pyval) list \<Rightarrow> py_exc + ground_body" where
  "grounded_body src =
     bindE (c_target_identifier (dget src ''target_id'') ''result.target_id'') (\<lambda>tid.
     bindE (c_identifier (dget src ''coordinate_frame_id'') ''result.coordinate_frame_id'') (\<lambda>cframe.
     bindE (c_vector3 (dget src ''position_m'') ''result.position_m'') (\<lambda>position.
     bindE (c_number (Some 0) (Some 100) (dget src ''uncertainty_radius_m'') ''result.uncertainty_radius_m'') (\<lambda>unc.
     bindE (guardE (dget src ''reason'' = PNone)
              (ContractError ''PORTABLE_GROUND_REASON_UNEXPECTED'' ''result.reason'')) (\<lambda>_.
     bindE (optE src ''surface_id'' (\<lambda>w. c_surface_identifier w ''result.surface_id'')) (\<lambda>sid.
     bindE (optE src ''surface_role'' (\<lambda>w. c_surface_role w ''result.surface_role'')) (\<lambda>role.
     bindE (guardE (\<not> (role \<noteq> None \<and> sid = None))
              (ContractError ''PORTABLE_SURFACE_ROLE_REQUIRES_SURFACE_ID'' ''result.surface_role'')) (\<lambda>_.
     bindE (optE src ''surface_points_m'' (\<lambda>w.
              bindE (bounded_seq list_elems MAX_GROUND_SURFACE_POINTS ''PORTABLE_GROUND_SURFACE_POINTS_INVALID''
                       w ''result.surface_points_m'') (c_points ''result.surface_points_m''))) (\<lambda>points.
     Inr \<lparr>gb_target_id = Some tid, gb_coordinate_frame_id = Some cframe, gb_position_m = Some position,
          gb_uncertainty_radius_m = Some unc, gb_reason = None, gb_surface_points_m = points,
          gb_surface_id = sid, gb_surface_role = role\<rparr>)))))))))"

text \<open>The branch for any other accepted status.\<close>

definition unresolved_body :: "(string \<times> pyval) list \<Rightarrow> py_exc + ground_body" where
  "unresolved_body src =
     bindE (guardE (\<not> has_key src ''surface_role'')
              (ContractError ''PORTABLE_UNRESOLVED_TARGET_DATA_FORBIDDEN'' ''result.surface_role'')) (\<lambda>_.
     bindE (guardE (list_all (\<lambda>k. dget src k = PNone) [''target_id'', ''coordinate_frame_id'', ''position_m'',
                       ''uncertainty_radius_m'', ''surface_points_m'', ''surface_id''])
              (ContractError ''PORTABLE_UNRESOLVED_TARGET_DATA_FORBIDDEN'' ''result'')) (\<lambda>_.
     bindE (require_in (dget src ''reason'') GROUND_FAILURE_REASONS
              (ContractError ''PORTABLE_GROUND_REASON_INVALID'' ''result.reason'')) (\<lambda>_.
     Inr \<lparr>gb_target_id = None, gb_coordinate_frame_id = None, gb_position_m = None,
          gb_uncertainty_radius_m = None, gb_reason = Some (pstr (dget src ''reason'')),
          gb_surface_points_m = None, gb_surface_id = None, gb_surface_role = None\<rparr>)))"

text \<open>An entry that is present with \<open>None\<close> when it has no value.\<close>

definition null_item :: "string \<Rightarrow> ('a \<Rightarrow> pyval) \<Rightarrow> 'a option \<Rightarrow> string \<times> pyval" where
  "null_item k emb x = (k, case x of None \<Rightarrow> PNone | Some y \<Rightarrow> emb y)"

definition ground_result_val :: "ground_result \<Rightarrow> pyval" where
  "ground_result_val r = (let b = gr_body r in PDict (result_head_items GROUND_RESULT_SCHEMA r
     @ [(''source_frame_id'', PStr (gr_source_frame_id r)), (''map_id'', PStr (gr_map_id r)),
        (''detection_id'', PStr (gr_detection_id r)), (''grounded_unix'', num_val (gr_grounded_unix r)),
        (''status'', PStr (gr_status r)), null_item ''target_id'' PStr (gb_target_id b),
        (''label'', PStr (gr_label r)), (''confidence'', num_val (gr_confidence r)),
        null_item ''coordinate_frame_id'' PStr (gb_coordinate_frame_id b),
        (''coordinate_convention'', PStr COORDINATE_CONVENTION),
        null_item ''position_m'' v3_val (gb_position_m b),
        null_item ''uncertainty_radius_m'' num_val (gb_uncertainty_radius_m b),
        null_item ''reason'' PStr (gb_reason b)]
     @ opt_item ''surface_points_m'' (\<lambda>ps. PList (map v3_val ps)) (gb_surface_points_m b)
     @ opt_item ''surface_id'' PStr (gb_surface_id b)
     @ opt_item ''surface_role'' PStr (gb_surface_role b)))"

text \<open>\<open>continuity.get(k) if isinstance(continuity, Mapping) else None\<close>.\<close>

definition continuity_get :: "(continuity \<Rightarrow> string option) \<Rightarrow> ground_request \<Rightarrow> string option" where
  "continuity_get sel q = (case gq_continuity q of None \<Rightarrow> None | Some c \<Rightarrow> sel c)"

text \<open>\<open>status == "grounded" and expected is not None and actual != expected\<close> does not hold.\<close>

definition surface_agrees :: "string \<Rightarrow> string option \<Rightarrow> string option \<Rightarrow> bool" where
  "surface_agrees status expected actual =
     (\<not> (status = ''grounded'' \<and> expected \<noteq> None \<and> actual \<noteq> expected))"

definition check_ground_request :: "pyval \<Rightarrow> ground_result \<Rightarrow> py_exc + unit" where
  "check_ground_request request r =
     (if request = PNone then Inr () else
      bindE (validate_ground_request request) (\<lambda>q.
      bindE (c_cross_common q r) (\<lambda>_.
      bindE (guardE (\<not> before_request (gr_grounded_unix r) (rq_requested_unix q))
               (ContractError ''PORTABLE_GROUNDING_STALE'' ''result.grounded_unix'')) (\<lambda>_.
      bindE (guardE (gr_source_frame_id r = gq_source_frame_id q)
               (ContractError ''PORTABLE_LINEAGE_MISMATCH'' ''source_frame_id'')) (\<lambda>_.
      bindE (guardE (gr_map_id r = gq_map_id q)
               (ContractError ''PORTABLE_LINEAGE_MISMATCH'' ''map_id'')) (\<lambda>_.
      bindE (guardE (gr_detection_id r = det_detection_id (gq_detection q))
               (ContractError ''PORTABLE_LINEAGE_MISMATCH'' ''detection_id'')) (\<lambda>_.
      bindE (guardE (gr_label r = det_label (gq_detection q))
               (ContractError ''PORTABLE_GROUND_LABEL_MISMATCH'' ''label'')) (\<lambda>_.
      bindE (guardE (surface_agrees (gr_status r) (det_expected_surface_role (gq_detection q)) (gb_surface_role (gr_body r)))
               (ContractError ''PORTABLE_SURFACE_ROLE_MISMATCH'' ''result.surface_role'')) (\<lambda>_.
      bindE (guardE (surface_agrees (gr_status r) (continuity_get con_surface_id q) (gb_surface_id (gr_body r)))
               (ContractError ''PORTABLE_SURFACE_ID_MISMATCH'' ''result.surface_id'')) (\<lambda>_.
      guardE (surface_agrees (gr_status r) (continuity_get con_surface_role q) (gb_surface_role (gr_body r)))
               (ContractError ''PORTABLE_SURFACE_ROLE_MISMATCH'' ''result.surface_role'')))))))))))"

definition validate_ground_result :: "pyval \<Rightarrow> pyval \<Rightarrow> pyval \<Rightarrow> py_exc + ground_result" where
  "validate_ground_result v request now_unix =
     bindE (c_common_result v GROUND_RESULT_SCHEMA [''source_frame_id'', ''map_id'', ''detection_id'', ''grounded_unix'',
              ''status'', ''target_id'', ''label'', ''confidence'', ''coordinate_frame_id'',
              ''coordinate_convention'', ''position_m'', ''uncertainty_radius_m'', ''reason'']
              [''surface_points_m'', ''surface_id'', ''surface_role'']) (\<lambda>(src, h).
     bindE (require_in (dget src ''status'') GROUND_STATUSES
              (ContractError ''PORTABLE_GROUND_STATUS_INVALID'' ''result.status'')) (\<lambda>_.
     bindE (c_text 120 False (dget src ''label'') ''result.label'') (\<lambda>label.
     bindE (c_number (Some 0) (Some 1) (dget src ''confidence'') ''result.confidence'') (\<lambda>conf.
     bindE (guardE (dget src ''coordinate_convention'' = PStr COORDINATE_CONVENTION)
              (ContractError ''PORTABLE_COORDINATE_CONVENTION_MISMATCH'' ''result.coordinate_convention'')) (\<lambda>_.
     bindE (if dget src ''status'' = PStr ''grounded'' then grounded_body src else unresolved_body src) (\<lambda>body.
     bindE (c_identifier (dget src ''source_frame_id'') ''result.source_frame_id'') (\<lambda>frame.
     bindE (c_identifier (dget src ''map_id'') ''result.map_id'') (\<lambda>mid.
     bindE (c_identifier (dget src ''detection_id'') ''result.detection_id'') (\<lambda>did.
     bindE (c_timestamp (dget src ''grounded_unix'') ''result.grounded_unix'') (\<lambda>t.
     let r = result_head.extend h \<lparr>gr_source_frame_id = frame, gr_map_id = mid, gr_detection_id = did,
               gr_grounded_unix = t, gr_status = pstr (dget src ''status''), gr_label = label,
               gr_confidence = conf, gr_body = body\<rparr> in
     bindE (c_not_future t now_unix ''result.grounded_unix'') (\<lambda>_.
     bindE (check_ground_request request r) (\<lambda>_.
     bindE (c_canonical_json (ground_result_val r) ''result'') (\<lambda>_. Inr r)))))))))))))"

subsection \<open>Accepted envelopes are accepted again\<close>

lemma null_item_dget [simp]:
  "null_item k emb None = (k, PNone)" "null_item k emb (Some y) = (k, emb y)"
  by (simp_all add: null_item_def)

lemma bounded_seq_Inr:
  "bounded_seq elems m code v f = Inr vs \<longleftrightarrow> elems v = Some vs \<and> 1 \<le> length vs \<and> length vs \<le> m"
  by (auto simp: bounded_seq_def split: option.splits)

lemma c_points_refeed: "c_points f vs = Inr ps \<Longrightarrow> c_points g (map v3_val ps) = Inr ps"
  unfolding c_points_def by (rule vector3_field.list_refeed)

lemma c_points_length: "c_points f vs = Inr ps \<Longrightarrow> length ps = length vs"
  unfolding c_points_def by (rule mapiE_length)

lemma occluder_bboxes_refeed: "occluder_bboxes v = Inr bs \<Longrightarrow> occluder_bboxes (PList (map v4_val bs)) = Inr bs"
  by (auto simp: occluder_bboxes_def split: option.splits if_splits
      dest: mapiE_length intro: bbox_field.list_refeed)

lemma detection_refeed:
  assumes "validate_detection v = Inr d"
  shows "validate_detection (detection_val d) = Inr d"
proof -
  obtain did label conf bbox bv bf role occ where f: "id_pattern did" "c_text 120 False (PStr label) lf = Inr label"
      "0 \<le> conf" "conf \<le> 1" "c_bbox bv bf = Inr bbox"
    and role: "\<And>r. role = Some r \<Longrightarrow> r \<in> set SURFACE_ROLES"
    and occ: "\<And>bs. occ = Some bs \<Longrightarrow> occluder_bboxes (PList (map v4_val bs)) = Inr bs"
    and d: "d = \<lparr>det_detection_id = did, det_label = label, det_confidence = conf, det_bbox_norm = bbox,
          det_expected_surface_role = role, det_occluder_bboxes_norm = occ\<rparr>" for lf
    using assms by (simp only: validate_detection_def accept_iffs optE_Inr)
     (auto simp: c_text_Inr c_surface_role_Inr split: if_splits dest: occluder_bboxes_refeed)
  note b = bbox_field.refeed [OF f(5)]
  show ?thesis
    using f(1-4) role occ
    by (cases role; cases occ)
      (simp_all add: validate_detection_def d detection_val_def c_fields_ok optE_def accept_iffs c_surface_role_def c_pattern_def b)
qed

lemma continuity_refeed:
  assumes "validate_continuity v = Inr c"
  shows "validate_continuity (continuity_val c) = Inr c"
proof -
  obtain tid raw ps dist sid role where f: "target_id_pattern tid" "1 \<le> length raw" "length raw \<le> MAX_GROUND_SURFACE_POINTS"
      "c_points ''request.arrival_continuity_surface.points_m'' raw = Inr ps" "0 \<le> dist" "dist \<le> MAX_GROUND_CONTINUITY_DISTANCE_M"
    and sid: "\<And>s. sid = Some s \<Longrightarrow> surface_id_pattern s"
    and role: "\<And>r. role = Some r \<Longrightarrow> r \<in> set SURFACE_ROLES" "\<not> (role \<noteq> None \<and> sid = None)"
    and c: "c = \<lparr>con_target_id = tid, con_points_m = ps, con_maximum_distance_m = dist,
          con_surface_id = sid, con_surface_role = role\<rparr>"
    using assms by (simp only: validate_continuity_def accept_iffs optE_Inr bounded_seq_Inr)
     (auto simp: c_surface_role_Inr c_surface_identifier_Inr split: if_splits)
  show ?thesis
    using f sid role c_points_length [OF f(4)] c_points_refeed [OF f(4)]
    by (cases role; cases sid)
      (simp_all add: validate_continuity_def c continuity_val_def c_fields_ok optE_def accept_iffs
         c_surface_role_def c_surface_identifier_def c_pattern_def bounded_seq_def)
qed

lemma json_points [simp]: "list_all json_ok (map v3_val ps)" "list_all json_ok (map v4_val bs)"
  using vector3_field.json_list [of ps] bbox_field.json_list [of bs] by simp_all

lemma json_detection [simp]: "json_ok (detection_val d)"
  by (simp add: detection_val_def opt_item_def json_facts num_val_def split: option.split)

lemma json_continuity [simp]: "json_ok (continuity_val c)"
  by (simp add: continuity_val_def opt_item_def json_facts num_val_def split: option.split)

lemma ground_request_refeed:
  assumes "validate_ground_request v = Inr q"
  shows "validate_ground_request (ground_request_val q) = Inr q"
proof -
  obtain src h frame mid dv det con where
    c: "c_common_request v GROUND_REQUEST_SCHEMA [''source_frame_id'', ''map_id'', ''detection'']
              [''arrival_continuity_surface''] = Inr (src, h)"
    and f: "id_pattern frame" "id_pattern mid" "validate_detection dv = Inr det"
    and con: "\<And>x. con = Some x \<Longrightarrow> validate_continuity (continuity_val x) = Inr x"
    and q: "q = request_head.extend h \<lparr>gq_source_frame_id = frame, gq_map_id = mid, gq_detection = det, gq_continuity = con\<rparr>"
    using assms by (simp only: validate_ground_request_def accept_iffs optE_Inr Let_def split_paired_Ex prod.case)
      (elim exE conjE, rule that, assumption+, auto dest: continuity_refeed split: if_splits)
  have t: "request_head.truncate q = h" by (simp add: q request_head.defs)
  have j: "json_ok (ground_request_val q)"
    by (simp add: ground_request_val_def opt_item_def split: option.split)
  show ?thesis using f con j
    unfolding validate_ground_request_def ground_request_val_def
    by (subst c_common_request_refeed [OF c t refl]; cases con)
      (simp_all add: request_head_items_def c_fields_ok q request_head.defs accept_iffs c_canonical_json_def optE_def
        detection_refeed [OF f(3)])
qed


lemma ground_result_fields:
  assumes "validate_ground_result v request now_unix = Inr r"
  shows "\<exists>src. (if gr_status r = ''grounded'' then grounded_body src else unresolved_body src) = Inr (gr_body r)
    \<and> gr_status r \<in> set GROUND_STATUSES"
  using assms by (simp only: validate_ground_result_def accept_iffs Let_def split_paired_Ex prod.case)
    (elim exE conjE, auto simp: result_head.defs)

lemma optE_pred: "optE d k f = Inr x \<Longrightarrow> (\<And>r. f (dget d k) = Inr r \<Longrightarrow> P r) \<Longrightarrow> pred_option P x"
  by (auto simp: optE_Inr split: if_splits)

lemma bounded_points:
  "bindE (bounded_seq e m code v f) (c_points g) = Inr ps \<Longrightarrow>
     1 \<le> length ps \<and> length ps \<le> m \<and> (\<forall>h. c_points h (map v3_val ps) = Inr ps)"
  by (simp only: bindE_Inr_iff bounded_seq_Inr) (metis c_points_refeed c_points_length)

lemma grounded_body_shape:
  assumes "grounded_body src = Inr b"
  obtains tid cframe pos pv pf unc sid role pts where
    "b = \<lparr>gb_target_id = Some tid, gb_coordinate_frame_id = Some cframe, gb_position_m = Some pos,
          gb_uncertainty_radius_m = Some unc, gb_reason = None, gb_surface_points_m = pts,
          gb_surface_id = sid, gb_surface_role = role\<rparr>"
    and "target_id_pattern tid" and "id_pattern cframe" and "c_vector3 pv pf = Inr pos"
    and "0 \<le> unc" and "unc \<le> 100"
    and "pred_option surface_id_pattern sid"
    and "pred_option (\<lambda>r. r \<in> set SURFACE_ROLES) role" and "\<not> (role \<noteq> None \<and> sid = None)"
    and "pred_option (\<lambda>ps. 1 \<le> length ps \<and> length ps \<le> MAX_GROUND_SURFACE_POINTS
       \<and> (\<forall>g. c_points g (map v3_val ps) = Inr ps)) pts"
  using assms
  apply (simp only: grounded_body_def accept_iffs in_range_simps)
  apply (elim exE conjE)
  apply (rule that)
  apply assumption+
     apply (erule optE_pred, simp add: c_surface_identifier_Inr)
    apply (erule optE_pred, simp add: c_surface_role_Inr)
   apply assumption
  apply (erule optE_pred, erule bounded_points)
  done

lemma unresolved_body_shape:
  assumes "unresolved_body src = Inr b"
  obtains reason where "reason \<in> set GROUND_FAILURE_REASONS" and
    "b = \<lparr>gb_target_id = None, gb_coordinate_frame_id = None, gb_position_m = None,
          gb_uncertainty_radius_m = None, gb_reason = Some reason,
          gb_surface_points_m = None, gb_surface_id = None, gb_surface_role = None\<rparr>"
  using assms by (auto simp: unresolved_body_def accept_iffs)

definition ground_items :: "ground_result \<Rightarrow> (string \<times> pyval) list" where
  "ground_items r = (case ground_result_val r of PDict d \<Rightarrow> d | _ \<Rightarrow> [])"

lemma ground_result_val_items: "ground_result_val r = PDict (ground_items r)"
  by (simp add: ground_items_def ground_result_val_def Let_def)

lemma grounded_body_refeed:
  assumes "grounded_body src = Inr (gr_body r)"
  shows "grounded_body (ground_items r) = Inr (gr_body r)"
proof -
  obtain tid cframe pos pv pf unc sid role pts where b: "gr_body r =
      \<lparr>gb_target_id = Some tid, gb_coordinate_frame_id = Some cframe, gb_position_m = Some pos,
          gb_uncertainty_radius_m = Some unc, gb_reason = None, gb_surface_points_m = pts,
          gb_surface_id = sid, gb_surface_role = role\<rparr>"
    and f: "target_id_pattern tid" "id_pattern cframe" "c_vector3 pv pf = Inr pos" "0 \<le> unc" "unc \<le> 100"
    and o: "pred_option surface_id_pattern sid" "pred_option (\<lambda>r. r \<in> set SURFACE_ROLES) role"
      "\<not> (role \<noteq> None \<and> sid = None)"
      "pred_option (\<lambda>ps. 1 \<le> length ps \<and> length ps \<le> MAX_GROUND_SURFACE_POINTS
       \<and> (\<forall>g. c_points g (map v3_val ps) = Inr ps)) pts"
    using assms by (rule grounded_body_shape) (rule that, assumption+)
  note v = vector3_field.refeed [OF f(3)]
  show ?thesis
    using f(1,2,4,5) o
    by (cases role; cases sid; cases pts)
      (simp_all add: grounded_body_def ground_items_def ground_result_val_def Let_def b result_head_items_def optE_def
        accept_iffs c_surface_role_def c_surface_identifier_def c_pattern_def bounded_seq_def v del: split_paired_Ex)
qed

lemma unresolved_body_refeed:
  assumes "unresolved_body src = Inr (gr_body r)"
  shows "unresolved_body (ground_items r) = Inr (gr_body r)"
proof -
  obtain reason where r: "reason \<in> set GROUND_FAILURE_REASONS" and b:
    "gr_body r = \<lparr>gb_target_id = None, gb_coordinate_frame_id = None, gb_position_m = None,
          gb_uncertainty_radius_m = None, gb_reason = Some reason,
          gb_surface_points_m = None, gb_surface_id = None, gb_surface_role = None\<rparr>"
    using assms by (rule unresolved_body_shape) (rule that, assumption+)
  then show ?thesis
    by (simp add: unresolved_body_def ground_items_def ground_result_val_def Let_def result_head_items_def
       accept_iffs)
qed

lemma ground_items_fields:
  assumes "grounded_body src = Inr (gr_body r) \<or> unresolved_body src = Inr (gr_body r)"
  shows "c_fields (ground_items r) ([''schema_version'', ''request_id'', ''environment_id'', ''session_id''] @
     [''source_frame_id'', ''map_id'', ''detection_id'', ''grounded_unix'', ''status'', ''target_id'',
      ''label'', ''confidence'', ''coordinate_frame_id'', ''coordinate_convention'', ''position_m'',
      ''uncertainty_radius_m'', ''reason'']) [''surface_points_m'', ''surface_id'', ''surface_role''] ''result'' = Inr ()"
  by (rule c_fields_ok)
   (simp_all add: ground_items_def ground_result_val_def Let_def result_head_items_def opt_item_def null_item_def
     split: option.split)

lemma json_ground [simp]: "json_ok (ground_result_val r)"
  by (simp add: ground_result_val_def Let_def opt_item_def null_item_def json_facts num_val_def split: option.split)

lemma ground_items_dget:
  "dget (ground_items r) ''status'' = PStr (gr_status r)"
  "dget (ground_items r) ''label'' = PStr (gr_label r)"
  "dget (ground_items r) ''confidence'' = num_val (gr_confidence r)"
  "dget (ground_items r) ''coordinate_convention'' = PStr COORDINATE_CONVENTION"
  "dget (ground_items r) ''source_frame_id'' = PStr (gr_source_frame_id r)"
  "dget (ground_items r) ''map_id'' = PStr (gr_map_id r)"
  "dget (ground_items r) ''detection_id'' = PStr (gr_detection_id r)"
  "dget (ground_items r) ''grounded_unix'' = num_val (gr_grounded_unix r)"
  by (simp_all add: ground_items_def ground_result_val_def Let_def result_head_items_def null_item_def)

lemma ground_items_head: "\<exists>items. ground_items r = result_head_items GROUND_RESULT_SCHEMA r @ items"
  by (simp add: ground_items_def ground_result_val_def Let_def)

lemma ground_result_refeed:
  assumes "validate_ground_result v request now_unix = Inr r"
  shows "validate_ground_result (ground_result_val r) request now_unix = Inr r"
proof -
  let ?extra = "[''source_frame_id'', ''map_id'', ''detection_id'', ''grounded_unix'', ''status'', ''target_id'',
      ''label'', ''confidence'', ''coordinate_frame_id'', ''coordinate_convention'', ''position_m'',
      ''uncertainty_radius_m'', ''reason'']"
  let ?opt = "[''surface_points_m'', ''surface_id'', ''surface_role'']"
  obtain src h status label conf body frame mid did t where
    c: "c_common_result v GROUND_RESULT_SCHEMA ?extra ?opt = Inr (src, h)"
    and f: "status \<in> set GROUND_STATUSES" "c_text 120 False (PStr label) ''result.label'' = Inr label"
       "0 \<le> conf" "conf \<le> 1" "id_pattern frame" "id_pattern mid" "id_pattern did" "0 \<le> t"
    and b: "(if status = ''grounded'' then grounded_body src else unresolved_body src) = Inr body"
    and r: "r = result_head.extend h \<lparr>gr_source_frame_id = frame, gr_map_id = mid, gr_detection_id = did,
               gr_grounded_unix = t, gr_status = status, gr_label = label, gr_confidence = conf, gr_body = body\<rparr>"
    and k: "c_not_future t now_unix ''result.grounded_unix'' = Inr ()" "check_ground_request request r = Inr ()"
    using assms by (simp only: validate_ground_result_def accept_iffs in_range_simps Let_def split_paired_Ex prod.case)
      (elim exE conjE, simp add: c_text_Inr)
  have t: "result_head.truncate r = h" by (simp add: r result_head.defs)
  have g: "gr_body r = body" "gr_status r = status" by (simp_all add: r result_head.defs)
  have body: "(if status = ''grounded'' then grounded_body (ground_items r) else unresolved_body (ground_items r)) = Inr body"
    and fields: "c_fields (ground_items r) ([''schema_version'', ''request_id'', ''environment_id'', ''session_id''] @ ?extra)
       ?opt ''result'' = Inr ()"
    using b grounded_body_refeed [of src r] unresolved_body_refeed [of src r] ground_items_fields [of src r] g
    by (auto split: if_splits)
  obtain items where items: "ground_items r = result_head_items GROUND_RESULT_SCHEMA r @ items"
    using ground_items_head by blast
  have head: "c_common_result (PDict (ground_items r)) GROUND_RESULT_SCHEMA ?extra ?opt = Inr (ground_items r, h)"
    using c_common_result_refeed [OF c t items fields] .
  have j: "list_all (\<lambda>kv. json_ok (snd kv)) (ground_items x)" for x
    using json_ground [of x] unfolding ground_result_val_items by simp
  show ?thesis
    using f k body unfolding ground_result_val_items validate_ground_result_def head
    by (simp add: ground_items_dget g) (simp add: r result_head.defs accept_iffs c_canonical_json_def Let_def j)
qed

end
