(* ===== verification/ContractMotion.thy ===== *)
theory ContractMotion
  imports ContractTarget
begin

text \<open>
  The motion envelopes of \<open>lumina_next/portable_navigation_contract_v1.py\<close>: navigate,
  feedback and stop requests and results. A value that is \<open>None\<close> in one branch of the
  source is an \<open>option\<close> field.
\<close>

subsection \<open>Navigate\<close>

definition NAVIGATE_REQUEST_SCHEMA :: string where
  "NAVIGATE_REQUEST_SCHEMA = ''lumina.portable.navigate.request.v1''"

definition NAVIGATE_RESULT_SCHEMA :: string where
  "NAVIGATE_RESULT_SCHEMA = ''lumina.portable.navigate.result.v1''"

definition NAVIGATE_STATUSES :: "string list" where
  "NAVIGATE_STATUSES = [''accepted'', ''rejected'']"

record navigate_request =
  nq_navigation_id :: string
  nq_command_id :: string
  nq_environment_id :: string
  nq_session_id :: string
  nq_requested_unix :: rat
  nq_deadline_unix :: rat
  nq_source_frame_id :: string
  nq_map_id :: string
  nq_target_id :: string
  nq_coordinate_frame_id :: string
  nq_waypoints_m :: "vec3 list"
  nq_arrival_radius_m :: rat
  nq_max_speed_mps :: rat
  nq_minimum_clearance_m :: rat

definition navigate_request_val :: "navigate_request \<Rightarrow> pyval" where
  "navigate_request_val q = PDict [(''schema_version'', PStr NAVIGATE_REQUEST_SCHEMA),
     (''navigation_id'', PStr (nq_navigation_id q)), (''command_id'', PStr (nq_command_id q)),
     (''environment_id'', PStr (nq_environment_id q)), (''session_id'', PStr (nq_session_id q)),
     (''requested_unix'', num_val (nq_requested_unix q)), (''deadline_unix'', num_val (nq_deadline_unix q)),
     (''source_frame_id'', PStr (nq_source_frame_id q)), (''map_id'', PStr (nq_map_id q)),
     (''target_id'', PStr (nq_target_id q)), (''coordinate_frame_id'', PStr (nq_coordinate_frame_id q)),
     (''coordinate_convention'', PStr COORDINATE_CONVENTION),
     (''waypoints_m'', PList (map v3_val (nq_waypoints_m q))),
     (''arrival_radius_m'', num_val (nq_arrival_radius_m q)), (''max_speed_mps'', num_val (nq_max_speed_mps q)),
     (''minimum_clearance_m'', num_val (nq_minimum_clearance_m q))]"

definition validate_navigate_request :: "pyval \<Rightarrow> py_exc + navigate_request" where
  "validate_navigate_request v =
     bindE (c_mapping v ''request'') (\<lambda>src.
     bindE (c_fields src [''schema_version'', ''navigation_id'', ''command_id'', ''environment_id'', ''session_id'',
              ''requested_unix'', ''deadline_unix'', ''source_frame_id'', ''map_id'', ''target_id'', ''coordinate_frame_id'',
              ''coordinate_convention'', ''waypoints_m'', ''arrival_radius_m'', ''max_speed_mps'',
              ''minimum_clearance_m''] [] ''request'') (\<lambda>_.
     bindE (c_schema src NAVIGATE_REQUEST_SCHEMA ''request.schema_version'') (\<lambda>_.
     bindE (c_timestamp (dget src ''requested_unix'') ''request.requested_unix'') (\<lambda>requested.
     bindE (c_timestamp (dget src ''deadline_unix'') ''request.deadline_unix'') (\<lambda>deadline.
     bindE (guardE (requested < deadline \<and> fle (Fin deadline) (fadd (Fin requested) (Fin 300)))
              (ContractError ''PORTABLE_NAVIGATION_DEADLINE_INVALID'' ''request.deadline_unix'')) (\<lambda>_.
     bindE (guardE (dget src ''coordinate_convention'' = PStr COORDINATE_CONVENTION)
              (ContractError ''PORTABLE_COORDINATE_CONVENTION_MISMATCH'' ''request.coordinate_convention'')) (\<lambda>_.
     bindE (bounded_seq list_elems MAX_WAYPOINTS ''PORTABLE_WAYPOINTS_INVALID'' (dget src ''waypoints_m'')
              ''request.waypoints_m'') (\<lambda>raw.
     bindE (c_identifier (dget src ''navigation_id'') ''request.navigation_id'') (\<lambda>nid.
     bindE (c_identifier (dget src ''command_id'') ''request.command_id'') (\<lambda>cid.
     bindE (c_identifier (dget src ''environment_id'') ''request.environment_id'') (\<lambda>eid.
     bindE (c_identifier (dget src ''session_id'') ''request.session_id'') (\<lambda>sid.
     bindE (c_identifier (dget src ''source_frame_id'') ''request.source_frame_id'') (\<lambda>frame.
     bindE (c_identifier (dget src ''map_id'') ''request.map_id'') (\<lambda>mid.
     bindE (c_target_identifier (dget src ''target_id'') ''request.target_id'') (\<lambda>tid.
     bindE (c_identifier (dget src ''coordinate_frame_id'') ''request.coordinate_frame_id'') (\<lambda>cframe.
     bindE (c_points ''request.waypoints_m'' raw) (\<lambda>points.
     bindE (c_number (Some (lit (5/100))) (Some 5) (dget src ''arrival_radius_m'') ''request.arrival_radius_m'') (\<lambda>rad.
     bindE (c_number (Some (lit (1/100))) (Some 10) (dget src ''max_speed_mps'') ''request.max_speed_mps'') (\<lambda>speed.
     bindE (c_number (Some 0) (Some 10) (dget src ''minimum_clearance_m'') ''request.minimum_clearance_m'') (\<lambda>clear.
     let q = \<lparr>nq_navigation_id = nid, nq_command_id = cid, nq_environment_id = eid, nq_session_id = sid,
              nq_requested_unix = requested, nq_deadline_unix = deadline, nq_source_frame_id = frame,
              nq_map_id = mid, nq_target_id = tid, nq_coordinate_frame_id = cframe, nq_waypoints_m = points,
              nq_arrival_radius_m = rad, nq_max_speed_mps = speed, nq_minimum_clearance_m = clear\<rparr> in
     bindE (c_canonical_json (navigate_request_val q) ''request'') (\<lambda>_. Inr q)))))))))))))))))))))"

record navigate_result =
  nr_navigation_id :: string
  nr_environment_id :: string
  nr_session_id :: string
  nr_map_id :: string
  nr_target_id :: string
  nr_status :: string
  nr_command_id :: "string option"
  nr_accepted_unix :: "rat option"
  nr_reason :: "string option"

definition navigate_result_val :: "navigate_result \<Rightarrow> pyval" where
  "navigate_result_val r = PDict [(''schema_version'', PStr NAVIGATE_RESULT_SCHEMA),
     (''navigation_id'', PStr (nr_navigation_id r)), (''environment_id'', PStr (nr_environment_id r)),
     (''session_id'', PStr (nr_session_id r)), (''map_id'', PStr (nr_map_id r)),
     (''target_id'', PStr (nr_target_id r)), (''status'', PStr (nr_status r)),
     null_item ''command_id'' PStr (nr_command_id r), null_item ''accepted_unix'' num_val (nr_accepted_unix r),
     null_item ''reason'' PStr (nr_reason r)]"

text \<open>The command, the acceptance time and the reason, by status.\<close>

definition navigate_outcome ::
  "(string \<times> pyval) list \<Rightarrow> pyval \<Rightarrow> py_exc + string option \<times> rat option \<times> string option" where
  "navigate_outcome src now_unix =
     (if dget src ''status'' = PStr ''accepted'' then
        bindE (c_identifier (dget src ''command_id'') ''result.command_id'') (\<lambda>cid.
        bindE (c_timestamp (dget src ''accepted_unix'') ''result.accepted_unix'') (\<lambda>accepted.
        bindE (c_not_future accepted now_unix ''result.accepted_unix'') (\<lambda>_.
        bindE (guardE (dget src ''reason'' = PNone)
                 (ContractError ''PORTABLE_NAVIGATE_REASON_UNEXPECTED'' ''result.reason'')) (\<lambda>_.
        Inr (Some cid, Some accepted, None)))))
      else
        bindE (guardE (dget src ''command_id'' = PNone \<and> dget src ''accepted_unix'' = PNone)
                 (ContractError ''PORTABLE_REJECTED_COMMAND_DATA_FORBIDDEN'' ''result'')) (\<lambda>_.
        bindE (c_text 160 False (dget src ''reason'') ''result.reason'') (\<lambda>reason.
        Inr (None, None, Some reason))))"

definition lineage_same :: "string \<Rightarrow> string \<Rightarrow> string \<Rightarrow> py_exc + unit" where
  "lineage_same a b field = guardE (a = b) (ContractError ''PORTABLE_LINEAGE_MISMATCH'' field)"

definition check_navigate_request :: "pyval \<Rightarrow> navigate_result \<Rightarrow> py_exc + unit" where
  "check_navigate_request request r =
     (if request = PNone then Inr () else
      bindE (validate_navigate_request request) (\<lambda>q.
      bindE (lineage_same (nr_navigation_id r) (nq_navigation_id q) ''navigation_id'') (\<lambda>_.
      bindE (lineage_same (nr_environment_id r) (nq_environment_id q) ''environment_id'') (\<lambda>_.
      bindE (lineage_same (nr_session_id r) (nq_session_id q) ''session_id'') (\<lambda>_.
      bindE (lineage_same (nr_map_id r) (nq_map_id q) ''map_id'') (\<lambda>_.
      bindE (lineage_same (nr_target_id r) (nq_target_id q) ''target_id'') (\<lambda>_.
      bindE (guardE (nr_accepted_unix r = None \<or> nr_command_id r = Some (nq_command_id q))
               (ContractError ''PORTABLE_COMMAND_OWNERSHIP_MISMATCH'' ''command_id'')) (\<lambda>_.
      guardE (case nr_accepted_unix r of None \<Rightarrow> True
              | Some t \<Rightarrow> fle (fsub (Fin (nq_requested_unix q)) (Fin MAX_CLOCK_SKEW_SECONDS)) (Fin t)
                          \<and> t \<le> nq_deadline_unix q)
               (ContractError ''PORTABLE_ACCEPTANCE_TIME_INVALID'' ''result.accepted_unix'')))))))))"

definition validate_navigate_result :: "pyval \<Rightarrow> pyval \<Rightarrow> pyval \<Rightarrow> py_exc + navigate_result" where
  "validate_navigate_result v request now_unix =
     bindE (c_mapping v ''result'') (\<lambda>src.
     bindE (c_fields src [''schema_version'', ''navigation_id'', ''environment_id'', ''session_id'', ''map_id'', ''target_id'',
              ''status'', ''command_id'', ''accepted_unix'', ''reason''] [] ''result'') (\<lambda>_.
     bindE (c_schema src NAVIGATE_RESULT_SCHEMA ''result.schema_version'') (\<lambda>_.
     bindE (require_in (dget src ''status'') NAVIGATE_STATUSES
              (ContractError ''PORTABLE_NAVIGATE_STATUS_INVALID'' ''result.status'')) (\<lambda>_.
     bindE (navigate_outcome src now_unix) (\<lambda>(cid, accepted, reason).
     bindE (c_identifier (dget src ''navigation_id'') ''result.navigation_id'') (\<lambda>nid.
     bindE (c_identifier (dget src ''environment_id'') ''result.environment_id'') (\<lambda>eid.
     bindE (c_identifier (dget src ''session_id'') ''result.session_id'') (\<lambda>sid.
     bindE (c_identifier (dget src ''map_id'') ''result.map_id'') (\<lambda>mid.
     bindE (c_target_identifier (dget src ''target_id'') ''result.target_id'') (\<lambda>tid.
     let r = \<lparr>nr_navigation_id = nid, nr_environment_id = eid, nr_session_id = sid, nr_map_id = mid,
              nr_target_id = tid, nr_status = pstr (dget src ''status''), nr_command_id = cid,
              nr_accepted_unix = accepted, nr_reason = reason\<rparr> in
     bindE (check_navigate_request request r) (\<lambda>_.
     bindE (c_canonical_json (navigate_result_val r) ''result'') (\<lambda>_. Inr r))))))))))))"

subsection \<open>Feedback\<close>

definition FEEDBACK_REQUEST_SCHEMA :: string where
  "FEEDBACK_REQUEST_SCHEMA = ''lumina.portable.feedback.request.v1''"

definition FEEDBACK_RESULT_SCHEMA :: string where
  "FEEDBACK_RESULT_SCHEMA = ''lumina.portable.feedback.result.v1''"

definition FEEDBACK_STATUSES :: "string list" where
  "FEEDBACK_STATUSES = [''queued'', ''moving'', ''arrived'', ''stopped'', ''blocked'', ''failed'']"

definition MAX_SEQUENCE :: int where "MAX_SEQUENCE = 2 ^ 63 - 1"

record feedback_request = request_head +
  fq_command_id :: string
  fq_after_sequence :: int

record feedback_result = result_head +
  fr_command_id :: string
  fr_sequence :: int
  fr_observed_unix :: rat
  fr_status :: string
  fr_position_m :: vec3
  fr_velocity_mps :: vec3
  fr_remaining_distance_m :: rat
  fr_minimum_clearance_m :: rat
  fr_collision_detected :: bool
  fr_target_reached :: bool
  fr_reason :: "string option"

definition feedback_request_val :: "feedback_request \<Rightarrow> pyval" where
  "feedback_request_val q = PDict (request_head_items FEEDBACK_REQUEST_SCHEMA q
     @ [(''command_id'', PStr (fq_command_id q)), (''after_sequence'', PInt (fq_after_sequence q))])"

definition validate_feedback_request :: "pyval \<Rightarrow> py_exc + feedback_request" where
  "validate_feedback_request v =
     bindE (c_common_request v FEEDBACK_REQUEST_SCHEMA [''command_id'', ''after_sequence''] []) (\<lambda>(src, h).
     bindE (c_identifier (dget src ''command_id'') ''request.command_id'') (\<lambda>cid.
     bindE (c_integer (-1) MAX_SEQUENCE (dget src ''after_sequence'') ''request.after_sequence'') (\<lambda>after.
     let q = request_head.extend h \<lparr>fq_command_id = cid, fq_after_sequence = after\<rparr> in
     bindE (c_canonical_json (feedback_request_val q) ''request'') (\<lambda>_. Inr q))))"

definition feedback_result_val :: "feedback_result \<Rightarrow> pyval" where
  "feedback_result_val r = PDict (result_head_items FEEDBACK_RESULT_SCHEMA r
     @ [(''command_id'', PStr (fr_command_id r)), (''sequence'', PInt (fr_sequence r)),
        (''observed_unix'', num_val (fr_observed_unix r)), (''status'', PStr (fr_status r)),
        (''position_m'', v3_val (fr_position_m r)), (''velocity_mps'', v3_val (fr_velocity_mps r)),
        (''remaining_distance_m'', num_val (fr_remaining_distance_m r)),
        (''minimum_clearance_m'', num_val (fr_minimum_clearance_m r)),
        (''collision_detected'', PBool (fr_collision_detected r)),
        (''target_reached'', PBool (fr_target_reached r)), null_item ''reason'' PStr (fr_reason r)])"

text \<open>The consistency of status, arrival and collision flags, and the reason that goes with them.\<close>

definition feedback_flags :: "string \<Rightarrow> bool \<Rightarrow> bool \<Rightarrow> py_exc + unit" where
  "feedback_flags status collision reached =
     bindE (guardE (\<not> (status = ''arrived'' \<and> \<not> reached))
              (ContractError ''PORTABLE_ARRIVAL_UNCONFIRMED'' ''result.target_reached'')) (\<lambda>_.
     bindE (guardE (\<not> (reached \<and> status \<noteq> ''arrived''))
              (ContractError ''PORTABLE_TARGET_REACHED_STATUS_INVALID'' ''result.status'')) (\<lambda>_.
     guardE (\<not> (collision \<and> status \<notin> set [''blocked'', ''failed'', ''stopped'']))
              (ContractError ''PORTABLE_COLLISION_STATUS_INVALID'' ''result.status'')))"

definition feedback_reason :: "string \<Rightarrow> pyval \<Rightarrow> py_exc + string option" where
  "feedback_reason status reason =
     (if status \<in> set [''blocked'', ''failed'']
      then bindE (c_text 160 False reason ''result.reason'') (\<lambda>t. Inr (Some t))
      else if reason \<noteq> PNone then cerr ''PORTABLE_FEEDBACK_REASON_UNEXPECTED'' ''result.reason''
      else Inr None)"

definition check_feedback_request :: "pyval \<Rightarrow> feedback_result \<Rightarrow> py_exc + unit" where
  "check_feedback_request request r =
     (if request = PNone then Inr () else
      bindE (validate_feedback_request request) (\<lambda>q.
      bindE (c_cross_common q r) (\<lambda>_.
      bindE (guardE (\<not> before_request (fr_observed_unix r) (rq_requested_unix q))
               (ContractError ''PORTABLE_FEEDBACK_STALE'' ''result.observed_unix'')) (\<lambda>_.
      bindE (guardE (fr_command_id r = fq_command_id q)
               (ContractError ''PORTABLE_COMMAND_OWNERSHIP_MISMATCH'' ''command_id'')) (\<lambda>_.
      guardE (\<not> fr_sequence r \<le> fq_after_sequence q)
               (ContractError ''PORTABLE_FEEDBACK_SEQUENCE_STALE'' ''result.sequence''))))))"

definition validate_feedback_result :: "pyval \<Rightarrow> pyval \<Rightarrow> pyval \<Rightarrow> py_exc + feedback_result" where
  "validate_feedback_result v request now_unix =
     bindE (c_common_result v FEEDBACK_RESULT_SCHEMA [''command_id'', ''sequence'', ''observed_unix'', ''status'',
              ''position_m'', ''velocity_mps'', ''remaining_distance_m'', ''minimum_clearance_m'',
              ''collision_detected'', ''target_reached'', ''reason''] []) (\<lambda>(src, h).
     bindE (require_in (dget src ''status'') FEEDBACK_STATUSES
              (ContractError ''PORTABLE_FEEDBACK_STATUS_INVALID'' ''result.status'')) (\<lambda>_.
     let status = pstr (dget src ''status'') in
     bindE (c_boolean (dget src ''collision_detected'') ''result.collision_detected'') (\<lambda>collision.
     bindE (c_boolean (dget src ''target_reached'') ''result.target_reached'') (\<lambda>reached.
     bindE (feedback_flags status collision reached) (\<lambda>_.
     bindE (feedback_reason status (dget src ''reason'')) (\<lambda>reason.
     bindE (c_identifier (dget src ''command_id'') ''result.command_id'') (\<lambda>cid.
     bindE (c_integer 0 MAX_SEQUENCE (dget src ''sequence'') ''result.sequence'') (\<lambda>seq.
     bindE (c_timestamp (dget src ''observed_unix'') ''result.observed_unix'') (\<lambda>t.
     bindE (c_vector3 (dget src ''position_m'') ''result.position_m'') (\<lambda>pos.
     bindE (c_vector3 (dget src ''velocity_mps'') ''result.velocity_mps'') (\<lambda>vel.
     bindE (c_number (Some 0) None (dget src ''remaining_distance_m'') ''result.remaining_distance_m'') (\<lambda>rem.
     bindE (c_number (Some 0) None (dget src ''minimum_clearance_m'') ''result.minimum_clearance_m'') (\<lambda>clear.
     let r = result_head.extend h \<lparr>fr_command_id = cid, fr_sequence = seq, fr_observed_unix = t, fr_status = status,
               fr_position_m = pos, fr_velocity_mps = vel, fr_remaining_distance_m = rem,
               fr_minimum_clearance_m = clear, fr_collision_detected = collision, fr_target_reached = reached,
               fr_reason = reason\<rparr> in
     bindE (c_not_future t now_unix ''result.observed_unix'') (\<lambda>_.
     bindE (check_feedback_request request r) (\<lambda>_.
     bindE (c_canonical_json (feedback_result_val r) ''result'') (\<lambda>_. Inr r))))))))))))))))"

subsection \<open>Stop\<close>

definition STOP_REQUEST_SCHEMA :: string where
  "STOP_REQUEST_SCHEMA = ''lumina.portable.stop.request.v1''"

definition STOP_RESULT_SCHEMA :: string where
  "STOP_RESULT_SCHEMA = ''lumina.portable.stop.result.v1''"

definition STOP_STATUSES :: "string list" where
  "STOP_STATUSES = [''confirmed'', ''already_stopped'', ''rejected'']"

record stop_request = request_head +
  sq_command_id :: string
  sq_reason :: string

record stop_result = result_head +
  sr_owned_command_id :: string
  sr_status :: string
  sr_confirmed :: bool
  sr_stopped_unix :: "rat option"
  sr_final_sequence :: int
  sr_reason :: "string option"

definition stop_request_val :: "stop_request \<Rightarrow> pyval" where
  "stop_request_val q = PDict (request_head_items STOP_REQUEST_SCHEMA q
     @ [(''command_id'', PStr (sq_command_id q)), (''reason'', PStr (sq_reason q))])"

definition validate_stop_request :: "pyval \<Rightarrow> py_exc + stop_request" where
  "validate_stop_request v =
     bindE (c_common_request v STOP_REQUEST_SCHEMA [''command_id'', ''reason''] []) (\<lambda>(src, h).
     bindE (c_identifier (dget src ''command_id'') ''request.command_id'') (\<lambda>cid.
     bindE (c_text 160 False (dget src ''reason'') ''request.reason'') (\<lambda>reason.
     let q = request_head.extend h \<lparr>sq_command_id = cid, sq_reason = reason\<rparr> in
     bindE (c_canonical_json (stop_request_val q) ''request'') (\<lambda>_. Inr q))))"

definition stop_result_val :: "stop_result \<Rightarrow> pyval" where
  "stop_result_val r = PDict (result_head_items STOP_RESULT_SCHEMA r
     @ [(''owned_command_id'', PStr (sr_owned_command_id r)), (''status'', PStr (sr_status r)),
        (''confirmed'', PBool (sr_confirmed r)), null_item ''stopped_unix'' num_val (sr_stopped_unix r),
        (''final_sequence'', PInt (sr_final_sequence r)), null_item ''reason'' PStr (sr_reason r)])"

definition stop_outcome ::
  "(string \<times> pyval) list \<Rightarrow> bool \<Rightarrow> pyval \<Rightarrow> py_exc + rat option \<times> string option" where
  "stop_outcome src confirmed now_unix =
     (if confirmed then
        bindE (c_timestamp (dget src ''stopped_unix'') ''result.stopped_unix'') (\<lambda>stopped.
        bindE (c_not_future stopped now_unix ''result.stopped_unix'') (\<lambda>_.
        bindE (guardE (dget src ''reason'' = PNone)
                 (ContractError ''PORTABLE_STOP_REASON_UNEXPECTED'' ''result.reason'')) (\<lambda>_.
        Inr (Some stopped, None))))
      else
        bindE (guardE (dget src ''stopped_unix'' = PNone)
                 (ContractError ''PORTABLE_REJECTED_STOP_TIME_FORBIDDEN'' ''result.stopped_unix'')) (\<lambda>_.
        bindE (c_text 160 False (dget src ''reason'') ''result.reason'') (\<lambda>reason.
        Inr (None, Some reason))))"

definition check_stop_request :: "pyval \<Rightarrow> stop_result \<Rightarrow> py_exc + unit" where
  "check_stop_request request r =
     (if request = PNone then Inr () else
      bindE (validate_stop_request request) (\<lambda>q.
      bindE (c_cross_common q r) (\<lambda>_.
      bindE (guardE (sr_owned_command_id r = sq_command_id q)
               (ContractError ''PORTABLE_COMMAND_OWNERSHIP_MISMATCH'' ''owned_command_id'')) (\<lambda>_.
      guardE (case sr_stopped_unix r of None \<Rightarrow> True | Some t \<Rightarrow> \<not> before_request t (rq_requested_unix q))
               (ContractError ''PORTABLE_STOP_TIME_INVALID'' ''result.stopped_unix'')))))"

definition validate_stop_result :: "pyval \<Rightarrow> pyval \<Rightarrow> pyval \<Rightarrow> py_exc + stop_result" where
  "validate_stop_result v request now_unix =
     bindE (c_common_result v STOP_RESULT_SCHEMA [''owned_command_id'', ''status'', ''confirmed'', ''stopped_unix'',
              ''final_sequence'', ''reason''] []) (\<lambda>(src, h).
     bindE (require_in (dget src ''status'') STOP_STATUSES
              (ContractError ''PORTABLE_STOP_STATUS_INVALID'' ''result.status'')) (\<lambda>_.
     let status = pstr (dget src ''status'') in
     bindE (c_boolean (dget src ''confirmed'') ''result.confirmed'') (\<lambda>confirmed.
     bindE (guardE (confirmed = (status \<in> set [''confirmed'', ''already_stopped'']))
              (ContractError ''PORTABLE_STOP_CONFIRMATION_INVALID'' ''result.confirmed'')) (\<lambda>_.
     bindE (stop_outcome src confirmed now_unix) (\<lambda>(stopped, reason).
     bindE (c_identifier (dget src ''owned_command_id'') ''result.owned_command_id'') (\<lambda>cid.
     bindE (c_integer 0 MAX_SEQUENCE (dget src ''final_sequence'') ''result.final_sequence'') (\<lambda>seq.
     let r = result_head.extend h \<lparr>sr_owned_command_id = cid, sr_status = status, sr_confirmed = confirmed,
               sr_stopped_unix = stopped, sr_final_sequence = seq, sr_reason = reason\<rparr> in
     bindE (check_stop_request request r) (\<lambda>_.
     bindE (c_canonical_json (stop_result_val r) ''result'') (\<lambda>_. Inr r)))))))))"

subsection \<open>Accepted envelopes are accepted again\<close>

lemma navigate_request_refeed:
  assumes "validate_navigate_request v = Inr q"
  shows "validate_navigate_request (navigate_request_val q) = Inr q"
proof -
  obtain raw where p: "c_points ''request.waypoints_m'' raw = Inr (nq_waypoints_m q)" "1 \<le> length raw" "length raw \<le> MAX_WAYPOINTS"
    and f: "id_pattern (nq_navigation_id q)" "id_pattern (nq_command_id q)" "id_pattern (nq_environment_id q)"
      "id_pattern (nq_session_id q)" "id_pattern (nq_source_frame_id q)" "id_pattern (nq_map_id q)"
      "target_id_pattern (nq_target_id q)" "id_pattern (nq_coordinate_frame_id q)"
      "0 \<le> nq_requested_unix q" "0 \<le> nq_deadline_unix q" "nq_requested_unix q < nq_deadline_unix q"
      "fle (Fin (nq_deadline_unix q)) (fadd (Fin (nq_requested_unix q)) (Fin 300))"
      "lit (5/100) \<le> nq_arrival_radius_m q" "nq_arrival_radius_m q \<le> 5"
      "lit (1/100) \<le> nq_max_speed_mps q" "nq_max_speed_mps q \<le> 10"
      "0 \<le> nq_minimum_clearance_m q" "nq_minimum_clearance_m q \<le> 10"
    using assms by (simp only: validate_navigate_request_def accept_iffs in_range_simps bounded_seq_Inr Let_def)
      (elim exE conjE, simp)
  have "json_ok (navigate_request_val q)"
    by (simp add: navigate_request_val_def num_val_def)
  then show ?thesis using p(2,3) f c_points_length [OF p(1)] c_points_refeed [OF p(1)]
    by (cases q) (simp add: validate_navigate_request_def navigate_request_val_def c_fields_ok accept_iffs bounded_seq_def
         c_schema_def c_canonical_json_def Let_def)
qed

text \<open>The three result fields that depend on the status, and the branch they come from.\<close>

lemma navigate_outcome_Inr:
  "navigate_outcome src now_unix = Inr (cid, accepted, reason) \<longleftrightarrow>
     (if dget src ''status'' = PStr ''accepted''
      then (\<exists>c t. cid = Some c \<and> accepted = Some t \<and> reason = None \<and> dget src ''command_id'' = PStr c \<and> id_pattern c
             \<and> c_timestamp (dget src ''accepted_unix'') ''result.accepted_unix'' = Inr t
             \<and> c_not_future t now_unix ''result.accepted_unix'' = Inr () \<and> dget src ''reason'' = PNone)
      else (\<exists>m. cid = None \<and> accepted = None \<and> reason = Some m \<and> dget src ''command_id'' = PNone
             \<and> dget src ''accepted_unix'' = PNone \<and> c_text 160 False (dget src ''reason'') ''result.reason'' = Inr m))"
  by (auto simp: navigate_outcome_def bindE_Inr_iff guardE_Inr_iff c_identifier_Inr)

lemma navigate_result_refeed:
  assumes "validate_navigate_result v request now_unix = Inr r"
  shows "validate_navigate_result (navigate_result_val r) request now_unix = Inr r"
proof -
  obtain src where o: "navigate_outcome src now_unix = Inr (nr_command_id r, nr_accepted_unix r, nr_reason r)"
    and s: "dget src ''status'' = PStr (nr_status r)"
    and f: "nr_status r \<in> set NAVIGATE_STATUSES" "id_pattern (nr_navigation_id r)" "id_pattern (nr_environment_id r)"
      "id_pattern (nr_session_id r)" "id_pattern (nr_map_id r)" "target_id_pattern (nr_target_id r)"
    and k: "check_navigate_request request r = Inr ()"
    using assms by (simp only: validate_navigate_result_def accept_iffs Let_def split_paired_Ex prod.case)
      (elim exE conjE, simp)
  have items: "navigate_outcome d now_unix = Inr (nr_command_id r, nr_accepted_unix r, nr_reason r)"
    if "dget d ''status'' = PStr (nr_status r)"
      "dget d ''command_id'' = snd (null_item k1 PStr (nr_command_id r))"
      "dget d ''accepted_unix'' = snd (null_item k2 num_val (nr_accepted_unix r))"
      "dget d ''reason'' = snd (null_item k3 PStr (nr_reason r))" for d k1 k2 k3
    using o s that by (auto simp: navigate_outcome_Inr c_text_Inr c_timestamp_Inr split: if_splits)
  have j: "json_ok (navigate_result_val r)"
    by (simp add: navigate_result_val_def null_item_def num_val_def split: option.split)
  show ?thesis using f k j
    unfolding validate_navigate_result_def navigate_result_val_def
    by (cases r) (simp add: items [of _ "[]" "[]" "[]"] null_item_def c_fields_ok accept_iffs c_schema_def c_canonical_json_def Let_def)
qed

lemma feedback_request_refeed:
  assumes "validate_feedback_request v = Inr q"
  shows "validate_feedback_request (feedback_request_val q) = Inr q"
proof -
  obtain src h cid after where c: "c_common_request v FEEDBACK_REQUEST_SCHEMA [''command_id'', ''after_sequence''] [] = Inr (src, h)"
    and f: "id_pattern cid" "- 1 \<le> after" "after \<le> MAX_SEQUENCE"
    and q: "q = request_head.extend h \<lparr>fq_command_id = cid, fq_after_sequence = after\<rparr>"
    using assms by (auto simp: validate_feedback_request_def Let_def accept_iffs)
  have t: "request_head.truncate q = h" by (simp add: q request_head.defs)
  have "json_ok (feedback_request_val q)" by (simp add: feedback_request_val_def)
  then show ?thesis using f
    unfolding validate_feedback_request_def feedback_request_val_def
    by (subst c_common_request_refeed [OF c t refl])
      (simp add: request_head_items_def c_fields_ok,
       simp add: q request_head_items_def request_head.defs accept_iffs c_canonical_json_def)
qed

lemma stop_request_refeed:
  assumes "validate_stop_request v = Inr q"
  shows "validate_stop_request (stop_request_val q) = Inr q"
proof -
  obtain src h cid reason where c: "c_common_request v STOP_REQUEST_SCHEMA [''command_id'', ''reason''] [] = Inr (src, h)"
    and f: "id_pattern cid" "c_text 160 False (PStr reason) ''request.reason'' = Inr reason"
    and q: "q = request_head.extend h \<lparr>sq_command_id = cid, sq_reason = reason\<rparr>"
    using assms by (auto simp: validate_stop_request_def Let_def accept_iffs)
  have t: "request_head.truncate q = h" by (simp add: q request_head.defs)
  have "json_ok (stop_request_val q)" by (simp add: stop_request_val_def)
  then show ?thesis using f
    unfolding validate_stop_request_def stop_request_val_def
    by (subst c_common_request_refeed [OF c t refl])
      (simp add: request_head_items_def c_fields_ok,
       simp add: q request_head_items_def request_head.defs accept_iffs c_canonical_json_def)
qed

lemma feedback_reason_Inr:
  "feedback_reason status v = Inr r \<longleftrightarrow>
     (if status \<in> set [''blocked'', ''failed''] then \<exists>t. r = Some t \<and> c_text 160 False v ''result.reason'' = Inr t
      else v = PNone \<and> r = None)"
  by (auto simp: feedback_reason_def bindE_Inr_iff)

lemma feedback_reason_refeed:
  assumes "feedback_reason status v = Inr r"
  shows "feedback_reason status (snd (null_item k PStr r)) = Inr r"
  using assms by (cases r) (auto simp: feedback_reason_Inr c_text_Inr split: if_splits)

lemma feedback_result_refeed:
  assumes "validate_feedback_result v request now_unix = Inr r"
  shows "validate_feedback_result (feedback_result_val r) request now_unix = Inr r"
proof -
  let ?extra = "[''command_id'', ''sequence'', ''observed_unix'', ''status'', ''position_m'', ''velocity_mps'',
     ''remaining_distance_m'', ''minimum_clearance_m'', ''collision_detected'', ''target_reached'', ''reason'']"
  obtain src h status col rea reason rv cid sq t pos pv pf vel vv vf rm cl where
    c: "c_common_result v FEEDBACK_RESULT_SCHEMA ?extra [] = Inr (src, h)"
    and f: "status \<in> set FEEDBACK_STATUSES" "feedback_flags status col rea = Inr ()"
      "feedback_reason status rv = Inr reason"
      "id_pattern cid" "0 \<le> sq" "sq \<le> MAX_SEQUENCE" "0 \<le> t" "c_vector3 pv pf = Inr pos" "c_vector3 vv vf = Inr vel"
      "0 \<le> rm" "0 \<le> cl"
    and r: "r = result_head.extend h \<lparr>fr_command_id = cid, fr_sequence = sq, fr_observed_unix = t, fr_status = status,
               fr_position_m = pos, fr_velocity_mps = vel, fr_remaining_distance_m = rm,
               fr_minimum_clearance_m = cl, fr_collision_detected = col, fr_target_reached = rea,
               fr_reason = reason\<rparr>"
    and k: "c_not_future t now_unix ''result.observed_unix'' = Inr ()" "check_feedback_request request r = Inr ()"
    using assms by (simp only: validate_feedback_result_def accept_iffs in_range_simps Let_def split_paired_Ex prod.case)
      (elim exE conjE, simp)
  have t: "result_head.truncate r = h" by (simp add: r result_head.defs)
  have j: "json_ok (feedback_result_val r)"
    by (simp add: feedback_result_val_def num_val_def null_item_def json_facts split: option.split)
  note v = vector3_field.refeed [OF f(8)] vector3_field.refeed [OF f(9)]
    feedback_reason_refeed [OF f(3), of "''reason''"]
  show ?thesis using f(1,2,4-7,10,11) j k
    unfolding validate_feedback_result_def feedback_result_val_def
    by (subst c_common_result_refeed [OF c t refl])
      (simp add: result_head_items_def null_item_def c_fields_ok,
       simp add: r result_head_items_def result_head.defs accept_iffs v v [unfolded null_item_def snd_conv] null_item_def
          c_canonical_json_def Let_def del: split_paired_Ex)
qed

lemma stop_outcome_Inr:
  "stop_outcome src confirmed now_unix = Inr (stopped, reason) \<longleftrightarrow>
     (if confirmed
      then (\<exists>t. stopped = Some t \<and> reason = None \<and> c_timestamp (dget src ''stopped_unix'') ''result.stopped_unix'' = Inr t
             \<and> c_not_future t now_unix ''result.stopped_unix'' = Inr () \<and> dget src ''reason'' = PNone)
      else (\<exists>m. stopped = None \<and> reason = Some m \<and> dget src ''stopped_unix'' = PNone
             \<and> c_text 160 False (dget src ''reason'') ''result.reason'' = Inr m))"
  by (auto simp: stop_outcome_def bindE_Inr_iff guardE_Inr_iff)

lemma stop_result_refeed:
  assumes "validate_stop_result v request now_unix = Inr r"
  shows "validate_stop_result (stop_result_val r) request now_unix = Inr r"
proof -
  let ?extra = "[''owned_command_id'', ''status'', ''confirmed'', ''stopped_unix'', ''final_sequence'', ''reason'']"
  obtain src h status conf stopped reason cid sq where
    c: "c_common_result v STOP_RESULT_SCHEMA ?extra [] = Inr (src, h)"
    and f: "status \<in> set STOP_STATUSES" "conf = (status \<in> set [''confirmed'', ''already_stopped''])"
      "id_pattern cid" "0 \<le> sq" "sq \<le> MAX_SEQUENCE"
    and o: "stop_outcome src conf now_unix = Inr (stopped, reason)"
    and r: "r = result_head.extend h \<lparr>sr_owned_command_id = cid, sr_status = status, sr_confirmed = conf,
               sr_stopped_unix = stopped, sr_final_sequence = sq, sr_reason = reason\<rparr>"
    and k: "check_stop_request request r = Inr ()"
    using assms by (simp only: validate_stop_result_def accept_iffs in_range_simps Let_def split_paired_Ex prod.case)
      (elim exE conjE, simp)
  have items: "stop_outcome d conf now_unix = Inr (stopped, reason)"
    if "dget d ''stopped_unix'' = snd (null_item k1 num_val stopped)"
      "dget d ''reason'' = snd (null_item k2 PStr reason)" for d k1 k2
    using o that by (auto simp: stop_outcome_Inr c_text_Inr c_timestamp_Inr split: if_splits)
  have t: "result_head.truncate r = h" by (simp add: r result_head.defs)
  have j: "json_ok (stop_result_val r)"
    by (simp add: stop_result_val_def num_val_def null_item_def split: option.split)
  have st: "(status = ''confirmed'' \<or> status = ''already_stopped'') = conf" using f(2) by simp
  show ?thesis using f(1,3-5) j k
    unfolding validate_stop_result_def stop_result_val_def
    by (subst c_common_result_refeed [OF c t refl])
      (simp add: result_head_items_def null_item_def c_fields_ok,
       simp add: r result_head_items_def result_head.defs accept_iffs items [of _ "[]" "[]"] st null_item_def
          c_canonical_json_def Let_def del: split_paired_Ex)
qed

end
