(* ===== verification/ContractClaims.thy ===== *)
theory ContractClaims
  imports ContractMotion
begin

text \<open>
  What the contract promises to the modules that call it: that accepted envelopes are well
  formed, belong to the request they answer and are accepted again, and the inputs that escape
  the contract's own error codes. The \<open>sample_\<close> values are the concrete envelopes the
  properties are applied to.
\<close>

subsection \<open>The clock skew\<close>

lemma not_before_request: "\<not> before_request t r \<longleftrightarrow> fle (fsub (Fin r) (Fin 1)) (Fin t)"
proof -
  have "fsub (Fin r) (Fin 1) \<noteq> NaN" by (simp add: fsub_def)
  then show ?thesis by (cases "fsub (Fin r) (Fin 1)") (auto simp: before_request_def MAX_CLOCK_SKEW_SECONDS_def)
qed

subsection \<open>Sample envelopes\<close>

definition sample_lib :: pylib where
  "sample_lib = \<lparr>b64decode = Some, b64encode = id, sha256hex = (\<lambda>_. replicate 64 (CHR ''0'')), json_text = (\<lambda>_. ''json'')\<rparr>"

definition sample_digest :: string where "sample_digest = replicate 64 (CHR ''0'')"

lemma sample_digest_ok: "sha256_pattern sample_digest" "sha256hex sample_lib s = sample_digest" "b64decode sample_lib s = Some s"
  "sha256_pattern (replicate 64 (CHR ''0''))"
  by (simp_all add: sample_digest_def sha256_pattern_def sample_lib_def is_lower_hex_def is_digit_def list_all_iff)

lemma sample_quaternion: 
  "c_quaternion (PList [PInt 0, PInt 0, PInt 0, PInt 1]) f = Inr (0, 0, 0, 1)"
proof -
  have "fsqrt (Fin 1) = Inr (Fin 1)" "unit_norm (Fin 1)" by code_simp+
  then show ?thesis by (simp add: c_quaternion_def c_number_def norm_squared4_def fsum_def fsub_def)
qed

lemma sample_limits: "lit (5/100) \<le> 1" "lit (1/100) \<le> 1" "lit (1/1000) \<le> 1" "lit (1/1000) \<le> 2"
  by code_simp+

definition sample_stop_request :: pyval where
  "sample_stop_request = PDict [(''schema_version'', PStr STOP_REQUEST_SCHEMA), (''request_id'', PStr ''r1''),
   (''environment_id'', PStr ''env''), (''session_id'', PStr ''s1''), (''requested_unix'', PInt 11),
   (''command_id'', PStr ''c1''), (''reason'', PStr ''user'')]"

definition sample_stop_result :: pyval where
  "sample_stop_result = PDict [(''schema_version'', PStr STOP_RESULT_SCHEMA), (''request_id'', PStr ''r1''),
   (''environment_id'', PStr ''env''), (''session_id'', PStr ''s1''), (''owned_command_id'', PStr ''c1''),
   (''status'', PStr ''confirmed''), (''confirmed'', PBool True), (''stopped_unix'', PInt 12),
   (''final_sequence'', PInt 4), (''reason'', PNone)]"

definition sample_feedback_request :: pyval where
  "sample_feedback_request = PDict [(''schema_version'', PStr FEEDBACK_REQUEST_SCHEMA), (''request_id'', PStr ''r1''),
   (''environment_id'', PStr ''env''), (''session_id'', PStr ''s1''), (''requested_unix'', PInt 11),
   (''command_id'', PStr ''c1''), (''after_sequence'', PInt 3)]"

definition sample_feedback_result :: pyval where
  "sample_feedback_result = PDict [(''schema_version'', PStr FEEDBACK_RESULT_SCHEMA), (''request_id'', PStr ''r1''),
   (''environment_id'', PStr ''env''), (''session_id'', PStr ''s1''), (''command_id'', PStr ''c1''),
   (''sequence'', PInt 4), (''observed_unix'', PInt 12), (''status'', PStr ''blocked''),
   (''position_m'', PList [PInt 1, PInt 2, PInt 0]), (''velocity_mps'', PList [PInt 0, PInt 0, PInt 0]),
   (''remaining_distance_m'', PInt 2), (''minimum_clearance_m'', PInt 0), (''collision_detected'', PBool True),
   (''target_reached'', PBool False), (''reason'', PStr ''wall'')]"

definition sample_navigate_request :: pyval where
  "sample_navigate_request = PDict [(''schema_version'', PStr NAVIGATE_REQUEST_SCHEMA), (''navigation_id'', PStr ''n1''),
   (''command_id'', PStr ''c1''), (''environment_id'', PStr ''env''), (''session_id'', PStr ''s1''),
   (''requested_unix'', PInt 11), (''deadline_unix'', PInt 41), (''source_frame_id'', PStr ''f1''), (''map_id'', PStr ''m1''),
   (''target_id'', PStr ''target:0123456789abcdef''), (''coordinate_frame_id'', PStr ''world''),
   (''coordinate_convention'', PStr COORDINATE_CONVENTION),
   (''waypoints_m'', PList [PList [PInt 1, PInt 2, PInt 0]]), (''arrival_radius_m'', PInt 1),
   (''max_speed_mps'', PInt 1), (''minimum_clearance_m'', PInt 0)]"

definition sample_navigate_result :: pyval where
  "sample_navigate_result = PDict [(''schema_version'', PStr NAVIGATE_RESULT_SCHEMA), (''navigation_id'', PStr ''n1''),
   (''environment_id'', PStr ''env''), (''session_id'', PStr ''s1''), (''map_id'', PStr ''m1''),
   (''target_id'', PStr ''target:0123456789abcdef''), (''status'', PStr ''accepted''), (''command_id'', PStr ''c1''),
   (''accepted_unix'', PInt 12), (''reason'', PNone)]"

definition sample_map_request :: pyval where
  "sample_map_request = PDict [(''schema_version'', PStr MAP_REQUEST_SCHEMA), (''request_id'', PStr ''r1''),
   (''environment_id'', PStr ''env''), (''session_id'', PStr ''s1''), (''requested_unix'', PInt 11),
   (''source_frame_id'', PStr ''f1''), (''resolution_m'', PInt 1), (''footprint_radius_m'', PInt 1)]"

definition sample_map_result :: pyval where
  "sample_map_result = PDict [(''schema_version'', PStr MAP_RESULT_SCHEMA), (''request_id'', PStr ''r1''),
   (''environment_id'', PStr ''env''), (''session_id'', PStr ''s1''), (''map_id'', PStr ''m1''),
   (''source_frame_id'', PStr ''f1''), (''created_unix'', PInt 12), (''coordinate_frame_id'', PStr ''world''),
   (''coordinate_convention'', PStr COORDINATE_CONVENTION),
   (''grid'', PDict [(''width_cells'', PInt 2), (''height_cells'', PInt 1), (''resolution_m'', PInt 1),
      (''origin_position_m'', PList [PInt 0, PInt 0, PInt 0]),
      (''origin_orientation_xyzw'', PList [PInt 0, PInt 0, PInt 0, PInt 1]),
      (''occupancy_encoding'', PStr ''u8_probability''), (''occupancy_base64'', PStr ''ab''),
      (''occupancy_sha256'', PStr sample_digest), (''unknown_value'', PInt 127), (''occupied_threshold'', PInt 200)]),
   (''agent'', PDict [(''position_m'', PList [PInt 0, PInt 0, PInt 0]),
      (''orientation_xyzw'', PList [PInt 0, PInt 0, PInt 0, PInt 1]), (''footprint_radius_m'', PInt 1)])]"

lemma sample_map_request_ok:
  "validate_map_request sample_map_request = Inr \<lparr>rq_request_id = ''r1'',
   rq_environment_id = ''env'', rq_session_id = ''s1'', rq_requested_unix = 11, mq_source_frame_id = ''f1'',
   mq_resolution_m = 1, mq_footprint_radius_m = 1\<rparr>"
 using sample_limits by (simp add: sample_map_request_def validate_map_request_def map_request_val_def c_fields_ok eval_contract)

lemma sample_map_result_ok:
  "\<exists>r. validate_map_result sample_lib sample_map_result sample_map_request (PInt 13) = Inr r"
  using sample_limits by (simp add: sample_map_request_ok sample_map_result_def validate_map_result_def check_map_request_def
   c_fields_ok validate_grid_def validate_agent_def c_vector3_def isclose_nano_def sample_quaternion c_inline_bytes_def sample_digest_ok
   MAX_GRID_DIMENSION_CELLS_def MAX_GRID_CELLS_def MAX_INLINE_PLANE_BYTES_def map_result_val_def eval_contract)

lemma sample_stop_result_ok:
  "validate_stop_result sample_stop_result sample_stop_request (PInt 13)
   = Inr \<lparr>rs_request_id = ''r1'', rs_environment_id = ''env'', rs_session_id = ''s1'',
       sr_owned_command_id = ''c1'', sr_status = ''confirmed'', sr_confirmed = True, sr_stopped_unix = Some 12,
       sr_final_sequence = 4, sr_reason = None\<rparr>"
  by (simp add: sample_stop_result_def sample_stop_request_def validate_stop_result_def validate_stop_request_def c_fields_ok stop_outcome_def
   check_stop_request_def stop_result_val_def stop_request_val_def eval_contract null_item_def MAX_SEQUENCE_def STOP_STATUSES_def)

lemma sample_feedback_result_ok:
  "validate_feedback_result sample_feedback_result sample_feedback_request (PInt 13)
   = Inr \<lparr>rs_request_id = ''r1'', rs_environment_id = ''env'', rs_session_id = ''s1'',
       fr_command_id = ''c1'', fr_sequence = 4, fr_observed_unix = 12, fr_status = ''blocked'',
       fr_position_m = (1, 2, 0), fr_velocity_mps = (0, 0, 0), fr_remaining_distance_m = 2, fr_minimum_clearance_m = 0,
       fr_collision_detected = True, fr_target_reached = False, fr_reason = Some ''wall''\<rparr>"
  by (simp add: sample_feedback_result_def sample_feedback_request_def validate_feedback_result_def validate_feedback_request_def
   c_fields_ok feedback_flags_def feedback_reason_def check_feedback_request_def feedback_result_val_def feedback_request_val_def
   eval_contract c_vector3_def v3_val_def null_item_def MAX_SEQUENCE_def FEEDBACK_STATUSES_def)

lemma sample_navigate_request_ok:
  "validate_navigate_request sample_navigate_request = Inr \<lparr>nq_navigation_id = ''n1'', nq_command_id = ''c1'',
   nq_environment_id = ''env'', nq_session_id = ''s1'', nq_requested_unix = 11, nq_deadline_unix = 41,
   nq_source_frame_id = ''f1'', nq_map_id = ''m1'', nq_target_id = ''target:0123456789abcdef'',
   nq_coordinate_frame_id = ''world'', nq_waypoints_m = [(1, 2, 0)], nq_arrival_radius_m = 1, nq_max_speed_mps = 1,
   nq_minimum_clearance_m = 0\<rparr>"
  using sample_limits by (simp add: sample_navigate_request_def validate_navigate_request_def navigate_request_val_def
   c_fields_ok bounded_seq_def MAX_WAYPOINTS_def c_points_def target_id_pattern_def
   eval_contract c_vector3_def v3_val_def)

lemma sample_navigate_result_ok:
  "\<exists>r. validate_navigate_result sample_navigate_result sample_navigate_request (PInt 13) = Inr r"
  by (simp add: sample_navigate_request_ok check_navigate_request_def sample_navigate_result_def validate_navigate_result_def navigate_result_val_def
   navigate_outcome_def NAVIGATE_STATUSES_def lineage_same_def c_fields_ok eval_contract target_id_pattern_def null_item_def)

definition sample_sparse :: "(string \<times> pyval) list" where
  "sample_sparse = [(''representation'', PStr ''sparse_rays''), (''measurement_model'', PStr ''ray_range_m''),
     (''alignment'', PStr ''registered_normalized_to_rgb''),
     (''samples'', PList [PDict [(''uv_norm'', PList [PInt 0, PInt 1]), (''distance_m'', PInt 2), (''confidence'', PInt 1),
        (''surface_id'', PStr (''surface:'' @ sample_digest)), (''surface_role'', PStr ''walkable_ground'')]]),
     (''samples_sha256'', PStr sample_digest),
     (''surface_id_semantics_revision'', PStr SURFACE_ID_SEMANTICS_REVISION)]"

lemma sample_sparse_ok: "\<exists>d. validate_sparse_depth sample_lib sample_sparse = Inr d"
proof -
  have "surface_id_pattern (''surface:'' @ sample_digest)"
    by (simp add: surface_id_pattern_def sample_digest_def is_lower_hex_def is_digit_def list_all_iff)
  then show ?thesis using sample_limits
    by (simp add: sample_sparse_def validate_sparse_depth_def c_fields_ok DEPTH_ALIGNMENTS_def
      MAX_SPARSE_DEPTH_SAMPLES_def sparse_step_def sparse_uv_def optE_def SURFACE_ROLES_def
      c_canonical_sha256_def sample_digest_ok eval_contract)
qed

definition sample_ground_request :: pyval where
  "sample_ground_request = PDict [(''schema_version'', PStr GROUND_REQUEST_SCHEMA), (''request_id'', PStr ''r1''),
   (''environment_id'', PStr ''env''), (''session_id'', PStr ''s1''), (''requested_unix'', PInt 11),
   (''source_frame_id'', PStr ''f1''), (''map_id'', PStr ''m1''),
   (''detection'', PDict [(''detection_id'', PStr ''d1''), (''label'', PStr ''tv''), (''confidence'', PInt 1),
      (''bbox_norm'', PList [PInt 0, PInt 0, PInt 1, PInt 1]), (''expected_surface_role'', PStr ''physical_surface'')])]"

definition sample_ground_result :: pyval where
  "sample_ground_result = PDict [(''schema_version'', PStr GROUND_RESULT_SCHEMA), (''request_id'', PStr ''r1''),
   (''environment_id'', PStr ''env''), (''session_id'', PStr ''s1''), (''source_frame_id'', PStr ''f1''),
   (''map_id'', PStr ''m1''), (''detection_id'', PStr ''d1''), (''grounded_unix'', PInt 12), (''status'', PStr ''grounded''),
   (''target_id'', PStr ''target:0123456789abcdef''), (''label'', PStr ''tv''), (''confidence'', PInt 1),
   (''coordinate_frame_id'', PStr ''world''), (''coordinate_convention'', PStr COORDINATE_CONVENTION),
   (''position_m'', PList [PInt 1, PInt 2, PInt 0]), (''uncertainty_radius_m'', PInt 0), (''reason'', PNone),
   (''surface_id'', PStr (''surface:'' @ sample_digest)), (''surface_role'', PStr ''physical_surface'')]"

lemma sample_ground_request_ok: "validate_ground_request sample_ground_request = Inr \<lparr>rq_request_id = ''r1'',
   rq_environment_id = ''env'', rq_session_id = ''s1'', rq_requested_unix = 11, gq_source_frame_id = ''f1'', gq_map_id = ''m1'',
   gq_detection = \<lparr>det_detection_id = ''d1'', det_label = ''tv'', det_confidence = 1, det_bbox_norm = (0, 0, 1, 1),
     det_expected_surface_role = Some ''physical_surface'', det_occluder_bboxes_norm = None\<rparr>, gq_continuity = None\<rparr>"
  by (simp add: sample_ground_request_def validate_ground_request_def ground_request_val_def c_fields_ok
    validate_detection_def optE_def c_bbox_def SURFACE_ROLES_def detection_val_def v4_val_def eval_contract)

lemma sample_ground_result_ok:
  "\<exists>r. validate_ground_result sample_ground_result sample_ground_request (PInt 13) = Inr r"
proof -
  have "surface_id_pattern (''surface:'' @ sample_digest)"
    by (simp add: surface_id_pattern_def sample_digest_def is_lower_hex_def is_digit_def list_all_iff)
  then show ?thesis
    by (simp add: sample_ground_request_ok sample_ground_result_def validate_ground_result_def c_fields_ok grounded_body_def
      optE_def c_vector3_def GROUND_STATUSES_def SURFACE_ROLES_def check_ground_request_def surface_agrees_def
      continuity_get_def target_id_pattern_def eval_contract)
qed

definition sample_capture_request :: pyval where
  "sample_capture_request = PDict [(''schema_version'', PStr CAPTURE_REQUEST_SCHEMA), (''request_id'', PStr ''r1''),
   (''environment_id'', PStr ''env''), (''session_id'', PStr ''s1''), (''requested_unix'', PInt 11),
   (''require_depth'', PBool False), (''max_age_ms'', PInt 1000)]"

definition sample_capture_result :: pyval where
  "sample_capture_result = PDict [(''schema_version'', PStr CAPTURE_RESULT_SCHEMA), (''request_id'', PStr ''r1''),
   (''environment_id'', PStr ''env''), (''session_id'', PStr ''s1''), (''frame_id'', PStr ''f1''), (''captured_unix'', PInt 12),
   (''rgb'', PDict [(''encoding'', PStr ''jpeg''), (''width_px'', PInt 2), (''height_px'', PInt 2),
      (''data_base64'', PStr [CHR 0xFF, CHR 0xD8]), (''sha256'', PStr sample_digest)]),
   (''depth'', PNone),
   (''camera'', PDict [(''coordinate_frame_id'', PStr ''world''), (''coordinate_convention'', PStr COORDINATE_CONVENTION),
      (''position_m'', PList [PInt 0, PInt 0, PInt 0]), (''orientation_xyzw'', PList [PInt 0, PInt 0, PInt 0, PInt 1]),
      (''intrinsics'', PDict [(''fx_px'', PInt 2), (''fy_px'', PInt 2), (''cx_px'', PInt 1), (''cy_px'', PInt 1)])])]"

lemma sample_capture_request_ok: "validate_capture_request sample_capture_request = Inr \<lparr>rq_request_id = ''r1'',
   rq_environment_id = ''env'', rq_session_id = ''s1'', rq_requested_unix = 11, cq_require_depth = False, cq_max_age_ms = 1000\<rparr>"
  by (simp add: sample_capture_request_def validate_capture_request_def capture_request_val_def c_fields_ok eval_contract)

lemma sample_capture_result_ok:
  "\<exists>r. validate_capture_result sample_lib sample_capture_result sample_capture_request (PInt 13) = Inr r"
  using sample_limits
  by (simp add: sample_capture_request_ok sample_capture_result_def validate_capture_result_def c_fields_ok
    validate_rgb_plane_def RGB_ENCODINGS_def validate_depth_def validate_camera_def c_vector3_def sample_quaternion
    c_inline_bytes_def sample_digest_ok MAX_FRAME_DIMENSION_PX_def MAX_INLINE_PLANE_BYTES_def starts_with_def
    jpeg_signature_def check_capture_request_def capture_earliest_def capture_result_val_def eval_contract)

subsection \<open>Properties\<close>

lemma feedback_flags_Inr:
  "feedback_flags status collision reached = Inr u \<longleftrightarrow>
     (status = ''arrived'' \<longleftrightarrow> reached) \<and> (collision \<longrightarrow> status \<in> {''blocked'', ''failed'', ''stopped''})"
  by (auto simp: feedback_flags_def bindE_Inr_iff guardE_Inr_iff)

text \<open>C24. An accepted map result carries an occupancy plane that decodes to exactly one byte per cell, has bounded
  dimensions and an unknown value below the occupied threshold; when it is checked against a request
  it has the request's identifier, environment, session, frame and (to a nanometre) resolution, a footprint at least
  as large, and a creation time at most one second (the clock skew, subtracted in floating point) before the time of
  the request; and validating it again gives the same result.\<close>

theorem map_result_sound:
  assumes "validate_map_result L v request now_unix = Inr r"
  shows "(\<exists>raw. b64decode L (occupancy_base64 (mr_grid r)) = Some raw
        \<and> int (length raw) = width_cells (mr_grid r) * height_cells (mr_grid r)
        \<and> sha256hex L raw = occupancy_sha256 (mr_grid r))
    \<and> 1 \<le> width_cells (mr_grid r) \<and> width_cells (mr_grid r) \<le> 4096
    \<and> 1 \<le> height_cells (mr_grid r) \<and> height_cells (mr_grid r) \<le> 4096
    \<and> 0 \<le> unknown_value (mr_grid r) \<and> unknown_value (mr_grid r) < occupied_threshold (mr_grid r)
    \<and> occupied_threshold (mr_grid r) \<le> 255
    \<and> (request = PNone \<or> (\<exists>q. validate_map_request request = Inr q
         \<and> rs_request_id r = rq_request_id q \<and> rs_environment_id r = rq_environment_id q
         \<and> rs_session_id r = rq_session_id q \<and> mr_source_frame_id r = mq_source_frame_id q
         \<and> isclose_nano (resolution_m (mr_grid r)) (mq_resolution_m q)
         \<and> mq_footprint_radius_m q \<le> agent_footprint_radius_m (mr_agent r)
         \<and> fle (fsub (Fin (rq_requested_unix q)) (Fin 1)) (Fin (mr_created_unix r))))
    \<and> validate_map_result L (map_result_val r) request now_unix = Inr r"
proof -
  obtain gv where g: "validate_grid L gv = Inr (mr_grid r)" and k: "check_map_request request r = Inr ()"
    using assms by (auto simp: validate_map_result_def bindE_Inr_iff Let_def result_head.defs)
  from g have "(\<exists>raw. b64decode L (occupancy_base64 (mr_grid r)) = Some raw
        \<and> int (length raw) = width_cells (mr_grid r) * height_cells (mr_grid r)
        \<and> sha256hex L raw = occupancy_sha256 (mr_grid r))
    \<and> 1 \<le> width_cells (mr_grid r) \<and> width_cells (mr_grid r) \<le> MAX_GRID_DIMENSION_CELLS
    \<and> 1 \<le> height_cells (mr_grid r) \<and> height_cells (mr_grid r) \<le> MAX_GRID_DIMENSION_CELLS
    \<and> 0 \<le> unknown_value (mr_grid r) \<and> unknown_value (mr_grid r) < occupied_threshold (mr_grid r)
    \<and> occupied_threshold (mr_grid r) \<le> 255"
    by (simp only: validate_grid_def accept_iffs) (elim exE conjE, simp)
  moreover have "request = PNone \<or> (\<exists>q. validate_map_request request = Inr q
         \<and> rs_request_id r = rq_request_id q \<and> rs_environment_id r = rq_environment_id q
         \<and> rs_session_id r = rq_session_id q \<and> mr_source_frame_id r = mq_source_frame_id q
         \<and> isclose_nano (resolution_m (mr_grid r)) (mq_resolution_m q)
         \<and> mq_footprint_radius_m q \<le> agent_footprint_radius_m (mr_agent r)
         \<and> fle (fsub (Fin (rq_requested_unix q)) (Fin 1)) (Fin (mr_created_unix r)))"
    using k by (auto simp: check_map_request_def accept_iffs c_cross_common_Inr not_before_request split: if_splits)
  ultimately show ?thesis using map_result_refeed [OF assms] by (simp add: MAX_GRID_DIMENSION_CELLS_def)
qed

theorem map_result_sound_witness:
  "\<exists>r. validate_map_result sample_lib sample_map_result sample_map_request (PInt 13) = Inr r
     \<and> validate_map_result sample_lib (map_result_val r) sample_map_request (PInt 13) = Inr r
     \<and> unknown_value (mr_grid r) < occupied_threshold (mr_grid r)"
  using sample_map_result_ok map_result_sound by blast

text \<open>C25. Accepted sparse depth has pairwise distinct image points, one role per surface id, no role without a surface
  id, between 1 and 65536 samples, and the digest of its canonical JSON is the one the envelope states.\<close>

theorem sparse_depth_sound:
  assumes "validate_sparse_depth L src = Inr d"
  shows "distinct (map ds_uv (sd_samples d))
    \<and> (\<forall>s \<in> set (sd_samples d). \<forall>t \<in> set (sd_samples d). \<forall>i a b.
         ds_surface_id s = Some i \<and> ds_surface_role s = Some a \<and>
         ds_surface_id t = Some i \<and> ds_surface_role t = Some b \<longrightarrow> a = b)
    \<and> (\<forall>s \<in> set (sd_samples d). ds_surface_role s \<noteq> None \<longrightarrow> ds_surface_id s \<noteq> None)
    \<and> 1 \<le> length (sd_samples d) \<and> length (sd_samples d) \<le> 65536
    \<and> sha256hex L (json_text L (PList (map sample_val (sd_samples d)))) = sd_samples_sha256 d"
proof (rule sparse_shape [OF assms])
  fix al raw samples seen roles h rv
  assume s: "1 \<le> length raw" "length raw \<le> MAX_SPARSE_DEPTH_SAMPLES"
    and l: "sparse_loop 0 ([], [], []) raw = Inr (samples, seen, roles)"
    and d: "d = \<lparr>sd_alignment = al, sd_samples = samples, sd_samples_sha256 = h, sd_semantics_revision = rv\<rparr>"
    and sha: "c_canonical_sha256 L (PList (map sample_val samples)) ''result.depth.samples'' = Inr h"
  have h: "sha256hex L (json_text L (PList (map sample_val samples))) = h"
    using sha by (simp add: c_canonical_sha256_def split: if_splits)
  have "sparse_inv (samples, seen, roles)" by (rule sparse_loop_inv [OF l]) (simp add: sparse_inv_def)
  then have seen: "seen = rev (map ds_uv samples)" "distinct seen"
    and role: "\<And>s r. s \<in> set samples \<Longrightarrow> ds_surface_role s = Some r \<Longrightarrow>
          \<exists>i. ds_surface_id s = Some i \<and> map_of roles i = Some r"
    unfolding sparse_inv_def prod.case by blast+
  then have dist: "distinct (map ds_uv samples)" by simp
  have "length samples = length raw" using sparse_loop_refeed [OF l, of 0] by auto
  moreover have "\<forall>s \<in> set samples. \<forall>t \<in> set samples. \<forall>i a b.
         ds_surface_id s = Some i \<and> ds_surface_role s = Some a \<and>
         ds_surface_id t = Some i \<and> ds_surface_role t = Some b \<longrightarrow> a = b"
    using role by (metis option.inject)
  moreover have "\<forall>s \<in> set samples. ds_surface_role s \<noteq> None \<longrightarrow> ds_surface_id s \<noteq> None"
    using role by fastforce
  moreover have sel: "sd_samples d = samples" "sd_samples_sha256 d = h" by (simp_all add: d)
  moreover have "1 \<le> length samples" "length samples \<le> 65536"
    using s calculation(1) by (simp_all add: MAX_SPARSE_DEPTH_SAMPLES_def)
  ultimately show ?thesis using h dist unfolding sel by (intro conjI)
qed

theorem sparse_depth_sound_witness:
  "\<exists>d. validate_sparse_depth sample_lib sample_sparse = Inr d \<and> distinct (map ds_uv (sd_samples d))"
  using sample_sparse_ok sparse_depth_sound by blast

text \<open>An accepted ground result is grounded exactly when it has a target id and a position, is unresolved
  exactly when it has a reason, exposes only opaque target ids, and never a surface role without a surface id;
  against a request it has the request's lineage, detection and label, and a grounded one has the surface role
  and the surface id the request expects. Validating it again gives the same result.\<close>

theorem ground_result_sound:
  assumes "validate_ground_result v request now_unix = Inr r"
  shows "gr_status r \<in> {''grounded'', ''unresolved''}
    \<and> (gr_status r = ''grounded'' \<longleftrightarrow> gb_target_id (gr_body r) \<noteq> None)
    \<and> (gr_status r = ''grounded'' \<longleftrightarrow> gb_position_m (gr_body r) \<noteq> None)
    \<and> (gr_status r = ''unresolved'' \<longleftrightarrow> gb_reason (gr_body r) \<noteq> None)
    \<and> pred_option target_id_pattern (gb_target_id (gr_body r))
    \<and> (gb_surface_role (gr_body r) \<noteq> None \<longrightarrow> gb_surface_id (gr_body r) \<noteq> None)
    \<and> (gb_surface_id (gr_body r) \<noteq> None \<longrightarrow> gr_status r = ''grounded'')
    \<and> (request = PNone \<or> (\<exists>q. validate_ground_request request = Inr q
         \<and> rs_session_id r = rq_session_id q \<and> gr_map_id r = gq_map_id q
         \<and> gr_source_frame_id r = gq_source_frame_id q
         \<and> gr_detection_id r = det_detection_id (gq_detection q) \<and> gr_label r = det_label (gq_detection q)
         \<and> (gr_status r = ''grounded'' \<longrightarrow>
              (\<forall>e. det_expected_surface_role (gq_detection q) = Some e \<longrightarrow> gb_surface_role (gr_body r) = Some e)
            \<and> (\<forall>c. gq_continuity q = Some c \<longrightarrow>
                 (con_surface_id c \<noteq> None \<longrightarrow> gb_surface_id (gr_body r) = con_surface_id c)
               \<and> (con_surface_role c \<noteq> None \<longrightarrow> gb_surface_role (gr_body r) = con_surface_role c)))))
    \<and> validate_ground_result (ground_result_val r) request now_unix = Inr r"
proof -
  have k: "check_ground_request request r = Inr ()"
    using assms by (auto simp: validate_ground_result_def bindE_Inr_iff Let_def)
  obtain src where b: "(if gr_status r = ''grounded'' then grounded_body src else unresolved_body src) = Inr (gr_body r)"
    and s: "gr_status r \<in> set GROUND_STATUSES"
    using ground_result_fields [OF assms] by blast
  have body: "(gr_status r = ''grounded'' \<longleftrightarrow> gb_target_id (gr_body r) \<noteq> None)
    \<and> (gr_status r = ''grounded'' \<longleftrightarrow> gb_position_m (gr_body r) \<noteq> None)
    \<and> (gr_status r \<noteq> ''grounded'' \<longleftrightarrow> gb_reason (gr_body r) \<noteq> None)
    \<and> pred_option target_id_pattern (gb_target_id (gr_body r))
    \<and> (gb_surface_role (gr_body r) \<noteq> None \<longrightarrow> gb_surface_id (gr_body r) \<noteq> None)
    \<and> (gb_surface_id (gr_body r) \<noteq> None \<longrightarrow> gr_status r = ''grounded'')"
  proof (cases "gr_status r = ''grounded''")
    case True
    with b have "grounded_body src = Inr (gr_body r)" by simp
    then show ?thesis by (rule grounded_body_shape) (auto simp: True)
  next
    case False
    with b have "unresolved_body src = Inr (gr_body r)" by simp
    then show ?thesis by (rule unresolved_body_shape) (simp add: False)
  qed
  have "request = PNone \<or> (\<exists>q. validate_ground_request request = Inr q
         \<and> rs_session_id r = rq_session_id q \<and> gr_map_id r = gq_map_id q
         \<and> gr_source_frame_id r = gq_source_frame_id q
         \<and> gr_detection_id r = det_detection_id (gq_detection q) \<and> gr_label r = det_label (gq_detection q)
         \<and> (gr_status r = ''grounded'' \<longrightarrow>
              (\<forall>e. det_expected_surface_role (gq_detection q) = Some e \<longrightarrow> gb_surface_role (gr_body r) = Some e)
            \<and> (\<forall>c. gq_continuity q = Some c \<longrightarrow>
                 (con_surface_id c \<noteq> None \<longrightarrow> gb_surface_id (gr_body r) = con_surface_id c)
               \<and> (con_surface_role c \<noteq> None \<longrightarrow> gb_surface_role (gr_body r) = con_surface_role c))))"
    using k by (auto simp: check_ground_request_def accept_iffs c_cross_common_Inr surface_agrees_def continuity_get_def
        split: if_splits)
  with s body show ?thesis using ground_result_refeed [OF assms] by (auto simp: GROUND_STATUSES_def)
qed

theorem ground_result_sound_witness:
  "\<exists>r. validate_ground_result sample_ground_result sample_ground_request (PInt 13) = Inr r
     \<and> validate_ground_result (ground_result_val r) sample_ground_request (PInt 13) = Inr r"
  using sample_ground_result_ok ground_result_sound by blast

text \<open>An accepted navigate request has a deadline after its request time and at most 300 seconds later (in
  floating point), between 1 and 4096 waypoints, an opaque target and positive speed, and is accepted again
  unchanged.\<close>

theorem navigate_request_sound:
  assumes "validate_navigate_request v = Inr q"
  shows "nq_requested_unix q < nq_deadline_unix q
    \<and> fle (Fin (nq_deadline_unix q)) (fadd (Fin (nq_requested_unix q)) (Fin 300))
    \<and> 1 \<le> length (nq_waypoints_m q) \<and> length (nq_waypoints_m q) \<le> 4096
    \<and> target_id_pattern (nq_target_id q) \<and> nq_arrival_radius_m q \<le> 5 \<and> 0 < nq_max_speed_mps q
    \<and> 0 \<le> nq_minimum_clearance_m q
    \<and> validate_navigate_request (navigate_request_val q) = Inr q"
proof -
  have l: "0 < lit (1/100)" by code_simp
  obtain raw where "c_points ''request.waypoints_m'' raw = Inr (nq_waypoints_m q)" "1 \<le> length raw" "length raw \<le> MAX_WAYPOINTS"
    and rest: "nq_requested_unix q < nq_deadline_unix q
    \<and> fle (Fin (nq_deadline_unix q)) (fadd (Fin (nq_requested_unix q)) (Fin 300))
    \<and> target_id_pattern (nq_target_id q) \<and> nq_arrival_radius_m q \<le> 5 \<and> lit (1/100) \<le> nq_max_speed_mps q
    \<and> 0 \<le> nq_minimum_clearance_m q"
    using assms by (simp only: validate_navigate_request_def accept_iffs in_range_simps bounded_seq_Inr Let_def)
      (elim exE conjE, simp)
  then show ?thesis using l navigate_request_refeed [OF assms] c_points_length [of _ raw "nq_waypoints_m q"]
    by (simp add: MAX_WAYPOINTS_def)
qed

theorem navigate_request_sound_witness:
  "\<exists>q. validate_navigate_request sample_navigate_request = Inr q \<and> validate_navigate_request (navigate_request_val q) = Inr q"
  using sample_navigate_request_ok navigate_request_sound by blast

text \<open>An accepted navigate result has a command id and an acceptance time exactly when its status is
  accepted and a reason exactly when it is rejected; against a request all lineage fields agree, an accepted
  command is the requested one and was accepted before the deadline. Validating it again gives the same
  result.\<close>

theorem navigate_result_sound:
  assumes "validate_navigate_result v request now_unix = Inr r"
  shows "nr_status r \<in> {''accepted'', ''rejected''}
    \<and> (nr_status r = ''accepted'' \<longleftrightarrow> nr_command_id r \<noteq> None)
    \<and> (nr_status r = ''accepted'' \<longleftrightarrow> nr_accepted_unix r \<noteq> None)
    \<and> (nr_status r = ''rejected'' \<longleftrightarrow> nr_reason r \<noteq> None)
    \<and> (request = PNone \<or> (\<exists>q. validate_navigate_request request = Inr q
         \<and> nr_navigation_id r = nq_navigation_id q \<and> nr_environment_id r = nq_environment_id q
         \<and> nr_session_id r = nq_session_id q \<and> nr_map_id r = nq_map_id q \<and> nr_target_id r = nq_target_id q
         \<and> (nr_status r = ''accepted'' \<longrightarrow> nr_command_id r = Some (nq_command_id q))
         \<and> pred_option (\<lambda>t. t \<le> nq_deadline_unix q) (nr_accepted_unix r)))
    \<and> validate_navigate_result (navigate_result_val r) request now_unix = Inr r"
proof -
  have k: "check_navigate_request request r = Inr ()"
    using assms by (auto simp: validate_navigate_result_def bindE_Inr_iff Let_def)
  have s: "nr_status r \<in> {''accepted'', ''rejected''}
    \<and> (nr_status r = ''accepted'' \<longleftrightarrow> nr_command_id r \<noteq> None)
    \<and> (nr_status r = ''accepted'' \<longleftrightarrow> nr_accepted_unix r \<noteq> None)
    \<and> (nr_status r = ''rejected'' \<longleftrightarrow> nr_reason r \<noteq> None)"
    using assms by (simp only: validate_navigate_result_def accept_iffs navigate_outcome_Inr Let_def split_paired_Ex prod.case)
     (elim exE conjE, simp add: NAVIGATE_STATUSES_def, auto split: if_splits)
  have "request = PNone \<or> (\<exists>q. validate_navigate_request request = Inr q
         \<and> nr_navigation_id r = nq_navigation_id q \<and> nr_environment_id r = nq_environment_id q
         \<and> nr_session_id r = nq_session_id q \<and> nr_map_id r = nq_map_id q \<and> nr_target_id r = nq_target_id q
         \<and> (nr_status r = ''accepted'' \<longrightarrow> nr_command_id r = Some (nq_command_id q))
         \<and> pred_option (\<lambda>t. t \<le> nq_deadline_unix q) (nr_accepted_unix r))"
    using k s by (cases "nr_accepted_unix r")
      (auto simp: check_navigate_request_def accept_iffs lineage_same_def split: if_splits)
  with s show ?thesis using navigate_result_refeed [OF assms] by blast
qed

theorem navigate_result_sound_witness:
  "\<exists>r. validate_navigate_result sample_navigate_result sample_navigate_request (PInt 13) = Inr r
     \<and> validate_navigate_result (navigate_result_val r) sample_navigate_request (PInt 13) = Inr r"
  using sample_navigate_result_ok navigate_result_sound by blast

text \<open>C36. An accepted feedback result reports arrival exactly with the status arrived, a collision only with
  blocked, failed or stopped, a reason exactly with blocked or failed; against a request it is about the owned
  command, newer than the last sequence seen, and observed at most one second (the clock skew, subtracted in floating
  point) before the time of the request. Validating it again gives the same result.\<close>

theorem feedback_result_sound:
  assumes "validate_feedback_result v request now_unix = Inr r"
  shows "(fr_status r = ''arrived'' \<longleftrightarrow> fr_target_reached r)
    \<and> (fr_collision_detected r \<longrightarrow> fr_status r \<in> {''blocked'', ''failed'', ''stopped''})
    \<and> (fr_reason r \<noteq> None \<longleftrightarrow> fr_status r \<in> {''blocked'', ''failed''})
    \<and> 0 \<le> fr_sequence r \<and> fr_sequence r < 2 ^ 63 \<and> 0 \<le> fr_remaining_distance_m r
    \<and> (request = PNone \<or> (\<exists>q. validate_feedback_request request = Inr q
         \<and> fr_command_id r = fq_command_id q \<and> rs_session_id r = rq_session_id q
         \<and> rs_environment_id r = rq_environment_id q \<and> rs_request_id r = rq_request_id q
         \<and> fq_after_sequence q < fr_sequence r \<and> fle (fsub (Fin (rq_requested_unix q)) (Fin 1)) (Fin (fr_observed_unix r))))
    \<and> validate_feedback_result (feedback_result_val r) request now_unix = Inr r"
proof -
  have k: "check_feedback_request request r = Inr ()"
    using assms by (auto simp: validate_feedback_result_def bindE_Inr_iff Let_def)
  have "request = PNone \<or> (\<exists>q. validate_feedback_request request = Inr q
         \<and> fr_command_id r = fq_command_id q \<and> rs_session_id r = rq_session_id q
         \<and> rs_environment_id r = rq_environment_id q \<and> rs_request_id r = rq_request_id q
         \<and> fq_after_sequence q < fr_sequence r \<and> fle (fsub (Fin (rq_requested_unix q)) (Fin 1)) (Fin (fr_observed_unix r)))"
    using k by (auto simp: check_feedback_request_def accept_iffs c_cross_common_Inr not_before_request split: if_splits)
  moreover obtain rv where "feedback_flags (fr_status r) (fr_collision_detected r) (fr_target_reached r) = Inr ()"
    "feedback_reason (fr_status r) rv = Inr (fr_reason r)" "0 \<le> fr_sequence r" "fr_sequence r \<le> MAX_SEQUENCE"
    "0 \<le> fr_remaining_distance_m r"
    using assms by (simp only: validate_feedback_result_def accept_iffs in_range_simps Let_def split_paired_Ex prod.case)
      (elim exE conjE, simp add: result_head.defs)
  moreover have "(fr_reason r \<noteq> None) = (fr_status r \<in> {''blocked'', ''failed''})"
    using calculation(3) by (auto simp: feedback_reason_Inr split: if_splits)
  ultimately show ?thesis using feedback_result_refeed [OF assms]
    unfolding feedback_flags_Inr MAX_SEQUENCE_def by simp
qed

theorem feedback_result_sound_witness:
  "\<exists>r. validate_feedback_result sample_feedback_result sample_feedback_request (PInt 13) = Inr r
     \<and> validate_feedback_result (feedback_result_val r) sample_feedback_request (PInt 13) = Inr r"
  using sample_feedback_result_ok feedback_result_sound by blast

text \<open>C37. An accepted stop result is confirmed exactly with the statuses confirmed and already_stopped, and exactly
  then it has a stop time and no reason; its final sequence number fits 63 bits; against a request it has the request's
  identifier, environment and session, is about the command the request names, and a stop time it has is at most one
  second (the clock skew, subtracted in floating point) before the time of the request. Validating it again gives the
  same result.\<close>

theorem stop_result_sound:
  assumes "validate_stop_result v request now_unix = Inr r"
  shows "(sr_confirmed r \<longleftrightarrow> sr_status r \<in> {''confirmed'', ''already_stopped''})
    \<and> (sr_confirmed r \<longleftrightarrow> (\<exists>t. sr_stopped_unix r = Some t \<and> 0 \<le> t))
    \<and> (sr_confirmed r \<longleftrightarrow> sr_reason r = None)
    \<and> 0 \<le> sr_final_sequence r \<and> sr_final_sequence r < 2 ^ 63
    \<and> (request = PNone \<or> (\<exists>q. validate_stop_request request = Inr q
         \<and> sr_owned_command_id r = sq_command_id q \<and> rs_session_id r = rq_session_id q
         \<and> rs_environment_id r = rq_environment_id q \<and> rs_request_id r = rq_request_id q
         \<and> pred_option (\<lambda>t. fle (fsub (Fin (rq_requested_unix q)) (Fin 1)) (Fin t)) (sr_stopped_unix r)))
    \<and> validate_stop_result (stop_result_val r) request now_unix = Inr r"
proof -
  have k: "check_stop_request request r = Inr ()"
    using assms by (auto simp: validate_stop_result_def bindE_Inr_iff Let_def)
  have "request = PNone \<or> (\<exists>q. validate_stop_request request = Inr q
         \<and> sr_owned_command_id r = sq_command_id q \<and> rs_session_id r = rq_session_id q
         \<and> rs_environment_id r = rq_environment_id q \<and> rs_request_id r = rq_request_id q
         \<and> pred_option (\<lambda>t. fle (fsub (Fin (rq_requested_unix q)) (Fin 1)) (Fin t)) (sr_stopped_unix r))"
    using k by (cases "sr_stopped_unix r")
      (auto simp: check_stop_request_def accept_iffs c_cross_common_Inr not_before_request split: if_splits)
  moreover have "(sr_confirmed r \<longleftrightarrow> sr_status r \<in> {''confirmed'', ''already_stopped''})
    \<and> (sr_confirmed r \<longleftrightarrow> (\<exists>t. sr_stopped_unix r = Some t \<and> 0 \<le> t))
    \<and> (sr_confirmed r \<longleftrightarrow> sr_reason r = None)
    \<and> 0 \<le> sr_final_sequence r \<and> sr_final_sequence r < 2 ^ 63"
    using assms by (simp only: validate_stop_result_def accept_iffs stop_outcome_Inr Let_def split_paired_Ex prod.case)
     (elim exE conjE, auto simp: result_head.defs MAX_SEQUENCE_def split: if_splits)
  ultimately show ?thesis using stop_result_refeed [OF assms] by blast
qed

theorem stop_result_sound_witness:
  "\<exists>r. validate_stop_result sample_stop_result sample_stop_request (PInt 13) = Inr r
     \<and> validate_stop_result (stop_result_val r) sample_stop_request (PInt 13) = Inr r"
  using sample_stop_result_ok stop_result_sound by blast

text \<open>An accepted capture result, checked against a request, belongs to its session, is not older than the
  request's maximum age, and has depth when the request demands it; validating it again gives the same result.\<close>

theorem capture_result_sound:
  assumes "validate_capture_result L v request now_unix = Inr r"
  shows "(request = PNone \<or> (\<exists>q earliest. validate_capture_request request = Inr q
         \<and> rs_session_id r = rq_session_id q \<and> (cq_require_depth q \<longrightarrow> cap_depth r \<noteq> None)
         \<and> capture_earliest q = Inr earliest \<and> \<not> flt (Fin (cap_captured_unix r)) earliest))
    \<and> validate_capture_result L (capture_result_val r) request now_unix = Inr r"
proof -
  have k: "check_capture_request request r = Inr ()"
    using assms by (auto simp: validate_capture_result_def bindE_Inr_iff Let_def)
  have "request = PNone \<or> (\<exists>q earliest. validate_capture_request request = Inr q
         \<and> rs_session_id r = rq_session_id q \<and> (cq_require_depth q \<longrightarrow> cap_depth r \<noteq> None)
         \<and> capture_earliest q = Inr earliest \<and> \<not> flt (Fin (cap_captured_unix r)) earliest)"
  proof (cases "request = PNone")
    case False
    with k obtain q e where "validate_capture_request request = Inr q" "c_cross_common q r = Inr ()"
      "capture_earliest q = Inr e" "\<not> flt (Fin (cap_captured_unix r)) e"
      "\<not> (cq_require_depth q \<and> cap_depth r = None)"
      by (auto simp: check_capture_request_def bindE_Inr_iff guardE_Inr_iff)
    then show ?thesis by (auto simp: c_cross_common_Inr)
  qed simp
  then show ?thesis using capture_result_refeed [OF assms] by blast
qed

theorem capture_result_sound_witness:
  "\<exists>r. validate_capture_result sample_lib sample_capture_result sample_capture_request (PInt 13) = Inr r
     \<and> validate_capture_result sample_lib (capture_result_val r) sample_capture_request (PInt 13) = Inr r"
  using sample_capture_result_ok capture_result_sound by blast

subsection \<open>Failures\<close>

text \<open>C38. Two inputs escape the contract's error codes: a request time that is an integer of at least 2 ^ 1024 raises
  OverflowError, and a status that is a list raises TypeError.\<close>

theorem contract_failure_escapes:
  "(\<forall>n. 2 ^ 1024 \<le> n \<longrightarrow> validate_stop_request (PDict [(''schema_version'', PStr STOP_REQUEST_SCHEMA),
       (''request_id'', PStr ''r1''), (''environment_id'', PStr ''env''), (''session_id'', PStr ''s1''),
       (''requested_unix'', PInt n), (''command_id'', PStr ''c1''), (''reason'', PStr ''user'')]) = Inl PyOverflowError)
   \<and> (\<forall>vs. validate_stop_result (PDict [(''schema_version'', PStr STOP_RESULT_SCHEMA), (''request_id'', PStr ''r1''),
       (''environment_id'', PStr ''env''), (''session_id'', PStr ''s1''), (''owned_command_id'', PStr ''c1''),
       (''status'', PList vs), (''confirmed'', PBool True), (''stopped_unix'', PInt 12),
       (''final_sequence'', PInt 4), (''reason'', PNone)]) PNone PNone = Inl PyTypeError)"
  by (simp add: validate_stop_request_def validate_stop_result_def c_fields_ok eval_contract float_of_int_huge
      require_in_def in_str_setE_def)

theorem contract_failure_escapes_witness:
  "validate_stop_request (PDict [(''schema_version'', PStr STOP_REQUEST_SCHEMA), (''request_id'', PStr ''r1''),
     (''environment_id'', PStr ''env''), (''session_id'', PStr ''s1''), (''requested_unix'', PInt (2 ^ 1024)),
     (''command_id'', PStr ''c1''), (''reason'', PStr ''user'')]) = Inl PyOverflowError"
  using contract_failure_escapes by simp

end
