(* ===== verification/NavGeometry.thy ===== *)
theory NavGeometry
  imports ContractMotion
begin

text \<open>
  The geometry of \<open>lumina_next/portable_navigation_core_v1.py\<close>: input checks, rotation by
  a unit quaternion, image boxes, and the projection of registered depth to points in the
  world. A point is the record of the dictionary \<open>_depth_to_point\<close> returns.
\<close>

subsection \<open>Constants and input checks\<close>

definition FREE_VALUE :: int where "FREE_VALUE = 0"
definition UNKNOWN_VALUE :: int where "UNKNOWN_VALUE = 127"
definition OCCUPIED_VALUE :: int where "OCCUPIED_VALUE = 255"
definition OCCUPIED_THRESHOLD :: int where "OCCUPIED_THRESHOLD = 200"
definition EPSILON :: pyfloat where "EPSILON = Fin (lit (1/1000000000))"
definition MAX_CORE_GRID_CELLS :: int where "MAX_CORE_GRID_CELLS = 16 * 1024 * 1024"
definition MIN_INDEPENDENT_DEPTH_SAMPLES :: nat where "MIN_INDEPENDENT_DEPTH_SAMPLES = 3"
definition ARRIVAL_CONTINUITY_UNIQUE_MARGIN_M :: pyfloat where
  "ARRIVAL_CONTINUITY_UNIQUE_MARGIN_M = Fin (lit (8/100))"
definition WIDE_LAYER_CLUSTER_GAP_M :: pyfloat where "WIDE_LAYER_CLUSTER_GAP_M = Fin (lit (20/100))"
definition WIDE_LAYER_CLUSTER_GAP_RATIO :: pyfloat where "WIDE_LAYER_CLUSTER_GAP_RATIO = Fin (lit (6/100))"
definition WIDE_WALKABLE_RUNNER_MAX_RATIO :: pyfloat where "WIDE_WALKABLE_RUNNER_MAX_RATIO = Fin (lit (75/100))"

definition n_error :: "string \<Rightarrow> string \<Rightarrow> py_exc + 'a" where
  "n_error code detail = Inl (CoreError code detail)"

lemma n_error_simps [simp]:
  "n_error c d \<noteq> Inr r" "Inr r \<noteq> n_error c d" "bindE (n_error c d) f = n_error c d"
  by (simp_all add: n_error_def)

definition n_number :: "rat option \<Rightarrow> pyval \<Rightarrow> string \<Rightarrow> py_exc + rat" where
  "n_number minimum v field =
     bindE (case v of PInt n \<Rightarrow> float_of_int n
                    | PFloat x \<Rightarrow> Inr x
                    | _ \<Rightarrow> n_error ''PORTABLE_CORE_NUMBER_INVALID'' field) (\<lambda>x.
     case x of Fin r \<Rightarrow>
         if (case minimum of Some m \<Rightarrow> r < m | None \<Rightarrow> False)
         then n_error ''PORTABLE_CORE_NUMBER_INVALID'' field else Inr r
     | _ \<Rightarrow> n_error ''PORTABLE_CORE_NUMBER_INVALID'' field)"

lemma n_number_minimum: "n_number (Some m) v field = Inr r \<Longrightarrow> m \<le> r"
  unfolding n_number_def bindE_Inr_iff
  by (elim exE conjE) (auto split: if_splits pyfloat.split_asm)

definition n_vector :: "pyval \<Rightarrow> nat \<Rightarrow> string \<Rightarrow> py_exc + rat list" where
  "n_vector v len field =
     (case seq_elems v of
        Some vs \<Rightarrow> if length vs \<noteq> len then n_error ''PORTABLE_CORE_VECTOR_INVALID'' field
                   else mapiE (\<lambda>i w. n_number None w (indexed field i)) 0 vs
      | None \<Rightarrow> n_error ''PORTABLE_CORE_VECTOR_INVALID'' field)"

definition n_vector2 :: "pyval \<Rightarrow> string \<Rightarrow> py_exc + rat \<times> rat" where
  "n_vector2 v field = bindE (n_vector v 2 field) (\<lambda>r. Inr (r ! 0, r ! 1))"

definition n_vector3 :: "pyval \<Rightarrow> string \<Rightarrow> py_exc + vec3" where
  "n_vector3 v field = bindE (n_vector v 3 field) (\<lambda>r. Inr (r ! 0, r ! 1, r ! 2))"

definition n_vector4 :: "pyval \<Rightarrow> string \<Rightarrow> py_exc + vec4" where
  "n_vector4 v field = bindE (n_vector v 4 field) (\<lambda>r. Inr (r ! 0, r ! 1, r ! 2, r ! 3))"

text \<open>\<open>_canonical_digest\<close> and \<open>_opaque_id\<close>; \<open>json.dumps\<close> of a NaN raises \<open>ValueError\<close>.\<close>

definition canonical_digest :: "pylib \<Rightarrow> pyval \<Rightarrow> py_exc + string" where
  "canonical_digest L parts = (if json_ok parts then Inr (sha256hex L (json_text L parts)) else Inl PyValueError)"

definition opaque_id :: "pylib \<Rightarrow> string \<Rightarrow> pyval \<Rightarrow> py_exc + string" where
  "opaque_id L prefix parts = bindE (canonical_digest L parts) (\<lambda>d. Inr (prefix @ '':'' @ d))"

subsection \<open>Vectors of floats\<close>

type_synonym fvec2 = "pyfloat \<times> pyfloat"
type_synonym fvec3 = "pyfloat \<times> pyfloat \<times> pyfloat"
type_synonym fvec4 = "pyfloat \<times> pyfloat \<times> pyfloat \<times> pyfloat"

definition f3 :: "vec3 \<Rightarrow> fvec3" where
  "f3 v = (case v of (x, y, z) \<Rightarrow> (Fin x, Fin y, Fin z))"

definition f4 :: "vec4 \<Rightarrow> fvec4" where
  "f4 v = (case v of (x, y, z, w) \<Rightarrow> (Fin x, Fin y, Fin z, Fin w))"

fun v3_list :: "fvec3 \<Rightarrow> pyfloat list" where
  "v3_list (x, y, z) = [x, y, z]"

definition point3_val :: "fvec3 \<Rightarrow> pyval" where
  "point3_val p = PList (map PFloat (v3_list p))"

definition fvec4_val :: "fvec4 \<Rightarrow> pyval" where
  "fvec4_val b = (case b of (x0, y0, x1, y1) \<Rightarrow> PList (map PFloat [x0, y0, x1, y1]))"

fun v3_xy :: "fvec3 \<Rightarrow> pyfloat list" where
  "v3_xy (x, y, z) = [x, y]"

fun v3_axis :: "nat \<Rightarrow> fvec3 \<Rightarrow> pyfloat" where
  "v3_axis k (x, y, z) = (if k = 0 then x else if k = 1 then y else z)"

fun uv_axis :: "nat \<Rightarrow> fvec2 \<Rightarrow> pyfloat" where
  "uv_axis k (u, v) = (if k = 0 then u else v)"

fun box_low :: "nat \<Rightarrow> fvec4 \<Rightarrow> pyfloat" where
  "box_low k (x0, y0, x1, y1) = (if k = 0 then x0 else y0)"

fun box_high :: "nat \<Rightarrow> fvec4 \<Rightarrow> pyfloat" where
  "box_high k (x0, y0, x1, y1) = (if k = 0 then x1 else y1)"

fun fadd3 :: "fvec3 \<Rightarrow> fvec3 \<Rightarrow> fvec3" where
  "fadd3 (a, b, c) (x, y, z) = (fadd a x, fadd b y, fadd c z)"

fun fsub3 :: "fvec3 \<Rightarrow> fvec3 \<Rightarrow> fvec3" where
  "fsub3 (a, b, c) (x, y, z) = (fsub a x, fsub b y, fsub c z)"

text \<open>\<open>math.sqrt(sum(component * component for component in v))\<close>.\<close>

definition f_norm :: "pyfloat list \<Rightarrow> py_exc + pyfloat" where
  "f_norm xs = fsqrt (fsum (map (\<lambda>x. fmul x x) xs))"

subsection \<open>Rotation\<close>

definition rotate_xyzw :: "fvec4 \<Rightarrow> fvec3 \<Rightarrow> fvec3" where
  "rotate_xyzw q v = (case q of (qx, qy, qz, qw) \<Rightarrow> case v of (vx, vy, vz) \<Rightarrow>
     let tx = fmul (Fin 2) (fsub (fmul qy vz) (fmul qz vy));
         ty = fmul (Fin 2) (fsub (fmul qz vx) (fmul qx vz));
         tz = fmul (Fin 2) (fsub (fmul qx vy) (fmul qy vx))
     in (fadd (fadd vx (fmul qw tx)) (fsub (fmul qy tz) (fmul qz ty)),
         fadd (fadd vy (fmul qw ty)) (fsub (fmul qz tx) (fmul qx tz)),
         fadd (fadd vz (fmul qw tz)) (fsub (fmul qx ty) (fmul qy tx))))"

definition inverse_rotate_xyzw :: "fvec4 \<Rightarrow> fvec3 \<Rightarrow> fvec3" where
  "inverse_rotate_xyzw q v = (case q of (qx, qy, qz, qw) \<Rightarrow>
     rotate_xyzw (fneg qx, fneg qy, fneg qz, qw) v)"

subsection \<open>Boxes in the image\<close>

fun inside_bbox :: "fvec2 \<Rightarrow> fvec4 \<Rightarrow> bool" where
  "inside_bbox (u, v) (x0, y0, x1, y1) = (fle x0 u \<and> fle u x1 \<and> fle y0 v \<and> fle v y1)"

fun inset_bbox :: "fvec4 \<Rightarrow> pyfloat \<Rightarrow> fvec4" where
  "inset_bbox (x0, y0, x1, y1) ratio =
     (let width = fsub x1 x0; height = fsub y1 y0
      in (fadd x0 (fmul width ratio), fadd y0 (fmul height ratio),
          fsub x1 (fmul width ratio), fsub y1 (fmul height ratio)))"

fun bbox_intersection :: "fvec4 \<Rightarrow> fvec4 \<Rightarrow> fvec4 option" where
  "bbox_intersection (a0, b0, a1, b1) (c0, d0, c1, d1) =
     (let x0 = fmax a0 c0; y0 = fmax b0 d0; x1 = fmin a1 c1; y1 = fmin b1 d1
      in if flt x0 x1 \<and> flt y0 y1 then Some (x0, y0, x1, y1) else None)"

subsection \<open>Depth samples in the world\<close>

record depth_point =
  pt_uv_norm :: fvec2
  pt_position_m :: fvec3
  pt_optical_position_m :: fvec3
  pt_range_m :: pyfloat
  pt_forward_depth_m :: pyfloat
  pt_measurement_m :: pyfloat
  pt_measurement_model :: string
  pt_confidence :: pyfloat
  pt_source_index :: nat
  pt_surface_id :: "string option"
  pt_surface_role :: "string option"

definition optical_point :: "string \<Rightarrow> pyfloat \<Rightarrow> fvec3 \<Rightarrow> py_exc + fvec3" where
  "optical_point model m ray = (case ray of (rx, ry, rz) \<Rightarrow>
     if model = ''optical_axis_z_m'' then Inr (fmul rx m, fmul ry m, m)
     else if model = ''ray_range_m'' then
       bindE (f_norm [rx, ry, rz]) (\<lambda>n.
       bindE (fdiv (fmul rx m) n) (\<lambda>x.
       bindE (fdiv (fmul ry m) n) (\<lambda>y.
       bindE (fdiv (fmul rz m) n) (\<lambda>z. Inr (x, y, z)))))
     else n_error ''PORTABLE_CORE_DEPTH_MODEL_UNSUPPORTED'' model)"

definition depth_to_point ::
  "fvec2 \<Rightarrow> pyfloat \<Rightarrow> string \<Rightarrow> int \<Rightarrow> int \<Rightarrow> camera \<Rightarrow> pyfloat \<Rightarrow> nat \<Rightarrow> string option \<Rightarrow> string option
     \<Rightarrow> py_exc + depth_point" where
  "depth_to_point uv m model rgb_width rgb_height cam confidence index sid role =
     (let k = cam_intrinsics cam;
          u_px = fmul (fst uv) (fint rgb_width); v_px = fmul (snd uv) (fint rgb_height) in
      bindE (fdiv (fsub u_px (Fin (cx_px k))) (Fin (fx_px k))) (\<lambda>rx.
      bindE (fdiv (fsub v_px (Fin (cy_px k))) (Fin (fy_px k))) (\<lambda>ry.
      bindE (optical_point model m (rx, ry, Fin 1)) (\<lambda>optical.
      bindE (f_norm (v3_list optical)) (\<lambda>range_m.
      Inr \<lparr>pt_uv_norm = uv,
           pt_position_m = fadd3 (f3 (cam_position_m cam)) (rotate_xyzw (f4 (cam_orientation_xyzw cam)) optical),
           pt_optical_position_m = optical, pt_range_m = range_m, pt_forward_depth_m = v3_axis 2 optical,
           pt_measurement_m = m, pt_measurement_model = model, pt_confidence = confidence,
           pt_source_index = index, pt_surface_id = sid, pt_surface_role = role\<rparr>)))))"

text \<open>The parameters of a projection after their checks: box, confidence floor and range.\<close>

record projection_window =
  pw_bbox :: vec4
  pw_confidence_floor :: rat
  pw_minimum :: rat
  pw_maximum :: rat

definition projection_bbox :: "pyval \<Rightarrow> py_exc + vec4" where
  "projection_bbox v =
     (if v = PNone then Inr (0, 0, 1, 1) else
      bindE (n_vector4 v ''bbox_norm'') (\<lambda>(x0, y0, x1, y1).
      if min (min (min x0 y0) x1) y1 < 0 \<or> max (max (max x0 y0) x1) y1 > 1 \<or> x1 \<le> x0 \<or> y1 \<le> y0
      then n_error ''PORTABLE_CORE_BBOX_INVALID'' ''bbox_norm'' else Inr (x0, y0, x1, y1)))"

definition projection_window :: "pyval \<Rightarrow> pyval \<Rightarrow> pyval \<Rightarrow> pyval \<Rightarrow> py_exc + projection_window" where
  "projection_window bbox_norm min_confidence min_range_m max_range_m =
     bindE (n_number (Some 0) min_confidence ''min_confidence'') (\<lambda>floor.
     bindE (guardE (floor \<le> 1) (CoreError ''PORTABLE_CORE_NUMBER_INVALID'' ''min_confidence'')) (\<lambda>_.
     bindE (n_number (Some 0) min_range_m ''min_range_m'') (\<lambda>minimum.
     bindE (n_number (Some minimum) max_range_m ''max_range_m'') (\<lambda>maximum.
     bindE (guardE (minimum \<le> maximum) (CoreError ''PORTABLE_CORE_RANGE_INVALID'' ''max_range_m'')) (\<lambda>_.
     bindE (projection_bbox bbox_norm) (\<lambda>bbox.
     Inr \<lparr>pw_bbox = bbox, pw_confidence_floor = floor, pw_minimum = minimum, pw_maximum = maximum\<rparr>))))))"

text \<open>The sparse branch: samples outside the window are skipped.\<close>

fun project_sparse ::
  "capture_result \<Rightarrow> projection_window \<Rightarrow> nat \<Rightarrow> depth_sample list \<Rightarrow> py_exc + depth_point list" where
  "project_sparse cap w i [] = Inr []"
| "project_sparse cap w i (s # ss) =
     (let uv = (Fin (fst (ds_uv s)), Fin (snd (ds_uv s))) in
      if ds_confidence s < pw_confidence_floor w
         \<or> \<not> (pw_minimum w \<le> ds_distance_m s \<and> ds_distance_m s \<le> pw_maximum w)
         \<or> \<not> inside_bbox uv (f4 (pw_bbox w))
      then project_sparse cap w (Suc i) ss
      else bindE (depth_to_point uv (Fin (ds_distance_m s)) ''ray_range_m'' (rgb_width_px (cap_rgb cap))
                    (rgb_height_px (cap_rgb cap)) (cap_camera cap) (Fin (ds_confidence s)) i
                    (ds_surface_id s) (ds_surface_role s)) (\<lambda>p.
           bindE (project_sparse cap w (Suc i) ss) (\<lambda>ps. Inr (p # ps))))"

text \<open>
  \<open>struct.iter_unpack\<close> with \<open>"<f"\<close> and \<open>"<H"\<close>: little-endian binary32 and unsigned
  16-bit words.
\<close>

definition byte :: "char \<Rightarrow> int" where
  "byte c = of_char c"

definition decode_f32 :: "int \<Rightarrow> pyfloat" where
  "decode_f32 n =
     (let e = (n div 2 ^ 23) mod 256; m = n mod 2 ^ 23;
          x = (if e = 255 then (if m = 0 then PInf else NaN)
               else if e = 0 then Fin (of_int m * pow2 (- 149))
               else Fin (of_int (2 ^ 23 + m) * pow2 (e - 150)))
      in if n div 2 ^ 31 = 1 then fneg x else x)"

fun unpack_f32 :: "string \<Rightarrow> pyfloat list" where
  "unpack_f32 (a # b # c # d # s) =
     decode_f32 (byte a + 256 * byte b + 65536 * byte c + 16777216 * byte d) # unpack_f32 s"
| "unpack_f32 _ = []"

fun unpack_u16 :: "string \<Rightarrow> int list" where
  "unpack_u16 (a # b # s) = (byte a + 256 * byte b) # unpack_u16 s"
| "unpack_u16 _ = []"

text \<open>
  The measurement of one dense pixel in metres, or \<open>None\<close> where the loop continues with
  the next pixel.
\<close>

definition f32_measurement :: "pyval \<Rightarrow> pyfloat \<Rightarrow> pyfloat option" where
  "f32_measurement invalid x =
     (if \<not> is_finite x \<or> (invalid = PStr ''zero'' \<and> feq x (Fin 0)) then None
      else if fle x (Fin 0) then None else Some x)"

definition u16_measurement :: "pyval \<Rightarrow> int \<Rightarrow> py_exc + pyfloat option" where
  "u16_measurement invalid n =
     (if invalid = PInt n then Inr None else
      bindE (fdiv (fint n) (Fin 1000)) (\<lambda>m. Inr (if fle m (Fin 0) then None else Some m)))"

definition dense_measurements :: "dense_depth \<Rightarrow> string \<Rightarrow> py_exc + pyfloat option list" where
  "dense_measurements d raw =
     (if dd_encoding d = ''f32_le_m''
      then Inr (map (f32_measurement (dd_invalid_value d)) (unpack_f32 raw))
      else mapE (u16_measurement (dd_invalid_value d)) (unpack_u16 raw))"

fun project_dense ::
  "capture_result \<Rightarrow> projection_window \<Rightarrow> dense_depth \<Rightarrow> nat \<Rightarrow> pyfloat option list \<Rightarrow> py_exc + depth_point list" where
  "project_dense cap w d i [] = Inr []"
| "project_dense cap w d i (None # ms) = project_dense cap w d (Suc i) ms"
| "project_dense cap w d i (Some m # ms) =
     (let width = dd_width_px d; column = int i mod width; row = int i div width in
      bindE (fdiv (fadd (fint column) (Fin (1/2))) (fint width)) (\<lambda>u.
      bindE (fdiv (fadd (fint row) (Fin (1/2))) (fint (dd_height_px d))) (\<lambda>v.
      if \<not> inside_bbox (u, v) (f4 (pw_bbox w)) then project_dense cap w d (Suc i) ms
      else bindE (depth_to_point (u, v) m (dd_measurement_model d) (rgb_width_px (cap_rgb cap))
                    (rgb_height_px (cap_rgb cap)) (cap_camera cap) (Fin 1) i None None) (\<lambda>p.
           bindE (project_dense cap w d (Suc i) ms) (\<lambda>ps.
           Inr (if fle (Fin (pw_minimum w)) (pt_range_m p) \<and> fle (pt_range_m p) (Fin (pw_maximum w))
                then p # ps else ps))))))"

definition project_window :: "pylib \<Rightarrow> capture_result \<Rightarrow> depth_plane \<Rightarrow> projection_window \<Rightarrow> py_exc + depth_point list" where
  "project_window L cap depth w =
     (case depth of
        SparseDepth s \<Rightarrow> project_sparse cap w 0 (sd_samples s)
      | DenseDepth d \<Rightarrow>
          (case b64decode L (dd_data_base64 d) of
             None \<Rightarrow> n_error ''PORTABLE_CORE_DEPTH_DATA_INVALID'' ''depth.data_base64''
           | Some raw \<Rightarrow> bindE (dense_measurements d raw) (project_dense cap w d 0)))"

definition project_depth_samples ::
  "pylib \<Rightarrow> pyval \<Rightarrow> pyval \<Rightarrow> pyval \<Rightarrow> pyval \<Rightarrow> pyval \<Rightarrow> py_exc + depth_point list" where
  "project_depth_samples L capture_result bbox_norm min_confidence min_range_m max_range_m =
     bindE (validate_capture_result L capture_result PNone PNone) (\<lambda>cap.
     case cap_depth cap of None \<Rightarrow> Inr []
     | Some depth \<Rightarrow>
         bindE (projection_window bbox_norm min_confidence min_range_m max_range_m) (project_window L cap depth))"

end
