(* ===== verification/NavGrid.thy ===== *)
theory NavGrid
  imports NavGeometry
begin

text \<open>
  The occupancy grid of \<open>lumina_next/portable_navigation_core_v1.py\<close>: rasterising metric
  obstacles, eroding the map boundary, inflating blocked cells, and the decoded view of a
  grid. An occupancy is the row-major list of its byte values; a cell is \<open>(x, y)\<close>.
\<close>

type_synonym cell = "int \<times> int"
type_synonym occupancy = "int list"

definition bytes_of :: "string \<Rightarrow> occupancy" where
  "bytes_of s = map byte s"

definition to_bytes :: "occupancy \<Rightarrow> string" where
  "to_bytes occ = map char_of occ"

subsection \<open>Bounds and dimensions\<close>

definition n_bounds :: "pyval \<Rightarrow> py_exc + vec4" where
  "n_bounds v =
     bindE (n_vector4 (case v of PDict d \<Rightarrow> PList [dget d ''min_x'', dget d ''max_x'', dget d ''min_y'', dget d ''max_y'']
                       | _ \<Rightarrow> v) ''bounds_xy'') (\<lambda>(x0, x1, y0, y1).
     if x0 < x1 \<and> y0 < y1 then Inr (x0, x1, y0, y1)
     else n_error ''PORTABLE_CORE_BOUNDS_INVALID'' ''bounds_xy'')"

definition bounds_val :: "vec4 \<Rightarrow> pyval" where
  "bounds_val b = (case b of (x0, x1, y0, y1) \<Rightarrow> PTuple (map num_val [x0, x1, y0, y1]))"

definition grid_dimensions :: "vec4 \<Rightarrow> rat \<Rightarrow> py_exc + int \<times> int" where
  "grid_dimensions b res = (case b of (x0, x1, y0, y1) \<Rightarrow>
     bindE (bindE (fdiv (fsub (Fin x1) (Fin x0)) (Fin res)) fceil) (\<lambda>width.
     bindE (bindE (fdiv (fsub (Fin y1) (Fin y0)) (Fin res)) fceil) (\<lambda>height.
     if width < 1 \<or> height < 1 \<or> width * height > MAX_CORE_GRID_CELLS
     then n_error ''PORTABLE_CORE_GRID_SIZE_INVALID'' (show_int width @ ''x'' @ show_int height)
     else Inr (width, height))))"

definition cell_half_diagonal :: "rat \<Rightarrow> py_exc + pyfloat" where
  "cell_half_diagonal res = bindE (fsqrt (Fin 2)) (\<lambda>s. fdiv (fmul s (Fin res)) (Fin 2))"

text \<open>\<open>low + (i + 0.5) * resolution\<close>: the centre of column or row \<open>i\<close>.\<close>

definition sample_at :: "rat \<Rightarrow> rat \<Rightarrow> int \<Rightarrow> pyfloat" where
  "sample_at low res i = fadd (Fin low) (fmul (fadd (fint i) (Fin (1/2))) (Fin res))"

definition cell_index :: "int \<Rightarrow> cell \<Rightarrow> nat" where
  "cell_index width c = nat (snd c * width + fst c)"

definition cell_of_index :: "int \<Rightarrow> nat \<Rightarrow> cell" where
  "cell_of_index width i = (int i mod width, int i div width)"

definition in_grid :: "int \<Rightarrow> int \<Rightarrow> cell \<Rightarrow> bool" where
  "in_grid width height c = (0 \<le> fst c \<and> fst c < width \<and> 0 \<le> snd c \<and> snd c < height)"

text \<open>\<open>if occupancy[i] != unknown: occupancy[i] = OCCUPIED_VALUE\<close>.\<close>

definition mark_occupied :: "int \<Rightarrow> int \<Rightarrow> occupancy \<Rightarrow> cell \<Rightarrow> occupancy" where
  "mark_occupied unknown width occ c =
     (let i = cell_index width c in if occ ! i \<noteq> unknown then occ[i := OCCUPIED_VALUE] else occ)"

subsection \<open>Boundary erosion\<close>

definition boundary_distance :: "vec4 \<Rightarrow> pyfloat \<Rightarrow> pyfloat \<Rightarrow> pyfloat" where
  "boundary_distance b sx sy = (case b of (x0, x1, y0, y1) \<Rightarrow>
     foldl fmin (fsub sx (Fin x0)) [fsub (Fin x1) sx, fsub sy (Fin y0), fsub (Fin y1) sy])"

definition erode_boundary_cells :: "occupancy \<Rightarrow> int \<Rightarrow> int \<Rightarrow> vec4 \<Rightarrow> rat \<Rightarrow> pyfloat \<Rightarrow> py_exc + occupancy" where
  "erode_boundary_cells occ width height b res centre_clearance = (case b of (x0, x1, y0, y1) \<Rightarrow>
     bindE (cell_half_diagonal res) (\<lambda>half.
     let conservative = fadd centre_clearance half in
     Inr (foldl (\<lambda>o' c. if fle (boundary_distance b (sample_at x0 res (fst c)) (sample_at y0 res (snd c)))
                              (fadd conservative EPSILON)
                         then mark_occupied UNKNOWN_VALUE width o' c else o')
            occ [(ix, iy). iy \<leftarrow> [0..height - 1], ix \<leftarrow> [0..width - 1]])))"

subsection \<open>Rasterising obstacles\<close>

datatype inflated_area =
    BoxArea pyfloat pyfloat pyfloat pyfloat
  | DiscArea pyfloat pyfloat pyfloat pyfloat

text \<open>\<open>BoxArea x0 x1 y0 y1\<close> and \<open>DiscArea centre_x centre_y inflated_radius radius_squared\<close>.\<close>

definition dget_or :: "(string \<times> pyval) list \<Rightarrow> string \<Rightarrow> string \<Rightarrow> pyval" where
  "dget_or d k k' = (if has_key d k then dget d k else dget d k')"

definition dget_default :: "(string \<times> pyval) list \<Rightarrow> string \<Rightarrow> pyval \<Rightarrow> pyval" where
  "dget_default d k v = (if has_key d k then dget d k else v)"

definition obstacle_field :: "nat \<Rightarrow> string \<Rightarrow> string" where
  "obstacle_field i s = indexed ''obstacles'' i @ s"

definition obstacle_area :: "nat \<Rightarrow> pyval \<Rightarrow> pyfloat \<Rightarrow> py_exc + inflated_area" where
  "obstacle_area i raw inflation =
     (case raw of PDict d \<Rightarrow>
        let kind = dget d ''kind'' in
        bindE (n_vector2 (dget_or d ''center_m'' ''center'') (obstacle_field i ''.center'')) (\<lambda>(cx, cy).
        bindE (in_str_setE kind [''rect'', ''aabb'']) (\<lambda>box.
        if box then
          bindE (n_vector2 (dget_or d ''half_extents_m'' ''half'') (obstacle_field i ''.half'')) (\<lambda>(hx, hy).
          if min hx hy \<le> 0 then n_error ''PORTABLE_CORE_OBSTACLE_INVALID'' (obstacle_field i ''.half'')
          else Inr (BoxArea (fsub (fsub (Fin cx) (Fin hx)) inflation) (fadd (fadd (Fin cx) (Fin hx)) inflation)
                            (fsub (fsub (Fin cy) (Fin hy)) inflation) (fadd (fadd (Fin cy) (Fin hy)) inflation)))
        else if kind = PStr ''circle'' then
          bindE (n_number (Some 0) (dget_or d ''radius_m'' ''radius'') (obstacle_field i ''.radius'')) (\<lambda>radius.
          if radius \<le> 0 then n_error ''PORTABLE_CORE_OBSTACLE_INVALID'' (obstacle_field i ''.radius'')
          else let r = fadd (Fin radius) inflation in Inr (DiscArea (Fin cx) (Fin cy) r (fmul r r)))
        else n_error ''PORTABLE_CORE_OBSTACLE_KIND_UNSUPPORTED'' (obstacle_field i ''.kind'')))
      | _ \<Rightarrow> n_error ''PORTABLE_CORE_OBSTACLE_INVALID'' (indexed ''obstacles'' i))"

fun area_occupied :: "inflated_area \<Rightarrow> pyfloat \<Rightarrow> pyfloat \<Rightarrow> py_exc + bool" where
  "area_occupied (BoxArea x0 x1 y0 y1) sx sy =
     Inr (fle (fsub x0 EPSILON) sx \<and> fle sx (fadd x1 EPSILON) \<and> fle (fsub y0 EPSILON) sy \<and> fle sy (fadd y1 EPSILON))"
| "area_occupied (DiscArea cx cy r r2) sx sy =
     bindE (fsquare (fsub sx cx)) (\<lambda>a. bindE (fsquare (fsub sy cy)) (\<lambda>b.
     Inr (fle (fadd a b) (fadd r2 EPSILON))))"

fun area_span :: "inflated_area \<Rightarrow> fvec4" where
  "area_span (BoxArea x0 x1 y0 y1) = (x0, x1, y0, y1)"
| "area_span (DiscArea cx cy r r2) = (fsub cx r, fadd cx r, fsub cy r, fadd cy r)"

definition span_index :: "pyfloat \<Rightarrow> rat \<Rightarrow> rat \<Rightarrow> py_exc + int" where
  "span_index s low res = bindE (fdiv (fsub s (Fin low)) (Fin res)) ffloor"

text \<open>The cells of the clipped index rectangle of an area, row by row.\<close>

definition area_cells :: "inflated_area \<Rightarrow> vec4 \<Rightarrow> rat \<Rightarrow> int \<Rightarrow> int \<Rightarrow> py_exc + cell list" where
  "area_cells area b res width height = (case b of (bx0, bx1, by0, by1) \<Rightarrow> case area_span area of (s0, s1, s2, s3) \<Rightarrow>
     bindE (span_index s0 bx0 res) (\<lambda>i0. bindE (span_index s1 bx0 res) (\<lambda>i1.
     bindE (span_index s2 by0 res) (\<lambda>j0. bindE (span_index s3 by0 res) (\<lambda>j1.
     Inr [(ix, iy). iy \<leftarrow> [max 0 j0..min (height - 1) j1], ix \<leftarrow> [max 0 i0..min (width - 1) i1]])))))"

definition paint_area :: "inflated_area \<Rightarrow> vec4 \<Rightarrow> rat \<Rightarrow> int \<Rightarrow> int \<Rightarrow> occupancy \<Rightarrow> py_exc + occupancy" where
  "paint_area area b res width height occ = (case b of (bx0, bx1, by0, by1) \<Rightarrow>
     bindE (area_cells area b res width height) (\<lambda>cells.
     foldE (\<lambda>o' c. bindE (area_occupied area (sample_at bx0 res (fst c)) (sample_at by0 res (snd c))) (\<lambda>hit.
                   Inr (if hit then mark_occupied UNKNOWN_VALUE width o' c else o'))) occ cells))"

fun paint_obstacles :: "nat \<Rightarrow> pyval list \<Rightarrow> pyfloat \<Rightarrow> vec4 \<Rightarrow> rat \<Rightarrow> int \<Rightarrow> int \<Rightarrow> occupancy \<Rightarrow> py_exc + occupancy" where
  "paint_obstacles i [] infl b res width height occ = Inr occ"
| "paint_obstacles i (raw # raws) infl b res width height occ =
     bindE (obstacle_area i raw infl) (\<lambda>area.
     bindE (paint_area area b res width height occ) (\<lambda>occ'.
     paint_obstacles (Suc i) raws infl b res width height occ'))"

fun paint_unknown :: "nat \<Rightarrow> pyval list \<Rightarrow> int \<Rightarrow> int \<Rightarrow> occupancy \<Rightarrow> py_exc + occupancy" where
  "paint_unknown i [] width height occ = Inr occ"
| "paint_unknown i (raw # raws) width height occ =
     bindE (n_vector2 raw (indexed ''unknown_cells'' i)) (\<lambda>(cx, cy).
     bindE (ftrunc (Fin cx)) (\<lambda>ix. bindE (ftrunc (Fin cy)) (\<lambda>iy.
     if cx \<noteq> of_int ix \<or> cy \<noteq> of_int iy \<or> \<not> in_grid width height (ix, iy)
     then n_error ''PORTABLE_CORE_CELL_INVALID'' (indexed ''unknown_cells'' i)
     else paint_unknown (Suc i) raws width height (occ[cell_index width (ix, iy) := UNKNOWN_VALUE]))))"

definition rasterize_occupancy ::
  "pyval \<Rightarrow> pyval list \<Rightarrow> pyval \<Rightarrow> pyval \<Rightarrow> pyval \<Rightarrow> pyval list option \<Rightarrow> py_exc + int \<times> int \<times> occupancy" where
  "rasterize_occupancy bounds_xy obstacles res_v fp_v clear_v unknown_cells =
     bindE (n_bounds bounds_xy) (\<lambda>b.
     bindE (n_number (Some (lit (1/100))) res_v ''resolution_m'') (\<lambda>res.
     bindE (n_number (Some 0) fp_v ''footprint_radius_m'') (\<lambda>fp.
     bindE (n_number (Some 0) clear_v ''minimum_clearance_m'') (\<lambda>clear.
     let inflation = fadd (Fin fp) (Fin clear) in
     bindE (cell_half_diagonal res) (\<lambda>half.
     let conservative = fadd inflation half in
     bindE (grid_dimensions b res) (\<lambda>(width, height).
     let occ0 = replicate (nat (width * height)) FREE_VALUE in
     bindE (case unknown_cells of None \<Rightarrow> Inr occ0 | Some cs \<Rightarrow> paint_unknown 0 cs width height occ0) (\<lambda>occ1.
     bindE (paint_obstacles 0 obstacles conservative b res width height occ1) (\<lambda>occ2.
     bindE (erode_boundary_cells occ2 width height b res inflation) (\<lambda>occ3.
     Inr (width, height, occ3))))))))))"

subsection \<open>Inflation\<close>

definition inflation_offsets :: "int \<Rightarrow> rat \<Rightarrow> pyfloat \<Rightarrow> cell list" where
  "inflation_offsets cells res radius =
     filter (\<lambda>(dx, dy). fle (fmul (fhypot [fint dx, fint dy]) (Fin res)) (fadd radius EPSILON))
       [(dx, dy). dy \<leftarrow> [- cells..cells], dx \<leftarrow> [- cells..cells]]"

definition blocked_value :: "int \<Rightarrow> int \<Rightarrow> int \<Rightarrow> bool" where
  "blocked_value unknown threshold v = (v = unknown \<or> threshold \<le> v)"

definition blocked_cells :: "occupancy \<Rightarrow> int \<Rightarrow> int \<Rightarrow> int \<Rightarrow> cell list" where
  "blocked_cells occ width unknown threshold =
     map (cell_of_index width) (filter (\<lambda>i. blocked_value unknown threshold (occ ! i)) [0..<length occ])"

definition inflate_cell :: "int \<Rightarrow> int \<Rightarrow> int \<Rightarrow> occupancy \<Rightarrow> cell \<Rightarrow> occupancy" where
  "inflate_cell unknown width height occ c =
     (if in_grid width height c then mark_occupied unknown width occ c else occ)"

definition inflate_all :: "int \<Rightarrow> int \<Rightarrow> int \<Rightarrow> cell list \<Rightarrow> cell list \<Rightarrow> occupancy \<Rightarrow> occupancy" where
  "inflate_all unknown width height sources offsets occ =
     foldl (inflate_cell unknown width height) occ
       [(fst s + fst d, snd s + snd d). s \<leftarrow> sources, d \<leftarrow> offsets]"

definition inflate_occupancy ::
  "occupancy \<Rightarrow> int \<Rightarrow> int \<Rightarrow> pyval \<Rightarrow> pyval \<Rightarrow> int \<Rightarrow> int \<Rightarrow> py_exc + occupancy" where
  "inflate_occupancy occ width height res_v rad_v unknown threshold =
     bindE (guardE (int (length occ) = width * height)
              (CoreError ''PORTABLE_CORE_OCCUPANCY_SIZE_MISMATCH'' ''occupancy'')) (\<lambda>_.
     bindE (n_number (Some 0) rad_v ''radius_m'') (\<lambda>radius.
     if fle (Fin radius) EPSILON then Inr occ else
     bindE (n_number (Some (lit (1/100))) res_v ''resolution_m'') (\<lambda>res.
     bindE (cell_half_diagonal res) (\<lambda>half.
     let conservative = fadd (Fin radius) half in
     bindE (bindE (fdiv conservative (Fin res)) fceil) (\<lambda>cells.
     Inr (inflate_all unknown width height (blocked_cells occ width unknown threshold)
            (inflation_offsets cells res conservative) occ))))))"

subsection \<open>The decoded grid\<close>

record grid_view =
  gv_width :: int
  gv_height :: int
  gv_resolution :: rat
  gv_origin :: vec3
  gv_orientation :: fvec4
  gv_occupancy :: occupancy
  gv_unknown :: int
  gv_threshold :: int

definition gv_in :: "grid_view \<Rightarrow> cell \<Rightarrow> bool" where
  "gv_in g c = in_grid (gv_width g) (gv_height g) c"

definition gv_blocked :: "grid_view \<Rightarrow> cell \<Rightarrow> bool" where
  "gv_blocked g c =
     (if \<not> gv_in g c then True
      else blocked_value (gv_unknown g) (gv_threshold g) (gv_occupancy g ! cell_index (gv_width g) c))"

definition world_to_grid_coordinates :: "grid_view \<Rightarrow> fvec3 \<Rightarrow> py_exc + fvec2" where
  "world_to_grid_coordinates g p =
     (case inverse_rotate_xyzw (gv_orientation g) (fsub3 p (f3 (gv_origin g))) of (x, y, z) \<Rightarrow>
      bindE (fdiv x (Fin (gv_resolution g))) (\<lambda>gx.
      bindE (fdiv y (Fin (gv_resolution g))) (\<lambda>gy. Inr (gx, gy))))"

definition floor_cell :: "fvec2 \<Rightarrow> py_exc + cell" where
  "floor_cell p = bindE (ffloor (fst p)) (\<lambda>x. bindE (ffloor (snd p)) (\<lambda>y. Inr (x, y)))"

definition world_to_cell :: "grid_view \<Rightarrow> fvec3 \<Rightarrow> py_exc + cell" where
  "world_to_cell g p = bindE (world_to_grid_coordinates g p) floor_cell"

definition cell_to_world :: "grid_view \<Rightarrow> cell \<Rightarrow> fvec3" where
  "cell_to_world g c =
     fadd3 (f3 (gv_origin g)) (rotate_xyzw (gv_orientation g)
       (fmul (fadd (fint (fst c)) (Fin (1/2))) (Fin (gv_resolution g)),
        fmul (fadd (fint (snd c)) (Fin (1/2))) (Fin (gv_resolution g)), Fin 0))"

text \<open>\<open>int(v)\<close> of a value; of a string it reads an ASCII decimal numeral.\<close>

fun digits_value :: "int \<Rightarrow> bool \<Rightarrow> string \<Rightarrow> int option" where
  "digits_value acc after_digit [] = (if after_digit then Some acc else None)"
| "digits_value acc after_digit (c # cs) =
     (if is_digit c then digits_value (acc * 10 + (byte c - 48)) True cs
      else if c = CHR ''_'' \<and> after_digit then digits_value acc False cs
      else None)"

definition strip_ascii :: "string \<Rightarrow> string" where
  "strip_ascii s = rev (dropWhile (\<lambda>c. py_space (of_char c)) (rev (dropWhile (\<lambda>c. py_space (of_char c)) s)))"

definition int_of_str :: "string \<Rightarrow> py_exc + int" where
  "int_of_str s =
     (let t = strip_ascii s in
      case (case t of [] \<Rightarrow> None
            | c # cs \<Rightarrow> if c = CHR ''-'' then map_option uminus (digits_value 0 False cs)
                        else if c = CHR ''+'' then digits_value 0 False cs
                        else digits_value 0 False t) of
        None \<Rightarrow> Inl PyValueError | Some n \<Rightarrow> Inr n)"

definition py_int :: "pyval \<Rightarrow> py_exc + int" where
  "py_int v = (case v of PInt n \<Rightarrow> Inr n
     | PBool b \<Rightarrow> Inr (if b then 1 else 0)
     | PFloat x \<Rightarrow> ftrunc x
     | PStr s \<Rightarrow> int_of_str s
     | _ \<Rightarrow> Inl PyTypeError)"

definition kget :: "(string \<times> pyval) list \<Rightarrow> string \<Rightarrow> py_exc + pyval" where
  "kget d k = (case map_of d k of None \<Rightarrow> Inl PyKeyError | Some v \<Rightarrow> Inr v)"

definition py_b64decode :: "pylib \<Rightarrow> pyval \<Rightarrow> py_exc + string" where
  "py_b64decode L v = (case v of
       PStr s \<Rightarrow> (case b64decode L s of None \<Rightarrow> Inl PyValueError | Some raw \<Rightarrow> Inr raw)
     | _ \<Rightarrow> Inl PyTypeError)"

text \<open>
  \<open>except (KeyError, TypeError, ValueError, binascii.Error)\<close>: the errors of both modules
  are value errors; an \<open>OverflowError\<close> is not.
\<close>

definition grid_invalid :: "py_exc \<Rightarrow> py_exc" where
  "grid_invalid e = (case e of
       PyKeyError \<Rightarrow> CoreError ''PORTABLE_CORE_GRID_INVALID'' ''grid''
     | PyTypeError \<Rightarrow> CoreError ''PORTABLE_CORE_GRID_INVALID'' ''grid''
     | PyValueError \<Rightarrow> CoreError ''PORTABLE_CORE_GRID_INVALID'' ''grid''
     | CoreError _ _ \<Rightarrow> CoreError ''PORTABLE_CORE_GRID_INVALID'' ''grid''
     | ContractError _ _ \<Rightarrow> CoreError ''PORTABLE_CORE_GRID_INVALID'' ''grid''
     | _ \<Rightarrow> e)"

definition normalised_quaternion :: "vec4 \<Rightarrow> string \<Rightarrow> py_exc + fvec4" where
  "normalised_quaternion q field = (case q of (x, y, z, w) \<Rightarrow>
     bindE (f_norm [Fin x, Fin y, Fin z, Fin w]) (\<lambda>n.
     bindE (guardE (unit_norm n) (CoreError ''PORTABLE_CORE_QUATERNION_INVALID'' field)) (\<lambda>_.
     bindE (fdiv (Fin x) n) (\<lambda>a. bindE (fdiv (Fin y) n) (\<lambda>b.
     bindE (fdiv (Fin z) n) (\<lambda>c. bindE (fdiv (Fin w) n) (\<lambda>d. Inr (a, b, c, d))))))))"

definition decode_fields :: "pylib \<Rightarrow> (string \<times> pyval) list \<Rightarrow> py_exc + string \<times> grid_view" where
  "decode_fields L d =
     bindE (bindE (kget d ''occupancy_base64'') (py_b64decode L)) (\<lambda>raw.
     bindE (bindE (kget d ''width_cells'') py_int) (\<lambda>width.
     bindE (bindE (kget d ''height_cells'') py_int) (\<lambda>height.
     bindE (bindE (kget d ''resolution_m'') (\<lambda>v. n_number (Some (lit (1/100))) v ''grid.resolution_m'')) (\<lambda>res.
     bindE (bindE (kget d ''origin_position_m'') (\<lambda>v. n_vector3 v ''grid.origin_position_m'')) (\<lambda>origin.
     bindE (bindE (kget d ''origin_orientation_xyzw'') (\<lambda>v. n_vector4 v ''grid.origin_orientation_xyzw'')) (\<lambda>q.
     bindE (normalised_quaternion q ''grid.origin_orientation_xyzw'') (\<lambda>orientation.
     bindE (bindE (kget d ''unknown_value'') py_int) (\<lambda>unknown.
     bindE (bindE (kget d ''occupied_threshold'') py_int) (\<lambda>threshold.
     Inr (raw, \<lparr>gv_width = width, gv_height = height, gv_resolution = res, gv_origin = origin,
                gv_orientation = orientation, gv_occupancy = bytes_of raw, gv_unknown = unknown,
                gv_threshold = threshold\<rparr>))))))))))"

definition decode_grid_items :: "pylib \<Rightarrow> (string \<times> pyval) list \<Rightarrow> py_exc + grid_view" where
  "decode_grid_items L d =
     bindE (catchE (decode_fields L d) (\<lambda>e. Inl (grid_invalid e))) (\<lambda>(raw, g).
     bindE (guardE (1 \<le> gv_width g \<and> 1 \<le> gv_height g \<and> int (length raw) = gv_width g * gv_height g)
              (CoreError ''PORTABLE_CORE_OCCUPANCY_SIZE_MISMATCH'' ''grid.occupancy_base64'')) (\<lambda>_.
     bindE (guardE (PStr (sha256hex L raw) = dget d ''occupancy_sha256'')
              (CoreError ''PORTABLE_CORE_OCCUPANCY_HASH_MISMATCH'' ''grid.occupancy_sha256'')) (\<lambda>_. Inr g)))"

definition decode_grid :: "pylib \<Rightarrow> (string \<times> pyval) list \<Rightarrow> py_exc + grid_view" where
  "decode_grid L value =
     (if has_key value ''grid''
      then bindE (validate_map_result L (PDict value) PNone PNone) (\<lambda>r.
           case grid_val (mr_grid r) of PDict d \<Rightarrow> decode_grid_items L d | _ \<Rightarrow> Inl PyTypeError)
      else decode_grid_items L value)"

definition map_items :: "map_result \<Rightarrow> (string \<times> pyval) list" where
  "map_items m = (case map_result_val m of PDict d \<Rightarrow> d | _ \<Rightarrow> [])"

definition grid_with_inflation :: "pylib \<Rightarrow> (string \<times> pyval) list \<Rightarrow> pyval \<Rightarrow> py_exc + grid_view" where
  "grid_with_inflation L value additional_radius_m =
     bindE (decode_grid L value) (\<lambda>g.
     bindE (n_number (Some 0) additional_radius_m ''additional_radius_m'') (\<lambda>radius.
     if fle (Fin radius) EPSILON then Inr g else
     bindE (inflate_occupancy (gv_occupancy g) (gv_width g) (gv_height g) (num_val (gv_resolution g))
              (num_val radius) (gv_unknown g) (gv_threshold g)) (\<lambda>occ.
     Inr (g\<lparr>gv_occupancy := occ\<rparr>))))"

subsection \<open>Cells and indices\<close>

lemma cell_index_less:
  "in_grid w h c \<Longrightarrow> cell_index w c < nat (w * h)"
proof -
  assume g: "in_grid w h c"
  then have b: "0 \<le> fst c" "fst c < w" "0 \<le> snd c" "snd c + 1 \<le> h" by (simp_all add: in_grid_def)
  have "snd c * w + fst c < (snd c + 1) * w" using b by (simp add: algebra_simps)
  also have "\<dots> \<le> h * w" using b by (intro mult_right_mono) simp_all
  finally show ?thesis using b by (simp add: cell_index_def mult.commute zless_nat_eq_int_zless)
qed

lemma cell_of_index_inverse:
  "in_grid w h c \<Longrightarrow> cell_of_index w (cell_index w c) = c"
proof -
  assume g: "in_grid w h c"
  then have "0 \<le> snd c * w + fst c" "0 < w" by (simp_all add: in_grid_def)
  then show ?thesis using g by (cases c) (simp add: cell_of_index_def cell_index_def in_grid_def)
qed

lemma cell_index_inj:
  "in_grid w h c \<Longrightarrow> in_grid w h d \<Longrightarrow> cell_index w c = cell_index w d \<longleftrightarrow> c = d"
  by (metis cell_of_index_inverse)

lemma int_div_less: "0 < w \<Longrightarrow> i < h * w \<Longrightarrow> i div w < (h::int)"
proof (rule ccontr)
  assume w: "0 < w" and i: "i < h * w" and "\<not> i div w < h"
  then have "h * w \<le> i div w * w" by (intro mult_right_mono) simp_all
  also have "\<dots> \<le> i" using w by (simp add: minus_mod_eq_div_mult [symmetric])
  finally show False using i by simp
qed

lemma cell_of_index_in_grid:
  "1 \<le> w \<Longrightarrow> i < nat (w * h) \<Longrightarrow> in_grid w h (cell_of_index w i)"
proof -
  assume w: "1 \<le> w" and i: "i < nat (w * h)"
  have "int i < h * w" using i by (simp add: mult.commute)
  then have "int i div w < h" using w by (intro int_div_less) simp_all
  then show ?thesis using w by (simp add: in_grid_def cell_of_index_def pos_imp_zdiv_nonneg_iff)
qed

lemma cell_index_inverse:
  "1 \<le> w \<Longrightarrow> cell_index w (cell_of_index w i) = i"
  by (simp add: cell_index_def cell_of_index_def)

lemma length_mark_occupied [simp]: "length (mark_occupied u w occ c) = length occ"
  by (simp add: mark_occupied_def Let_def)

lemma nth_mark_occupied:
  "i < length occ \<Longrightarrow>
     mark_occupied u w occ c ! i = (if i = cell_index w c \<and> occ ! i \<noteq> u then OCCUPIED_VALUE else occ ! i)"
  by (auto simp: mark_occupied_def Let_def)

text \<open>
  Marking a list of cells: a cell that is not unknown becomes occupied when it is in the
  list, and nothing else changes.
\<close>

lemma length_mark_fold [simp]:
  "length (foldl (\<lambda>o' c. if P c then mark_occupied u w o' c else o') occ cs) = length occ"
  by (induction cs arbitrary: occ) simp_all

lemma nth_mark_fold:
  assumes "i < length occ"
  shows "foldl (\<lambda>o' c. if P c then mark_occupied u w o' c else o') occ cs ! i =
    (if occ ! i \<noteq> u \<and> (\<exists>c \<in> set cs. P c \<and> cell_index w c = i) then OCCUPIED_VALUE else occ ! i)"
  using assms
  by (induction cs arbitrary: occ) (auto simp: nth_mark_occupied)

lemma inflate_all_fold:
  "inflate_all u w h ss ds occ =
     foldl (\<lambda>o' c. if in_grid w h c then mark_occupied u w o' c else o') occ
       [(fst s + fst d, snd s + snd d). s \<leftarrow> ss, d \<leftarrow> ds]"
  by (simp add: inflate_all_def inflate_cell_def [abs_def])

lemma length_inflate_all [simp]: "length (inflate_all u w h ss ds occ) = length occ"
  by (simp add: inflate_all_fold)

lemma nth_inflate_all:
  assumes "in_grid w h c" and "int (length occ) = w * h"
  shows "inflate_all u w h ss ds occ ! cell_index w c =
    (if occ ! cell_index w c \<noteq> u \<and> (\<exists>s \<in> set ss. (fst c - fst s, snd c - snd s) \<in> set ds)
     then OCCUPIED_VALUE else occ ! cell_index w c)"
proof -
  have i: "cell_index w c < length occ" using cell_index_less [OF assms(1)] assms(2) by simp
  have "(\<exists>d \<in> set [(fst s + fst d, snd s + snd d). s \<leftarrow> ss, d \<leftarrow> ds]. in_grid w h d \<and> cell_index w d = cell_index w c)
      \<longleftrightarrow> c \<in> set [(fst s + fst d, snd s + snd d). s \<leftarrow> ss, d \<leftarrow> ds]"
    using cell_index_inj [OF _ assms(1)] assms(1) by blast
  also have "\<dots> \<longleftrightarrow> (\<exists>s \<in> set ss. (fst c - fst s, snd c - snd s) \<in> set ds)"
    by (cases c) force
  finally show ?thesis by (simp only: inflate_all_fold nth_mark_fold [OF i])
qed

lemma blocked_cells_iff:
  assumes "1 \<le> w" and "int (length occ) = w * h"
  shows "c \<in> set (blocked_cells occ w u t) \<longleftrightarrow> in_grid w h c \<and> blocked_value u t (occ ! cell_index w c)"
proof -
  have l: "length occ = nat (w * h)" using assms(2) by simp
  show ?thesis
  proof
    assume "c \<in> set (blocked_cells occ w u t)"
    then show "in_grid w h c \<and> blocked_value u t (occ ! cell_index w c)"
      using assms(1) l by (auto simp: blocked_cells_def cell_of_index_in_grid cell_index_inverse)
  next
    assume g: "in_grid w h c \<and> blocked_value u t (occ ! cell_index w c)"
    then have "cell_index w c < length occ" using cell_index_less l by simp
    moreover have "c = cell_of_index w (cell_index w c)" using g cell_of_index_inverse [of w h c] by simp
    ultimately show "c \<in> set (blocked_cells occ w u t)"
      using g by (simp add: blocked_cells_def)
  qed
qed

lemma inflate_occupancy_Inr:
  assumes "inflate_occupancy occ w h rv dv u t = Inr occ'"
    and "n_number (Some 0) dv ''radius_m'' = Inr r" and "\<not> fle (Fin r) EPSILON"
    and "n_number (Some (lit (1/100))) rv ''resolution_m'' = Inr res"
  shows "int (length occ) = w * h \<and>
    (\<exists>half cells. cell_half_diagonal res = Inr half
      \<and> bindE (fdiv (fadd (Fin r) half) (Fin res)) fceil = Inr cells
      \<and> occ' = inflate_all u w h (blocked_cells occ w u t) (inflation_offsets cells res (fadd (Fin r) half)) occ)"
  using assms by (auto simp: inflate_occupancy_def bindE_Inr_iff guardE_Inr_iff Let_def)

end
