(* ===== verification/NavGround.thy ===== *)
theory NavGround
  imports NavGrid
begin

text \<open>
  Grounding a semantic image box to a place in the world, from
  \<open>lumina_next/portable_navigation_core_v1.py\<close>: medians, depth clusters, the match with a
  certified continuity surface, the rescue of a wide box split by an occluder, and
  \<open>ground_bbox_to_depth\<close> and \<open>ground_bbox_by_iou\<close>. \<open>point.get("surface_id")\<close> is the
  optional field of the point record; the size of a set of image points is the length of the
  list without duplicates.
\<close>

subsection \<open>Medians and depth clusters\<close>

definition median_of :: "pyfloat list \<Rightarrow> py_exc + pyfloat" where
  "median_of vs =
     (let ordered = py_sort flt vs; middle = length ordered div 2 in
      if odd (length ordered) then Inr (ordered ! middle)
      else if ordered = [] then Inl PyIndexError
      else fdiv (fadd (ordered ! (middle - 1)) (ordered ! middle)) (Fin 2))"

text \<open>Comparison of key tuples: the first components that differ decide.\<close>

definition lt_float_nat :: "pyfloat \<times> nat \<Rightarrow> pyfloat \<times> nat \<Rightarrow> bool" where
  "lt_float_nat a b = (if feq (fst a) (fst b) then snd a < snd b else flt (fst a) (fst b))"

definition lt_float_float_nat :: "pyfloat \<times> pyfloat \<times> nat \<Rightarrow> pyfloat \<times> pyfloat \<times> nat \<Rightarrow> bool" where
  "lt_float_float_nat a b = (if feq (fst a) (fst b) then lt_float_nat (snd a) (snd b) else flt (fst a) (fst b))"

definition depth_key :: "depth_point \<Rightarrow> pyfloat \<times> nat" where
  "depth_key p = (pt_forward_depth_m p, pt_source_index p)"

definition same_layer :: "pyfloat \<Rightarrow> pyfloat \<Rightarrow> depth_point \<Rightarrow> depth_point \<Rightarrow> bool" where
  "same_layer absolute_gap relative_gap previous p =
     (let previous_depth = pt_forward_depth_m previous;
          allowed_gap = fmax absolute_gap (fmul (fmin previous_depth (pt_forward_depth_m p)) relative_gap)
      in fle (fsub (pt_forward_depth_m p) previous_depth) (fadd allowed_gap EPSILON))"

definition cluster_add :: "pyfloat \<Rightarrow> pyfloat \<Rightarrow> depth_point list list \<Rightarrow> depth_point \<Rightarrow> depth_point list list" where
  "cluster_add absolute_gap relative_gap clusters p =
     (if clusters = [] then [[p]]
      else if same_layer absolute_gap relative_gap (last (last clusters)) p
      then butlast clusters @ [last clusters @ [p]]
      else clusters @ [[p]])"

definition depth_clusters :: "depth_point list \<Rightarrow> pyfloat \<Rightarrow> pyfloat \<Rightarrow> depth_point list list" where
  "depth_clusters points absolute_gap relative_gap =
     foldl (cluster_add absolute_gap relative_gap) []
       (py_sort (\<lambda>a b. lt_float_nat (depth_key a) (depth_key b)) points)"

definition independent_support :: "depth_point list \<Rightarrow> nat" where
  "independent_support points = length (fromkeys (map pt_uv_norm points))"

subsection \<open>Continuity with a certified surface\<close>

definition nearest_reference :: "fvec3 \<Rightarrow> vec3 list \<Rightarrow> py_exc + pyfloat" where
  "nearest_reference position references =
     bindE (mapE (\<lambda>r. fdist (v3_list position) (v3_list (f3 r))) references) fmin_list"

fun match_points ::
  "vec3 list \<Rightarrow> rat \<Rightarrow> string option \<Rightarrow> string option \<Rightarrow> depth_point list \<Rightarrow> py_exc + (pyfloat \<times> depth_point) list" where
  "match_points references maximum sid role [] = Inr []"
| "match_points references maximum sid role (p # ps) =
     (if sid \<noteq> None \<and> pt_surface_id p \<noteq> sid then match_points references maximum sid role ps
      else if role \<noteq> None \<and> pt_surface_role p \<noteq> role then match_points references maximum sid role ps
      else bindE (nearest_reference (pt_position_m p) references) (\<lambda>nearest.
           bindE (match_points references maximum sid role ps) (\<lambda>ms.
           Inr (if fle nearest (fadd (Fin maximum) EPSILON) then (nearest, p) # ms else ms))))"

record surface_candidate =
  sc_evidence :: pyfloat
  sc_independent :: nat
  sc_depth :: pyfloat
  sc_first :: nat
  sc_points :: "depth_point list"
  sc_distances :: "pyfloat list"

definition cluster_candidate ::
  "vec3 list \<Rightarrow> rat \<Rightarrow> string option \<Rightarrow> string option \<Rightarrow> depth_point list \<Rightarrow> py_exc + surface_candidate option" where
  "cluster_candidate references maximum sid role cluster =
     bindE (match_points references maximum sid role cluster) (\<lambda>matched.
     if independent_support (map snd matched) < MIN_INDEPENDENT_DEPTH_SAMPLES then Inr None else
     (let ordered = py_sort (\<lambda>a b. lt_float_nat (fst a, pt_source_index (snd a)) (fst b, pt_source_index (snd b))) matched;
          distances = map fst ordered; points = map snd ordered in
      bindE (median_of (map pt_forward_depth_m points)) (\<lambda>depth.
      Inr (Some \<lparr>sc_evidence = distances ! (MIN_INDEPENDENT_DEPTH_SAMPLES - 1),
                 sc_independent = independent_support (map snd matched), sc_depth = depth,
                 sc_first = pt_source_index (hd points), sc_points = points, sc_distances = distances\<rparr>))))"

text \<open>The order of \<open>item[:4]\<close>; the second component is minus the number of independent rays.\<close>

definition candidate_lt :: "surface_candidate \<Rightarrow> surface_candidate \<Rightarrow> bool" where
  "candidate_lt a b =
     (if feq (sc_evidence a) (sc_evidence b)
      then if sc_independent a = sc_independent b
           then lt_float_nat (sc_depth a, sc_first a) (sc_depth b, sc_first b)
           else sc_independent b < sc_independent a
      else flt (sc_evidence a) (sc_evidence b))"

fun somes :: "'a option list \<Rightarrow> 'a list" where
  "somes [] = []"
| "somes (None # xs) = somes xs"
| "somes (Some x # xs) = x # somes xs"

definition continuity_match ::
  "depth_point list list \<Rightarrow> vec3 list \<Rightarrow> rat \<Rightarrow> string option \<Rightarrow> string option
     \<Rightarrow> py_exc + (depth_point list \<times> depth_point list option \<times> pyfloat) option" where
  "continuity_match clusters references maximum sid role =
     bindE (mapE (cluster_candidate references maximum sid role) clusters) (\<lambda>found.
     case py_sort candidate_lt (somes found) of
       [] \<Rightarrow> Inr None
     | winning # rest \<Rightarrow>
         if (case rest of runner # _ \<Rightarrow>
               flt (sc_evidence runner)
                   (fsub (fadd (sc_evidence winning) ARRIVAL_CONTINUITY_UNIQUE_MARGIN_M) EPSILON) | [] \<Rightarrow> False)
         then Inr None
         else bindE (median_of (sc_distances winning)) (\<lambda>m.
              Inr (Some (sc_points winning,
                         (case rest of runner # _ \<Rightarrow> Some (sc_points runner) | [] \<Rightarrow> None),
                         fmax (Fin (lit (1/100))) m))))"

subsection \<open>Surface identity\<close>

definition uniform_of :: "(depth_point \<Rightarrow> string option) \<Rightarrow> depth_point list \<Rightarrow> string option" where
  "uniform_of sel points = (case fromkeys (map sel points) of [x] \<Rightarrow> x | _ \<Rightarrow> None)"

definition uniform_surface_id :: "depth_point list \<Rightarrow> string option" where
  "uniform_surface_id = uniform_of pt_surface_id"

definition uniform_surface_role :: "depth_point list \<Rightarrow> string option" where
  "uniform_surface_role = uniform_of pt_surface_role"

text \<open>\<open>partitions.setdefault(key, []).append(point)\<close> on a dictionary in insertion order.\<close>

fun setdefault_append :: "'k \<Rightarrow> 'v \<Rightarrow> ('k \<times> 'v list) list \<Rightarrow> ('k \<times> 'v list) list" where
  "setdefault_append k v [] = [(k, [v])]"
| "setdefault_append k v ((k', vs) # d) =
     (if k' = k then (k', vs @ [v]) # d else (k', vs) # setdefault_append k v d)"

definition identity_partitions :: "depth_point list \<Rightarrow> depth_point list list option" where
  "identity_partitions points =
     (let identified = map (\<lambda>p. pt_surface_id p \<noteq> None) points in
      if list_ex id identified \<and> \<not> list_all id identified then None
      else if \<not> list_ex id identified then Some [points]
      else Some (map snd (foldl (\<lambda>d p. setdefault_append (pt_surface_id p) p d) [] points)))"

subsection \<open>Support of a cluster\<close>

definition bbox_width :: "vec4 \<Rightarrow> pyfloat" where
  "bbox_width b = (case b of (x0, y0, x1, y1) \<Rightarrow> fsub (Fin x1) (Fin x0))"

definition bbox_height :: "vec4 \<Rightarrow> pyfloat" where
  "bbox_height b = (case b of (x0, y0, x1, y1) \<Rightarrow> fsub (Fin y1) (Fin y0))"

definition bbox_centre :: "vec4 \<Rightarrow> py_exc + fvec2" where
  "bbox_centre b = (case b of (x0, y0, x1, y1) \<Rightarrow>
     bindE (fdiv (fadd (Fin x0) (Fin x1)) (Fin 2)) (\<lambda>cx.
     bindE (fdiv (fadd (Fin y0) (Fin y1)) (Fin 2)) (\<lambda>cy. Inr (cx, cy))))"

definition bbox_half_diagonal :: "vec4 \<Rightarrow> py_exc + pyfloat" where
  "bbox_half_diagonal b =
     bindE (fdiv (bbox_width b) (Fin 2)) (\<lambda>w. bindE (fdiv (bbox_height b) (Fin 2)) (\<lambda>h.
     Inr (fmax EPSILON (fhypot [w, h]))))"

definition support_step :: "fvec2 \<Rightarrow> pyfloat \<Rightarrow> pyfloat \<Rightarrow> depth_point \<Rightarrow> py_exc + pyfloat" where
  "support_step centre half_diagonal acc p =
     bindE (fdiv (fhypot [fsub (fst (pt_uv_norm p)) (fst centre), fsub (snd (pt_uv_norm p)) (snd centre)])
              half_diagonal) (\<lambda>d.
     Inr (fadd acc (fmul (pt_confidence p) (fmax (Fin (1/4)) (fsub (Fin 1) d)))))"

definition visual_support :: "fvec2 \<Rightarrow> pyfloat \<Rightarrow> depth_point list \<Rightarrow> py_exc + pyfloat" where
  "visual_support centre half_diagonal cluster = foldE (support_step centre half_diagonal) (Fin 0) cluster"

subsection \<open>The wide-occlusion rescue\<close>

definition project_box :: "pylib \<Rightarrow> capture_result \<Rightarrow> pyval \<Rightarrow> rat \<Rightarrow> py_exc + depth_point list" where
  "project_box L cap bbox confidence_floor =
     project_depth_samples L (capture_result_val cap) bbox (num_val confidence_floor)
       (num_val (lit (1/1000))) (num_val 10000)"

text \<open>\<open>minor <= EPSILON or max(width, height) / minor < 3.0\<close> is \<open>Inr False\<close>.\<close>

definition wide_box :: "vec4 \<Rightarrow> py_exc + bool" where
  "wide_box b =
     (let minor = fmin (bbox_width b) (bbox_height b) in
      if fle minor EPSILON then Inr False
      else bindE (fdiv (fmax (bbox_width b) (bbox_height b)) minor) (\<lambda>r. Inr (\<not> flt r (Fin 3))))"

definition major_axis :: "vec4 \<Rightarrow> nat" where
  "major_axis b = (if fle (bbox_height b) (bbox_width b) then 0 else 1)"

definition major_extent :: "vec4 \<Rightarrow> pyfloat" where
  "major_extent b = (if major_axis b = 0 then bbox_width b else bbox_height b)"

definition major_centre :: "vec4 \<Rightarrow> py_exc + pyfloat" where
  "major_centre b = fdiv (fadd (box_low (major_axis b) (f4 b)) (box_high (major_axis b) (f4 b))) (Fin 2)"

definition uv_values :: "nat \<Rightarrow> depth_point list \<Rightarrow> pyfloat list" where
  "uv_values axis points = map (\<lambda>p. uv_axis axis (pt_uv_norm p)) points"

definition span_of :: "pyfloat list \<Rightarrow> py_exc + pyfloat" where
  "span_of vs = bindE (fmax_list vs) (\<lambda>h. bindE (fmin_list vs) (\<lambda>l. Inr (fsub h l)))"

definition span_ratio :: "vec4 \<Rightarrow> depth_point list \<Rightarrow> py_exc + pyfloat" where
  "span_ratio b cluster = bindE (span_of (uv_values (major_axis b) cluster)) (\<lambda>s. fdiv s (major_extent b))"

text \<open>The depth of one cluster inside an occluder, or nothing when it is not foreground evidence.\<close>

definition foreground_depth :: "vec4 \<Rightarrow> depth_point list \<Rightarrow> py_exc + pyfloat option" where
  "foreground_depth b cluster =
     (if independent_support cluster < MIN_INDEPENDENT_DEPTH_SAMPLES then Inr None
      else bindE (span_ratio b cluster) (\<lambda>s.
           if fle s (fadd (Fin (lit (30/100))) EPSILON)
           then bindE (median_of (map pt_forward_depth_m cluster)) (\<lambda>m. Inr (Some m))
           else Inr None))"

definition clusters_of :: "depth_point list list \<Rightarrow> pyfloat \<Rightarrow> pyfloat \<Rightarrow> depth_point list list" where
  "clusters_of partitions absolute_gap relative_gap =
     concat (map (\<lambda>p. depth_clusters p absolute_gap relative_gap) partitions)"

text \<open>
  The loop over the occluder boxes: the overlapping boxes and the foreground depths found
  so far, or \<open>None\<close> where partial identity coverage ends the rescue.
\<close>

fun occluder_scan ::
  "vec4 \<Rightarrow> depth_point list \<Rightarrow> pyfloat \<Rightarrow> pyfloat \<Rightarrow> fvec4 list \<Rightarrow> pyfloat list \<Rightarrow> vec4 list
     \<Rightarrow> py_exc + (fvec4 list \<times> pyfloat list) option" where
  "occluder_scan b points ga gr boxes depths [] = Inr (Some (boxes, depths))"
| "occluder_scan b points ga gr boxes depths (raw # raws) =
     (case bbox_intersection (f4 b) (f4 raw) of
        None \<Rightarrow> occluder_scan b points ga gr boxes depths raws
      | Some overlap \<Rightarrow>
          let low = box_low (major_axis b) overlap; high = box_high (major_axis b) overlap in
          bindE (fdiv (fsub high low) (major_extent b)) (\<lambda>share.
          bindE (major_centre b) (\<lambda>centre.
          if flt (fadd (Fin (lit (40/100))) EPSILON) share \<or> \<not> (fle low centre \<and> fle centre high)
          then occluder_scan b points ga gr boxes depths raws
          else (case identity_partitions (filter (\<lambda>p. inside_bbox (pt_uv_norm p) overlap) points) of
                  None \<Rightarrow> Inr None
                | Some parts \<Rightarrow>
                    bindE (mapE (foreground_depth b) (clusters_of parts ga gr)) (\<lambda>found.
                    if somes found = [] then occluder_scan b points ga gr boxes depths raws
                    else occluder_scan b points ga gr (boxes @ [overlap]) (depths @ somes found) raws)))))"

record wide_layer =
  wl_score :: pyfloat
  wl_depth :: pyfloat
  wl_cluster :: "depth_point list"
  wl_mad :: pyfloat

definition count_where :: "('a \<Rightarrow> bool) \<Rightarrow> 'a list \<Rightarrow> nat" where
  "count_where P xs = length (filter P xs)"

text \<open>One cluster outside the occluders: a layer that spans both halves, or nothing.\<close>

definition wide_layer_of :: "vec4 \<Rightarrow> pyfloat list \<Rightarrow> depth_point list \<Rightarrow> py_exc + wide_layer option" where
  "wide_layer_of b foreground cluster =
     (if independent_support cluster < 2 * MIN_INDEPENDENT_DEPTH_SAMPLES then Inr None else
      let values = uv_values (major_axis b) cluster in
      bindE (span_ratio b cluster) (\<lambda>ratio.
      bindE (major_centre b) (\<lambda>centre.
      if flt ratio (fsub (Fin (lit (70/100))) EPSILON)
         \<or> count_where (\<lambda>v. flt v (fsub centre EPSILON)) values < MIN_INDEPENDENT_DEPTH_SAMPLES
         \<or> count_where (\<lambda>v. flt (fadd centre EPSILON) v) values < MIN_INDEPENDENT_DEPTH_SAMPLES
      then Inr None else
      let depths = map pt_forward_depth_m cluster in
      bindE (median_of depths) (\<lambda>m.
      bindE (median_of (map (\<lambda>d. fabs (fsub d m)) depths)) (\<lambda>mad.
      if flt (fadd (fmax (Fin (lit (10/100))) (fmul m (Fin (lit (3/100))))) EPSILON) mad then Inr None else
      bindE (span_of depths) (\<lambda>spread.
      if flt (fadd (fmax (Fin (lit (20/100))) (fmul m (Fin (lit (8/100))))) EPSILON) spread then Inr None else
      if \<not> list_ex (\<lambda>f. flt (fadd f (fmax (Fin (lit (15/100))) (fmul f (Fin (lit (5/100)))))) m) foreground
      then Inr None else
      bindE (bbox_centre b) (\<lambda>c.
      bindE (bbox_half_diagonal b) (\<lambda>hd'.
      bindE (visual_support c hd' cluster) (\<lambda>s.
      Inr (Some \<lparr>wl_score = fmul s ratio, wl_depth = m, wl_cluster = cluster, wl_mad = mad\<rparr>))))))))))"

definition layer_first :: "wide_layer \<Rightarrow> nat" where
  "layer_first e = pt_source_index (hd (wl_cluster e))"

definition layer_score_lt :: "wide_layer \<Rightarrow> wide_layer \<Rightarrow> bool" where
  "layer_score_lt a b =
     lt_float_float_nat (fneg (wl_score a), wl_depth a, layer_first a) (fneg (wl_score b), wl_depth b, layer_first b)"

definition layer_depth_lt :: "wide_layer \<Rightarrow> wide_layer \<Rightarrow> bool" where
  "layer_depth_lt a b = lt_float_nat (wl_depth a, layer_first a) (wl_depth b, layer_first b)"

text \<open>The winning layer, whether all layers are one physical surface, and the competing scores.\<close>

type_synonym layer_choice = "wide_layer \<times> bool \<times> pyfloat list"

definition choose_obstacle :: "wide_layer \<Rightarrow> wide_layer list \<Rightarrow> py_exc + layer_choice option" where
  "choose_obstacle e es =
     (let eligible = e # es; roles = map (\<lambda>x. uniform_surface_role (wl_cluster x)) eligible;
          obstacles = filter (\<lambda>x. uniform_surface_role (wl_cluster x) = Some ''navigation_obstacle'') eligible;
          ids = map (\<lambda>x. uniform_surface_id (wl_cluster x)) obstacles in
      if None \<in> set roles then Inr None else
      case obstacles of
        [] \<Rightarrow> Inr None
      | o1 # os \<Rightarrow>
          if hd ids = None \<or> \<not> list_all (\<lambda>i. i = hd ids) ids
             \<or> list_ex (\<lambda>r. r \<noteq> Some ''walkable_ground'') (filter (\<lambda>r. r \<noteq> Some ''navigation_obstacle'') roles)
          then Inr None else
          let winner = py_min layer_depth_lt o1 os;
              walkable = map wl_score (filter (\<lambda>x. uniform_surface_role (wl_cluster x) = Some ''walkable_ground'') eligible) in
          bindE (if walkable = [] then Inr (Fin 0) else fmax_list walkable) (\<lambda>strongest.
          if fle (fsub (fmul (wl_score winner) WIDE_WALKABLE_RUNNER_MAX_RATIO) EPSILON) strongest then Inr None
          else Inr (Some (winner, False, walkable))))"

definition choose_layer :: "string option \<Rightarrow> wide_layer list \<Rightarrow> py_exc + layer_choice option" where
  "choose_layer expected_role eligible =
     (case eligible of
        [] \<Rightarrow> Inr None
      | e # es \<Rightarrow>
          if es = [] then Inr (Some (e, False, [])) else
          let ids = map (\<lambda>x. uniform_surface_id (wl_cluster x)) eligible in
          if hd ids \<noteq> None \<and> list_all (\<lambda>i. i = hd ids) ids
          then Inr (Some (py_min layer_depth_lt e es, True, []))
          else if expected_role = Some ''navigation_obstacle'' then choose_obstacle e es
          else Inr None)"

text \<open>\<open>axis_medians points\<close> is the component-wise median position; the residuals are the distances to it.\<close>

definition axis_medians :: "depth_point list \<Rightarrow> py_exc + fvec3" where
  "axis_medians points =
     bindE (median_of (map (\<lambda>p. v3_axis 0 (pt_position_m p)) points)) (\<lambda>x.
     bindE (median_of (map (\<lambda>p. v3_axis 1 (pt_position_m p)) points)) (\<lambda>y.
     bindE (median_of (map (\<lambda>p. v3_axis 2 (pt_position_m p)) points)) (\<lambda>z. Inr (x, y, z))))"

definition residual :: "fvec3 \<Rightarrow> depth_point \<Rightarrow> py_exc + pyfloat" where
  "residual position p =
     bindE (mapE (\<lambda>axis. fsquare (fsub (v3_axis axis (pt_position_m p)) (v3_axis axis position))) [0, 1, 2])
       (\<lambda>squares. fsqrt (fsum squares))"

definition rescue_uncertainty :: "vec4 \<Rightarrow> wide_layer \<Rightarrow> py_exc + pyfloat" where
  "rescue_uncertainty b winner =
     (let winning = wl_cluster winner; axis = major_axis b in
      bindE (axis_medians winning) (\<lambda>position.
      bindE (mapE (residual position) winning) (\<lambda>residuals.
      bindE (major_centre b) (\<lambda>centre.
      bindE (median_of (map pt_forward_depth_m (filter (\<lambda>p. flt (uv_axis axis (pt_uv_norm p)) centre) winning))) (\<lambda>left.
      bindE (median_of (map pt_forward_depth_m (filter (\<lambda>p. flt centre (uv_axis axis (pt_uv_norm p))) winning))) (\<lambda>right.
      bindE (median_of residuals) (\<lambda>r.
      bindE (fsqrt (fint (int (length winning)))) (\<lambda>n.
      bindE (fdiv r n) (\<lambda>spread.
      Inr (foldl fmax (Fin (lit (1/100))) [wl_mad winner, fabs (fsub left right), spread]))))))))))"

definition rescue_total :: "wide_layer list \<Rightarrow> layer_choice \<Rightarrow> py_exc + pyfloat" where
  "rescue_total eligible choice =
     (case choice of (winner, same_surface, competing) \<Rightarrow>
        let runners = (if competing \<noteq> [] then competing
                       else map wl_score (filter (\<lambda>e. wl_cluster e \<noteq> wl_cluster winner) eligible)) in
        if same_surface then Inr (wl_score winner)
        else bindE (if runners = [] then Inr (Fin 0) else fmax_list runners) (\<lambda>m. Inr (fadd (wl_score winner) m)))"

record rescue_outcome =
  ro_winning :: "depth_point list"
  ro_score :: pyfloat
  ro_total :: pyfloat
  ro_uncertainty :: pyfloat

definition rescue_among :: "vec4 \<Rightarrow> string option \<Rightarrow> wide_layer list \<Rightarrow> py_exc + rescue_outcome option" where
  "rescue_among b expected_role layers =
     (let eligible = py_sort layer_score_lt layers in
      bindE (choose_layer expected_role eligible) (\<lambda>choice.
      case choice of None \<Rightarrow> Inr None
      | Some c \<Rightarrow>
          bindE (rescue_uncertainty b (fst c)) (\<lambda>u.
          bindE (rescue_total eligible c) (\<lambda>total.
          Inr (Some \<lparr>ro_winning = wl_cluster (fst c), ro_score = wl_score (fst c), ro_total = total,
                     ro_uncertainty = u\<rparr>)))))"

text \<open>
  \<open>Inr None\<close> is \<open>(False, None)\<close>, the rescue was not attempted; \<open>Inr (Some None)\<close> is
  \<open>(True, None)\<close>, it was attempted and found no unique surface.
\<close>

definition wide_occlusion_rescue ::
  "pylib \<Rightarrow> capture_result \<Rightarrow> vec4 \<Rightarrow> vec4 list \<Rightarrow> pyfloat \<Rightarrow> pyfloat \<Rightarrow> rat \<Rightarrow> string option
     \<Rightarrow> py_exc + rescue_outcome option option" where
  "wide_occlusion_rescue L cap b occluders ga gr confidence_floor expected_role =
     bindE (wide_box b) (\<lambda>wide.
     if \<not> wide \<or> occluders = [] then Inr None else
     bindE (project_box L cap (v4_val b) confidence_floor) (\<lambda>points.
     if identity_partitions points = None then Inr (Some None) else
     bindE (occluder_scan b points ga gr [] [] occluders) (\<lambda>scan.
     case scan of
       None \<Rightarrow> Inr (Some None)
     | Some (boxes, depths) \<Rightarrow>
         if depths = [] \<or> boxes = [] then Inr None else
         case identity_partitions (filter (\<lambda>p. \<not> list_ex (inside_bbox (pt_uv_norm p)) boxes) points) of
           None \<Rightarrow> Inr (Some None)
         | Some parts \<Rightarrow>
             bindE (mapE (wide_layer_of b depths)
                      (clusters_of parts WIDE_LAYER_CLUSTER_GAP_M WIDE_LAYER_CLUSTER_GAP_RATIO)) (\<lambda>found.
             bindE (rescue_among b expected_role (somes found)) (\<lambda>r. Inr (Some r))))))"

subsection \<open>Grounding a box\<close>

definition ground_result_base :: "ground_request \<Rightarrow> rat \<Rightarrow> (string \<times> pyval) list" where
  "ground_result_base q grounded_unix =
     [(''schema_version'', PStr GROUND_RESULT_SCHEMA), (''request_id'', PStr (rq_request_id q)),
      (''environment_id'', PStr (rq_environment_id q)), (''session_id'', PStr (rq_session_id q)),
      (''source_frame_id'', PStr (gq_source_frame_id q)), (''map_id'', PStr (gq_map_id q)),
      (''detection_id'', PStr (det_detection_id (gq_detection q))), (''grounded_unix'', num_val grounded_unix),
      (''label'', PStr (det_label (gq_detection q))), (''coordinate_convention'', PStr COORDINATE_CONVENTION)]"

definition sample_indices :: "nat \<Rightarrow> py_exc + int list" where
  "sample_indices n =
     mapE (\<lambda>i. bindE (fdiv (fint (int i * (int n - 1))) (fint (int MAX_GROUND_SURFACE_POINTS - 1))) fround)
       [0..<MAX_GROUND_SURFACE_POINTS]"

definition bounded_surface_positions :: "depth_point list \<Rightarrow> py_exc + vec3 list" where
  "bounded_surface_positions points =
     (let ordered = py_sort (\<lambda>a b. pt_source_index a < pt_source_index b) points in
      bindE (if MAX_GROUND_SURFACE_POINTS < length ordered
             then bindE (sample_indices (length ordered)) (\<lambda>is. Inr (map (\<lambda>i. ordered ! nat i) is))
             else Inr ordered) (\<lambda>chosen.
      mapE (\<lambda>p. n_vector3 (point3_val (pt_position_m p)) ''surface.position_m'') chosen))"

definition unresolved_ground_result :: "ground_request \<Rightarrow> rat \<Rightarrow> string \<Rightarrow> py_exc + ground_result" where
  "unresolved_ground_result q grounded_unix reason =
     validate_ground_result (PDict (ground_result_base q grounded_unix
       @ [(''status'', PStr ''unresolved''), (''target_id'', PNone),
          (''confidence'', num_val (det_confidence (gq_detection q))), (''coordinate_frame_id'', PNone),
          (''position_m'', PNone), (''uncertainty_radius_m'', PNone), (''reason'', PStr reason)]))
       (ground_request_val q) PNone"

text \<open>\<open>int(round(component * 1000.0))\<close>.\<close>

definition millimetres :: "pyfloat \<Rightarrow> py_exc + pyval" where
  "millimetres x = bindE (fround (fmul x (Fin 1000))) (\<lambda>n. Inr (PInt n))"

definition opt_str_val :: "string option \<Rightarrow> pyval" where
  "opt_str_val x = (case x of None \<Rightarrow> PNone | Some s \<Rightarrow> PStr s)"

definition ground_target_id :: "pylib \<Rightarrow> ground_request \<Rightarrow> fvec3 \<Rightarrow> depth_point list \<Rightarrow> py_exc + string" where
  "ground_target_id L q position winning =
     bindE (mapE millimetres (v3_list position)) (\<lambda>position_mm.
     bindE (bounded_surface_positions winning) (\<lambda>points.
     bindE (mapE (\<lambda>p. bindE (mapE millimetres (v3_list (f3 p))) (\<lambda>mm. Inr (PList mm))) points) (\<lambda>points_mm.
     opaque_id L ''target''
       (PDict [(''environment_id'', PStr (rq_environment_id q)), (''session_id'', PStr (rq_session_id q)),
          (''source_frame_id'', PStr (gq_source_frame_id q)), (''map_id'', PStr (gq_map_id q)),
          (''detection_id'', PStr (det_detection_id (gq_detection q))), (''position_mm'', PList position_mm),
          (''surface_points_mm'', PList points_mm), (''surface_id'', opt_str_val (uniform_surface_id winning)),
          (''surface_role'', opt_str_val (uniform_surface_role winning))]))))"

record ground_policy =
  gp_timestamp :: rat
  gp_inset :: rat
  gp_absolute_gap :: rat
  gp_relative_gap :: rat
  gp_ambiguity :: rat
  gp_confidence_floor :: rat

definition ground_policy_of ::
  "ground_request \<Rightarrow> capture_result \<Rightarrow> pyval \<Rightarrow> pyval \<Rightarrow> pyval \<Rightarrow> pyval \<Rightarrow> pyval \<Rightarrow> pyval \<Rightarrow> py_exc + ground_policy" where
  "ground_policy_of q cap grounded_unix inset_v gap_v ratio_v ambiguity_v confidence_v =
     bindE (if grounded_unix = PNone then Inr (max (rq_requested_unix q) (cap_captured_unix cap))
            else n_number (Some 0) grounded_unix ''grounded_unix'') (\<lambda>timestamp.
     bindE (n_number (Some 0) inset_v ''bbox_inset_ratio'') (\<lambda>inset.
     bindE (guardE (inset < 1/2) (CoreError ''PORTABLE_CORE_NUMBER_INVALID'' ''bbox_inset_ratio'')) (\<lambda>_.
     bindE (n_number (Some 0) gap_v ''cluster_gap_m'') (\<lambda>ga.
     bindE (n_number (Some 0) ratio_v ''cluster_gap_ratio'') (\<lambda>gr.
     bindE (n_number (Some 0) ambiguity_v ''ambiguity_ratio'') (\<lambda>amb.
     bindE (guardE (amb < 1) (CoreError ''PORTABLE_CORE_NUMBER_INVALID'' ''ambiguity_ratio'')) (\<lambda>_.
     bindE (n_number (Some 0) confidence_v ''min_depth_confidence'') (\<lambda>floor.
     bindE (guardE (floor \<le> 1) (CoreError ''PORTABLE_CORE_NUMBER_INVALID'' ''min_depth_confidence'')) (\<lambda>_.
     Inr \<lparr>gp_timestamp = timestamp, gp_inset = inset, gp_absolute_gap = ga, gp_relative_gap = gr,
          gp_ambiguity = amb, gp_confidence_floor = floor\<rparr>)))))))))"

definition ground_points :: "pylib \<Rightarrow> ground_request \<Rightarrow> capture_result \<Rightarrow> ground_policy \<Rightarrow> py_exc + depth_point list" where
  "ground_points L q cap pol =
     (let bbox = det_bbox_norm (gq_detection q) in
      if gq_continuity q \<noteq> None then project_box L cap (v4_val bbox) (gp_confidence_floor pol)
      else bindE (project_box L cap (fvec4_val (inset_bbox (f4 bbox) (Fin (gp_inset pol)))) (gp_confidence_floor pol)) (\<lambda>points.
           if independent_support points < MIN_INDEPENDENT_DEPTH_SAMPLES \<and> 0 < gp_inset pol
           then project_box L cap (v4_val bbox) (gp_confidence_floor pol) else Inr points))"

record ranked_cluster =
  rk_support :: pyfloat
  rk_depth :: pyfloat
  rk_cluster :: "depth_point list"

definition rank_cluster :: "fvec2 \<Rightarrow> pyfloat \<Rightarrow> depth_point list \<Rightarrow> py_exc + ranked_cluster" where
  "rank_cluster centre half_diagonal cluster =
     bindE (visual_support centre half_diagonal cluster) (\<lambda>s.
     bindE (median_of (map pt_forward_depth_m cluster)) (\<lambda>m.
     Inr \<lparr>rk_support = s, rk_depth = m, rk_cluster = cluster\<rparr>))"

definition ranked_lt :: "ranked_cluster \<Rightarrow> ranked_cluster \<Rightarrow> bool" where
  "ranked_lt a b =
     lt_float_float_nat (fneg (rk_support a), rk_depth a, pt_source_index (hd (rk_cluster a)))
       (fneg (rk_support b), rk_depth b, pt_source_index (hd (rk_cluster b)))"

text \<open>
  The selected surface: its points, its support, the support it is compared with and the
  uncertainty a rescue or a continuity match gives. \<open>Inr None\<close> is the result
  \<open>ambiguous\<close>.
\<close>

record selection =
  sel_winning :: "depth_point list"
  sel_support :: pyfloat
  sel_total :: pyfloat
  sel_uncertainty :: "pyfloat option"

definition select_by_continuity ::
  "fvec2 \<Rightarrow> pyfloat \<Rightarrow> depth_point list list \<Rightarrow> continuity \<Rightarrow> py_exc + selection option" where
  "select_by_continuity centre half_diagonal clusters con =
     bindE (continuity_match clusters (con_points_m con) (con_maximum_distance_m con) (con_surface_id con)
              (con_surface_role con)) (\<lambda>m.
     case m of None \<Rightarrow> Inr None
     | Some (winning, runner, u) \<Rightarrow>
         bindE (visual_support centre half_diagonal winning) (\<lambda>s.
         bindE (case runner of None \<Rightarrow> Inr (Fin 0) | Some r \<Rightarrow> visual_support centre half_diagonal r) (\<lambda>other.
         Inr (Some \<lparr>sel_winning = winning, sel_support = s, sel_total = fadd s other, sel_uncertainty = Some u\<rparr>))))"

text \<open>\<open>bbox_minor > EPSILON and major / bbox_minor >= 3.0\<close> and the winner spans less than half of the box.\<close>

definition compact_in_wide :: "vec4 \<Rightarrow> depth_point list \<Rightarrow> py_exc + bool" where
  "compact_in_wide b winning =
     (let minor = fmin (bbox_width b) (bbox_height b) in
      if \<not> flt EPSILON minor then Inr False else
      bindE (fdiv (fmax (bbox_width b) (bbox_height b)) minor) (\<lambda>r.
      if \<not> fle (Fin 3) r then Inr False else
      bindE (span_ratio b winning) (\<lambda>s. Inr (flt s (fsub (Fin (1/2)) EPSILON)))))"

definition default_ambiguous :: "ground_policy \<Rightarrow> ranked_cluster \<Rightarrow> ranked_cluster list \<Rightarrow> bool" where
  "default_ambiguous pol best rest =
     (case rest of [] \<Rightarrow> False
      | runner # _ \<Rightarrow> fle (fsub (fmul (rk_support best) (fsub (Fin 1) (Fin (gp_ambiguity pol)))) EPSILON) (rk_support runner))"

definition select_by_support ::
  "pylib \<Rightarrow> ground_request \<Rightarrow> capture_result \<Rightarrow> ground_policy \<Rightarrow> ranked_cluster \<Rightarrow> ranked_cluster list
     \<Rightarrow> py_exc + selection option" where
  "select_by_support L q cap pol best rest =
     (let det = gq_detection q; bbox = det_bbox_norm det in
      bindE (wide_occlusion_rescue L cap bbox (case det_occluder_bboxes_norm det of None \<Rightarrow> [] | Some bs \<Rightarrow> bs)
               (Fin (gp_absolute_gap pol)) (Fin (gp_relative_gap pol)) (gp_confidence_floor pol)
               (det_expected_surface_role det)) (\<lambda>rescue.
      case rescue of
        Some None \<Rightarrow> Inr None
      | Some (Some r) \<Rightarrow> Inr (Some \<lparr>sel_winning = ro_winning r, sel_support = ro_score r, sel_total = ro_total r,
                                    sel_uncertainty = Some (ro_uncertainty r)\<rparr>)
      | None \<Rightarrow>
          if default_ambiguous pol best rest then Inr None else
          bindE (compact_in_wide bbox (rk_cluster best)) (\<lambda>compact.
          if compact then Inr None else
          Inr (Some \<lparr>sel_winning = rk_cluster best, sel_support = rk_support best,
                     sel_total = fadd (rk_support best) (case rest of runner # _ \<Rightarrow> rk_support runner | [] \<Rightarrow> Fin 0),
                     sel_uncertainty = None\<rparr>))))"

definition select_surface ::
  "pylib \<Rightarrow> ground_request \<Rightarrow> capture_result \<Rightarrow> ground_policy \<Rightarrow> depth_point list \<Rightarrow> py_exc + selection option" where
  "select_surface L q cap pol points =
     (let bbox = det_bbox_norm (gq_detection q);
          clusters = depth_clusters points (Fin (gp_absolute_gap pol)) (Fin (gp_relative_gap pol)) in
      bindE (bbox_centre bbox) (\<lambda>centre.
      bindE (bbox_half_diagonal bbox) (\<lambda>half_diagonal.
      bindE (mapE (rank_cluster centre half_diagonal) clusters) (\<lambda>rks.
      case py_sort ranked_lt rks of
        [] \<Rightarrow> Inl PyIndexError
      | best # rest \<Rightarrow>
          (case gq_continuity q of
             Some con \<Rightarrow> select_by_continuity centre half_diagonal clusters con
           | None \<Rightarrow> select_by_support L q cap pol best rest)))))"

definition selection_confidence :: "ground_request \<Rightarrow> selection \<Rightarrow> py_exc + pyfloat" where
  "selection_confidence q s =
     bindE (if flt (Fin 0) (sel_total s) then fdiv (sel_support s) (sel_total s) else Inr (Fin 0)) (\<lambda>dominance.
     bindE (fdiv (fsum (map pt_confidence (sel_winning s))) (fint (int (length (sel_winning s))))) (\<lambda>depth_confidence.
     Inr (fmax (Fin 0) (fmin (Fin 1)
       (fmul (fmul (Fin (det_confidence (gq_detection q))) depth_confidence) dominance)))))"

definition grounded_ground_result ::
  "pylib \<Rightarrow> ground_request \<Rightarrow> capture_result \<Rightarrow> rat \<Rightarrow> selection \<Rightarrow> py_exc + ground_result" where
  "grounded_ground_result L q cap grounded_unix s =
     (let winning = sel_winning s in
      bindE (axis_medians winning) (\<lambda>position.
      bindE (mapE (residual position) winning) (\<lambda>residuals.
      bindE (case sel_uncertainty s of Some u \<Rightarrow> Inr u
             | None \<Rightarrow> bindE (if residuals = [] then Inr (Fin 0) else median_of residuals) (\<lambda>m.
                       Inr (fmax (Fin (lit (1/100))) m))) (\<lambda>uncertainty.
      bindE (selection_confidence q s) (\<lambda>confidence.
      bindE (ground_target_id L q position winning) (\<lambda>tid.
      bindE (bounded_surface_positions winning) (\<lambda>surface_points.
      validate_ground_result (PDict (ground_result_base q grounded_unix
        @ [(''status'', PStr ''grounded''), (''target_id'', PStr tid), (''confidence'', PFloat confidence),
           (''coordinate_frame_id'', PStr (cam_coordinate_frame_id (cap_camera cap))),
           (''position_m'', point3_val position), (''surface_points_m'', PList (map v3_val surface_points)),
           (''uncertainty_radius_m'', PFloat (fmin (Fin 100) uncertainty)), (''reason'', PNone)]
        @ opt_item ''surface_id'' PStr (uniform_surface_id winning)
        @ opt_item ''surface_role'' PStr (uniform_surface_role winning)))
        (ground_request_val q) PNone)))))))"

definition ground_selected ::
  "pylib \<Rightarrow> ground_request \<Rightarrow> capture_result \<Rightarrow> rat \<Rightarrow> selection option \<Rightarrow> py_exc + ground_result" where
  "ground_selected L q cap grounded_unix chosen =
     (case chosen of
        None \<Rightarrow> unresolved_ground_result q grounded_unix ''ambiguous''
      | Some s \<Rightarrow>
          let expected = det_expected_surface_role (gq_detection q) in
          if expected \<noteq> None \<and> uniform_surface_role (sel_winning s) \<noteq> expected
          then unresolved_ground_result q grounded_unix ''ambiguous''
          else if independent_support (sel_winning s) < MIN_INDEPENDENT_DEPTH_SAMPLES
          then unresolved_ground_result q grounded_unix ''insufficient_depth_support''
          else grounded_ground_result L q cap grounded_unix s)"

definition ground_bbox_to_depth ::
  "pylib \<Rightarrow> pyval \<Rightarrow> pyval \<Rightarrow> pyval \<Rightarrow> pyval \<Rightarrow> pyval \<Rightarrow> pyval \<Rightarrow> pyval \<Rightarrow> pyval \<Rightarrow> py_exc + ground_result" where
  "ground_bbox_to_depth L request capture grounded_unix inset_v gap_v ratio_v ambiguity_v confidence_v =
     bindE (validate_ground_request request) (\<lambda>q.
     bindE (validate_capture_result L capture PNone PNone) (\<lambda>cap.
     bindE (guardE (rs_environment_id cap = rq_environment_id q)
              (CoreError ''PORTABLE_CORE_LINEAGE_MISMATCH'' ''environment_id'')) (\<lambda>_.
     bindE (guardE (rs_session_id cap = rq_session_id q)
              (CoreError ''PORTABLE_CORE_LINEAGE_MISMATCH'' ''session_id'')) (\<lambda>_.
     bindE (guardE (cap_frame_id cap = gq_source_frame_id q)
              (CoreError ''PORTABLE_CORE_LINEAGE_MISMATCH'' ''source_frame_id'')) (\<lambda>_.
     bindE (ground_policy_of q cap grounded_unix inset_v gap_v ratio_v ambiguity_v confidence_v) (\<lambda>pol.
     bindE (ground_points L q cap pol) (\<lambda>points.
     if points = [] then unresolved_ground_result q (gp_timestamp pol) ''no_depth''
     else if independent_support points < MIN_INDEPENDENT_DEPTH_SAMPLES
     then unresolved_ground_result q (gp_timestamp pol) ''insufficient_depth_support''
     else bindE (select_surface L q cap pol points)
            (ground_selected L q cap (gp_timestamp pol)))))))))"

subsection \<open>Matching projected boxes\<close>

definition iou :: "vec4 \<Rightarrow> vec4 \<Rightarrow> py_exc + pyfloat" where
  "iou a b = (case f4 a of (a0, a1, a2, a3) \<Rightarrow> case f4 b of (b0, b1, b2, b3) \<Rightarrow>
     let inter = fmul (fmax (Fin 0) (fsub (fmin a2 b2) (fmax a0 b0))) (fmax (Fin 0) (fsub (fmin a3 b3) (fmax a1 b1)));
         union' = fsub (fadd (fmul (fsub a2 a0) (fsub a3 a1)) (fmul (fsub b2 b0) (fsub b3 b1))) inter
     in if flt (Fin 0) union' then fdiv inter union' else Inr (Fin 0))"

record box_candidate =
  bc_target_id :: string
  bc_position_m :: vec3
  bc_bbox_norm :: vec4
  bc_iou :: pyfloat
  bc_confidence :: rat
  bc_uncertainty_radius_m :: rat

text \<open>\<open>round(v, 3)\<close>: the float nearest to the decimal with three places, ties to even.\<close>

definition round3 :: "rat \<Rightarrow> pyfloat" where
  "round3 v = round64 (of_int (if v < 0 then - nearest_even (- v * 1000) else nearest_even (v * 1000)) / 1000)"

definition candidate_field :: "nat \<Rightarrow> string \<Rightarrow> string" where
  "candidate_field i s = indexed ''candidates'' i @ s"

definition box_candidate_of :: "pylib \<Rightarrow> vec4 \<Rightarrow> nat \<Rightarrow> pyval \<Rightarrow> py_exc + box_candidate" where
  "box_candidate_of L bbox i raw =
     (case raw of PDict d \<Rightarrow>
        let unknown = filter (\<lambda>k. k \<notin> set [''bbox_norm'', ''bbox'', ''position_m'', ''target_id'', ''confidence'',
                                           ''uncertainty_radius_m'']) (map fst d) in
        if unknown \<noteq> [] then n_error ''PORTABLE_CORE_CANDIDATE_FIELDS_UNKNOWN'' (join '','' (sort unknown)) else
        bindE (n_vector4 (dget_or d ''bbox_norm'' ''bbox'') (candidate_field i ''.bbox'')) (\<lambda>cb.
        bindE (n_vector3 (dget d ''position_m'') (candidate_field i ''.position_m'')) (\<lambda>(x, y, z).
        bindE (iou bbox cb) (\<lambda>score.
        bindE (if dget d ''target_id'' = PNone
               then bindE (opaque_id L ''target'' (PDict [(''bbox'', v4_val cb),
                      (''position_mm'', PList (map (\<lambda>v. PFloat (round3 v)) [x, y, z]))])) (\<lambda>s. Inr (PStr s))
               else Inr (dget d ''target_id'')) (\<lambda>tid.
        case tid of PStr t \<Rightarrow>
          if \<not> starts_with t ''target:''
          then n_error ''PORTABLE_CORE_TARGET_ID_INVALID'' (candidate_field i ''.target_id'') else
          bindE (n_number (Some 0) (dget_default d ''confidence'' (num_val 1)) (candidate_field i ''.confidence'')) (\<lambda>conf.
          bindE (n_number (Some 0) (dget_default d ''uncertainty_radius_m'' (num_val 0))
                   (candidate_field i ''.uncertainty_radius_m'')) (\<lambda>unc.
          Inr \<lparr>bc_target_id = t, bc_position_m = (x, y, z), bc_bbox_norm = cb, bc_iou = score,
               bc_confidence = conf, bc_uncertainty_radius_m = unc\<rparr>))
        | _ \<Rightarrow> n_error ''PORTABLE_CORE_TARGET_ID_INVALID'' (candidate_field i ''.target_id'')))))
      | _ \<Rightarrow> n_error ''PORTABLE_CORE_CANDIDATE_INVALID'' (indexed ''candidates'' i))"

definition box_candidate_lt :: "nat \<times> box_candidate \<Rightarrow> nat \<times> box_candidate \<Rightarrow> bool" where
  "box_candidate_lt a b = lt_float_nat (fneg (bc_iou (snd a)), fst a) (fneg (bc_iou (snd b)), fst b)"

definition ground_bbox_by_iou :: "pylib \<Rightarrow> pyval \<Rightarrow> pyval list \<Rightarrow> pyval \<Rightarrow> pyval \<Rightarrow> py_exc + box_candidate option" where
  "ground_bbox_by_iou L bbox_norm candidates min_iou ambiguity_gap =
     bindE (n_vector4 bbox_norm ''bbox_norm'') (\<lambda>bbox.
     bindE (n_number (Some 0) min_iou ''min_iou'') (\<lambda>threshold.
     bindE (n_number (Some 0) ambiguity_gap ''ambiguity_gap'') (\<lambda>gap.
     bindE (mapiE (box_candidate_of L bbox) 0 candidates) (\<lambda>cs.
     case py_sort box_candidate_lt (zip [0..<length cs] cs) of
       [] \<Rightarrow> Inr None
     | (_, best) # rest \<Rightarrow>
         if flt (bc_iou best) (Fin threshold) then Inr None
         else if (case rest of (_, runner) # _ \<Rightarrow> flt (fsub (bc_iou best) (bc_iou runner)) (Fin gap) | [] \<Rightarrow> False)
         then n_error ''PORTABLE_CORE_GROUND_AMBIGUOUS'' ''bbox candidates''
         else Inr (Some best)))))"

end
