(* ===== verification/NavSegment.thy ===== *)
theory NavSegment
  imports NavGrid
begin

text \<open>
  Segments and paths of \<open>lumina_next/portable_navigation_core_v1.py\<close>: the integer
  supercover line, the traversal of the cells a continuous segment touches, the collision
  report of a path, string pulling, and \<open>validate_or_simplify_path\<close>.
\<close>

subsection \<open>The integer supercover line\<close>

definition sign_of :: "int \<Rightarrow> int" where
  "sign_of d = (if 0 < d then 1 else if d < 0 then -1 else 0)"

text \<open>
  The loop with its counters \<open>ix\<close>, \<open>iy\<close> and the position; it returns the cells it appends.
  An axis that is used up is never advanced again, so the steps left on both axes are the
  measure.
\<close>

lemma supercover_side:
  fixes ix iy nx ny :: nat
  shows "ix < nx \<Longrightarrow> ny \<le> iy \<Longrightarrow> (1 + 2 * ix) * ny < (1 + 2 * iy) * nx"
proof -
  assume x: "ix < nx" and y: "ny \<le> iy"
  have "(1 + 2 * ix) * ny \<le> (1 + 2 * ix) * iy" using y by (rule mult_le_mono2)
  also have "\<dots> \<le> (2 * nx) * iy" using x by (intro mult_le_mono1) simp
  also have "\<dots> < (1 + 2 * iy) * nx" using x by (simp add: algebra_simps)
  finally show ?thesis .
qed

function supercover_loop :: "nat \<Rightarrow> nat \<Rightarrow> int \<Rightarrow> int \<Rightarrow> nat \<Rightarrow> nat \<Rightarrow> cell \<Rightarrow> cell list" where
  "supercover_loop nx ny sx sy ix iy c =
     (if \<not> (ix < nx \<or> iy < ny) then [] else
      let left = (1 + 2 * ix) * ny; right = (1 + 2 * iy) * nx in
      if left = right then
        let c' = (fst c + sx, snd c + sy) in
        (if sx \<noteq> 0 \<and> sy \<noteq> 0 then [(fst c + sx, snd c), (fst c, snd c + sy)] else [])
          @ c' # supercover_loop nx ny sx sy (Suc ix) (Suc iy) c'
      else if left < right then
        let c' = (fst c + sx, snd c) in c' # supercover_loop nx ny sx sy (Suc ix) iy c'
      else
        let c' = (fst c, snd c + sy) in c' # supercover_loop nx ny sx sy ix (Suc iy) c')"
  by pat_completeness auto

termination
proof (relation "measure (\<lambda>(nx, ny, sx, sy, ix, iy, c). (nx - ix) + (ny - iy))", goal_cases)
  case 1
  then show ?case by simp
next
  case (2 nx ny sx sy ix iy c left right c')
  then show ?case using supercover_side [of ix nx ny iy] supercover_side [of iy ny nx ix]
    by (cases "ix < nx"; cases "iy < ny") auto
next
  case (3 nx ny sx sy ix iy c left right c')
  then show ?case using supercover_side [of iy ny nx ix] by (cases "ix < nx") auto
next
  case (4 nx ny sx sy ix iy c left right c')
  then show ?case using supercover_side [of ix nx ny iy] by (cases "iy < ny") auto
qed

declare supercover_loop.simps [simp del]

definition segment_cells :: "cell \<Rightarrow> cell \<Rightarrow> cell list" where
  "segment_cells start stop =
     (let dx = fst stop - fst start; dy = snd stop - snd start in
      fromkeys (start # supercover_loop (nat \<bar>dx\<bar>) (nat \<bar>dy\<bar>) (sign_of dx) (sign_of dy) 0 0 start))"

subsection \<open>The cells of a continuous segment\<close>

text \<open>
  The set-up of one axis: the direction, the parameter of the first boundary and the
  parameter step between boundaries (infinite where the segment does not move).
\<close>

definition step_of :: "pyfloat \<Rightarrow> int" where
  "step_of d = (if flt (Fin 0) d then 1 else if flt d (Fin 0) then -1 else 0)"

definition axis_setup :: "pyfloat \<Rightarrow> int \<Rightarrow> pyfloat \<Rightarrow> py_exc + pyfloat \<times> pyfloat" where
  "axis_setup x c delta =
     (if step_of delta = 0 then Inr (PInf, PInf)
      else let boundary = (if 0 < step_of delta then fadd (fint c) (Fin 1) else fint c) in
           bindE (fdiv (fsub boundary x) delta) (\<lambda>first.
           bindE (fdiv (Fin 1) (fabs delta)) (\<lambda>t. Inr (first, t))))"

text \<open>
  The loop. Every iteration moves away from the first cell or repeats the same state for
  ever, so \<open>\<bar>dx\<bar> + \<bar>dy\<bar>\<close> iterations decide whether it ends; \<open>PyNoReturn\<close> stands for a
  loop that never does.
\<close>

definition segment_tie :: "pyfloat \<Rightarrow> pyfloat \<Rightarrow> bool" where
  "segment_tie mx my = fle (fabs (fsub mx my)) (Fin (lit (1/1000000000000)))"

fun segment_loop ::
  "nat \<Rightarrow> bool \<Rightarrow> cell \<Rightarrow> int \<Rightarrow> int \<Rightarrow> pyfloat \<Rightarrow> pyfloat \<Rightarrow> cell \<Rightarrow> pyfloat \<Rightarrow> pyfloat \<Rightarrow> py_exc + cell list" where
  "segment_loop fuel corner stop sx sy tx ty c mx my =
     (if c = stop then Inr [] else
      case fuel of 0 \<Rightarrow> Inl PyNoReturn
      | Suc n \<Rightarrow>
          if segment_tie mx my then
            let c' = (fst c + sx, snd c + sy) in
            bindE (segment_loop n corner stop sx sy tx ty c' (fadd mx tx) (fadd my ty)) (\<lambda>cs.
            Inr ((if corner \<and> sx \<noteq> 0 \<and> sy \<noteq> 0 then [(fst c + sx, snd c), (fst c, snd c + sy)] else []) @ c' # cs))
          else if flt mx my then
            let c' = (fst c + sx, snd c) in
            bindE (segment_loop n corner stop sx sy tx ty c' (fadd mx tx) my) (\<lambda>cs. Inr (c' # cs))
          else
            let c' = (fst c, snd c + sy) in
            bindE (segment_loop n corner stop sx sy tx ty c' mx (fadd my ty)) (\<lambda>cs. Inr (c' # cs)))"

declare segment_loop.simps [simp del]

definition segment_bound :: "cell \<Rightarrow> cell \<Rightarrow> nat" where
  "segment_bound a b = nat (\<bar>fst b - fst a\<bar> + \<bar>snd b - snd a\<bar>)"

definition segment_run :: "nat \<Rightarrow> fvec2 \<Rightarrow> fvec2 \<Rightarrow> bool \<Rightarrow> cell \<Rightarrow> cell \<Rightarrow> py_exc + cell list" where
  "segment_run fuel p q corner start stop =
     (let dx = fsub (fst q) (fst p); dy = fsub (snd q) (snd p) in
      bindE (axis_setup (fst p) (fst start) dx) (\<lambda>(mx, tx).
      bindE (axis_setup (snd p) (snd start) dy) (\<lambda>(my, ty).
      bindE (segment_loop fuel corner stop (step_of dx) (step_of dy) tx ty start mx my) (\<lambda>cs.
      Inr (fromkeys (start # cs))))))"

definition continuous_segment_cells :: "fvec2 \<Rightarrow> fvec2 \<Rightarrow> bool \<Rightarrow> py_exc + cell list" where
  "continuous_segment_cells p q corner =
     bindE (floor_cell p) (\<lambda>start. bindE (floor_cell q) (\<lambda>stop.
     segment_run (segment_bound start stop) p q corner start stop))"

subsection \<open>The collision report\<close>

record collision_report =
  cr_valid :: bool
  cr_reason :: "string option"
  cr_segment_index :: "nat option"
  cr_cell :: "cell option"

definition clear_report :: collision_report where
  "clear_report = \<lparr>cr_valid = True, cr_reason = None, cr_segment_index = None, cr_cell = None\<rparr>"

definition hit_report :: "string \<Rightarrow> nat \<Rightarrow> cell \<Rightarrow> collision_report" where
  "hit_report reason i c = \<lparr>cr_valid = False, cr_reason = Some reason, cr_segment_index = Some i, cr_cell = Some c\<rparr>"

definition first_where :: "('a \<Rightarrow> bool) \<Rightarrow> 'a list \<Rightarrow> 'a option" where
  "first_where P xs = (case filter P xs of [] \<Rightarrow> None | x # _ \<Rightarrow> Some x)"

definition segment_report :: "grid_view \<Rightarrow> nat \<Rightarrow> vec3 \<Rightarrow> vec3 \<Rightarrow> py_exc + collision_report option" where
  "segment_report g i p q =
     bindE (world_to_grid_coordinates g (f3 p)) (\<lambda>a.
     bindE (world_to_grid_coordinates g (f3 q)) (\<lambda>b.
     bindE (floor_cell a) (\<lambda>start.
     bindE (floor_cell b) (\<lambda>stop.
     if \<not> gv_in g start then Inr (Some (hit_report ''out_of_bounds'' i start))
     else if \<not> gv_in g stop then Inr (Some (hit_report ''out_of_bounds'' i stop))
     else bindE (continuous_segment_cells a b True) (\<lambda>cells.
          Inr (case first_where (gv_blocked g) cells of
                 None \<Rightarrow> None
               | Some c \<Rightarrow> Some (hit_report (if gv_in g c then ''blocked'' else ''out_of_bounds'') i c)))))))"

fun segments_report :: "grid_view \<Rightarrow> nat \<Rightarrow> vec3 list \<Rightarrow> py_exc + collision_report" where
  "segments_report g i (p # q # ps) =
     bindE (segment_report g i p q) (\<lambda>r.
     case r of Some rep \<Rightarrow> Inr rep | None \<Rightarrow> segments_report g (Suc i) (q # ps))"
| "segments_report g i ps = Inr clear_report"

definition points_report :: "grid_view \<Rightarrow> vec3 list \<Rightarrow> py_exc + collision_report" where
  "points_report g points =
     (case points of
        [p] \<Rightarrow> bindE (world_to_cell g (f3 p)) (\<lambda>c.
               let valid = \<not> gv_blocked g c in
               Inr \<lparr>cr_valid = valid, cr_reason = (if valid then None else Some ''blocked''),
                    cr_segment_index = Some 0, cr_cell = Some c\<rparr>)
      | _ \<Rightarrow> segments_report g 0 points)"

definition n_points :: "pyval list \<Rightarrow> string \<Rightarrow> py_exc + vec3 list" where
  "n_points vs field = mapiE (\<lambda>i p. n_vector3 p (indexed field i)) 0 vs"

definition path_collision_report ::
  "pylib \<Rightarrow> (string \<times> pyval) list \<Rightarrow> pyval \<Rightarrow> pyval \<Rightarrow> py_exc + collision_report" where
  "path_collision_report L grid_or_map points_m additional =
     (case seq_elems points_m of
        Some (v # vs) \<Rightarrow>
          bindE (n_points (v # vs) ''points_m'') (\<lambda>points.
          bindE (grid_with_inflation L grid_or_map additional) (\<lambda>g. points_report g points))
      | _ \<Rightarrow> n_error ''PORTABLE_CORE_PATH_INVALID'' ''points_m'')"

definition validate_path_collision ::
  "pylib \<Rightarrow> (string \<times> pyval) list \<Rightarrow> pyval \<Rightarrow> pyval \<Rightarrow> py_exc + bool" where
  "validate_path_collision L grid_or_map points_m additional =
     bindE (path_collision_report L grid_or_map points_m additional) (\<lambda>r. Inr (cr_valid r))"

subsection \<open>String pulling\<close>

definition points_val :: "vec3 list \<Rightarrow> pyval" where
  "points_val points = PList (map v3_val points)"

definition pair_clear :: "pylib \<Rightarrow> (string \<times> pyval) list \<Rightarrow> pyval \<Rightarrow> vec3 \<Rightarrow> vec3 \<Rightarrow> py_exc + bool" where
  "pair_clear L grid_or_map additional p q = validate_path_collision L grid_or_map (points_val [p, q]) additional"

text \<open>The inner loop: the last point before \<open>candidate\<close> that the anchor sees.\<close>

fun furthest_visible ::
  "pylib \<Rightarrow> (string \<times> pyval) list \<Rightarrow> pyval \<Rightarrow> vec3 list \<Rightarrow> nat \<Rightarrow> nat \<Rightarrow> py_exc + nat" where
  "furthest_visible L grid additional points anchor candidate =
     (if \<not> anchor + 1 < candidate then Inr candidate
      else bindE (pair_clear L grid additional (points ! anchor) (points ! candidate)) (\<lambda>ok.
           if ok then Inr candidate else furthest_visible L grid additional points anchor (candidate - 1)))"

declare furthest_visible.simps [simp del]

lemma furthest_visible_bounds:
  "furthest_visible L grid additional points anchor candidate = Inr k \<Longrightarrow> anchor < candidate \<Longrightarrow>
     anchor < k \<and> k \<le> candidate"
proof (induction L grid additional points anchor candidate rule: furthest_visible.induct)
  case (1 L grid additional points anchor candidate)
  show ?case
  proof (cases "anchor + 1 < candidate")
    case False
    then show ?thesis using "1.prems" by (simp add: furthest_visible.simps)
  next
    case True
    then obtain ok where ok: "pair_clear L grid additional (points ! anchor) (points ! candidate) = Inr ok"
      and r: "(if ok then Inr candidate else furthest_visible L grid additional points anchor (candidate - 1)) = Inr k"
      using "1.prems" by (subst (asm) furthest_visible.simps) (auto simp: bindE_Inr_iff)
    show ?thesis
    proof (cases ok)
      case False
      then have "anchor < k \<and> k \<le> candidate - 1"
        using "1.IH" [of ok] True ok r by auto
      then show ?thesis using diff_le_self [of candidate 1] by linarith
    qed (use r True in simp)
  qed
qed

function pull_from :: "pylib \<Rightarrow> (string \<times> pyval) list \<Rightarrow> pyval \<Rightarrow> vec3 list \<Rightarrow> nat \<Rightarrow> py_exc + nat list" where
  "pull_from L grid additional points anchor =
     (if anchor < length points - 1
      then bindE (furthest_visible L grid additional points anchor (length points - 1)) (\<lambda>candidate.
           bindE (pull_from L grid additional points candidate) (\<lambda>rest. Inr (candidate # rest)))
      else Inr [])"
  by pat_completeness auto

termination
  by (relation "measure (\<lambda>(L, grid, additional, points, anchor). length points - anchor)")
    (auto dest: furthest_visible_bounds)

declare pull_from.simps [simp del]

definition simplify_path :: "pylib \<Rightarrow> (string \<times> pyval) list \<Rightarrow> pyval list \<Rightarrow> pyval \<Rightarrow> py_exc + vec3 list" where
  "simplify_path L grid_or_map points_m additional =
     bindE (n_points points_m ''points_m'') (\<lambda>points.
     bindE (guardE (points \<noteq> []) (CoreError ''PORTABLE_CORE_PATH_INVALID'' ''points_m'')) (\<lambda>_.
     bindE (validate_path_collision L grid_or_map (points_val points) additional) (\<lambda>ok.
     bindE (guardE ok (CoreError ''PORTABLE_CORE_PATH_COLLISION'' ''input path'')) (\<lambda>_.
     if length points \<le> 2 then Inr points else
     bindE (pull_from L grid_or_map additional points 0) (\<lambda>kept.
     let simplified = map ((!) points) (0 # kept) in
     bindE (validate_path_collision L grid_or_map (points_val simplified) additional) (\<lambda>ok'.
     bindE (guardE ok' (CoreError ''PORTABLE_CORE_PATH_COLLISION'' ''simplified path'')) (\<lambda>_.
     Inr simplified)))))))"

record simplified_path =
  sp_path_m :: "vec3 list"
  sp_waypoints_m :: "vec3 list"

definition validate_or_simplify_path ::
  "pylib \<Rightarrow> (string \<times> pyval) list \<Rightarrow> pyval \<Rightarrow> pyval list \<Rightarrow> pyval \<Rightarrow> pyval \<Rightarrow> pyval \<Rightarrow> py_exc + simplified_path" where
  "validate_or_simplify_path L grid_or_map start_v waypoints_v target_v arrival_v additional =
     bindE (n_vector3 start_v ''start_m'') (\<lambda>start.
     bindE (n_vector3 target_v ''target_m'') (\<lambda>target.
     bindE (n_points waypoints_v ''waypoints_m'') (\<lambda>waypoints.
     bindE (guardE (waypoints \<noteq> []) (CoreError ''PORTABLE_CORE_PATH_INVALID'' ''waypoints_m'')) (\<lambda>_.
     bindE (n_number (Some 0) arrival_v ''arrival_radius_m'') (\<lambda>arrival.
     bindE (fdist (v3_xy (f3 (last waypoints))) (v3_xy (f3 target))) (\<lambda>d.
     bindE (guardE (\<not> flt (fadd (Fin arrival) EPSILON) d)
              (CoreError ''PORTABLE_CORE_TARGET_NOT_REACHED'' ''waypoints_m[-1]'')) (\<lambda>_.
     bindE (simplify_path L grid_or_map (map v3_val (start # waypoints)) additional) (\<lambda>simplified.
     Inr \<lparr>sp_path_m = simplified, sp_waypoints_m = tl simplified\<rparr>))))))))"

end
