(* ===== verification/NavPlan.thy ===== *)
theory NavPlan
  imports NavSegment
begin

text \<open>
  The planner of \<open>lumina_next/portable_navigation_core_v1.py\<close>: the neighbours of a cell,
  the arrival cells of a target, and the A* search of \<open>plan_path\<close> with its priority
  queue, its cost and predecessor dictionaries and its expansion limit. The heap is the
  list of its entries in the order in which \<open>heapq\<close> pops them; an entry's serial number is
  unique, so that order is fixed.
\<close>

subsection \<open>Neighbours and arrival cells\<close>

definition diagonal_cost :: pyfloat where
  "diagonal_cost = (case fsqrt (Fin 2) of Inr r \<Rightarrow> r | Inl _ \<Rightarrow> NaN)"

definition neighbour_steps :: "(int \<times> int) list" where
  "neighbour_steps = [(1, 0), (0, 1), (-1, 0), (0, -1), (1, 1), (-1, 1), (-1, -1), (1, -1)]"

definition neighbours :: "grid_view \<Rightarrow> cell \<Rightarrow> (cell \<times> pyfloat) list" where
  "neighbours g c = concat (map (\<lambda>(dx, dy).
     let n = (fst c + dx, snd c + dy) in
     if gv_blocked g n then []
     else if dx \<noteq> 0 \<and> dy \<noteq> 0 then
       if gv_blocked g (fst c + dx, snd c) \<or> gv_blocked g (fst c, snd c + dy) then [] else [(n, diagonal_cost)]
     else [(n, Fin 1)]) neighbour_steps)"

definition arrival_window :: "grid_view \<Rightarrow> vec3 \<Rightarrow> pyfloat \<Rightarrow> py_exc + cell list" where
  "arrival_window g target arrival =
     (case inverse_rotate_xyzw (gv_orientation g) (fsub3 (f3 target) (f3 (gv_origin g))) of (lx, ly, lz) \<Rightarrow>
      bindE (fdiv lx (Fin (gv_resolution g))) (\<lambda>ax. bindE (fdiv ly (Fin (gv_resolution g))) (\<lambda>ay.
      let cx = fsub ax (Fin (1/2)); cy = fsub ay (Fin (1/2)) in
      bindE (bindE (fdiv arrival (Fin (gv_resolution g))) fceil) (\<lambda>r.
      let extent = r + 1 in
      bindE (ffloor cy) (\<lambda>fy. bindE (ffloor cx) (\<lambda>fx.
      Inr [(x, y). y \<leftarrow> [max 0 (fy - extent)..min (gv_height g - 1) (fy + extent)],
                   x \<leftarrow> [max 0 (fx - extent)..min (gv_width g - 1) (fx + extent)]]))))))"

definition xy_dist :: "fvec3 \<Rightarrow> vec3 \<Rightarrow> py_exc + pyfloat" where
  "xy_dist world reference = fdist (v3_xy world) (v3_xy (f3 reference))"

fun arrival_filter :: "grid_view \<Rightarrow> vec3 \<Rightarrow> pyfloat \<Rightarrow> cell list \<Rightarrow> py_exc + cell list" where
  "arrival_filter g target arrival [] = Inr []"
| "arrival_filter g target arrival (c # cs) =
     (if gv_blocked g c then arrival_filter g target arrival cs
      else bindE (xy_dist (cell_to_world g c) target) (\<lambda>d.
           bindE (arrival_filter g target arrival cs) (\<lambda>goals.
           Inr (if fle d (fadd arrival EPSILON) then c # goals else goals))))"

definition arrival_cells :: "grid_view \<Rightarrow> vec3 \<Rightarrow> pyfloat \<Rightarrow> py_exc + cell list" where
  "arrival_cells g target arrival = bindE (arrival_window g target arrival) (arrival_filter g target arrival)"

subsection \<open>The search\<close>

definition heuristic :: "grid_view \<Rightarrow> vec3 list \<Rightarrow> pyfloat \<Rightarrow> cell \<Rightarrow> py_exc + pyfloat" where
  "heuristic g references effective c =
     bindE (mapE (xy_dist (cell_to_world g c)) references) (\<lambda>ds.
     bindE (fmin_list ds) (\<lambda>remaining.
     fdiv (fmax (Fin 0) (fsub remaining effective)) (Fin (gv_resolution g))))"

record entry =
  en_total :: pyfloat
  en_estimate :: pyfloat
  en_cost :: pyfloat
  en_serial :: nat
  en_cell :: cell

text \<open>The order of the tuples \<open>(total, estimate, cost, y, x, serial, cell)\<close>.\<close>

definition entry_lt :: "entry \<Rightarrow> entry \<Rightarrow> bool" where
  "entry_lt a b =
     (if \<not> feq (en_total a) (en_total b) then flt (en_total a) (en_total b)
      else if \<not> feq (en_estimate a) (en_estimate b) then flt (en_estimate a) (en_estimate b)
      else if \<not> feq (en_cost a) (en_cost b) then flt (en_cost a) (en_cost b)
      else if snd (en_cell a) \<noteq> snd (en_cell b) then snd (en_cell a) < snd (en_cell b)
      else if fst (en_cell a) \<noteq> fst (en_cell b) then fst (en_cell a) < fst (en_cell b)
      else en_serial a < en_serial b)"

definition heap_push :: "entry \<Rightarrow> entry list \<Rightarrow> entry list" where
  "heap_push e q = py_insert entry_lt e q"

definition heap_top :: "entry list \<Rightarrow> entry" where
  "heap_top q = hd q"

definition heap_rest :: "entry list \<Rightarrow> entry list" where
  "heap_rest q = tl q"

record search =
  se_frontier :: "entry list"
  se_serial :: nat
  se_came_from :: "cell \<rightharpoonup> cell"
  se_best_cost :: "cell \<rightharpoonup> pyfloat"
  se_expansions :: int

text \<open>\<open>best_cost.get(cell, math.inf)\<close>.\<close>

definition best_of :: "search \<Rightarrow> cell \<Rightarrow> pyfloat" where
  "best_of st c = (case se_best_cost st c of Some x \<Rightarrow> x | None \<Rightarrow> PInf)"

definition search_start :: "cell \<Rightarrow> pyfloat \<Rightarrow> search" where
  "search_start start h =
     \<lparr>se_frontier = heap_push \<lparr>en_total = h, en_estimate = h, en_cost = Fin 0, en_serial = 0, en_cell = start\<rparr> [],
      se_serial = 0, se_came_from = Map.empty, se_best_cost = [start \<mapsto> Fin 0], se_expansions = 0\<rparr>"

text \<open>The body of the loop over the neighbours of an expanded cell.\<close>

definition relax ::
  "(cell \<Rightarrow> py_exc + pyfloat) \<Rightarrow> cell \<Rightarrow> pyfloat \<Rightarrow> search \<Rightarrow> cell \<times> pyfloat \<Rightarrow> py_exc + search" where
  "relax h c cost st edge =
     (let n = fst edge; candidate = fadd cost (snd edge) in
      if fle (best_of st n) (fadd candidate EPSILON) then Inr st
      else bindE (h n) (\<lambda>estimate.
           let serial = se_serial st + 1;
               e = \<lparr>en_total = fadd candidate estimate, en_estimate = estimate, en_cost = candidate,
                    en_serial = serial, en_cell = n\<rparr> in
           Inr (st\<lparr>se_came_from := (se_came_from st)(n \<mapsto> c), se_best_cost := (se_best_cost st)(n \<mapsto> candidate),
                   se_serial := serial, se_frontier := heap_push e (se_frontier st)\<rparr>)))"

definition stale :: "search \<Rightarrow> entry \<Rightarrow> bool" where
  "stale st e = flt (fadd (best_of st (en_cell e)) EPSILON) (en_cost e)"

definition pop_state :: "search \<Rightarrow> search" where
  "pop_state st = st\<lparr>se_frontier := heap_rest (se_frontier st)\<rparr>"

definition expand_state :: "search \<Rightarrow> search" where
  "expand_state st = (pop_state st)\<lparr>se_expansions := se_expansions st + 1\<rparr>"

lemma relax_expansions: "relax h c cost st edge = Inr st' \<Longrightarrow> se_expansions st' = se_expansions st"
  by (auto simp: relax_def Let_def bindE_Inr_iff split: if_splits)

lemma relax_all_expansions: "foldE (relax h c cost) st es = Inr st' \<Longrightarrow> se_expansions st' = se_expansions st"
  by (induction es arbitrary: st) (auto simp: bindE_Inr_iff dest: relax_expansions)

text \<open>The main loop: the state in which it ends and the goal it reached, if any.\<close>

function astar ::
  "(cell \<Rightarrow> (cell \<times> pyfloat) list) \<Rightarrow> (cell \<Rightarrow> py_exc + pyfloat) \<Rightarrow> cell set \<Rightarrow> int \<Rightarrow> search
     \<Rightarrow> py_exc + cell option \<times> search" where
  "astar nbrs h goals limit st =
     (if se_frontier st = [] \<or> limit \<le> se_expansions st then Inr (None, st) else
      let e = heap_top (se_frontier st); c = en_cell e in
      if stale st e then astar nbrs h goals limit (pop_state st)
      else if c \<in> goals then Inr (Some c, expand_state st)
      else bindE (foldE (relax h c (en_cost e)) (expand_state st) (nbrs c)) (astar nbrs h goals limit))"
  by pat_completeness auto

termination
  by (relation "inv_image (less_than <*lex*> less_than)
        (\<lambda>(nbrs, h, goals, limit, st). (nat (limit - se_expansions st), length (se_frontier st)))")
    (auto simp: pop_state_def expand_state_def heap_rest_def dest: relax_all_expansions)

declare astar.simps [simp del]

text \<open>
  Following the predecessors back to the start. Every cell of the chain was pushed at
  least once, so the number of pushes bounds its length.
\<close>

fun trace_back :: "nat \<Rightarrow> search \<Rightarrow> cell \<Rightarrow> cell \<Rightarrow> py_exc + cell list" where
  "trace_back fuel st start c =
     (if c = start then Inr [c] else
      case fuel of 0 \<Rightarrow> Inl PyNoReturn
      | Suc n \<Rightarrow> (case se_came_from st c of
            None \<Rightarrow> Inl PyKeyError
          | Some p \<Rightarrow> bindE (trace_back n st start p) (\<lambda>cs. Inr (cs @ [c]))))"

declare trace_back.simps [simp del]

subsection \<open>Planning\<close>

record plan_target =
  tg_position :: vec3
  tg_target_id :: pyval
  tg_uncertainty :: rat
  tg_references :: "vec3 list"

text \<open>\<open>v not in {None, s}\<close>; a list or dict raises \<open>TypeError\<close>.\<close>

definition not_none_or :: "pyval \<Rightarrow> string \<Rightarrow> py_exc + bool" where
  "not_none_or v s = (if hashable v then Inr (v \<noteq> PNone \<and> v \<noteq> PStr s) else Inl PyTypeError)"

definition target_references :: "(string \<times> pyval) list \<Rightarrow> vec3 \<Rightarrow> py_exc + vec3 list" where
  "target_references d position =
     (if dget d ''surface_points_m'' = PNone then Inr [position] else
      case seq_elems (dget d ''surface_points_m'') of
        Some vs \<Rightarrow>
          if 1 \<le> length vs \<and> length vs \<le> MAX_GROUND_SURFACE_POINTS
          then n_points vs ''target.surface_points_m''
          else n_error ''PORTABLE_CORE_TARGET_SURFACE_INVALID'' ''target.surface_points_m''
      | None \<Rightarrow> n_error ''PORTABLE_CORE_TARGET_SURFACE_INVALID'' ''target.surface_points_m'')"

definition target_mapping :: "map_result \<Rightarrow> (string \<times> pyval) list \<Rightarrow> py_exc + plan_target" where
  "target_mapping m d =
     bindE (not_none_or (dget d ''status'') ''grounded'') (\<lambda>bad_status.
     bindE (guardE (\<not> (bad_status \<or> dget d ''position_m'' = PNone))
              (CoreError ''PORTABLE_CORE_TARGET_UNRESOLVED'' ''target'')) (\<lambda>_.
     bindE (not_none_or (dget d ''map_id'') (mr_map_id m)) (\<lambda>bad_map.
     bindE (guardE (\<not> bad_map) (CoreError ''PORTABLE_CORE_LINEAGE_MISMATCH'' ''map_id'')) (\<lambda>_.
     bindE (not_none_or (dget d ''coordinate_frame_id'') (mr_coordinate_frame_id m)) (\<lambda>bad_frame.
     bindE (guardE (\<not> bad_frame) (CoreError ''PORTABLE_CORE_LINEAGE_MISMATCH'' ''coordinate_frame_id'')) (\<lambda>_.
     bindE (n_vector3 (dget d ''position_m'') ''target.position_m'') (\<lambda>position.
     bindE (n_number (Some 0) (dget_default d ''uncertainty_radius_m'' (num_val 0)) ''target.uncertainty_radius_m'') (\<lambda>unc.
     bindE (target_references d position) (\<lambda>refs.
     Inr \<lparr>tg_position = position, tg_target_id = dget d ''target_id'', tg_uncertainty = unc,
          tg_references = refs\<rparr>)))))))))"

definition plan_target_of :: "map_result \<Rightarrow> pyval \<Rightarrow> py_exc + plan_target" where
  "plan_target_of m target =
     (case target of
        PDict d \<Rightarrow> target_mapping m d
      | _ \<Rightarrow> bindE (n_vector3 target ''target'') (\<lambda>position.
             Inr \<lparr>tg_position = position, tg_target_id = PNone, tg_uncertainty = 0, tg_references = [position]\<rparr>))"

definition show_cell :: "cell \<Rightarrow> string" where
  "show_cell c = ''('' @ show_int (fst c) @ '', '' @ show_int (snd c) @ '')''"

record plan_result =
  pl_map_id :: string
  pl_target_id :: pyval
  pl_start_cell :: cell
  pl_arrival_cell :: cell
  pl_path_cells :: "cell list"
  pl_path_m :: "fvec3 list"
  pl_waypoints_m :: "fvec3 list"
  pl_cost_cells :: pyfloat
  pl_expanded_cells :: int
  pl_minimum_clearance_m :: rat
  pl_effective_arrival_radius_m :: pyfloat
  pl_arrival_reference_position_m :: vec3
  pl_target_surface_point_count :: nat

definition require_clear ::
  "pylib \<Rightarrow> (string \<times> pyval) list \<Rightarrow> fvec3 list \<Rightarrow> pyval \<Rightarrow> string \<Rightarrow> py_exc + unit" where
  "require_clear L grid points additional what =
     bindE (validate_path_collision L grid (PList (map point3_val points)) additional) (\<lambda>ok.
     guardE ok (CoreError ''PORTABLE_CORE_PATH_COLLISION'' what))"

definition path_points :: "grid_view \<Rightarrow> vec3 \<Rightarrow> cell list \<Rightarrow> fvec3 list" where
  "path_points g start_position cells =
     (let full = f3 start_position # map (cell_to_world g) (tl cells)
      in if length full = 1 then full @ [f3 start_position] else full)"

definition reference_lt :: "pyfloat \<times> vec3 \<Rightarrow> pyfloat \<times> vec3 \<Rightarrow> bool" where
  "reference_lt a b = (case snd a of (x, y, z) \<Rightarrow> case snd b of (x', y', z') \<Rightarrow>
     if \<not> feq (fst a) (fst b) then flt (fst a) (fst b)
     else if x \<noteq> x' then x < x' else if y \<noteq> y' then y < y' else z < z')"

definition closest_reference :: "fvec3 \<Rightarrow> vec3 list \<Rightarrow> py_exc + vec3" where
  "closest_reference world references =
     bindE (mapE (\<lambda>r. bindE (xy_dist world r) (\<lambda>d. Inr (d, r))) references) (\<lambda>keyed.
     case keyed of [] \<Rightarrow> Inl PyValueError | k # ks \<Rightarrow> Inr (snd (py_min reference_lt k ks)))"

definition search_cells ::
  "grid_view \<Rightarrow> cell \<Rightarrow> cell list \<Rightarrow> int \<Rightarrow> (cell \<Rightarrow> py_exc + pyfloat) \<Rightarrow> py_exc + cell \<times> search \<times> cell list" where
  "search_cells g start goals limit h =
     bindE (h start) (\<lambda>h0.
     bindE (astar (neighbours g) h (set goals) limit (search_start start h0)) (\<lambda>(reached, st).
     case reached of
       None \<Rightarrow> n_error ''PORTABLE_CORE_NO_PATH''
                 (if se_frontier st \<noteq> [] then ''expansion_limit'' else ''disconnected'')
     | Some c \<Rightarrow> bindE (trace_back (se_serial st) st start c) (\<lambda>cells. Inr (c, st, cells))))"

definition plan_goals :: "grid_view \<Rightarrow> vec3 list \<Rightarrow> pyfloat \<Rightarrow> py_exc + cell list" where
  "plan_goals g references effective =
     bindE (mapE (\<lambda>r. arrival_cells g r effective) references) (\<lambda>found.
     bindE (guardE (concat found \<noteq> []) (CoreError ''PORTABLE_CORE_NO_SAFE_ARRIVAL'' ''target'')) (\<lambda>_.
     Inr (concat found)))"

definition finish_plan ::
  "pylib \<Rightarrow> map_result \<Rightarrow> plan_target \<Rightarrow> grid_view \<Rightarrow> rat \<Rightarrow> pyfloat \<Rightarrow> bool \<Rightarrow> cell \<Rightarrow> cell \<times> search \<times> cell list
     \<Rightarrow> py_exc + plan_result" where
  "finish_plan L m t g clearance effective simplify start found =
     (case found of (reached, st, cells) \<Rightarrow>
        let grid = map_items m; full = path_points g (agent_position_m (mr_agent m)) cells; additional = num_val clearance in
        bindE (require_clear L grid full additional ''planned path'') (\<lambda>_.
        bindE (if simplify
               then bindE (simplify_path L grid (map point3_val full) additional) (\<lambda>ps. Inr (map f3 ps))
               else Inr full) (\<lambda>path.
        bindE (require_clear L grid path additional ''final path'') (\<lambda>_.
        bindE (closest_reference (cell_to_world g reached) (tg_references t)) (\<lambda>ref.
        Inr \<lparr>pl_map_id = mr_map_id m, pl_target_id = tg_target_id t, pl_start_cell = start,
             pl_arrival_cell = reached, pl_path_cells = cells, pl_path_m = path,
             pl_waypoints_m = (if 1 < length path then tl path else [hd path]),
             pl_cost_cells = best_of st reached, pl_expanded_cells = se_expansions st,
             pl_minimum_clearance_m = clearance, pl_effective_arrival_radius_m = effective,
             pl_arrival_reference_position_m = ref,
             pl_target_surface_point_count = length (tg_references t)\<rparr>)))))"

definition plan_path ::
  "pylib \<Rightarrow> pyval \<Rightarrow> pyval \<Rightarrow> pyval \<Rightarrow> pyval \<Rightarrow> bool \<Rightarrow> pyval \<Rightarrow> py_exc + plan_result" where
  "plan_path L map_v target arrival_v clearance_v simplify max_expansions =
     bindE (validate_map_result L map_v PNone PNone) (\<lambda>m.
     bindE (plan_target_of m target) (\<lambda>t.
     bindE (n_number (Some 0) arrival_v ''arrival_radius_m'') (\<lambda>arrival.
     bindE (guardE (0 < arrival) (CoreError ''PORTABLE_CORE_ARRIVAL_RADIUS_INVALID'' ''arrival_radius_m'')) (\<lambda>_.
     let effective = fadd (Fin arrival) (Fin (tg_uncertainty t)) in
     bindE (n_number (Some 0) clearance_v ''minimum_clearance_m'') (\<lambda>clearance.
     bindE (grid_with_inflation L (map_items m) (num_val clearance)) (\<lambda>g.
     bindE (world_to_cell g (f3 (agent_position_m (mr_agent m)))) (\<lambda>start.
     bindE (guardE (\<not> gv_blocked g start) (CoreError ''PORTABLE_CORE_START_BLOCKED'' (show_cell start))) (\<lambda>_.
     bindE (plan_goals g (tg_references t) effective) (\<lambda>goals.
     bindE (if max_expansions = PNone then Inr (gv_width g * gv_height g) else py_int max_expansions) (\<lambda>limit.
     bindE (guardE (1 \<le> limit) (CoreError ''PORTABLE_CORE_EXPANSION_LIMIT_INVALID'' ''max_expansions'')) (\<lambda>_.
     bindE (search_cells g start goals limit (heuristic g (tg_references t) effective))
       (finish_plan L m t g clearance effective simplify start))))))))))))"

end
