(* ===== verification/FloatBounds.thy ===== *)
theory FloatBounds
  imports FloatEval
begin

text \<open>
  Error bounds of the float model: the relative error of rounding a normal number from
  below, and of the square root from above. They connect decisions taken on floats with
  exact geometry.
\<close>

lemma nearest_even_ge: "x - 1/2 \<le> of_int (nearest_even x)"
proof -
  have "of_int \<lfloor>x\<rfloor> \<le> x" "x < of_int \<lfloor>x\<rfloor> + 1" by linarith+
  then show ?thesis unfolding nearest_even_def Let_def
    by (cases "x - of_int \<lfloor>x\<rfloor> < 1/2") auto
qed

lemma round_pos_lower:
  assumes "pow2 (- 1022) \<le> x"
  shows "x * (1 - 1 / 2 ^ 52) \<le> round_pos x"
proof -
  have x: "0 < x" using assms pow2_pos by (rule less_le_trans [rotated])
  have "pow2 (- 1022) < pow2 (ilog2 x + 1)" using assms ilog2_bounds(2) [OF x] by (rule le_less_trans)
  then have u: "ulp_exp x = ilog2 x - 52" by (simp add: ulp_exp_def)
  let ?q = "pow2 (ulp_exp x)"
  have q: "0 < ?q" by simp
  have "?q * 2 ^ 52 \<le> x"
    using ilog2_bounds(1) [OF x] by (simp add: u pow2_diff pow2_int)
  then have small: "?q \<le> x / 2 ^ 52" by simp
  have "(x / ?q - 1/2) * ?q \<le> of_int (nearest_even (x / ?q)) * ?q"
    using nearest_even_ge [of "x / ?q"] q by (intro mult_right_mono) (simp_all add: less_imp_le)
  then have "x - ?q / 2 \<le> round_pos x"
    using x by (simp add: round_pos_def algebra_simps)
  moreover have "?q / 2 \<le> x / 2 ^ 52" using small q by linarith
  ultimately show ?thesis by (simp add: algebra_simps)
qed

lemma round64_lower:
  assumes "pow2 (- 1022) \<le> x" and "x < pow2 1023"
  shows "\<exists>r. round64 x = Fin r \<and> x * (1 - 1 / 2 ^ 52) \<le> r"
proof -
  have x: "0 < x" using assms(1) pow2_pos by (rule less_le_trans [rotated])
  have "round_pos x \<le> round_pos (pow2 1023)" using assms(2) by (intro round_pos_mono) simp
  also have "\<dots> = pow2 1023" by (rule round_pos_pow2) simp
  also have "\<dots> < pow2 1024" by simp
  finally have "round64 x = Fin (round_pos x)" using x by (simp add: round64_def overflow_pos_def)
  then show ?thesis using round_pos_lower [OF assms(1)] by blast
qed

text \<open>The bisection never passes the root.\<close>

lemma isqrt_bits_le: "acc * acc \<le> n \<Longrightarrow> isqrt_bits k acc n * isqrt_bits k acc n \<le> n"
  by (induction k arbitrary: acc) (simp_all add: Let_def)

lemma isqrt_le: "0 \<le> n \<Longrightarrow> isqrt n * isqrt n \<le> n"
  by (simp add: isqrt_def isqrt_bits_le)

lemma half_step_bound:
  fixes k y :: rat
  assumes "(k - 1/2) * (k - 1/2) \<le> y" and "2 ^ 104 \<le> y"
  shows "k \<le> y / 2 ^ 50"
proof (rule ccontr)
  assume "\<not> k \<le> y / 2 ^ 50"
  define z where "z = y / 2 ^ 50"
  have z: "2 ^ 54 \<le> z" using assms(2) by (simp add: z_def field_simps)
  have kz: "z < k" using \<open>\<not> k \<le> y / 2 ^ 50\<close> by (simp add: z_def)
  have "z / 2 * (z / 2) \<le> (k - 1/2) * (k - 1/2)" using z kz by (intro mult_mono) simp_all
  also have "\<dots> \<le> z * 2 ^ 50" using assms(1) by (simp add: z_def)
  finally have "z * z \<le> z * 2 ^ 52" by simp
  then have "z \<le> 2 ^ 52" using z by (simp add: mult_le_cancel_left)
  then show False using z by simp
qed

lemma sqrt_pos_upper:
  assumes "1 \<le> x"
  shows "sqrt_pos x * sqrt_pos x \<le> x * (1 + 1 / 2 ^ 50)" and "0 \<le> sqrt_pos x"
proof -
  have x: "0 < x" using assms by simp
  have "pow2 0 < pow2 (ilog2 x + 1)" using assms ilog2_bounds(2) [OF x] by simp
  then have l: "0 \<le> ilog2 x" by (simp only: pow2_less_iff)
  define e where "e = ilog2 x div 2 - 52"
  define q where "q = pow2 e"
  define y where "y = x / (q * q)"
  have q: "0 < q" by (simp add: q_def)
  have e: "sqrt_exp x = e" using l by (simp add: sqrt_exp_def e_def)
  have "pow2 (e + e + 104) \<le> pow2 (ilog2 x)" by (simp add: e_def)
  also have "\<dots> \<le> x" by (rule ilog2_bounds(1) [OF x])
  finally have "pow2 e * pow2 e * pow2 104 \<le> x" by (simp only: pow2_add)
  then have "q * q * 2 ^ 104 \<le> x" by (simp add: q_def pow2_int)
  then have y: "2 ^ 104 \<le> y" using q by (simp add: y_def field_simps)
  define m where "m = isqrt \<lfloor>y\<rfloor>"
  have m0: "0 \<le> m"
  proof -
    have "0 \<le> isqrt_bits k acc n" if "0 \<le> acc" for k acc n
      using that by (induction k arbitrary: acc) (simp_all add: Let_def)
    then show ?thesis by (simp add: m_def isqrt_def)
  qed
  have "m * m \<le> \<lfloor>y\<rfloor>" unfolding m_def using y by (intro isqrt_le) simp
  then have mm: "of_int m * of_int m \<le> y" by (simp add: le_floor_iff flip: of_int_mult)
  define k where "k = (if y < (of_int m + 1/2) * (of_int m + 1/2) then m
     else if (of_int m + 1/2) * (of_int m + 1/2) < y then m + 1 else if even m then m else m + 1)"
  have s: "sqrt_pos x = of_int k * q"
    using x by (simp add: sqrt_pos_def Let_def e q_def k_def m_def y_def)
  have kk: "of_int k * of_int k \<le> y * (1 + 1 / 2 ^ 50)"
  proof (cases "k = m")
    case True
    then show ?thesis using mm y by (simp add: algebra_simps)
  next
    case False
    then have k: "k = m + 1" and g: "(of_int m + 1/2) * (of_int m + 1/2) \<le> y"
      by (auto simp: k_def split: if_splits)
    have "(of_int k - 1/2) * (of_int k - 1/2) \<le> y" using g by (simp add: k algebra_simps)
    then have "of_int k \<le> y / 2 ^ 50" and "of_int k * of_int k \<le> y + of_int k"
      using half_step_bound [OF _ y] by (simp_all add: algebra_simps)
    then show ?thesis by (simp add: algebra_simps)
  qed
  show "0 \<le> sqrt_pos x" using s m0 q by (simp add: k_def)
  have "sqrt_pos x * sqrt_pos x = (of_int k * of_int k) * (q * q)" by (simp add: s algebra_simps)
  also have "\<dots> \<le> y * (1 + 1 / 2 ^ 50) * (q * q)" using kk q by (intro mult_right_mono) simp_all
  also have "\<dots> = x * (1 + 1 / 2 ^ 50)" using q by (simp add: y_def)
  finally show "sqrt_pos x * sqrt_pos x \<le> x * (1 + 1 / 2 ^ 50)" .
qed

lemma fint_small [simp]: "\<bar>n\<bar> \<le> 2 ^ 53 \<Longrightarrow> fint n = Fin (of_int n)"
  by (simp add: fint_def round64_of_int)

lemma tiny_le: "1 / 1000 \<le> (x::rat) \<Longrightarrow> pow2 (- 1022) \<le> x"
proof -
  assume "1 / 1000 \<le> x"
  moreover have "pow2 (- 1022) \<le> pow2 (- 10)" by simp
  moreover have "pow2 (- 10) \<le> 1 / 1000" by (simp add: pow2_def power_int_minus)
  ultimately show ?thesis by linarith
qed

lemma round64_between:
  assumes "1 / 1000 \<le> x" and "x \<le> of_int n" and "n \<le> 2 ^ 53"
  obtains r where "round64 x = Fin r" and "x * (1 - 1 / 2 ^ 52) \<le> r" and "r \<le> of_int n"
proof -
  have "(0::rat) \<le> of_int n" using assms by linarith
  then have n: "\<bar>n\<bar> \<le> 2 ^ 53" using assms(3) by simp
  have "x < pow2 1023"
  proof -
    have "x \<le> pow2 53" using assms(2,3) by (simp add: pow2_int flip: of_int_le_iff)
    also have "\<dots> < pow2 1023" by simp
    finally show ?thesis .
  qed
  then obtain r where r: "round64 x = Fin r" "x * (1 - 1 / 2 ^ 52) \<le> r"
    using round64_lower [OF tiny_le [OF assms(1)]] by blast
  have "fle (round64 x) (round64 (of_int n))" using assms(2) by (rule round64_mono)
  then have "r \<le> of_int n" using r(1) round64_of_int [OF n] by simp
  with r show ?thesis by (rule that)
qed

lemma sqrt_pos_2: "sqrt_pos 2 = 6369051672525773 / 4503599627370496"
  by code_simp

lemma fsqrt_2: "fsqrt (Fin 2) = Inr (Fin (sqrt_pos 2))"
  unfolding sqrt_pos_2 by code_simp

lemma sqrt2_float: "sqrt 2 \<le> real_of_rat (sqrt_pos 2)"
  unfolding sqrt_pos_2 by (rule real_le_lsqrt) (simp_all add: of_rat_divide power2_eq_square)

text \<open>Rounding a rounded value does nothing.\<close>

lemma round_pos_idem: "- 1022 \<le> ilog2 x \<Longrightarrow> 0 < x \<Longrightarrow> round_pos (round_pos x) = round_pos x"
proof -
  assume e: "- 1022 \<le> ilog2 x" and x: "0 < x"
  let ?r = "round_pos x"
  have lo: "pow2 (ilog2 x) \<le> ?r"
    using round_pos_mono [OF ilog2_bounds(1) [OF x]] round_pos_pow2 [OF e] by simp
  have hi: "?r \<le> pow2 (ilog2 x + 1)"
    using round_pos_mono [OF less_imp_le [OF ilog2_bounds(2) [OF x]]] round_pos_pow2 [of "ilog2 x + 1"] e by simp
  have r: "0 < ?r" using lo pow2_pos by (rule less_le_trans [rotated])
  show ?thesis
  proof (cases "?r = pow2 (ilog2 x + 1)")
    case True
    then show ?thesis using round_pos_pow2 [of "ilog2 x + 1"] e by simp
  next
    case False
    have "pow2 (ilog2 ?r) < pow2 (ilog2 x + 1)" using ilog2_bounds(1) [OF r] hi False by linarith
    moreover have "pow2 (ilog2 x) < pow2 (ilog2 ?r + 1)" using ilog2_bounds(2) [OF r] lo by linarith
    ultimately have "ilog2 ?r = ilog2 x" by simp
    then have u: "ulp_exp ?r = ulp_exp x" by (simp add: ulp_exp_def)
    show ?thesis
      by (rule round_pos_exact [OF r, of "nearest_even (x / pow2 (ulp_exp x))"])
        (use x u in \<open>simp add: round_pos_def\<close>)
  qed
qed

definition representable :: "rat \<Rightarrow> bool" where
  "representable r = (round64 r = Fin r)"

lemma representable_0 [simp]: "representable 0"
  by (simp add: representable_def)

lemma fadd_representable:
  assumes "fadd (Fin a) (Fin b) = Fin r" and "1 \<le> a + b"
  shows "representable r"
proof -
  have "pow2 0 < pow2 (ilog2 (a + b) + 1)" using ilog2_bounds(2) [of "a + b"] assms(2) by simp
  then have e: "- 1022 \<le> ilog2 (a + b)" by (simp only: pow2_less_iff)
  have r: "r = round_pos (a + b)" "\<not> pow2 1024 \<le> r"
    using assms by (auto simp: round64_def overflow_pos_def split: if_splits)
  have "round_pos r = r" using round_pos_idem [OF e] assms(2) by (simp add: r(1))
  moreover have "0 \<le> r" using round_pos_nonneg by (simp add: r(1))
  ultimately show ?thesis using r(2) by (simp add: representable_def round64_def overflow_pos_def)
qed

lemma fadd_grows: "representable r \<Longrightarrow> 0 \<le> e \<Longrightarrow> fle (Fin r) (fadd (Fin r) (Fin e))"
  using round64_mono [of r "r + e"] by (simp add: representable_def)

text \<open>The relative error of rounding from above.\<close>

lemma nearest_even_le: "of_int (nearest_even x) \<le> x + 1/2"
proof -
  have "of_int \<lfloor>x\<rfloor> \<le> x" "x < of_int \<lfloor>x\<rfloor> + 1" by linarith+
  then show ?thesis unfolding nearest_even_def Let_def by simp linarith
qed

lemma ulp_small:
  assumes "pow2 (- 1022) \<le> x"
  shows "pow2 (ulp_exp x) \<le> x / 2 ^ 52"
proof -
  have x: "0 < x" using assms pow2_pos by (rule less_le_trans [rotated])
  have "pow2 (- 1022) < pow2 (ilog2 x + 1)" using assms ilog2_bounds(2) [OF x] by (rule le_less_trans)
  then have u: "ulp_exp x = ilog2 x - 52" by (simp add: ulp_exp_def)
  have "pow2 (ulp_exp x) * 2 ^ 52 \<le> x"
    using ilog2_bounds(1) [OF x] by (simp add: u pow2_diff pow2_int)
  then show ?thesis by simp
qed

lemma round_pos_upper:
  assumes "pow2 (- 1022) \<le> x"
  shows "round_pos x \<le> x * (1 + 1 / 2 ^ 52)"
proof -
  have x: "0 < x" using assms pow2_pos by (rule less_le_trans [rotated])
  let ?q = "pow2 (ulp_exp x)"
  have q: "0 < ?q" by simp
  have "of_int (nearest_even (x / ?q)) * ?q \<le> (x / ?q + 1/2) * ?q"
    using nearest_even_le [of "x / ?q"] q by (intro mult_right_mono) (simp_all add: less_imp_le)
  then have "round_pos x \<le> x + ?q / 2"
    using x by (simp add: round_pos_def algebra_simps)
  moreover have "?q / 2 \<le> x / 2 ^ 52" using ulp_small [OF assms] q by linarith
  ultimately show ?thesis by (simp add: algebra_simps)
qed

lemma round64_upper:
  assumes "pow2 (- 1022) \<le> x" and "x < pow2 1023"
  shows "\<exists>r. round64 x = Fin r \<and> 0 \<le> r \<and> r \<le> x * (1 + 1 / 2 ^ 52)"
proof -
  have x: "0 < x" using assms(1) pow2_pos by (rule less_le_trans [rotated])
  have "round_pos x \<le> round_pos (pow2 1023)" using assms(2) by (intro round_pos_mono) simp
  also have "\<dots> = pow2 1023" by (rule round_pos_pow2) simp
  also have "\<dots> < pow2 1024" by simp
  finally have "round64 x = Fin (round_pos x)" using x by (simp add: round64_def overflow_pos_def)
  then show ?thesis using round_pos_upper [OF assms(1)] round_pos_nonneg by blast
qed

text \<open>Scaling a length down by a rounded quotient: the truncated product does not pass the
  numerator.\<close>

lemma tiny_inverse: "1 \<le> x \<Longrightarrow> x \<le> 2 ^ 106 \<Longrightarrow> pow2 (- 1022) \<le> 1 / (x::rat)"
proof -
  assume x: "1 \<le> x" "x \<le> 2 ^ 106"
  have "pow2 (- 1022) \<le> pow2 (- 106)" by simp
  also have "pow2 (- 106) = 1 / 2 ^ 106" by (simp add: pow2_def power_int_minus inverse_eq_divide)
  also have "\<dots> \<le> 1 / x" using x by (intro divide_left_mono) auto
  finally show ?thesis .
qed

lemma scaled_length:
  assumes m: "1 \<le> m" "m \<le> 2 ^ 50" and e: "m < e" "e \<le> 2 ^ 53" and w: "0 \<le> w" "w \<le> e"
    and q: "round64 (of_int m / of_int e) = q"
  shows "\<exists>k. ftrunc (fmul (Fin (of_int w)) q) = Inr k \<and> 0 \<le> k \<and> k \<le> m"
proof -
  let ?x = "of_int m / of_int e :: rat"
  have e0: "(0::rat) < of_int e" "(1::rat) \<le> of_int e" "of_int e \<le> (2::rat) ^ 53" using m e by (simp_all flip: of_int_le_iff)
  have m1: "(1::rat) \<le> of_int m" "of_int m \<le> (2::rat) ^ 50" using m by (simp_all flip: of_int_le_iff)
  have lo: "1 / of_int e \<le> ?x" using m1 e0 by (intro divide_right_mono) auto
  have "(2::rat) ^ 53 \<le> 2 ^ 106" by simp
  then have "pow2 (- 1022) \<le> 1 / of_int e" using e0 by (intro tiny_inverse) linarith+
  then have x1: "pow2 (- 1022) \<le> ?x" using lo by (rule order_trans)
  have x2: "?x \<le> 1" using e e0 by (simp add: less_imp_le)
  have "(1::rat) < pow2 1023" using pow2_less_iff [of 0 1023] by simp
  then have x3: "?x < pow2 1023" using x2 by linarith
  obtain r where r: "round64 ?x = Fin r" "0 \<le> r" "r \<le> ?x * (1 + 1 / 2 ^ 52)"
    using round64_upper [OF x1 x3] by blast
  have rl: "?x * (1 - 1 / 2 ^ 52) \<le> r" using round64_lower [OF x1 x3] r(1) by auto
  let ?y = "of_int w * r"
  have "?y \<le> of_int e * r" using w r(2) by (intro mult_right_mono) (simp_all flip: of_int_le_iff)
  also have "\<dots> \<le> of_int e * (?x * (1 + 1 / 2 ^ 52))" using r(3) e0 by (intro mult_left_mono) auto
  also have "\<dots> = of_int m * (1 + 1 / 2 ^ 52)" using e0 by simp
  finally have y: "?y \<le> of_int m * (1 + 1 / 2 ^ 52)" .
  show ?thesis
  proof (cases "w = 0")
    case True
    then show ?thesis using q r m by (auto simp: ftrunc_def float_to_intE_def)
  next
    case False
    then have w1: "(1::rat) \<le> of_int w" using w by simp
    have "pow2 (- 1022) \<le> ?y"
    proof -
      have "1 / (2 * of_int e) \<le> (r::rat)"
      proof -
        have "1 / (2 * of_int e) = (1 / of_int e :: rat) * (1/2)" by simp
        also have "\<dots> \<le> ?x * (1 - 1 / 2 ^ 52)" using lo e0 m1 by (intro mult_mono) auto
        finally show ?thesis using rl by linarith
      qed
      moreover have "pow2 (- 1022) \<le> 1 / (2 * of_int e)" using e0 by (intro tiny_inverse) auto
      moreover have "r \<le> ?y" using w1 r(2) by (simp add: mult_right_mono [of 1 "of_int w" r, simplified])
      ultimately show ?thesis by linarith
    qed
    moreover have "?y < pow2 1023"
    proof -
      have "of_int m * (1 + 1 / 2 ^ 52) \<le> (2 ^ 50 * 2 :: rat)" using m1 by (intro mult_mono) auto
      also have "\<dots> = pow2 51" by (simp add: pow2_int)
      also have "\<dots> < pow2 1023" by simp
      finally show ?thesis using y by linarith
    qed
    ultimately obtain s where s: "round64 ?y = Fin s" "0 \<le> s" "s \<le> ?y * (1 + 1 / 2 ^ 52)"
      using round64_upper by blast
    note s(3)
    also have "?y * (1 + 1 / 2 ^ 52) \<le> of_int m * (1 + 1 / 2 ^ 52) * (1 + 1 / 2 ^ 52)"
      using y by (rule mult_right_mono) simp
    also have "\<dots> < of_int m + 1" using m1 by (simp add: field_simps)
    finally have "s < of_int m + 1" .
    then have "\<lfloor>s\<rfloor> \<le> m" by linarith
    then show ?thesis using s q r(1) by (auto simp: ftrunc_def float_to_intE_def)
  qed
qed

end
