(* ===== verification/NavClearance.thy ===== *)
theory NavClearance
  imports NavGrid FloatBounds
begin

text \<open>
  The metric meaning of inflation: cells whose distance is within the radius plus half a
  cell diagonal pass the float test of \<open>inflate_occupancy\<close>. Distances are taken in the
  reals; \<open>reach\<close> is the exact value the code approximates.
\<close>

lemma lit_cent: "1 / 200 \<le> lit (1 / 100)" "lit (1 / 100) \<le> 1 / 50"
proof -
  have "lit (1 / 100) = 5764607523034235 / 576460752303423488" by code_simp
  then show "1 / 200 \<le> lit (1 / 100)" "lit (1 / 100) \<le> 1 / 50" by simp_all
qed

lemma EPSILON_Fin: obtains e where "EPSILON = Fin e" and "9 / 10000000000 \<le> e" and "e \<le> 1"
proof -
  have "lit (1 / 1000000000) = 4835703278458517 / 4835703278458516698824704" by code_simp
  then have "9 / 10000000000 \<le> lit (1 / 1000000000)" "lit (1 / 1000000000) \<le> 1" by simp_all
  then show ?thesis by (rule that [rotated]) (simp add: EPSILON_def)
qed

text \<open>\<open>cell_half_diagonal\<close> in reals, from below.\<close>

lemma half_diagonal_lower:
  assumes "cell_half_diagonal res = Inr half" and "1 / 200 \<le> res" and "res \<le> 100000"
  obtains hf where "half = Fin hf" and "1 / 1000 \<le> hf" and "hf \<le> 100000"
    and "real_of_rat res * (sqrt 2 / 2) * (1 - 1 / 2 ^ 51) \<le> real_of_rat hf"
proof -
  let ?s = "sqrt_pos 2"
  have s: "?s \<le> 3 / 2" "1 \<le> ?s" by (simp_all add: sqrt_pos_2)
  have sr: "1 / 200 \<le> ?s * res" "?s * res \<le> 150000"
    using mult_mono [of 1 ?s "1 / 200" res] mult_mono [of ?s "3 / 2" res 100000] s assms(2,3) by simp_all
  obtain a where a: "round64 (?s * res) = Fin a" "?s * res * (1 - 1 / 2 ^ 52) \<le> a" "a \<le> of_int 150000"
    by (rule round64_between [of "?s * res" 150000]) (use sr in simp_all)
  have a4: "1 / 400 \<le> a" using a(2) sr(1) by (simp add: algebra_simps)
  obtain hf where h: "round64 (a / 2) = Fin hf" "a / 2 * (1 - 1 / 2 ^ 52) \<le> hf" "hf \<le> of_int 75000"
    by (rule round64_between [of "a / 2" 75000]) (use a4 a(3) in simp_all)
  have half: "half = Fin hf"
    using assms(1) a(1) h(1) by (simp add: cell_half_diagonal_def fsqrt_2 del: fsqrt.simps)
  have "?s * res / 2 * (1 - 1 / 2 ^ 51) \<le> ?s * res * (1 - 1 / 2 ^ 52) / 2 * (1 - 1 / 2 ^ 52)"
    using sr(1) by (simp add: algebra_simps)
  also have "\<dots> \<le> a / 2 * (1 - 1 / 2 ^ 52)" by (intro mult_right_mono divide_right_mono a(2)) simp_all
  also have "\<dots> \<le> hf" by (rule h(2))
  finally have q: "?s * res / 2 * (1 - 1 / 2 ^ 51) \<le> hf" .
  have "real_of_rat (?s * res / 2 * (1 - 1 / 2 ^ 51)) \<le> real_of_rat hf" using q by (simp only: of_rat_less_eq)
  then have "real_of_rat ?s * real_of_rat res / 2 * (1 - 1 / 2 ^ 51) \<le> real_of_rat hf"
    by (simp add: of_rat_mult of_rat_divide of_rat_diff)
  moreover have "sqrt 2 * (real_of_rat res / 2 * (1 - 1 / 2 ^ 51)) \<le> real_of_rat ?s * (real_of_rat res / 2 * (1 - 1 / 2 ^ 51))"
    using sqrt2_float assms(2) by (intro mult_right_mono) (simp_all add: zero_le_of_rat_iff)
  ultimately have "real_of_rat res * (sqrt 2 / 2) * (1 - 1 / 2 ^ 51) \<le> real_of_rat hf" by (simp add: algebra_simps)
  moreover have "1 / 1000 \<le> hf" using h(2) a4 by (simp add: algebra_simps)
  ultimately show ?thesis using half h(3) by (intro that) simp_all
qed


text \<open>
  Two cells whose distance is at most the radius plus half a cell diagonal are within the
  offsets of an inflation: the float test errs on the safe side by its epsilon.
\<close>

definition reach :: "rat \<Rightarrow> rat \<Rightarrow> real" where
  "reach radius res = real_of_rat radius + real_of_rat res * (sqrt 2 / 2)"

lemma conservative_lower:
  assumes "cell_half_diagonal res = Inr half" and "1 / 200 \<le> res" and "res \<le> 100000"
    and "0 \<le> radius" and "radius \<le> 100000"
  obtains c where "fadd (Fin radius) half = Fin c" and "reach radius res * (1 - 1 / 2 ^ 50) \<le> real_of_rat c"
    and "1 / 2000 \<le> c" and "c \<le> 200000"
proof -
  obtain hf where hf: "half = Fin hf" "1 / 1000 \<le> hf" "hf \<le> 100000"
    "real_of_rat res * (sqrt 2 / 2) * (1 - 1 / 2 ^ 51) \<le> real_of_rat hf"
    by (rule half_diagonal_lower [OF assms(1-3)])
  obtain c where c: "round64 (radius + hf) = Fin c" "(radius + hf) * (1 - 1 / 2 ^ 52) \<le> c" "c \<le> of_int 200000"
    by (rule round64_between [of "radius + hf" 200000]) (use hf assms(4,5) in simp_all)
  let ?R = "real_of_rat radius" and ?S = "real_of_rat res" and ?h = "real_of_rat hf"
  have pos: "0 \<le> ?R" "0 \<le> ?S" using assms by (simp_all add: zero_le_of_rat_iff)
  have "reach radius res * (1 - 1 / 2 ^ 51) \<le> ?R + ?h"
  proof -
    have "?R * (1 - 1 / 2 ^ 51) \<le> ?R" by (rule mult_left_le) (use pos in simp_all)
    then show ?thesis using hf(4) by (simp only: reach_def distrib_right)
  qed
  then have "reach radius res * (1 - 1 / 2 ^ 51) * (1 - 1 / 2 ^ 52) \<le> (?R + ?h) * (1 - 1 / 2 ^ 52)"
    by (intro mult_right_mono) simp_all
  moreover have "real_of_rat ((radius + hf) * (1 - 1 / 2 ^ 52)) \<le> real_of_rat c"
    using c(2) by (simp only: of_rat_less_eq)
  then have "(?R + ?h) * (1 - 1 / 2 ^ 52) \<le> real_of_rat c"
    by (simp add: of_rat_mult of_rat_divide of_rat_diff of_rat_add)
  moreover have "reach radius res * (1 - 1 / 2 ^ 50) \<le> reach radius res * (1 - 1 / 2 ^ 51) * (1 - 1 / 2 ^ 52)"
    using pos by (simp add: mult.assoc reach_def mult_left_mono)
  ultimately have "reach radius res * (1 - 1 / 2 ^ 50) \<le> real_of_rat c" by linarith
  moreover have "1 / 2000 \<le> c" using c(2) hf(2) assms(4) by (simp add: algebra_simps)
  ultimately show ?thesis using c hf(1) by (intro that) simp_all
qed

lemma sqrt_float_upper:
  assumes "1 \<le> d"
  shows "real_of_rat (sqrt_pos d) \<le> sqrt (real_of_rat d) * (1 + 1 / 2 ^ 50)"
proof -
  have d: "0 \<le> real_of_rat d" using assms by (simp add: zero_le_of_rat_iff)
  have "real_of_rat (sqrt_pos d * sqrt_pos d) \<le> real_of_rat (d * (1 + 1 / 2 ^ 50))"
    using sqrt_pos_upper(1) [OF assms] by (simp only: of_rat_less_eq)
  then have "real_of_rat (sqrt_pos d) ^ 2 \<le> real_of_rat d * (1 + 1 / 2 ^ 50)"
    by (simp add: of_rat_mult of_rat_divide of_rat_add power2_eq_square)
  also have "\<dots> \<le> real_of_rat d * (1 + 1 / 2 ^ 50) ^ 2"
    using d by (intro mult_left_mono) (simp_all add: power2_eq_square)
  also have "\<dots> = (sqrt (real_of_rat d) * (1 + 1 / 2 ^ 50)) ^ 2"
    using d by (simp only: power_mult_distrib real_sqrt_pow2)
  finally show ?thesis by (rule power2_le_imp_le) (use d in simp)
qed


text \<open>The number of cells on either side of a source covers the reach.\<close>

lemma cells_cover:
  assumes cells: "bindE (fdiv (Fin c) (Fin res)) fceil = Inr cells"
    and c: "reach radius res * (1 - 1 / 2 ^ 50) \<le> real_of_rat c" "1 / 2000 \<le> c" "c \<le> 200000"
    and res: "1 / 200 \<le> res" "res \<le> 100000"
    and n: "of_int n * real_of_rat res \<le> reach radius res" and "0 \<le> n"
  shows "n \<le> cells"
proof (cases "n = 0")
  case True
  have "0 \<le> c / res" using c(2) res(1) by simp
  then have "fle (round64 0) (round64 (c / res))" by (rule round64_mono)
  then show ?thesis using cells res(1) True by (cases "round64 (c / res)") (auto simp: fceil_def float_to_intE_def)
next
  case False
  then have n1: "1 \<le> n" using assms(8) by simp
  have res0: "0 < real_of_rat res" using res(1) by simp
  have "of_int n * real_of_rat res * (1 - 1 / 2 ^ 50) \<le> reach radius res * (1 - 1 / 2 ^ 50)"
    using n by (intro mult_right_mono) simp_all
  then have "of_int n * real_of_rat res * (1 - 1 / 2 ^ 50) \<le> real_of_rat c" using c(1) by linarith
  then have "real_of_rat (of_int n * res * (1 - 1 / 2 ^ 50)) \<le> real_of_rat c"
    by (simp add: of_rat_mult of_rat_divide of_rat_diff)
  then have nr: "of_int n * res * (1 - 1 / 2 ^ 50) \<le> c" by (simp only: of_rat_less_eq)
  then have nq: "of_int n * (1 - 1 / 2 ^ 50) \<le> c / res" using res(1) by (simp add: pos_le_divide_eq mult_ac)
  have up: "c / res \<le> of_int 40000000" using c(3) res(1) by (simp add: pos_divide_le_eq)
  have low: "1 / 1000 \<le> c / res"
  proof -
    have "(1::rat) \<le> of_int n" using n1 by simp
    then show ?thesis using nq by simp
  qed
  obtain v where v: "round64 (c / res) = Fin v" "c / res * (1 - 1 / 2 ^ 52) \<le> v" "v \<le> of_int 40000000"
    by (rule round64_between [OF low up]) simp
  have "of_int n * (9 / 10) \<le> of_int n * (1 - 1 / 2 ^ 50 :: rat)" using n1 by (intro mult_left_mono) simp_all
  then have "of_int n * (9 / 10) \<le> (40000000 :: rat)" using nq up by (simp only: of_int_numeral)
  then have nbig: "(of_int n :: rat) \<le> 50000000" by simp
  have "of_int n - 1 < of_int n * (1 - 1 / 2 ^ 50) * (1 - 1 / 2 ^ 52 :: rat)" using nbig n1 by (simp add: algebra_simps)
  also have "\<dots> \<le> c / res * (1 - 1 / 2 ^ 52)" using nq by (intro mult_right_mono) simp_all
  also have "\<dots> \<le> v" by (rule v(2))
  finally have "of_int (n - 1) < v" by simp
  then have "n - 1 < \<lceil>v\<rceil>" by (simp only: less_ceiling_iff)
  then have "n \<le> \<lceil>v\<rceil>" by simp
  then show ?thesis using cells res(1) v(1) by (simp add: fceil_def float_to_intE_def)
qed

lemma offset_in_reach:
  assumes half: "cell_half_diagonal res = Inr half" and res: "1 / 200 \<le> res" "res \<le> 100000"
    and radius: "0 \<le> radius" "radius \<le> 100000"
    and cells: "bindE (fdiv (fadd (Fin radius) half) (Fin res)) fceil = Inr cells"
    and near: "sqrt (real_of_int (dx\<^sup>2 + dy\<^sup>2)) * real_of_rat res \<le> reach radius res"
  shows "(dx, dy) \<in> set (inflation_offsets cells res (fadd (Fin radius) half))"
proof -
  obtain c where c: "fadd (Fin radius) half = Fin c" "reach radius res * (1 - 1 / 2 ^ 50) \<le> real_of_rat c"
    "1 / 2000 \<le> c" "c \<le> 200000"
    by (rule conservative_lower [OF half res radius])
  let ?S = "real_of_rat res" and ?D = "sqrt (real_of_int (dx\<^sup>2 + dy\<^sup>2))"
  have S0: "0 \<le> ?S" using res(1) by (simp add: zero_le_of_rat_iff)
  have side: "of_int \<bar>z\<bar> * ?S \<le> reach radius res" if "z\<^sup>2 \<le> dx\<^sup>2 + dy\<^sup>2" for z
  proof -
    have "real_of_int \<bar>z\<bar> = sqrt (real_of_int (z\<^sup>2))" by (simp add: real_sqrt_abs)
    also have "\<dots> \<le> ?D" using that by (simp only: real_sqrt_le_iff of_int_le_iff)
    finally have "real_of_int \<bar>z\<bar> * ?S \<le> ?D * ?S" using S0 by (rule mult_right_mono)
    then show ?thesis using near by simp
  qed
  have cells': "bindE (fdiv (Fin c) (Fin res)) fceil = Inr cells" using cells c(1) by simp
  have dx: "\<bar>dx\<bar> \<le> cells" by (rule cells_cover [OF cells' c(2,3,4) res side]) simp_all
  have dy: "\<bar>dy\<bar> \<le> cells" by (rule cells_cover [OF cells' c(2,3,4) res side]) simp_all
  have reach_le: "reach radius res \<le> 200000"
  proof -
    have "real_of_rat radius \<le> real_of_rat 100000" "?S \<le> real_of_rat 100000"
      using radius(2) res(2) by (simp_all only: of_rat_less_eq)
    moreover have "sqrt 2 / 2 \<le> 1" using sqrt2_less_2 by simp
    then have "?S * (sqrt 2 / 2) \<le> ?S" using S0 by (simp only: mult_left_le)
    ultimately show ?thesis by (simp add: reach_def)
  qed
  have D_le: "?D \<le> 40000000"
  proof -
    have "real_of_rat (1 / 200) \<le> ?S" using res(1) by (simp only: of_rat_less_eq)
    then have "?D * (1 / 200) \<le> ?D * ?S" by (intro mult_left_mono) (simp_all add: of_rat_divide)
    then show ?thesis using near reach_le by simp
  qed
  have small: "\<bar>z\<bar> \<le> 2 ^ 53" if "z\<^sup>2 \<le> dx\<^sup>2 + dy\<^sup>2" for z
  proof -
    have "real_of_int \<bar>z\<bar> = sqrt (real_of_int (z\<^sup>2))" by (simp add: real_sqrt_abs)
    also have "\<dots> \<le> ?D" using that by (simp only: real_sqrt_le_iff of_int_le_iff)
    finally have "real_of_int \<bar>z\<bar> \<le> real_of_int (2 ^ 53)" using D_le by simp
    then show ?thesis by (simp only: of_int_le_iff)
  qed
  obtain e where e: "EPSILON = Fin e" "9 / 10000000000 \<le> e" "e \<le> 1" by (rule EPSILON_Fin)
  define d where "d = (of_int (dx\<^sup>2 + dy\<^sup>2) :: rat)"
  have len: "sqrt_pos d * res \<le> c + e \<and> sqrt_pos d < 9007199254740992"
  proof (cases "dx = 0 \<and> dy = 0")
    case True
    then show ?thesis using c(3) e(2) by (simp add: d_def sqrt_pos_def)
  next
    case False
    then have "0 < dx\<^sup>2 + dy\<^sup>2" by (auto simp: sum_power2_gt_zero_iff)
    then have "of_int 1 \<le> d" unfolding d_def by (simp only: of_int_le_iff)
    then have h: "real_of_rat (sqrt_pos d) \<le> ?D * (1 + 1 / 2 ^ 50)"
      using sqrt_float_upper [of d] by (simp only: d_def of_int_1 of_rat_of_int_eq)
    have "real_of_rat (sqrt_pos d) * ?S \<le> ?D * (1 + 1 / 2 ^ 50) * ?S" using h S0 by (rule mult_right_mono)
    also have "\<dots> = ?D * ?S * (1 + 1 / 2 ^ 50)" by (simp only: mult_ac)
    also have "\<dots> \<le> reach radius res * (1 + 1 / 2 ^ 50)" using near by (rule mult_right_mono) simp
    also have "\<dots> = reach radius res * (1 - 1 / 2 ^ 50) + reach radius res * (1 / 2 ^ 49)"
      by (simp add: algebra_simps)
    also have "\<dots> \<le> real_of_rat c + 200000 * (1 / 2 ^ 49)"
      using c(2) reach_le by (intro add_mono mult_right_mono) simp_all
    also have "\<dots> \<le> real_of_rat c + real_of_rat (9 / 10000000000)" by (simp add: of_rat_divide)
    also have "\<dots> \<le> real_of_rat c + real_of_rat e" using e(2) by (simp only: add_le_cancel_left of_rat_less_eq)
    finally have "real_of_rat (sqrt_pos d * res) \<le> real_of_rat (c + e)" by (simp only: of_rat_mult of_rat_add)
    then have "sqrt_pos d * res \<le> c + e" by (simp only: of_rat_less_eq)
    moreover have "real_of_rat (sqrt_pos d) < real_of_rat 9007199254740992"
    proof -
      have "?D * (1 + 1 / 2 ^ 50) \<le> 40000000 * (1 + 1 / 2 ^ 50)" using D_le by (rule mult_right_mono) simp
      then show ?thesis using h by simp
    qed
    then have "sqrt_pos d < 9007199254740992" by (simp only: of_rat_less)
    ultimately show ?thesis by simp
  qed
  have "fint dx = Fin (of_int dx)" "fint dy = Fin (of_int dy)" using small by simp_all
  then have "fhypot [fint dx, fint dy] = overflow_pos (sqrt_pos d)"
    by (simp add: fhypot_def d_def power2_eq_square)
  then have "fmul (fhypot [fint dx, fint dy]) (Fin res) = round64 (sqrt_pos d * res)"
    using len by (simp add: overflow_pos_code)
  moreover have "fadd (Fin c) EPSILON = round64 (c + e)" by (simp add: e(1))
  moreover have "fle (round64 (sqrt_pos d * res)) (round64 (c + e))" using len by (intro round64_mono) simp
  ultimately have "fle (fmul (fhypot [fint dx, fint dy]) (Fin res)) (fadd (fadd (Fin radius) half) EPSILON)"
    by (simp only: c(1))
  then show ?thesis using dx dy by (auto simp: inflation_offsets_def abs_le_iff intro!: bexI [of _ dy])
qed


text \<open>Squared distances in cells, for a source centre and any point of another cell.\<close>

lemma centre_distance:
  fixes px py :: rat
  assumes "of_int cx \<le> px" "px \<le> of_int cx + 1" "of_int cy \<le> py" "py \<le> of_int cy + 1"
    and "((px - of_int sx - 1/2)\<^sup>2 + (py - of_int sy - 1/2)\<^sup>2) * res\<^sup>2 \<le> radius\<^sup>2"
    and "0 < res" and "0 \<le> radius"
  shows "sqrt (real_of_int ((cx - sx)\<^sup>2 + (cy - sy)\<^sup>2)) * real_of_rat res \<le> reach radius res"
proof -
  let ?S = "real_of_rat res" and ?R = "real_of_rat radius"
  define a where "a = real_of_rat (px - of_int sx - 1/2)"
  define b where "b = real_of_rat (py - of_int sy - 1/2)"
  define u where "u = real_of_rat (of_int cx + 1/2 - px)"
  define v where "v = real_of_rat (of_int cy + 1/2 - py)"
  have S: "0 < ?S" and R: "0 \<le> ?R" using assms(6,7) by simp_all
  have "a + u = real_of_int (cx - sx)" "b + v = real_of_int (cy - sy)"
    by (simp_all add: a_def b_def u_def v_def of_rat_diff of_rat_add of_rat_divide)
  then have D: "sqrt (real_of_int ((cx - sx)\<^sup>2 + (cy - sy)\<^sup>2)) = sqrt ((a + u)\<^sup>2 + (b + v)\<^sup>2)" by simp
  have half: "\<bar>u\<bar> \<le> 1/2" "\<bar>v\<bar> \<le> 1/2"
  proof -
    have "\<bar>of_int cx + 1/2 - px\<bar> \<le> 1/2" "\<bar>of_int cy + 1/2 - py\<bar> \<le> 1/2" using assms(1-4) by linarith+
    then have "real_of_rat \<bar>of_int cx + 1/2 - px\<bar> \<le> real_of_rat (1/2)" "real_of_rat \<bar>of_int cy + 1/2 - py\<bar> \<le> real_of_rat (1/2)"
      by (simp_all only: of_rat_less_eq)
    then show "\<bar>u\<bar> \<le> 1/2" "\<bar>v\<bar> \<le> 1/2" by (simp_all add: u_def v_def of_rat_divide flip: abs_of_rat)
  qed
  have "u\<^sup>2 \<le> (1/2)\<^sup>2" "v\<^sup>2 \<le> (1/2)\<^sup>2" using half by (simp_all add: abs_le_square_iff [symmetric])
  then have "sqrt (u\<^sup>2 + v\<^sup>2) \<le> sqrt (1/2)" by (simp add: power2_eq_square)
  moreover have "sqrt (1/2) = sqrt 2 / 2" by (simp add: real_sqrt_divide real_div_sqrt)
  moreover have "sqrt (a\<^sup>2 + b\<^sup>2) * ?S \<le> ?R"
  proof -
    have "real_of_rat (((px - of_int sx - 1/2)\<^sup>2 + (py - of_int sy - 1/2)\<^sup>2) * res\<^sup>2) \<le> real_of_rat (radius\<^sup>2)"
      using assms(5) by (simp only: of_rat_less_eq)
    then have "(a\<^sup>2 + b\<^sup>2) * ?S\<^sup>2 \<le> ?R\<^sup>2" by (simp add: a_def b_def of_rat_mult of_rat_add of_rat_power)
    then have "(sqrt (a\<^sup>2 + b\<^sup>2) * ?S)\<^sup>2 \<le> ?R\<^sup>2" by (simp add: power_mult_distrib)
    then show ?thesis using R by (rule power2_le_imp_le)
  qed
  moreover have "sqrt ((a + u)\<^sup>2 + (b + v)\<^sup>2) \<le> sqrt (a\<^sup>2 + b\<^sup>2) + sqrt (u\<^sup>2 + v\<^sup>2)"
    by (rule real_sqrt_sum_squares_triangle_ineq)
  ultimately have "sqrt ((a + u)\<^sup>2 + (b + v)\<^sup>2) * ?S \<le> (sqrt (a\<^sup>2 + b\<^sup>2) + sqrt 2 / 2) * ?S"
    using S by (intro mult_right_mono) simp_all
  then have "sqrt ((a + u)\<^sup>2 + (b + v)\<^sup>2) * ?S \<le> ?R + ?S * (sqrt 2 / 2)"
    using \<open>sqrt (a\<^sup>2 + b\<^sup>2) * ?S \<le> ?R\<close> by (simp add: algebra_simps)
  then show ?thesis by (simp only: D reach_def)
qed

end
