(* ===== verification/NavSearch.thy ===== *)
theory NavSearch
  imports NavClearance NavPlan
begin

text \<open>
  The correctness of the A* search of \<open>plan_path\<close>: the contract of its priority queue, the
  invariant of its cost and predecessor dictionaries, and what its answers mean. Costs are
  floats; as long as the expansion limit is at most \<open>2 ^ 51\<close>, adding an edge strictly
  increases a cost, and everything rests on that.
\<close>

declare split_paired_All [simp del] split_paired_Ex [simp del]

subsection \<open>The priority queue\<close>

text \<open>What the search needs of its queue: pushing adds one entry, popping removes one.\<close>

locale priority_queue =
  fixes push :: "'e \<Rightarrow> 'q \<Rightarrow> 'q"
    and top :: "'q \<Rightarrow> 'e"
    and rest :: "'q \<Rightarrow> 'q"
    and content :: "'q \<Rightarrow> 'e multiset"
  assumes content_push: "content (push e q) = add_mset e (content q)"
    and content_pop: "content q \<noteq> {#} \<Longrightarrow> content q = add_mset (top q) (content (rest q))"
begin

lemma in_push: "x \<in># content (push e q) \<longleftrightarrow> x = e \<or> x \<in># content q"
  by (simp add: content_push)

lemma top_in: "content q \<noteq> {#} \<Longrightarrow> top q \<in># content q"
  by (subst content_pop) simp_all

lemma in_pop: "content q \<noteq> {#} \<Longrightarrow> x \<in># content q \<longleftrightarrow> x = top q \<or> x \<in># content (rest q)"
  by (subst content_pop) simp_all

lemma in_rest: "content q \<noteq> {#} \<Longrightarrow> x \<in># content (rest q) \<Longrightarrow> x \<in># content q"
  by (simp add: in_pop)

end

interpretation heap: priority_queue heap_push heap_top heap_rest mset
  by unfold_locales (auto simp: heap_push_def heap_top_def heap_rest_def neq_Nil_conv)

subsection \<open>The invariant of the search\<close>

definition moves :: "(cell \<Rightarrow> (cell \<times> pyfloat) list) \<Rightarrow> cell \<Rightarrow> cell \<Rightarrow> bool" where
  "moves nbrs a b = (b \<in> fst ` set (nbrs a))"

text \<open>The costs known so far: floats, at most two for every expansion.\<close>

definition costs_ok :: "search \<Rightarrow> bool" where
  "costs_ok st = (\<forall>c x. se_best_cost st c = Some x \<longrightarrow>
     (\<exists>r. x = Fin r \<and> representable r \<and> 0 \<le> r \<and> r \<le> 2 * of_int (se_expansions st)))"

text \<open>The predecessors form a tree towards the start along which the cost falls.\<close>

definition tree_ok :: "(cell \<Rightarrow> (cell \<times> pyfloat) list) \<Rightarrow> cell \<Rightarrow> search \<Rightarrow> bool" where
  "tree_ok nbrs start st =
     (se_best_cost st start = Some (Fin 0) \<and> se_came_from st start = None
      \<and> (\<forall>c. c \<noteq> start \<longrightarrow> se_best_cost st c \<noteq> None \<longrightarrow>
           (\<exists>p. se_came_from st c = Some p \<and> moves nbrs p c \<and> flt (best_of st p) (best_of st c)))
      \<and> finite (dom (se_came_from st)) \<and> card (dom (se_came_from st)) \<le> se_serial st)"

text \<open>An entry of the queue has the best cost of its cell or is stale.\<close>

definition entry_ok :: "search \<Rightarrow> entry \<Rightarrow> bool" where
  "entry_ok st e = (\<exists>b r. se_best_cost st (en_cell e) = Some (Fin b) \<and> en_cost e = Fin r \<and> b \<le> r
     \<and> (r = b \<or> stale st e))"

text \<open>A cell that was reached is in the queue with its best cost, or has been expanded.\<close>

definition expanded :: "(cell \<Rightarrow> (cell \<times> pyfloat) list) \<Rightarrow> cell set \<Rightarrow> search \<Rightarrow> cell \<Rightarrow> bool" where
  "expanded nbrs goals st c = (c \<notin> goals \<and> (\<forall>n. moves nbrs c n \<longrightarrow> se_best_cost st n \<noteq> None))"

definition waiting :: "search \<Rightarrow> cell \<Rightarrow> bool" where
  "waiting st c = (\<exists>e \<in> set (se_frontier st). en_cell e = c \<and> en_cost e = best_of st c)"

definition cells_ok :: "(cell \<Rightarrow> (cell \<times> pyfloat) list) \<Rightarrow> cell set \<Rightarrow> cell set \<Rightarrow> search \<Rightarrow> bool" where
  "cells_ok nbrs goals busy st =
     (\<forall>c. c \<notin> busy \<longrightarrow> se_best_cost st c \<noteq> None \<longrightarrow> waiting st c \<or> expanded nbrs goals st c)"

definition search_ok ::
  "(cell \<Rightarrow> (cell \<times> pyfloat) list) \<Rightarrow> cell \<Rightarrow> cell set \<Rightarrow> cell set \<Rightarrow> search \<Rightarrow> bool" where
  "search_ok nbrs start goals busy st =
     (costs_ok st \<and> tree_ok nbrs start st \<and> (\<forall>e \<in> set (se_frontier st). entry_ok st e)
      \<and> cells_ok nbrs goals busy st)"

lemma search_start_ok: "search_ok nbrs start goals {} (search_start start h)"
  by (simp add: search_ok_def costs_ok_def tree_ok_def entry_ok_def cells_ok_def waiting_def search_start_def
      heap_push_def best_of_def)

lemma EPSILON_nonneg: obtains e where "EPSILON = Fin e" and "0 \<le> e" and "e \<le> 1"
proof -
  obtain e where "EPSILON = Fin e" "9 / 10000000000 \<le> e" "e \<le> 1" by (rule EPSILON_Fin)
  then show ?thesis by (intro that [of e]) simp_all
qed

lemma margin_finite:
  assumes "0 \<le> q" and "q \<le> 2 * of_int n" and "n \<le> 2 ^ 51"
  shows "\<not> fle PInf (fadd (Fin q) EPSILON)"
proof -
  obtain e where e: "EPSILON = Fin e" "0 \<le> e" "e \<le> 1" by (rule EPSILON_nonneg)
  have "fle (fadd (Fin q) (Fin e)) (Fin (of_int (2 * n + 1)))"
    by (rule fadd_upper) (use assms e in simp_all)
  then show ?thesis by (cases "fadd (Fin q) (Fin e)") (simp_all add: e(1) del: fadd.simps)
qed

text \<open>An improvement is a real one.\<close>

lemma improves: "\<not> fle x (fadd (Fin q) EPSILON) \<Longrightarrow> representable q \<Longrightarrow> x \<noteq> NaN \<Longrightarrow> flt (Fin q) x"
proof -
  assume n: "\<not> fle x (fadd (Fin q) EPSILON)" and "representable q" and x: "x \<noteq> NaN"
  then have "fle (Fin q) (fadd (Fin q) EPSILON)" by (metis EPSILON_nonneg fadd_grows)
  with n x show ?thesis by (cases x; cases "fadd (Fin q) EPSILON") auto
qed

lemma improved_is_stale: "\<not> fle (Fin b) (fadd (Fin q) EPSILON) \<Longrightarrow> representable q \<Longrightarrow> b \<le> r \<Longrightarrow> flt (fadd (Fin q) EPSILON) (Fin r)"
proof -
  assume n: "\<not> fle (Fin b) (fadd (Fin q) EPSILON)" and "representable q" and b: "b \<le> r"
  then have "fle (Fin q) (fadd (Fin q) EPSILON)" by (metis EPSILON_nonneg fadd_grows)
  with n b show ?thesis by (cases "fadd (Fin q) EPSILON") auto
qed

lemma stale_above: "stale st e \<Longrightarrow> se_best_cost st (en_cell e) = Some (Fin b) \<Longrightarrow> representable b \<Longrightarrow> en_cost e \<noteq> Fin b"
proof
  assume s: "stale st e" and b: "se_best_cost st (en_cell e) = Some (Fin b)" "representable b" "en_cost e = Fin b"
  have "fle (Fin b) (fadd (Fin b) EPSILON)" using b(2) by (metis EPSILON_nonneg fadd_grows)
  with s b show False by (cases "fadd (Fin b) EPSILON") (auto simp: stale_def best_of_def)
qed

lemma edge_candidate:
  assumes "0 \<le> a" and "1 \<le> s" and "s \<le> 2" and "a + 2 \<le> 2 * of_int n" and "n \<le> 2 ^ 51"
  obtains q where "fadd (Fin a) (Fin s) = Fin q" and "a < q" and "q \<le> 2 * of_int n" and "representable q"
proof -
  have lt: "flt (Fin a) (fadd (Fin a) (Fin s))"
    by (rule fadd_strict_increase [of _ "2 * n"]) (use assms in simp_all)
  have le: "fle (fadd (Fin a) (Fin s)) (Fin (of_int (2 * n)))"
    by (rule fadd_upper) (use assms in simp_all)
  obtain q where q: "fadd (Fin a) (Fin s) = Fin q" using lt le by (cases "fadd (Fin a) (Fin s)") simp_all
  then have "representable q" by (rule fadd_representable) (use assms in simp)
  then show ?thesis using that [OF q] lt le by (simp add: q del: fadd.simps)
qed

subsection \<open>One edge\<close>

text \<open>The state after the cost of \<open>n\<close> was improved to \<open>q\<close> through \<open>c\<close>.\<close>

definition improve :: "search \<Rightarrow> cell \<Rightarrow> cell \<Rightarrow> rat \<Rightarrow> pyfloat \<Rightarrow> search" where
  "improve st c n q estimate = st\<lparr>se_came_from := (se_came_from st)(n \<mapsto> c),
     se_best_cost := (se_best_cost st)(n \<mapsto> Fin q), se_serial := se_serial st + 1,
     se_frontier := heap_push \<lparr>en_total = fadd (Fin q) estimate, en_estimate = estimate, en_cost = Fin q,
       en_serial = se_serial st + 1, en_cell = n\<rparr> (se_frontier st)\<rparr>"

lemma improve_best:
  "se_best_cost (improve st c n q h) m = (if m = n then Some (Fin q) else se_best_cost st m)"
  "best_of (improve st c n q h) m = (if m = n then Fin q else best_of st m)"
  "se_expansions (improve st c n q h) = se_expansions st"
  by (simp_all add: improve_def best_of_def)

lemma improve_frontier:
  "e \<in> set (se_frontier (improve st c n q h)) \<longleftrightarrow> e = \<lparr>en_total = fadd (Fin q) h, en_estimate = h, en_cost = Fin q,
       en_serial = se_serial st + 1, en_cell = n\<rparr> \<or> e \<in> set (se_frontier st)"
  using heap.in_push by (simp add: improve_def)

lemma improve_costs:
  assumes "costs_ok st" and "representable q" and "0 \<le> q" and "q \<le> 2 * of_int (se_expansions st)"
  shows "costs_ok (improve st c n q h)"
  using assms by (auto simp: costs_ok_def improve_best)

lemma improve_tree:
  assumes "tree_ok nbrs start st" and "moves nbrs c n" and "n \<noteq> start"
    and "flt (best_of st c) (Fin q)" and "flt (Fin q) (best_of st n)"
  shows "tree_ok nbrs start (improve st c n q h)"
proof -
  let ?st = "improve st c n q h"
  have came: "se_came_from ?st = (se_came_from st)(n \<mapsto> c)" by (simp add: improve_def)
  have ne: "c \<noteq> n" using assms(4,5) by (cases "best_of st c") auto
  have parent: "\<exists>p. se_came_from ?st d = Some p \<and> moves nbrs p d \<and> flt (best_of ?st p) (best_of ?st d)"
    if d: "d \<noteq> start" "se_best_cost ?st d \<noteq> None" for d
  proof (cases "d = n")
    case True
    then show ?thesis using assms(2,4) ne by (simp add: came improve_best)
  next
    case False
    then obtain p where p: "se_came_from st d = Some p" "moves nbrs p d" "flt (best_of st p) (best_of st d)"
      using assms(1) d by (auto simp: tree_ok_def improve_best)
    have "flt (best_of ?st p) (best_of st d)"
      using p(3) assms(5) by (cases "p = n"; cases "best_of st p"; cases "best_of st d") (auto simp: improve_best)
    then show ?thesis using p False by (simp add: came improve_best)
  qed
  have "finite (dom (se_came_from st))" "card (dom (se_came_from st)) \<le> se_serial st"
    using assms(1) by (simp_all add: tree_ok_def)
  then have "finite (dom (se_came_from ?st))" "card (dom (se_came_from ?st)) \<le> se_serial ?st"
    by (simp_all add: came card_insert_if) (simp_all add: improve_def)
  moreover have "se_best_cost ?st start = Some (Fin 0)" "se_came_from ?st start = None"
    using assms(1,3) by (simp_all add: tree_ok_def improve_best came)
  ultimately show ?thesis using parent by (simp add: tree_ok_def)
qed

lemma improve_entries:
  assumes "costs_ok st" and "\<forall>e \<in> set (se_frontier st). entry_ok st e" and "representable q"
    and better: "\<not> fle (best_of st n) (fadd (Fin q) EPSILON)"
  shows "\<forall>e \<in> set (se_frontier (improve st c n q h)). entry_ok (improve st c n q h) e"
proof
  fix e assume e: "e \<in> set (se_frontier (improve st c n q h))"
  show "entry_ok (improve st c n q h) e"
  proof (cases "e \<in> set (se_frontier st)")
    case False
    then show ?thesis using e by (simp add: improve_frontier entry_ok_def improve_best)
  next
    case True
    then obtain b r where b: "se_best_cost st (en_cell e) = Some (Fin b)" and r: "en_cost e = Fin r" "b \<le> r"
      and s: "r = b \<or> stale st e" using assms(2) by (auto simp: entry_ok_def)
    show ?thesis
    proof (cases "en_cell e = n")
      case False
      then show ?thesis using b r s by (simp add: entry_ok_def improve_best stale_def)
    next
      case True
      then have nb: "\<not> fle (Fin b) (fadd (Fin q) EPSILON)" using better b by (simp add: best_of_def)
      then have "q < b" using improves [OF nb assms(3)] by simp
      moreover have "flt (fadd (Fin q) EPSILON) (Fin r)" by (rule improved_is_stale [OF nb assms(3) r(2)])
      ultimately show ?thesis using True r by (simp add: entry_ok_def improve_best stale_def)
    qed
  qed
qed

lemma improve_waiting: "waiting (improve st c n q h) n"
  unfolding waiting_def
  by (rule bexI [of _ "\<lparr>en_total = fadd (Fin q) h, en_estimate = h, en_cost = Fin q,
       en_serial = se_serial st + 1, en_cell = n\<rparr>"]) (simp_all add: improve_frontier improve_best)

lemma improve_cells:
  assumes "cells_ok nbrs goals busy st"
  shows "cells_ok nbrs goals busy (improve st c n q h)"
  unfolding cells_ok_def
proof (intro allI impI)
  fix d assume d: "d \<notin> busy" "se_best_cost (improve st c n q h) d \<noteq> None"
  show "waiting (improve st c n q h) d \<or> expanded nbrs goals (improve st c n q h) d"
  proof (cases "d = n")
    case True
    then show ?thesis by (simp add: improve_waiting)
  next
    case False
    then have "waiting st d \<or> expanded nbrs goals st d" using assms d by (auto simp: cells_ok_def improve_best)
    then show ?thesis using False by (auto simp: waiting_def expanded_def improve_frontier improve_best)
  qed
qed

lemma relax_step:
  assumes ok: "search_ok nbrs start goals busy st" and c: "best_of st c = Fin a" "a + 2 \<le> 2 * of_int (se_expansions st)"
    and limit: "se_expansions st \<le> 2 ^ 51" and edge: "moves nbrs c n" "s = Fin r" "1 \<le> r" "r \<le> 2"
    and run: "relax h c (Fin a) st (n, s) = Inr st'"
  shows "search_ok nbrs start goals busy st' \<and> se_best_cost st' n \<noteq> None \<and> best_of st' c = Fin a
    \<and> se_expansions st' = se_expansions st \<and> (\<forall>d. se_best_cost st d \<noteq> None \<longrightarrow> se_best_cost st' d \<noteq> None)"
proof -
  have costs: "costs_ok st" and tree: "tree_ok nbrs start st" and entries: "\<forall>e \<in> set (se_frontier st). entry_ok st e"
    and cells: "cells_ok nbrs goals busy st" using ok by (simp_all add: search_ok_def)
  have "se_best_cost st c = Some (Fin a)" using c(1) by (simp add: best_of_def split: option.splits)
  then have "0 \<le> a" using costs by (auto simp: costs_ok_def)
  then obtain q where q: "fadd (Fin a) s = Fin q" "a < q" "q \<le> 2 * of_int (se_expansions st)" "representable q"
    unfolding edge(2) using edge(3,4) c(2) limit by (rule edge_candidate)
  show ?thesis
  proof (cases "fle (best_of st n) (fadd (Fin q) EPSILON)")
    case True
    have "se_best_cost st n \<noteq> None"
    proof
      assume "se_best_cost st n = None"
      then show False using True margin_finite [OF _ q(3) limit] q(2) \<open>0 \<le> a\<close> by (simp add: best_of_def)
    qed
    then show ?thesis using True run ok c(1) by (simp add: relax_def q(1) del: fadd.simps)
  next
    case False
    then obtain estimate where st': "st' = improve st c n q estimate"
      using run by (auto simp: relax_def q(1) improve_def Let_def bindE_Inr_iff simp del: fadd.simps)
    have "best_of st n \<noteq> NaN" using costs by (auto simp: best_of_def costs_ok_def split: option.splits)
    with False q(4) have lt: "flt (Fin q) (best_of st n)" by (rule improves)
    then have "n \<noteq> c" "n \<noteq> start" using q(2) \<open>0 \<le> a\<close> c(1) tree by (auto simp: tree_ok_def best_of_def)
    then have "search_ok nbrs start goals busy st'" unfolding search_ok_def st'
      using improve_costs [OF costs q(4) _ q(3)] improve_tree [OF tree edge(1) _ _ lt] improve_cells [OF cells]
        improve_entries [OF costs entries q(4) False] q(2) \<open>0 \<le> a\<close> c(1) by simp
    then show ?thesis using \<open>n \<noteq> c\<close> c(1) by (simp add: st' improve_best)
  qed
qed

lemma relax_all:
  assumes "search_ok nbrs start goals busy st" and "best_of st c = Fin a"
    and limit: "a + 2 \<le> 2 * of_int (se_expansions st)" "se_expansions st \<le> 2 ^ 51"
    and edges: "\<forall>(n, s) \<in> set es. moves nbrs c n \<and> (\<exists>r. s = Fin r \<and> 1 \<le> r \<and> r \<le> 2)"
    and "foldE (relax h c (Fin a)) st es = Inr st'"
  shows "search_ok nbrs start goals busy st' \<and> se_expansions st' = se_expansions st
    \<and> (\<forall>n \<in> fst ` set es. se_best_cost st' n \<noteq> None)
    \<and> (\<forall>d. se_best_cost st d \<noteq> None \<longrightarrow> se_best_cost st' d \<noteq> None)"
  using assms
proof (induction es arbitrary: st)
  case Nil
  then show ?case by simp
next
  case (Cons edge es)
  obtain n s where edge: "edge = (n, s)" by (cases edge)
  from Cons.prems(5) obtain r where e: "moves nbrs c n" "s = Fin r" "1 \<le> r" "r \<le> 2" by (auto simp: edge)
  from Cons.prems(6) obtain st1 where r1: "relax h c (Fin a) st (n, s) = Inr st1"
    and r2: "foldE (relax h c (Fin a)) st1 es = Inr st'" by (auto simp: edge bindE_Inr_iff)
  note one = relax_step [OF Cons.prems(1-4) e r1]
  have "search_ok nbrs start goals busy st' \<and> se_expansions st' = se_expansions st1
    \<and> (\<forall>n \<in> fst ` set es. se_best_cost st' n \<noteq> None)
    \<and> (\<forall>d. se_best_cost st1 d \<noteq> None \<longrightarrow> se_best_cost st' d \<noteq> None)"
    by (rule Cons.IH) (use one Cons.prems(3-5) r2 in simp_all)
  then show ?case using one by (simp add: edge)
qed

subsection \<open>One round of the main loop\<close>

lemma round_ok:
  assumes ok: "search_ok nbrs start goals {} st" and ne: "se_frontier st \<noteq> []"
  defines "e \<equiv> heap_top (se_frontier st)"
  shows "stale st e \<Longrightarrow> search_ok nbrs start goals {} (pop_state st)"
    and "\<not> stale st e \<Longrightarrow> 0 \<le> se_expansions st \<Longrightarrow> search_ok nbrs start goals {en_cell e} (expand_state st)
      \<and> (\<exists>a. en_cost e = Fin a \<and> best_of st (en_cell e) = Fin a \<and> a \<le> 2 * of_int (se_expansions st))"
proof -
  have q: "mset (se_frontier st) \<noteq> {#}" using ne by simp
  have inq: "x \<in> set (se_frontier st) \<longleftrightarrow> x = e \<or> x \<in> set (heap_rest (se_frontier st))" for x
    using heap.in_pop [OF q, of x] by (simp add: e_def)
  have costs: "costs_ok st" and entries: "\<forall>e \<in> set (se_frontier st). entry_ok st e" and cells: "cells_ok nbrs goals {} st"
    and tree: "tree_ok nbrs start st" using ok by (simp_all add: search_ok_def)
  obtain b r where b: "se_best_cost st (en_cell e) = Some (Fin b)" "en_cost e = Fin r" "r = b \<or> stale st e"
  proof -
    have "entry_ok st e" using entries inq by blast
    then show ?thesis using that by (auto simp: entry_ok_def)
  qed
  have rb: "representable b" "b \<le> 2 * of_int (se_expansions st)" using costs b(1) by (auto simp: costs_ok_def)
  show "search_ok nbrs start goals {} (pop_state st)" if s: "stale st e"
  proof -
    have "waiting (pop_state st) c" if w: "waiting st c" for c
    proof -
      from w obtain x where x: "x \<in> set (se_frontier st)" "en_cell x = c" "en_cost x = best_of st c"
        by (auto simp: waiting_def)
      have "x \<noteq> e" using x stale_above [OF s b(1) rb(1)] b(1) by (auto simp: best_of_def)
      with x show ?thesis using inq by (auto simp: waiting_def pop_state_def best_of_def)
    qed
    then show ?thesis using costs tree entries cells inq
      by (auto simp: search_ok_def costs_ok_def tree_ok_def cells_ok_def entry_ok_def expanded_def stale_def best_of_def
          pop_state_def)
  qed
  show "search_ok nbrs start goals {en_cell e} (expand_state st)
      \<and> (\<exists>a. en_cost e = Fin a \<and> best_of st (en_cell e) = Fin a \<and> a \<le> 2 * of_int (se_expansions st))"
    if s: "\<not> stale st e" "0 \<le> se_expansions st"
  proof -
    have "waiting (expand_state st) c" if w: "waiting st c" "c \<noteq> en_cell e" for c
      using w inq by (auto simp: waiting_def expand_state_def pop_state_def best_of_def)
    moreover have "costs_ok (expand_state st)"
      using costs by (fastforce simp: costs_ok_def expand_state_def pop_state_def)
    ultimately have "search_ok nbrs start goals {en_cell e} (expand_state st)" using tree entries cells inq
      by (auto simp: search_ok_def tree_ok_def cells_ok_def entry_ok_def expanded_def stale_def best_of_def
          expand_state_def pop_state_def)
    then show ?thesis using b s(1) rb by (simp add: best_of_def)
  qed
qed

subsection \<open>The search as a whole\<close>

definition below :: "search \<Rightarrow> cell \<Rightarrow> cell set" where
  "below st c = {d \<in> dom (se_came_from st). fle (best_of st d) (best_of st c)}"

lemma flt_imp_fle: "flt x y \<Longrightarrow> fle x y"
  by (cases x; cases y) simp_all

declare flt_irrefl [simp]

lemma sorted_wrt_distinct: "sorted_wrt P xs \<Longrightarrow> (\<And>x. \<not> P x x) \<Longrightarrow> distinct xs"
  by (induction xs) auto

text \<open>Its graph: every edge costs between one and two.\<close>

locale search_graph =
  fixes nbrs :: "cell \<Rightarrow> (cell \<times> pyfloat) list"
  assumes edge_cost: "(n, s) \<in> set (nbrs c) \<Longrightarrow> \<exists>r. s = Fin r \<and> 1 \<le> r \<and> r \<le> 2"
begin

lemma expand_ok:
  assumes "search_ok nbrs start goals {c} st" and "best_of st c = Fin a" and "a + 2 \<le> 2 * of_int (se_expansions st)"
    and "se_expansions st \<le> 2 ^ 51" and "c \<notin> goals" and "foldE (relax h c (Fin a)) st (nbrs c) = Inr st'"
  shows "search_ok nbrs start goals {} st' \<and> se_expansions st' = se_expansions st"
proof -
  have "\<forall>(n, s) \<in> set (nbrs c). moves nbrs c n \<and> (\<exists>r. s = Fin r \<and> 1 \<le> r \<and> r \<le> 2)"
  proof (clarify, rule conjI)
    fix x y s assume e: "((x, y), s) \<in> set (nbrs c)"
    show "moves nbrs c (x, y)" unfolding moves_def by (rule image_eqI [OF _ e]) simp
    show "\<exists>r. s = Fin r \<and> 1 \<le> r \<and> r \<le> 2" using e by (rule edge_cost)
  qed
  note r = relax_all [OF assms(1-4) this assms(6)]
  have ok: "search_ok nbrs start goals {c} st'" and e: "se_expansions st' = se_expansions st"
    and all: "\<forall>n \<in> fst ` set (nbrs c). se_best_cost st' n \<noteq> None"
    using r [THEN conjunct1] r [THEN conjunct2, THEN conjunct1] r [THEN conjunct2, THEN conjunct2, THEN conjunct1] .
  have "expanded nbrs goals st' c" using all assms(5) unfolding expanded_def moves_def by blast
  then have "cells_ok nbrs goals {} st'" using ok by (auto simp: search_ok_def cells_ok_def)
  then show ?thesis using ok e by (simp add: search_ok_def)
qed

text \<open>The state in which the loop ends satisfies the invariant; a goal it reports is one.\<close>

lemma astar_ok:
  assumes "nbrs' = nbrs" and "search_ok nbrs start goals {} st" and "0 \<le> se_expansions st" and "limit \<le> 2 ^ 51"
    and "se_expansions st \<le> limit" and "astar nbrs' h goals limit st = Inr (reached, st')"
  shows "(\<forall>c. reached = Some c \<longrightarrow> c \<in> goals \<and> search_ok nbrs start goals {c} st' \<and> se_best_cost st' c \<noteq> None)
    \<and> (reached = None \<longrightarrow> search_ok nbrs start goals {} st' \<and> (se_frontier st' = [] \<or> se_expansions st' = limit))
    \<and> se_expansions st' \<le> limit"
  using assms
proof (induction nbrs' h goals limit st rule: astar.induct)
  case (1 nbrs' h goals limit st)
  note n = "1.prems"(1) and ok = "1.prems"(2) and run = "1.prems"(6)
  let ?e = "heap_top (se_frontier st)"
  let ?c = "en_cell ?e"
  consider (stop) "se_frontier st = [] \<or> limit \<le> se_expansions st"
    | (stale) "\<not> (se_frontier st = [] \<or> limit \<le> se_expansions st)" "stale st ?e"
    | (goal) "\<not> (se_frontier st = [] \<or> limit \<le> se_expansions st)" "\<not> stale st ?e" "?c \<in> goals"
    | (expand) "\<not> (se_frontier st = [] \<or> limit \<le> se_expansions st)" "\<not> stale st ?e" "?c \<notin> goals" by blast
  then show ?case
  proof cases
    case stop
    then have "reached = None" "st' = st" using run by (simp_all add: astar.simps)
    then show ?thesis using stop ok "1.prems"(5) by auto
  next
    case stale
    then have "astar nbrs' h goals limit (pop_state st) = Inr (reached, st')"
      using run by (subst (asm) astar.simps) (simp add: Let_def)
    moreover have "search_ok nbrs start goals {} (pop_state st)" using round_ok(1) [OF ok] stale by simp
    moreover have "se_expansions (pop_state st) = se_expansions st" by (simp add: pop_state_def)
    ultimately show ?thesis using "1.IH"(1) [OF stale(1) refl refl stale(2) n] "1.prems"(3-5) by simp
  next
    case goal
    then have r: "reached = Some ?c" "st' = expand_state st"
      using run by (simp_all add: astar.simps Let_def)
    have best: "search_ok nbrs start goals {?c} (expand_state st)" "best_of st ?c = en_cost ?e" "en_cost ?e \<noteq> PInf"
      using round_ok(2) [OF ok _ goal(2) "1.prems"(3)] goal(1) by auto
    then have "se_best_cost st' ?c \<noteq> None"
      by (auto simp: r(2) best_of_def expand_state_def pop_state_def split: option.splits)
    then show ?thesis using r best(1) goal by (auto simp: expand_state_def pop_state_def)
  next
    case expand
    then obtain st1 where r: "foldE (relax h ?c (en_cost ?e)) (expand_state st) (nbrs' ?c) = Inr st1"
      and rest: "astar nbrs' h goals limit st1 = Inr (reached, st')"
      using run by (subst (asm) astar.simps) (auto simp: Let_def bindE_Inr_iff)
    obtain a where a: "en_cost ?e = Fin a" "best_of st ?c = Fin a" "a \<le> 2 * of_int (se_expansions st)"
      and ok': "search_ok nbrs start goals {?c} (expand_state st)"
      using round_ok(2) [OF ok _ expand(2) "1.prems"(3)] expand(1) by auto
    have x: "se_expansions (expand_state st) = se_expansions st + 1" "best_of (expand_state st) ?c = Fin a"
      using a(2) by (simp_all add: expand_state_def pop_state_def best_of_def)
    have "search_ok nbrs start goals {} st1 \<and> se_expansions st1 = se_expansions (expand_state st)"
      by (rule expand_ok [OF ok' x(2)]) (use a x expand "1.prems"(3,4) r n in simp_all)
    then show ?thesis
      using "1.IH"(2) [OF expand(1) refl refl expand(2,3) _ n, of st1] r rest expand(1) "1.prems"(3,4) x by simp
  qed
qed

text \<open>A search that ends with an empty queue has expanded every cell that can be reached.\<close>

lemma exhausted:
  assumes "search_ok nbrs start goals {} st" and "se_frontier st = []" and "(moves nbrs)\<^sup>*\<^sup>* start c"
  shows "se_best_cost st c \<noteq> None \<and> c \<notin> goals"
proof -
  have x: "expanded nbrs goals st c" if "se_best_cost st c \<noteq> None" for c
    using assms(1,2) that by (auto simp: search_ok_def cells_ok_def waiting_def)
  from assms(3) have "se_best_cost st c \<noteq> None"
  proof (induction rule: rtranclp_induct)
    case base
    then show ?case using assms(1) by (simp add: search_ok_def tree_ok_def)
  next
    case (step b c)
    then show ?case using x [OF step.IH] by (simp add: expanded_def)
  qed
  then show ?thesis using x by (simp add: expanded_def)
qed

text \<open>The predecessors of a reached cell lead back to the start.\<close>

lemma below_parent:
  assumes "tree_ok nbrs start st" and "c \<noteq> start" and "se_best_cost st c \<noteq> None"
  obtains p where "se_came_from st c = Some p" and "moves nbrs p c" and "flt (best_of st p) (best_of st c)"
    and "se_best_cost st p \<noteq> None" and "card (below st p) < card (below st c)"
proof -
  obtain p where p: "se_came_from st c = Some p" "moves nbrs p c" "flt (best_of st p) (best_of st c)"
    using assms unfolding tree_ok_def by blast
  have "best_of st p \<noteq> PInf" using p(3) by (cases "best_of st c") auto
  then have best: "se_best_cost st p \<noteq> None" by (auto simp: best_of_def split: option.splits)
  have "best_of st c \<noteq> NaN" using p(3) by (cases "best_of st p") auto
  then have c: "c \<in> below st c" using p(1) by (simp add: below_def domI)
  have "c \<notin> below st p" using p(3) flt_fle_trans [OF p(3)] by (cases "best_of st p"; cases "best_of st c") (auto simp: below_def)
  moreover have "below st p \<subseteq> below st c"
    using p(3) by (auto simp: below_def dest: fle_flt_trans intro: flt_imp_fle)
  moreover have "finite (below st c)" using assms(1) by (simp add: tree_ok_def below_def)
  ultimately have "card (below st p) < card (below st c)" using c by (intro psubset_card_mono) auto
  with p best show ?thesis by (rule that)
qed

lemma trace_back_ok:
  assumes "tree_ok nbrs start st" and "se_best_cost st c \<noteq> None" and "card (below st c) \<le> fuel"
    and "best_of st c \<noteq> NaN"
  shows "\<exists>cells. trace_back fuel st start c = Inr cells \<and> cells \<noteq> [] \<and> hd cells = start \<and> last cells = c
    \<and> (\<forall>d \<in> set cells. fle (best_of st d) (best_of st c))
    \<and> sorted_wrt (\<lambda>a b. flt (best_of st a) (best_of st b)) cells \<and> successively (moves nbrs) cells"
  using assms(2-)
proof (induction fuel arbitrary: c)
  case (0 c)
  have "c = start"
    using below_parent [OF assms(1) _ "0.prems"(1)] "0.prems"(2) by fastforce
  then show ?case using "0.prems"(3) by (simp add: trace_back.simps)
next
  case (Suc fuel c)
  show ?case
  proof (cases "c = start")
    case True
    then show ?thesis using Suc.prems(3) by (simp add: trace_back.simps)
  next
    case False
    obtain p where p: "se_came_from st c = Some p" "moves nbrs p c" "flt (best_of st p) (best_of st c)"
      "se_best_cost st p \<noteq> None" "card (below st p) < card (below st c)"
      using assms(1) False Suc.prems(1) by (rule below_parent)
    have "best_of st p \<noteq> NaN" using p(3) by auto
    then obtain cells where r: "trace_back fuel st start p = Inr cells" "cells \<noteq> []" "hd cells = start" "last cells = p"
      "\<forall>d \<in> set cells. fle (best_of st d) (best_of st p)"
      "sorted_wrt (\<lambda>a b. flt (best_of st a) (best_of st b)) cells" "successively (moves nbrs) cells"
      using Suc.IH [OF p(4)] p(5) Suc.prems(2) by auto
    have up: "flt (best_of st d) (best_of st c)" if "d \<in> set cells" for d
      using r(5) that p(3) by (blast intro: fle_flt_trans)
    have "trace_back (Suc fuel) st start c = Inr (cells @ [c])"
      using False p(1) r(1) by (simp add: trace_back.simps [of "Suc fuel"])
    moreover have "\<forall>d \<in> set (cells @ [c]). fle (best_of st d) (best_of st c)"
      using up Suc.prems(3) by (auto intro: flt_imp_fle)
    moreover have "sorted_wrt (\<lambda>a b. flt (best_of st a) (best_of st b)) (cells @ [c])"
      using r(6) up by (simp add: sorted_wrt_append)
    moreover have "successively (moves nbrs) (cells @ [c])"
      using r(2,4,7) p(2) by (simp add: successively_append_iff)
    ultimately show ?thesis using r(2,3) by (intro exI [of _ "cells @ [c]"]) simp
  qed
qed

text \<open>
  The whole search: a reported goal comes with a walk from the start whose costs strictly
  increase; an empty queue means that no goal can be reached.
\<close>

lemma astar_found:
  assumes "astar nbrs h goals limit (search_start start h0) = Inr (Some c, st)" and "1 \<le> limit" and "limit \<le> 2 ^ 51"
  shows "c \<in> goals \<and> (\<exists>cells. trace_back (se_serial st) st start c = Inr cells \<and> cells \<noteq> [] \<and> hd cells = start
    \<and> last cells = c \<and> distinct cells \<and> successively (moves nbrs) cells) \<and> se_expansions st \<le> limit"
proof -
  have x: "se_expansions (search_start start h0) = 0" by (simp add: search_start_def)
  note r = astar_ok [OF refl search_start_ok _ assms(3) _ assms(1)]
  have ok: "search_ok nbrs start goals {c} st" and best: "se_best_cost st c \<noteq> None" and "c \<in> goals"
    and "se_expansions st \<le> limit" using r x assms(2) by auto
  have t: "tree_ok nbrs start st" and costs: "costs_ok st" using ok by (simp_all add: search_ok_def)
  have "card (below st c) \<le> card (dom (se_came_from st))"
    using t by (intro card_mono) (auto simp: tree_ok_def below_def)
  then have "card (below st c) \<le> se_serial st" using t by (simp add: tree_ok_def)
  moreover have "best_of st c \<noteq> NaN" using costs best by (auto simp: costs_ok_def best_of_def split: option.splits dest!: spec [of _ c])
  ultimately obtain cells where "trace_back (se_serial st) st start c = Inr cells" "cells \<noteq> []" "hd cells = start"
    "last cells = c" and s: "sorted_wrt (\<lambda>a b. flt (best_of st a) (best_of st b)) cells"
    and "successively (moves nbrs) cells" using trace_back_ok [OF t best] by blast
  moreover have "distinct cells" using s by (rule sorted_wrt_distinct) (metis flt_irrefl)
  ultimately show ?thesis using \<open>c \<in> goals\<close> \<open>se_expansions st \<le> limit\<close> by blast
qed

lemma astar_exhausted:
  assumes "astar nbrs h goals limit (search_start start h0) = Inr (None, st)" and "1 \<le> limit" and "limit \<le> 2 ^ 51"
  shows "if se_frontier st = [] then \<forall>c \<in> goals. \<not> (moves nbrs)\<^sup>*\<^sup>* start c else se_expansions st = limit"
proof -
  have x: "se_expansions (search_start start h0) = 0" by (simp add: search_start_def)
  note r = astar_ok [OF refl search_start_ok _ assms(3) _ assms(1)]
  have ok: "search_ok nbrs start goals {} st" and e: "se_frontier st = [] \<or> se_expansions st = limit" using r x assms(2) by auto
  show ?thesis
  proof (cases "se_frontier st = []")
    case True
    have "\<not> (moves nbrs)\<^sup>*\<^sup>* start c" if "c \<in> goals" for c
      using exhausted [OF ok True, of c] that by blast
    then show ?thesis using True by simp
  qed (use e in simp)
qed

end

lemma diagonal_cost_Fin: obtains r where "diagonal_cost = Fin r" and "1 \<le> r" and "r \<le> 2"
  by (rule that [of "sqrt_pos 2"]) (simp_all add: diagonal_cost_def fsqrt_2 sqrt_pos_2 del: fsqrt.simps)

interpretation grid: search_graph "neighbours g" for g
proof
  fix n s c assume "(n, s) \<in> set (neighbours g c)"
  then have "s = Fin 1 \<or> s = diagonal_cost" by (auto simp: neighbours_def Let_def split: if_splits)
  then show "\<exists>r. s = Fin r \<and> 1 \<le> r \<and> r \<le> 2" using diagonal_cost_Fin by (metis one_le_numeral order_refl)
qed

declare split_paired_All [simp] split_paired_Ex [simp]

end
