(* ===== verification/NavMap.thy ===== *)
theory NavMap
  imports NavSegment
begin

text \<open>
  Building the occupancy map of \<open>lumina_next/portable_navigation_core_v1.py\<close>: casting
  registered depth into a local grid (\<open>occupancy_from_depth\<close>) and the complete map result
  (\<open>build_occupancy_map\<close>).
\<close>

subsection \<open>Occupancy from depth\<close>

definition raw_grid :: "vec4 \<Rightarrow> rat \<Rightarrow> fvec2 \<Rightarrow> py_exc + fvec2" where
  "raw_grid b res p = (case b of (x0, x1, y0, y1) \<Rightarrow>
     bindE (fdiv (fsub (fst p) (Fin x0)) (Fin res)) (\<lambda>gx.
     bindE (fdiv (fsub (snd p) (Fin y0)) (Fin res)) (\<lambda>gy. Inr (gx, gy))))"

definition raw_cell :: "vec4 \<Rightarrow> rat \<Rightarrow> fvec2 \<Rightarrow> py_exc + cell" where
  "raw_cell b res p = bindE (raw_grid b res p) floor_cell"

text \<open>
  The loop state: the occupancy and the cells of obstacle endpoints. The parameters of the
  loop are fixed in \<open>depth_cast\<close>.
\<close>

record depth_cast =
  dc_bounds :: vec4
  dc_resolution :: rat
  dc_width :: int
  dc_height :: int
  dc_origin_cell :: cell
  dc_origin_grid :: fvec2
  dc_min_height :: rat
  dc_max_height :: rat
  dc_ground_z :: rat

definition free_cell :: "depth_cast \<Rightarrow> occupancy \<Rightarrow> cell \<Rightarrow> occupancy" where
  "free_cell dc occ c =
     (if in_grid (dc_width dc) (dc_height dc) c then occ[cell_index (dc_width dc) c := FREE_VALUE] else occ)"

definition ray_cells :: "depth_cast \<Rightarrow> cell \<Rightarrow> fvec2 \<Rightarrow> py_exc + cell list" where
  "ray_cells dc endpoint endpoint_grid =
     (if in_grid (dc_width dc) (dc_height dc) (dc_origin_cell dc)
      then continuous_segment_cells (dc_origin_grid dc) endpoint_grid False
      else Inr [endpoint])"

definition cast_point :: "depth_cast \<Rightarrow> occupancy \<times> cell list \<Rightarrow> depth_point \<Rightarrow> py_exc + occupancy \<times> cell list" where
  "cast_point dc st p = (case pt_position_m p of (x, y, z) \<Rightarrow>
     bindE (raw_cell (dc_bounds dc) (dc_resolution dc) (x, y)) (\<lambda>endpoint.
     if \<not> in_grid (dc_width dc) (dc_height dc) endpoint then Inr st else
     bindE (raw_grid (dc_bounds dc) (dc_resolution dc) (x, y)) (\<lambda>endpoint_grid.
     bindE (ray_cells dc endpoint endpoint_grid) (\<lambda>ray.
     let occ = foldl (free_cell dc) (fst st) (butlast ray);
         relative_height = fsub z (Fin (dc_ground_z dc)) in
     if fle (Fin (dc_min_height dc)) relative_height \<and> fle relative_height (Fin (dc_max_height dc))
     then Inr (occ, List.insert endpoint (snd st))
     else Inr (occ[cell_index (dc_width dc) endpoint := FREE_VALUE], snd st)))))"

definition occupancy_from_depth ::
  "pylib \<Rightarrow> pyval \<Rightarrow> pyval \<Rightarrow> pyval \<Rightarrow> pyval \<Rightarrow> pyval \<Rightarrow> pyval \<Rightarrow> pyval \<Rightarrow> pyval \<Rightarrow> pyval
     \<Rightarrow> py_exc + int \<times> int \<times> occupancy" where
  "occupancy_from_depth L capture bounds_xy res_v fp_v clear_v ground_z_v min_height_v max_height_v confidence_v =
     bindE (validate_capture_result L capture PNone PNone) (\<lambda>cap.
     bindE (n_bounds bounds_xy) (\<lambda>b.
     bindE (n_number (Some (lit (1/100))) res_v ''resolution_m'') (\<lambda>res.
     bindE (grid_dimensions b res) (\<lambda>(width, height).
     bindE (project_depth_samples L (capture_result_val cap) PNone confidence_v (num_val (lit (1/1000))) (num_val 10000)) (\<lambda>points.
     let origin = (case f3 (cam_position_m (cap_camera cap)) of (x, y, z) \<Rightarrow> (x, y)) in
     bindE (raw_cell b res origin) (\<lambda>origin_cell.
     bindE (raw_grid b res origin) (\<lambda>origin_grid.
     bindE (n_number None min_height_v ''obstacle_height_min_m'') (\<lambda>min_height.
     bindE (n_number None max_height_v ''obstacle_height_max_m'') (\<lambda>max_height.
     bindE (guardE (min_height \<le> max_height)
              (CoreError ''PORTABLE_CORE_HEIGHT_RANGE_INVALID'' ''obstacle_height_max_m'')) (\<lambda>_.
     bindE (n_number None ground_z_v ''ground_z_m'') (\<lambda>ground_z.
     let dc = \<lparr>dc_bounds = b, dc_resolution = res, dc_width = width, dc_height = height,
               dc_origin_cell = origin_cell, dc_origin_grid = origin_grid, dc_min_height = min_height,
               dc_max_height = max_height, dc_ground_z = ground_z\<rparr> in
     bindE (foldE (cast_point dc) (replicate (nat (width * height)) UNKNOWN_VALUE, []) points) (\<lambda>(occ, hits).
     let marked = foldl (\<lambda>o' c. o'[cell_index width c := OCCUPIED_VALUE]) occ hits in
     bindE (n_number (Some 0) fp_v ''footprint_radius_m'') (\<lambda>fp.
     bindE (n_number (Some 0) clear_v ''minimum_clearance_m'') (\<lambda>clear.
     let total = fadd (Fin fp) (Fin clear) in
     bindE (inflate_occupancy marked width height (num_val res) (PFloat total) UNKNOWN_VALUE OCCUPIED_THRESHOLD) (\<lambda>inflated.
     bindE (erode_boundary_cells inflated width height b res total) (\<lambda>eroded.
     Inr (width, height, eroded)))))))))))))))))"

subsection \<open>The map result\<close>

definition merge_sensed :: "occupancy \<Rightarrow> occupancy \<Rightarrow> occupancy" where
  "merge_sensed metric sensed =
     foldl (\<lambda>o' (i, v). if OCCUPIED_THRESHOLD \<le> v then o'[i := OCCUPIED_VALUE] else o') metric
       (zip [0..<length sensed] sensed)"

definition sense_depth ::
  "pylib \<Rightarrow> map_request \<Rightarrow> vec4 \<Rightarrow> pyval \<Rightarrow> pyval \<Rightarrow> capture_result \<Rightarrow> py_exc + int \<times> int \<times> occupancy" where
  "sense_depth L q b clear_v ground_z_v cap =
     occupancy_from_depth L (capture_result_val cap) (bounds_val b) (num_val (mq_resolution_m q))
       (num_val (mq_footprint_radius_m q)) clear_v ground_z_v (num_val (lit (5/100))) (num_val (lit (22/10)))
       (num_val (1/4))"

text \<open>The occupancy of the map: metric obstacles, united with sensed obstacles, or depth alone.\<close>

definition map_occupancy ::
  "pylib \<Rightarrow> map_request \<Rightarrow> vec4 \<Rightarrow> pyval list option \<Rightarrow> capture_result option \<Rightarrow> pyval \<Rightarrow> pyval
     \<Rightarrow> py_exc + int \<times> int \<times> occupancy" where
  "map_occupancy L q b obstacles capture clear_v ground_z_v =
     (case obstacles of
        Some raws \<Rightarrow>
          bindE (rasterize_occupancy (bounds_val b) raws (num_val (mq_resolution_m q))
                   (num_val (mq_footprint_radius_m q)) clear_v None) (\<lambda>(width, height, occ).
          case capture of
            None \<Rightarrow> Inr (width, height, occ)
          | Some cap \<Rightarrow>
              if cap_depth cap = None then Inr (width, height, occ) else
              bindE (sense_depth L q b clear_v ground_z_v cap) (\<lambda>(_, _, sensed).
              Inr (width, height, merge_sensed occ sensed)))
      | None \<Rightarrow>
          (case capture of
             None \<Rightarrow> n_error ''PORTABLE_CORE_MAP_SOURCE_REQUIRED'' ''obstacles or capture_result''
           | Some cap \<Rightarrow>
               if cap_depth cap = None then n_error ''PORTABLE_CORE_DEPTH_REQUIRED'' ''capture_result.depth''
               else sense_depth L q b clear_v ground_z_v cap))"

definition map_capture :: "pylib \<Rightarrow> map_request \<Rightarrow> pyval option \<Rightarrow> py_exc + capture_result option" where
  "map_capture L q capture =
     (case capture of None \<Rightarrow> Inr None
      | Some v \<Rightarrow>
          bindE (validate_capture_result L v PNone PNone) (\<lambda>cap.
          bindE (guardE (rs_environment_id cap = rq_environment_id q)
                   (CoreError ''PORTABLE_CORE_LINEAGE_MISMATCH'' ''environment_id'')) (\<lambda>_.
          bindE (guardE (rs_session_id cap = rq_session_id q)
                   (CoreError ''PORTABLE_CORE_LINEAGE_MISMATCH'' ''session_id'')) (\<lambda>_.
          bindE (guardE (cap_frame_id cap = mq_source_frame_id q)
                   (CoreError ''PORTABLE_CORE_LINEAGE_MISMATCH'' ''source_frame_id'')) (\<lambda>_.
          Inr (Some cap))))))"

definition map_identity :: "pylib \<Rightarrow> map_request \<Rightarrow> vec4 \<Rightarrow> string \<Rightarrow> py_exc + string" where
  "map_identity L q b digest = opaque_id L ''map''
     (PDict [(''environment_id'', PStr (rq_environment_id q)), (''session_id'', PStr (rq_session_id q)),
        (''source_frame_id'', PStr (mq_source_frame_id q)), (''bounds_xy'', bounds_val b),
        (''resolution_m'', num_val (mq_resolution_m q)), (''occupancy_sha256'', PStr digest)])"

definition map_frame :: "pylib \<Rightarrow> map_request \<Rightarrow> capture_result option \<Rightarrow> py_exc + string" where
  "map_frame L q capture =
     (case capture of
        Some cap \<Rightarrow> Inr (cam_coordinate_frame_id (cap_camera cap))
      | None \<Rightarrow> opaque_id L ''world'' (PList [PStr (rq_environment_id q), PStr (rq_session_id q)]))"

definition map_created :: "map_request \<Rightarrow> capture_result option \<Rightarrow> pyval \<Rightarrow> py_exc + rat" where
  "map_created q capture created_v =
     (if created_v = PNone
      then Inr (max (rq_requested_unix q) (case capture of Some cap \<Rightarrow> cap_captured_unix cap | None \<Rightarrow> 0))
      else n_number (Some 0) created_v ''created_unix'')"

definition map_envelope ::
  "pylib \<Rightarrow> map_request \<Rightarrow> vec4 \<Rightarrow> pyval \<Rightarrow> string \<Rightarrow> string \<Rightarrow> string \<Rightarrow> rat \<Rightarrow> int \<times> int \<times> occupancy \<Rightarrow> vec3
     \<Rightarrow> fvec4 \<Rightarrow> pyval" where
  "map_envelope L q b ground_z_v mid cframe digest created occ position orientation =
     (case b of (x0, x1, y0, y1) \<Rightarrow> case occ of (width, height, bytes) \<Rightarrow>
      PDict [(''schema_version'', PStr MAP_RESULT_SCHEMA), (''request_id'', PStr (rq_request_id q)),
        (''environment_id'', PStr (rq_environment_id q)), (''session_id'', PStr (rq_session_id q)),
        (''map_id'', PStr mid), (''source_frame_id'', PStr (mq_source_frame_id q)),
        (''created_unix'', num_val created), (''coordinate_frame_id'', PStr cframe),
        (''coordinate_convention'', PStr COORDINATE_CONVENTION),
        (''grid'', PDict [(''width_cells'', PInt width), (''height_cells'', PInt height),
           (''resolution_m'', num_val (mq_resolution_m q)),
           (''origin_position_m'', PList [num_val x0, num_val y0, ground_z_v]),
           (''origin_orientation_xyzw'', PList [num_val 0, num_val 0, num_val 0, num_val 1]),
           (''occupancy_encoding'', PStr ''u8_probability''),
           (''occupancy_base64'', PStr (b64encode L (to_bytes bytes))), (''occupancy_sha256'', PStr digest),
           (''unknown_value'', PInt UNKNOWN_VALUE), (''occupied_threshold'', PInt OCCUPIED_THRESHOLD)]),
        (''agent'', PDict [(''position_m'', v3_val position), (''orientation_xyzw'', fvec4_val orientation),
           (''footprint_radius_m'', num_val (mq_footprint_radius_m q))])])"

definition build_occupancy_map ::
  "pylib \<Rightarrow> pyval \<Rightarrow> pyval \<Rightarrow> pyval list option \<Rightarrow> pyval option \<Rightarrow> pyval \<Rightarrow> pyval \<Rightarrow> pyval \<Rightarrow> pyval \<Rightarrow> pyval
     \<Rightarrow> py_exc + map_result" where
  "build_occupancy_map L request bounds_xy obstacles capture position_v orientation_v clear_v created_v ground_z_v =
     bindE (validate_map_request request) (\<lambda>q.
     bindE (n_bounds bounds_xy) (\<lambda>b.
     bindE (guardE (obstacles \<noteq> None \<or> capture \<noteq> None)
              (CoreError ''PORTABLE_CORE_MAP_SOURCE_REQUIRED'' ''obstacles or capture_result'')) (\<lambda>_.
     bindE (map_capture L q capture) (\<lambda>cap.
     bindE (map_occupancy L q b obstacles cap clear_v ground_z_v) (\<lambda>(width, height, occ).
     bindE (n_vector3 position_v ''agent_position_m'') (\<lambda>position.
     bindE (n_vector4 orientation_v ''agent_orientation_xyzw'') (\<lambda>orientation.
     bindE (f_norm (case f4 orientation of (x, y, z, w) \<Rightarrow> [x, y, z, w])) (\<lambda>norm.
     bindE (guardE (unit_norm norm) (CoreError ''PORTABLE_CORE_QUATERNION_INVALID'' ''agent_orientation_xyzw'')) (\<lambda>_.
     bindE (map_created q cap created_v) (\<lambda>created.
     let digest = sha256hex L (to_bytes occ) in
     bindE (map_identity L q b digest) (\<lambda>mid.
     bindE (map_frame L q cap) (\<lambda>cframe.
     bindE (normalised_quaternion orientation ''agent_orientation_xyzw'') (\<lambda>unit.
     validate_map_result L
       (map_envelope L q b ground_z_v mid cframe digest created (width, height, occ) position unit)
       (map_request_val q) PNone)))))))))))))"

end
