(* ===== verification/NavPath.thy ===== *)
theory NavPath
  imports NavSegment
begin

text \<open>
  Facts about segments and paths: when the traversal of a segment returns, that it cuts no
  corner, what a collision report of a path means, and what string pulling keeps.
\<close>

subsection \<open>When the traversal returns\<close>

text \<open>
  An axis along which the segment does not move has infinite parameters; the loop can then
  never advance on it.
\<close>

definition idle_axis :: "int \<Rightarrow> pyfloat \<Rightarrow> pyfloat \<Rightarrow> bool" where
  "idle_axis s m t = (s = 0 \<longrightarrow> m = PInf \<and> t = PInf)"

definition unit_step :: "int \<Rightarrow> bool" where
  "unit_step s = (s = -1 \<or> s = 0 \<or> s = 1)"

lemma unit_step_of [simp]: "unit_step (step_of d)"
  by (simp add: unit_step_def step_of_def)

lemma axis_setup_idle: "axis_setup x c d = Inr (m, t) \<Longrightarrow> idle_axis (step_of d) m t"
  by (auto simp: axis_setup_def idle_axis_def bindE_Inr_iff split: if_splits)

lemma idle_axis_add: "idle_axis s m t \<Longrightarrow> idle_axis s (fadd m t) t"
  by (auto simp: idle_axis_def)

lemma tie_moves:
  assumes "segment_tie mx my" and "idle_axis sx mx tx" and "idle_axis sy my ty"
  shows "sx \<noteq> 0" and "sy \<noteq> 0"
  using assms by (cases mx; cases my; auto simp: segment_tie_def fsub_def idle_axis_def)+

lemma lt_moves: "flt mx my \<Longrightarrow> idle_axis sx mx tx \<Longrightarrow> sx \<noteq> 0"
  by (cases my) (auto simp: idle_axis_def)

lemma segment_loop_Suc:
  "segment_loop (Suc n) corner stop sx sy tx ty c mx my =
     (if c = stop then Inr []
      else if segment_tie mx my then
        bindE (segment_loop n corner stop sx sy tx ty (fst c + sx, snd c + sy) (fadd mx tx) (fadd my ty)) (\<lambda>cs.
        Inr ((if corner \<and> sx \<noteq> 0 \<and> sy \<noteq> 0 then [(fst c + sx, snd c), (fst c, snd c + sy)] else [])
             @ (fst c + sx, snd c + sy) # cs))
      else if flt mx my then
        bindE (segment_loop n corner stop sx sy tx ty (fst c + sx, snd c) (fadd mx tx) my) (\<lambda>cs.
        Inr ((fst c + sx, snd c) # cs))
      else
        bindE (segment_loop n corner stop sx sy tx ty (fst c, snd c + sy) mx (fadd my ty)) (\<lambda>cs.
        Inr ((fst c, snd c + sy) # cs)))"
  by (subst segment_loop.simps) (simp only: Let_def nat.case)

lemma bindE_mono: "bindE f k = Inr r \<Longrightarrow> (\<And>x. f = Inr x \<Longrightarrow> g = Inr x) \<Longrightarrow> bindE g k = Inr r"
  by (auto simp: bindE_Inr_iff)

lemma segment_loop_mono:
  "segment_loop n corner stop sx sy tx ty c mx my = Inr cs \<Longrightarrow> n \<le> m \<Longrightarrow>
     segment_loop m corner stop sx sy tx ty c mx my = Inr cs"
proof (induction n arbitrary: m c mx my cs)
  case 0
  then show ?case by (simp add: segment_loop.simps split: if_splits)
next
  case (Suc n)
  from Suc.prems(2) obtain k where m: "m = Suc k" and k: "n \<le> k" by (cases m) auto
  note IH = Suc.IH [OF _ k]
  show ?case
  proof (cases "c = stop")
    case True
    then show ?thesis using Suc.prems(1) by (simp add: m segment_loop_Suc)
  next
    case False
    then show ?thesis using Suc.prems(1) unfolding m
      by (cases "segment_tie mx my"; cases "flt mx my"; simp only: segment_loop_Suc if_True if_False)
        (erule bindE_mono, erule IH)+
  qed
qed

lemma segment_loop_stuck:
  assumes "c \<noteq> stop" and "\<not> segment_tie mx my" and "\<not> flt mx my" and "sy = 0" and "idle_axis sy my ty"
  shows "segment_loop m corner stop sx sy tx ty c mx my \<noteq> Inr cs"
proof (induction m arbitrary: cs)
  case 0
  then show ?case using assms(1) by (simp add: segment_loop.simps)
next
  case (Suc m)
  have "my = PInf" "ty = PInf" using assms(4,5) by (simp_all add: idle_axis_def)
  then have same: "(fst c, snd c + sy) = c" "fadd my ty = my" using assms(4) by simp_all
  have "segment_loop (Suc m) corner stop sx sy tx ty c mx my =
      bindE (segment_loop m corner stop sx sy tx ty c mx my) (\<lambda>cs. Inr (c # cs))"
    using assms(1-3) by (simp only: segment_loop_Suc if_False same)
  then show ?case using Suc by (simp only: bindE_Inr_iff) blast
qed

definition heading :: "int \<Rightarrow> int \<Rightarrow> int \<Rightarrow> bool" where
  "heading s a b = (0 \<le> s * (b - a) \<and> (s = 0 \<longrightarrow> a = b))"

lemma heading_step:
  "unit_step s \<Longrightarrow> s \<noteq> 0 \<Longrightarrow> heading s (a + s) b \<Longrightarrow> heading s a b \<and> \<bar>b - a\<bar> = \<bar>b - (a + s)\<bar> + 1"
  by (auto simp: heading_def unit_step_def)

text \<open>
  A run that returns moves towards the last cell in every iteration, so the number of its
  iterations is at most the number of cells between the ends.
\<close>

lemma segment_loop_bound:
  assumes "segment_loop n corner stop sx sy tx ty c mx my = Inr cs"
    and "unit_step sx" and "unit_step sy" and "idle_axis sx mx tx" and "idle_axis sy my ty"
  shows "heading sx (fst c) (fst stop) \<and> heading sy (snd c) (snd stop)
    \<and> segment_loop (segment_bound c stop) corner stop sx sy tx ty c mx my = Inr cs"
  using assms
proof (induction n arbitrary: c mx my cs)
  case 0
  then show ?case by (auto simp: segment_loop.simps heading_def segment_bound_def split: if_splits)
next
  case (Suc n)
  note IH = Suc.IH [OF _ Suc.prems(2,3)]
  show ?case
  proof (cases "c = stop")
    case True
    then show ?thesis using Suc.prems(1) by (auto simp: segment_loop.simps heading_def)
  next
    case ne: False
    consider (tie) "segment_tie mx my" | (x) "\<not> segment_tie mx my" "flt mx my"
      | (y) "\<not> segment_tie mx my" "\<not> flt mx my" by blast
    then show ?thesis
    proof cases
      case tie
      let ?c = "(fst c + sx, snd c + sy)"
      note mv = tie_moves [OF tie Suc.prems(4,5)]
      from Suc.prems(1) ne tie obtain cs' where
        r: "segment_loop n corner stop sx sy tx ty ?c (fadd mx tx) (fadd my ty) = Inr cs'"
        and cs: "cs = (if corner \<and> sx \<noteq> 0 \<and> sy \<noteq> 0 then [(fst c + sx, snd c), (fst c, snd c + sy)] else []) @ ?c # cs'"
        by (simp only: segment_loop_Suc if_False if_True bindE_Inr_iff sum.inject) blast
      note ih = IH [OF r idle_axis_add [OF Suc.prems(4)] idle_axis_add [OF Suc.prems(5)]]
      have hx: "heading sx (fst c) (fst stop)" "\<bar>fst stop - fst c\<bar> = \<bar>fst stop - (fst c + sx)\<bar> + 1"
        and hy: "heading sy (snd c) (snd stop)" "\<bar>snd stop - snd c\<bar> = \<bar>snd stop - (snd c + sy)\<bar> + 1"
        using heading_step [OF Suc.prems(2) mv(1)] heading_step [OF Suc.prems(3) mv(2)] ih by simp_all
      have b: "segment_bound c stop = Suc (Suc (segment_bound ?c stop))"
        using hx(2) hy(2) unfolding segment_bound_def by (simp add: nat_eq_iff)
      have "segment_loop (Suc (segment_bound ?c stop)) corner stop sx sy tx ty ?c (fadd mx tx) (fadd my ty) = Inr cs'"
        by (rule segment_loop_mono [OF ih [THEN conjunct2, THEN conjunct2]]) simp
      then have "segment_loop (segment_bound c stop) corner stop sx sy tx ty c mx my = Inr cs"
        using ne tie by (simp only: b cs segment_loop_Suc if_False if_True bindE_simps)
      then show ?thesis using hx hy by simp
    next
      case x
      let ?c = "(fst c + sx, snd c)"
      note mv = lt_moves [OF x(2) Suc.prems(4)]
      from Suc.prems(1) ne x obtain cs' where
        r: "segment_loop n corner stop sx sy tx ty ?c (fadd mx tx) my = Inr cs'" and cs: "cs = ?c # cs'"
        by (simp only: segment_loop_Suc if_False if_True bindE_Inr_iff sum.inject) blast
      note ih = IH [OF r idle_axis_add [OF Suc.prems(4)] Suc.prems(5)]
      have hx: "heading sx (fst c) (fst stop)" "\<bar>fst stop - fst c\<bar> = \<bar>fst stop - (fst c + sx)\<bar> + 1"
        using heading_step [OF Suc.prems(2) mv] ih by simp_all
      have b: "segment_bound c stop = Suc (segment_bound ?c stop)"
        using hx(2) by (simp add: segment_bound_def)
      have "segment_loop (segment_bound c stop) corner stop sx sy tx ty c mx my = Inr cs"
        using ne x ih by (simp only: b cs segment_loop_Suc if_False if_True bindE_simps)
      then show ?thesis using hx ih by simp
    next
      case y
      let ?c = "(fst c, snd c + sy)"
      from Suc.prems(1) ne y obtain cs' where
        r: "segment_loop n corner stop sx sy tx ty ?c mx (fadd my ty) = Inr cs'" and cs: "cs = ?c # cs'"
        by (simp only: segment_loop_Suc if_False if_True bindE_Inr_iff sum.inject) blast
      note ih = IH [OF r Suc.prems(4) idle_axis_add [OF Suc.prems(5)]]
      show ?thesis
      proof (cases "sy = 0")
        case True
        then show ?thesis using segment_loop_stuck [OF ne y] Suc.prems by blast
      next
        case False
        have hy: "heading sy (snd c) (snd stop)" "\<bar>snd stop - snd c\<bar> = \<bar>snd stop - (snd c + sy)\<bar> + 1"
          using heading_step [OF Suc.prems(3) False] ih by simp_all
        have b: "segment_bound c stop = Suc (segment_bound ?c stop)"
          using hy(2) by (simp add: segment_bound_def)
        have "segment_loop (segment_bound c stop) corner stop sx sy tx ty c mx my = Inr cs"
          using ne y ih by (simp only: b cs segment_loop_Suc if_False if_True bindE_simps)
        then show ?thesis using hy ih by simp
      qed
    qed
  qed
qed

lemma segment_loop_errors: "segment_loop n corner stop sx sy tx ty c mx my = Inl e \<Longrightarrow> e = PyNoReturn"
proof (induction n arbitrary: c mx my)
  case 0
  then show ?case by (simp add: segment_loop.simps split: if_splits)
next
  case (Suc n)
  from Suc.prems show ?case
    by (cases "c = stop"; cases "segment_tie mx my"; cases "flt mx my";
      simp only: segment_loop_Suc if_True if_False bindE_Inl_iff sum.simps simp_thms; blast intro: Suc.IH)
qed

lemma segment_run_bound:
  assumes "segment_run n p q corner start stop = Inr cells"
  shows "segment_run (segment_bound start stop) p q corner start stop = Inr cells"
proof -
  let ?dx = "fsub (fst q) (fst p)" and ?dy = "fsub (snd q) (snd p)"
  from assms obtain mx tx my ty cs where
    x: "axis_setup (fst p) (fst start) ?dx = Inr (mx, tx)" and y: "axis_setup (snd p) (snd start) ?dy = Inr (my, ty)"
    and r: "segment_loop n corner stop (step_of ?dx) (step_of ?dy) tx ty start mx my = Inr cs"
    and cells: "cells = fromkeys (start # cs)"
    by (auto simp: segment_run_def Let_def bindE_Inr_iff)
  have "segment_loop (segment_bound start stop) corner stop (step_of ?dx) (step_of ?dy) tx ty start mx my = Inr cs"
    using segment_loop_bound [OF r] axis_setup_idle [OF x] axis_setup_idle [OF y] by simp
  then show ?thesis by (simp add: segment_run_def Let_def x y cells)
qed

lemma segment_run_errors:
  assumes "segment_run n p q corner start stop = Inl e"
  shows "e = PyNoReturn \<or> segment_run m p q corner start stop = Inl e"
proof -
  let ?dx = "fsub (fst q) (fst p)" and ?dy = "fsub (snd q) (snd p)"
  show ?thesis
  proof (cases "axis_setup (fst p) (fst start) ?dx")
    case (Inl a)
    then show ?thesis using assms by (simp add: segment_run_def Let_def)
  next
    case x: (Inr a)
    obtain mx tx where a: "a = (mx, tx)" by (cases a)
    show ?thesis
    proof (cases "axis_setup (snd p) (snd start) ?dy")
      case (Inl b)
      then show ?thesis using assms x a by (simp add: segment_run_def Let_def)
    next
      case y: (Inr b)
      obtain my ty where b: "b = (my, ty)" by (cases b)
      from assms x y a b have "segment_loop n corner stop (step_of ?dx) (step_of ?dy) tx ty start mx my = Inl e"
        by (simp add: segment_run_def Let_def bindE_Inl_iff)
      then show ?thesis using segment_loop_errors by blast
    qed
  qed
qed

subsection \<open>Clear paths\<close>

text \<open>
  The specification of the report: a segment is clear when its end cells are in the grid and
  every cell of its traversal is traversable.
\<close>

definition segment_clear :: "grid_view \<Rightarrow> vec3 \<Rightarrow> vec3 \<Rightarrow> bool" where
  "segment_clear g p q = (\<exists>a b start stop cells.
     world_to_grid_coordinates g (f3 p) = Inr a \<and> world_to_grid_coordinates g (f3 q) = Inr b
     \<and> floor_cell a = Inr start \<and> floor_cell b = Inr stop \<and> gv_in g start \<and> gv_in g stop
     \<and> continuous_segment_cells a b True = Inr cells \<and> list_all (\<lambda>c. \<not> gv_blocked g c) cells)"

definition path_clear :: "grid_view \<Rightarrow> vec3 list \<Rightarrow> bool" where
  "path_clear g ps = (\<forall>i. Suc i < length ps \<longrightarrow> segment_clear g (ps ! i) (ps ! Suc i))"

lemma path_clear_Cons: "path_clear g (p # q # ps) \<longleftrightarrow> segment_clear g p q \<and> path_clear g (q # ps)"
  unfolding path_clear_def by (auto simp: nth_Cons split: nat.splits)

lemma path_clear_short: "length ps \<le> 1 \<Longrightarrow> path_clear g ps"
  by (simp add: path_clear_def)

lemma first_where_None: "first_where P xs = None \<longleftrightarrow> list_all (\<lambda>x. \<not> P x) xs"
  by (induction xs) (simp_all add: first_where_def)

lemma first_where_Some: "first_where P xs = Some x \<Longrightarrow> x \<in> set xs \<and> P x"
proof -
  assume "first_where P xs = Some x"
  then obtain ys where "filter P xs = x # ys" by (auto simp: first_where_def split: list.splits)
  then have "x \<in> set (filter P xs)" by simp
  then show ?thesis by simp
qed

lemma segment_report_clear:
  "segment_report g i p q = Inr None \<longleftrightarrow> segment_clear g p q"
proof
  assume r: "segment_report g i p q = Inr None"
  then obtain a b start stop where *: "world_to_grid_coordinates g (f3 p) = Inr a"
    "world_to_grid_coordinates g (f3 q) = Inr b" "floor_cell a = Inr start" "floor_cell b = Inr stop"
    by (auto simp: segment_report_def bindE_Inr_iff)
  from r * have "gv_in g start" "gv_in g stop" by (auto simp: segment_report_def split: if_splits)
  with r * have "bindE (continuous_segment_cells a b True) (\<lambda>cells.
      Inr (case first_where (gv_blocked g) cells of
             None \<Rightarrow> None
           | Some c \<Rightarrow> Some (hit_report (if gv_in g c then ''blocked'' else ''out_of_bounds'') i c))) = Inr None"
    by (simp add: segment_report_def)
  then obtain cells where "continuous_segment_cells a b True = Inr cells"
      "(case first_where (gv_blocked g) cells of
             None \<Rightarrow> None
           | Some c \<Rightarrow> Some (hit_report (if gv_in g c then ''blocked'' else ''out_of_bounds'') i c)) = None"
    by (simp only: bindE_Inr_iff) blast
  then have "continuous_segment_cells a b True = Inr cells" "first_where (gv_blocked g) cells = None"
    by (simp, cases "first_where (gv_blocked g) cells") simp_all
  with * \<open>gv_in g start\<close> \<open>gv_in g stop\<close> show "segment_clear g p q"
    unfolding segment_clear_def first_where_None by blast
next
  assume "segment_clear g p q"
  then show "segment_report g i p q = Inr None"
    by (auto simp: segment_clear_def segment_report_def first_where_None [symmetric])
qed

lemma hit_report_valid [simp]: "\<not> cr_valid (hit_report reason i c)"
  by (simp add: hit_report_def)

lemma segment_report_hit: "segment_report g i p q = Inr (Some rep) \<Longrightarrow> \<not> cr_valid rep"
  unfolding segment_report_def
  by (elim bindE_InrE, split if_split_asm, metis Inr_inject hit_report_valid option.inject, split if_split_asm, metis Inr_inject hit_report_valid option.inject,
      erule bindE_InrE, split option.split_asm, simp, metis Inr_inject hit_report_valid option.inject)

lemma segments_report_valid:
  "segments_report g i ps = Inr rep \<Longrightarrow> cr_valid rep \<longleftrightarrow> path_clear g ps"
proof (induction g i ps rule: segments_report.induct)
  case (1 g i p q ps)
  from "1.prems" obtain r where r: "segment_report g i p q = Inr r"
    and rest: "(case r of Some rep' \<Rightarrow> Inr rep' | None \<Rightarrow> segments_report g (Suc i) (q # ps)) = Inr rep"
    by (auto simp: bindE_Inr_iff)
  show ?case
  proof (cases r)
    case None
    then show ?thesis using "1.IH" [of r] r rest by (simp add: path_clear_Cons segment_report_clear)
  next
    case (Some rep')
    then have "\<not> segment_clear g p q" using r by (simp flip: segment_report_clear [of g i])
    then show ?thesis using segment_report_hit [of g i p q rep'] r rest Some by (simp add: path_clear_Cons)
  qed
qed (auto simp: clear_report_def path_clear_short)

definition endpoint_clear :: "grid_view \<Rightarrow> vec3 \<Rightarrow> bool" where
  "endpoint_clear g p = (\<exists>c. world_to_cell g (f3 p) = Inr c \<and> \<not> gv_blocked g c)"

lemma points_report_valid:
  "points_report g ps = Inr rep \<Longrightarrow>
     cr_valid rep \<longleftrightarrow> path_clear g ps \<and> (length ps = 1 \<longrightarrow> endpoint_clear g (hd ps))"
proof -
  assume r: "points_report g ps = Inr rep"
  consider "length ps = 1" | "length ps \<noteq> 1" by blast
  then show ?thesis
  proof cases
    case 1
    then obtain p where ps: "ps = [p]" by (auto simp: length_Suc_conv)
    from r obtain c where "world_to_cell g (f3 p) = Inr c" "cr_valid rep = (\<not> gv_blocked g c)"
      by (auto simp: points_report_def ps bindE_Inr_iff Let_def)
    then show ?thesis by (auto simp: ps path_clear_short endpoint_clear_def)
  next
    case 2
    then have "points_report g ps = segments_report g 0 ps"
      by (auto simp: points_report_def split: list.splits)
    with r 2 show ?thesis by (simp add: segments_report_valid)
  qed
qed

lemma n_vector3_v3_val [simp]: "n_vector3 (v3_val p) field = Inr p"
  by (cases p) (simp add: n_vector3_def n_vector_def v3_val_def num_val_def n_number_def)

lemma n_points_points [simp]: "n_points (map v3_val ps) field = Inr ps"
  by (simp add: n_points_def mapiE_Inr_iff)

lemma validate_path_collision_points:
  assumes "validate_path_collision L grid (points_val ps) additional = Inr ok"
  shows "ps \<noteq> [] \<and> (\<exists>g. grid_with_inflation L grid additional = Inr g
    \<and> ok = (path_clear g ps \<and> (length ps = 1 \<longrightarrow> endpoint_clear g (hd ps))))"
proof -
  from assms obtain rep where rep: "path_collision_report L grid (points_val ps) additional = Inr rep"
    and ok: "ok = cr_valid rep" by (auto simp: validate_path_collision_def bindE_Inr_iff)
  have ne: "ps \<noteq> []" using rep by (auto simp: path_collision_report_def points_val_def)
  then have "bindE (n_points (map v3_val ps) ''points_m'') (\<lambda>points.
      bindE (grid_with_inflation L grid additional) (\<lambda>g. points_report g points)) = Inr rep"
    using rep by (cases ps) (auto simp: path_collision_report_def points_val_def)
  then obtain g where "grid_with_inflation L grid additional = Inr g" "points_report g ps = Inr rep"
    by (auto simp: bindE_Inr_iff)
  with ne ok points_report_valid show ?thesis by blast
qed

subsection \<open>String pulling\<close>

lemma pull_from_indices:
  "pull_from L grid additional points anchor = Inr ks \<Longrightarrow> anchor < length points \<Longrightarrow>
     sorted_wrt (<) (anchor # ks) \<and> list_all (\<lambda>k. k < length points) ks \<and> last (anchor # ks) = length points - 1"
proof (induction L grid additional points anchor arbitrary: ks rule: pull_from.induct)
  case (1 L grid additional points anchor)
  show ?case
  proof (cases "anchor < length points - 1")
    case False
    then show ?thesis using "1.prems" by (subst (asm) pull_from.simps) auto
  next
    case True
    with "1.prems"(1) obtain k rest where k: "furthest_visible L grid additional points anchor (length points - 1) = Inr k"
      and rest: "pull_from L grid additional points k = Inr rest" and ks: "ks = k # rest"
      by (subst (asm) pull_from.simps) (auto simp: bindE_Inr_iff)
    have b: "anchor < k" "k \<le> length points - 1" using furthest_visible_bounds [OF k True] by simp_all
    then have l: "k < length points" using True by simp
    have "sorted_wrt (<) (k # rest) \<and> list_all (\<lambda>k. k < length points) rest \<and> last (k # rest) = length points - 1"
      by (rule "1.IH" [OF True k rest l])
    then show ?thesis using b l by (auto simp: ks)
  qed
qed

text \<open>Pulling is greedy: from every kept point the next one is the last that can be seen.\<close>

lemma pair_clear_segment:
  "pair_clear L grid additional p q = Inr ok \<Longrightarrow> grid_with_inflation L grid additional = Inr g \<Longrightarrow> ok = segment_clear g p q"
  unfolding pair_clear_def by (drule validate_path_collision_points) (auto simp: path_clear_Cons path_clear_short)

definition furthest_seen :: "grid_view \<Rightarrow> vec3 list \<Rightarrow> nat \<Rightarrow> nat \<Rightarrow> bool" where
  "furthest_seen g points k next \<longleftrightarrow> (next = Suc k \<or> segment_clear g (points ! k) (points ! next))
     \<and> (\<forall>j. next < j \<and> j < length points \<longrightarrow> \<not> segment_clear g (points ! k) (points ! j))"

lemma furthest_visible_seen:
  "furthest_visible L grid additional points anchor candidate = Inr k \<Longrightarrow> anchor < candidate \<Longrightarrow>
     grid_with_inflation L grid additional = Inr g \<Longrightarrow>
     (k = Suc anchor \<or> segment_clear g (points ! anchor) (points ! k))
     \<and> (\<forall>j. k < j \<and> j \<le> candidate \<longrightarrow> \<not> segment_clear g (points ! anchor) (points ! j))"
proof (induction L grid additional points anchor candidate rule: furthest_visible.induct)
  case (1 L grid additional points anchor candidate)
  show ?case
  proof (cases "anchor + 1 < candidate")
    case False
    then show ?thesis using "1.prems" by (auto simp: furthest_visible.simps)
  next
    case True
    then obtain ok where ok: "pair_clear L grid additional (points ! anchor) (points ! candidate) = Inr ok"
      and r: "(if ok then Inr candidate else furthest_visible L grid additional points anchor (candidate - 1)) = Inr k"
      using "1.prems"(1) by (subst (asm) furthest_visible.simps) (auto simp: bindE_Inr_iff)
    note seen = pair_clear_segment [OF ok "1.prems"(3)]
    show ?thesis
    proof (cases ok)
      case True
      then show ?thesis using r seen by auto
    next
      case False
      have "(k = Suc anchor \<or> segment_clear g (points ! anchor) (points ! k))
          \<and> (\<forall>j. k < j \<and> j \<le> candidate - 1 \<longrightarrow> \<not> segment_clear g (points ! anchor) (points ! j))"
        using "1.IH" [of ok] True ok r False "1.prems"(3) by auto
      moreover have "j = candidate \<or> j \<le> candidate - 1" if "j \<le> candidate" for j using that by linarith
      ultimately show ?thesis using seen False by metis
    qed
  qed
qed

lemma pull_from_greedy:
  "pull_from L grid additional points anchor = Inr ks \<Longrightarrow> anchor < length points \<Longrightarrow>
     grid_with_inflation L grid additional = Inr g \<Longrightarrow> successively (furthest_seen g points) (anchor # ks)"
proof (induction L grid additional points anchor arbitrary: ks rule: pull_from.induct)
  case (1 L grid additional points anchor)
  show ?case
  proof (cases "anchor < length points - 1")
    case False
    then show ?thesis using "1.prems" by (subst (asm) pull_from.simps) auto
  next
    case True
    with "1.prems"(1) obtain k rest where k: "furthest_visible L grid additional points anchor (length points - 1) = Inr k"
      and rest: "pull_from L grid additional points k = Inr rest" and ks: "ks = k # rest"
      by (subst (asm) pull_from.simps) (auto simp: bindE_Inr_iff)
    have "k < length points" using furthest_visible_bounds [OF k True] True by linarith
    then have "successively (furthest_seen g points) (k # rest)" by (rule "1.IH" [OF True k rest _ "1.prems"(3)])
    moreover have "furthest_seen g points anchor k"
      using furthest_visible_seen [OF k True "1.prems"(3)] by (auto simp: furthest_seen_def)
    ultimately show ?thesis by (simp add: ks)
  qed
qed

text \<open>So the pulled path is clear whenever the path it was pulled from is.\<close>

lemma pulled_clear:
  assumes "successively (furthest_seen g points) ks" and "path_clear g points" and "list_all (\<lambda>k. k < length points) ks"
  shows "path_clear g (map ((!) points) ks)"
  unfolding path_clear_def
proof (intro allI impI)
  fix i
  assume i: "Suc i < length (map ((!) points) ks)"
  then have "furthest_seen g points (ks ! i) (ks ! Suc i)" using assms(1) by (simp add: successively_conv_nth)
  moreover have "ks ! Suc i < length points" using assms(3) i by (simp add: list_all_length)
  ultimately have "segment_clear g (points ! (ks ! i)) (points ! (ks ! Suc i))"
    using assms(2) unfolding furthest_seen_def path_clear_def by metis
  then show "segment_clear g (map ((!) points) ks ! i) (map ((!) points) ks ! Suc i)" using i by simp
qed

lemma segments_report_clear: "path_clear g ps \<Longrightarrow> segments_report g i ps = Inr clear_report"
proof (induction g i ps rule: segments_report.induct)
  case (1 g i p q ps)
  then have "segment_report g i p q = Inr None" by (simp add: segment_report_clear path_clear_Cons)
  then show ?case using 1 by (simp add: path_clear_Cons)
qed simp_all

lemma validate_path_collision_clear:
  assumes "grid_with_inflation L grid additional = Inr g" and "path_clear g ps" and "2 \<le> length ps"
  shows "validate_path_collision L grid (points_val ps) additional = Inr True"
proof -
  obtain p q rest where ps: "ps = p # q # rest" using assms(3) by (cases ps; cases "tl ps") auto
  have n: "n_points (map v3_val ps) ''points_m'' = Inr ps" by simp
  have "points_report g ps = Inr clear_report" using segments_report_clear [OF assms(2)] by (simp add: points_report_def ps)
  then have "path_collision_report L grid (points_val ps) additional = Inr clear_report"
    using n assms(1) by (simp add: path_collision_report_def points_val_def ps)
  then show ?thesis by (simp add: validate_path_collision_def clear_report_def)
qed

lemma pull_from_short:
  assumes "pull_from L grid additional points 0 = Inr kept" and "points \<noteq> []" and "length points \<le> 2"
  shows "map ((!) points) (0 # kept) = points"
proof -
  consider p where "points = [p]" | p q where "points = [p, q]" using assms(2,3) by (cases points; cases "tl points") auto
  then show ?thesis
  proof cases
    case 1
    then show ?thesis using assms(1) by (simp add: pull_from.simps)
  next
    case 2
    then have "kept = [1]" using assms(1) by (simp add: pull_from.simps furthest_visible.simps)
    then show ?thesis using 2 by simp
  qed
qed

text \<open>The validation of the pulled path never refuses.\<close>

lemma simplify_path_pulled:
  assumes p: "n_points points_m ''points_m'' = Inr points"
    and v: "validate_path_collision L grid (points_val points) additional = Inr True"
    and k: "pull_from L grid additional points 0 = Inr kept"
  shows "simplify_path L grid points_m additional = Inr (map ((!) points) (0 # kept))"
proof -
  from validate_path_collision_points [OF v] obtain g where ne: "points \<noteq> []"
    and g: "grid_with_inflation L grid additional = Inr g" and c: "path_clear g points" by blast
  show ?thesis
  proof (cases "length points \<le> 2")
    case True
    then show ?thesis using p v ne pull_from_short [OF k ne True]
      by (simp add: simplify_path_def del: list.map)
  next
    case False
    have i: "sorted_wrt (<) (0 # kept) \<and> list_all (\<lambda>k. k < length points) kept \<and> last (0 # kept) = length points - 1"
      using pull_from_indices [OF k] ne by simp
    then have "kept \<noteq> []" using False by auto
    moreover have "path_clear g (map ((!) points) (0 # kept))"
      by (rule pulled_clear [OF pull_from_greedy [OF k _ g] c]) (use i ne in auto)
    ultimately have "validate_path_collision L grid (points_val (map ((!) points) (0 # kept))) additional = Inr True"
      using g by (intro validate_path_collision_clear) (auto simp: Suc_le_eq)
    then show ?thesis using p v ne k False by (simp add: simplify_path_def Let_def del: list.map)
  qed
qed

lemma simplify_path_Inr:
  assumes "simplify_path L grid points_m additional = Inr path"
  shows "\<exists>points g ks. n_points points_m ''points_m'' = Inr points \<and> grid_with_inflation L grid additional = Inr g
    \<and> path = map ((!) points) ks \<and> sorted_wrt (<) ks \<and> list_all (\<lambda>k. k < length points) ks \<and> ks \<noteq> []
    \<and> hd ks = 0 \<and> last ks = length points - 1 \<and> path_clear g points \<and> path_clear g path
    \<and> (length points = 1 \<longrightarrow> endpoint_clear g (hd points)) \<and> successively (furthest_seen g points) ks"
proof -
  from assms obtain points ok where p: "n_points points_m ''points_m'' = Inr points" and ne: "points \<noteq> []"
    and ok: "validate_path_collision L grid (points_val points) additional = Inr ok" "ok"
    and r: "(if length points \<le> 2 then Inr points else
     bindE (pull_from L grid additional points 0) (\<lambda>kept.
     let simplified = map ((!) points) (0 # kept) in
     bindE (validate_path_collision L grid (points_val simplified) additional) (\<lambda>ok'.
     bindE (guardE ok' (CoreError ''PORTABLE_CORE_PATH_COLLISION'' ''simplified path'')) (\<lambda>_.
     Inr simplified)))) = Inr path"
    using assms unfolding simplify_path_def
    by (elim bindE_InrE, unfold guardE_Inr_iff) (rule that, assumption+)
  from ok have v: "validate_path_collision L grid (points_val points) additional = Inr True" by simp
  obtain g where g: "grid_with_inflation L grid additional = Inr g" and c: "path_clear g points"
    and e: "length points = 1 \<longrightarrow> endpoint_clear g (hd points)"
    using validate_path_collision_points [OF v] by blast
  show ?thesis
  proof (cases "length points \<le> 2")
    case True
    with r have path: "path = points" by simp
    obtain m where m: "length points = Suc m" using ne by (cases points) auto
    have whole: "map ((!) points) [0..<Suc m] = points" by (simp add: map_nth del: upt_Suc flip: m)
    have "successively (furthest_seen g points) [0..<length points]" using True
      by (auto simp: successively_conv_nth furthest_seen_def)
    then show ?thesis
      by (intro exI [of _ points] exI [of _ g] exI [of _ "[0..<length points]"] conjI)
        (use p g c e path m in \<open>simp_all add: whole list_all_iff hd_upt del: upt_Suc\<close>)
  next
    case False
    with r have "bindE (pull_from L grid additional points 0) (\<lambda>kept.
        bindE (validate_path_collision L grid (points_val (map ((!) points) (0 # kept))) additional) (\<lambda>ok'.
        bindE (guardE ok' (CoreError ''PORTABLE_CORE_PATH_COLLISION'' ''simplified path'')) (\<lambda>_.
        Inr (map ((!) points) (0 # kept))))) = Inr path" by (simp only: if_False Let_def)
    then obtain kept where k: "pull_from L grid additional points 0 = Inr kept" by (rule bindE_InrE)
    have path: "path = map ((!) points) (0 # kept)" using simplify_path_pulled [OF p v k] assms by simp
    have i: "sorted_wrt (<) (0 # kept) \<and> list_all (\<lambda>k. k < length points) kept \<and> last (0 # kept) = length points - 1"
      using pull_from_indices [OF k] ne by simp
    have s: "successively (furthest_seen g points) (0 # kept)" using pull_from_greedy [OF k _ g] ne by simp
    have "path_clear g path" unfolding path by (rule pulled_clear [OF s c]) (use i ne in auto)
    then show ?thesis using p g path ne c e i s
      by (intro exI [of _ points] exI [of _ g] exI [of _ "0 # kept"]) simp
  qed
qed

subsection \<open>The traversal cuts no corner\<close>

text \<open>
  \<open>joined S a b\<close>: a walk from \<open>a\<close> to \<open>b\<close> whose every step crosses an edge of the grid
  (never only a corner) into a cell of \<open>S\<close>.
\<close>

definition edge_step :: "cell \<Rightarrow> cell \<Rightarrow> bool" where
  "edge_step a b = (\<bar>fst b - fst a\<bar> + \<bar>snd b - snd a\<bar> = 1)"

definition joined :: "cell set \<Rightarrow> cell \<Rightarrow> cell \<Rightarrow> bool" where
  "joined S = (\<lambda>u v. edge_step u v \<and> v \<in> S)\<^sup>*\<^sup>*"

lemma joined_refl [simp, intro]: "joined S a a"
  by (simp add: joined_def)

lemma joined_step: "edge_step a b \<Longrightarrow> b \<in> S \<Longrightarrow> joined S b c \<Longrightarrow> joined S a c"
  unfolding joined_def by (rule converse_rtranclp_into_rtranclp) simp_all

lemma joined_mono: "joined S a b \<Longrightarrow> S \<subseteq> T \<Longrightarrow> joined T a b"
  unfolding joined_def by (erule rtranclp_mono [THEN predicate2D, rotated]) auto

lemma edge_step_axis [simp]:
  "edge_step (x, y) (x + s, y) \<longleftrightarrow> \<bar>s\<bar> = 1"
  "edge_step (x, y) (x, y + s) \<longleftrightarrow> \<bar>s\<bar> = 1"
  "edge_step (x + t, y) (x + t, y + s) \<longleftrightarrow> \<bar>s\<bar> = 1"
  by (auto simp: edge_step_def)

lemma unit_abs: "unit_step s \<Longrightarrow> s \<noteq> 0 \<Longrightarrow> \<bar>s\<bar> = 1"
  by (auto simp: unit_step_def)

lemma segment_loop_joined:
  "segment_loop n True stop sx sy tx ty c mx my = Inr cs \<Longrightarrow>
     idle_axis sx mx tx \<Longrightarrow> idle_axis sy my ty \<Longrightarrow> unit_step sx \<Longrightarrow> unit_step sy \<Longrightarrow> joined (set cs) c stop"
proof (induction n arbitrary: c mx my cs)
  case 0
  then show ?case by (auto simp: segment_loop.simps split: if_splits)
next
  case (Suc n)
  obtain x y where c: "c = (x, y)" by (cases c)
  consider (stop) "c = stop" | (tie) "c \<noteq> stop" "segment_tie mx my" | (x) "c \<noteq> stop" "\<not> segment_tie mx my" "flt mx my"
    | (y) "c \<noteq> stop" "\<not> segment_tie mx my" "\<not> flt mx my" by blast
  then show ?case
  proof cases
    case stop
    then show ?thesis by simp
  next
    case tie
    have s: "sx \<noteq> 0" "sy \<noteq> 0" using tie_moves [OF tie(2) Suc.prems(2,3)] by simp_all
    then have a: "\<bar>sx\<bar> = 1" "\<bar>sy\<bar> = 1" using Suc.prems(4,5) unit_abs by blast+
    from Suc.prems(1) obtain rest where
      r: "segment_loop n True stop sx sy tx ty (x + sx, y + sy) (fadd mx tx) (fadd my ty) = Inr rest"
      and cs: "cs = [(x + sx, y), (x, y + sy)] @ (x + sx, y + sy) # rest"
      using tie s by (auto simp: segment_loop_Suc c bindE_Inr_iff)
    have "joined (set rest) (x + sx, y + sy) stop"
      by (rule Suc.IH [OF r]) (use Suc.prems in \<open>simp_all add: idle_axis_add\<close>)
    then have "joined (set cs) (x + sx, y + sy) stop" by (rule joined_mono) (auto simp: cs)
    then have "joined (set cs) (x + sx, y) stop" by (rule joined_step [rotated 2]) (simp_all add: a cs)
    then show ?thesis unfolding c by (rule joined_step [rotated 2]) (simp_all add: a cs)
  next
    case x
    have "\<bar>sx\<bar> = 1" using lt_moves [OF x(3) Suc.prems(2)] Suc.prems(4) unit_abs by blast
    from Suc.prems(1) obtain rest where
      r: "segment_loop n True stop sx sy tx ty (x + sx, y) (fadd mx tx) my = Inr rest"
      and cs: "cs = (x + sx, y) # rest"
      using x by (auto simp: segment_loop_Suc c bindE_Inr_iff)
    have "joined (set rest) (x + sx, y) stop"
      by (rule Suc.IH [OF r]) (use Suc.prems in \<open>simp_all add: idle_axis_add\<close>)
    then have "joined (set cs) (x + sx, y) stop" by (rule joined_mono) (auto simp: cs)
    then show ?thesis unfolding c by (rule joined_step [rotated 2]) (simp_all add: \<open>\<bar>sx\<bar> = 1\<close> cs)
  next
    case y
    have "sy \<noteq> 0" using segment_loop_stuck [OF y(1-3)] Suc.prems(1,3) by blast
    then have "\<bar>sy\<bar> = 1" using Suc.prems(5) unit_abs by blast
    from Suc.prems(1) obtain rest where
      r: "segment_loop n True stop sx sy tx ty (x, y + sy) mx (fadd my ty) = Inr rest"
      and cs: "cs = (x, y + sy) # rest"
      using y by (auto simp: segment_loop_Suc c bindE_Inr_iff)
    have "joined (set rest) (x, y + sy) stop"
      by (rule Suc.IH [OF r]) (use Suc.prems in \<open>simp_all add: idle_axis_add\<close>)
    then have "joined (set cs) (x, y + sy) stop" by (rule joined_mono) (auto simp: cs)
    then show ?thesis unfolding c by (rule joined_step [rotated 2]) (simp_all add: \<open>\<bar>sy\<bar> = 1\<close> cs)
  qed
qed

lemma continuous_cells_joined:
  assumes "continuous_segment_cells p q True = Inr cells"
  shows "\<exists>start stop. floor_cell p = Inr start \<and> floor_cell q = Inr stop \<and> start \<in> set cells
    \<and> joined (set cells) start stop"
proof -
  from assms obtain start stop where f: "floor_cell p = Inr start" "floor_cell q = Inr stop"
    and r: "segment_run (segment_bound start stop) p q True start stop = Inr cells"
    by (auto simp: continuous_segment_cells_def bindE_Inr_iff)
  let ?dx = "fsub (fst q) (fst p)" and ?dy = "fsub (snd q) (snd p)"
  from r obtain mx tx my ty cs where
    x: "axis_setup (fst p) (fst start) ?dx = Inr (mx, tx)" and y: "axis_setup (snd p) (snd start) ?dy = Inr (my, ty)"
    and l: "segment_loop (segment_bound start stop) True stop (step_of ?dx) (step_of ?dy) tx ty start mx my = Inr cs"
    and cells: "cells = fromkeys (start # cs)"
    by (auto simp: segment_run_def Let_def bindE_Inr_iff)
  have "joined (set cs) start stop"
    by (rule segment_loop_joined [OF l axis_setup_idle [OF x] axis_setup_idle [OF y]]) simp_all
  then have "joined (set cells) start stop" by (rule joined_mono) (auto simp: cells)
  then show ?thesis using f by (auto simp: cells)
qed

lemma segment_clear_joined:
  assumes "segment_clear g p q"
  shows "\<exists>a b start stop. world_to_grid_coordinates g (f3 p) = Inr a \<and> world_to_grid_coordinates g (f3 q) = Inr b
    \<and> floor_cell a = Inr start \<and> floor_cell b = Inr stop \<and> \<not> gv_blocked g start
    \<and> joined {c. \<not> gv_blocked g c} start stop"
proof -
  from assms obtain a b start stop cells where *: "world_to_grid_coordinates g (f3 p) = Inr a"
    "world_to_grid_coordinates g (f3 q) = Inr b" "floor_cell a = Inr start" "floor_cell b = Inr stop"
    and c: "continuous_segment_cells a b True = Inr cells" and free: "list_all (\<lambda>c. \<not> gv_blocked g c) cells"
    unfolding segment_clear_def by blast
  from continuous_cells_joined [OF c] * have "start \<in> set cells" "joined (set cells) start stop" by auto
  then have "\<not> gv_blocked g start" "joined {c. \<not> gv_blocked g c} start stop"
    using free by (auto simp: list_all_iff intro: joined_mono)
  with * show ?thesis by blast
qed

lemma hit_report_fields [simp]:
  "cr_segment_index (hit_report reason i c) = Some i" "cr_cell (hit_report reason i c) = Some c"
  by (simp_all add: hit_report_def)

lemma gv_blocked_outside: "\<not> gv_in g c \<Longrightarrow> gv_blocked g c"
  by (simp add: gv_blocked_def)

lemma segment_report_cell:
  assumes "segment_report g i p q = Inr (Some rep)"
  shows "cr_segment_index rep = Some i \<and> (\<exists>c. cr_cell rep = Some c \<and> gv_blocked g c)"
proof -
  from assms obtain a b start stop where
    r: "(if \<not> gv_in g start then Inr (Some (hit_report ''out_of_bounds'' i start))
     else if \<not> gv_in g stop then Inr (Some (hit_report ''out_of_bounds'' i stop))
     else bindE (continuous_segment_cells a b True) (\<lambda>cells.
          Inr (case first_where (gv_blocked g) cells of
                 None \<Rightarrow> None
               | Some c \<Rightarrow> Some (hit_report (if gv_in g c then ''blocked'' else ''out_of_bounds'') i c)))) =
       (Inr (Some rep) :: py_exc + collision_report option)"
    unfolding segment_report_def by (elim bindE_InrE) (rule that)
  consider (a) "\<not> gv_in g start" | (b) "gv_in g start" "\<not> gv_in g stop" | (c) "gv_in g start" "gv_in g stop" by blast
  then show ?thesis
  proof cases
    case c
    with r obtain cells where "(case first_where (gv_blocked g) cells of
                 None \<Rightarrow> None
               | Some c \<Rightarrow> Some (hit_report (if gv_in g c then ''blocked'' else ''out_of_bounds'') i c)) = Some rep"
      by (auto elim: bindE_InrE)
    then obtain c where "first_where (gv_blocked g) cells = Some c"
      "rep = hit_report (if gv_in g c then ''blocked'' else ''out_of_bounds'') i c" by (cases "first_where (gv_blocked g) cells") auto
    then show ?thesis by (auto dest: first_where_Some)
  qed (use r in \<open>auto simp: gv_blocked_outside simp del: split_paired_Ex\<close>)
qed

lemma report_segments_exact:
  "segments_report g i ps = Inr rep \<Longrightarrow> \<not> cr_valid rep \<Longrightarrow>
     \<exists>k c. cr_segment_index rep = Some (i + k) \<and> Suc k < length ps \<and> \<not> segment_clear g (ps ! k) (ps ! Suc k)
       \<and> (\<forall>j<k. segment_clear g (ps ! j) (ps ! Suc j)) \<and> cr_cell rep = Some c \<and> gv_blocked g c"
proof (induction g i ps rule: segments_report.induct)
  case (1 g i p q ps)
  from "1.prems"(1) obtain r where r: "segment_report g i p q = Inr r"
    and rest: "(case r of Some rep' \<Rightarrow> Inr rep' | None \<Rightarrow> segments_report g (Suc i) (q # ps)) = Inr rep"
    by (simp only: segments_report.simps) (elim bindE_InrE)
  show ?case
  proof (cases r)
    case None
    then have clear: "segment_clear g p q" using r by (simp add: segment_report_clear)
    from None rest obtain k c where
      k: "cr_segment_index rep = Some (Suc i + k)" "Suc k < length (q # ps)"
        "\<not> segment_clear g ((q # ps) ! k) ((q # ps) ! Suc k)" "cr_cell rep = Some c" "gv_blocked g c"
      and before: "\<forall>j<k. segment_clear g ((q # ps) ! j) ((q # ps) ! Suc j)"
      using "1.IH" [OF r None _ "1.prems"(2)] by auto
    have "\<forall>j<Suc k. segment_clear g ((p # q # ps) ! j) ((p # q # ps) ! Suc j)"
      using clear before by (simp add: All_less_Suc2)
    with k show ?thesis by (intro exI [of _ "Suc k"] exI [of _ c]) simp
  next
    case (Some rep')
    then have rep: "segment_report g i p q = Inr (Some rep)" using r rest by simp
    then have "\<not> segment_clear g p q" by (simp flip: segment_report_clear [of g i])
    with segment_report_cell [OF rep] show ?thesis by (intro exI [of _ 0]) simp
  qed
qed (auto simp: clear_report_def)

lemma segment_run_forever:
  assumes "segment_run (segment_bound start stop) p q corner start stop = Inl PyNoReturn"
  shows "segment_run n p q corner start stop = Inl PyNoReturn"
proof (cases "segment_run n p q corner start stop")
  case (Inr cells)
  then show ?thesis using segment_run_bound [OF Inr] assms by simp
next
  case (Inl e)
  then show ?thesis using segment_run_errors [OF assms] segment_run_errors [OF Inl, of "segment_bound start stop"] assms by auto
qed

end
