(* ===== verification/NavStraight.thy ===== *)
theory NavStraight
  imports NavPath FloatBounds
begin

text \<open>
  Segments parallel to an axis: between finite binary64 coordinates the traversal always
  returns, and it visits exactly the cells of one row or column.
\<close>

subsection \<open>Differences of binary64 values\<close>

lemma round_pos_multiple: "\<exists>k::int. round_pos x = of_int k * pow2 (- 1074)"
proof (cases "0 < x")
  case True
  have "pow2 (ulp_exp x) = pow2 (ulp_exp x + 1074) * pow2 (- 1074)" by (simp flip: pow2_add)
  also have "pow2 (ulp_exp x + 1074) = of_int (2 ^ nat (ulp_exp x + 1074))"
    by (rule pow2_int) (simp add: ulp_exp_def)
  finally have "round_pos x = of_int (nearest_even (x / pow2 (ulp_exp x)) * 2 ^ nat (ulp_exp x + 1074)) * pow2 (- 1074)"
    using True by (simp add: round_pos_def)
  then show ?thesis by blast
qed (auto simp: round_pos_def intro: exI [of _ 0])

lemma representable_multiple: "representable r \<Longrightarrow> \<exists>k::int. r = of_int k * pow2 (- 1074)"
proof -
  assume r: "representable r"
  show ?thesis
  proof (cases "r < 0")
    case True
    with r have "r = - round_pos (- r)"
      by (auto simp: representable_def round64_def overflow_pos_def split: if_splits)
    moreover obtain k :: int where "round_pos (- r) = of_int k * pow2 (- 1074)" using round_pos_multiple by blast
    ultimately have "r = of_int (- k) * pow2 (- 1074)" by simp
    then show ?thesis by blast
  next
    case False
    with r have "r = round_pos r" by (auto simp: representable_def round64_def overflow_pos_def split: if_splits)
    then show ?thesis using round_pos_multiple [of r] by metis
  qed
qed

lemma representable_gap:
  assumes "representable a" and "representable b" and "a < b"
  shows "pow2 (- 1074) \<le> b - a"
proof -
  obtain j k :: int where jk: "a = of_int j * pow2 (- 1074)" "b = of_int k * pow2 (- 1074)"
    using assms representable_multiple by meson
  then have "j < k" using assms(3) by simp
  then have "(1::rat) \<le> of_int (k - j)" by linarith
  then have "1 * pow2 (- 1074) \<le> of_int (k - j) * pow2 (- 1074)" by (intro mult_right_mono) (simp_all add: less_imp_le)
  then show ?thesis by (simp add: jk left_diff_distrib)
qed

lemma round_pos_least: "round_pos (pow2 (- 1074)) = pow2 (- 1074)"
proof (rule round_pos_exact)
  have p: "0 < pow2 (- 1074)" by simp
  have "ilog2 (pow2 (- 1074)) = - 1074" using ilog2_bounds [OF p] by (simp only: pow2_le_iff pow2_less_iff)
  then show "pow2 (- 1074) = of_int 1 * pow2 (ulp_exp (pow2 (- 1074)))" by (simp add: ulp_exp_def)
qed simp

lemma round64_0_1: "0 \<le> x \<Longrightarrow> x \<le> 1 \<Longrightarrow> \<exists>r. round64 x = Fin r \<and> 0 \<le> r \<and> r \<le> 1"
  using round64_mono [of 0 x] round64_mono [of x 1] fadd_finite_between [of "round64 x" 1] by simp

text \<open>The difference of two different values keeps its sign.\<close>

lemma round64_gap: "pow2 (- 1074) \<le> x \<Longrightarrow> x \<le> 2 ^ 53 \<Longrightarrow> \<exists>d. round64 x = Fin d \<and> 0 < d"
proof -
  assume x: "pow2 (- 1074) \<le> x" "x \<le> 2 ^ 53"
  have x0: "0 < x" using x(1) pow2_pos [of "- 1074"] by linarith
  have "fle (round64 x) (round64 (of_int (2 ^ 53)))" using x(2) by (intro round64_mono) simp
  then have u: "fle (round64 x) (Fin (of_int (2 ^ 53)))" using round64_of_int [of "2 ^ 53"] by simp
  have "fle (Fin 0) (round64 x)" using round64_mono [of 0 x] x0 by simp
  then obtain d where d: "round64 x = Fin d" using u fadd_finite_between [of "round64 x"] by blast
  then have "d = round_pos x" using x0 by (auto simp: round64_def overflow_pos_def split: if_splits)
  then have "pow2 (- 1074) \<le> d" using round_pos_mono [OF x(1)] by (simp add: round_pos_least)
  then have "0 < d" by (rule less_le_trans [OF pow2_pos])
  with d show ?thesis by blast
qed

lemma difference_sign:
  assumes "representable a" and "representable b" and "a < b" and "\<bar>a\<bar> \<le> 2 ^ 52" and "\<bar>b\<bar> \<le> 2 ^ 52"
  shows "\<exists>d > 0. fsub (Fin b) (Fin a) = Fin d \<and> fsub (Fin a) (Fin b) = Fin (- d)"
proof -
  have "b - a \<le> 2 ^ 53" using assms(4,5) by (simp add: abs_le_iff)
  then obtain d where d: "round64 (b - a) = Fin d" "0 < d"
    using round64_gap [OF representable_gap [OF assms(1-3)]] by blast
  have "round64 (a - b) = fneg (round64 (b - a))" using assms(3) by (simp add: round64_def)
  then show ?thesis using d by (auto simp: fsub_def)
qed

subsection \<open>The parameters of one axis\<close>

text \<open>
  The first boundary lies at a parameter of at most 1, and where there is more than one
  boundary their distance is a parameter of at most 1.
\<close>

definition axis_paces :: "nat \<Rightarrow> pyfloat \<Rightarrow> pyfloat \<Rightarrow> bool" where
  "axis_paces n m t = (0 < n \<longrightarrow> (\<exists>r. m = Fin r \<and> 0 \<le> r \<and> r \<le> 1) \<and> (1 < n \<longrightarrow> (\<exists>r. t = Fin r \<and> 0 \<le> r \<and> r \<le> 1)))"

lemma fdiv_unit: "0 \<le> a \<Longrightarrow> a \<le> b \<Longrightarrow> 0 < b \<Longrightarrow> \<exists>r. fdiv (Fin a) (Fin b) = Inr (Fin r) \<and> 0 \<le> r \<and> r \<le> 1"
  using round64_0_1 [of "a / b"] by simp

lemma axis_forward:
  assumes "representable a" and "representable b" and "a < b" and "\<bar>a\<bar> \<le> 2 ^ 52" and "\<bar>b\<bar> \<le> 2 ^ 52"
  shows "step_of (fsub (Fin b) (Fin a)) = 1
    \<and> (\<exists>m t. axis_setup (Fin a) \<lfloor>a\<rfloor> (fsub (Fin b) (Fin a)) = Inr (m, t) \<and> axis_paces (nat (\<lfloor>b\<rfloor> - \<lfloor>a\<rfloor>)) m t)"
proof -
  obtain d where d: "0 < d" "fsub (Fin b) (Fin a) = Fin d" using difference_sign [OF assms] by blast
  have fl: "\<bar>\<lfloor>a\<rfloor>\<bar> \<le> 2 ^ 53" "\<bar>\<lfloor>a\<rfloor> + 1\<bar> \<le> 2 ^ 53" using assms(4) by (simp_all add: abs_le_iff) linarith+
  have bd: "fadd (fint \<lfloor>a\<rfloor>) (Fin 1) = Fin (of_int (\<lfloor>a\<rfloor> + 1))"
    using round64_of_int [OF fl(2)] fl(1) by simp
  have "\<exists>r. fsub (Fin (of_int (\<lfloor>a\<rfloor> + 1))) (Fin a) = Fin r \<and> 0 \<le> r \<and> r \<le> 1"
    using round64_0_1 [of "of_int (\<lfloor>a\<rfloor> + 1) - a"] floor_correct [of a] by (simp add: fsub_def)
  then obtain f where f: "fsub (Fin (of_int (\<lfloor>a\<rfloor> + 1))) (Fin a) = Fin f" "0 \<le> f" by blast
  have m: "fdiv (Fin f) (Fin d) = Inr (round64 (f / d))" and t: "fdiv (Fin 1) (fabs (Fin d)) = Inr (round64 (1 / d))"
    using d(1) by simp_all
  have "axis_paces (nat (\<lfloor>b\<rfloor> - \<lfloor>a\<rfloor>)) (round64 (f / d)) (round64 (1 / d))"
    unfolding axis_paces_def
  proof (intro impI conjI)
    assume "0 < nat (\<lfloor>b\<rfloor> - \<lfloor>a\<rfloor>)"
    then have "of_int (\<lfloor>a\<rfloor> + 1) \<le> b" by linarith
    then have "fle (round64 (of_int (\<lfloor>a\<rfloor> + 1) - a)) (round64 (b - a))" by (intro round64_mono) simp
    then have "f \<le> d" using f(1) d(2) by (simp add: fsub_def)
    then show "\<exists>r. round64 (f / d) = Fin r \<and> 0 \<le> r \<and> r \<le> 1" using f(2) d(1) by (intro round64_0_1) simp_all
    assume "1 < nat (\<lfloor>b\<rfloor> - \<lfloor>a\<rfloor>)"
    then have "1 \<le> b - a" by linarith
    then have "fle (round64 1) (round64 (b - a))" by (rule round64_mono)
    then have "1 \<le> d" using d(2) by (simp add: fsub_def)
    then show "\<exists>r. round64 (1 / d) = Fin r \<and> 0 \<le> r \<and> r \<le> 1" by (intro round64_0_1) simp_all
  qed
  moreover have "step_of (Fin d) = 1" using d(1) by (simp add: step_of_def)
  ultimately show ?thesis by (simp add: d(2) axis_setup_def bd f(1) m t del: fdiv.simps fabs.simps of_int_add)
qed

lemma axis_backward:
  assumes "representable a" and "representable b" and "b < a" and "\<bar>a\<bar> \<le> 2 ^ 52" and "\<bar>b\<bar> \<le> 2 ^ 52"
  shows "step_of (fsub (Fin b) (Fin a)) = -1
    \<and> (\<exists>m t. axis_setup (Fin a) \<lfloor>a\<rfloor> (fsub (Fin b) (Fin a)) = Inr (m, t) \<and> axis_paces (nat (\<lfloor>a\<rfloor> - \<lfloor>b\<rfloor>)) m t)"
proof -
  obtain d where d: "0 < d" "fsub (Fin b) (Fin a) = Fin (- d)" "fsub (Fin a) (Fin b) = Fin d"
    using difference_sign [OF assms(2,1,3,5,4)] by blast
  have fl: "\<bar>\<lfloor>a\<rfloor>\<bar> \<le> 2 ^ 53" using assms(4) by (simp add: abs_le_iff) linarith
  have "\<exists>r. round64 (a - of_int \<lfloor>a\<rfloor>) = Fin r \<and> 0 \<le> r \<and> r \<le> 1"
    using floor_correct [of a] by (intro round64_0_1) simp_all
  then obtain f where f: "round64 (a - of_int \<lfloor>a\<rfloor>) = Fin f" "0 \<le> f" by blast
  have "round64 (of_int \<lfloor>a\<rfloor> - a) = Fin (- f)"
  proof (cases "of_int \<lfloor>a\<rfloor> = a")
    case True
    then have "a - of_int \<lfloor>a\<rfloor> = 0" "of_int \<lfloor>a\<rfloor> - a = 0" by linarith+
    then show ?thesis using f(1) by (simp only:) simp
  next
    case False
    then have "of_int \<lfloor>a\<rfloor> < a" using of_int_floor_le [of a] by linarith
    then show ?thesis using f(1) by (simp add: round64_def)
  qed
  then have b: "fsub (fint \<lfloor>a\<rfloor>) (Fin a) = Fin (- f)" using fl by (simp add: fsub_def)
  have m: "fdiv (Fin (- f)) (Fin (- d)) = Inr (round64 (f / d))" and t: "fdiv (Fin 1) (fabs (Fin (- d))) = Inr (round64 (1 / d))"
    using d(1) by simp_all
  have "axis_paces (nat (\<lfloor>a\<rfloor> - \<lfloor>b\<rfloor>)) (round64 (f / d)) (round64 (1 / d))"
    unfolding axis_paces_def
  proof (intro impI conjI)
    assume "0 < nat (\<lfloor>a\<rfloor> - \<lfloor>b\<rfloor>)"
    then have "b \<le> of_int \<lfloor>a\<rfloor>" by linarith
    then have "fle (round64 (a - of_int \<lfloor>a\<rfloor>)) (round64 (a - b))" by (intro round64_mono) simp
    then have "f \<le> d" using f(1) d(3) by (simp add: fsub_def)
    then show "\<exists>r. round64 (f / d) = Fin r \<and> 0 \<le> r \<and> r \<le> 1" using f(2) d(1) by (intro round64_0_1) simp_all
    assume "1 < nat (\<lfloor>a\<rfloor> - \<lfloor>b\<rfloor>)"
    then have "1 \<le> a - b" by linarith
    then have "fle (round64 1) (round64 (a - b))" by (rule round64_mono)
    then have "1 \<le> d" using d(3) by (simp add: fsub_def)
    then show "\<exists>r. round64 (1 / d) = Fin r \<and> 0 \<le> r \<and> r \<le> 1" by (intro round64_0_1) simp_all
  qed
  moreover have "step_of (Fin (- d)) = -1" using d(1) by (simp add: step_of_def)
  ultimately show ?thesis by (simp add: d(2) axis_setup_def b m t del: fdiv.simps fabs.simps)
qed

lemma axis_still: "step_of (fsub (Fin a) (Fin a)) = 0" "axis_setup (Fin a) c (fsub (Fin a) (Fin a)) = Inr (PInf, PInf)"
  by (simp_all add: fsub_def step_of_def axis_setup_def)

subsection \<open>The loop\<close>

lemma loop_row:
  assumes "s = 1 \<or> s = -1" and "0 \<le> m" and "m \<le> 2 ^ 53" and "1 < n \<longrightarrow> (\<exists>r. t = Fin r \<and> 0 \<le> r \<and> r \<le> 1)"
  shows "segment_loop n corner (x + s * int n, y) s 0 t PInf (x, y) (Fin m) PInf
    = Inr (map (\<lambda>i. (x + s * int (Suc i), y)) [0..<n])"
  using assms(2-4)
proof (induction n arbitrary: x m)
  case 0
  then show ?case by (simp add: segment_loop.simps)
next
  case (Suc n)
  have ne: "(x, y) \<noteq> (x + s * int (Suc n), y)" using assms(1) by auto
  have rest: "segment_loop n corner (x + s * int (Suc n), y) s 0 t PInf (x + s, y) (fadd (Fin m) t) PInf
      = Inr (map (\<lambda>i. (x + s + s * int (Suc i), y)) [0..<n])"
  proof (cases n)
    case 0
    then show ?thesis by (simp add: segment_loop.simps)
  next
    case (Suc k)
    with Suc.prems(3) obtain r where r: "t = Fin r" "0 \<le> r" "r \<le> 1" by auto
    have "fle (round64 (m + r)) (Fin (of_int (2 ^ 53)))"
    proof (rule fle_trans)
      show "fle (round64 (m + r)) (round64 (9007199254740993))" using Suc.prems(2) r(3) by (intro round64_mono) simp
      have "round64 9007199254740993 = Fin 9007199254740992" by code_simp
      then show "fle (round64 9007199254740993) (Fin (of_int (2 ^ 53)))" by simp
    qed
    moreover have "fle (Fin 0) (round64 (m + r))" using round64_mono [of 0 "m + r"] Suc.prems(1) r(2) by simp
    ultimately obtain m' where m': "round64 (m + r) = Fin m'" "0 \<le> m'" "m' \<le> 2 ^ 53"
      using fadd_finite_between [of "round64 (m + r)" "of_int (2 ^ 53)"] by auto
    have "segment_loop n corner (x + s + s * int n, y) s 0 t PInf (x + s, y) (Fin m') PInf
      = Inr (map (\<lambda>i. (x + s + s * int (Suc i), y)) [0..<n])"
      by (rule Suc.IH) (use m' Suc.prems(3) in auto)
    moreover have "x + s + s * int n = x + s * int (Suc n)" by (simp add: algebra_simps)
    ultimately show ?thesis by (simp add: r(1) m'(1))
  qed
  have "segment_loop (Suc n) corner (x + s * int (Suc n), y) s 0 t PInf (x, y) (Fin m) PInf
      = Inr ((x + s, y) # map (\<lambda>i. (x + s + s * int (Suc i), y)) [0..<n])"
    using ne rest by (simp add: segment_loop_Suc segment_tie_def fsub_def del: of_nat_Suc)
  also have "(x + s, y) # map (\<lambda>i. (x + s + s * int (Suc i), y)) [0..<n] = map (\<lambda>i. (x + s * int (Suc i), y)) [0..<Suc n]"
    by (simp add: upt_conv_Cons map_Suc_upt [symmetric] o_def algebra_simps del: upt_Suc)
  finally show ?case .
qed

lemma loop_column:
  assumes "s = 1 \<or> s = -1"
  shows "segment_loop n corner (x, y + s * int n) 0 s PInf t (x, y) PInf m
    = Inr (map (\<lambda>i. (x, y + s * int (Suc i))) [0..<n])"
proof (induction n arbitrary: y m)
  case 0
  then show ?case by (simp add: segment_loop.simps)
next
  case (Suc n)
  have ne: "(x, y) \<noteq> (x, y + s * int (Suc n))" using assms by auto
  have "y + s + s * int n = y + s * int (Suc n)" by (simp add: algebra_simps)
  then have rest: "segment_loop n corner (x, y + s * int (Suc n)) 0 s PInf t (x, y + s) PInf m'
      = Inr (map (\<lambda>i. (x, y + s + s * int (Suc i))) [0..<n])" for m'
    using Suc.IH [of "y + s" m'] by (simp only:)
  have "segment_loop (Suc n) corner (x, y + s * int (Suc n)) 0 s PInf t (x, y) PInf m
      = Inr ((x, y + s) # map (\<lambda>i. (x, y + s + s * int (Suc i))) [0..<n])"
    using ne by (cases m) (simp_all add: segment_loop_Suc segment_tie_def fsub_def rest del: of_nat_Suc)
  also have "(x, y + s) # map (\<lambda>i. (x, y + s + s * int (Suc i))) [0..<n] = map (\<lambda>i. (x, y + s * int (Suc i))) [0..<Suc n]"
    by (simp add: upt_conv_Cons map_Suc_upt [symmetric] o_def algebra_simps del: upt_Suc)
  finally show ?case .
qed

subsection \<open>The cells\<close>

definition cells_between :: "int \<Rightarrow> int \<Rightarrow> int list" where
  "cells_between a b = map (\<lambda>i. a + sgn (b - a) * int i) [0..<Suc (nat \<bar>b - a\<bar>)]"

lemma cells_between_along:
  assumes "n = 0 \<or> s = 1 \<or> s = -1"
  shows "cells_between a (a + s * int n) = a # map (\<lambda>i. a + s * int (Suc i)) [0..<n]"
proof -
  have "nat \<bar>s * int n\<bar> = n" using assms by auto
  moreover have "sgn (s * int n) * int i = s * int i" if "i < Suc n" for i using assms that by (cases "n = 0") auto
  ultimately have "cells_between a (a + s * int n) = map (\<lambda>i. a + s * int i) [0..<Suc n]"
    by (auto simp: cells_between_def simp del: upt_Suc)
  then show ?thesis by (simp add: upt_conv_Cons map_Suc_upt [symmetric] o_def del: upt_Suc)
qed

lemma distinct_cells_between: "distinct (cells_between a b)"
proof -
  have "inj_on (\<lambda>i. a + sgn (b - a) * int i) (set [0..<Suc (nat \<bar>b - a\<bar>)])"
    by (cases "a = b") (auto simp: inj_on_def sgn_if)
  then show ?thesis by (simp add: cells_between_def distinct_map del: upt_Suc)
qed

lemma dedup_from_fresh: "distinct xs \<Longrightarrow> set seen \<inter> set xs = {} \<Longrightarrow> dedup_from seen xs = xs"
  by (induction seen xs rule: dedup_from.induct) auto

lemma fromkeys_distinct: "distinct xs \<Longrightarrow> fromkeys xs = xs"
  by (simp add: fromkeys_def dedup_from_fresh)

text \<open>The set-up of the axis along which the segment runs.\<close>

lemma axis_along:
  assumes "representable a" and "representable b" and "\<bar>a\<bar> \<le> 2 ^ 52" and "\<bar>b\<bar> \<le> 2 ^ 52"
  shows "\<exists>s n m t. step_of (fsub (Fin b) (Fin a)) = s \<and> axis_setup (Fin a) \<lfloor>a\<rfloor> (fsub (Fin b) (Fin a)) = Inr (m, t)
    \<and> axis_paces n m t \<and> (n = 0 \<or> s = 1 \<or> s = -1) \<and> \<lfloor>b\<rfloor> = \<lfloor>a\<rfloor> + s * int n"
proof -
  consider "a < b" | "a = b" | "b < a" by linarith
  then show ?thesis
  proof cases
    case 1
    have "\<lfloor>a\<rfloor> \<le> \<lfloor>b\<rfloor>" using 1 by (intro floor_mono) simp
    then have "\<lfloor>b\<rfloor> = \<lfloor>a\<rfloor> + 1 * int (nat (\<lfloor>b\<rfloor> - \<lfloor>a\<rfloor>))" by simp
    then show ?thesis using axis_forward [OF assms(1,2) 1 assms(3,4)] by blast
  next
    case 2
    then show ?thesis using axis_still [of a] by (intro exI [of _ "0::int"] exI [of _ "0::nat"]) (auto simp: axis_paces_def)
  next
    case 3
    have "\<lfloor>b\<rfloor> \<le> \<lfloor>a\<rfloor>" using 3 by (intro floor_mono) simp
    then have "\<lfloor>b\<rfloor> = \<lfloor>a\<rfloor> + -1 * int (nat (\<lfloor>a\<rfloor> - \<lfloor>b\<rfloor>))" by simp
    then show ?thesis using axis_backward [OF assms(1,2) 3 assms(3,4)] by blast
  qed
qed

lemma segment_bound_along:
  assumes "n = 0 \<or> s = 1 \<or> s = -1"
  shows "segment_bound (x, y) (x + s * int n, y) = n" "segment_bound (x, y) (x, y + s * int n) = n"
  using assms by (auto simp: segment_bound_def)

lemma floor_cell_Fin: "floor_cell (Fin x, Fin y) = Inr (\<lfloor>x\<rfloor>, \<lfloor>y\<rfloor>)"
  by (simp add: floor_cell_def ffloor_def float_to_intE_def)

lemma row_cells:
  assumes "representable a" and "representable b" and "\<bar>a\<bar> \<le> 2 ^ 52" and "\<bar>b\<bar> \<le> 2 ^ 52"
  shows "continuous_segment_cells (Fin a, Fin y) (Fin b, Fin y) corner
    = Inr (map (\<lambda>c. (c, \<lfloor>y\<rfloor>)) (cells_between \<lfloor>a\<rfloor> \<lfloor>b\<rfloor>))"
proof -
  obtain s n m t where x: "step_of (fsub (Fin b) (Fin a)) = s" "axis_setup (Fin a) \<lfloor>a\<rfloor> (fsub (Fin b) (Fin a)) = Inr (m, t)"
    and p: "axis_paces n m t" and s: "n = 0 \<or> s = 1 \<or> s = -1" and b: "\<lfloor>b\<rfloor> = \<lfloor>a\<rfloor> + s * int n"
    using axis_along [OF assms] by blast
  let ?cs = "map (\<lambda>i. (\<lfloor>a\<rfloor> + s * int (Suc i), \<lfloor>y\<rfloor>)) [0..<n]"
  have l: "segment_loop n corner (\<lfloor>a\<rfloor> + s * int n, \<lfloor>y\<rfloor>) s 0 t PInf (\<lfloor>a\<rfloor>, \<lfloor>y\<rfloor>) m PInf = Inr ?cs"
  proof (cases "n = 0")
    case True
    then show ?thesis by (simp add: segment_loop.simps)
  next
    case False
    then obtain r where m: "m = Fin r" "0 \<le> r" "r \<le> 1" using p by (auto simp: axis_paces_def)
    show ?thesis unfolding m(1) using s False m p by (intro loop_row) (auto simp: axis_paces_def)
  qed
  have cells: "(\<lfloor>a\<rfloor>, \<lfloor>y\<rfloor>) # ?cs = map (\<lambda>c. (c, \<lfloor>y\<rfloor>)) (cells_between \<lfloor>a\<rfloor> \<lfloor>b\<rfloor>)"
    unfolding b cells_between_along [OF s] by (simp add: o_def)
  have d: "distinct (map (\<lambda>c. (c, \<lfloor>y\<rfloor>)) (cells_between \<lfloor>a\<rfloor> \<lfloor>b\<rfloor>))"
    using distinct_cells_between by (simp add: distinct_map inj_on_def)
  have f: "fromkeys ((\<lfloor>a\<rfloor>, \<lfloor>y\<rfloor>) # ?cs) = map (\<lambda>c. (c, \<lfloor>y\<rfloor>)) (cells_between \<lfloor>a\<rfloor> (\<lfloor>a\<rfloor> + s * int n))"
    using fromkeys_distinct [OF d] by (simp only: cells b)
  show ?thesis using x l axis_still(1) [of y] axis_still(2) [of y "\<lfloor>y\<rfloor>"] f
    by (simp add: continuous_segment_cells_def segment_run_def floor_cell_Fin b segment_bound_along [OF s] del: list.map of_nat_Suc)
qed

lemma column_cells:
  assumes "representable a" and "representable b" and "\<bar>a\<bar> \<le> 2 ^ 52" and "\<bar>b\<bar> \<le> 2 ^ 52"
  shows "continuous_segment_cells (Fin x, Fin a) (Fin x, Fin b) corner
    = Inr (map (\<lambda>c. (\<lfloor>x\<rfloor>, c)) (cells_between \<lfloor>a\<rfloor> \<lfloor>b\<rfloor>))"
proof -
  obtain s n m t where y: "step_of (fsub (Fin b) (Fin a)) = s" "axis_setup (Fin a) \<lfloor>a\<rfloor> (fsub (Fin b) (Fin a)) = Inr (m, t)"
    and s: "n = 0 \<or> s = 1 \<or> s = -1" and b: "\<lfloor>b\<rfloor> = \<lfloor>a\<rfloor> + s * int n"
    using axis_along [OF assms] by blast
  let ?cs = "map (\<lambda>i. (\<lfloor>x\<rfloor>, \<lfloor>a\<rfloor> + s * int (Suc i))) [0..<n]"
  have l: "segment_loop n corner (\<lfloor>x\<rfloor>, \<lfloor>a\<rfloor> + s * int n) 0 s PInf t (\<lfloor>x\<rfloor>, \<lfloor>a\<rfloor>) PInf m = Inr ?cs"
  proof (cases "n = 0")
    case True
    then show ?thesis by (simp add: segment_loop.simps)
  next
    case False
    then show ?thesis using s by (intro loop_column) simp
  qed
  have cells: "(\<lfloor>x\<rfloor>, \<lfloor>a\<rfloor>) # ?cs = map (\<lambda>c. (\<lfloor>x\<rfloor>, c)) (cells_between \<lfloor>a\<rfloor> \<lfloor>b\<rfloor>)"
    unfolding b cells_between_along [OF s] by (simp add: o_def)
  have d: "distinct (map (\<lambda>c. (\<lfloor>x\<rfloor>, c)) (cells_between \<lfloor>a\<rfloor> \<lfloor>b\<rfloor>))"
    using distinct_cells_between by (simp add: distinct_map inj_on_def)
  have f: "fromkeys ((\<lfloor>x\<rfloor>, \<lfloor>a\<rfloor>) # ?cs) = map (\<lambda>c. (\<lfloor>x\<rfloor>, c)) (cells_between \<lfloor>a\<rfloor> (\<lfloor>a\<rfloor> + s * int n))"
    using fromkeys_distinct [OF d] by (simp only: cells b)
  show ?thesis using y l axis_still(1) [of x] axis_still(2) [of x "\<lfloor>x\<rfloor>"] f
    by (simp add: continuous_segment_cells_def segment_run_def floor_cell_Fin b segment_bound_along [OF s] del: list.map of_nat_Suc)
qed

end
