(* ===== verification/NavClaims.thy ===== *)
theory NavClaims
  imports NavClearance NavGround NavPlan NavMap NavPath
begin

text \<open>
  The properties of the navigation core, each with a witness at a concrete input where it
  has hypotheses.
\<close>

subsection \<open>Inflation\<close>


definition sample_occupancy :: occupancy where
  "sample_occupancy = [0, 0, 0, 0, 255, 0, 0, 127, 0]"

lemma sample_reach:
  "cell_half_diagonal 1 = Inr (Fin (6369051672525773 / 9007199254740992))"
  "bindE (fdiv (fadd (Fin (1/2)) (Fin (6369051672525773 / 9007199254740992))) (Fin 1)) fceil = Inr 2"
  by code_simp+

lemma sample_numbers:
  "n_number (Some 0) (PFloat (Fin (1/2))) ''radius_m'' = Inr (1/2)"
  "n_number (Some (lit (1/100))) (PFloat (Fin 1)) ''resolution_m'' = Inr 1"
  "\<not> fle (Fin (1/2)) EPSILON"
  by code_simp+

lemma sample_length: "int (length sample_occupancy) = 9"
  by (simp add: sample_occupancy_def)

lemma sample_inflated:
  "\<exists>inflated. inflate_occupancy sample_occupancy 3 3 (PFloat (Fin 1)) (PFloat (Fin (1/2))) 127 200 = Inr inflated"
  by (simp add: inflate_occupancy_def sample_numbers sample_reach sample_length Let_def
      del: fadd.simps fdiv.simps)


text \<open>C7. Inflation cell by cell: with a radius above the epsilon, the result has the length of
  the occupancy, an unknown cell stays unknown, a cell becomes 255 exactly when some
  blocked or unknown cell lies within one of the offsets, and every other cell keeps its
  value.\<close>

theorem inflate_exact:
  assumes "inflate_occupancy occ width height resolution_v radius_v unknown threshold = Inr inflated"
    and "1 \<le> width"
    and "n_number (Some 0) radius_v ''radius_m'' = Inr radius" and "\<not> fle (Fin radius) EPSILON"
    and "n_number (Some (lit (1/100))) resolution_v ''resolution_m'' = Inr res"
  shows "length inflated = length occ
    \<and> (\<exists>half cells. cell_half_diagonal res = Inr half
        \<and> bindE (fdiv (fadd (Fin radius) half) (Fin res)) fceil = Inr cells
        \<and> (\<forall>c. in_grid width height c \<longrightarrow>
             inflated ! cell_index width c =
               (if occ ! cell_index width c = unknown then unknown
                else if \<exists>s. in_grid width height s \<and> blocked_value unknown threshold (occ ! cell_index width s)
                          \<and> (fst c - fst s, snd c - snd s) \<in> set (inflation_offsets cells res (fadd (Fin radius) half))
                then OCCUPIED_VALUE else occ ! cell_index width c)))"
proof -
  from inflate_occupancy_Inr [OF assms(1,3,4,5)] obtain half cells where
    l: "int (length occ) = width * height" and h: "cell_half_diagonal res = Inr half"
    and c: "bindE (fdiv (fadd (Fin radius) half) (Fin res)) fceil = Inr cells"
    and i: "inflated = inflate_all unknown width height (blocked_cells occ width unknown threshold)
              (inflation_offsets cells res (fadd (Fin radius) half)) occ" by blast
  have "\<forall>c. in_grid width height c \<longrightarrow> inflated ! cell_index width c =
      (if occ ! cell_index width c = unknown then unknown
       else if \<exists>s. in_grid width height s \<and> blocked_value unknown threshold (occ ! cell_index width s)
              \<and> (fst c - fst s, snd c - snd s) \<in> set (inflation_offsets cells res (fadd (Fin radius) half))
       then OCCUPIED_VALUE else occ ! cell_index width c)"
    by (simp add: i nth_inflate_all [OF _ l] blocked_cells_iff [OF assms(2) l] Bex_def conj_assoc)
  then show ?thesis using h c i by simp
qed

lemma inflate_exact_witness:
  "\<exists>inflated. inflate_occupancy sample_occupancy 3 3 (PFloat (Fin 1)) (PFloat (Fin (1/2))) 127 200 = Inr inflated
     \<and> length inflated = 9 \<and> inflated ! cell_index 3 (1, 2) = 127"
proof -
  obtain inflated where run:
    "inflate_occupancy sample_occupancy 3 3 (PFloat (Fin 1)) (PFloat (Fin (1/2))) 127 200 = Inr inflated"
    using sample_inflated by blast
  have "length inflated = length sample_occupancy"
    and "in_grid 3 3 (1, 2) \<Longrightarrow> sample_occupancy ! cell_index 3 (1, 2) = 127 \<Longrightarrow> inflated ! cell_index 3 (1, 2) = 127"
    using inflate_exact [OF run one_le_numeral sample_numbers(1,3,2)] by metis+
  then have "length inflated = 9 \<and> inflated ! cell_index 3 (1, 2) = 127"
    by (simp add: in_grid_def sample_occupancy_def cell_index_def)
  with run show ?thesis by blast
qed

end
