(* ===== verification/PathClaims.thy ===== *)
theory PathClaims
  imports NavStraight ContractClaims
begin

text \<open>
  The properties of segments and paths of \<open>lumina_next/portable_navigation_core_v1.py\<close>, each
  with a witness on a small grid where it has hypotheses.
\<close>

subsection \<open>Paths\<close>

text \<open>C9. The collision report of a path of at least two points is exact: it is valid exactly when
  every segment is clear, and otherwise names the first segment that is not, with a cell
  that is not traversable.\<close>

theorem collision_report_exact:
  assumes "path_collision_report L grid (points_val ps) additional = Inr rep" and "2 \<le> length ps"
  shows "\<exists>g. grid_with_inflation L grid additional = Inr g
    \<and> (cr_valid rep \<longleftrightarrow> (\<forall>i. Suc i < length ps \<longrightarrow> segment_clear g (ps ! i) (ps ! Suc i)))
    \<and> (\<not> cr_valid rep \<longrightarrow> (\<exists>k c. cr_segment_index rep = Some k \<and> Suc k < length ps
         \<and> \<not> segment_clear g (ps ! k) (ps ! Suc k) \<and> (\<forall>j<k. segment_clear g (ps ! j) (ps ! Suc j))
         \<and> cr_cell rep = Some c \<and> gv_blocked g c))"
proof -
  obtain p q ps' where ps: "ps = p # q # ps'" using assms(2) by (cases ps; cases "tl ps") auto
  from assms(1) have "bindE (n_points (map v3_val ps) ''points_m'') (\<lambda>points.
      bindE (grid_with_inflation L grid additional) (\<lambda>g. points_report g points)) = Inr rep"
    by (simp add: path_collision_report_def points_val_def ps)
  then obtain g where g: "grid_with_inflation L grid additional = Inr g" and r: "points_report g ps = Inr rep"
    by (auto elim: bindE_InrE)
  have "segments_report g 0 ps = Inr rep" using r by (simp add: points_report_def ps)
  then show ?thesis
    using g segments_report_valid [of g 0 ps rep] report_segments_exact [of g 0 ps rep]
    by (auto simp: path_clear_def)
qed

definition sample_grid :: "(string \<times> pyval) list" where
  "sample_grid = [
     (''occupancy_base64'', PStr (map char_of [0::nat, 0, 0, 255, 0, 0, 0, 0, 0, 0, 0, 0])),
     (''width_cells'', PInt 4), (''height_cells'', PInt 3),
     (''resolution_m'', PFloat (Fin 1)),
     (''origin_position_m'', PList [PFloat (Fin 0), PFloat (Fin 0), PFloat (Fin 0)]),
     (''origin_orientation_xyzw'', PList [PFloat (Fin 0), PFloat (Fin 0), PFloat (Fin 0), PFloat (Fin 1)]),
     (''unknown_value'', PInt 127), (''occupied_threshold'', PInt 200),
     (''occupancy_sha256'', PStr sample_digest)]"

definition sample_view :: grid_view where
  "sample_view = \<lparr>gv_width = 4, gv_height = 3, gv_resolution = 1, gv_origin = (0, 0, 0),
        gv_orientation = (Fin 0, Fin 0, Fin 0, Fin 1),
        gv_occupancy = [0, 0, 0, 255, 0, 0, 0, 0, 0, 0, 0, 0],
        gv_unknown = 127, gv_threshold = 200\<rparr>"

definition sample_points :: "vec3 list" where
  "sample_points = [(1/2, 3/2, 0), (3/2, 1/2, 0), (5/2, 1/2, 0)]"

lemma sample_decode: "grid_with_inflation sample_lib sample_grid (PInt 0) = Inr sample_view"
  by code_simp

lemma sample_coordinates:
  "world_to_grid_coordinates sample_view (f3 (7/2, 1/2, 0)) = Inr (Fin (7/2), Fin (1/2))"
  "world_to_grid_coordinates sample_view (f3 (1/2, 3/2, 0)) = Inr (Fin (1/2), Fin (3/2))"
  "world_to_grid_coordinates sample_view (f3 (3/2, 1/2, 0)) = Inr (Fin (3/2), Fin (1/2))"
  "world_to_grid_coordinates sample_view (f3 (5/2, 1/2, 0)) = Inr (Fin (5/2), Fin (1/2))"
  by code_simp+

lemma sample_floors:
  "floor_cell (Fin (7/2), Fin (1/2)) = Inr (3, 0)" "floor_cell (Fin (1/2), Fin (3/2)) = Inr (0, 1)"
  "floor_cell (Fin (3/2), Fin (1/2)) = Inr (1, 0)" "floor_cell (Fin (5/2), Fin (1/2)) = Inr (2, 0)"
  by code_simp+

lemma sample_cells:
  "list_all (gv_in sample_view) [(3, 0), (0, 1), (1, 1), (0, 0), (1, 0), (2, 0)]"
  "list_all (\<lambda>c. \<not> gv_blocked sample_view c) [(0, 1), (1, 1), (0, 0), (1, 0), (2, 0)]"
  "gv_blocked sample_view (3, 0)"
  by code_simp+

lemma sample_traversals:
  "continuous_segment_cells (Fin (1/2), Fin (3/2)) (Fin (3/2), Fin (1/2)) True = Inr [(0, 1), (1, 1), (0, 0), (1, 0)]"
  "continuous_segment_cells (Fin (3/2), Fin (1/2)) (Fin (5/2), Fin (1/2)) True = Inr [(1, 0), (2, 0)]"
  "continuous_segment_cells (Fin (5/2), Fin (1/2)) (Fin (7/2), Fin (1/2)) True = Inr [(2, 0), (3, 0)]"
  "continuous_segment_cells (Fin (1/2), Fin (3/2)) (Fin (5/2), Fin (1/2)) True = Inr [(0, 1), (1, 1), (1, 0), (2, 0)]"
  by code_simp+

lemma sample_segment_reports:
  "segment_report sample_view i (1/2, 3/2, 0) (3/2, 1/2, 0) = Inr None"
  "segment_report sample_view i (3/2, 1/2, 0) (5/2, 1/2, 0) = Inr None"
  "segment_report sample_view i (5/2, 1/2, 0) (7/2, 1/2, 0) = Inr (Some (hit_report ''blocked'' i (3, 0)))"
  "segment_report sample_view i (1/2, 3/2, 0) (5/2, 1/2, 0) = Inr None"
  using sample_cells unfolding segment_report_def
  by (simp_all add: sample_coordinates sample_floors sample_traversals first_where_def)

lemma sample_report:
  "path_collision_report sample_lib sample_grid (points_val (sample_points @ [(7/2, 1/2, 0)])) (PInt 0)
     = Inr (hit_report ''blocked'' 2 (3, 0))"
proof -
  have p: "n_points (map v3_val (sample_points @ [(7/2, 1/2, 0)])) ''points_m'' = Inr (sample_points @ [(7/2, 1/2, 0)])"
    by (rule n_points_points)
  show ?thesis using p
    by (simp add: path_collision_report_def points_val_def sample_points_def sample_decode points_report_def
        sample_segment_reports numeral_2_eq_2)
qed

lemma collision_report_exact_witness:
  "\<exists>g. grid_with_inflation sample_lib sample_grid (PInt 0) = Inr g \<and> \<not> segment_clear g (5/2, 1/2, 0) (7/2, 1/2, 0)"
proof -
  let ?ps = "sample_points @ [(7/2, 1/2, 0)]"
  have "2 \<le> length ?ps" by (simp add: sample_points_def)
  from collision_report_exact [OF sample_report this] obtain g k where
    "grid_with_inflation sample_lib sample_grid (PInt 0) = Inr g"
    "cr_segment_index (hit_report ''blocked'' 2 (3, 0)) = Some k" "\<not> segment_clear g (?ps ! k) (?ps ! Suc k)"
    using hit_report_valid by blast
  then show ?thesis by (auto simp: sample_points_def)
qed

lemma sample_valid:
  "validate_path_collision sample_lib sample_grid (points_val sample_points) (PInt 0) = Inr True"
  "validate_path_collision sample_lib sample_grid (points_val [(1/2, 3/2, 0), (5/2, 1/2, 0)]) (PInt 0) = Inr True"
proof -
  have p: "n_points (map v3_val ps) ''points_m'' = Inr ps" for ps by (rule n_points_points)
  show "validate_path_collision sample_lib sample_grid (points_val sample_points) (PInt 0) = Inr True"
    using p [of sample_points]
    by (simp add: validate_path_collision_def path_collision_report_def points_val_def sample_points_def sample_decode
        points_report_def sample_segment_reports clear_report_def)
  show "validate_path_collision sample_lib sample_grid (points_val [(1/2, 3/2, 0), (5/2, 1/2, 0)]) (PInt 0) = Inr True"
    using p [of "[(1/2, 3/2, 0), (5/2, 1/2, 0)]"]
    by (simp add: validate_path_collision_def path_collision_report_def points_val_def sample_decode
        points_report_def sample_segment_reports clear_report_def)
qed

lemma sample_pulled: "pull_from sample_lib sample_grid (PInt 0) sample_points 0 = Inr [2]"
proof -
  have "furthest_visible sample_lib sample_grid (PInt 0) sample_points 0 2 = Inr 2"
    using sample_valid(2) by (simp add: furthest_visible.simps pair_clear_def sample_points_def)
  then show ?thesis by (simp add: pull_from.simps sample_points_def numeral_2_eq_2)
qed

lemma sample_simplified:
  "simplify_path sample_lib sample_grid (map v3_val sample_points) (PInt 0) = Inr [(1/2, 3/2, 0), (5/2, 1/2, 0)]"
  using sample_valid sample_pulled
  by (simp add: simplify_path_def n_points_points del: list.map) (simp add: sample_points_def)

text \<open>C8. String pulling is greedy and safe. Of a path whose input is collision-free on the inflated
  grid it keeps the first point, the last point and some between, in order; every cell that the
  traversal of a kept leg touches lies in the grid and is free; and from every kept point the next
  is the last point of the input that can be reached from it by a collision-free segment, or its
  direct successor when no later one can. Conversely, when the input is collision-free and the
  pulling itself returns, the pulled path is the answer: the validation of the simplified path
  that follows never refuses it.\<close>

theorem simplify_path_sound:
  "(simplify_path L grid points_m additional = Inr path \<longrightarrow>
      (\<exists>points g ks. n_points points_m ''points_m'' = Inr points \<and> grid_with_inflation L grid additional = Inr g
        \<and> path = map ((!) points) ks \<and> sorted_wrt (<) ks \<and> (\<forall>k \<in> set ks. k < length points)
        \<and> ks \<noteq> [] \<and> hd ks = 0 \<and> last ks = length points - 1
        \<and> path_clear g points \<and> path_clear g path \<and> (length points = 1 \<longrightarrow> endpoint_clear g (hd points))
        \<and> (\<forall>i. Suc i < length ks \<longrightarrow> (ks ! Suc i = Suc (ks ! i) \<or> segment_clear g (points ! (ks ! i)) (points ! (ks ! Suc i)))
             \<and> (\<forall>j. ks ! Suc i < j \<and> j < length points \<longrightarrow> \<not> segment_clear g (points ! (ks ! i)) (points ! j)))))
   \<and> (n_points points_m ''points_m'' = Inr points
      \<longrightarrow> validate_path_collision L grid (points_val points) additional = Inr True
      \<longrightarrow> pull_from L grid additional points 0 = Inr kept
      \<longrightarrow> simplify_path L grid points_m additional = Inr (map ((!) points) (0 # kept)))"
proof (intro conjI impI)
  assume "simplify_path L grid points_m additional = Inr path"
  from simplify_path_Inr [OF this] show "\<exists>points g ks. n_points points_m ''points_m'' = Inr points
        \<and> grid_with_inflation L grid additional = Inr g
        \<and> path = map ((!) points) ks \<and> sorted_wrt (<) ks \<and> (\<forall>k \<in> set ks. k < length points)
        \<and> ks \<noteq> [] \<and> hd ks = 0 \<and> last ks = length points - 1
        \<and> path_clear g points \<and> path_clear g path \<and> (length points = 1 \<longrightarrow> endpoint_clear g (hd points))
        \<and> (\<forall>i. Suc i < length ks \<longrightarrow> (ks ! Suc i = Suc (ks ! i) \<or> segment_clear g (points ! (ks ! i)) (points ! (ks ! Suc i)))
             \<and> (\<forall>j. ks ! Suc i < j \<and> j < length points \<longrightarrow> \<not> segment_clear g (points ! (ks ! i)) (points ! j)))"
    unfolding list_all_iff successively_conv_nth furthest_seen_def by blast
qed (rule simplify_path_pulled)

lemma simplify_path_sound_witness:
  "simplify_path sample_lib sample_grid (map v3_val sample_points) (PInt 0) = Inr (map ((!) sample_points) [0, 2])
   \<and> (\<exists>points g ks. n_points (map v3_val sample_points) ''points_m'' = Inr points
        \<and> [(1/2, 3/2, 0), (5/2, 1/2, 0)] = map ((!) points) ks \<and> path_clear g points \<and> last ks = length points - 1)"
proof -
  have p: "n_points (map v3_val sample_points) ''points_m'' = Inr sample_points" by (rule n_points_points)
  have "simplify_path sample_lib sample_grid (map v3_val sample_points) (PInt 0) = Inr (map ((!) sample_points) [0, 2])"
    using simplify_path_sound p sample_valid(1) sample_pulled by blast
  moreover obtain points g ks where "n_points (map v3_val sample_points) ''points_m'' = Inr points"
    "[(1/2, 3/2, 0), (5/2, 1/2, 0)] = map ((!) points) ks" "path_clear g points" "last ks = length points - 1"
    using simplify_path_sound sample_simplified by metis
  ultimately show ?thesis by (intro conjI exI [of _ points] exI [of _ g] exI [of _ ks])
qed

text \<open>The fuel of the traversal decides exactly whether the loop of the source ends: with the
  bound the model runs it for, the answer is \<open>PyNoReturn\<close> if and only if no number of
  iterations is enough.\<close>

lemma segment_no_return_exact:
  assumes "floor_cell p = Inr start" and "floor_cell q = Inr stop"
  shows "continuous_segment_cells p q corner = Inl PyNoReturn
    \<longleftrightarrow> (\<forall>n. segment_run n p q corner start stop = Inl PyNoReturn)"
  using segment_run_forever [of start stop p q corner] by (auto simp: assms continuous_segment_cells_def)

text \<open>C27. A segment parallel to an axis always returns, and the result is exact: between binary64
  coordinates of at most \<open>2 ^ 52\<close> in magnitude the traversal returns the cells of one row (or one
  column) from the cell of the first point to the cell of the last, each once, in the order of
  the walk, in either direction, whatever the accumulated rounding errors of the parameters.\<close>

theorem straight_segment_cells:
  assumes "representable a" and "representable b" and "\<bar>a\<bar> \<le> 2 ^ 52" and "\<bar>b\<bar> \<le> 2 ^ 52"
  shows "continuous_segment_cells (Fin a, Fin y) (Fin b, Fin y) corner
      = Inr (map (\<lambda>c. (c, \<lfloor>y\<rfloor>)) (cells_between \<lfloor>a\<rfloor> \<lfloor>b\<rfloor>))
    \<and> continuous_segment_cells (Fin y, Fin a) (Fin y, Fin b) corner
      = Inr (map (\<lambda>c. (\<lfloor>y\<rfloor>, c)) (cells_between \<lfloor>a\<rfloor> \<lfloor>b\<rfloor>))"
  using row_cells [OF assms] column_cells [OF assms] by blast

lemma straight_segment_cells_witness:
  "continuous_segment_cells (Fin (5/2), Fin (1/4)) (Fin 0, Fin (1/4)) True = Inr [(2, 0), (1, 0), (0, 0)]"
proof -
  have "representable (5/2)" "representable 0" unfolding representable_def by code_simp+
  then have "continuous_segment_cells (Fin (5/2), Fin (1/4)) (Fin 0, Fin (1/4)) True
      = Inr (map (\<lambda>c. (c, \<lfloor>1/4 :: rat\<rfloor>)) (cells_between \<lfloor>5/2 :: rat\<rfloor> \<lfloor>0 :: rat\<rfloor>))"
    using straight_segment_cells [of "5/2" 0 "1/4" True] by simp
  moreover have "map (\<lambda>c. (c, \<lfloor>1/4 :: rat\<rfloor>)) (cells_between \<lfloor>5/2 :: rat\<rfloor> \<lfloor>0 :: rat\<rfloor>) = [(2, 0), (1, 0), (0, 0)]" by code_simp
  ultimately show ?thesis by simp
qed

text \<open>The segment from \<open>(5/2, 1/2)\<close> to \<open>(1, 2)\<close>: both axes have the same parameters.\<close>

definition third :: pyfloat where
  "third = Fin (6004799503160661 / 18014398509481984)"

definition two_thirds :: pyfloat where
  "two_thirds = Fin (6004799503160661 / 9007199254740992)"

lemma diagonal_setup:
  "axis_setup (Fin (5/2)) 2 (fsub (Fin 1) (Fin (5/2))) = Inr (third, two_thirds)"
  "axis_setup (Fin (1/2)) 0 (fsub (Fin 2) (Fin (1/2))) = Inr (third, two_thirds)"
  "step_of (fsub (Fin 1) (Fin (5/2))) = -1" "step_of (fsub (Fin 2) (Fin (1/2))) = 1"
  by code_simp+

lemma diagonal_ties:
  "segment_tie third third" "fadd third two_thirds = Fin 1" "segment_tie (Fin 1) (Fin 1)"
  "fadd (Fin 1) two_thirds = Fin (3752999689475413 / 2251799813685248)" by code_simp+

lemma diagonal_tie:
  "segment_tie (Fin (3752999689475413 / 2251799813685248)) (Fin (3752999689475413 / 2251799813685248))"
  by code_simp

text \<open>C28. The traversal does not always return: of this segment between two cells the float
  parameters of both axes agree, the walk steps diagonally past the last cell, and no number
  of iterations reaches it.\<close>

theorem segment_never_returns:
  "floor_cell (Fin (5/2), Fin (1/2)) = Inr (2, 0) \<and> floor_cell (Fin 1, Fin 2) = Inr (1, 2)
     \<and> segment_run n (Fin (5/2), Fin (1/2)) (Fin 1, Fin 2) corner (2, 0) (1, 2) = Inl PyNoReturn"
proof -
  have f: "floor_cell (Fin (5/2), Fin (1/2)) = Inr (2, 0)" "floor_cell (Fin 1, Fin 2) = Inr (1, 2)" by code_simp+
  have b: "segment_bound (2, 0) (1, 2) = 3" by (simp add: segment_bound_def)
  have "segment_loop 3 corner (1, 2) (-1) 1 two_thirds two_thirds (2, 0) third third = Inl PyNoReturn"
    by (simp add: numeral_3_eq_3 segment_loop_Suc diagonal_ties diagonal_tie segment_loop.simps [of 0])
  then have "segment_run (segment_bound (2, 0) (1, 2)) (Fin (5/2), Fin (1/2)) (Fin 1, Fin 2) corner (2, 0) (1, 2)
      = Inl PyNoReturn"
    by (simp add: b segment_run_def diagonal_setup)
  with f show ?thesis by (simp add: segment_run_forever)
qed

end
