(* ===== verification/NavPlanning.thy ===== *)
theory NavPlanning
  imports NavSearch NavPath NavMap ContractSensor
begin

text \<open>
  From the search to the plan: the moves of the planner as a relation on cells, the three
  outcomes of the search, the arrival cells, and the stages of \<open>plan_path\<close>.
\<close>

subsection \<open>Moves on the grid\<close>

text \<open>
  The specification of a move: to one of the eight cells around, not blocked; a diagonal
  move passes between two cells that are not blocked either.
\<close>

definition cell_step :: "grid_view \<Rightarrow> cell \<Rightarrow> cell \<Rightarrow> bool" where
  "cell_step g a b = (\<not> gv_blocked g b \<and> a \<noteq> b \<and> \<bar>fst b - fst a\<bar> \<le> 1 \<and> \<bar>snd b - snd a\<bar> \<le> 1
     \<and> (fst a \<noteq> fst b \<and> snd a \<noteq> snd b \<longrightarrow> \<not> gv_blocked g (fst b, snd a) \<and> \<not> gv_blocked g (fst a, snd b)))"

lemma unit_offset: "\<bar>d::int\<bar> \<le> 1 \<longleftrightarrow> d = -1 \<or> d = 0 \<or> d = 1"
  by auto

lemma moves_neighbours: "moves (neighbours g) a b \<longleftrightarrow> cell_step g a b"
proof -
  obtain x y u v where ab: "a = (x, y)" "b = (u, v)" by (cases a; cases b)
  have one: "b \<in> fst ` set (case d of (dx, dy) \<Rightarrow>
      let n = (fst a + dx, snd a + dy) in
      if gv_blocked g n then []
      else if dx \<noteq> 0 \<and> dy \<noteq> 0 then
        if gv_blocked g (fst a + dx, snd a) \<or> gv_blocked g (fst a, snd a + dy) then [] else [(n, diagonal_cost)]
      else [(n, Fin 1)]) \<longleftrightarrow>
    d = (u - x, v - y) \<and> \<not> gv_blocked g b \<and> (x \<noteq> u \<and> y \<noteq> v \<longrightarrow> \<not> gv_blocked g (u, y) \<and> \<not> gv_blocked g (x, v))" for d
    by (cases d) (auto simp: ab Let_def)
  have "moves (neighbours g) a b \<longleftrightarrow> (u - x, v - y) \<in> set neighbour_steps \<and> \<not> gv_blocked g b
      \<and> (x \<noteq> u \<and> y \<noteq> v \<longrightarrow> \<not> gv_blocked g (u, y) \<and> \<not> gv_blocked g (x, v))"
    unfolding moves_def neighbours_def set_concat set_map image_UN UN_iff image_image one by blast
  also have "(u - x, v - y) \<in> set neighbour_steps \<longleftrightarrow> a \<noteq> b \<and> \<bar>u - x\<bar> \<le> 1 \<and> \<bar>v - y\<bar> \<le> 1"
    unfolding unit_offset neighbour_steps_def ab by auto
  finally show ?thesis by (auto simp: cell_step_def ab)
qed

lemma moves_grid: "moves (neighbours g) = cell_step g"
  by (intro ext) (rule moves_neighbours)

lemma search_cells_found:
  assumes "search_cells g start goals limit h = Inr (c, st, cells)" and "1 \<le> limit" and "limit \<le> 2 ^ 51"
  shows "c \<in> set goals \<and> cells \<noteq> [] \<and> hd cells = start \<and> last cells = c \<and> distinct cells
    \<and> successively (cell_step g) cells \<and> se_expansions st \<le> limit"
proof -
  from assms(1) obtain h0 where a: "astar (neighbours g) h (set goals) limit (search_start start h0) = Inr (Some c, st)"
    and t: "trace_back (se_serial st) st start c = Inr cells"
    by (auto simp: search_cells_def bindE_Inr_iff n_error_def split: option.splits if_splits)
  show ?thesis using grid.astar_found [OF a assms(2,3)] t by (auto simp: moves_grid)
qed

text \<open>When the heuristic does not raise, the search ends in one of three ways.\<close>

lemma relax_total: "\<forall>c. \<exists>x. h c = Inr x \<Longrightarrow> \<exists>st'. relax h c cost st edge = Inr st'"
  by (drule spec [of _ "fst edge"]) (auto simp: relax_def Let_def)

lemma relax_all_total: "\<forall>c. \<exists>x. h c = Inr x \<Longrightarrow> \<exists>st'. foldE (relax h c cost) st es = Inr st'"
proof (induction es arbitrary: st)
  case (Cons e es)
  obtain st1 where "relax h c cost st e = Inr st1" using relax_total [OF Cons.prems] by blast
  then show ?case using Cons by simp
qed simp

lemma astar_total: "\<forall>c. \<exists>x. h c = Inr x \<Longrightarrow> \<exists>r. astar nbrs h goals limit st = Inr r"
proof (induction nbrs h goals limit st rule: astar.induct)
  case (1 nbrs h goals limit st)
  let ?e = "heap_top (se_frontier st)"
  show ?case
  proof (cases "se_frontier st = [] \<or> limit \<le> se_expansions st \<or> stale st ?e \<or> en_cell ?e \<in> goals")
    case True
    then show ?thesis using "1.IH"(1) [OF _ refl refl _ "1.prems"]
      by (subst astar.simps) (auto simp: Let_def)
  next
    case False
    obtain st1 where "foldE (relax h (en_cell ?e) (en_cost ?e)) (expand_state st) (nbrs (en_cell ?e)) = Inr st1"
      using relax_all_total [OF "1.prems"] by blast
    then show ?thesis using False "1.IH"(2) [OF _ refl refl _ _ _ "1.prems", of st1]
      by (subst astar.simps) (simp add: Let_def)
  qed
qed

lemma successively_reaches: "successively P xs \<Longrightarrow> xs \<noteq> [] \<Longrightarrow> P\<^sup>*\<^sup>* (hd xs) (last xs)"
proof (induction xs)
  case (Cons x xs)
  then show ?case by (cases xs) (auto simp: intro: converse_rtranclp_into_rtranclp)
qed simp

lemma search_cells_outcomes:
  assumes "\<forall>c. \<exists>x. h c = Inr x" and "1 \<le> limit" and "limit \<le> 2 ^ 51"
  shows "(\<exists>c st cells. search_cells g start goals limit h = Inr (c, st, cells) \<and> (cell_step g)\<^sup>*\<^sup>* start c)
    \<or> (search_cells g start goals limit h = Inl (CoreError ''PORTABLE_CORE_NO_PATH'' ''disconnected'')
       \<and> (\<forall>c \<in> set goals. \<not> (cell_step g)\<^sup>*\<^sup>* start c))
    \<or> search_cells g start goals limit h = Inl (CoreError ''PORTABLE_CORE_NO_PATH'' ''expansion_limit'')"
proof -
  obtain h0 where h0: "h start = Inr h0" using assms(1) by blast
  obtain reached st where a: "astar (neighbours g) h (set goals) limit (search_start start h0) = Inr (reached, st)"
    using astar_total [OF assms(1)] by (metis surj_pair)
  show ?thesis
  proof (cases reached)
    case None
    note x = grid.astar_exhausted [OF a [unfolded None] assms(2,3), unfolded moves_grid]
    show ?thesis using x by (cases "se_frontier st = []") (simp_all add: search_cells_def h0 a None n_error_def)
  next
    case (Some c)
    obtain cells where t: "trace_back (se_serial st) st start c = Inr cells" "cells \<noteq> []" "hd cells = start"
      "last cells = c" "successively (cell_step g) cells"
      using grid.astar_found [OF a [unfolded Some] assms(2,3)] by (auto simp: moves_grid)
    then have "(cell_step g)\<^sup>*\<^sup>* start c" using successively_reaches [OF t(5,2)] by simp
    moreover have "search_cells g start goals limit h = Inr (c, st, cells)"
      by (simp add: search_cells_def h0 a Some t(1))
    ultimately show ?thesis by blast
  qed
qed

lemma mapE_total: "\<forall>x \<in> set xs. \<exists>y. f x = Inr y \<Longrightarrow> \<exists>ys. mapE f xs = Inr ys \<and> length ys = length xs"
  by (induction xs) (auto simp: bindE_Inr_iff)

lemma xy_dist_total: "\<exists>d. xy_dist w p = Inr d"
  by (cases w; cases p) (simp add: xy_dist_def fdist_def f3_def)

lemma heuristic_total: "references \<noteq> [] \<Longrightarrow> gv_resolution g \<noteq> 0 \<Longrightarrow> \<exists>x. heuristic g references effective c = Inr x"
proof -
  assume "references \<noteq> []" and r: "gv_resolution g \<noteq> 0"
  moreover obtain ds where ds: "mapE (xy_dist (cell_to_world g c)) references = Inr ds" "length ds = length references"
    using mapE_total [of references "xy_dist (cell_to_world g c)"] xy_dist_total by blast
  ultimately obtain d ds' where "ds = d # ds'" by (cases ds) auto
  then show ?thesis using r by (simp add: heuristic_def ds)
qed

subsection \<open>Arrival cells\<close>

definition arrival_cell :: "grid_view \<Rightarrow> vec3 \<Rightarrow> pyfloat \<Rightarrow> cell \<Rightarrow> bool" where
  "arrival_cell g reference effective c = (\<not> gv_blocked g c
     \<and> (\<exists>d. xy_dist (cell_to_world g c) reference = Inr d \<and> fle d (fadd effective EPSILON)))"

lemma arrival_filter_sound: "arrival_filter g p e cs = Inr found \<Longrightarrow> c \<in> set found \<Longrightarrow> arrival_cell g p e c"
proof (induction cs arbitrary: found)
  case (Cons x cs)
  show ?case
  proof (cases "gv_blocked g x")
    case True
    then show ?thesis using Cons by simp
  next
    case False
    with Cons.prems(1) obtain d goals where "xy_dist (cell_to_world g x) p = Inr d"
      "arrival_filter g p e cs = Inr goals" "found = (if fle d (fadd e EPSILON) then x # goals else goals)"
      by (auto elim!: bindE_InrE)
    then show ?thesis using Cons.IH Cons.prems(2) False by (auto simp: arrival_cell_def split: if_splits)
  qed
qed simp

lemma mapE_member: "mapE f xs = Inr ys \<Longrightarrow> y \<in> set ys \<Longrightarrow> \<exists>x \<in> set xs. f x = Inr y"
proof (induction xs arbitrary: ys)
  case (Cons x xs)
  then show ?case by (force simp: bindE_Inr_iff)
qed simp

lemma plan_goals_sound:
  assumes "plan_goals g references effective = Inr goals" and "c \<in> set goals"
  shows "\<exists>p \<in> set references. arrival_cell g p effective c"
proof -
  from assms(1) obtain found where f: "mapE (\<lambda>r. arrival_cells g r effective) references = Inr found"
    and "goals = concat found" by (auto simp: plan_goals_def elim!: bindE_InrE)
  with assms(2) obtain cs where "cs \<in> set found" "c \<in> set cs" by auto
  with mapE_member [OF f] obtain p where "p \<in> set references" "arrival_cells g p effective = Inr cs" by blast
  from this(2) have "arrival_cell g p effective c" unfolding arrival_cells_def
    by (elim bindE_InrE) (rule arrival_filter_sound [OF _ \<open>c \<in> set cs\<close>])
  with \<open>p \<in> set references\<close> show ?thesis by blast
qed

subsection \<open>The grid of a map\<close>

lemma validate_grid_bounds:
  assumes "validate_grid L v = Inr gr"
  shows "1 \<le> width_cells gr \<and> width_cells gr \<le> MAX_GRID_DIMENSION_CELLS
    \<and> 1 \<le> height_cells gr \<and> height_cells gr \<le> MAX_GRID_DIMENSION_CELLS \<and> lit (1/100) \<le> resolution_m gr"
  using assms by (simp only: validate_grid_def accept_iffs) (elim exE conjE, simp)

lemma validate_map_grid: "validate_map_result L v q now = Inr m \<Longrightarrow> \<exists>gv. validate_grid L gv = Inr (mr_grid m)"
  by (auto simp: validate_map_result_def bindE_Inr_iff Let_def result_head.defs)

lemma decode_items_fields:
  assumes "decode_grid_items L d = Inr g"
  shows "bindE (kget d ''width_cells'') py_int = Inr (gv_width g) \<and> bindE (kget d ''height_cells'') py_int = Inr (gv_height g)
    \<and> bindE (kget d ''resolution_m'') (\<lambda>v. n_number (Some (lit (1/100))) v ''grid.resolution_m'') = Inr (gv_resolution g)"
proof -
  from assms obtain raw where "decode_fields L d = Inr (raw, g)"
    unfolding decode_grid_items_def by (auto simp: catchE_def elim!: bindE_InrE split: sum.splits prod.splits)
  then show ?thesis unfolding decode_fields_def by (elim bindE_InrE) (simp add: bindE_Inr_iff; force)
qed

lemma map_grid_size:
  assumes m: "validate_map_result L v q now = Inr m" and g: "grid_with_inflation L (map_items m) additional = Inr g"
  shows "0 < gv_width g * gv_height g \<and> gv_width g * gv_height g \<le> 2 ^ 24 \<and> gv_resolution g \<noteq> 0"
proof -
  from g obtain g0 where d: "decode_grid L (map_items m) = Inr g0"
    and same: "gv_width g = gv_width g0" "gv_height g = gv_height g0" "gv_resolution g = gv_resolution g0"
    unfolding grid_with_inflation_def by (elim bindE_InrE) (auto elim!: bindE_InrE split: if_split_asm)
  have "map_items m = (case map_result_val m of PDict d \<Rightarrow> d | _ \<Rightarrow> [])" by (simp add: map_items_def)
  then have "has_key (map_items m) ''grid''" by (simp add: map_result_val_def has_key_def)
  then obtain r d where r: "validate_map_result L (PDict (map_items m)) PNone PNone = Inr r"
    and dd: "grid_val (mr_grid r) = PDict d" "decode_grid_items L d = Inr g0"
    using d unfolding decode_grid_def by (auto elim!: bindE_InrE split: pyval.splits)
  obtain gv where gv: "validate_grid L gv = Inr (mr_grid r)" using validate_map_grid [OF r] by blast
  have "gv_width g0 = width_cells (mr_grid r)" "gv_height g0 = height_cells (mr_grid r)" "0 < gv_resolution g0"
    using decode_items_fields [OF dd(2)] dd(1) n_number_minimum [of "lit (1/100)"] lit_cent(1)
    by (auto simp: grid_val_def kget_def py_int_def elim!: bindE_InrE) fastforce+
  then show ?thesis using validate_grid_bounds [OF gv] mult_mono [of "width_cells (mr_grid r)" 4096 "height_cells (mr_grid r)" 4096]
    by (simp add: same MAX_GRID_DIMENSION_CELLS_def)
qed

subsection \<open>A plan\<close>

lemma finish_plan_Inr:
  assumes "finish_plan L m t g clearance effective simplify start (reached, st, cells) = Inr r"
  shows "pl_start_cell r = start \<and> pl_arrival_cell r = reached \<and> pl_path_cells r = cells
    \<and> pl_minimum_clearance_m r = clearance \<and> pl_effective_arrival_radius_m r = effective
    \<and> pl_expanded_cells r = se_expansions st
    \<and> validate_path_collision L (map_items m) (PList (map point3_val (pl_path_m r))) (num_val clearance) = Inr True"
  using assms unfolding finish_plan_def Let_def prod.case require_clear_def
  by (elim bindE_InrE) (auto simp: guardE_Inr_iff)

definition plan_limit :: "pyval \<Rightarrow> grid_view \<Rightarrow> py_exc + int" where
  "plan_limit max_expansions g =
     (if max_expansions = PNone then Inr (gv_width g * gv_height g) else py_int max_expansions)"

lemma plan_path_Inr:
  assumes "plan_path L map_v target arrival_v clearance_v simplify max_expansions = Inr r"
  shows "\<exists>m t arrival clearance g start goals limit found effective.
    validate_map_result L map_v PNone PNone = Inr m \<and> plan_target_of m target = Inr t
    \<and> n_number (Some 0) arrival_v ''arrival_radius_m'' = Inr arrival \<and> 0 < arrival
    \<and> effective = fadd (Fin arrival) (Fin (tg_uncertainty t))
    \<and> n_number (Some 0) clearance_v ''minimum_clearance_m'' = Inr clearance
    \<and> grid_with_inflation L (map_items m) (num_val clearance) = Inr g
    \<and> world_to_cell g (f3 (agent_position_m (mr_agent m))) = Inr start \<and> \<not> gv_blocked g start
    \<and> plan_goals g (tg_references t) effective = Inr goals
    \<and> plan_limit max_expansions g = Inr limit \<and> 1 \<le> limit
    \<and> search_cells g start goals limit (heuristic g (tg_references t) effective) = Inr found
    \<and> finish_plan L m t g clearance effective simplify start found = Inr r"
  using assms unfolding plan_path_def Let_def plan_limit_def [symmetric]
  by (elim bindE_InrE) (simp only: guardE_Inr_iff, blast)

end
