(* ===== verification/PlanClaims.thy ===== *)
theory PlanClaims
  imports NavPlanning ContractClaims
begin

text \<open>
  The properties of the planner \<open>plan_path\<close> of \<open>lumina_next/portable_navigation_core_v1.py\<close>.
\<close>

subsection \<open>The search\<close>

text \<open>C5. The A* search always ends in one of three ways, for any expansion limit up to
  \<open>2 ^ 51\<close>: it returns a path, and then the goal it reports is one of the goals and can be
  reached; it reports \<open>disconnected\<close>, and then no goal can be reached from the start by moves
  that keep clear of blocked cells and corners; or it reports the expansion limit. In
  particular following the predecessors back never fails to arrive at the start.\<close>

theorem search_outcomes:
  assumes "references \<noteq> []" and "gv_resolution g \<noteq> 0" and "1 \<le> limit" and "limit \<le> 2 ^ 51"
  shows "(\<exists>c st cells. search_cells g start goals limit (heuristic g references effective) = Inr (c, st, cells)
        \<and> c \<in> set goals \<and> (cell_step g)\<^sup>*\<^sup>* start c)
    \<or> (search_cells g start goals limit (heuristic g references effective)
          = Inl (CoreError ''PORTABLE_CORE_NO_PATH'' ''disconnected'')
       \<and> (\<forall>c \<in> set goals. \<not> (cell_step g)\<^sup>*\<^sup>* start c))
    \<or> search_cells g start goals limit (heuristic g references effective)
          = Inl (CoreError ''PORTABLE_CORE_NO_PATH'' ''expansion_limit'')"
proof -
  have "\<forall>c. \<exists>x. heuristic g references effective c = Inr x" using heuristic_total [OF assms(1,2)] by blast
  from search_cells_outcomes [OF this assms(3,4), of g start goals] search_cells_found [OF _ assms(3,4)]
  show ?thesis by meson
qed

definition sample_map :: map_result where
  "sample_map = \<lparr>rs_request_id = ''r1'', rs_environment_id = ''env'', rs_session_id = ''s1'', mr_map_id = ''m1'',
    mr_source_frame_id = ''f1'', mr_created_unix = 12, mr_coordinate_frame_id = ''world'',
    mr_grid = \<lparr>width_cells = 2, height_cells = 1, resolution_m = 1, origin_position_m = (0, 0, 0),
      origin_orientation_xyzw = (0, 0, 0, 1), occupancy_base64 = ''ab'', occupancy_sha256 = sample_digest,
      unknown_value = 127, occupied_threshold = 200\<rparr>,
    mr_agent = \<lparr>agent_position_m = (0, 0, 0), agent_orientation_xyzw = (0, 0, 0, 1), agent_footprint_radius_m = 1\<rparr>\<rparr>"

definition sample_map_view :: grid_view where
  "sample_map_view = \<lparr>gv_width = 2, gv_height = 1, gv_resolution = 1, gv_origin = (0, 0, 0),
     gv_orientation = (Fin 0, Fin 0, Fin 0, Fin 1), gv_occupancy = [97, 98], gv_unknown = 127, gv_threshold = 200\<rparr>"

definition sample_goal :: vec3 where
  "sample_goal = (3/2, 1/2, 0)"

lemma sample_search:
  "(case search_cells sample_map_view (0, 0) [(1, 0)] 2 (heuristic sample_map_view [sample_goal] (Fin (1/4))) of
      Inl e \<Rightarrow> None | Inr (c, st, cells) \<Rightarrow> Some (c, cells)) = Some ((1, 0), [(0, 0), (1, 0)])"
  by code_simp

lemma search_outcomes_witness:
  "(cell_step sample_map_view)\<^sup>*\<^sup>* (0, 0) (1, 0)"
proof -
  obtain c st cells where r: "search_cells sample_map_view (0, 0) [(1, 0)] 2
      (heuristic sample_map_view [sample_goal] (Fin (1/4))) = Inr (c, st, cells)"
    using sample_search by (auto split: sum.splits)
  have "[sample_goal] \<noteq> []" "gv_resolution sample_map_view \<noteq> 0" by (simp_all add: sample_map_view_def)
  from search_outcomes [OF this, of 2 "(0, 0)" "[(1, 0)]" "Fin (1/4)"] r show ?thesis by auto
qed

subsection \<open>The plan\<close>

text \<open>C1. What a returned plan promises, when \<open>max_expansions\<close> is \<open>None\<close> or denotes a number of at most
  \<open>2 ^ 51\<close> (beyond that the float costs of the search are no longer exact counters). It was made on
  a validated map; the clearance it reports is the requested one and its effective arrival radius is
  the positive radius requested plus the uncertainty of the target; the grid it was searched on is
  the map inflated by that clearance; its cells lead from the cell of the agent, which is free
  there, to the arrival cell by moves to neighbouring free cells that cut no corner, without
  visiting a cell twice; the centre of the arrival cell lies within the effective arrival radius of
  a surface point of the target; and the polyline it returns, simplified or not, has no collision
  on the inflated grid.\<close>

theorem plan_path_sound:
  assumes "plan_path L map_v target arrival_v clearance_v simplify max_expansions = Inr r"
    and "\<forall>k. py_int max_expansions = Inr k \<longrightarrow> k \<le> 2 ^ 51"
  shows "\<exists>m t g arrival. validate_map_result L map_v PNone PNone = Inr m \<and> plan_target_of m target = Inr t
    \<and> n_number (Some 0) clearance_v ''minimum_clearance_m'' = Inr (pl_minimum_clearance_m r)
    \<and> n_number (Some 0) arrival_v ''arrival_radius_m'' = Inr arrival \<and> 0 < arrival
    \<and> pl_effective_arrival_radius_m r = fadd (Fin arrival) (Fin (tg_uncertainty t))
    \<and> grid_with_inflation L (map_items m) (num_val (pl_minimum_clearance_m r)) = Inr g
    \<and> world_to_cell g (f3 (agent_position_m (mr_agent m))) = Inr (pl_start_cell r)
    \<and> \<not> gv_blocked g (pl_start_cell r)
    \<and> pl_path_cells r \<noteq> [] \<and> hd (pl_path_cells r) = pl_start_cell r \<and> last (pl_path_cells r) = pl_arrival_cell r
    \<and> distinct (pl_path_cells r) \<and> successively (cell_step g) (pl_path_cells r)
    \<and> (\<exists>p \<in> set (tg_references t). arrival_cell g p (pl_effective_arrival_radius_m r) (pl_arrival_cell r))
    \<and> validate_path_collision L (map_items m) (PList (map point3_val (pl_path_m r)))
        (num_val (pl_minimum_clearance_m r)) = Inr True"
proof -
  from plan_path_Inr [OF assms(1)] obtain m t arrival clearance g start goals limit found effective where
    m: "validate_map_result L map_v PNone PNone = Inr m" and t: "plan_target_of m target = Inr t"
    and n: "n_number (Some 0) clearance_v ''minimum_clearance_m'' = Inr clearance"
      "n_number (Some 0) arrival_v ''arrival_radius_m'' = Inr arrival" "0 < arrival"
      "effective = fadd (Fin arrival) (Fin (tg_uncertainty t))"
    and g: "grid_with_inflation L (map_items m) (num_val clearance) = Inr g"
    and s: "world_to_cell g (f3 (agent_position_m (mr_agent m))) = Inr start" "\<not> gv_blocked g start"
    and goals: "plan_goals g (tg_references t) effective = Inr goals"
    and limit: "plan_limit max_expansions g = Inr limit" "1 \<le> limit"
    and f: "search_cells g start goals limit (heuristic g (tg_references t) effective) = Inr found"
    and r: "finish_plan L m t g clearance effective simplify start found = Inr r"
    by (elim exE conjE) (rule that)
  have "limit \<le> 2 ^ 51"
    using limit(1) assms(2) map_grid_size [OF m g] by (auto simp: plan_limit_def split: if_splits)
  obtain c st cells where found: "found = (c, st, cells)" by (cases found)
  note path = search_cells_found [OF f [unfolded found] limit(2) \<open>limit \<le> 2 ^ 51\<close>]
  then obtain p where "p \<in> set (tg_references t)" "arrival_cell g p effective c"
    using plan_goals_sound [OF goals] by blast
  with m t n g s path finish_plan_Inr [OF r [unfolded found]] show ?thesis by auto
qed


lemma sample_map_ok: "validate_map_result sample_lib sample_map_result PNone PNone = Inr sample_map"
  using sample_limits by (simp add: sample_map_def sample_map_result_def validate_map_result_def check_map_request_def
      c_fields_ok validate_grid_def validate_agent_def c_vector3_def isclose_nano_def sample_quaternion
      c_inline_bytes_def sample_digest_ok map_result_val_def grid_val_def agent_val_def MAX_GRID_DIMENSION_CELLS_def
      MAX_GRID_CELLS_def MAX_INLINE_PLANE_BYTES_def eval_contract c_not_future_def result_head.defs
      v3_val_def v4_val_def num_val_def)

lemma sample_map_fields:
  "decode_grid_items sample_lib (case grid_val (mr_grid sample_map) of PDict d \<Rightarrow> d | _ \<Rightarrow> []) = Inr sample_map_view"
  by code_simp

lemma sample_map_grid: "grid_with_inflation sample_lib (map_items sample_map) (num_val 0) = Inr sample_map_view"
proof -
  have "validate_map_result sample_lib (map_result_val sample_map) PNone PNone = Inr sample_map"
    by (rule map_result_refeed [OF sample_map_ok])
  moreover have "\<exists>d. map_result_val sample_map = PDict d \<and> map_items sample_map = d \<and> has_key d ''grid''"
    by (simp add: map_items_def map_result_val_def)
  moreover have "fle (Fin 0) EPSILON" by code_simp
  ultimately show ?thesis using sample_map_fields
    by (auto simp: grid_with_inflation_def decode_grid_def grid_val_def n_number_def num_val_def)
qed

lemma sample_plan_parts:
  "plan_goals sample_map_view [sample_goal] (Fin (1/4)) = Inr [(1, 0)]"
  "world_to_cell sample_map_view (f3 (0, 0, 0)) = Inr (0, 0)"
  "\<not> gv_blocked sample_map_view (0, 0)"
  "closest_reference (f3 sample_goal) [sample_goal] = Inr sample_goal"
  "cell_to_world sample_map_view (1, 0) = f3 sample_goal"
  "fadd (Fin (1/4)) (Fin 0) = Fin (1/4)"
  by code_simp+

lemma sample_plan_segment: "segment_report sample_map_view 0 (0, 0, 0) sample_goal = Inr None"
  by code_simp

lemma sample_plan_clear:
  "validate_path_collision sample_lib (map_items sample_map) (PList (map point3_val [f3 (0, 0, 0), f3 sample_goal])) (num_val 0)
     = Inr True"
proof -
  have p: "n_points (map v3_val [(0, 0, 0), sample_goal]) ''points_m'' = Inr [(0, 0, 0), sample_goal]" by (rule n_points_points)
  have "map point3_val [f3 (0, 0, 0), f3 sample_goal] = map v3_val [(0, 0, 0), sample_goal]"
    by (simp add: sample_goal_def f3_def v3_val_def num_val_def point3_val_def)
  then show ?thesis using p
    by (simp add: validate_path_collision_def path_collision_report_def sample_map_grid points_report_def
        sample_plan_segment clear_report_def)
qed

lemma sample_plan:
  "\<exists>r. plan_path sample_lib sample_map_result (v3_val sample_goal) (PFloat (Fin (1/4))) (PInt 0) False PNone = Inr r"
proof -
  obtain st where r: "search_cells sample_map_view (0, 0) [(1, 0)] 2 (heuristic sample_map_view [sample_goal] (Fin (1/4)))
      = Inr ((1, 0), st, [(0, 0), (1, 0)])"
    using sample_search by (auto split: sum.splits)
  have t: "plan_target_of sample_map (v3_val sample_goal) = Inr \<lparr>tg_position = sample_goal, tg_target_id = PNone,
      tg_uncertainty = 0, tg_references = [sample_goal]\<rparr>"
    using n_vector3_v3_val [of sample_goal "''target''"] by (simp add: plan_target_of_def v3_val_def sample_goal_def)
  have a: "agent_position_m (mr_agent sample_map) = (0, 0, 0)" by (simp add: sample_map_def)
  have d: "gv_width sample_map_view * gv_height sample_map_view = 2" by (simp add: sample_map_view_def)
  show ?thesis using sample_plan_clear
    by (simp add: plan_path_def sample_map_ok t a d n_number_def sample_map_grid sample_plan_parts r finish_plan_def
        path_points_def require_clear_def Let_def del: fadd.simps)
qed

lemma plan_path_sound_witness:
  "\<exists>r. plan_path sample_lib sample_map_result (v3_val sample_goal) (PFloat (Fin (1/4))) (PInt 0) False PNone = Inr r
     \<and> pl_path_cells r \<noteq> [] \<and> distinct (pl_path_cells r)"
proof -
  obtain r where r: "plan_path sample_lib sample_map_result (v3_val sample_goal) (PFloat (Fin (1/4))) (PInt 0) False PNone = Inr r"
    using sample_plan by blast
  have "\<forall>k. py_int PNone = Inr k \<longrightarrow> k \<le> 2 ^ 51" by (simp add: py_int_def)
  from plan_path_sound [OF r this] r show ?thesis by blast
qed

end
