(* ===== verification/NavGrounding.thy ===== *)
theory NavGrounding
  imports NavGround FloatBounds
begin

text \<open>
  Facts about grounding: what the depth clusters are, what the partition by identity is,
  when a point matches a certified surface, and that every selected surface consists of
  projected points.
\<close>

subsection \<open>Depth clusters\<close>

text \<open>
  The specification: the clusters cut the sorted points where the depth gap is too large,
  and nowhere else.
\<close>

definition cuts_at_gaps :: "('a \<Rightarrow> 'a \<Rightarrow> bool) \<Rightarrow> 'a list list \<Rightarrow> bool" where
  "cuts_at_gaps same css = (list_all (\<lambda>cs. cs \<noteq> [] \<and> successively same cs) css
     \<and> successively (\<lambda>as bs. \<not> same (last as) (hd bs)) css)"

lemma cluster_add_snoc:
  "cluster_add ga gr (bs @ [cs]) p =
     (if same_layer ga gr (last cs) p then bs @ [cs @ [p]] else (bs @ [cs]) @ [[p]])"
  by (simp add: cluster_add_def)

lemma cluster_add_cuts:
  assumes "cuts_at_gaps (same_layer ga gr) css"
  shows "cuts_at_gaps (same_layer ga gr) (cluster_add ga gr css p)" and "concat (cluster_add ga gr css p) = concat css @ [p]"
proof -
  show "cuts_at_gaps (same_layer ga gr) (cluster_add ga gr css p)"
  proof (cases css rule: rev_cases)
    case Nil
    then show ?thesis by (simp add: cluster_add_def cuts_at_gaps_def)
  next
    case (snoc bs cs)
    with assms show ?thesis
      unfolding snoc cluster_add_snoc by (auto simp: cuts_at_gaps_def successively_append_iff hd_append)
  qed
  show "concat (cluster_add ga gr css p) = concat css @ [p]"
    by (cases css rule: rev_cases) (simp_all add: cluster_add_def)
qed

lemma clusters_fold:
  "cuts_at_gaps (same_layer ga gr) css \<Longrightarrow>
     cuts_at_gaps (same_layer ga gr) (foldl (cluster_add ga gr) css ps)
     \<and> concat (foldl (cluster_add ga gr) css ps) = concat css @ ps"
  by (induction ps arbitrary: css) (simp_all add: cluster_add_cuts)

text \<open>There is only one way to cut a list like that.\<close>

lemma cuts_unique:
  "cuts_at_gaps same css \<Longrightarrow> cuts_at_gaps same dss \<Longrightarrow> concat css = concat dss \<Longrightarrow> css = dss"
proof (induction css arbitrary: dss)
  case Nil
  then show ?case by (cases dss) (auto simp: cuts_at_gaps_def)
next
  case (Cons c css)
  from Cons.prems obtain d dss' where dss: "dss = d # dss'" by (cases dss) (auto simp: cuts_at_gaps_def)
  have nec: "c \<noteq> []" "d \<noteq> []" "successively same c" "successively same d" "cuts_at_gaps same css" "cuts_at_gaps same dss'"
    using Cons.prems by (auto simp: cuts_at_gaps_def dss successively_Cons)
  have "c @ concat css = d @ concat dss'" using Cons.prems(3) by (simp add: dss)
  then obtain us where u: "c = d @ us \<and> us @ concat css = concat dss' \<or> c @ us = d \<and> concat css = us @ concat dss'"
    by (auto simp: append_eq_append_conv2)
  have nogap: "us = []" if "x @ us = y" "concat xss = us @ concat zss" "cuts_at_gaps same (x # xss)" "successively same y" for x y xss zss
  proof (rule ccontr)
    assume ne: "us \<noteq> []"
    with that(2) obtain x' xss' where xss: "xss = x' # xss'" by (cases xss) auto
    with that(3) have x': "x' \<noteq> []" "x \<noteq> []" "\<not> same (last x) (hd x')" by (auto simp: cuts_at_gaps_def successively_Cons)
    have "hd us = hd x'" using that(2) ne x' by (metis hd_append2 concat.simps(2) xss)
    with that(1,4) ne x' show False by (auto simp: successively_append_iff)
  qed
  have "us = []"
    using u nogap [of d c dss' css] nogap [of c d css dss'] Cons.prems nec by (auto simp: dss)
  then show ?case using u Cons.IH [OF nec(5,6)] by (simp add: dss)
qed

lemma depth_clusters_cut:
  "cuts_at_gaps (same_layer ga gr) (depth_clusters points ga gr)
   \<and> concat (depth_clusters points ga gr) = py_sort (\<lambda>a b. lt_float_nat (depth_key a) (depth_key b)) points"
  unfolding depth_clusters_def using clusters_fold [of ga gr "[]"] by (simp add: cuts_at_gaps_def)

lemma depth_clusters_members:
  assumes "cluster \<in> set (depth_clusters points ga gr)"
  shows "set cluster \<subseteq> set points"
proof -
  have "set (concat (depth_clusters points ga gr)) = set points" using depth_clusters_cut by simp
  with assms show ?thesis by fastforce
qed

subsection \<open>Partition by identity\<close>

lemma setdefault_append_new: "k \<notin> fst ` set d \<Longrightarrow> setdefault_append k v d = d @ [(k, [v])]"
  by (induction d) auto

lemma setdefault_append_old:
  "k \<in> fst ` set d \<Longrightarrow> distinct (map fst d) \<Longrightarrow>
     setdefault_append k v d = map (\<lambda>(k', vs). (k', if k' = k then vs @ [v] else vs)) d"
proof (induction d)
  case (Cons e d)
  obtain k' vs where e: "e = (k', vs)" by (cases e)
  show ?case
  proof (cases "k' = k")
    case True
    then have "map (\<lambda>(k', vs). (k', if k' = k then vs @ [v] else vs)) d = map id d"
      using Cons.prems by (intro map_cong) (auto simp: e image_iff)
    then show ?thesis by (simp add: e True)
  qed (use Cons in \<open>auto simp: e\<close>)
qed simp

lemma dedup_from_snoc:
  "dedup_from seen (xs @ [x]) = dedup_from seen xs @ (if x \<in> set seen \<or> x \<in> set xs then [] else [x])"
  by (induction xs arbitrary: seen) auto

lemma fromkeys_snoc: "fromkeys (xs @ [x]) = (if x \<in> set xs then fromkeys xs else fromkeys xs @ [x])"
  by (simp add: fromkeys_def dedup_from_snoc)

text \<open>Grouping by a key, in the order in which the keys first occur.\<close>

definition groups :: "('a \<Rightarrow> 'k) \<Rightarrow> 'a list \<Rightarrow> ('k \<times> 'a list) list" where
  "groups key xs = map (\<lambda>k. (k, filter (\<lambda>x. key x = k) xs)) (fromkeys (map key xs))"

lemma groups_snoc: "groups key (xs @ [x]) = setdefault_append (key x) x (groups key xs)"
proof -
  have d: "distinct (map fst (groups key xs))" by (simp add: groups_def comp_def)
  have k: "key x \<in> fst ` set (groups key xs) \<longleftrightarrow> key x \<in> key ` set xs" by (simp add: groups_def image_image)
  show ?thesis
  proof (cases "key x \<in> key ` set xs")
    case True
    then show ?thesis by (simp add: setdefault_append_old [OF _ d] k) (auto simp: groups_def fromkeys_snoc)
  next
    case False
    moreover from this have "filter (\<lambda>y. key y = key x) xs = []" unfolding filter_empty_conv by (metis imageI)
    ultimately show ?thesis by (simp add: setdefault_append_new k) (auto simp: groups_def fromkeys_snoc)
  qed
qed

lemma groups_fold: "foldl (\<lambda>d x. setdefault_append (key x) x d) [] xs = groups key xs"
  by (induction xs rule: rev_induct) (simp_all add: groups_snoc, simp add: groups_def fromkeys_def)

subsection \<open>Support\<close>

lemma distinct_length_card: "length (fromkeys xs) = card (set xs)"
  using distinct_card [of "fromkeys xs"] by simp

lemma independent_support_card: "independent_support points = card (pt_uv_norm ` set points)"
  by (simp add: independent_support_def distinct_length_card)

lemma independent_support_set: "set xs = set ys \<Longrightarrow> independent_support xs = independent_support ys"
  by (simp add: independent_support_card)

lemma set_somes: "set (somes xs) = {x. Some x \<in> set xs}"
  by (induction xs rule: somes.induct) auto

lemma mapE_image: "mapE f xs = Inr ys \<Longrightarrow> y \<in> set ys \<Longrightarrow> \<exists>x \<in> set xs. f x = Inr y"
proof (induction xs arbitrary: ys)
  case (Cons x xs)
  then show ?case by (auto elim!: bindE_InrE)
qed simp

subsection \<open>Matching a certified surface\<close>

text \<open>A point close enough to the certified surface, with its identity and role where they are given.\<close>

definition on_surface :: "vec3 list \<Rightarrow> rat \<Rightarrow> string option \<Rightarrow> string option \<Rightarrow> depth_point \<Rightarrow> bool" where
  "on_surface references maximum sid role p =
     ((sid = None \<or> pt_surface_id p = sid) \<and> (role = None \<or> pt_surface_role p = role)
      \<and> (\<exists>d. nearest_reference (pt_position_m p) references = Inr d \<and> fle d (fadd (Fin maximum) EPSILON)))"

lemma match_points_sound:
  "match_points references maximum sid role ps = Inr ms \<Longrightarrow> p \<in> snd ` set ms \<Longrightarrow>
     p \<in> set ps \<and> on_surface references maximum sid role p"
proof (induction ps arbitrary: ms)
  case (Cons x ps)
  consider (skip) "(sid \<noteq> None \<and> pt_surface_id x \<noteq> sid) \<or> (role \<noteq> None \<and> pt_surface_role x \<noteq> role)"
    | (check) "sid = None \<or> pt_surface_id x = sid" "role = None \<or> pt_surface_role x = role" by (cases "sid = None"; cases "role = None") blast+
  then show ?case
  proof cases
    case skip
    then have "match_points references maximum sid role ps = Inr ms" using Cons.prems(1) by (auto split: if_splits)
    then show ?thesis using Cons.IH Cons.prems(2) by simp
  next
    case check
    then obtain d ms' where d: "nearest_reference (pt_position_m x) references = Inr d"
      and r: "match_points references maximum sid role ps = Inr ms'"
      and ms: "ms = (if fle d (fadd (Fin maximum) EPSILON) then (d, x) # ms' else ms')"
      using Cons.prems(1) by (auto split: if_splits elim!: bindE_InrE)
    then show ?thesis using Cons.IH [OF r] Cons.prems(2) check by (auto simp: on_surface_def split: if_splits)
  qed
qed simp

lemma cluster_candidate_sound:
  assumes "cluster_candidate references maximum sid role cluster = Inr (Some c)"
  shows "set (sc_points c) \<subseteq> {p \<in> set cluster. on_surface references maximum sid role p}
    \<and> MIN_INDEPENDENT_DEPTH_SAMPLES \<le> independent_support (sc_points c)"
proof -
  from assms obtain matched where m: "match_points references maximum sid role cluster = Inr matched"
    and s: "\<not> independent_support (map snd matched) < MIN_INDEPENDENT_DEPTH_SAMPLES"
    and p: "set (sc_points c) = set (map snd matched)"
    unfolding cluster_candidate_def by (auto simp: Let_def bindE_Inr_iff split: if_splits)
  have "independent_support (sc_points c) = independent_support (map snd matched)"
    using p by (rule independent_support_set)
  then show ?thesis using match_points_sound [OF m] s p by auto
qed

text \<open>The answer is sound, and no other candidate comes close to it.\<close>

lemma continuity_match_sound:
  assumes "continuity_match clusters references maximum sid role = Inr (Some (winning, runner, u))"
  shows "(\<exists>cluster \<in> set clusters. set winning \<subseteq> set cluster)
    \<and> (\<forall>p \<in> set winning. on_surface references maximum sid role p)
    \<and> MIN_INDEPENDENT_DEPTH_SAMPLES \<le> independent_support winning"
proof -
  from assms obtain found where f: "mapE (cluster_candidate references maximum sid role) clusters = Inr found"
    and r: "(case py_sort candidate_lt (somes found) of
       [] \<Rightarrow> Inr None
     | best # rest \<Rightarrow>
         if (case rest of runner # _ \<Rightarrow>
               flt (sc_evidence runner)
                   (fsub (fadd (sc_evidence best) ARRIVAL_CONTINUITY_UNIQUE_MARGIN_M) EPSILON) | [] \<Rightarrow> False)
         then Inr None
         else bindE (median_of (sc_distances best)) (\<lambda>m.
              Inr (Some (sc_points best,
                         (case rest of runner # _ \<Rightarrow> Some (sc_points runner) | [] \<Rightarrow> None),
                         fmax (Fin (lit (1/100))) m)))) = Inr (Some (winning, runner, u))"
    unfolding continuity_match_def by (elim bindE_InrE) (rule that)
  then obtain best rest where s: "py_sort candidate_lt (somes found) = best # rest"
    by (cases "py_sort candidate_lt (somes found)") auto
  have w: "winning = sc_points best" using r by (auto simp: s split: if_splits elim!: bindE_InrE)
  have "best \<in> set (py_sort candidate_lt (somes found))" by (simp add: s)
  then have "Some best \<in> set found" by (simp add: set_somes)
  then obtain cluster where "cluster \<in> set clusters" "cluster_candidate references maximum sid role cluster = Inr (Some best)"
    using mapE_image [OF f] by blast
  then show ?thesis using cluster_candidate_sound [of references maximum sid role cluster best] w by blast
qed

subsection \<open>Selections come from the projected points\<close>

lemma identity_partitions_members:
  "identity_partitions points = Some parts \<Longrightarrow> part \<in> set parts \<Longrightarrow> set part \<subseteq> set points"
  by (auto simp: identity_partitions_def groups_fold Let_def groups_def split: if_splits)

lemma clusters_of_members:
  "cluster \<in> set (clusters_of parts ga gr) \<Longrightarrow> \<exists>part \<in> set parts. set cluster \<subseteq> set part"
  unfolding clusters_of_def by (auto intro: bexI dest!: depth_clusters_members)

lemma py_min_member: "py_min lt x xs \<in> set (x # xs)"
proof (induction xs arbitrary: x)
  case (Cons y ys)
  from Cons [of "if lt y x then y else x"] show ?case by auto
qed simp

lemma wide_layer_cluster: "wide_layer_of b depths cluster = Inr (Some e) \<Longrightarrow> wl_cluster e = cluster"
  unfolding wide_layer_of_def Let_def by (auto simp: bindE_Inr_iff split: if_splits)

lemma choose_layer_member: "choose_layer role es = Inr (Some c) \<Longrightarrow> fst c \<in> set es"
proof -
  assume r: "choose_layer role es = Inr (Some c)"
  have "fst c \<in> set es" if o: "choose_obstacle x xs = Inr (Some c)" "es = x # xs" for x xs
  proof -
    from o obtain y ys where ys: "filter (\<lambda>e. uniform_surface_role (wl_cluster e) = Some ''navigation_obstacle'') es = y # ys"
      and c: "fst c = py_min layer_depth_lt y ys"
      unfolding choose_obstacle_def Let_def by (auto simp: bindE_Inr_iff split: if_splits list.splits)
    have "fst c \<in> set (filter (\<lambda>e. uniform_surface_role (wl_cluster e) = Some ''navigation_obstacle'') es)"
      unfolding ys c by (rule py_min_member)
    then show ?thesis by simp
  qed
  moreover obtain x xs where es: "es = x # xs" using r by (cases es) (simp_all add: choose_layer_def)
  moreover have "py_min layer_depth_lt x xs \<in> set es" unfolding es by (rule py_min_member)
  ultimately show ?thesis using r unfolding choose_layer_def Let_def by (auto simp del: list.set split: if_split_asm)
qed

lemma rescue_members:
  assumes "wide_occlusion_rescue L cap b occluders ga gr cf role = Inr (Some (Some r))"
  shows "\<exists>points. project_box L cap (v4_val b) cf = Inr points \<and> set (ro_winning r) \<subseteq> set points"
proof -
  from assms obtain points boxes depths parts found where p: "project_box L cap (v4_val b) cf = Inr points"
    and parts: "identity_partitions (filter (\<lambda>p. \<not> list_ex (inside_bbox (pt_uv_norm p)) boxes) points) = Some parts"
    and f: "mapE (wide_layer_of b depths) (clusters_of parts WIDE_LAYER_CLUSTER_GAP_M WIDE_LAYER_CLUSTER_GAP_RATIO) = Inr found"
    and r: "rescue_among b role (somes found) = Inr (Some r)"
    unfolding wide_occlusion_rescue_def
    by (auto elim!: bindE_InrE split: if_split_asm option.split_asm)
  from r obtain c where c: "choose_layer role (py_sort layer_score_lt (somes found)) = Inr (Some c)"
    and w: "ro_winning r = wl_cluster (fst c)"
    unfolding rescue_among_def Let_def by (auto elim!: bindE_InrE split: option.split_asm)
  have "Some (fst c) \<in> set found" using choose_layer_member [OF c] by (simp add: set_somes)
  then obtain cluster where k: "cluster \<in> set (clusters_of parts WIDE_LAYER_CLUSTER_GAP_M WIDE_LAYER_CLUSTER_GAP_RATIO)"
    and "wide_layer_of b depths cluster = Inr (Some (fst c))" using mapE_image [OF f] by blast
  then have "ro_winning r = cluster" using wide_layer_cluster w by simp
  moreover obtain part where "part \<in> set parts" "set cluster \<subseteq> set part" using clusters_of_members [OF k] by blast
  moreover have "set part \<subseteq> set points" using identity_partitions_members [OF parts \<open>part \<in> set parts\<close>] by auto
  ultimately show ?thesis using p by blast
qed

lemma select_surface_members:
  assumes "select_surface L q cap pol points = Inr (Some s)"
  shows "set (sel_winning s) \<subseteq> set points \<or> (\<exists>all_points.
    project_box L cap (v4_val (det_bbox_norm (gq_detection q))) (gp_confidence_floor pol) = Inr all_points
    \<and> set (sel_winning s) \<subseteq> set all_points)"
proof -
  let ?clusters = "depth_clusters points (Fin (gp_absolute_gap pol)) (Fin (gp_relative_gap pol))"
  from assms obtain centre half rks where ranked: "mapE (rank_cluster centre half) ?clusters = Inr rks"
    and r: "(case py_sort ranked_lt rks of
        [] \<Rightarrow> Inl PyIndexError
      | best # rest \<Rightarrow>
          (case gq_continuity q of
             Some con \<Rightarrow> select_by_continuity centre half ?clusters con
           | None \<Rightarrow> select_by_support L q cap pol best rest)) = Inr (Some s)"
    unfolding select_surface_def Let_def by (elim bindE_InrE) (rule that)
  from r obtain best rest where sorted: "py_sort ranked_lt rks = best # rest" by (cases "py_sort ranked_lt rks") simp_all
  have "best \<in> set rks" using set_py_sort [of ranked_lt rks] by (simp add: sorted) blast
  then obtain cluster where "cluster \<in> set ?clusters" "rank_cluster centre half cluster = Inr best"
    using mapE_image [OF ranked] by blast
  then have b: "set (rk_cluster best) \<subseteq> set points"
    using depth_clusters_members [OF \<open>cluster \<in> set ?clusters\<close>]
    by (auto simp: rank_cluster_def elim!: bindE_InrE)
  show ?thesis
  proof (cases "gq_continuity q")
    case (Some con)
    then obtain runner u where "continuity_match ?clusters (con_points_m con) (con_maximum_distance_m con)
        (con_surface_id con) (con_surface_role con) = Inr (Some (sel_winning s, runner, u))"
      using r by (auto simp: sorted select_by_continuity_def elim!: bindE_InrE split: option.split_asm)
    from continuity_match_sound [OF this] show ?thesis using depth_clusters_members by blast
  next
    case None
    then have "select_by_support L q cap pol best rest = Inr (Some s)" using r by (simp add: sorted)
    then consider (rescue) rs where "wide_occlusion_rescue L cap (det_bbox_norm (gq_detection q))
          (case det_occluder_bboxes_norm (gq_detection q) of None \<Rightarrow> [] | Some bs \<Rightarrow> bs)
          (Fin (gp_absolute_gap pol)) (Fin (gp_relative_gap pol)) (gp_confidence_floor pol)
          (det_expected_surface_role (gq_detection q)) = Inr (Some (Some rs))" "sel_winning s = ro_winning rs"
      | (best) "sel_winning s = rk_cluster best"
      unfolding select_by_support_def Let_def by (auto elim!: bindE_InrE split: option.split_asm if_split_asm)
    then show ?thesis
    proof cases
      case rescue
      from rescue_members [OF rescue(1)] show ?thesis unfolding rescue(2) by blast
    next
      case best
      then show ?thesis using b by simp
    qed
  qed
qed

subsection \<open>Projected points lie in the box\<close>

lemma depth_to_point_fields:
  "depth_to_point uv m model w h cam c i sid role = Inr p \<Longrightarrow>
     pt_uv_norm p = uv \<and> pt_confidence p = c \<and> pt_source_index p = i \<and> pt_surface_id p = sid \<and> pt_surface_role p = role"
  by (auto simp: depth_to_point_def Let_def elim!: bindE_InrE)

definition seen_in :: "projection_window \<Rightarrow> depth_point \<Rightarrow> bool" where
  "seen_in w p = (inside_bbox (pt_uv_norm p) (f4 (pw_bbox w)) \<and> fle (Fin (pw_confidence_floor w)) (pt_confidence p))"

text \<open>The sample of the capture a point was projected from.\<close>

definition projected_from :: "depth_sample list \<Rightarrow> depth_point \<Rightarrow> bool" where
  "projected_from samples p = (pt_source_index p < length samples
     \<and> (let s = samples ! pt_source_index p in
          pt_uv_norm p = (Fin (fst (ds_uv s)), Fin (snd (ds_uv s))) \<and> pt_confidence p = Fin (ds_confidence s)
          \<and> pt_surface_id p = ds_surface_id s \<and> pt_surface_role p = ds_surface_role s))"

lemma project_sparse_seen:
  "project_sparse cap w i ss = Inr ps \<Longrightarrow> p \<in> set ps \<Longrightarrow> samples = xs @ ss \<Longrightarrow> length xs = i \<Longrightarrow>
     seen_in w p \<and> projected_from samples p"
proof (induction cap w i ss arbitrary: ps xs rule: project_sparse.induct)
  case (2 cap w i s ss)
  let ?uv = "(Fin (fst (ds_uv s)), Fin (snd (ds_uv s)))"
  let ?skip = "ds_confidence s < pw_confidence_floor w
         \<or> \<not> (pw_minimum w \<le> ds_distance_m s \<and> ds_distance_m s \<le> pw_maximum w) \<or> \<not> inside_bbox ?uv (f4 (pw_bbox w))"
  have xs: "samples = (xs @ [s]) @ ss" "length (xs @ [s]) = Suc i" using "2.prems"(3,4) by simp_all
  show ?case
  proof (cases ?skip)
    case True
    then show ?thesis using "2.IH"(1) [OF refl True _ "2.prems"(2) xs] "2.prems"(1) by (simp add: Let_def)
  next
    case False
    then have e: "bindE (depth_to_point ?uv (Fin (ds_distance_m s)) ''ray_range_m''
        (rgb_width_px (cap_rgb cap)) (rgb_height_px (cap_rgb cap)) (cap_camera cap) (Fin (ds_confidence s)) i
        (ds_surface_id s) (ds_surface_role s)) (\<lambda>p. bindE (project_sparse cap w (Suc i) ss) (\<lambda>ps. Inr (p # ps))) = Inr ps"
      using "2.prems"(1) by (simp add: Let_def)
    obtain p' ps' where p': "depth_to_point ?uv (Fin (ds_distance_m s)) ''ray_range_m''
        (rgb_width_px (cap_rgb cap)) (rgb_height_px (cap_rgb cap)) (cap_camera cap) (Fin (ds_confidence s)) i
        (ds_surface_id s) (ds_surface_role s) = Inr p'" and r: "project_sparse cap w (Suc i) ss = Inr ps'" and ps: "ps = p' # ps'"
      by (rule bindE_InrE [OF e], erule bindE_InrE, rule that) auto
    have "seen_in w p' \<and> projected_from samples p'"
      using depth_to_point_fields [OF p'] False "2.prems"(3,4)
      by (simp add: seen_in_def projected_from_def Let_def nth_append)
    moreover have "seen_in w p \<and> projected_from samples p" if "p \<in> set ps'"
      by (rule "2.IH"(2) [OF refl False p' r that xs])
    ultimately show ?thesis using "2.prems"(2) ps by auto
  qed
qed simp

lemma project_dense_seen:
  "project_dense cap w d i ms = Inr ps \<Longrightarrow> p \<in> set ps \<Longrightarrow> pw_confidence_floor w \<le> 1 \<Longrightarrow> seen_in w p"
proof (induction ms arbitrary: i ps)
  case (Cons m ms)
  show ?case
  proof (cases m)
    case None
    then show ?thesis using Cons by simp
  next
    case (Some x)
    let ?u = "\<lambda>u v. inside_bbox (u, v) (f4 (pw_bbox w))"
    obtain u v where r: "(if \<not> ?u u v then project_dense cap w d (Suc i) ms
      else bindE (depth_to_point (u, v) x (dd_measurement_model d) (rgb_width_px (cap_rgb cap))
                    (rgb_height_px (cap_rgb cap)) (cap_camera cap) (Fin 1) i None None) (\<lambda>p.
           bindE (project_dense cap w d (Suc i) ms) (\<lambda>ps.
           Inr (if fle (Fin (pw_minimum w)) (pt_range_m p) \<and> fle (pt_range_m p) (Fin (pw_maximum w))
                then p # ps else ps)))) = Inr ps"
      using Cons.prems(1) unfolding Some project_dense.simps Let_def by (elim bindE_InrE) (rule that)
    show ?thesis
    proof (cases "?u u v")
      case False
      then show ?thesis using r Cons.IH Cons.prems(2,3) by simp
    next
      case True
      then have e: "bindE (depth_to_point (u, v) x (dd_measurement_model d) (rgb_width_px (cap_rgb cap))
          (rgb_height_px (cap_rgb cap)) (cap_camera cap) (Fin 1) i None None) (\<lambda>p.
           bindE (project_dense cap w d (Suc i) ms) (\<lambda>ps.
           Inr (if fle (Fin (pw_minimum w)) (pt_range_m p) \<and> fle (pt_range_m p) (Fin (pw_maximum w))
                then p # ps else ps))) = Inr ps" using r by simp
      obtain q qs where q: "depth_to_point (u, v) x (dd_measurement_model d) (rgb_width_px (cap_rgb cap))
          (rgb_height_px (cap_rgb cap)) (cap_camera cap) (Fin 1) i None None = Inr q"
        and qs: "project_dense cap w d (Suc i) ms = Inr qs" and "set ps \<subseteq> insert q (set qs)"
        by (rule bindE_InrE [OF e], erule bindE_InrE, rule that, assumption, assumption) (auto split: if_split_asm)
      moreover have "seen_in w q" using depth_to_point_fields [OF q] True Cons.prems(3) by (simp add: seen_in_def)
      ultimately show ?thesis using Cons.IH [OF qs] Cons.prems(2,3) by auto
    qed
  qed
qed simp

lemma project_window_seen:
  assumes "project_window L cap depth w = Inr ps" and "p \<in> set ps" and "pw_confidence_floor w \<le> 1"
  shows "seen_in w p \<and> (\<forall>s. depth = SparseDepth s \<longrightarrow> projected_from (sd_samples s) p)"
proof (cases depth)
  case (SparseDepth s)
  then show ?thesis using assms project_sparse_seen [of cap w 0 "sd_samples s" ps p "sd_samples s" "[]"]
    by (simp add: project_window_def)
next
  case (DenseDepth d)
  then obtain raw ms where "project_dense cap w d 0 ms = Inr ps"
    using assms(1) by (auto simp: project_window_def split: option.splits elim!: bindE_InrE)
  then show ?thesis using project_dense_seen assms(2,3) DenseDepth by simp
qed

lemma projection_window_fields:
  assumes "projection_window v c lo hi = Inr w" and "v \<noteq> PNone"
  shows "n_vector4 v ''bbox_norm'' = Inr (pw_bbox w)" and "n_number (Some 0) c ''min_confidence'' = Inr (pw_confidence_floor w)"
    and "pw_confidence_floor w \<le> 1"
  using assms by (auto simp: projection_window_def projection_bbox_def guardE_Inr_iff split: if_split_asm elim!: bindE_InrE)

lemma n_number_num_val [simp]: "n_number None (PFloat x) f = Inr r \<longleftrightarrow> x = Fin r"
  by (cases x) (auto simp: n_number_def n_error_def)

lemma n_vector4_fvec4: "n_vector4 (fvec4_val v) f = Inr b \<Longrightarrow> f4 b = v"
  by (cases v) (auto simp: n_vector4_def n_vector_def fvec4_val_def f4_def elim!: bindE_InrE split: if_split_asm)

lemma fvec4_v4_val: "v4_val b = fvec4_val (f4 b)"
  by (cases b) (simp add: v4_val_def fvec4_val_def f4_def)

lemma project_box_seen:
  assumes cap: "validate_capture_result L v PNone PNone = Inr cap"
    and r: "project_box L cap (fvec4_val box) cf = Inr points" and p: "p \<in> set points"
  shows "inside_bbox (pt_uv_norm p) box \<and> fle (Fin cf) (pt_confidence p)
    \<and> (\<forall>s. cap_depth cap = Some (SparseDepth s) \<longrightarrow> projected_from (sd_samples s) p)"
proof -
  obtain depth w where d: "cap_depth cap = Some depth"
    and w: "projection_window (fvec4_val box) (num_val cf) (num_val (lit (1/1000))) (num_val 10000) = Inr w"
    and q: "project_window L cap depth w = Inr points"
    using r p capture_result_refeed [OF cap]
    by (auto simp: project_box_def project_depth_samples_def split: option.splits elim!: bindE_InrE)
  have "fvec4_val box \<noteq> PNone" by (cases box) (simp add: fvec4_val_def)
  note f = projection_window_fields [OF w this]
  have "pw_confidence_floor w = cf" using f(2) by (simp add: n_number_def num_val_def split: if_split_asm)
  then show ?thesis using project_window_seen [OF q p f(3)] n_vector4_fvec4 [OF f(1)] d by (simp add: seen_in_def)
qed

subsection \<open>The inset box\<close>

definition double_box :: "vec4 \<Rightarrow> bool" where
  "double_box b = (case b of (x0, y0, x1, y1) \<Rightarrow> representable x0 \<and> representable y0 \<and> representable x1 \<and> representable y1)"

lemma inset_side:
  assumes "representable a" and "representable b" and "0 \<le> a" and "a < b" and "b \<le> 1" and "0 \<le> ratio"
  shows "fle (Fin a) (fadd (Fin a) (fmul (fsub (Fin b) (Fin a)) (Fin ratio)))"
    and "fle (fsub (Fin b) (fmul (fsub (Fin b) (Fin a)) (Fin ratio))) (Fin b)"
proof -
  have "fle (Fin 0) (round64 (b - a))" "fle (round64 (b - a)) (Fin 1)"
    using round64_mono [of 0 "b - a"] round64_mono [of "b - a" 1] assms by simp_all
  then obtain w where w: "round64 (b - a) = Fin w" "0 \<le> w" using fadd_finite_between [of "round64 (b - a)" 1] by blast
  have z: "fle (Fin 0) (round64 (w * ratio))" using round64_mono [of 0 "w * ratio"] w(2) assms(6) by simp
  have "fle (Fin a) (fadd (Fin a) (round64 (w * ratio)))"
  proof (cases "round64 (w * ratio)")
    case (Fin t)
    then show ?thesis using z fadd_grows [OF assms(1), of t] by simp
  qed (use z in simp_all)
  then show "fle (Fin a) (fadd (Fin a) (fmul (fsub (Fin b) (Fin a)) (Fin ratio)))" using w(1) by (simp add: fsub_def)
  have "fle (fsub (Fin b) (round64 (w * ratio))) (Fin b)"
  proof (cases "round64 (w * ratio)")
    case (Fin t)
    then show ?thesis using z round64_mono [of "b - t" b] assms(2) by (simp add: fsub_def representable_def)
  qed (use z in \<open>simp_all add: fsub_def\<close>)
  then show "fle (fsub (Fin b) (fmul (fsub (Fin b) (Fin a)) (Fin ratio))) (Fin b)" using w(1) by (simp add: fsub_def)
qed

lemma inset_inside:
  assumes "double_box b" and "c_bbox v f = Inr b" and "0 \<le> ratio" and "inside_bbox uv (inset_bbox (f4 b) (Fin ratio))"
  shows "inside_bbox uv (f4 b)"
proof -
  obtain x0 y0 x1 y1 where b: "b = (x0, y0, x1, y1)" by (cases b)
  have r: "representable x0" "representable y0" "representable x1" "representable y1" using assms(1) by (simp_all add: double_box_def b)
  have o: "0 \<le> x0" "x0 < x1" "x1 \<le> 1" "0 \<le> y0" "y0 < y1" "y1 \<le> 1"
    using assms(2) by (auto simp: c_bbox_def b c_number_Inr accept_iffs split: option.splits if_splits elim!: bindE_InrE)
  obtain u v where uv: "uv = (u, v)" by (cases uv)
  show ?thesis using assms(4)
      inset_side [OF r(1,3) o(1,2,3) assms(3)] inset_side [OF r(2,4) o(4,5,6) assms(3)]
    by (auto simp: b uv f4_def Let_def intro: fle_trans)
qed

lemma request_bbox:
  assumes "validate_ground_request request = Inr q"
  shows "\<exists>v f. c_bbox v f = Inr (det_bbox_norm (gq_detection q))"
proof -
  obtain v where "validate_detection v = Inr (gq_detection q)"
    using assms by (auto simp: validate_ground_request_def Let_def request_head.defs elim!: bindE_InrE)
  then obtain w b f where b: "c_bbox w f = Inr b" "b = det_bbox_norm (gq_detection q)"
    unfolding validate_detection_def by (elim bindE_InrE) (drule Inr_inject, metis detection.select_convs(4))
  then show ?thesis by blast
qed

subsection \<open>The points of the selected surface\<close>

lemma ground_points_box:
  "ground_points L q cap pol = Inr points \<Longrightarrow>
     \<exists>box \<in> {f4 (det_bbox_norm (gq_detection q)), inset_bbox (f4 (det_bbox_norm (gq_detection q))) (Fin (gp_inset pol))}.
       project_box L cap (fvec4_val box) (gp_confidence_floor pol) = Inr points"
  unfolding ground_points_def Let_def by (auto simp: fvec4_v4_val elim!: bindE_InrE split: if_split_asm)

lemma ground_policy_inset: "ground_policy_of q cap t i g r a c = Inr pol \<Longrightarrow> 0 \<le> gp_inset pol"
  unfolding ground_policy_of_def by (elim bindE_InrE) (auto dest: n_number_minimum)

lemma selected_points:
  assumes q: "validate_ground_request request = Inr q" and cap: "validate_capture_result L v PNone PNone = Inr cap"
    and pol: "ground_policy_of q cap t i g r a c = Inr pol"
    and p: "ground_points L q cap pol = Inr points" and s: "select_surface L q cap pol points = Inr (Some s)"
  shows "\<exists>box \<in> {f4 (det_bbox_norm (gq_detection q)), inset_bbox (f4 (det_bbox_norm (gq_detection q))) (Fin (gp_inset pol))}.
       \<exists>projected. project_box L cap (fvec4_val box) (gp_confidence_floor pol) = Inr projected
         \<and> set (sel_winning s) \<subseteq> set projected \<and> (\<forall>p \<in> set (sel_winning s). inside_bbox (pt_uv_norm p) box)"
    and "\<forall>p \<in> set (sel_winning s). fle (Fin (gp_confidence_floor pol)) (pt_confidence p)
       \<and> (\<forall>d. cap_depth cap = Some (SparseDepth d) \<longrightarrow> projected_from (sd_samples d) p)
       \<and> (double_box (det_bbox_norm (gq_detection q)) \<longrightarrow> inside_bbox (pt_uv_norm p) (f4 (det_bbox_norm (gq_detection q))))"
proof -
  let ?b = "det_bbox_norm (gq_detection q)"
  obtain box projected where b: "box \<in> {f4 ?b, inset_bbox (f4 ?b) (Fin (gp_inset pol))}"
    and pr: "project_box L cap (fvec4_val box) (gp_confidence_floor pol) = Inr projected"
    and w: "set (sel_winning s) \<subseteq> set projected"
    using select_surface_members [OF s] ground_points_box [OF p] unfolding fvec4_v4_val by blast
  note seen = project_box_seen [OF cap pr]
  show "\<exists>box \<in> {f4 ?b, inset_bbox (f4 ?b) (Fin (gp_inset pol))}.
       \<exists>projected. project_box L cap (fvec4_val box) (gp_confidence_floor pol) = Inr projected
         \<and> set (sel_winning s) \<subseteq> set projected \<and> (\<forall>p \<in> set (sel_winning s). inside_bbox (pt_uv_norm p) box)"
    using b pr w seen by blast
  obtain bv f where "c_bbox bv f = Inr ?b" using request_bbox [OF q] by blast
  then have "inside_bbox uv (f4 ?b)" if "inside_bbox uv box" "double_box ?b" for uv
    using that b inset_inside [OF that(2) _ ground_policy_inset [OF pol]] by blast
  then show "\<forall>p \<in> set (sel_winning s). fle (Fin (gp_confidence_floor pol)) (pt_confidence p)
       \<and> (\<forall>d. cap_depth cap = Some (SparseDepth d) \<longrightarrow> projected_from (sd_samples d) p)
       \<and> (double_box ?b \<longrightarrow> inside_bbox (pt_uv_norm p) (f4 ?b))"
    using w seen by blast
qed

subsection \<open>The status of the result\<close>

lemma unresolved_status:
  assumes "unresolved_ground_result q t reason = Inr r"
  shows "gr_status r = ''unresolved''"
  using assms unfolding unresolved_ground_result_def validate_ground_result_def
  by (auto simp: c_common_result_def ground_result_base_def Let_def result_head.defs elim!: bindE_InrE)

lemma grounded_status:
  assumes "grounded_ground_result L q cap t s = Inr r"
  shows "gr_status r = ''grounded''"
  using assms unfolding grounded_ground_result_def validate_ground_result_def Let_def
  by (elim bindE_InrE) (auto simp: c_common_result_def ground_result_base_def Let_def result_head.defs elim!: bindE_InrE)

end
