(* ===== verification/RaySample.thy ===== *)
theory RaySample
  imports NavGeometry ContractClaims
begin

text \<open>
  Two sample captures with three rays each, what they are validated to, and the points their rays
  are projected to. The camera looks along its axis with a very long focal length, so the three
  rays meet one small surface.
\<close>

section \<open>The captures\<close>

definition sample_surface :: string where "sample_surface = ''surface:'' @ sample_digest"

definition sample_ray :: "rat \<Rightarrow> pyval" where
  "sample_ray u = PDict [(''uv_norm'', PList [PFloat (Fin u), PFloat (Fin (1/2))]), (''distance_m'', PInt 1),
     (''confidence'', PInt 1), (''surface_id'', PStr sample_surface), (''surface_role'', PStr ''navigation_obstacle'')]"

definition sample_fresh_depth :: "(string \<times> pyval) list" where
  "sample_fresh_depth = [(''representation'', PStr ''sparse_rays''), (''measurement_model'', PStr ''ray_range_m''),
     (''alignment'', PStr ''registered_normalized_to_rgb''),
     (''samples'', PList [sample_ray (1/2), sample_ray (1/4), sample_ray (3/4)]),
     (''samples_sha256'', PStr sample_digest),
     (''surface_id_semantics_revision'', PStr SURFACE_ID_SEMANTICS_REVISION)]"

definition sample_fresh_capture :: "string \<Rightarrow> string \<Rightarrow> int \<Rightarrow> pyval" where
  "sample_fresh_capture request frame t = PDict [(''schema_version'', PStr CAPTURE_RESULT_SCHEMA), (''request_id'', PStr request),
   (''environment_id'', PStr ''env''), (''session_id'', PStr ''s1''), (''frame_id'', PStr frame), (''captured_unix'', PInt t),
   (''rgb'', PDict [(''encoding'', PStr ''jpeg''), (''width_px'', PInt 4), (''height_px'', PInt 4),
      (''data_base64'', PStr [CHR 0xFF, CHR 0xD8]), (''sha256'', PStr sample_digest)]),
   (''depth'', PDict sample_fresh_depth),
   (''camera'', PDict [(''coordinate_frame_id'', PStr ''world''), (''coordinate_convention'', PStr COORDINATE_CONVENTION),
      (''position_m'', PList [PInt 0, PInt 0, PInt 0]), (''orientation_xyzw'', PList [PInt 0, PInt 0, PInt 0, PInt 1]),
      (''intrinsics'', PDict [(''fx_px'', PInt (2 ^ 40)), (''fy_px'', PInt (2 ^ 40)), (''cx_px'', PInt 2), (''cy_px'', PInt 2)])])]"

definition captured_ray :: "rat \<Rightarrow> depth_sample" where
  "captured_ray u = \<lparr>ds_uv = (u, 1/2), ds_distance_m = 1, ds_confidence = 1, ds_surface_id = Some sample_surface,
     ds_surface_role = Some ''navigation_obstacle''\<rparr>"

definition captured :: "string \<Rightarrow> string \<Rightarrow> rat \<Rightarrow> capture_result" where
  "captured request frame t = \<lparr>rs_request_id = request, rs_environment_id = ''env'', rs_session_id = ''s1'',
     cap_frame_id = frame, cap_captured_unix = t,
     cap_rgb = \<lparr>rgb_encoding = ''jpeg'', rgb_width_px = 4, rgb_height_px = 4, rgb_data_base64 = [CHR 0xFF, CHR 0xD8],
       rgb_sha256 = sample_digest\<rparr>,
     cap_depth = Some (SparseDepth \<lparr>sd_alignment = ''registered_normalized_to_rgb'',
       sd_samples = [captured_ray (1/2), captured_ray (1/4), captured_ray (3/4)], sd_samples_sha256 = sample_digest,
       sd_semantics_revision = Some SURFACE_ID_SEMANTICS_REVISION\<rparr>),
     cap_camera = \<lparr>cam_coordinate_frame_id = ''world'', cam_position_m = (0, 0, 0), cam_orientation_xyzw = (0, 0, 0, 1),
       cam_intrinsics = \<lparr>fx_px = 1099511627776, fy_px = 1099511627776, cx_px = 2, cy_px = 2\<rparr>\<rparr>\<rparr>"

lemmas fresh_capture_defs = sample_fresh_capture_def sample_fresh_depth_def sample_ray_def

lemma sample_surface_ok: "surface_id_pattern sample_surface"
  by (simp add: sample_surface_def surface_id_pattern_def sample_digest_def is_lower_hex_def is_digit_def list_all_iff)

lemma sample_frame_validated:
  "validate_capture_result sample_lib (sample_fresh_capture ''q5'' ''f5'' 20) PNone PNone = Inr (captured ''q5'' ''f5'' 20)"
  "validate_capture_result sample_lib (sample_fresh_capture ''q6'' ''f6'' 21) PNone PNone = Inr (captured ''q6'' ''f6'' 21)"
  using sample_limits sample_surface_ok
  by (simp_all add: fresh_capture_defs captured_def captured_ray_def validate_capture_result_def c_fields_ok
    validate_rgb_plane_def RGB_ENCODINGS_def validate_depth_def validate_camera_def c_vector3_def sample_quaternion
    c_inline_bytes_def sample_digest_ok MAX_FRAME_DIMENSION_PX_def MAX_INLINE_PLANE_BYTES_def ContractSensor.starts_with_def
    jpeg_signature_def check_capture_request_def capture_result_val_def
    validate_sparse_depth_def DEPTH_ALIGNMENTS_def
      MAX_SPARSE_DEPTH_SAMPLES_def sparse_step_def sparse_uv_def optE_def SURFACE_ROLES_def
      c_canonical_sha256_def eval_contract)

section \<open>The rays\<close>

definition ray_window :: projection_window where
  "ray_window = \<lparr>pw_bbox = (0, 0, 1, 1), pw_confidence_floor = 1/4, pw_minimum = lit (1/1000), pw_maximum = 10000\<rparr>"

definition seen_ray :: "nat \<Rightarrow> rat \<Rightarrow> rat \<Rightarrow> depth_point" where
  "seen_ray i u x = \<lparr>pt_uv_norm = (Fin u, Fin (1/2)), pt_position_m = (Fin x, Fin 0, Fin 1), pt_optical_position_m = (Fin x, Fin 0, Fin 1),
     pt_range_m = Fin 1, pt_forward_depth_m = Fin 1, pt_measurement_m = Fin 1, pt_measurement_model = ''ray_range_m'',
     pt_confidence = Fin 1, pt_source_index = i, pt_surface_id = Some sample_surface, pt_surface_role = Some ''navigation_obstacle''\<rparr>"

definition seen_rays :: "depth_point list" where
  "seen_rays = [seen_ray 0 (1/2) 0, seen_ray 1 (1/4) (- (1/1099511627776)), seen_ray 2 (3/4) (1/1099511627776)]"

abbreviation tiny_step :: rat where "tiny_step \<equiv> 1/1099511627776"

lemma ray_numbers:
  "fsub (fmul (Fin (1/4)) (fint 4)) (Fin 2) = Fin (- 1)" "fsub (fmul (Fin (1/2)) (fint 4)) (Fin 2) = Fin 0"
  "fsub (fmul (Fin (3/4)) (fint 4)) (Fin 2) = Fin 1"
  "fdiv (Fin (- 1)) (Fin 1099511627776) = Inr (Fin (- tiny_step))" "fdiv (Fin 0) (Fin 1099511627776) = Inr (Fin 0)"
  "fdiv (Fin 1) (Fin 1099511627776) = Inr (Fin tiny_step)"
  "fmul (Fin (- tiny_step)) (Fin 1) = Fin (- tiny_step)" "fmul (Fin tiny_step) (Fin 1) = Fin tiny_step"
  "fmul (Fin 0) (Fin 1) = Fin 0" "fmul (Fin 1) (Fin 1) = Fin 1"
  "fdiv (Fin (- tiny_step)) (Fin 1) = Inr (Fin (- tiny_step))" "fdiv (Fin tiny_step) (Fin 1) = Inr (Fin tiny_step)"
  "fdiv (Fin 0) (Fin 1) = Inr (Fin 0)" "fdiv (Fin 1) (Fin 1) = Inr (Fin 1)"
  "round64 (- tiny_step) = Fin (- tiny_step)" "round64 tiny_step = Fin tiny_step"
  by code_simp+

lemma ray_norms:
  "f_norm [Fin 0, Fin 0, Fin 1] = Inr (Fin 1)" "f_norm [Fin tiny_step, Fin 0, Fin 1] = Inr (Fin 1)"
  "f_norm [Fin (- tiny_step), Fin 0, Fin 1] = Inr (Fin 1)"
  by code_simp+

lemma ray_rotations:
  "fadd3 (Fin 0, Fin 0, Fin 0) (rotate_xyzw (Fin 0, Fin 0, Fin 0, Fin 1) (Fin 0, Fin 0, Fin 1)) = (Fin 0, Fin 0, Fin 1)"
  "fadd3 (Fin 0, Fin 0, Fin 0) (rotate_xyzw (Fin 0, Fin 0, Fin 0, Fin 1) (Fin tiny_step, Fin 0, Fin 1)) = (Fin tiny_step, Fin 0, Fin 1)"
  "fadd3 (Fin 0, Fin 0, Fin 0) (rotate_xyzw (Fin 0, Fin 0, Fin 0, Fin 1) (Fin (- tiny_step), Fin 0, Fin 1)) = (Fin (- tiny_step), Fin 0, Fin 1)"
  by code_simp+

lemma ray_limits: "1/4 \<le> (1::rat)" "lit (1/1000) \<le> 1" "inside_bbox (Fin (1/2), Fin (1/2)) (f4 (0, 0, 1, 1))"
  "inside_bbox (Fin (1/4), Fin (1/2)) (f4 (0, 0, 1, 1))" "inside_bbox (Fin (3/4), Fin (1/2)) (f4 (0, 0, 1, 1))"
  "f4 (0, 0, 0, 1) = (Fin 0, Fin 0, Fin 0, Fin 1)" "f3 (0, 0, 0) = (Fin 0, Fin 0, Fin 0)"
  by code_simp+

lemma rays_seen: "project_sparse (captured request frame t) ray_window 0 [captured_ray (1/2), captured_ray (1/4), captured_ray (3/4)] = Inr seen_rays"
  using ray_limits by (simp add: captured_ray_def ray_window_def captured_def depth_to_point_def ray_numbers ray_norms ray_rotations
     optical_point_def seen_rays_def seen_ray_def del: inside_bbox.simps)

end
