(* ===== verification/GroundSample.thy ===== *)
theory GroundSample
  imports NavGrounding RaySample
begin

text \<open>
  A run of \<open>ground_bbox_to_depth\<close> that grounds a box: a detection of the whole image in the sample
  capture of three rays. Every part is evaluated on its own.
\<close>

definition sample_box_request :: pyval where
  "sample_box_request = PDict [(''schema_version'', PStr GROUND_REQUEST_SCHEMA), (''request_id'', PStr ''q9''),
   (''environment_id'', PStr ''env''), (''session_id'', PStr ''s1''), (''requested_unix'', PInt 20),
   (''source_frame_id'', PStr ''f5''), (''map_id'', PStr ''m1''),
   (''detection'', PDict [(''detection_id'', PStr ''d1''), (''label'', PStr ''tv''), (''confidence'', PInt 1),
      (''bbox_norm'', PList [PInt 0, PInt 0, PInt 1, PInt 1]), (''expected_surface_role'', PStr ''navigation_obstacle'')])]"

definition boxed :: ground_request where
  "boxed = \<lparr>rq_request_id = ''q9'', rq_environment_id = ''env'', rq_session_id = ''s1'', rq_requested_unix = 20,
     gq_source_frame_id = ''f5'', gq_map_id = ''m1'',
     gq_detection = \<lparr>det_detection_id = ''d1'', det_label = ''tv'', det_confidence = 1, det_bbox_norm = (0, 0, 1, 1),
       det_expected_surface_role = Some ''navigation_obstacle'', det_occluder_bboxes_norm = None\<rparr>, gq_continuity = None\<rparr>"

lemma boxed_ok: "validate_ground_request sample_box_request = Inr boxed"
  by (simp add: sample_box_request_def boxed_def validate_ground_request_def ground_request_val_def c_fields_ok
    validate_detection_def optE_def c_bbox_def SURFACE_ROLES_def detection_val_def v4_val_def eval_contract)

definition boxed_policy :: ground_policy where
  "boxed_policy = \<lparr>gp_timestamp = 20, gp_inset = 0, gp_absolute_gap = 1, gp_relative_gap = 0, gp_ambiguity = 0, gp_confidence_floor = 1/4\<rparr>"

lemma boxed_policy_ok:
  "ground_policy_of boxed (captured ''q5'' ''f5'' 20) PNone (PInt 0) (PInt 1) (PInt 0) (PInt 0) (num_val (1/4)) = Inr boxed_policy"
  by code_simp

lemma boxed_window: "projection_window (fvec4_val (inset_bbox (f4 (0, 0, 1, 1)) (Fin 0))) (num_val (1/4)) (num_val (lit (1/1000))) (num_val 10000) = Inr ray_window"
  by code_simp

definition boxed_selection :: selection where
  "boxed_selection = \<lparr>sel_winning = seen_rays, sel_support = Fin (5163136522924301 / 2251799813685248),
     sel_total = Fin (5163136522924301 / 2251799813685248), sel_uncertainty = None\<rparr>"

lemma boxed_parts: "bbox_centre (0, 0, 1, 1) = Inr (Fin (1/2), Fin (1/2))"
  "bbox_half_diagonal (0, 0, 1, 1) = Inr (Fin (6369051672525773 / 9007199254740992))"
  "depth_clusters seen_rays (Fin 1) (Fin 0) = [seen_rays]"
  "median_of (map pt_forward_depth_m seen_rays) = Inr (Fin 1)"
  "wide_box (0, 0, 1, 1) = Inr False" "compact_in_wide (0, 0, 1, 1) seen_rays = Inr False"
  "round64 (5163136522924301 / 2251799813685248) = Fin (5163136522924301 / 2251799813685248)"
  by code_simp+

lemma boxed_support: "visual_support (Fin (1/2), Fin (1/2)) (Fin (6369051672525773 / 9007199254740992)) seen_rays
    = Inr (Fin (5163136522924301 / 2251799813685248))"
  by code_simp

lemma boxed_selected: "select_surface sample_lib boxed (captured ''q5'' ''f5'' 20) boxed_policy seen_rays = Inr (Some boxed_selection)"
  by (simp add: select_surface_def boxed_def boxed_policy_def boxed_parts boxed_support rank_cluster_def select_by_support_def
    wide_occlusion_rescue_def default_ambiguous_def boxed_selection_def)

lemma boxed_numbers: "axis_medians seen_rays = Inr (Fin 0, Fin 0, Fin 1)"
  "mapE (residual (Fin 0, Fin 0, Fin 1)) seen_rays = Inr [Fin 0, Fin tiny_step, Fin tiny_step]"
  "median_of [Fin 0, Fin tiny_step, Fin tiny_step] = Inr (Fin tiny_step)"
  "fmin (Fin 100) (fmax (Fin (lit (1/100))) (Fin tiny_step)) = Fin (lit (1/100))"
  "0 \<le> lit (1/100)" "lit (1/100) \<le> 100"
  "selection_confidence boxed boxed_selection = Inr (Fin 1)"
  "bounded_surface_positions seen_rays = Inr [(0, 0, 1), (- tiny_step, 0, 1), (tiny_step, 0, 1)]"
  by code_simp+

lemma boxed_target: "ground_target_id sample_lib boxed (Fin 0, Fin 0, Fin 1) seen_rays = Inr (''target:'' @ sample_digest)"
  by code_simp

lemma boxed_surface: "uniform_surface_id seen_rays = Some sample_surface" "uniform_surface_role seen_rays = Some ''navigation_obstacle''"
  "independent_support seen_rays = 3" "seen_rays \<noteq> []" by code_simp+

lemma boxed_target_pattern: "target_id_pattern (''target:'' @ sample_digest)"
  by code_simp

definition boxed_result :: pyval where
  "boxed_result = PDict (ground_result_base boxed 20
        @ [(''status'', PStr ''grounded''), (''target_id'', PStr (''target:'' @ sample_digest)), (''confidence'', PFloat (Fin 1)),
           (''coordinate_frame_id'', PStr ''world''),
           (''position_m'', point3_val (Fin 0, Fin 0, Fin 1)),
           (''surface_points_m'', PList (map v3_val [(0, 0, 1), (- tiny_step, 0, 1), (tiny_step, 0, 1)])),
           (''uncertainty_radius_m'', PFloat (Fin (lit (1/100)))), (''reason'', PNone)]
        @ opt_item ''surface_id'' PStr (Some sample_surface)
        @ opt_item ''surface_role'' PStr (Some ''navigation_obstacle''))"

lemma boxed_validated: "\<exists>r. validate_ground_result boxed_result (ground_request_val boxed) PNone = Inr r"
proof -
  have "\<not> isl (validate_ground_result boxed_result (ground_request_val boxed) PNone)" by code_simp
  then show ?thesis by (cases "validate_ground_result boxed_result (ground_request_val boxed) PNone") simp_all
qed

lemma boxed_grounded: "\<exists>r. grounded_ground_result sample_lib boxed (captured ''q5'' ''f5'' 20) 20 boxed_selection = Inr r"
proof -
  have b: "sel_winning boxed_selection = seen_rays" "sel_uncertainty boxed_selection = None"
    by (simp_all add: boxed_selection_def)
  have c: "cam_coordinate_frame_id (cap_camera (captured ''q5'' ''f5'' 20)) = ''world''" by (simp add: captured_def)
  show ?thesis using boxed_validated
    by (simp add: grounded_ground_result_def b c boxed_numbers boxed_target boxed_surface boxed_result_def)
qed
lemma boxed_projected: "project_box sample_lib (captured ''q5'' ''f5'' 20) (fvec4_val (inset_bbox (f4 (0, 0, 1, 1)) (Fin 0))) (1/4) = Inr seen_rays"
proof -
  have d: "cap_depth (captured ''q5'' ''f5'' 20) = Some (SparseDepth \<lparr>sd_alignment = ''registered_normalized_to_rgb'',
       sd_samples = [captured_ray (1/2), captured_ray (1/4), captured_ray (3/4)], sd_samples_sha256 = sample_digest,
       sd_semantics_revision = Some SURFACE_ID_SEMANTICS_REVISION\<rparr>)"
    by (simp add: captured_def)
  show ?thesis using rays_seen [of "''q5''" "''f5''" 20]
    by (simp add: project_box_def project_depth_samples_def capture_result_refeed [OF sample_frame_validated(1)] boxed_window d
      project_window_def del: project_sparse.simps)
qed

lemma boxed_run:
  "\<exists>r. ground_bbox_to_depth sample_lib sample_box_request (sample_fresh_capture ''q5'' ''f5'' 20) PNone (PInt 0) (PInt 1) (PInt 0)
     (PInt 0) (num_val (1/4)) = Inr r \<and> grounded_ground_result sample_lib boxed (captured ''q5'' ''f5'' 20) 20 boxed_selection = Inr r"
proof -
  have h: "rs_environment_id (captured ''q5'' ''f5'' 20) = rq_environment_id boxed" "rs_session_id (captured ''q5'' ''f5'' 20) = rq_session_id boxed"
    "cap_frame_id (captured ''q5'' ''f5'' 20) = gq_source_frame_id boxed" "gq_continuity boxed = None" "gp_inset boxed_policy = 0"
    "gp_confidence_floor boxed_policy = 1/4" "det_bbox_norm (gq_detection boxed) = (0, 0, 1, 1)" "gp_timestamp boxed_policy = 20"
    "sel_winning boxed_selection = seen_rays" "det_expected_surface_role (gq_detection boxed) = Some ''navigation_obstacle''"
    by (simp_all add: captured_def boxed_def boxed_policy_def boxed_selection_def)
  have "ground_points sample_lib boxed (captured ''q5'' ''f5'' 20) boxed_policy = Inr seen_rays"
    by (simp add: ground_points_def h boxed_projected)
  then show ?thesis using boxed_grounded
    by (simp add: ground_bbox_to_depth_def boxed_ok sample_frame_validated boxed_policy_ok h boxed_selected boxed_surface
      MIN_INDEPENDENT_DEPTH_SAMPLES_def ground_selected_def)
qed

end
