(* ===== verification/GroundClaims.thy ===== *)
theory GroundClaims
  imports GroundSample
begin

text \<open>
  The properties of \<open>ground_bbox_to_depth\<close> and its parts, of
  \<open>lumina_next/portable_navigation_core_v1.py\<close>.
\<close>

text \<open>C29. The depth clusters are exactly the cut of the sorted points at the large gaps: a list of lists is
  the result if and only if it concatenates to the points sorted by depth and source index,
  every list in it is non-empty and steps only inside one layer, and no two neighbouring
  lists could be joined.\<close>

theorem depth_clusters_exact:
  "css = depth_clusters points ga gr \<longleftrightarrow>
     cuts_at_gaps (same_layer ga gr) css
     \<and> concat css = py_sort (\<lambda>a b. lt_float_nat (depth_key a) (depth_key b)) points"
  using depth_clusters_cut [of ga gr points] cuts_unique [of "same_layer ga gr" css "depth_clusters points ga gr"] by auto

text \<open>Partitioning by identity equals grouping by the surface id in the order of first occurrence;
  points of which only some have an id are rejected, and points without any stay together.\<close>

theorem identity_partitions_exact:
  "identity_partitions points =
     (if list_ex (\<lambda>p. pt_surface_id p \<noteq> None) points \<and> list_ex (\<lambda>p. pt_surface_id p = None) points then None
      else if list_all (\<lambda>p. pt_surface_id p = None) points then Some [points]
      else Some (map (\<lambda>k. filter (\<lambda>p. pt_surface_id p = k) points) (fromkeys (map pt_surface_id points))))"
  by (simp add: identity_partitions_def groups_fold Let_def list_ex_iff list_all_iff)
    (auto simp: groups_def)

lemma ground_policy_numbers:
  assumes "ground_policy_of q cap t inset_v g r a confidence_v = Inr pol"
  shows "n_number (Some 0) inset_v ''bbox_inset_ratio'' = Inr (gp_inset pol)"
    and "n_number (Some 0) confidence_v ''min_depth_confidence'' = Inr (gp_confidence_floor pol)"
  using assms unfolding ground_policy_of_def by (elim bindE_InrE; auto)+

lemma ground_selected_cases:
  assumes "ground_selected L q cap t chosen = Inr r"
  shows "(\<exists>reason \<in> {''no_depth'', ''insufficient_depth_support'', ''ambiguous''}. unresolved_ground_result q t reason = Inr r)
    \<or> (\<exists>s. chosen = Some s \<and> grounded_ground_result L q cap t s = Inr r \<and> 3 \<le> card (pt_uv_norm ` set (sel_winning s))
        \<and> (det_expected_surface_role (gq_detection q) \<noteq> None \<longrightarrow>
             uniform_surface_role (sel_winning s) = det_expected_surface_role (gq_detection q)))"
  using assms unfolding ground_selected_def Let_def
  by (cases chosen) (auto simp: independent_support_card MIN_INDEPENDENT_DEPTH_SAMPLES_def not_less split: if_split_asm)

text \<open>C10. What grounding a box may return: request and capture have the same environment, session and
  frame; and either the result is the unresolved one with its reason, or it is the grounded
  result of a selected surface, of which the following holds. Its points are projected from the
  depth of this capture; each lies inside the box of the detection or that box shrunk by the inset
  (so inside the box of the detection, when its sides are binary64 values); each has at least the
  requested depth confidence; with sparse depth, position, confidence, identity and role of each
  are those of one sample of the capture. The surface has at least three independent rays, and it
  has the surface role the detection expects, if any.\<close>

theorem ground_outcomes:
  assumes "ground_bbox_to_depth L request capture grounded_unix inset_v gap_v ratio_v ambiguity_v confidence_v = Inr r"
  shows "\<exists>q cap pol. validate_ground_request request = Inr q \<and> validate_capture_result L capture PNone PNone = Inr cap
    \<and> rs_environment_id cap = rq_environment_id q \<and> rs_session_id cap = rq_session_id q
    \<and> cap_frame_id cap = gq_source_frame_id q
    \<and> ground_policy_of q cap grounded_unix inset_v gap_v ratio_v ambiguity_v confidence_v = Inr pol
    \<and> n_number (Some 0) inset_v ''bbox_inset_ratio'' = Inr (gp_inset pol)
    \<and> n_number (Some 0) confidence_v ''min_depth_confidence'' = Inr (gp_confidence_floor pol)
    \<and> (gr_status r = ''unresolved'' \<and> (\<exists>reason \<in> {''no_depth'', ''insufficient_depth_support'', ''ambiguous''}.
           unresolved_ground_result q (gp_timestamp pol) reason = Inr r)
      \<or> gr_status r = ''grounded'' \<and> (\<exists>s. grounded_ground_result L q cap (gp_timestamp pol) s = Inr r
          \<and> (\<exists>box \<in> {f4 (det_bbox_norm (gq_detection q)),
                       inset_bbox (f4 (det_bbox_norm (gq_detection q))) (Fin (gp_inset pol))}.
              \<exists>projected. project_box L cap (fvec4_val box) (gp_confidence_floor pol) = Inr projected
                \<and> set (sel_winning s) \<subseteq> set projected \<and> (\<forall>p \<in> set (sel_winning s). inside_bbox (pt_uv_norm p) box))
          \<and> (\<forall>p \<in> set (sel_winning s). fle (Fin (gp_confidence_floor pol)) (pt_confidence p)
              \<and> (\<forall>d. cap_depth cap = Some (SparseDepth d) \<longrightarrow> projected_from (sd_samples d) p)
              \<and> (double_box (det_bbox_norm (gq_detection q)) \<longrightarrow>
                   inside_bbox (pt_uv_norm p) (f4 (det_bbox_norm (gq_detection q)))))
          \<and> 3 \<le> card (pt_uv_norm ` set (sel_winning s))
          \<and> (det_expected_surface_role (gq_detection q) \<noteq> None \<longrightarrow>
               uniform_surface_role (sel_winning s) = det_expected_surface_role (gq_detection q))))"
proof -
  from assms obtain q cap pol points where q: "validate_ground_request request = Inr q"
    and cap: "validate_capture_result L capture PNone PNone = Inr cap" "rs_environment_id cap = rq_environment_id q"
    "rs_session_id cap = rq_session_id q" "cap_frame_id cap = gq_source_frame_id q"
    and pol: "ground_policy_of q cap grounded_unix inset_v gap_v ratio_v ambiguity_v confidence_v = Inr pol"
    and p: "ground_points L q cap pol = Inr points"
    and r: "(if points = [] then unresolved_ground_result q (gp_timestamp pol) ''no_depth''
     else if independent_support points < MIN_INDEPENDENT_DEPTH_SAMPLES
     then unresolved_ground_result q (gp_timestamp pol) ''insufficient_depth_support''
     else bindE (select_surface L q cap pol points) (ground_selected L q cap (gp_timestamp pol))) = Inr r"
    unfolding ground_bbox_to_depth_def by (elim bindE_InrE, unfold guardE_Inr_iff) (rule that)
  have n: "n_number (Some 0) inset_v ''bbox_inset_ratio'' = Inr (gp_inset pol)"
    "n_number (Some 0) confidence_v ''min_depth_confidence'' = Inr (gp_confidence_floor pol)"
    by (rule ground_policy_numbers [OF pol])+
  show ?thesis
  proof (cases "\<exists>reason \<in> {''no_depth'', ''insufficient_depth_support'', ''ambiguous''}.
      unresolved_ground_result q (gp_timestamp pol) reason = Inr r")
    case True
    show ?thesis
      by (intro exI [of _ q] exI [of _ cap] exI [of _ pol] conjI disjI1 q cap pol n True)
        (use True unresolved_status in blast)
  next
    case False
    then obtain chosen where c: "select_surface L q cap pol points = Inr chosen"
      and g: "ground_selected L q cap (gp_timestamp pol) chosen = Inr r"
      using r by (auto elim!: bindE_InrE split: if_split_asm)
    obtain s where s: "chosen = Some s" "grounded_ground_result L q cap (gp_timestamp pol) s = Inr r"
      "3 \<le> card (pt_uv_norm ` set (sel_winning s))"
      "det_expected_surface_role (gq_detection q) \<noteq> None \<longrightarrow>
         uniform_surface_role (sel_winning s) = det_expected_surface_role (gq_detection q)"
      using ground_selected_cases [OF g] False by blast
    note points = selected_points [OF q cap(1) pol p c [unfolded s(1)]]
    show ?thesis
      by (intro exI [of _ q] exI [of _ cap] exI [of _ pol] conjI disjI2 exI [of _ s] q cap pol n s(2-4) points
        grounded_status [OF s(2)])
  qed
qed

lemma ground_outcomes_witness:
  "\<exists>r s. ground_bbox_to_depth sample_lib sample_box_request (sample_fresh_capture ''q5'' ''f5'' 20) PNone (PInt 0) (PInt 1)
       (PInt 0) (PInt 0) (num_val (1/4)) = Inr r
     \<and> gr_status r = ''grounded'' \<and> grounded_ground_result sample_lib boxed (captured ''q5'' ''f5'' 20) 20 s = Inr r
     \<and> (\<forall>p \<in> set (sel_winning s). fle (Fin (1/4)) (pt_confidence p) \<and> inside_bbox (pt_uv_norm p) (Fin 0, Fin 0, Fin 1, Fin 1))
     \<and> uniform_surface_role (sel_winning s) = Some ''navigation_obstacle''"
proof -
  obtain r where r: "ground_bbox_to_depth sample_lib sample_box_request (sample_fresh_capture ''q5'' ''f5'' 20) PNone (PInt 0)
      (PInt 1) (PInt 0) (PInt 0) (num_val (1/4)) = Inr r" and g: "gr_status r = ''grounded''"
    using boxed_run grounded_status by blast
  from ground_outcomes [OF r] obtain q cap pol s where q: "validate_ground_request sample_box_request = Inr q"
    and cap: "validate_capture_result sample_lib (sample_fresh_capture ''q5'' ''f5'' 20) PNone PNone = Inr cap"
    and pol: "ground_policy_of q cap PNone (PInt 0) (PInt 1) (PInt 0) (PInt 0) (num_val (1/4)) = Inr pol"
    and s: "grounded_ground_result sample_lib q cap (gp_timestamp pol) s = Inr r"
    and p: "\<forall>p \<in> set (sel_winning s). fle (Fin (gp_confidence_floor pol)) (pt_confidence p)
              \<and> (double_box (det_bbox_norm (gq_detection q)) \<longrightarrow>
                   inside_bbox (pt_uv_norm p) (f4 (det_bbox_norm (gq_detection q))))"
    and role: "det_expected_surface_role (gq_detection q) \<noteq> None \<longrightarrow>
               uniform_surface_role (sel_winning s) = det_expected_surface_role (gq_detection q)"
    using g by (elim exE conjE disjE bexE) (simp, blast)
  have e: "q = boxed" "cap = captured ''q5'' ''f5'' 20" using q cap boxed_ok sample_frame_validated(1) by simp_all
  then have b: "pol = boxed_policy" using pol boxed_policy_ok by simp
  have f: "gp_confidence_floor boxed_policy = 1/4" "gp_timestamp boxed_policy = 20"
    "f4 (det_bbox_norm (gq_detection boxed)) = (Fin 0, Fin 0, Fin 1, Fin 1)" "double_box (det_bbox_norm (gq_detection boxed))"
    "det_expected_surface_role (gq_detection boxed) = Some ''navigation_obstacle''"
    by (simp_all add: boxed_def boxed_policy_def f4_def double_box_def representable_def)
  have "grounded_ground_result sample_lib boxed (captured ''q5'' ''f5'' 20) 20 s = Inr r" using s unfolding e b f .
  moreover have "\<forall>p \<in> set (sel_winning s). fle (Fin (1/4)) (pt_confidence p)
      \<and> inside_bbox (pt_uv_norm p) (Fin 0, Fin 0, Fin 1, Fin 1)" using p unfolding e b f(1,3) using f(4) by blast
  moreover have "uniform_surface_role (sel_winning s) = Some ''navigation_obstacle''" using role unfolding e f(5) by blast
  ultimately show ?thesis using r g by blast
qed

end
