(* ===== verification/PyText.thy ===== *)
theory PyText
  imports PyValue
begin

text \<open>
  Operations on \<open>str\<close> beyond what the navigation modules need. A string is its UTF-8
  encoding; \<open>py_chars\<close> cuts it into the bytes of its code points, so slices, \<open>strip\<close>,
  \<open>split\<close> and \<open>splitlines\<close> work on code points. Lower-casing is that of ASCII letters.
  \<open>float_of_str\<close> reads a decimal literal as \<open>float(s)\<close> does.
\<close>

lemma length_dropWhile_Suc [termination_simp]: "length (dropWhile P xs) < Suc (length xs)"
  by (simp add: less_Suc_eq_le length_dropWhile_le)

fun py_chars :: "string \<Rightarrow> string list" where
  "py_chars [] = []"
| "py_chars (c # cs) = (c # takeWhile cont_byte cs) # py_chars (dropWhile cont_byte cs)"

definition cp_space :: "string \<Rightarrow> bool" where
  "cp_space g = list_all py_space (utf8_decode g)"

definition py_take :: "nat \<Rightarrow> string \<Rightarrow> string" where
  "py_take n s = concat (take n (py_chars s))"

definition strip_list :: "('a \<Rightarrow> bool) \<Rightarrow> 'a list \<Rightarrow> 'a list" where
  "strip_list P xs = rev (dropWhile P (rev (dropWhile P xs)))"

definition py_strip :: "string \<Rightarrow> string" where
  "py_strip s = concat (strip_list cp_space (py_chars s))"

definition lower_char :: "char \<Rightarrow> char" where
  "lower_char c = (if CHR ''A'' \<le> c \<and> c \<le> CHR ''Z'' then char_of ((of_char c :: nat) + 32) else c)"

definition ascii_lower :: "string \<Rightarrow> string" where
  "ascii_lower s = map lower_char s"

text \<open>\<open>xs[-n:]\<close> for a positive \<open>n\<close>.\<close>

definition last_n :: "nat \<Rightarrow> 'a list \<Rightarrow> 'a list" where
  "last_n n xs = drop (length xs - n) xs"

lemma length_last_n [simp]: "length (last_n n xs) = min n (length xs)"
  by (simp add: last_n_def)

lemma concat_py_chars [simp]: "concat (py_chars s) = s"
  by (induction s rule: py_chars.induct) simp_all

text \<open>
  \<open>float(s)\<close> of a string: surrounding white space, an optional sign, then digits with an
  optional fraction and exponent, or a spelling of infinity or NaN. \<open>scan_digits\<close> returns
  the value and the number of the digits read; an underscore may stand between digits.
\<close>

fun scan_digits :: "int \<Rightarrow> nat \<Rightarrow> string \<Rightarrow> (int \<times> nat \<times> string) option" where
  "scan_digits acc n [] = Some (acc, n, [])"
| "scan_digits acc n (c # cs) =
     (if is_digit c then scan_digits (acc * 10 + (of_char c - 48)) (Suc n) cs
      else if c = CHR ''_'' then
        (case cs of d # _ \<Rightarrow> if 0 < n \<and> is_digit d then scan_digits acc n cs else None | [] \<Rightarrow> None)
      else Some (acc, n, c # cs))"

definition scan_sign :: "string \<Rightarrow> int \<times> string" where
  "scan_sign s = (case s of c # cs \<Rightarrow> if c = CHR ''-'' then (-1, cs) else if c = CHR ''+'' then (1, cs) else (1, s)
                  | [] \<Rightarrow> (1, []))"

definition pow10 :: "int \<Rightarrow> rat" where
  "pow10 e = (if 0 \<le> e then of_int (10 ^ nat e) else 1 / of_int (10 ^ nat (- e)))"

definition scan_exponent :: "string \<Rightarrow> int option" where
  "scan_exponent s = (case s of
       [] \<Rightarrow> Some 0
     | c # cs \<Rightarrow> if c = CHR ''e'' \<or> c = CHR ''E'' then
         (case scan_sign cs of (sg, rest) \<Rightarrow>
            (case scan_digits 0 0 rest of
               Some (e, n, []) \<Rightarrow> if 0 < n then Some (sg * e) else None
             | _ \<Rightarrow> None))
       else None)"

definition scan_decimal :: "string \<Rightarrow> rat option" where
  "scan_decimal s =
     (case scan_digits 0 0 s of
        None \<Rightarrow> None
      | Some (a, n, rest) \<Rightarrow>
          (case rest of
             c # cs \<Rightarrow>
               if c = CHR ''.'' then
                 (case scan_digits 0 0 cs of
                    None \<Rightarrow> None
                  | Some (b, m, rest') \<Rightarrow>
                      if n + m = 0 then None
                      else map_option (\<lambda>e. (of_int a + of_int b * pow10 (- int m)) * pow10 e) (scan_exponent rest'))
               else if n = 0 then None
               else map_option (\<lambda>e. of_int a * pow10 e) (scan_exponent rest)
           | [] \<Rightarrow> if n = 0 then None else Some (of_int a)))"

definition float_of_str :: "string \<Rightarrow> pyfloat option" where
  "float_of_str s =
     (case scan_sign (py_strip s) of (sg, t) \<Rightarrow>
        let w = ascii_lower t in
        if w = ''inf'' \<or> w = ''infinity'' then Some (if sg < 0 then NInf else PInf)
        else if w = ''nan'' then Some NaN
        else map_option (\<lambda>r. round64 (of_int sg * r)) (scan_decimal t))"

definition opt_float_val :: "pyfloat option \<Rightarrow> pyval" where
  "opt_float_val x = (case x of None \<Rightarrow> PNone | Some f \<Rightarrow> PFloat f)"

definition opt_text_val :: "string option \<Rightarrow> pyval" where
  "opt_text_val x = (case x of None \<Rightarrow> PNone | Some s \<Rightarrow> PStr s)"

end
