(* ===== verification/Lifecycle.thy ===== *)
theory Lifecycle
  imports PyText
begin

text \<open>
  The model lifecycle state machine of \<open>lumina_next/model_lifecycle_fsm.py\<close>. A snapshot
  is the immutable \<open>LifecycleSnapshot\<close>; the machine is its current snapshot, and \<open>apply\<close>
  returns the next one or the error it raises. The step relation \<open>fsm_step\<close> is one
  accepted call of \<open>apply\<close> or \<open>bind_model\<close>.
\<close>

subsection \<open>Phases, events and snapshots\<close>

datatype lphase = Unloaded | Loading | Ready | Busy | Draining | Unloading | Failed | Cooldown

datatype levent = RequestLoad | LoadSucceeded | LoadFailed | RequestInference | InferenceDone | RequestUnload
  | UnloadSucceeded | UnloadFailed | RequestDrain | DrainDone | EnterCooldown | CooldownExpired | Reset

text \<open>The \<open>value\<close> of an enumeration member.\<close>

fun phase_value :: "lphase \<Rightarrow> string" where
  "phase_value Unloaded = ''unloaded''"
| "phase_value Loading = ''loading''"
| "phase_value Ready = ''ready''"
| "phase_value Busy = ''busy''"
| "phase_value Draining = ''draining''"
| "phase_value Unloading = ''unloading''"
| "phase_value Failed = ''failed''"
| "phase_value Cooldown = ''cooldown''"

fun event_value :: "levent \<Rightarrow> string" where
  "event_value RequestLoad = ''request_load''"
| "event_value LoadSucceeded = ''load_succeeded''"
| "event_value LoadFailed = ''load_failed''"
| "event_value RequestInference = ''request_inference''"
| "event_value InferenceDone = ''inference_done''"
| "event_value RequestUnload = ''request_unload''"
| "event_value UnloadSucceeded = ''unload_succeeded''"
| "event_value UnloadFailed = ''unload_failed''"
| "event_value RequestDrain = ''request_drain''"
| "event_value DrainDone = ''drain_done''"
| "event_value EnterCooldown = ''enter_cooldown''"
| "event_value CooldownExpired = ''cooldown_expired''"
| "event_value Reset = ''reset''"

record snapshot =
  sn_phase :: lphase
  sn_active_kind :: "string option"
  sn_active_model :: "string option"
  sn_in_flight :: int
  sn_draining :: bool
  sn_last_error :: "string option"
  sn_cooldown_until :: "pyfloat option"

datatype fsm_error = LifecycleTransitionError string | FsmValueError

definition initial_snapshot :: snapshot where
  "initial_snapshot = \<lparr>sn_phase = Unloaded, sn_active_kind = None, sn_active_model = None, sn_in_flight = 0,
     sn_draining = False, sn_last_error = None, sn_cooldown_until = None\<rparr>"

definition snapshot_dict :: "snapshot \<Rightarrow> pyval" where
  "snapshot_dict s = PDict [(''phase'', PStr (phase_value (sn_phase s))),
     (''active_kind'', opt_text_val (sn_active_kind s)), (''active_model'', opt_text_val (sn_active_model s)),
     (''in_flight_requests'', PInt (sn_in_flight s)), (''draining'', PBool (sn_draining s)),
     (''last_error'', opt_text_val (sn_last_error s)), (''cooldown_until'', opt_float_val (sn_cooldown_until s))]"

text \<open>The table \<open>_TRANSITIONS\<close>.\<close>

definition transition_table :: "((lphase \<times> levent) \<times> lphase) list" where
  "transition_table =
     [((Unloaded, RequestLoad), Loading),
      ((Loading, LoadSucceeded), Ready),
      ((Loading, LoadFailed), Failed),
      ((Ready, RequestInference), Busy),
      ((Busy, RequestInference), Busy),
      ((Busy, InferenceDone), Ready),
      ((Ready, RequestDrain), Draining),
      ((Busy, RequestDrain), Draining),
      ((Draining, DrainDone), Ready),
      ((Ready, RequestUnload), Unloading),
      ((Draining, RequestUnload), Unloading),
      ((Unloading, UnloadSucceeded), Unloaded),
      ((Unloading, UnloadFailed), Failed),
      ((Failed, EnterCooldown), Cooldown),
      ((Cooldown, CooldownExpired), Unloaded),
      ((Failed, Reset), Unloaded),
      ((Cooldown, Reset), Unloaded),
      ((Unloaded, Reset), Unloaded)]"

definition transition :: "lphase \<Rightarrow> levent \<Rightarrow> lphase option" where
  "transition phase event = map_of transition_table (phase, event)"

subsection \<open>Guards\<close>

definition can_load :: "snapshot \<Rightarrow> bool" where
  "can_load s = (sn_phase s \<in> {Unloaded, Cooldown, Failed})"

definition can_unload :: "snapshot \<Rightarrow> bool" where
  "can_unload s =
     (if sn_phase s \<in> {Loading, Unloading, Unloaded} then False
      else if 0 < sn_in_flight s \<and> sn_phase s = Busy then False
      else sn_phase s \<in> {Ready, Draining})"

definition can_accept_inference :: "snapshot \<Rightarrow> bool" where
  "can_accept_inference s = (sn_phase s \<in> {Ready, Busy} \<and> \<not> sn_draining s)"

subsection \<open>Events\<close>

definition request_inference :: "snapshot \<Rightarrow> fsm_error + snapshot" where
  "request_inference s =
     bindE (guardE (can_accept_inference s)
              (LifecycleTransitionError (''cannot start inference in '' @ phase_value (sn_phase s)))) (\<lambda>_.
     let n = sn_in_flight s + 1 in
     Inr (s\<lparr>sn_phase := (if 0 < n then Busy else sn_phase s), sn_in_flight := n\<rparr>))"

definition inference_done :: "snapshot \<Rightarrow> snapshot" where
  "inference_done s =
     (let n = max 0 (sn_in_flight s - 1) in
      s\<lparr>sn_phase := (if sn_draining s \<and> n = 0 then Draining else if 0 < n then Busy else Ready),
        sn_in_flight := n\<rparr>)"

text \<open>\<open>(error or default)[:1000]\<close>.\<close>

definition error_text :: "string option \<Rightarrow> string \<Rightarrow> string" where
  "error_text error fallback =
     py_take 1000 (case error of Some e \<Rightarrow> if e = [] then fallback else e | None \<Rightarrow> fallback)"

text \<open>\<open>float(error or 30.0)\<close>.\<close>

definition cooldown_seconds :: "string option \<Rightarrow> fsm_error + pyfloat" where
  "cooldown_seconds error =
     (case error of
        Some e \<Rightarrow> if e = [] then Inr (Fin 30) else
                  (case float_of_str e of Some x \<Rightarrow> Inr x | None \<Rightarrow> Inl FsmValueError)
      | None \<Rightarrow> Inr (Fin 30))"

definition next_cooldown :: "snapshot \<Rightarrow> levent \<Rightarrow> string option \<Rightarrow> pyfloat option \<Rightarrow> fsm_error + pyfloat option" where
  "next_cooldown s event error now =
     (if event \<in> {CooldownExpired, Reset} then Inr None
      else if event = EnterCooldown \<and> now \<noteq> None
      then bindE (cooldown_seconds error) (\<lambda>d. Inr (map_option (\<lambda>t. fadd t d) now))
      else Inr (sn_cooldown_until s))"

definition next_error :: "snapshot \<Rightarrow> levent \<Rightarrow> string option \<Rightarrow> string option" where
  "next_error s event error =
     (if event = LoadFailed then Some (error_text error ''load failed'')
      else if event = UnloadFailed then Some (error_text error ''unload failed'')
      else if event = Reset then None
      else sn_last_error s)"

definition table_event :: "snapshot \<Rightarrow> levent \<Rightarrow> string option \<Rightarrow> pyfloat option \<Rightarrow> fsm_error + snapshot" where
  "table_event s event error now =
     (case transition (sn_phase s) event of
        None \<Rightarrow> Inl (LifecycleTransitionError
                  (''illegal transition '' @ phase_value (sn_phase s) @ '' + '' @ event_value event))
      | Some next \<Rightarrow>
          bindE (next_cooldown s event error now) (\<lambda>cooldown.
          Inr \<lparr>sn_phase = next,
               sn_active_kind = (if next = Unloaded then None else sn_active_kind s),
               sn_active_model = (if next = Unloaded then None else sn_active_model s),
               sn_in_flight = (if next \<noteq> Busy then 0 else sn_in_flight s),
               sn_draining = (if event = RequestDrain then True else if event = DrainDone then False
                              else sn_draining s),
               sn_last_error = next_error s event error,
               sn_cooldown_until = cooldown\<rparr>))"

definition apply_event :: "snapshot \<Rightarrow> levent \<Rightarrow> string option \<Rightarrow> pyfloat option \<Rightarrow> fsm_error + snapshot" where
  "apply_event s event error now =
     (if event = RequestInference then request_inference s
      else if event = InferenceDone then Inr (inference_done s)
      else table_event s event error now)"

definition bind_model :: "snapshot \<Rightarrow> string \<Rightarrow> string \<Rightarrow> snapshot" where
  "bind_model s kind model = s\<lparr>sn_active_kind := Some kind, sn_active_model := Some model\<rparr>"

subsection \<open>Views\<close>

text \<open>\<open>mapping.get(normalized, UNLOADED)\<close>; the keys are ASCII, so is the lower-casing.\<close>

definition broker_phases :: "(string \<times> lphase) list" where
  "broker_phases = [(''idle'', Unloaded), (''llm_loading'', Loading), (''vlm_loading'', Loading), (''llm_ready'', Ready),
     (''vlm_ready'', Ready), (''restoring_llm'', Loading), (''unloading'', Unloading), (''cooldown'', Cooldown),
     (''fault'', Failed)]"

definition map_broker_state_to_phase :: "string \<Rightarrow> int \<Rightarrow> bool \<Rightarrow> lphase" where
  "map_broker_state_to_phase broker_state in_flight draining =
     (if draining then Draining
      else if 0 < in_flight then Busy
      else case map_of broker_phases (ascii_lower (py_strip broker_state)) of Some p \<Rightarrow> p | None \<Rightarrow> Unloaded)"

text \<open>\<open>arrow\<close> is the UTF-8 encoding of the arrow between blanks.\<close>

definition arrow :: string where
  "arrow = '' '' @ [CHR 0xE2, CHR 0x86, CHR 0x92] @ '' ''"

definition explain_transition :: "lphase \<Rightarrow> levent \<Rightarrow> string" where
  "explain_transition phase event =
     phase_value phase @ '' + '' @ event_value event @ arrow @
     (if event = RequestInference then
        if phase \<in> {Ready, Busy} then ''busy (in-flight++)'' else ''illegal (inference not accepted)''
      else if event = InferenceDone then ''ready|busy|draining (in-flight--)''
      else case transition phase event of None \<Rightarrow> ''illegal'' | Some next \<Rightarrow> phase_value next)"

definition show_bool :: "bool \<Rightarrow> string" where
  "show_bool b = (if b then ''True'' else ''False'')"

text \<open>A part of the summary for an optional string that is set and not empty.\<close>

definition truthy_part :: "string \<Rightarrow> string option \<Rightarrow> string list" where
  "truthy_part prefix v = (case v of Some s \<Rightarrow> if s = [] then [] else [prefix @ s] | None \<Rightarrow> [])"

text \<open>\<open>show_float\<close> is the interpreter's \<open>str\<close> of a float.\<close>

definition explain_state :: "(pyfloat \<Rightarrow> string) \<Rightarrow> snapshot \<Rightarrow> string" where
  "explain_state show_float s = join '', ''
     ([''phase='' @ phase_value (sn_phase s)]
      @ truthy_part ''kind='' (sn_active_kind s)
      @ truthy_part ''model='' (sn_active_model s)
      @ (if sn_in_flight s \<noteq> 0 then [''in_flight='' @ show_int (sn_in_flight s)] else [])
      @ (if sn_draining s then [''draining=true''] else [])
      @ (case sn_last_error s of Some e \<Rightarrow> if e = [] then [] else [''last_error=set''] | None \<Rightarrow> [])
      @ (case sn_cooldown_until s of Some t \<Rightarrow> [''cooldown_until='' @ show_float t] | None \<Rightarrow> [])
      @ [''can_load='' @ show_bool (can_load s), ''can_unload='' @ show_bool (can_unload s),
         ''can_accept_inference='' @ show_bool (can_accept_inference s)])"

subsection \<open>Runs of the machine\<close>

text \<open>One accepted call.\<close>

inductive fsm_step :: "snapshot \<Rightarrow> snapshot \<Rightarrow> bool" where
  Applied: "apply_event s event error now = Inr s' \<Longrightarrow> fsm_step s s'"
| Bound: "fsm_step s (bind_model s kind model)"

inductive_cases fsm_stepE: "fsm_step s s'"

abbreviation fsm_reaches :: "snapshot \<Rightarrow> snapshot \<Rightarrow> bool" where
  "fsm_reaches \<equiv> fsm_step\<^sup>*\<^sup>*"

text \<open>A sequence of events, without error texts or clock readings.\<close>

definition apply_all :: "snapshot \<Rightarrow> levent list \<Rightarrow> fsm_error + snapshot" where
  "apply_all s events = foldE (\<lambda>s e. apply_event s e None None) s events"

lemma transition_Some: "transition p e = Some q \<longleftrightarrow> ((p, e), q) \<in> set transition_table"
proof -
  have "distinct (map fst transition_table)" by (simp add: transition_table_def)
  then show ?thesis by (simp add: transition_def)
qed

lemma transition_targets:
  assumes "transition p e = Some q" and "e \<noteq> RequestInference"
  shows "q \<noteq> Busy" and "q = Draining \<longleftrightarrow> e = RequestDrain" and "e = DrainDone \<Longrightarrow> q = Ready"
  using assms by (auto simp: transition_Some transition_table_def)

lemma table_event_Inr:
  "table_event s e err now = Inr s' \<Longrightarrow> \<exists>q. transition (sn_phase s) e = Some q \<and> sn_phase s' = q
     \<and> sn_in_flight s' = (if q \<noteq> Busy then 0 else sn_in_flight s)
     \<and> sn_draining s' = (if e = RequestDrain then True else if e = DrainDone then False else sn_draining s)
     \<and> sn_active_model s' = (if q = Unloaded then None else sn_active_model s)"
  by (auto simp: table_event_def bindE_Inr_iff split: option.splits)

text \<open>The counter of requests, the phase and the drain flag fit together.\<close>

definition counts_ok :: "snapshot \<Rightarrow> bool" where
  "counts_ok s = (0 \<le> sn_in_flight s \<and> (sn_phase s = Busy \<longleftrightarrow> 0 < sn_in_flight s)
     \<and> (sn_phase s = Draining \<longrightarrow> sn_draining s) \<and> (sn_phase s = Busy \<longrightarrow> \<not> sn_draining s))"

lemma apply_event_counts:
  assumes "counts_ok s" and "apply_event s e err now = Inr s'"
  shows "counts_ok s'"
proof -
  consider (request) "e = RequestInference" | (finished) "e = InferenceDone"
    | (other) "e \<noteq> RequestInference" "e \<noteq> InferenceDone" by blast
  then show ?thesis
  proof cases
    case request
    then show ?thesis using assms
      by (auto simp: apply_event_def request_inference_def counts_ok_def can_accept_inference_def bindE_Inr_iff
          guardE_Inr_iff Let_def)
  next
    case finished
    then show ?thesis using assms
      by (auto simp: apply_event_def inference_done_def counts_ok_def Let_def max_def split: if_splits)
  next
    case other
    then have "table_event s e err now = Inr s'" using assms(2) by (simp add: apply_event_def)
    then show ?thesis using table_event_Inr [of s e err now s'] transition_targets [OF _ other(1)] by (auto simp: counts_ok_def)
  qed
qed

lemma bind_model_counts [simp]: "counts_ok (bind_model s kind model) = counts_ok s"
  by (simp add: bind_model_def counts_ok_def)

lemma fsm_reaches_counts: "fsm_reaches s s' \<Longrightarrow> counts_ok s \<Longrightarrow> counts_ok s'"
proof (induction rule: rtranclp_induct)
  case (step b c)
  from step(2) step(3) [OF step(4)] show ?case
    by (auto elim!: fsm_stepE intro: apply_event_counts)
qed

lemma apply_all_Cons: "apply_all s (e # es) = bindE (apply_event s e None None) (\<lambda>s'. apply_all s' es)"
  by (simp add: apply_all_def)

lemma apply_all_append: "apply_all s (xs @ ys) = bindE (apply_all s xs) (\<lambda>s'. apply_all s' ys)"
  by (induction xs arbitrary: s) (simp_all add: apply_all_Cons bindE_assoc, simp add: apply_all_def)

lemma apply_all_reaches: "apply_all s es = Inr s' \<Longrightarrow> fsm_reaches s s'"
proof (induction es arbitrary: s)
  case Nil
  then show ?case by (simp add: apply_all_def)
next
  case (Cons e es)
  then obtain t where "apply_event s e None None = Inr t" "apply_all t es = Inr s'"
    by (auto simp: apply_all_Cons elim: bindE_InrE)
  then show ?case using Cons.IH by (blast intro: converse_rtranclp_into_rtranclp fsm_step.Applied)
qed

text \<open>Requests and completions cancel.\<close>

lemma requests_up:
  "can_accept_inference s \<Longrightarrow> 0 \<le> sn_in_flight s \<Longrightarrow>
     apply_all s (replicate (Suc n) RequestInference) =
       Inr (s\<lparr>sn_phase := Busy, sn_in_flight := sn_in_flight s + int (Suc n)\<rparr>)"
proof (induction n arbitrary: s)
  case 0
  then show ?case by (simp add: apply_all_def apply_event_def request_inference_def)
next
  case (Suc n)
  let ?t = "s\<lparr>sn_phase := Busy, sn_in_flight := sn_in_flight s + 1\<rparr>"
  have "apply_event s RequestInference None None = Inr ?t" using Suc.prems by (simp add: apply_event_def request_inference_def)
  moreover have "apply_all ?t (replicate (Suc n) RequestInference) = Inr (?t\<lparr>sn_phase := Busy, sn_in_flight := sn_in_flight ?t + int (Suc n)\<rparr>)"
    by (rule Suc.IH) (use Suc.prems in \<open>simp_all add: can_accept_inference_def\<close>)
  ultimately show ?case by (simp only: replicate_Suc [of "Suc n"] apply_all_Cons bindE_simps) simp
qed

lemma requests_down:
  "sn_phase s = Busy \<Longrightarrow> \<not> sn_draining s \<Longrightarrow> sn_in_flight s = int (Suc n) \<Longrightarrow>
     apply_all s (replicate (Suc n) InferenceDone) = Inr (s\<lparr>sn_phase := Ready, sn_in_flight := 0\<rparr>)"
proof (induction n arbitrary: s)
  case 0
  then show ?case by (simp add: apply_all_def apply_event_def inference_done_def)
next
  case (Suc n)
  let ?t = "s\<lparr>sn_in_flight := int (Suc n)\<rparr>"
  have "apply_event s InferenceDone None None = Inr ?t" using Suc.prems by (simp add: apply_event_def inference_done_def Let_def)
  moreover have "apply_all ?t (replicate (Suc n) InferenceDone) = Inr (?t\<lparr>sn_phase := Ready, sn_in_flight := 0\<rparr>)"
    by (rule Suc.IH) (use Suc.prems in simp_all)
  ultimately show ?case by (simp only: replicate_Suc [of "Suc n"] apply_all_Cons bindE_simps) simp
qed

end
