(* ===== verification/Breaker.thy ===== *)
theory Breaker
  imports PyText FloatBounds
begin

text \<open>
  The circuit breaker of \<open>lumina_next/circuit_breaker.py\<close>. The clock reading
  (\<open>now\<close>, or \<open>time.monotonic()\<close> where the caller gives none) is an argument. A method
  that mutates the breaker returns the new state with its result.
\<close>

datatype circuit = Closed | Open | HalfOpen

fun circuit_value :: "circuit \<Rightarrow> string" where
  "circuit_value Closed = ''closed''"
| "circuit_value Open = ''open''"
| "circuit_value HalfOpen = ''half_open''"

record breaker =
  cb_failure_threshold :: int
  cb_success_threshold :: int
  cb_base_backoff :: pyfloat
  cb_max_backoff :: pyfloat
  cb_max_crash_loops :: int
  cb_history_max :: int
  cb_state :: circuit
  cb_failures :: int
  cb_successes :: int
  cb_crash_loops :: int
  cb_opened_at :: "pyfloat option"
  cb_next_attempt_at :: "pyfloat option"
  cb_last_error :: "string option"
  cb_history :: "string list"

definition default_breaker :: breaker where
  "default_breaker = \<lparr>cb_failure_threshold = 3, cb_success_threshold = 1, cb_base_backoff = Fin 2,
     cb_max_backoff = Fin 120, cb_max_crash_loops = 5, cb_history_max = 32, cb_state = Closed, cb_failures = 0,
     cb_successes = 0, cb_crash_loops = 0, cb_opened_at = None, cb_next_attempt_at = None, cb_last_error = None,
     cb_history = []\<rparr>"

definition record_success :: "breaker \<Rightarrow> breaker" where
  "record_success b =
     (let b' = b\<lparr>cb_failures := 0, cb_successes := cb_successes b + 1, cb_last_error := None\<rparr> in
      if cb_state b' = HalfOpen \<and> cb_success_threshold b' \<le> cb_successes b'
      then b'\<lparr>cb_state := Closed, cb_opened_at := None, cb_next_attempt_at := None, cb_crash_loops := 0\<rparr>
      else b')"

text \<open>\<open>math.pow(2.0, exponent)\<close> raises \<open>OverflowError\<close> from \<open>2 ^ 1024\<close> on.\<close>

definition math_pow2 :: "int \<Rightarrow> py_exc + pyfloat" where
  "math_pow2 e = (if 1024 \<le> e then Inl PyOverflowError else Inr (Fin (pow2 e)))"

definition compute_backoff :: "breaker \<Rightarrow> py_exc + pyfloat" where
  "compute_backoff b =
     bindE (math_pow2 (max 0 (cb_failures b - cb_failure_threshold b))) (\<lambda>p.
     Inr (fmin (cb_max_backoff b) (fmul (cb_base_backoff b) p)))"

definition failure_detail :: "string \<Rightarrow> string" where
  "failure_detail error = (let d = py_take 500 (py_strip error) in if d = [] then ''unknown failure'' else d)"

text \<open>The bookkeeping of a failure before the state of the circuit is looked at.\<close>

definition note_failure :: "breaker \<Rightarrow> string \<Rightarrow> breaker" where
  "note_failure b error =
     (let detail = failure_detail error; history = cb_history b @ [detail];
          limit = nat (max 1 (cb_history_max b)) in
      b\<lparr>cb_last_error := Some detail, cb_successes := 0, cb_failures := cb_failures b + 1,
        cb_history := (if limit < length history then last_n limit history else history)\<rparr>)"

text \<open>The new attempt time, and the backoff or the exception of computing it.\<close>

definition schedule_attempt :: "breaker \<Rightarrow> pyfloat \<Rightarrow> breaker \<times> (py_exc + pyfloat)" where
  "schedule_attempt b timestamp =
     (case compute_backoff b of
        Inl e \<Rightarrow> (b, Inl e)
      | Inr backoff \<Rightarrow> (b\<lparr>cb_next_attempt_at := Some (fadd timestamp backoff)\<rparr>, Inr backoff))"

definition record_failure :: "breaker \<Rightarrow> string \<Rightarrow> pyfloat \<Rightarrow> breaker \<times> (py_exc + pyfloat)" where
  "record_failure b error timestamp =
     (let b' = note_failure b error in
      if cb_failure_threshold b' \<le> cb_failures b' then
        schedule_attempt
          (b'\<lparr>cb_state := Open, cb_opened_at := Some timestamp, cb_crash_loops := cb_crash_loops b' + 1\<rparr>) timestamp
      else if cb_state b' = HalfOpen then schedule_attempt (b'\<lparr>cb_state := Open\<rparr>) timestamp
      else (b', Inr (Fin 0)))"

definition allow_attempt :: "breaker \<Rightarrow> pyfloat \<Rightarrow> breaker \<times> bool" where
  "allow_attempt b timestamp =
     (if cb_max_crash_loops b \<le> cb_crash_loops b then (b, False)
      else if cb_state b = Closed then (b, True)
      else if cb_state b = HalfOpen then (b, True)
      else case cb_next_attempt_at b of
        None \<Rightarrow> (b, False)
      | Some t \<Rightarrow> if fle t timestamp then (b\<lparr>cb_state := HalfOpen, cb_successes := 0\<rparr>, True) else (b, False))"

definition cooldown_remaining :: "breaker \<Rightarrow> pyfloat \<Rightarrow> pyfloat" where
  "cooldown_remaining b timestamp =
     (case cb_next_attempt_at b of None \<Rightarrow> Fin 0 | Some t \<Rightarrow> fmax (Fin 0) (fsub t timestamp))"

definition breaker_dict :: "breaker \<Rightarrow> pyfloat \<Rightarrow> pyval" where
  "breaker_dict b now =
     (let tail = nat (min 5 (max 1 (cb_history_max b))) in
      PDict [(''state'', PStr (circuit_value (cb_state b))), (''consecutive_failures'', PInt (cb_failures b)),
        (''consecutive_successes'', PInt (cb_successes b)), (''crash_loops'', PInt (cb_crash_loops b)),
        (''next_attempt_at'', opt_float_val (cb_next_attempt_at b)),
        (''cooldown_remaining_sec'', PFloat (cooldown_remaining b now)),
        (''last_error'', opt_text_val (cb_last_error b)), (''history_max'', PInt (cb_history_max b)),
        (''history_tail'', PList (map PStr (last_n tail (cb_history b))))])"

subsection \<open>Runs of the breaker\<close>

text \<open>One call of a method that may change the breaker; a failure may raise after it did.\<close>

inductive breaker_step :: "breaker \<Rightarrow> breaker \<Rightarrow> bool" where
  Success: "breaker_step b (record_success b)"
| Failure: "breaker_step b (fst (record_failure b error t))"
| Attempt: "breaker_step b (fst (allow_attempt b t))"

inductive_cases breaker_stepE: "breaker_step b b'"

abbreviation breaker_reaches :: "breaker \<Rightarrow> breaker \<Rightarrow> bool" where
  "breaker_reaches \<equiv> breaker_step\<^sup>*\<^sup>*"

lemmas breaker_defs = record_success_def record_failure_def note_failure_def allow_attempt_def Let_def
  schedule_attempt_def

lemma schedule_attempt_fields [simp]:
  "cb_failure_threshold (fst (schedule_attempt b t)) = cb_failure_threshold b"
  "cb_max_crash_loops (fst (schedule_attempt b t)) = cb_max_crash_loops b"
  "cb_history_max (fst (schedule_attempt b t)) = cb_history_max b"
  "cb_history (fst (schedule_attempt b t)) = cb_history b"
  "cb_state (fst (schedule_attempt b t)) = cb_state b"
  "cb_failures (fst (schedule_attempt b t)) = cb_failures b"
  "cb_crash_loops (fst (schedule_attempt b t)) = cb_crash_loops b"
  by (simp_all add: schedule_attempt_def split: sum.splits)

lemma schedule_attempt_next:
  "cb_next_attempt_at (fst (schedule_attempt b t)) =
     (case compute_backoff b of Inl e \<Rightarrow> cb_next_attempt_at b | Inr d \<Rightarrow> Some (fadd t d))"
  by (simp add: schedule_attempt_def split: sum.splits)

lemma note_failure_fields [simp]:
  "cb_failure_threshold (note_failure b error) = cb_failure_threshold b"
  "cb_max_crash_loops (note_failure b error) = cb_max_crash_loops b"
  "cb_history_max (note_failure b error) = cb_history_max b" "cb_failures (note_failure b error) = cb_failures b + 1"
  "cb_state (note_failure b error) = cb_state b" "cb_crash_loops (note_failure b error) = cb_crash_loops b"
  "cb_next_attempt_at (note_failure b error) = cb_next_attempt_at b"
  by (simp_all add: note_failure_def Let_def)

subsection \<open>The backoff\<close>

lemma backoff_Inr:
  "compute_backoff b = Inr x \<longleftrightarrow> cb_failures b - cb_failure_threshold b < 1024
     \<and> x = fmin (cb_max_backoff b) (fmul (cb_base_backoff b) (Fin (pow2 (max 0 (cb_failures b - cb_failure_threshold b)))))"
  by (auto simp: compute_backoff_def math_pow2_def)

lemma backoff_Inl:
  "compute_backoff b = Inl e \<longleftrightarrow> e = PyOverflowError \<and> 1024 \<le> cb_failures b - cb_failure_threshold b"
  by (auto simp: compute_backoff_def math_pow2_def)

lemma fmin_mono: "fle x y \<Longrightarrow> m \<noteq> NaN \<Longrightarrow> fle (fmin m x) (fmin m y)"
  by (cases m; cases x; cases y) (auto simp: fmin_def)

lemma fmin_bound: "m \<noteq> NaN \<Longrightarrow> x \<noteq> NaN \<Longrightarrow> fle (fmin m x) m \<and> fle (fmin m x) x"
  by (cases m; cases x) (auto simp: fmin_def)

lemma fmul_pow2_mono: "0 \<le> r \<Longrightarrow> k \<le> l \<Longrightarrow> fle (fmul (Fin r) (Fin (pow2 k))) (fmul (Fin r) (Fin (pow2 l)))"
  by (simp add: round64_mono mult_left_mono)

subsection \<open>The invariant\<close>

text \<open>The runtime fields of a breaker that was just made.\<close>

definition fresh :: "breaker \<Rightarrow> bool" where
  "fresh b = (cb_state b = Closed \<and> cb_failures b = 0 \<and> cb_successes b = 0 \<and> cb_crash_loops b = 0
     \<and> cb_next_attempt_at b = None \<and> cb_history b = [])"

definition breaker_ok :: "breaker \<Rightarrow> bool" where
  "breaker_ok b = (1 \<le> cb_failure_threshold b \<and> 1 \<le> cb_max_crash_loops b
     \<and> length (cb_history b) \<le> nat (max 1 (cb_history_max b))
     \<and> 0 \<le> cb_failures b \<and> 0 \<le> cb_crash_loops b
     \<and> (cb_state b = Closed \<longrightarrow> cb_failures b < cb_failure_threshold b)
     \<and> (cb_state b \<noteq> Closed \<longrightarrow> cb_next_attempt_at b \<noteq> None)
     \<and> (cb_state b = HalfOpen \<longrightarrow> cb_crash_loops b < cb_max_crash_loops b))"

lemma success_ok: "breaker_ok b \<Longrightarrow> breaker_ok (record_success b)"
  by (auto simp: breaker_ok_def breaker_defs)

lemma attempt_ok: "breaker_ok b \<Longrightarrow> breaker_ok (fst (allow_attempt b t))"
  by (auto simp: breaker_ok_def breaker_defs split: option.splits)

lemma failure_ok:
  assumes "breaker_ok b"
  shows "breaker_ok (fst (record_failure b error t))"
proof -
  have h: "length (cb_history (note_failure b error)) \<le> nat (max 1 (cb_history_max b))"
    by (auto simp: note_failure_def Let_def)
  have k: "cb_next_attempt_at b = None \<Longrightarrow> cb_failures b + 1 - cb_failure_threshold b < 1024"
    using assms by (cases "cb_state b") (auto simp: breaker_ok_def)
  have later: "\<exists>y. cb_next_attempt_at (fst (schedule_attempt c t)) = Some y"
    if "cb_failures c = cb_failures b + 1" "cb_failure_threshold c = cb_failure_threshold b"
      "cb_next_attempt_at c = cb_next_attempt_at b" for c
    using that k by (cases "compute_backoff c"; cases "cb_next_attempt_at b") (auto simp: schedule_attempt_next backoff_Inl split: sum.splits)
  show ?thesis using assms h by (auto simp: record_failure_def Let_def breaker_ok_def later)
qed

interpretation breaker_run: step_invariant breaker_step breaker_ok
  by unfold_locales (auto elim!: breaker_stepE intro: success_ok failure_ok attempt_ok)

lemmas reaches_ok = breaker_run.reached

lemma fresh_ok: "fresh b \<Longrightarrow> 1 \<le> cb_failure_threshold b \<Longrightarrow> 1 \<le> cb_max_crash_loops b \<Longrightarrow> breaker_ok b"
  by (simp add: fresh_def breaker_ok_def)

subsection \<open>The crash-loop lock\<close>

definition locked :: "breaker \<Rightarrow> bool" where
  "locked b = (cb_max_crash_loops b \<le> cb_crash_loops b \<and> cb_state b \<noteq> HalfOpen)"

lemma locked_step: "breaker_step b b' \<Longrightarrow> locked b \<Longrightarrow> locked b'"
  by (erule breaker_stepE)
    (auto simp: locked_def breaker_defs split: sum.splits)

interpretation breaker_lock: step_invariant breaker_step locked
  by unfold_locales (rule locked_step)

lemmas locked_reaches = breaker_lock.reached

subsection \<open>Recovery\<close>

lemma successes_half_open:
  "cb_state b = HalfOpen \<Longrightarrow> cb_successes b + int n < cb_success_threshold b \<Longrightarrow>
     cb_state ((record_success ^^ n) b) = HalfOpen \<and> cb_successes ((record_success ^^ n) b) = cb_successes b + int n
     \<and> cb_success_threshold ((record_success ^^ n) b) = cb_success_threshold b"
  by (induction n) (auto simp: record_success_def Let_def)

end
