(* ===== verification/ControlClaims.thy ===== *)
theory ControlClaims
  imports Lifecycle Breaker
begin

text \<open>
  The properties of the model lifecycle machine and of the circuit breaker.
\<close>

subsection \<open>Lifecycle\<close>

text \<open>C30. In every state the machine can reach from its initial one the number of requests in flight is
  not negative, it is positive exactly in the phase \<open>BUSY\<close>, the phase \<open>DRAINING\<close> has the
  drain flag set, and a busy machine is never draining.\<close>

theorem lifecycle_invariant:
  assumes "fsm_reaches initial_snapshot s"
  shows "0 \<le> sn_in_flight s \<and> (sn_phase s = Busy \<longleftrightarrow> 0 < sn_in_flight s)
    \<and> (sn_phase s = Draining \<longrightarrow> sn_draining s) \<and> (sn_phase s = Busy \<longrightarrow> \<not> sn_draining s)"
  using fsm_reaches_counts [OF assms] by (simp add: counts_ok_def initial_snapshot_def)

definition sample_events :: "levent list" where
  "sample_events = [RequestLoad, LoadSucceeded, RequestInference, RequestInference, InferenceDone]"

lemma sample_events_run:
  "apply_all initial_snapshot sample_events = Inr (initial_snapshot\<lparr>sn_phase := Busy, sn_in_flight := 1\<rparr>)"
  by code_simp

lemma lifecycle_invariant_witness:
  "fsm_reaches initial_snapshot (initial_snapshot\<lparr>sn_phase := Busy, sn_in_flight := 1\<rparr>)
     \<and> \<not> sn_draining (initial_snapshot\<lparr>sn_phase := Busy, sn_in_flight := 1\<rparr>)"
  using lifecycle_invariant [OF apply_all_reaches [OF sample_events_run]] apply_all_reaches [OF sample_events_run] by simp

text \<open>Requests and completions cancel: from any state that accepts inference with no request in
  flight, \<open>n + 1\<close> requests followed by as many completions are all accepted and lead back to
  \<open>READY\<close> with nothing in flight and everything else unchanged.\<close>

theorem requests_roundtrip:
  assumes "can_accept_inference s" and "sn_in_flight s = 0"
  shows "apply_all s (replicate (Suc n) RequestInference @ replicate (Suc n) InferenceDone) = Inr (s\<lparr>sn_phase := Ready\<rparr>)"
proof -
  let ?t = "s\<lparr>sn_phase := Busy, sn_in_flight := sn_in_flight s + int (Suc n)\<rparr>"
  have "apply_all ?t (replicate (Suc n) InferenceDone) = Inr (?t\<lparr>sn_phase := Ready, sn_in_flight := 0\<rparr>)"
    by (rule requests_down) (use assms in \<open>simp_all add: can_accept_inference_def\<close>)
  then show ?thesis using requests_up [OF assms(1), of n] assms(2)
    by (simp add: apply_all_append del: replicate_Suc)
qed

lemma requests_roundtrip_witness:
  "apply_all (initial_snapshot\<lparr>sn_phase := Ready\<rparr>) (replicate 3 RequestInference @ replicate 3 InferenceDone)
     = Inr (initial_snapshot\<lparr>sn_phase := Ready\<rparr>)"
proof -
  have "can_accept_inference (initial_snapshot\<lparr>sn_phase := Ready\<rparr>)" "sn_in_flight (initial_snapshot\<lparr>sn_phase := Ready\<rparr>) = 0"
    by (simp_all add: can_accept_inference_def initial_snapshot_def)
  from requests_roundtrip [OF this, of 2] show ?thesis by (simp add: numeral_3_eq_3)
qed

text \<open>\<open>explain_transition\<close> agrees with \<open>apply\<close>: of an event other than the two request events
  it names the phase the machine enters, or \<open>illegal\<close> exactly when the event is rejected; of
  a new request it says \<open>illegal\<close> exactly when a machine that is not draining rejects it.\<close>

theorem explain_transition_agrees:
  assumes "\<not> sn_draining s"
  shows "(event \<noteq> RequestInference \<longrightarrow> event \<noteq> InferenceDone \<longrightarrow>
       explain_transition (sn_phase s) event = phase_value (sn_phase s) @ '' + '' @ event_value event @ arrow @
         (case apply_event s event None now of Inl _ \<Rightarrow> ''illegal'' | Inr s' \<Rightarrow> phase_value (sn_phase s')))
    \<and> (explain_transition (sn_phase s) RequestInference =
         phase_value (sn_phase s) @ '' + request_inference'' @ arrow @ ''illegal (inference not accepted)''
       \<longleftrightarrow> (\<exists>e. apply_event s RequestInference None now = Inl e))"
proof (intro conjI impI)
  assume e: "event \<noteq> RequestInference" "event \<noteq> InferenceDone"
  then have a: "apply_event s event None now = table_event s event None now" by (simp add: apply_event_def)
  have "\<exists>c. next_cooldown s event None now = Inr c" by (simp add: next_cooldown_def cooldown_seconds_def)
  then show "explain_transition (sn_phase s) event = phase_value (sn_phase s) @ '' + '' @ event_value event @ arrow @
         (case apply_event s event None now of Inl _ \<Rightarrow> ''illegal'' | Inr s' \<Rightarrow> phase_value (sn_phase s'))"
    using e by (auto simp: a explain_transition_def table_event_def split: option.split)
next
  show "explain_transition (sn_phase s) RequestInference =
         phase_value (sn_phase s) @ '' + request_inference'' @ arrow @ ''illegal (inference not accepted)''
       \<longleftrightarrow> (\<exists>e. apply_event s RequestInference None now = Inl e)"
    using assms by (auto simp: explain_transition_def apply_event_def request_inference_def can_accept_inference_def Let_def)
qed

lemma explain_transition_agrees_witness:
  "explain_transition Unloaded RequestLoad = ''unloaded + request_load'' @ arrow @ ''loading''"
  using explain_transition_agrees [of initial_snapshot RequestLoad None]
  by (simp add: initial_snapshot_def apply_event_def table_event_def transition_def transition_table_def next_cooldown_def)

text \<open>Without an event \<open>DRAIN_DONE\<close> the drain flag stays.\<close>

lemma drain_flag_stays:
  assumes "apply_event s e err now = Inr t" and "sn_draining s" and "e \<noteq> DrainDone"
  shows "sn_draining t"
  using assms table_event_Inr [of s e err now t]
  by (auto simp: apply_event_def request_inference_def inference_done_def Let_def bindE_Inr_iff split: if_splits)

lemma drain_flag_runs:
  "apply_all s es = Inr t \<Longrightarrow> sn_draining s \<Longrightarrow> DrainDone \<notin> set es \<Longrightarrow> sn_draining t"
proof (induction es arbitrary: s)
  case (Cons e es)
  then obtain u where u: "apply_event s e None None = Inr u" "apply_all u es = Inr t"
    by (auto simp: apply_all_Cons elim: bindE_InrE)
  have "sn_draining u" by (rule drain_flag_stays [OF u(1)]) (use Cons.prems in auto)
  then show ?case using Cons.IH [OF u(2)] Cons.prems(3) by simp
qed (simp add: apply_all_def)

lemma table_event_none:
  "transition (sn_phase s) e = Some q \<Longrightarrow>
     table_event s e None None = Inr \<lparr>sn_phase = q,
       sn_active_kind = (if q = Unloaded then None else sn_active_kind s),
       sn_active_model = (if q = Unloaded then None else sn_active_model s),
       sn_in_flight = (if q \<noteq> Busy then 0 else sn_in_flight s),
       sn_draining = (if e = RequestDrain then True else if e = DrainDone then False else sn_draining s),
       sn_last_error = next_error s e None,
       sn_cooldown_until = (if e \<in> {CooldownExpired, Reset} then None else sn_cooldown_until s)\<rparr>"
  by (auto simp: table_event_def next_cooldown_def)

text \<open>C31. A drain does not wait. In every state of phase \<open>READY\<close> or \<open>BUSY\<close>, whatever the number of
  requests in flight, a drain is accepted, sets that number to 0 and lets the machine be unloaded
  at once; after the unload the phase is \<open>UNLOADED\<close> and no model is bound; there a completion that
  arrives late is accepted and moves the machine from \<open>UNLOADED\<close> to \<open>DRAINING\<close>; and the drain flag
  outlives the unload: the model loaded next is \<open>READY\<close>, but neither there nor after any further
  events without \<open>DRAIN_DONE\<close> does the machine accept a request.\<close>

theorem drain_forgets:
  assumes "sn_phase s \<in> {Ready, Busy}"
  shows "\<exists>t u v w. apply_event s RequestDrain None None = Inr t \<and> sn_in_flight t = 0 \<and> can_unload t
    \<and> apply_all t [RequestUnload, UnloadSucceeded] = Inr u \<and> sn_phase u = Unloaded \<and> sn_active_model u = None
    \<and> apply_event u InferenceDone err now = Inr v \<and> sn_phase v = Draining
    \<and> apply_all u [RequestLoad, LoadSucceeded] = Inr w \<and> sn_phase w = Ready \<and> \<not> can_accept_inference w
    \<and> (\<forall>es x. apply_all w es = Inr x \<and> DrainDone \<notin> set es \<longrightarrow> \<not> can_accept_inference x)"
proof -
  let ?t = "s\<lparr>sn_phase := Draining, sn_in_flight := 0, sn_draining := True\<rparr>"
  let ?u = "?t\<lparr>sn_phase := Unloaded, sn_active_kind := None, sn_active_model := None\<rparr>"
  let ?w = "?u\<lparr>sn_phase := Ready\<rparr>"
  have tr: "transition Ready RequestDrain = Some Draining" "transition Busy RequestDrain = Some Draining"
    "transition Draining RequestUnload = Some Unloading" "transition Unloading UnloadSucceeded = Some Unloaded"
    "transition Unloaded RequestLoad = Some Loading" "transition Loading LoadSucceeded = Some Ready"
    by (simp_all add: transition_def transition_table_def)
  have t: "apply_event s RequestDrain None None = Inr ?t"
    using assms tr(1,2) by (auto simp: apply_event_def table_event_none next_error_def)
  have u: "apply_all ?t [RequestUnload, UnloadSucceeded] = Inr ?u"
    by (simp add: apply_all_def apply_event_def table_event_none tr next_error_def)
  have v: "apply_event ?u InferenceDone err now = Inr (?u\<lparr>sn_phase := Draining\<rparr>)"
    by (simp add: apply_event_def inference_done_def Let_def)
  have w: "apply_all ?u [RequestLoad, LoadSucceeded] = Inr ?w"
    by (simp add: apply_all_def apply_event_def table_event_none tr next_error_def)
  have n: "\<forall>es x. apply_all ?w es = Inr x \<and> DrainDone \<notin> set es \<longrightarrow> \<not> can_accept_inference x"
    using drain_flag_runs [of ?w] by (auto simp: can_accept_inference_def)
  have p: "sn_in_flight ?t = 0 \<and> can_unload ?t \<and> sn_phase ?u = Unloaded \<and> sn_active_model ?u = None
    \<and> sn_phase (?u\<lparr>sn_phase := Draining\<rparr>) = Draining \<and> sn_phase ?w = Ready \<and> \<not> can_accept_inference ?w"
    by (simp add: can_unload_def can_accept_inference_def)
  show ?thesis
    by (intro exI [of _ ?t] exI [of _ ?u] exI [of _ "?u\<lparr>sn_phase := Draining\<rparr>"] exI [of _ ?w] conjI t u v w n)
      (use p in blast)+
qed

lemma drain_forgets_witness:
  "\<exists>t. apply_event (initial_snapshot\<lparr>sn_phase := Busy, sn_in_flight := 2\<rparr>) RequestDrain None None = Inr t
     \<and> sn_in_flight t = 0 \<and> can_unload t"
proof -
  have "sn_phase (initial_snapshot\<lparr>sn_phase := Busy, sn_in_flight := 2\<rparr>) \<in> {Ready, Busy}" by simp
  from drain_forgets [OF this] show ?thesis by blast
qed

subsection \<open>Circuit breaker\<close>

text \<open>C34. The backoff of a breaker whose base backoff is a binary64 value of at least 0 and whose maximum
  is finite (the constructor checks neither): wherever it is computed without overflow, it lies
  between the smaller of base and maximum and the maximum, and of two counts of failures the
  larger never gives the smaller backoff.\<close>

theorem backoff_bounds:
  assumes "cb_base_backoff b = Fin r" and "0 \<le> r" and "representable r" and "cb_max_backoff b = Fin m"
    and "compute_backoff b = Inr x" and "cb_failures b \<le> n" and "compute_backoff (b\<lparr>cb_failures := n\<rparr>) = Inr y"
  shows "fle (Fin (min r m)) x \<and> fle x y \<and> fle y (Fin m)"
proof -
  define k l where k: "k = max 0 (cb_failures b - cb_failure_threshold b)" and l: "l = max 0 (n - cb_failure_threshold b)"
  have x: "x = fmin (Fin m) (fmul (Fin r) (Fin (pow2 k)))" and y: "y = fmin (Fin m) (fmul (Fin r) (Fin (pow2 l)))"
    using assms(1,4,5,7) by (simp_all add: backoff_Inr k l)
  have one: "fmul (Fin r) (Fin (pow2 0)) = Fin r" using assms(3) by (simp add: representable_def)
  have "fle (fmin (Fin m) (fmul (Fin r) (Fin (pow2 0)))) x" unfolding x
    by (intro fmin_mono fmul_pow2_mono assms) (simp_all add: k)
  then have "fle (fmin (Fin m) (Fin r)) x" by (simp only: one)
  then have "fle (Fin (min r m)) x" by (simp add: fmin_def min_def split: if_splits)
  moreover have "fle x y" unfolding x y
    by (intro fmin_mono fmul_pow2_mono assms) (use assms(6) in \<open>simp_all add: k l\<close>)
  moreover have "fle y (Fin m)" using fmin_bound [of "Fin m"] by (simp add: y)
  ultimately show ?thesis by blast
qed

lemma backoff_bounds_witness:
  "fle (Fin 2) (Fin 2) \<and> fle (Fin 2) (Fin 8) \<and> fle (Fin 8) (Fin 120)"
proof -
  have r: "representable 2" by (simp add: representable_def)
  have x: "compute_backoff default_breaker = Inr (Fin 2)" by code_simp
  have y: "compute_backoff (default_breaker\<lparr>cb_failures := 5\<rparr>) = Inr (Fin 8)" by code_simp
  show ?thesis using backoff_bounds [OF _ _ r _ x _ y, of 120] by (simp add: default_breaker_def)
qed

text \<open>C35. When recording a failure raises: exactly when the failures exceed the threshold by 1024 or
  more (\<open>math.pow\<close> overflows), and the circuit is then left open with the attempt time of an
  earlier failure.\<close>

theorem record_failure_overflow:
  "(snd (record_failure b error t) = Inl e \<longleftrightarrow>
      e = PyOverflowError \<and> 1024 \<le> cb_failures b + 1 - cb_failure_threshold b)
   \<and> (1024 \<le> cb_failures b + 1 - cb_failure_threshold b \<longrightarrow>
        cb_state (fst (record_failure b error t)) = Open
        \<and> cb_next_attempt_at (fst (record_failure b error t)) = cb_next_attempt_at b)"
proof -
  have s: "snd (schedule_attempt c t) = Inl e \<longleftrightarrow> e = PyOverflowError \<and> 1024 \<le> cb_failures c - cb_failure_threshold c" for c
    by (auto simp: schedule_attempt_def backoff_Inl backoff_Inr split: sum.splits)
  have "cb_next_attempt_at (fst (schedule_attempt c t)) = cb_next_attempt_at c"
    if "1024 \<le> cb_failures c - cb_failure_threshold c" for c
    using that by (simp add: schedule_attempt_next compute_backoff_def math_pow2_def)
  then show ?thesis using s by (auto simp: record_failure_def Let_def)
qed

lemma record_failure_overflow_witness:
  "snd (record_failure (default_breaker\<lparr>cb_failures := 1026, cb_next_attempt_at := Some (Fin 9)\<rparr>) ''x'' (Fin 50))
     = Inl PyOverflowError
   \<and> cb_next_attempt_at (fst (record_failure (default_breaker\<lparr>cb_failures := 1026, cb_next_attempt_at := Some (Fin 9)\<rparr>)
       ''x'' (Fin 50))) = Some (Fin 9)"
  using record_failure_overflow [of "default_breaker\<lparr>cb_failures := 1026, cb_next_attempt_at := Some (Fin 9)\<rparr>" "''x''"
      "Fin 50" PyOverflowError] by (simp add: default_breaker_def)

text \<open>C32. After a failure that opens the circuit with backoff \<open>d\<close> an attempt is allowed exactly from
  \<open>t + d\<close> on, and only while the crash loops stay below their maximum; the attempt that is
  allowed moves the circuit to half open, a refused one changes nothing.\<close>

theorem open_circuit_gate:
  assumes "record_failure b error t = (b', Inr d)" and "cb_state b' = Open" and "cb_state b \<noteq> Open"
  shows "allow_attempt b' t' =
    (if cb_crash_loops b' < cb_max_crash_loops b' \<and> fle (fadd t d) t'
     then (b'\<lparr>cb_state := HalfOpen, cb_successes := 0\<rparr>, True) else (b', False))"
proof -
  have "cb_next_attempt_at b' = Some (fadd t d)"
    using assms by (auto simp: record_failure_def schedule_attempt_def Let_def split: if_splits sum.splits)
  then show ?thesis using assms(2) by (auto simp: allow_attempt_def)
qed

lemma open_circuit_gate_witness:
  "allow_attempt (fst (record_failure (default_breaker\<lparr>cb_failures := 2\<rparr>) ''x'' (Fin 50))) (Fin 51)
     = (fst (record_failure (default_breaker\<lparr>cb_failures := 2\<rparr>) ''x'' (Fin 50)), False)"
proof -
  let ?b = "default_breaker\<lparr>cb_failures := 2\<rparr>"
  have r: "record_failure ?b ''x'' (Fin 50) = (fst (record_failure ?b ''x'' (Fin 50)), Inr (Fin 2))"
    and o: "cb_state (fst (record_failure ?b ''x'' (Fin 50))) = Open" "cb_state ?b \<noteq> Open"
    by (simp_all add: record_failure_def default_breaker_def schedule_attempt_def note_failure_def compute_backoff_def
        math_pow2_def Let_def fmin_def)
  show ?thesis using open_circuit_gate [OF r o, of "Fin 51"] by simp
qed

text \<open>C33. In every state that a new breaker can reach by successes, failures and attempts, when it was
  configured with a failure threshold and a crash-loop limit of at least 1 (the constructor checks
  neither): the history keeps at most the configured number of failures (and at most one, where
  that number is below 1), a closed circuit has fewer failures than the threshold, a circuit that
  is not closed has a time of the next attempt, and a half-open one is below the crash-loop limit.\<close>

theorem breaker_invariant:
  assumes "fresh b" and "1 \<le> cb_failure_threshold b" and "1 \<le> cb_max_crash_loops b" and "breaker_reaches b b'"
  shows "length (cb_history b') \<le> nat (max 1 (cb_history_max b')) \<and> 0 \<le> cb_failures b'
    \<and> (cb_state b' = Closed \<longrightarrow> cb_failures b' < cb_failure_threshold b')
    \<and> (cb_state b' \<noteq> Closed \<longrightarrow> (\<exists>t. cb_next_attempt_at b' = Some t))
    \<and> (cb_state b' = HalfOpen \<longrightarrow> cb_crash_loops b' < cb_max_crash_loops b')"
  using reaches_ok [OF assms(4) fresh_ok [OF assms(1-3)]] by (simp add: breaker_ok_def)

lemma breaker_invariant_witness:
  "cb_failures (fst (record_failure default_breaker ''x'' (Fin 1))) < 3"
proof -
  have f: "fresh default_breaker" "1 \<le> cb_failure_threshold default_breaker" "1 \<le> cb_max_crash_loops default_breaker"
    by (simp_all add: fresh_def default_breaker_def)
  have "breaker_reaches default_breaker (fst (record_failure default_breaker ''x'' (Fin 1)))"
    by (rule r_into_rtranclp, rule breaker_step.Failure)
  moreover have "cb_state (fst (record_failure default_breaker ''x'' (Fin 1))) = Closed"
    "cb_failure_threshold (fst (record_failure default_breaker ''x'' (Fin 1))) = 3"
    by (simp_all add: record_failure_def default_breaker_def note_failure_def Let_def)
  ultimately show ?thesis using breaker_invariant [OF f] by metis
qed

text \<open>A breaker that has used up its crash loops never allows an attempt again: no sequence of
  successes, failures and attempts, at whatever times, leads out of that state.\<close>

theorem crash_loop_lock:
  assumes "fresh b" and "1 \<le> cb_failure_threshold b" and "1 \<le> cb_max_crash_loops b" and "breaker_reaches b b'"
    and "cb_max_crash_loops b' \<le> cb_crash_loops b'" and "breaker_reaches b' b''"
  shows "\<not> snd (allow_attempt b'' t)"
proof -
  have "breaker_ok b'" using reaches_ok [OF assms(4) fresh_ok [OF assms(1-3)]] .
  then have "locked b'" using assms(5) by (auto simp: locked_def breaker_ok_def)
  then have "locked b''" by (rule locked_reaches [OF assms(6)])
  then show ?thesis by (simp add: locked_def allow_attempt_def)
qed

definition sample_locked :: breaker where
  "sample_locked = fst (record_failure (default_breaker\<lparr>cb_failure_threshold := 1, cb_max_crash_loops := 1\<rparr>) ''x'' (Fin 0))"

lemma crash_loop_lock_witness:
  "\<not> snd (allow_attempt (record_success sample_locked) (Fin 1000000))"
proof -
  let ?b = "default_breaker\<lparr>cb_failure_threshold := 1, cb_max_crash_loops := 1\<rparr>"
  have f: "fresh ?b" "1 \<le> cb_failure_threshold ?b" "1 \<le> cb_max_crash_loops ?b"
    by (simp_all add: fresh_def default_breaker_def)
  have r: "breaker_reaches ?b sample_locked" unfolding sample_locked_def
    by (rule r_into_rtranclp, rule breaker_step.Failure)
  have l: "cb_max_crash_loops sample_locked \<le> cb_crash_loops sample_locked"
    by (simp add: sample_locked_def record_failure_def default_breaker_def schedule_attempt_def note_failure_def
        compute_backoff_def math_pow2_def Let_def)
  have "breaker_reaches sample_locked (record_success sample_locked)"
    by (rule r_into_rtranclp, rule breaker_step.Success)
  then show ?thesis by (rule crash_loop_lock [OF f r l])
qed

text \<open>Recovery: from an open circuit below the crash-loop limit, an attempt at or after the next
  attempt time followed by as many successes as the threshold asks for closes the circuit
  and clears its failures, its crash loops and its attempt time.\<close>

theorem breaker_recovers:
  assumes "cb_state b = Open" and "cb_crash_loops b < cb_max_crash_loops b" and "cb_next_attempt_at b = Some a"
    and "fle a t" and "cb_success_threshold b = int (Suc n)"
  shows "snd (allow_attempt b t)
    \<and> cb_state ((record_success ^^ Suc n) (fst (allow_attempt b t))) = Closed
    \<and> cb_failures ((record_success ^^ Suc n) (fst (allow_attempt b t))) = 0
    \<and> cb_crash_loops ((record_success ^^ Suc n) (fst (allow_attempt b t))) = 0
    \<and> cb_next_attempt_at ((record_success ^^ Suc n) (fst (allow_attempt b t))) = None"
proof -
  let ?h = "b\<lparr>cb_state := HalfOpen, cb_successes := 0\<rparr>"
  have a: "allow_attempt b t = (?h, True)" using assms by (simp add: allow_attempt_def)
  have "cb_state ((record_success ^^ n) ?h) = HalfOpen" "cb_successes ((record_success ^^ n) ?h) = int n"
    "cb_success_threshold ((record_success ^^ n) ?h) = int (Suc n)"
    using successes_half_open [of ?h n] assms(5) by simp_all
  then show ?thesis by (simp add: a record_success_def [of "(record_success ^^ n) ?h"] Let_def)
qed

lemma breaker_recovers_witness:
  "cb_state ((record_success ^^ 1) (fst (allow_attempt (default_breaker\<lparr>cb_state := Open, cb_next_attempt_at := Some (Fin 9)\<rparr>)
     (Fin 10)))) = Closed"
  using breaker_recovers [of "default_breaker\<lparr>cb_state := Open, cb_next_attempt_at := Some (Fin 9)\<rparr>" "Fin 9" "Fin 10" 0]
  by (simp add: default_breaker_def)

end
