(* ===== verification/Governor.thy ===== *)
theory Governor
  imports PyText NavGrid
begin

text \<open>
  The resource governor (\<open>resource_governor.py\<close>): the readers of the \<open>memory_pressure\<close>
  and \<open>vm_stat\<close> reports, the pressure levels, and \<open>evaluate\<close>, which decides what heavy
  models stay loaded and when one is restored. Texts are matched on their code points;
  \<open>\d\<close> reads ASCII digits. The clock reading is an argument.
\<close>

section \<open>Matching on code points\<close>

definition codes :: "string \<Rightarrow> nat list" where
  "codes s = map of_char s"

text \<open>Case folding of a pattern letter under \<open>re.IGNORECASE\<close>: \<open>i\<close> also matches the two
  dotted and dotless letters, \<open>s\<close> the long s.\<close>

definition fold_case :: "nat \<Rightarrow> nat" where
  "fold_case c = (if 65 \<le> c \<and> c \<le> 90 then c + 32 else if c = 304 \<or> c = 305 then 105
                  else if c = 383 then 115 else c)"

fun drop_word :: "nat list \<Rightarrow> nat list \<Rightarrow> nat list option" where
  "drop_word [] t = Some t"
| "drop_word (p # ps) [] = None"
| "drop_word (p # ps) (c # cs) = (if fold_case c = p then drop_word ps cs else None)"

definition skip_spaces1 :: "nat list \<Rightarrow> nat list option" where
  "skip_spaces1 t = (case t of c # cs \<Rightarrow> if py_space c then Some (dropWhile py_space cs) else None | [] \<Rightarrow> None)"

definition digit_code :: "nat \<Rightarrow> bool" where
  "digit_code c = (48 \<le> c \<and> c \<le> 57)"

fun re_search :: "(nat list \<Rightarrow> 'a option) \<Rightarrow> nat list \<Rightarrow> 'a option" where
  "re_search f [] = f []"
| "re_search f (c # cs) = (case f (c # cs) of Some v \<Rightarrow> Some v | None \<Rightarrow> re_search f cs)"

text \<open>\<open>_to_int\<close>; \<open>int\<close> refuses more than 4300 digits.\<close>

definition to_int :: "nat list \<Rightarrow> int option" where
  "to_int v =
     (let clean = strip_list py_space (filter (\<lambda>c. c \<noteq> 44) v) in
      if clean = [] \<or> 4300 < length (filter digit_code clean) then None
      else case int_of_str (map char_of clean) of Inl _ \<Rightarrow> None | Inr n \<Rightarrow> Some n)"

section \<open>The two reports\<close>

record memory_pressure =
  mp_free_percent :: "int option"
  mp_raw :: string

record vm_stat =
  vs_page_size :: "int option"
  vs_swapins :: "int option"
  vs_swapouts :: "int option"
  vs_free_pages :: "int option"
  vs_raw :: string

datatype level = Normal | Warning | Critical | Unknown

fun level_value :: "level \<Rightarrow> string" where
  "level_value Normal = ''normal''"
| "level_value Warning = ''warning''"
| "level_value Critical = ''critical''"
| "level_value Unknown = ''unknown''"

definition percent_at :: "nat list \<Rightarrow> nat list option" where
  "percent_at t =
     Option.bind (drop_word (codes ''memory'') t) (\<lambda>a.
     Option.bind (skip_spaces1 a) (\<lambda>b.
     Option.bind (drop_word (codes ''free'') b) (\<lambda>c.
     Option.bind (skip_spaces1 c) (\<lambda>d.
     Option.bind (drop_word (codes ''percentage:'') d) (\<lambda>e.
     let r = dropWhile py_space e; ds = takeWhile digit_code r;
         after = dropWhile py_space (dropWhile digit_code r) in
     if 1 \<le> length ds \<and> length ds \<le> 3 \<and> take 1 after = codes ''%'' then Some ds else None)))))"

definition parse_memory_pressure_output :: "string option \<Rightarrow> memory_pressure" where
  "parse_memory_pressure_output out =
     (let raw = py_strip (case out of None \<Rightarrow> [] | Some s \<Rightarrow> s) in
      \<lparr>mp_free_percent =
         (if raw = [] then None
          else case re_search percent_at (utf8_decode raw) of
            None \<Rightarrow> None
          | Some ds \<Rightarrow> map_option (\<lambda>v. max 0 (min 100 v)) (to_int ds)),
       mp_raw = raw\<rparr>)"

definition page_size_at :: "nat list \<Rightarrow> nat list option" where
  "page_size_at t =
     Option.bind (drop_word (codes ''page size of'') t) (\<lambda>a.
     Option.bind (skip_spaces1 a) (\<lambda>b.
     let ds = takeWhile digit_code b in
     if ds = [] then None
     else Option.bind (skip_spaces1 (dropWhile digit_code b)) (\<lambda>c.
          map_option (\<lambda>_. ds) (drop_word (codes ''bytes'') c))))"

text \<open>\<open>_VMSTAT_VALUE_RE.match\<close>: the name before the first colon and the digits after it.\<close>

definition value_line :: "nat list \<Rightarrow> (nat list \<times> nat list) option" where
  "value_line line =
     (let name = takeWhile (\<lambda>c. c \<noteq> 58) line; rest = dropWhile (\<lambda>c. c \<noteq> 58) line;
          r = dropWhile py_space (tl rest);
          digits = takeWhile (\<lambda>c. digit_code c \<or> c = 44) r;
          u = dropWhile (\<lambda>c. digit_code c \<or> c = 44) r;
          after = (case u of c # cs \<Rightarrow> if c = 46 then cs else u | [] \<Rightarrow> []) in
      if name \<noteq> [] \<and> rest \<noteq> [] \<and> digits \<noteq> [] \<and> list_all py_space after then Some (name, digits) else None)"

lemma split_words_less [termination_simp]:
  assumes "dropWhile P t = c # cs"
  shows "length (dropWhile Q cs) < length t"
proof -
  have "Suc (length cs) \<le> length t" using assms length_dropWhile_le [of P t] by simp
  then show ?thesis using length_dropWhile_le [of Q cs] by linarith
qed

fun split_words :: "nat list \<Rightarrow> nat list list" where
  "split_words t =
     (case dropWhile py_space t of
        [] \<Rightarrow> []
      | c # cs \<Rightarrow> (c # takeWhile (Not \<circ> py_space) cs) # split_words (dropWhile (Not \<circ> py_space) cs))"

text \<open>\<open>_normalize_vm_stat_name\<close>: quotes removed, blanks collapsed, ASCII letters lowered.\<close>

definition lower_code :: "nat \<Rightarrow> nat" where
  "lower_code c = (if 65 \<le> c \<and> c \<le> 90 then c + 32 else c)"

fun join_codes :: "nat list list \<Rightarrow> nat list" where
  "join_codes [] = []"
| "join_codes [w] = w"
| "join_codes (w # v # ws) = w @ 32 # join_codes (v # ws)"

definition normalize_vm_stat_name :: "nat list \<Rightarrow> nat list" where
  "normalize_vm_stat_name name =
     map lower_code (join_codes (split_words (filter (\<lambda>c. c \<noteq> 34 \<and> c \<noteq> 39) (strip_list py_space name))))"

text \<open>\<open>str.splitlines\<close>.\<close>

definition line_break :: "nat \<Rightarrow> bool" where
  "line_break c = ((10 \<le> c \<and> c \<le> 13) \<or> (28 \<le> c \<and> c \<le> 30) \<or> c = 133 \<or> c = 8232 \<or> c = 8233)"

definition after_break :: "nat list \<Rightarrow> nat list" where
  "after_break t = (case t of [] \<Rightarrow> [] | c # cs \<Rightarrow> if c = 13 \<and> take 1 cs = [10] then tl cs else cs)"

lemma after_break_less [termination_simp]: "t \<noteq> [] \<Longrightarrow> length (after_break (dropWhile P t)) < length t"
proof -
  assume t: "t \<noteq> []"
  have d: "length (dropWhile P t) \<le> length t" by (rule length_dropWhile_le)
  show ?thesis
    using t d by (auto simp: after_break_def split: list.splits)
qed

fun split_lines :: "nat list \<Rightarrow> nat list list" where
  "split_lines t =
     (if t = [] then []
      else takeWhile (Not \<circ> line_break) t # split_lines (after_break (dropWhile (Not \<circ> line_break) t)))"

text \<open>One line of the \<open>vm_stat\<close> report; the states of the fields are overwritten by later lines.\<close>

definition starts_with_codes :: "nat list \<Rightarrow> nat list \<Rightarrow> bool" where
  "starts_with_codes s p = (take (length p) s = p)"

definition note_value :: "vm_stat \<Rightarrow> nat list \<Rightarrow> int \<Rightarrow> vm_stat" where
  "note_value st name value =
     (if starts_with_codes name (codes ''swapins'') then st\<lparr>vs_swapins := Some value\<rparr>
      else if starts_with_codes name (codes ''swapouts'') then st\<lparr>vs_swapouts := Some value\<rparr>
      else if name = codes ''pages free'' then st\<lparr>vs_free_pages := Some value\<rparr>
      else st)"

definition vm_stat_line :: "vm_stat \<Rightarrow> nat list \<Rightarrow> vm_stat" where
  "vm_stat_line st line =
     (let st' = (case re_search page_size_at line of None \<Rightarrow> st | Some ds \<Rightarrow> st\<lparr>vs_page_size := to_int ds\<rparr>) in
      case value_line line of
        None \<Rightarrow> st'
      | Some (name, digits) \<Rightarrow>
          (case to_int digits of None \<Rightarrow> st' | Some v \<Rightarrow> note_value st' (normalize_vm_stat_name name) v))"

definition parse_vm_stat_output :: "string option \<Rightarrow> vm_stat" where
  "parse_vm_stat_output out =
     (let raw = py_strip (case out of None \<Rightarrow> [] | Some s \<Rightarrow> s) in
      foldl vm_stat_line
        \<lparr>vs_page_size = None, vs_swapins = None, vs_swapouts = None, vs_free_pages = None, vs_raw = raw\<rparr>
        (split_lines (utf8_decode raw)))"

section \<open>The governor\<close>

record governor =
  gv_warning_percent :: int
  gv_critical_percent :: int
  gv_warning_swap :: int
  gv_critical_swap :: int
  gv_restore_cooldown :: pyfloat
  gv_heavy_models :: "string list"
  gv_restore_after :: "pyfloat option"
  gv_last_vm_stat :: "vm_stat option"

record decision =
  de_pressure_level :: level
  de_effective_level :: level
  de_gates :: "string list"
  de_free_percent :: "int option"
  de_swap_delta :: "int option"
  de_loaded :: "string list"
  de_unload :: "string list"
  de_restore :: "string option"
  de_cooldown_remaining :: "pyfloat option"
  de_one_heavy :: bool

definition governor_models :: "string option list \<Rightarrow> string list" where
  "governor_models models = fromkeys (filter (\<lambda>m. m \<noteq> []) (map py_strip (concat (map (case_option [] (\<lambda>m. [m])) models))))"

definition make_governor ::
  "string option list \<Rightarrow> int \<Rightarrow> int \<Rightarrow> int \<Rightarrow> int \<Rightarrow> pyfloat \<Rightarrow> py_exc + governor" where
  "make_governor models warning critical warning_swap critical_swap cooldown =
     bindE (guardE (0 \<le> critical \<and> critical < warning \<and> warning \<le> 100) PyValueError) (\<lambda>_.
     bindE (guardE (\<not> (warning_swap < 0 \<or> critical_swap < 0)) PyValueError) (\<lambda>_.
     bindE (guardE (\<not> critical_swap < warning_swap) PyValueError) (\<lambda>_.
     bindE (guardE (\<not> flt cooldown (Fin 0)) PyValueError) (\<lambda>_.
     Inr \<lparr>gv_warning_percent = warning, gv_critical_percent = critical,
          gv_warning_swap = warning_swap, gv_critical_swap = critical_swap,
          gv_restore_cooldown = cooldown, gv_heavy_models = governor_models models,
          gv_restore_after = None, gv_last_vm_stat = None\<rparr>))))"

definition preferred_heavy_model :: "governor \<Rightarrow> string option" where
  "preferred_heavy_model g = (case gv_heavy_models g of [] \<Rightarrow> None | m # _ \<Rightarrow> Some m)"

definition classify_percent :: "int \<Rightarrow> int \<Rightarrow> int option \<Rightarrow> level" where
  "classify_percent warning critical free =
     (case free of None \<Rightarrow> Unknown
      | Some p \<Rightarrow> if p < critical then Critical else if p < warning then Warning else Normal)"

text \<open>\<open>_ordered_loaded\<close>: the configured models first, in their order, then the others.\<close>

definition normalized_loaded :: "string list \<Rightarrow> string list" where
  "normalized_loaded loaded = fromkeys (filter (\<lambda>m. m \<noteq> []) (map py_strip loaded))"

fun take_models :: "string list \<Rightarrow> string list \<Rightarrow> string list \<times> string list" where
  "take_models pending [] = ([], pending)"
| "take_models pending (m # ms) =
     (if m \<in> set pending
      then (case take_models (filter (\<lambda>x. x \<noteq> m) pending) ms of (out, rest) \<Rightarrow> (m # out, rest))
      else take_models pending ms)"

definition ordered_loaded :: "string list \<Rightarrow> string list \<Rightarrow> string list" where
  "ordered_loaded heavy loaded =
     (let normalized = normalized_loaded loaded;
          (first, pending) = take_models normalized heavy;
          (others, _) = take_models pending normalized in
      first @ others)"

definition or_int :: "int option \<Rightarrow> int option \<Rightarrow> int \<Rightarrow> int" where
  "or_int a b d = (case a of Some n \<Rightarrow> if n \<noteq> 0 then n else (case b of Some m \<Rightarrow> if m \<noteq> 0 then m else d | None \<Rightarrow> d)
     | None \<Rightarrow> (case b of Some m \<Rightarrow> if m \<noteq> 0 then m else d | None \<Rightarrow> d))"

definition compute_swap_delta :: "vm_stat option \<Rightarrow> vm_stat \<Rightarrow> int option" where
  "compute_swap_delta previous current =
     (case previous of None \<Rightarrow> None
      | Some p \<Rightarrow>
          (case (vs_swapouts current, vs_swapouts p) of
             (Some c_out, Some p_out) \<Rightarrow>
               let page_size = or_int (vs_page_size current) (vs_page_size p) 4096 in
               if page_size \<le> 0 then None
               else (case (vs_swapins current, vs_swapins p) of
                  (Some c_in, Some p_in) \<Rightarrow> Some ((max 0 (c_out - p_out) + max 0 (c_in - p_in)) * page_size)
                | _ \<Rightarrow> Some (max 0 (c_out - p_out) * page_size))
           | _ \<Rightarrow> None))"

definition effective_level :: "governor \<Rightarrow> level \<Rightarrow> int option \<Rightarrow> level \<times> string list" where
  "effective_level g pressure delta =
     (let at_least = (\<lambda>t. case delta of None \<Rightarrow> False | Some d \<Rightarrow> t \<le> d);
          swap_warning = at_least (gv_warning_swap g) in
      if at_least (gv_critical_swap g) then (Critical, [''swap_delta_critical''])
      else
        let gates = (if swap_warning then [''swap_delta_warning''] else [])
                    @ (if pressure = Warning \<or> pressure = Critical
                       then [''memory_pressure_'' @ level_value pressure] else []) in
        if swap_warning then (Warning, gates)
        else if pressure = Warning \<or> pressure = Unknown then (Warning, gates)
        else if pressure = Critical then (Critical, gates)
        else (Normal, gates))"

text \<open>\<open>evaluate\<close> after the reports are parsed: the models kept and unloaded, then the
  restoration state.\<close>

definition settle_restore ::
  "governor \<Rightarrow> level \<Rightarrow> string list \<Rightarrow> pyfloat \<Rightarrow> pyfloat option
     \<Rightarrow> string option \<times> pyfloat option \<times> pyfloat option" where
  "settle_restore g effective loaded_after timestamp restore_after =
     (case (effective = Normal, restore_after) of
        (True, Some t) \<Rightarrow>
          if fle t timestamp
          then (if loaded_after = [] then preferred_heavy_model g else None, None, None)
          else let remaining = fsub t timestamp in
               (None, Some (if flt (Fin 0) remaining then remaining else Fin 0), Some t)
      | _ \<Rightarrow> (None, None, restore_after))"

definition evaluate ::
  "governor \<Rightarrow> string option \<Rightarrow> string option \<Rightarrow> string list \<Rightarrow> pyfloat \<Rightarrow> governor \<times> decision" where
  "evaluate g pressure_output vm_output loaded_models timestamp =
     (let pressure = parse_memory_pressure_output pressure_output;
          vm = parse_vm_stat_output vm_output;
          delta = compute_swap_delta (gv_last_vm_stat g) vm;
          plevel = classify_percent (gv_warning_percent g) (gv_critical_percent g) (mp_free_percent pressure);
          (effective, gates0) = effective_level g plevel delta;
          loaded = ordered_loaded (gv_heavy_models g) loaded_models;
          allowed = (if effective = Normal \<or> effective = Warning then 1 else 0);
          over = (allowed < length loaded);
          unload = (if over then drop allowed loaded else []);
          kept = (if over then take allowed loaded else loaded);
          gates = (if over then gates0 @ [''one_heavy_model_invariant''] else gates0);
          after0 = (if over \<and> effective = Critical then Some (fadd timestamp (gv_restore_cooldown g))
                    else gv_restore_after g);
          (restore, remaining, after1) = settle_restore g effective kept timestamp after0;
          after2 = (if effective \<noteq> Normal then (if kept \<noteq> [] then None else after1) else after1);
          after3 = (if kept \<noteq> [] then None else after2) in
      (g\<lparr>gv_restore_after := after3, gv_last_vm_stat := Some vm\<rparr>,
       \<lparr>de_pressure_level = plevel, de_effective_level = effective, de_gates = gates,
        de_free_percent = mp_free_percent pressure, de_swap_delta = delta,
        de_loaded = kept, de_unload = unload, de_restore = restore,
        de_cooldown_remaining = remaining, de_one_heavy = (length kept \<le> 1)\<rparr>))"

section \<open>What the governor guarantees\<close>

definition governor_ok :: "governor \<Rightarrow> bool" where
  "governor_ok g = (distinct (gv_heavy_models g) \<and> [] \<notin> set (gv_heavy_models g)
     \<and> 0 \<le> gv_critical_percent g \<and> gv_critical_percent g < gv_warning_percent g \<and> gv_warning_percent g \<le> 100
     \<and> 0 \<le> gv_warning_swap g \<and> gv_warning_swap g \<le> gv_critical_swap g
     \<and> \<not> flt (gv_restore_cooldown g) (Fin 0))"

lemma make_governor_ok: "make_governor models w c ws cs cool = Inr g \<Longrightarrow> governor_ok g"
  by (auto simp: make_governor_def governor_ok_def governor_models_def bindE_Inr_iff guardE_Inr_iff)

lemma evaluate_config:
  assumes "evaluate g mp vm loaded now = (g', d)"
  shows "gv_heavy_models g' = gv_heavy_models g" and "gv_restore_cooldown g' = gv_restore_cooldown g"
    and "governor_ok g' = governor_ok g"
  using assms by (auto simp: evaluate_def governor_ok_def Let_def split: prod.splits)

lemma take_models_distinct:
  "distinct ms \<Longrightarrow> take_models pending ms = (filter (\<lambda>m. m \<in> set pending) ms, filter (\<lambda>x. x \<notin> set ms) pending)"
proof (induction ms arbitrary: pending)
  case (Cons m ms)
  then show ?case by (auto simp: conj_commute intro!: filter_cong)
qed simp

lemma ordered_loaded_eq:
  assumes "distinct heavy"
  shows "ordered_loaded heavy loaded =
     filter (\<lambda>m. m \<in> set (normalized_loaded loaded)) heavy @ filter (\<lambda>m. m \<notin> set heavy) (normalized_loaded loaded)"
proof -
  have "distinct (normalized_loaded loaded)" by (simp add: normalized_loaded_def)
  then show ?thesis
    using assms by (auto simp: ordered_loaded_def take_models_distinct Let_def intro!: filter_cong)
qed

lemma effective_levelD:
  assumes "effective_level g p delta = (l, gates)"
  shows "l \<noteq> Unknown" and "''one_heavy_model_invariant'' \<notin> set gates"
  using assms by (cases p; auto simp: effective_level_def Let_def split: if_splits)+

lemma evaluate_loaded:
  assumes "evaluate g mp vm loaded now = (g', d)"
  shows "de_loaded d @ de_unload d = ordered_loaded (gv_heavy_models g) loaded"
    and "length (de_loaded d) \<le> 1" and "de_one_heavy d"
    and "de_effective_level d = Critical \<Longrightarrow> de_loaded d = []"
    and "de_effective_level d \<noteq> Unknown"
    and "de_effective_level d = fst (effective_level g (de_pressure_level d) (de_swap_delta d))"
    and "(de_unload d \<noteq> []) = (''one_heavy_model_invariant'' \<in> set (de_gates d))"
proof -
  note e = assms [unfolded evaluate_def Let_def, symmetric]
  show "de_loaded d @ de_unload d = ordered_loaded (gv_heavy_models g) loaded"
    using e by (auto split: prod.splits if_splits)
  show "length (de_loaded d) \<le> 1" "de_one_heavy d" "de_effective_level d = Critical \<Longrightarrow> de_loaded d = []"
    using e by (auto split: prod.splits if_splits)
  show "de_effective_level d \<noteq> Unknown"
    "de_effective_level d = fst (effective_level g (de_pressure_level d) (de_swap_delta d))"
    using e by (auto split: prod.splits if_splits dest: effective_levelD)
  show "(de_unload d \<noteq> []) = (''one_heavy_model_invariant'' \<in> set (de_gates d))"
    using e by (auto split: prod.splits if_splits dest: effective_levelD)
qed

text \<open>Restoration: what the pending restore time says, and what restoring a model needs.\<close>

lemma settle_restoreD:
  assumes "settle_restore g l kept now after = (restore, remaining, after')"
  shows "restore = Some m \<Longrightarrow> l = Normal \<and> kept = [] \<and> preferred_heavy_model g = Some m
           \<and> after' = None \<and> (\<exists>t. after = Some t \<and> fle t now)"
    and "after' = Some t \<Longrightarrow> after = Some t"
    and "remaining = Some r \<Longrightarrow> \<exists>t. after = Some t \<and> after' = Some t \<and> \<not> fle t now"
  using assms by (auto simp: settle_restore_def Let_def split: option.splits if_splits bool.splits)

lemma evaluate_restore:
  assumes "evaluate g mp vm loaded now = (g', d)"
  shows "gv_restore_after g' = Some t \<Longrightarrow> de_loaded d = [] \<and>
      (gv_restore_after g = Some t \<or>
       de_effective_level d = Critical \<and> de_unload d \<noteq> [] \<and> t = fadd now (gv_restore_cooldown g))"
    and "de_restore d = Some m \<Longrightarrow> de_effective_level d = Normal \<and> de_loaded d = [] \<and> de_unload d = []
      \<and> preferred_heavy_model g = Some m \<and> gv_restore_after g' = None
      \<and> (\<exists>t. gv_restore_after g = Some t \<and> fle t now)"
proof -
  note e = assms [unfolded evaluate_def Let_def, symmetric]
  show "gv_restore_after g' = Some t \<Longrightarrow> de_loaded d = [] \<and>
      (gv_restore_after g = Some t \<or>
       de_effective_level d = Critical \<and> de_unload d \<noteq> [] \<and> t = fadd now (gv_restore_cooldown g))"
    using e by (auto split: prod.splits if_splits dest: settle_restoreD(2) effective_levelD)
  show "de_restore d = Some m \<Longrightarrow> de_effective_level d = Normal \<and> de_loaded d = [] \<and> de_unload d = []
      \<and> preferred_heavy_model g = Some m \<and> gv_restore_after g' = None
      \<and> (\<exists>t. gv_restore_after g = Some t \<and> fle t now)"
    using e by (auto split: prod.splits if_splits dest!: settle_restoreD(1))
qed

text \<open>
  A run of the governor: the evaluations in order, with the clock reading and the decision
  of each.
\<close>

inductive gov_run :: "governor \<Rightarrow> (pyfloat \<times> decision) list \<Rightarrow> governor \<Rightarrow> bool" where
  start: "make_governor models w c ws cs cool = Inr g \<Longrightarrow> gov_run g [] g"
| step: "gov_run g0 h g \<Longrightarrow> evaluate g mp vm loaded now = (g', d) \<Longrightarrow> gov_run g0 (h @ [(now, d)]) g'"

text \<open>Some critical evaluation unloaded models, the pending time is its time plus the
  cooldown, and no model was kept loaded since.\<close>

definition pending_since :: "pyfloat \<Rightarrow> (pyfloat \<times> decision) list \<Rightarrow> pyfloat \<Rightarrow> bool" where
  "pending_since cool h t =
     (\<exists>h1 t0 d0 h2. h = h1 @ (t0, d0) # h2 \<and> de_effective_level d0 = Critical \<and> de_unload d0 \<noteq> []
        \<and> t = fadd t0 cool \<and> (\<forall>x \<in> set ((t0, d0) # h2). de_loaded (snd x) = []))"

lemma gov_run_pending:
  assumes "gov_run g0 h g"
  shows "gv_restore_cooldown g = gv_restore_cooldown g0 \<and> gv_heavy_models g = gv_heavy_models g0 \<and> governor_ok g
     \<and> (\<forall>t. gv_restore_after g = Some t \<longrightarrow> pending_since (gv_restore_cooldown g0) h t)"
  using assms
proof (induction rule: gov_run.induct)
  case (start models w c ws cs cool g)
  then show ?case using make_governor_ok [OF start] by (auto simp: make_governor_def bindE_Inr_iff)
next
  case (step g0 h g mp vm loaded now g' d)
  have "pending_since (gv_restore_cooldown g0) (h @ [(now, d)]) t" if "gv_restore_after g' = Some t" for t
  proof -
    note r = evaluate_restore(1) [OF step.hyps(2) that]
    show ?thesis
    proof (cases "gv_restore_after g = Some t")
      case True
      then obtain h1 t0 d0 h2 where "h = h1 @ (t0, d0) # h2" "de_effective_level d0 = Critical" "de_unload d0 \<noteq> []"
        "t = fadd t0 (gv_restore_cooldown g0)" "\<forall>x \<in> set ((t0, d0) # h2). de_loaded (snd x) = []"
        using step.IH by (auto simp: pending_since_def)
      then show ?thesis
        using r unfolding pending_since_def
        by (intro exI [of _ h1] exI [of _ t0] exI [of _ d0] exI [of _ "h2 @ [(now, d)]"]) auto
    next
      case False
      then show ?thesis
        using r step.IH unfolding pending_since_def
        by (intro exI [of _ h] exI [of _ now] exI [of _ d] exI [of _ "[]"]) auto
    qed
  qed
  then show ?case using step.IH evaluate_config [OF step.hyps(2)] by simp
qed

end
