(* ===== verification/GovernorClaims.thy ===== *)
theory GovernorClaims
  imports Governor
begin

text \<open>
  The properties of the resource governor: one heavy model at most, the effective pressure
  level, and restoration only after the cooldown of a critical unloading.
\<close>

subsection \<open>A sample run\<close>

lemma sample_text_strip: "py_strip ''memory free percentage:5%'' = ''memory free percentage:5%''"
  by (simp add: py_strip_def strip_list_def cp_space_def cont_byte_def py_space_def)

lemma sample_text_codes: "utf8_decode ''memory free percentage:5%'' = codes ''memory free percentage:5%''"
  by (simp add: codes_def)

lemma sample_text_percent: "re_search percent_at (codes ''memory free percentage:5%'') = Some [53]"
  by (simp add: codes_def percent_at_def skip_spaces1_def py_space_def digit_code_def fold_case_def)

lemma sample_text_free: "mp_free_percent (parse_memory_pressure_output (Some ''memory free percentage:5%'')) = Some 5"
proof -
  have "char_of (53::nat) = CHR ''5''" by code_simp
  then have "to_int [53] = Some 5"
    by (simp add: to_int_def strip_list_def py_space_def digit_code_def int_of_str_def strip_ascii_def is_digit_def byte_def)
  then show ?thesis
    by (simp add: parse_memory_pressure_output_def sample_text_strip sample_text_codes sample_text_percent
        del: re_search.simps utf8_decode.simps)
qed

definition sample_governor :: governor where
  "sample_governor = \<lparr>gv_warning_percent = 25, gv_critical_percent = 12, gv_warning_swap = 134217728,
     gv_critical_swap = 536870912, gv_restore_cooldown = Fin 60, gv_heavy_models = [''a'', ''b''],
     gv_restore_after = None, gv_last_vm_stat = None\<rparr>"

lemma sample_governor_made:
  "make_governor [Some ''a'', None, Some '' b'', Some ''a''] 25 12 134217728 536870912 (Fin 60) = Inr sample_governor"
  by (simp add: make_governor_def sample_governor_def governor_models_def guardE_def fromkeys_def
      py_strip_def strip_list_def cp_space_def cont_byte_def py_space_def)

lemma sample_governor_ok: "governor_ok sample_governor"
  by (rule make_governor_ok [OF sample_governor_made])

definition empty_vm_stat :: vm_stat where
  "empty_vm_stat = \<lparr>vs_page_size = None, vs_swapins = None, vs_swapouts = None, vs_free_pages = None, vs_raw = []\<rparr>"

lemma parse_vm_stat_None: "parse_vm_stat_output None = empty_vm_stat"
  by (simp add: parse_vm_stat_output_def empty_vm_stat_def py_strip_def strip_list_def)

lemma ordered_two: "ordered_loaded [''a'', ''b''] [''b'', ''a''] = [''a'', ''b'']"
  by (simp add: ordered_loaded_eq normalized_loaded_def fromkeys_def py_strip_def strip_list_def
      cp_space_def cont_byte_def py_space_def)

lemma sample_critical:
  "evaluate sample_governor (Some ''memory free percentage:5%'') None [''b'', ''a''] (Fin 10) =
     (sample_governor\<lparr>gv_restore_after := Some (Fin 70), gv_last_vm_stat := Some empty_vm_stat\<rparr>,
      \<lparr>de_pressure_level = Critical, de_effective_level = Critical,
       de_gates = [''memory_pressure_critical'', ''one_heavy_model_invariant''],
       de_free_percent = Some 5, de_swap_delta = None, de_loaded = [], de_unload = [''a'', ''b''],
       de_restore = None, de_cooldown_remaining = None, de_one_heavy = True\<rparr>)"
  by (simp add: evaluate_def sample_text_free parse_vm_stat_None sample_governor_def Let_def
      classify_percent_def effective_level_def compute_swap_delta_def settle_restore_def ordered_two)

text \<open>Severity of a level; the severity the swap growth calls for on its own.\<close>

fun severity :: "level \<Rightarrow> nat" where
  "severity Normal = 0"
| "severity Warning = 1"
| "severity Unknown = 1"
| "severity Critical = 2"

definition swap_severity :: "governor \<Rightarrow> int option \<Rightarrow> nat" where
  "swap_severity g delta =
     (case delta of None \<Rightarrow> 0
      | Some d \<Rightarrow> if gv_critical_swap g \<le> d then 2 else if gv_warning_swap g \<le> d then 1 else 0)"

lemma effective_severity:
  "severity (fst (effective_level g p delta)) =
     (if swap_severity g delta = 1 then 1 else max (swap_severity g delta) (severity p))"
  by (cases p; cases delta) (simp_all add: effective_level_def swap_severity_def Let_def)

text \<open>C4. The governor keeps at most one heavy model, and none at critical level. For every
  evaluation of a well-formed governor: the models kept followed by the models to unload are
  exactly the distinct non-blank loaded names, the configured ones first in their configured
  order and then the others in the order given; at most one is kept, none at critical level; a
  model is unloaded exactly when the invariant gate is reported; and the configuration is
  untouched, so the governor stays well-formed.\<close>

theorem governor_decision:
  assumes "governor_ok g" and "evaluate g pressure vm loaded now = (g', d)"
  shows "de_loaded d @ de_unload d =
           filter (\<lambda>m. m \<in> set (normalized_loaded loaded)) (gv_heavy_models g)
             @ filter (\<lambda>m. m \<notin> set (gv_heavy_models g)) (normalized_loaded loaded)
         \<and> set (de_loaded d @ de_unload d) = py_strip ` set loaded - {[]} \<and> distinct (de_loaded d @ de_unload d)
         \<and> length (de_loaded d) \<le> 1 \<and> de_one_heavy d
         \<and> (de_effective_level d = Critical \<longrightarrow> de_loaded d = [])
         \<and> (de_unload d \<noteq> []) = (''one_heavy_model_invariant'' \<in> set (de_gates d))
         \<and> governor_ok g' \<and> gv_heavy_models g' = gv_heavy_models g"
proof -
  have d: "distinct (gv_heavy_models g)" using assms(1) by (simp add: governor_ok_def)
  have n: "set (normalized_loaded loaded) = py_strip ` set loaded - {[]}"
    by (auto simp: normalized_loaded_def)
  have "distinct (normalized_loaded loaded)" by (simp add: normalized_loaded_def)
  then have o: "distinct (ordered_loaded (gv_heavy_models g) loaded)"
    "set (ordered_loaded (gv_heavy_models g) loaded) = py_strip ` set loaded - {[]}"
    using d by (auto simp: ordered_loaded_eq n [symmetric])
  show ?thesis
    using evaluate_loaded [OF assms(2)] evaluate_config [OF assms(2)] ordered_loaded_eq [OF d, of loaded] o assms(1)
    by metis
qed

theorem governor_decision_witness:
  "\<exists>d g'. evaluate sample_governor (Some ''memory free percentage:5%'') None [''b'', ''a''] (Fin 10) = (g', d)
     \<and> de_loaded d = [] \<and> set (de_unload d) = {''a'', ''b''} \<and> governor_ok g'"
proof -
  have "governor_ok (fst (evaluate sample_governor (Some ''memory free percentage:5%'') None [''b'', ''a''] (Fin 10)))"
    unfolding sample_critical fst_conv using governor_decision [OF sample_governor_ok sample_critical] by (elim conjE)
  then show ?thesis by (simp add: sample_critical)
qed

text \<open>C39. The effective level is the more severe of the memory pressure and the swap growth,
  except that a swap growth in the warning band lowers a critical memory pressure to warning
  (an unreadable report counts as warning).\<close>

theorem effective_level_exact:
  "severity (de_effective_level (snd (evaluate g pressure vm loaded now))) =
     (let d = snd (evaluate g pressure vm loaded now); s = swap_severity g (de_swap_delta d);
          p = severity (de_pressure_level d) in
      if s = 1 then 1 else max s p)"
proof -
  obtain g' d where e: "evaluate g pressure vm loaded now = (g', d)" by fastforce
  then show ?thesis using evaluate_loaded(6) [OF e] by (simp add: effective_severity Let_def)
qed

text \<open>A model is restored only after the cooldown of a critical unloading. Along every
  run that starts from a constructed governor: when an evaluation restores a model, the level is
  normal, nothing is loaded, the model is the first configured one, and some earlier evaluation
  at critical level unloaded models at a time whose sum with the cooldown is not after the
  current time, with no model kept loaded by any evaluation since; the pending restoration is
  then cleared, so the next evaluation does not restore again.\<close>

theorem governor_restore:
  assumes "gov_run g0 h g" and "evaluate g pressure vm loaded now = (g', d)" and "de_restore d = Some m"
  shows "de_effective_level d = Normal \<and> de_loaded d = [] \<and> de_unload d = []
         \<and> preferred_heavy_model g0 = Some m
         \<and> (\<exists>t. fle t now \<and> pending_since (gv_restore_cooldown g0) h t)
         \<and> gv_restore_after g' = None
         \<and> de_restore (snd (evaluate g' pressure2 vm2 loaded2 now2)) = None"
proof -
  note r = evaluate_restore(2) [OF assms(2,3)] and p = gov_run_pending [OF assms(1)]
  obtain g2 d2 where e: "evaluate g' pressure2 vm2 loaded2 now2 = (g2, d2)" by fastforce
  have "de_restore d2 = None"
    using evaluate_restore(2) [OF e] r by (cases "de_restore d2") auto
  then show ?thesis using r p e by (auto simp: preferred_heavy_model_def)
qed

lemma sample_text50_free: "mp_free_percent (parse_memory_pressure_output (Some ''memory free percentage:50%'')) = Some 50"
proof -
  have c: "char_of (53::nat) = CHR ''5''" "char_of (48::nat) = CHR ''0''" by code_simp+
  then have t: "to_int [53, 48] = Some 50"
    by (simp add: to_int_def strip_list_def py_space_def digit_code_def int_of_str_def strip_ascii_def is_digit_def byte_def)
  have s: "py_strip ''memory free percentage:50%'' = ''memory free percentage:50%''"
    by (simp add: py_strip_def strip_list_def cp_space_def cont_byte_def py_space_def)
  have u: "utf8_decode ''memory free percentage:50%'' = codes ''memory free percentage:50%''"
    by (simp add: codes_def)
  have "re_search percent_at (codes ''memory free percentage:50%'') = Some [53, 48]"
    by (simp add: codes_def percent_at_def skip_spaces1_def py_space_def digit_code_def fold_case_def)
  then show ?thesis
    by (simp add: parse_memory_pressure_output_def s u t del: re_search.simps utf8_decode.simps)
qed

lemma sample_restored:
  "\<exists>g2 d2. evaluate (sample_governor\<lparr>gv_restore_after := Some (Fin 70), gv_last_vm_stat := Some empty_vm_stat\<rparr>)
     (Some ''memory free percentage:50%'') None [] (Fin 70) = (g2, d2) \<and> de_restore d2 = Some ''a''"
  by (simp add: evaluate_def sample_text50_free parse_vm_stat_None sample_governor_def Let_def
      classify_percent_def effective_level_def compute_swap_delta_def settle_restore_def empty_vm_stat_def
      ordered_loaded_def normalized_loaded_def fromkeys_def preferred_heavy_model_def)

theorem governor_restore_witness:
  "\<exists>g' d. evaluate (sample_governor\<lparr>gv_restore_after := Some (Fin 70), gv_last_vm_stat := Some empty_vm_stat\<rparr>)
     (Some ''memory free percentage:50%'') None [] (Fin 70) = (g', d)
   \<and> de_restore d = Some ''a'' \<and> de_effective_level d = Normal \<and> gv_restore_after g' = None"
proof -
  obtain g2 d2 where e: "evaluate (sample_governor\<lparr>gv_restore_after := Some (Fin 70), gv_last_vm_stat := Some empty_vm_stat\<rparr>)
     (Some ''memory free percentage:50%'') None [] (Fin 70) = (g2, d2)" "de_restore d2 = Some ''a''"
    using sample_restored by blast
  have "gov_run sample_governor ([] @ [(Fin 10, snd (evaluate sample_governor (Some ''memory free percentage:5%'') None [''b'', ''a''] (Fin 10)))])
    (sample_governor\<lparr>gv_restore_after := Some (Fin 70), gv_last_vm_stat := Some empty_vm_stat\<rparr>)"
    unfolding sample_critical snd_conv
    by (rule gov_run.step [OF gov_run.start [OF sample_governor_made] sample_critical])
  from governor_restore [OF this e] e show ?thesis by blast
qed

end
