(* ===== verification/ResourcePolicy.thy ===== *)
theory ResourcePolicy
  imports Governor FloatBounds
begin

text \<open>
  The resource policy (\<open>resource_policy.py\<close>): context and image limits, the token estimate,
  trimming of a conversation, and admission of a model load or a new request. Texts are
  measured in code points. A mapping that configures a policy holds integers; the float
  field \<open>metal_release_wait_seconds\<close> is read by no operation of the module and is left out.
\<close>

record rpolicy =
  rp_total_ram :: int
  rp_safety_margin :: int
  rp_browser_reserve :: int
  rp_max_swap :: int
  rp_warning_free :: int
  rp_critical_free :: int
  rp_max_context :: int
  rp_min_context :: int
  rp_kv_bytes :: int
  rp_max_edge :: int
  rp_max_image_bytes :: int
  rp_max_base64 :: int
  rp_emergency_swap :: int

definition default_policy :: rpolicy where
  "default_policy = \<lparr>rp_total_ram = 16 * 1024 * 1024 * 1024, rp_safety_margin = 2 * 1024 * 1024 * 1024,
     rp_browser_reserve = 1 * 1024 * 1024 * 1024, rp_max_swap = 256 * 1024 * 1024,
     rp_warning_free = 25, rp_critical_free = 12, rp_max_context = 8192, rp_min_context = 1024,
     rp_kv_bytes = 64, rp_max_edge = 1024, rp_max_image_bytes = 4 * 1024 * 1024,
     rp_max_base64 = 6 * 1024 * 1024, rp_emergency_swap = 512 * 1024 * 1024\<rparr>"

definition field_or :: "(string \<times> int) list \<Rightarrow> string \<Rightarrow> int \<Rightarrow> int" where
  "field_or d k v = (case map_of d k of None \<Rightarrow> v | Some x \<Rightarrow> x)"

definition policy_from_mapping :: "(string \<times> int) list option \<Rightarrow> rpolicy" where
  "policy_from_mapping data =
     (case data of None \<Rightarrow> default_policy
      | Some d \<Rightarrow> let p = default_policy in
         \<lparr>rp_total_ram = field_or d ''total_ram_bytes'' (rp_total_ram p),
          rp_safety_margin = field_or d ''safety_margin_bytes'' (rp_safety_margin p),
          rp_browser_reserve = field_or d ''browser_reserve_bytes'' (rp_browser_reserve p),
          rp_max_swap = field_or d ''max_swap_bytes'' (rp_max_swap p),
          rp_warning_free = field_or d ''warning_free_percent'' (rp_warning_free p),
          rp_critical_free = field_or d ''critical_free_percent'' (rp_critical_free p),
          rp_max_context = field_or d ''max_context_tokens'' (rp_max_context p),
          rp_min_context = field_or d ''min_context_tokens'' (rp_min_context p),
          rp_kv_bytes = field_or d ''kv_bytes_per_token'' (rp_kv_bytes p),
          rp_max_edge = field_or d ''max_image_edge_px'' (rp_max_edge p),
          rp_max_image_bytes = field_or d ''max_image_bytes'' (rp_max_image_bytes p),
          rp_max_base64 = field_or d ''max_base64_chars'' (rp_max_base64 p),
          rp_emergency_swap = field_or d ''emergency_swap_delta_bytes'' (rp_emergency_swap p)\<rparr>)"

definition sample_policies :: "(string \<times> (string \<times> int) list) list" where
  "sample_policies =
     [(''default_m1_16gb'',
        [(''total_ram_bytes'', 16 * 1024 * 1024 * 1024), (''safety_margin_bytes'', 2 * 1024 * 1024 * 1024),
         (''browser_reserve_bytes'', 1 * 1024 * 1024 * 1024), (''max_context_tokens'', 8192),
         (''kv_bytes_per_token'', 64)]),
      (''conservative_chat'',
        [(''max_context_tokens'', 4096), (''min_context_tokens'', 1024),
         (''warning_free_percent'', 30), (''critical_free_percent'', 15)]),
      (''vision_heavy'',
        [(''max_context_tokens'', 6144), (''max_image_edge_px'', 768),
         (''max_image_bytes'', 2 * 1024 * 1024), (''browser_reserve_bytes'', 2 * 1024 * 1024 * 1024)])]"

definition policy_from_sample :: "string \<Rightarrow> py_exc + rpolicy" where
  "policy_from_sample name =
     (case map_of sample_policies name of None \<Rightarrow> Inl PyKeyError | Some d \<Rightarrow> Inr (policy_from_mapping (Some d)))"

definition sample_names :: "string list" where
  "sample_names = map fst sample_policies"

section \<open>Token estimate\<close>

definition ja_char :: "nat \<Rightarrow> bool" where
  "ja_char c = ((12352 \<le> c \<and> c \<le> 12447) \<or> (12448 \<le> c \<and> c \<le> 12543)
     \<or> (13312 \<le> c \<and> c \<le> 19903) \<or> (19968 \<le> c \<and> c \<le> 40959))"

definition word_code :: "nat \<Rightarrow> bool" where
  "word_code c = ((65 \<le> c \<and> c \<le> 90) \<or> (97 \<le> c \<and> c \<le> 122) \<or> digit_code c \<or> c = 95)"

text \<open>The maximal runs of word characters.\<close>

fun word_runs :: "nat list \<Rightarrow> nat list list" where
  "word_runs [] = []"
| "word_runs (c # cs) =
     (if word_code c then (c # takeWhile word_code cs) # word_runs (dropWhile word_code cs) else word_runs cs)"

text \<open>\<open>int(ja_chars * 0.55)\<close>; a text has far fewer characters than a float can count.\<close>

definition ja_weight :: "int \<Rightarrow> int" where
  "ja_weight n = (case ftrunc (fmul (fint n) (Fin (lit (55/100)))) of Inr k \<Rightarrow> k | Inl _ \<Rightarrow> 0)"

definition estimate_ja_tokens :: "string \<Rightarrow> int" where
  "estimate_ja_tokens msg =
     (if msg = [] then 0
      else
        let cps = utf8_decode msg;
            ja_chars = int (length (filter ja_char cps));
            ascii_words = word_runs cps;
            ascii_chars = int (sum_list (map length ascii_words));
            punctuation = max 0 (int (length cps) - ja_chars - ascii_chars);
            ja_tokens = ja_weight ja_chars + (if ja_chars \<noteq> 0 then 1 else 0);
            ascii_tokens = max (int (length ascii_words)) (ascii_chars div 4);
            punct_tokens = punctuation div 6 in
        max 1 (ja_tokens + ascii_tokens + punct_tokens))"

section \<open>Limits\<close>

definition available_for_models :: "rpolicy \<Rightarrow> int" where
  "available_for_models p = max 0 (rp_total_ram p - rp_safety_margin p - rp_browser_reserve p)"

definition kv_cache_budget :: "rpolicy \<Rightarrow> int option \<Rightarrow> int" where
  "kv_cache_budget p context_tokens =
     (let tokens = (case context_tokens of None \<Rightarrow> rp_max_context p | Some n \<Rightarrow> n) in
      max (rp_min_context p) (min (rp_max_context p) tokens) * rp_kv_bytes p)"

definition max_safe_context :: "rpolicy \<Rightarrow> int \<Rightarrow> int option \<Rightarrow> int" where
  "max_safe_context p weight free =
     (let budget = (case free of None \<Rightarrow> available_for_models p | Some n \<Rightarrow> n);
          remaining = max 0 (budget - weight) in
      if remaining \<le> 0 then rp_min_context p
      else max (rp_min_context p) (min (rp_max_context p) (remaining div max 1 (rp_kv_bytes p))))"

definition clamp_image_edge :: "rpolicy \<Rightarrow> int \<Rightarrow> int \<Rightarrow> py_exc + int \<times> int" where
  "clamp_image_edge p width height =
     (let edge = max width height in
      if edge \<le> rp_max_edge p then Inr (width, height)
      else bindE (float_of_int edge) (\<lambda>e.
           bindE (float_of_int (rp_max_edge p)) (\<lambda>m.
           bindE (fdiv m e) (\<lambda>scale.
           bindE (float_of_int width) (\<lambda>w.
           bindE (ftrunc (fmul w scale)) (\<lambda>a.
           bindE (float_of_int height) (\<lambda>h.
           bindE (ftrunc (fmul h scale)) (\<lambda>b.
           Inr (max 1 a, max 1 b)))))))))"

section \<open>Conversations\<close>

record chat_message =
  cm_role :: string
  cm_content :: string

definition text_or :: "(string \<times> string) list \<Rightarrow> string \<Rightarrow> string \<Rightarrow> string" where
  "text_or d k v = (case map_of d k of None \<Rightarrow> v | Some x \<Rightarrow> x)"

definition copy_message :: "(string \<times> string) list \<Rightarrow> chat_message" where
  "copy_message m = \<lparr>cm_role = text_or m ''role'' ''user'', cm_content = text_or m ''content'' ''''\<rparr>"

definition message_mapping :: "chat_message \<Rightarrow> (string \<times> string) list" where
  "message_mapping m = [(''role'', cm_role m), (''content'', cm_content m)]"

definition estimate_messages :: "chat_message list \<Rightarrow> int" where
  "estimate_messages ms = sum_list (map (estimate_ja_tokens \<circ> cm_content) ms)"

fun trim_oldest :: "int \<Rightarrow> chat_message list \<Rightarrow> chat_message list \<Rightarrow> chat_message list" where
  "trim_oldest limit system [] = []"
| "trim_oldest limit system (m # ms) =
     (if limit < estimate_messages system + estimate_messages (m # ms) then trim_oldest limit system ms else m # ms)"

definition shorten_limit :: "rpolicy \<Rightarrow> int option \<Rightarrow> int" where
  "shorten_limit p target = (case target of None \<Rightarrow> rp_max_context p | Some n \<Rightarrow> if n \<noteq> 0 then n else rp_max_context p)"

definition shorten_messages :: "rpolicy \<Rightarrow> (string \<times> string) list list \<Rightarrow> int option \<Rightarrow> chat_message list" where
  "shorten_messages p messages target =
     (let copies = map copy_message messages;
          system = filter (\<lambda>m. cm_role m = ''system'') copies;
          others = filter (\<lambda>m. cm_role m \<noteq> ''system'') copies in
      system @ trim_oldest (shorten_limit p target) system others)"

section \<open>Admission\<close>

definition allow_model_load ::
  "rpolicy \<Rightarrow> int \<Rightarrow> int option \<Rightarrow> int option \<Rightarrow> string list \<Rightarrow> bool \<times> string list" where
  "allow_model_load p model_bytes free swap loaded_models =
     (let loaded = normalized_loaded loaded_models;
          below = (\<lambda>t. case free of None \<Rightarrow> False | Some f \<Rightarrow> f < t) in
      if 1 \<le> length loaded then (False, [''one_heavy_model_invariant''])
      else if below (rp_critical_free p) then (False, [''memory_critical''])
      else if (case swap of None \<Rightarrow> False | Some d \<Rightarrow> rp_emergency_swap p \<le> d) then (False, [''swap_emergency''])
      else if available_for_models p < model_bytes + kv_cache_budget p None
           then (False, [''model_plus_kv_exceeds_budget''])
      else (True, if below (rp_warning_free p) then [''memory_warning_allowed''] else []))"

definition allow_new_request ::
  "rpolicy \<Rightarrow> int option \<Rightarrow> int option \<Rightarrow> int \<Rightarrow> int \<Rightarrow> bool \<times> string list" where
  "allow_new_request p free swap in_flight max_in_flight =
     (if max_in_flight \<le> in_flight then (False, [''in_flight_limit''])
      else if (case free of None \<Rightarrow> False | Some f \<Rightarrow> f < rp_critical_free p) then (False, [''memory_critical''])
      else if (case swap of None \<Rightarrow> False | Some d \<Rightarrow> rp_emergency_swap p \<le> d) then (False, [''swap_emergency''])
      else (True, []))"

section \<open>Lemmas\<close>

lemma clamp_image_edge_fits:
  assumes "max width height \<le> rp_max_edge p"
  shows "clamp_image_edge p width height = Inr (width, height)"
  using assms by (simp add: clamp_image_edge_def)

lemma trim_oldest_spec:
  "\<exists>k \<le> length ms. trim_oldest limit sys ms = drop k ms
     \<and> (k = length ms \<or> estimate_messages sys + estimate_messages (drop k ms) \<le> limit)
     \<and> (\<forall>j < k. limit < estimate_messages sys + estimate_messages (drop j ms))"
proof (induction ms)
  case (Cons m ms)
  show ?case
  proof (cases "limit < estimate_messages sys + estimate_messages (m # ms)")
    case True
    from Cons.IH obtain k where k: "k \<le> length ms" "trim_oldest limit sys ms = drop k ms"
      "k = length ms \<or> estimate_messages sys + estimate_messages (drop k ms) \<le> limit"
      "\<forall>j < k. limit < estimate_messages sys + estimate_messages (drop j ms)" by blast
    have "\<forall>j < Suc k. limit < estimate_messages sys + estimate_messages (drop j (m # ms))"
      using k(4) True by (auto simp: less_Suc_eq_0_disj)
    then show ?thesis using k True by (intro exI [of _ "Suc k"]) simp
  qed (auto intro!: exI [of _ 0])
qed simp

lemma copy_message_mapping [simp]: "copy_message (message_mapping m) = m"
  by (simp add: copy_message_def message_mapping_def text_or_def)

lemma trim_oldest_idem: "trim_oldest limit sys (trim_oldest limit sys ms) = trim_oldest limit sys ms"
  by (induction ms) simp_all

lemma trim_oldest_subset: "set (trim_oldest limit sys ms) \<subseteq> set ms"
  by (induction ms) auto

lemma shorten_messages_idem:
  "shorten_messages p (map message_mapping (shorten_messages p messages target)) target = shorten_messages p messages target"
proof -
  let ?sys = "filter (\<lambda>m. cm_role m = ''system'') (map copy_message messages)"
  let ?t = "trim_oldest (shorten_limit p target) ?sys (filter (\<lambda>m. cm_role m \<noteq> ''system'') (map copy_message messages))"
  have t: "filter (\<lambda>m. cm_role m = ''system'') ?t = []" "filter (\<lambda>m. cm_role m \<noteq> ''system'') ?t = ?t"
    using trim_oldest_subset [of "shorten_limit p target" ?sys "filter (\<lambda>m. cm_role m \<noteq> ''system'') (map copy_message messages)"]
    by (auto simp: filter_empty_conv filter_id_conv)
  have "copy_message \<circ> message_mapping = id" by (simp add: fun_eq_iff)
  then show ?thesis
    by (simp add: shorten_messages_def Let_def t trim_oldest_idem del: filter_map)
qed

end
