(* ===== verification/PolicyClaims.thy ===== *)
theory PolicyClaims
  imports ResourcePolicy
begin

text \<open>
  The properties of the resource policy: trimming keeps the longest suffix that fits, and a
  clamped image is within the edge limit.
\<close>

text \<open>C40. A trimmed conversation is the longest one that fits. \<open>shorten_messages\<close> returns the
  system messages followed by the other messages without their \<open>k\<close> oldest, where \<open>k\<close> is the
  least number for which the token estimate fits the limit (all of them when none fits); and
  trimming the result again changes nothing.\<close>

theorem shorten_messages_longest:
  "(\<exists>k. let copies = map copy_message messages; limit = shorten_limit p target;
           system = filter (\<lambda>m. cm_role m = ''system'') copies;
           others = filter (\<lambda>m. cm_role m \<noteq> ''system'') copies in
      k \<le> length others \<and> shorten_messages p messages target = system @ drop k others
      \<and> (k = length others \<or> estimate_messages (system @ drop k others) \<le> limit)
      \<and> (\<forall>j \<in> {..<k}. limit < estimate_messages (system @ drop j others)))
   \<and> shorten_messages p (map message_mapping (shorten_messages p messages target)) target
      = shorten_messages p messages target"
proof (intro conjI shorten_messages_idem)
  have "estimate_messages (xs @ ys) = estimate_messages xs + estimate_messages ys" for xs ys
    by (simp add: estimate_messages_def)
  then show "\<exists>k. let copies = map copy_message messages; limit = shorten_limit p target;
           system = filter (\<lambda>m. cm_role m = ''system'') copies;
           others = filter (\<lambda>m. cm_role m \<noteq> ''system'') copies in
      k \<le> length others \<and> shorten_messages p messages target = system @ drop k others
      \<and> (k = length others \<or> estimate_messages (system @ drop k others) \<le> limit)
      \<and> (\<forall>j \<in> {..<k}. limit < estimate_messages (system @ drop j others))"
    using trim_oldest_spec [of "filter (\<lambda>m. cm_role m \<noteq> ''system'') (map copy_message messages)"
      "shorten_limit p target" "filter (\<lambda>m. cm_role m = ''system'') (map copy_message messages)"]
    unfolding shorten_messages_def Let_def by (simp add: Ball_def)
qed

lemma sample_estimates:
  "estimate_ja_tokens ''be brief'' = 2" "estimate_ja_tokens ''hello'' = 1" "estimate_ja_tokens ''again'' = 1"
  by (simp_all add: estimate_ja_tokens_def ja_char_def word_code_def digit_code_def ja_weight_def ftrunc_def float_to_intE_def
      fint_def Let_def)

theorem shorten_messages_longest_witness:
  "shorten_messages default_policy
     [[(''content'', ''hello'')], [(''role'', ''system''), (''content'', ''be brief'')], [(''role'', ''user''), (''content'', ''again'')]]
     (Some 3) = [\<lparr>cm_role = ''system'', cm_content = ''be brief''\<rparr>, \<lparr>cm_role = ''user'', cm_content = ''again''\<rparr>]
   \<and> shorten_messages default_policy (map message_mapping
       [\<lparr>cm_role = ''system'', cm_content = ''be brief''\<rparr>, \<lparr>cm_role = ''user'', cm_content = ''again''\<rparr>]) (Some 3)
     = [\<lparr>cm_role = ''system'', cm_content = ''be brief''\<rparr>, \<lparr>cm_role = ''user'', cm_content = ''again''\<rparr>]"
proof -
  let ?ms = "[[(''content'', ''hello'')], [(''role'', ''system''), (''content'', ''be brief'')], [(''role'', ''user''), (''content'', ''again'')]]"
  have e: "shorten_messages default_policy ?ms (Some 3)
     = [\<lparr>cm_role = ''system'', cm_content = ''be brief''\<rparr>, \<lparr>cm_role = ''user'', cm_content = ''again''\<rparr>]"
    by (simp add: shorten_messages_def shorten_limit_def copy_message_def text_or_def estimate_messages_def sample_estimates Let_def)
  show ?thesis
    using shorten_messages_longest [of ?ms default_policy "Some 3"] e by metis
qed

text \<open>A clamped image fits. For an image of at most \<open>2 ^ 53\<close> pixels a side and an edge
  limit between 1 and \<open>2 ^ 50\<close>, \<open>clamp_image_edge\<close> returns; an image within the limit is
  returned as it is, and of a larger one both sides come out between 1 and the limit, whatever
  the rounding of the scale and of the products.\<close>

theorem clamp_image_bounds:
  assumes "1 \<le> rp_max_edge p" and "rp_max_edge p \<le> 2 ^ 50"
    and "0 \<le> width" and "width \<le> 2 ^ 53" and "0 \<le> height" and "height \<le> 2 ^ 53"
  shows "\<exists>w h. clamp_image_edge p width height = Inr (w, h)
     \<and> w \<le> rp_max_edge p \<and> h \<le> rp_max_edge p
     \<and> (if max width height \<le> rp_max_edge p then w = width \<and> h = height else 1 \<le> w \<and> 1 \<le> h)"
proof (cases "max width height \<le> rp_max_edge p")
  case True
  then show ?thesis using clamp_image_edge_fits [OF True] by auto
next
  case False
  let ?e = "max width height" and ?m = "rp_max_edge p"
  have e: "?m < ?e" "?e \<le> 2 ^ 53" using False assms by auto
  have small: "\<bar>?m\<bar> \<le> 2 ^ 53" "\<bar>?e\<bar> \<le> 2 ^ 53" "\<bar>width\<bar> \<le> 2 ^ 53" "\<bar>height\<bar> \<le> 2 ^ 53" using assms by auto
  let ?q = "round64 (of_int ?m / of_int ?e)"
  have nz: "(of_int ?e :: rat) \<noteq> 0" using e assms(1) by simp
  obtain a where a: "ftrunc (fmul (Fin (of_int width)) ?q) = Inr a" "0 \<le> a" "a \<le> ?m"
    using scaled_length [OF assms(1,2) e assms(3) _ refl] by auto
  obtain b where b: "ftrunc (fmul (Fin (of_int height)) ?q) = Inr b" "0 \<le> b" "b \<le> ?m"
    using scaled_length [OF assms(1,2) e assms(5) _ refl] by auto
  have "clamp_image_edge p width height = Inr (max 1 a, max 1 b)"
    using False nz a(1) b(1)
    by (simp only: clamp_image_edge_def Let_def if_False float_of_int_small [OF small(1)] float_of_int_small [OF small(2)]
        float_of_int_small [OF small(3)] float_of_int_small [OF small(4)] bindE_simps fdiv.simps pyfloat.case)
  then show ?thesis using False a b assms(1) by auto
qed


theorem clamp_image_bounds_witness:
  "\<exists>w h. clamp_image_edge default_policy 4000 3000 = Inr (w, h) \<and> 1 \<le> w \<and> w \<le> 1024 \<and> 1 \<le> h \<and> h \<le> 1024"
  using clamp_image_bounds [of default_policy 4000 3000] by (auto simp: default_policy_def)

end
