(* ===== verification/Broker.thy ===== *)
theory Broker
  imports Breaker Lifecycle
begin

text \<open>
  The model broker (\<open>model_broker_types.py\<close>, \<open>model_broker.py\<close>): its data, and one function
  for every stretch of an operation between two awaits. Clock readings (\<open>now\<close>), time stamps
  (\<open>ts\<close>) and the outcome of a runtime call are arguments; a function that changes the broker
  returns the new state. The interleaving of the operations is in \<open>BrokerRun\<close>.
\<close>

section \<open>Types\<close>

datatype mkind = LLM | VLM

fun kind_value :: "mkind \<Rightarrow> string" where
  "kind_value LLM = ''llm''"
| "kind_value VLM = ''vlm''"

datatype bstate = BIdle | BLlmLoading | BLlmReady | BVlmLoading | BVlmReady | BRestoring | BUnloading
  | BCooldown | BBusy | BFault

fun state_value :: "bstate \<Rightarrow> string" where
  "state_value BIdle = ''idle''"
| "state_value BLlmLoading = ''llm_loading''"
| "state_value BLlmReady = ''llm_ready''"
| "state_value BVlmLoading = ''vlm_loading''"
| "state_value BVlmReady = ''vlm_ready''"
| "state_value BRestoring = ''restoring_llm''"
| "state_value BUnloading = ''unloading''"
| "state_value BCooldown = ''cooldown''"
| "state_value BBusy = ''busy''"
| "state_value BFault = ''fault''"

text \<open>The exceptions of the broker, with their messages, and those of the interpreter.\<close>

datatype broker_error =
    BrokerBusy string
  | BrokerClosed string
  | BrokerFault string
  | BrokerQueueFull string
  | BrokerTimeout string
  | InvalidTransition string
  | BrokerCancelled
  | BrokerRaised py_exc

text \<open>Formatting that is left to the interpreter: \<open>f"{x:.Nf}"\<close> and \<open>str\<close> of a value that is
  no string.\<close>

record pyfmt =
  fixed :: "nat \<Rightarrow> pyfloat \<Rightarrow> string"
  str_of :: "pyval \<Rightarrow> string"

definition str_text :: "pyfmt \<Rightarrow> pyval \<Rightarrow> string" where
  "str_text F v = (case v of PStr s \<Rightarrow> s | _ \<Rightarrow> str_of F v)"

definition py_floatE :: "pyval \<Rightarrow> py_exc + pyfloat" where
  "py_floatE v =
     (case v of PFloat x \<Rightarrow> Inr x
      | PInt n \<Rightarrow> float_of_int n
      | PBool b \<Rightarrow> Inr (Fin (if b then 1 else 0))
      | PStr s \<Rightarrow> (case float_of_str s of None \<Rightarrow> Inl PyValueError | Some x \<Rightarrow> Inr x)
      | _ \<Rightarrow> Inl PyTypeError)"

text \<open>\<open>ChatRequest\<close> and \<open>ChatResponse\<close> with their checks.\<close>

record chat_request =
  rq_messages :: "pyval list"
  rq_id :: string
  rq_timeout :: "pyfloat option"

definition check_message :: "pyfmt \<Rightarrow> pyval \<Rightarrow> py_exc + unit" where
  "check_message F m =
     (case m of
        PDict d \<Rightarrow>
          bindE (guardE (py_strip (if has_key d ''role'' then str_text F (dget d ''role'') else []) \<noteq> []) PyValueError) (\<lambda>_.
          guardE (case dget d ''content'' of PStr _ \<Rightarrow> True | _ \<Rightarrow> False) PyTypeError)
      | _ \<Rightarrow> Inl PyTypeError)"

definition make_request :: "pyfmt \<Rightarrow> pyval list \<Rightarrow> string \<Rightarrow> pyfloat option \<Rightarrow> py_exc + chat_request" where
  "make_request F messages request_id timeout =
     bindE (guardE (messages \<noteq> []) PyValueError) (\<lambda>_.
     bindE (mapE (check_message F) messages) (\<lambda>_.
     bindE (guardE (case timeout of None \<Rightarrow> True | Some t \<Rightarrow> \<not> fle t (Fin 0)) PyValueError) (\<lambda>_.
     bindE (guardE (py_strip request_id \<noteq> []) PyValueError) (\<lambda>_.
     Inr \<lparr>rq_messages = messages, rq_id = request_id, rq_timeout = timeout\<rparr>))))"

definition copy_messages :: "pyfmt \<Rightarrow> pyval list \<Rightarrow> string \<Rightarrow> py_exc + pyval list" where
  "copy_messages F messages fresh_id = bindE (make_request F messages fresh_id None) (\<lambda>r. Inr (rq_messages r))"

record chat_response =
  rs_text :: string
  rs_model :: string
  rs_id :: string
  rs_latency :: pyfloat
  rs_metadata :: pyval

definition make_response :: "string \<Rightarrow> string \<Rightarrow> string \<Rightarrow> pyfloat \<Rightarrow> pyval \<Rightarrow> py_exc + chat_response" where
  "make_response body model request_id latency metadata =
     bindE (guardE (py_strip body \<noteq> []) PyValueError) (\<lambda>_.
     bindE (guardE (py_strip model \<noteq> []) PyValueError) (\<lambda>_.
     Inr \<lparr>rs_text = py_strip body, rs_model = model, rs_id = request_id, rs_latency = latency,
          rs_metadata = metadata\<rparr>))"

datatype kind_arg = KindMember mkind | KindText string

definition normalize_model_kind :: "kind_arg \<Rightarrow> py_exc + mkind" where
  "normalize_model_kind v =
     (case v of KindMember k \<Rightarrow> Inr k
      | KindText s \<Rightarrow> let t = ascii_lower (py_strip s) in
          if t = ''llm'' then Inr LLM else if t = ''vlm'' then Inr VLM else Inl PyValueError)"

section \<open>The broker\<close>

record queued_chat =
  qc_request :: chat_request
  qc_deadline :: pyfloat
  qc_done :: bool

record broker =
  br_llm_model :: string
  br_vlm_model :: string
  br_capacity :: int
  br_timeout :: pyfloat
  br_drain_timeout :: pyfloat
  br_state :: bstate
  br_since :: string
  br_kind :: "mkind option"
  br_model :: "string option"
  br_error :: "string option"
  br_accepting :: bool
  br_draining :: bool
  br_closed :: bool
  br_queue :: "queued_chat list"
  br_changed :: bool
  br_in_flight :: int
  br_circuit :: breaker

definition make_broker :: "string \<Rightarrow> string \<Rightarrow> int \<Rightarrow> pyfloat \<Rightarrow> pyfloat \<Rightarrow> string \<Rightarrow> py_exc + broker" where
  "make_broker llm vlm capacity timeout drain_timeout ts =
     bindE (guardE (\<not> (py_strip llm = [] \<or> py_strip vlm = [])) PyValueError) (\<lambda>_.
     bindE (guardE (\<not> capacity \<le> 0) PyValueError) (\<lambda>_.
     bindE (guardE (\<not> (fle timeout (Fin 0) \<or> fle drain_timeout (Fin 0))) PyValueError) (\<lambda>_.
     Inr \<lparr>br_llm_model = py_strip llm, br_vlm_model = py_strip vlm, br_capacity = capacity,
          br_timeout = timeout, br_drain_timeout = drain_timeout, br_state = BIdle, br_since = ts,
          br_kind = None, br_model = None, br_error = None, br_accepting = True, br_draining = False,
          br_closed = False, br_queue = [], br_changed = False, br_in_flight = 0,
          br_circuit = default_breaker\<rparr>)))"

definition lifecycle_phase :: "broker \<Rightarrow> lphase" where
  "lifecycle_phase b = map_broker_state_to_phase (state_value (br_state b)) (br_in_flight b) (br_draining b)"

record broker_status =
  bs_state :: bstate
  bs_since :: string
  bs_kind :: "mkind option"
  bs_model :: "string option"
  bs_depth :: int
  bs_capacity :: int
  bs_accepting :: bool
  bs_draining :: bool
  bs_closed :: bool
  bs_worker :: bool
  bs_error :: "string option"
  bs_in_flight :: int
  bs_phase :: "string option"
  bs_circuit :: "string option"
  bs_cooldown :: "pyfloat option"

definition status :: "broker \<Rightarrow> bool \<Rightarrow> pyfloat \<Rightarrow> broker_status" where
  "status b worker_running now =
     \<lparr>bs_state = br_state b, bs_since = br_since b, bs_kind = br_kind b, bs_model = br_model b,
      bs_depth = int (length (br_queue b)), bs_capacity = br_capacity b, bs_accepting = br_accepting b,
      bs_draining = br_draining b, bs_closed = br_closed b, bs_worker = worker_running,
      bs_error = br_error b, bs_in_flight = br_in_flight b,
      bs_phase = Some (phase_value (lifecycle_phase b)), bs_circuit = Some (circuit_value (cb_state (br_circuit b))),
      bs_cooldown = Some (cooldown_remaining (br_circuit b) now)\<rparr>"

definition status_dict :: "broker_status \<Rightarrow> pyval" where
  "status_dict s =
     PDict [(''state'', PStr (state_value (bs_state s))), (''state_since'', PStr (bs_since s)),
       (''active_kind'', opt_text_val (map_option kind_value (bs_kind s))), (''active_model'', opt_text_val (bs_model s)),
       (''queue_depth'', PInt (bs_depth s)), (''queue_capacity'', PInt (bs_capacity s)),
       (''accepting'', PBool (bs_accepting s)), (''draining'', PBool (bs_draining s)), (''closed'', PBool (bs_closed s)),
       (''worker_running'', PBool (bs_worker s)), (''last_error'', opt_text_val (bs_error s)),
       (''in_flight_requests'', PInt (bs_in_flight s)), (''lifecycle_phase'', opt_text_val (bs_phase s)),
       (''circuit_state'', opt_text_val (bs_circuit s)), (''cooldown_remaining_sec'', opt_float_val (bs_cooldown s))]"

text \<open>\<open>_set_state\<close>, \<open>_set_fault\<close> (a message, and the class name for an empty one), the guards and
  the names of a role.\<close>

definition set_state :: "bstate \<Rightarrow> string \<Rightarrow> broker \<Rightarrow> broker" where
  "set_state st ts b = (if br_state b \<noteq> st then b\<lparr>br_state := st, br_since := ts, br_changed := True\<rparr> else b)"

definition set_fault :: "string \<Rightarrow> string \<Rightarrow> string \<Rightarrow> broker \<Rightarrow> broker" where
  "set_fault class_name msg ts b =
     (let stripped = py_strip msg; detail = (if stripped = [] then class_name else stripped) in
      set_state BFault ts (b\<lparr>br_error := Some (py_take 1000 detail)\<rparr>))"

definition set_fault_text :: "string \<Rightarrow> string \<Rightarrow> broker \<Rightarrow> broker" where
  "set_fault_text msg ts b = set_state BFault ts (b\<lparr>br_error := Some (py_take 1000 msg)\<rparr>)"

definition ensure_open :: "broker \<Rightarrow> broker_error + unit" where
  "ensure_open b =
     (if br_closed b then Inl (BrokerClosed ''model broker is closed'')
      else if br_draining b \<or> \<not> br_accepting b then Inl (BrokerClosed ''model broker is draining'')
      else Inr ())"

definition model_for :: "broker \<Rightarrow> mkind \<Rightarrow> string" where
  "model_for b k = (case k of LLM \<Rightarrow> br_llm_model b | VLM \<Rightarrow> br_vlm_model b)"

fun ready_state :: "mkind \<Rightarrow> bstate" where
  "ready_state LLM = BLlmReady"
| "ready_state VLM = BVlmReady"

fun loading_state :: "mkind \<Rightarrow> bstate" where
  "loading_state LLM = BLlmLoading"
| "loading_state VLM = BVlmLoading"

definition or_float :: "pyfloat option \<Rightarrow> pyfloat \<Rightarrow> pyfloat" where
  "or_float t d = (case t of None \<Rightarrow> d | Some x \<Rightarrow> if x = Fin 0 then d else x)"

section \<open>Runtime calls\<close>

text \<open>How an awaited runtime call can end: with a value, at its deadline, because the runtime
  lacks the method, with an invalid transition of its own, cancelled, or with another exception
  (its class name and text).\<close>

datatype 'v outcome = Returned 'v | TimedOut | Missing | Invalid string | Cancelled | Raised string string

text \<open>\<open>_runtime_call_locked\<close>: the exception a call that did not return leaves.\<close>

definition call_message :: "pyfmt \<Rightarrow> string \<Rightarrow> pyfloat \<Rightarrow> 'v outcome \<Rightarrow> string \<times> string" where
  "call_message F method timeout out =
     (case out of
        TimedOut \<Rightarrow> (''BrokerTimeoutError'', ''runtime '' @ method @ '' timed out after '' @ fixed F 2 timeout @ ''s'')
      | Missing \<Rightarrow> (''InvalidStateTransition'', ''runtime does not implement async '' @ method @ ''()'')
      | Invalid m \<Rightarrow> (''InvalidStateTransition'', m)
      | Raised c m \<Rightarrow> (c, m)
      | _ \<Rightarrow> ('''', ''''))"

section \<open>Activation\<close>

definition activate_guard :: "pyfmt \<Rightarrow> broker \<Rightarrow> pyfloat \<Rightarrow> pyfloat \<Rightarrow> broker \<times> (broker_error + unit)" where
  "activate_guard F b now now2 =
     (case ensure_open b of
        Inl e \<Rightarrow> (b, Inl e)
      | Inr _ \<Rightarrow>
          (case allow_attempt (br_circuit b) now of (c, ok) \<Rightarrow>
             let b' = b\<lparr>br_circuit := c\<rparr> in
             if ok then (b', Inr ())
             else (b', Inl (BrokerBusy (''circuit breaker open; retry in ''
                        @ fixed F 1 (cooldown_remaining c now2) @ ''s'')))))"

text \<open>With the lifecycle lock held: \<open>None\<close> when the role is ready, else the role to stop first.\<close>

definition activate_enter :: "broker \<Rightarrow> mkind \<Rightarrow> string \<Rightarrow> broker \<times> (mkind \<times> string) option option" where
  "activate_enter b target ts =
     (if br_kind b = Some target \<and> br_state b = ready_state target then (b, None)
      else
        let st = (if target = LLM \<and> br_kind b = Some VLM then BRestoring else loading_state target);
            previous = (case br_kind b of None \<Rightarrow> None
              | Some k \<Rightarrow> Some (k, case br_model b of Some m \<Rightarrow> if m \<noteq> [] then m else model_for b k | None \<Rightarrow> model_for b k)) in
        (set_state st ts b, Some previous))"

definition activate_stopped :: "broker \<Rightarrow> broker" where
  "activate_stopped b = b\<lparr>br_kind := None, br_model := None\<rparr>"

definition activate_started :: "broker \<Rightarrow> mkind \<Rightarrow> string \<Rightarrow> broker" where
  "activate_started b target ts =
     set_state (ready_state target) ts
       (b\<lparr>br_kind := Some target, br_model := Some (model_for b target), br_error := None,
          br_circuit := record_success (br_circuit b)\<rparr>)"

text \<open>A call of the activation failed: the failure is recorded (which may raise itself), then the
  fault is set.\<close>

definition activate_failed ::
  "pyfmt \<Rightarrow> broker \<Rightarrow> mkind \<Rightarrow> string \<Rightarrow> 'v outcome \<Rightarrow> pyfloat \<Rightarrow> string \<Rightarrow> broker \<times> broker_error" where
  "activate_failed F b target method out now ts =
     (let (class_name, msg) = call_message F method (br_timeout b) out;
          text = (if out = Cancelled then ''activation cancelled'' else msg) in
      case record_failure (br_circuit b) text now of
        (c, Inl e) \<Rightarrow> (b\<lparr>br_circuit := c\<rparr>, BrokerRaised e)
      | (c, Inr _) \<Rightarrow>
          let b' = b\<lparr>br_circuit := c\<rparr> in
          (case out of
             Cancelled \<Rightarrow> (set_fault_text text ts b', BrokerCancelled)
           | TimedOut \<Rightarrow> (set_fault class_name msg ts b', BrokerTimeout msg)
           | Missing \<Rightarrow> (set_fault class_name msg ts b', InvalidTransition msg)
           | Invalid _ \<Rightarrow> (set_fault class_name msg ts b', InvalidTransition msg)
           | _ \<Rightarrow> (set_fault class_name msg ts b',
                   BrokerFault (''failed to activate '' @ kind_value target @ '': '' @ msg))))"

section \<open>Deactivation\<close>

text \<open>With the lifecycle lock held: \<open>None\<close> when nothing is active, else the role to stop.\<close>

definition deactivate_enter :: "broker \<Rightarrow> string \<Rightarrow> broker \<times> (broker_error + (mkind \<times> string) option)" where
  "deactivate_enter b ts =
     (case br_kind b of
        None \<Rightarrow> (set_state BIdle ts b, Inr None)
      | Some k \<Rightarrow>
          if 0 < br_in_flight b then (b, Inl (BrokerBusy ''cannot unload while inference is in flight''))
          else (set_state BUnloading ts b,
                Inr (Some (k, case br_model b of Some m \<Rightarrow> if m \<noteq> [] then m else model_for b k | None \<Rightarrow> model_for b k))))"

definition deactivate_stopped :: "broker \<Rightarrow> string \<Rightarrow> broker" where
  "deactivate_stopped b ts = set_state BIdle ts (b\<lparr>br_kind := None, br_model := None\<rparr>)"

text \<open>A cancelled stop leaves the broker as it is; any other failure is recorded.\<close>

definition deactivate_failed ::
  "pyfmt \<Rightarrow> broker \<Rightarrow> mkind \<Rightarrow> pyfloat \<Rightarrow> 'v outcome \<Rightarrow> pyfloat \<Rightarrow> string \<Rightarrow> broker \<times> broker_error" where
  "deactivate_failed F b k timeout out now ts =
     (if out = Cancelled then (b, BrokerCancelled)
      else
        let (class_name, msg) = call_message F ''stop'' timeout out in
        case record_failure (br_circuit b) msg now of
          (c, Inl e) \<Rightarrow> (b\<lparr>br_circuit := c\<rparr>, BrokerRaised e)
        | (c, Inr _) \<Rightarrow>
            (set_fault class_name msg ts (b\<lparr>br_circuit := c\<rparr>),
             case out of TimedOut \<Rightarrow> BrokerTimeout msg
             | Missing \<Rightarrow> InvalidTransition msg
             | Invalid _ \<Rightarrow> InvalidTransition msg
             | _ \<Rightarrow> BrokerFault (''failed to stop '' @ kind_value k @ '': '' @ msg)))"

text \<open>\<open>unload\<close> before it waits: the deadline of the stop call.\<close>

definition unload_guard :: "broker \<Rightarrow> pyfloat option \<Rightarrow> broker_error + pyfloat" where
  "unload_guard b timeout_arg =
     (if br_closed b then Inl (BrokerClosed ''model broker is closed'')
      else let timeout = or_float timeout_arg (br_timeout b) in
        if fle timeout (Fin 0) then Inl (BrokerRaised PyValueError) else Inr timeout)"

section \<open>Chat\<close>

text \<open>\<open>chat\<close> until it awaits the result: admission to the bounded queue.\<close>

definition chat_enqueue :: "pyfmt \<Rightarrow> broker \<Rightarrow> chat_request \<Rightarrow> pyfloat \<Rightarrow> broker \<times> (broker_error + pyfloat)" where
  "chat_enqueue F b request now =
     (case ensure_open b of
        Inl e \<Rightarrow> (b, Inl e)
      | Inr _ \<Rightarrow>
          let timeout = or_float (rq_timeout request) (br_timeout b) in
          if fle timeout (Fin 0) then (b, Inl (BrokerRaised PyValueError))
          else if br_capacity b \<le> int (length (br_queue b))
          then (b, Inl (BrokerQueueFull (''chat queue is full ('' @ show_int (br_capacity b) @ '' requests)'')))
          else (b\<lparr>br_queue := br_queue b @ [\<lparr>qc_request = request, qc_deadline = fadd now timeout, qc_done = False\<rparr>]\<rparr>,
                Inr timeout))"

text \<open>The arguments of \<open>chat\<close>: a request, or messages from which one is made.\<close>

definition chat_request_of ::
  "pyfmt \<Rightarrow> chat_request + pyval list \<Rightarrow> string option \<Rightarrow> int \<Rightarrow> pyfloat option \<Rightarrow> py_exc + chat_request" where
  "chat_request_of F messages request_id monotonic_ns timeout =
     (case messages of
        Inl r \<Rightarrow> Inr r
      | Inr ms \<Rightarrow> make_request F ms
          (case request_id of Some i \<Rightarrow> if i \<noteq> [] then i else ''chat-'' @ show_int monotonic_ns
           | None \<Rightarrow> ''chat-'' @ show_int monotonic_ns) timeout)"

definition chat_timed_out :: "pyfmt \<Rightarrow> pyfloat \<Rightarrow> broker_error" where
  "chat_timed_out F timeout =
     BrokerTimeout (''chat request timed out after '' @ fixed F 2 timeout @ ''s including queue wait'')"

text \<open>The worker with the lifecycle lock held: \<open>None\<close> sends it back to activate the LLM.\<close>

definition chat_claim :: "broker \<Rightarrow> pyfloat \<Rightarrow> pyfloat \<Rightarrow> string \<Rightarrow> broker \<times> (broker_error + pyfloat option)" where
  "chat_claim b deadline now ts =
     (if br_kind b \<noteq> Some LLM \<or> br_state b \<noteq> BLlmReady then (b, Inr None)
      else
        let remaining = fsub deadline now in
        if fle remaining (Fin 0) then (b, Inl (BrokerTimeout ''chat request deadline expired before inference''))
        else
          let b' = b\<lparr>br_in_flight := br_in_flight b + 1\<rparr> in
          (if br_state b' = BLlmReady \<or> br_state b' = BVlmReady then set_state BBusy ts b' else b', Inr (Some remaining)))"

text \<open>The \<open>finally\<close> of the call, with both locks held.\<close>

definition chat_finish :: "broker \<Rightarrow> string \<Rightarrow> broker" where
  "chat_finish b ts =
     (let b' = b\<lparr>br_in_flight := max 0 (br_in_flight b - 1)\<rparr> in
      if br_in_flight b' = 0 \<and> br_kind b' = Some LLM then set_state BLlmReady ts b' else b')"

text \<open>The handlers of the worker: what the caller gets and what becomes of the broker.\<close>

definition chat_failed :: "broker \<Rightarrow> broker_error \<Rightarrow> string \<Rightarrow> string \<Rightarrow> string \<Rightarrow> broker \<times> broker_error" where
  "chat_failed b e class_name msg ts =
     (case e of
        BrokerCancelled \<Rightarrow> (b, BrokerClosed ''chat worker was cancelled'')
      | BrokerTimeout m \<Rightarrow> (set_fault ''BrokerTimeoutError'' m ts b, e)
      | BrokerFault _ \<Rightarrow> (b, e)
      | _ \<Rightarrow> (set_fault class_name msg ts b, BrokerFault (''chat request failed: '' @ msg)))"

datatype raw_response = RawResponse chat_response | RawText string | RawMapping "(string \<times> pyval) list" | RawOther string

definition first_truthy :: "pyval list \<Rightarrow> pyval" where
  "first_truthy vs = (case dropWhile (\<lambda>v. \<not> py_truthy v) vs of [] \<Rightarrow> (if vs = [] then PNone else last vs) | v # _ \<Rightarrow> v)"

definition elapsed_ms :: "pyfloat \<Rightarrow> pyfloat" where
  "elapsed_ms elapsed = fmul elapsed (Fin 1000)"

definition latency_of :: "(string \<times> pyval) list \<Rightarrow> pyfloat \<Rightarrow> py_exc + pyfloat" where
  "latency_of d elapsed =
     (case (if has_key d ''latency_ms'' then py_floatE (dget d ''latency_ms'') else Inr (elapsed_ms elapsed)) of
        Inr x \<Rightarrow> Inr x
      | Inl e \<Rightarrow> if e = PyTypeError \<or> e = PyValueError then Inr (elapsed_ms elapsed) else Inl e)"

definition lift_exc :: "py_exc + 'a \<Rightarrow> broker_error + 'a" where
  "lift_exc m = (case m of Inl e \<Rightarrow> Inl (BrokerRaised e) | Inr x \<Rightarrow> Inr x)"

definition normalize_response ::
  "pyfmt \<Rightarrow> broker \<Rightarrow> raw_response \<Rightarrow> chat_request \<Rightarrow> pyfloat \<Rightarrow> broker_error + chat_response" where
  "normalize_response F b raw request elapsed =
     (case raw of
        RawResponse r \<Rightarrow>
          if rs_id r = rq_id request then Inr r
          else lift_exc (make_response (rs_text r) (rs_model r) (rq_id request) (rs_latency r) (rs_metadata r))
      | RawText t \<Rightarrow> lift_exc (make_response t (br_llm_model b) (rq_id request) (elapsed_ms elapsed) (PDict []))
      | RawMapping d \<Rightarrow>
          (case first_truthy [dget d ''text'', dget d ''content'', dget d ''response''] of
             PStr t \<Rightarrow>
               if py_strip t = [] then Inl (BrokerFault ''runtime returned a response without text'')
               else
                 let model = (if py_truthy (dget d ''model'') then str_text F (dget d ''model'') else br_llm_model b) in
                 bindE (lift_exc (latency_of d elapsed)) (\<lambda>latency.
                 lift_exc (make_response t model (rq_id request) latency (PDict d)))
           | _ \<Rightarrow> Inl (BrokerFault ''runtime returned a response without text''))
      | RawOther name \<Rightarrow> Inl (BrokerFault (''runtime returned unsupported response type: '' @ name)))"

section \<open>Exclusive use of a model\<close>

definition use_guard :: "broker \<Rightarrow> kind_arg \<Rightarrow> bool \<Rightarrow> pyfloat option \<Rightarrow> broker_error + mkind \<times> pyfloat" where
  "use_guard b kind is_callable timeout_arg =
     bindE (lift_exc (normalize_model_kind kind)) (\<lambda>target.
     bindE (ensure_open b) (\<lambda>_.
     bindE (guardE is_callable (BrokerRaised PyTypeError)) (\<lambda>_.
     let timeout = or_float timeout_arg (br_timeout b) in
     bindE (guardE (\<not> fle timeout (Fin 0)) (BrokerRaised PyValueError)) (\<lambda>_.
     Inr (target, timeout)))))"

text \<open>With the lifecycle lock held: \<open>None\<close> sends the caller back to activate the role.\<close>

definition use_claim :: "broker \<Rightarrow> mkind \<Rightarrow> pyfloat \<Rightarrow> pyfloat \<Rightarrow> broker_error + pyfloat option" where
  "use_claim b target deadline now =
     (if br_kind b \<noteq> Some target \<or> br_state b \<noteq> ready_state target then Inr None
      else
        let remaining = fsub deadline now in
        if fle remaining (Fin 0) then Inl (BrokerTimeout (kind_value target @ '' operation timed out before execution''))
        else Inr (Some remaining))"

definition use_timed_out :: "pyfmt \<Rightarrow> broker \<Rightarrow> mkind \<Rightarrow> pyfloat \<Rightarrow> string \<Rightarrow> broker \<times> broker_error" where
  "use_timed_out F b target timeout ts =
     (let msg = kind_value target @ '' operation timed out after '' @ fixed F 2 timeout @ ''s'' in
      (set_fault ''BrokerTimeoutError'' msg ts b, BrokerTimeout msg))"

section \<open>Draining and closing\<close>

text \<open>\<open>drain\<close> before it waits: \<open>None\<close> on a closed broker.\<close>

definition drain_begin :: "broker \<Rightarrow> pyfloat option \<Rightarrow> broker \<times> (broker_error + pyfloat option)" where
  "drain_begin b timeout_arg =
     (if br_closed b then (b, Inr None)
      else let timeout = or_float timeout_arg (br_drain_timeout b) in
        if fle timeout (Fin 0) then (b, Inl (BrokerRaised PyValueError))
        else (b\<lparr>br_accepting := False, br_draining := True\<rparr>, Inr (Some timeout)))"

definition drain_timed_out :: "pyfmt \<Rightarrow> broker \<Rightarrow> pyfloat \<Rightarrow> string \<Rightarrow> broker \<times> broker_error" where
  "drain_timed_out F b timeout ts =
     (let msg = ''drain timed out after '' @ fixed F 2 timeout @ ''s'' in
      (set_fault ''BrokerTimeoutError'' msg ts b, BrokerTimeout msg))"

text \<open>The handler of \<open>close\<close> around the stop, then its \<open>finally\<close>.\<close>

definition close_failed :: "broker \<Rightarrow> broker_error option \<Rightarrow> broker_error \<Rightarrow> string \<Rightarrow> string \<Rightarrow> string
    \<Rightarrow> broker \<times> broker_error option" where
  "close_failed b drain_error e class_name msg ts =
     (set_fault class_name msg ts b,
      case drain_error of Some d \<Rightarrow> Some d
      | None \<Rightarrow> Some (case e of BrokerTimeout m \<Rightarrow> BrokerTimeout m | _ \<Rightarrow> BrokerTimeout msg))"

definition close_finally :: "broker \<Rightarrow> broker" where
  "close_finally b = b\<lparr>br_closed := True, br_accepting := False, br_draining := True\<rparr>"

end
