(* ===== verification/BrokerRun.thy ===== *)
theory BrokerRun
  imports Broker
begin

text \<open>
  The interleaving of the operations of the broker. A task stands at an await: for one of the
  two locks, for a runtime call, or for the queue. Task 0 is the chat worker. A step of task
  \<open>i\<close> is the code it runs from one await to the next; \<open>goto\<close> moves the task on and takes or
  releases the locks by its new place. Clock readings, time stamps and outcomes of runtime
  calls are arbitrary.
\<close>

text \<open>Who asked for an activation: a caller of \<open>activate\<close>, the worker for a request, or
  \<open>use_model\<close> with its deadline.\<close>

datatype purpose = Direct | ForChat queued_chat | ForUse pyfloat

datatype task =
    Absent
  | WorkerIdle
  | ActWait purpose mkind
  | ActRuntime purpose mkind "mkind option"
  | ActStop purpose mkind mkind
  | ActStart purpose mkind
  | ChatWait queued_chat
  | ChatRuntime queued_chat
  | ChatCall queued_chat
  | ChatFinish queued_chat "raw_response outcome"
  | UseWait mkind pyfloat
  | UseRuntime mkind pyfloat
  | UseCall mkind pyfloat
  | StopWait pyfloat
  | StopRuntime pyfloat mkind
  | StopCall pyfloat mkind

fun holds_life :: "task \<Rightarrow> bool" where
  "holds_life (ActRuntime _ _ _) = True"
| "holds_life (ActStop _ _ _) = True"
| "holds_life (ActStart _ _) = True"
| "holds_life (UseRuntime _ _) = True"
| "holds_life (UseCall _ _) = True"
| "holds_life (StopRuntime _ _) = True"
| "holds_life (StopCall _ _) = True"
| "holds_life _ = False"

fun holds_rt :: "task \<Rightarrow> bool" where
  "holds_rt (ActStop _ _ _) = True"
| "holds_rt (ActStart _ _) = True"
| "holds_rt (ChatCall _) = True"
| "holds_rt (ChatFinish _ _) = True"
| "holds_rt (UseCall _ _) = True"
| "holds_rt (StopCall _ _) = True"
| "holds_rt _ = False"

text \<open>A call of the runtime, or of a \<open>use_model\<close> operation, is in progress.\<close>

fun in_call :: "task \<Rightarrow> bool" where
  "in_call (ActStop _ _ _) = True"
| "in_call (ActStart _ _) = True"
| "in_call (ChatCall _) = True"
| "in_call (UseCall _ _) = True"
| "in_call (StopCall _ _) = True"
| "in_call _ = False"

text \<open>\<open>sy_loaded\<close> records the roles whose start returned and whose stop has not since.\<close>

record sys =
  sy_broker :: broker
  sy_life :: "nat option"
  sy_rt :: "nat option"
  sy_tasks :: "nat \<Rightarrow> task"
  sy_loaded :: "mkind set"

definition start_sys :: "broker \<Rightarrow> sys" where
  "start_sys b = \<lparr>sy_broker = b, sy_life = None, sy_rt = None, sy_tasks = (\<lambda>_. Absent), sy_loaded = {}\<rparr>"

definition owner_after :: "nat \<Rightarrow> bool \<Rightarrow> nat option \<Rightarrow> nat option" where
  "owner_after i holds owner = (if holds then Some i else if owner = Some i then None else owner)"

definition goto :: "nat \<Rightarrow> task \<Rightarrow> broker \<Rightarrow> sys \<Rightarrow> sys" where
  "goto i t b s = s\<lparr>sy_broker := b, sy_life := owner_after i (holds_life t) (sy_life s),
     sy_rt := owner_after i (holds_rt t) (sy_rt s), sy_tasks := (sy_tasks s)(i := t)\<rparr>"

definition free_for :: "nat \<Rightarrow> nat option \<Rightarrow> bool" where
  "free_for i owner = (owner = None \<or> owner = Some i)"

text \<open>Where a task goes when its activation returns, and when it raised \<open>e\<close>: the worker handles
  the exception and takes the next request, unless it was cancelled.\<close>

fun after_activation :: "purpose \<Rightarrow> mkind \<Rightarrow> task" where
  "after_activation Direct k = Absent"
| "after_activation (ForChat q) k = ChatWait q"
| "after_activation (ForUse d) k = UseWait k d"

definition worker_after :: "broker_error \<Rightarrow> task" where
  "worker_after e = (if e = BrokerCancelled then Absent else WorkerIdle)"

fun leave_activation :: "purpose \<Rightarrow> broker \<Rightarrow> broker_error \<Rightarrow> string \<Rightarrow> string \<Rightarrow> string \<Rightarrow> broker \<times> task" where
  "leave_activation (ForChat q) b e c m ts = (fst (chat_failed b e c m ts), worker_after e)"
| "leave_activation _ b e c m ts = (b, Absent)"

text \<open>One round of the loops of the worker and of \<open>use_model\<close>: the deadline, then the guard of
  \<open>activate\<close>.\<close>

definition activation_round ::
  "pyfmt \<Rightarrow> broker \<Rightarrow> purpose \<Rightarrow> mkind \<Rightarrow> pyfloat \<Rightarrow> pyfloat \<Rightarrow> pyfloat \<Rightarrow> pyfloat \<Rightarrow> string \<Rightarrow> string \<Rightarrow> string
     \<Rightarrow> broker \<times> task" where
  "activation_round F b p k deadline now now2 now3 c m ts =
     (if fle (fsub deadline now) (Fin 0)
      then leave_activation p b (BrokerTimeout ''deadline expired before the activation'') c m ts
      else case activate_guard F b now2 now3 of
        (b', Inr _) \<Rightarrow> (b', ActWait p k)
      | (b', Inl e) \<Rightarrow> leave_activation p b' e c m ts)"

text \<open>The exception of a chat call that did not return.\<close>

definition chat_error :: "pyfmt \<Rightarrow> raw_response outcome \<Rightarrow> pyfloat \<Rightarrow> broker_error" where
  "chat_error F out remaining =
     (let (c, m) = call_message F ''chat'' remaining out in
      case out of TimedOut \<Rightarrow> BrokerTimeout m | Cancelled \<Rightarrow> BrokerCancelled | _ \<Rightarrow> InvalidTransition m)"

text \<open>The end of a request: the response, or the handlers of the worker.\<close>

definition chat_settle ::
  "pyfmt \<Rightarrow> broker \<Rightarrow> queued_chat \<Rightarrow> raw_response outcome \<Rightarrow> pyfloat \<Rightarrow> pyfloat \<Rightarrow> string \<Rightarrow> string \<Rightarrow> string
     \<Rightarrow> broker \<times> task" where
  "chat_settle F b q out elapsed remaining c m ts =
     (case out of
        Returned raw \<Rightarrow>
          (case normalize_response F b raw (qc_request q) elapsed of
             Inr _ \<Rightarrow> (b, WorkerIdle)
           | Inl e \<Rightarrow> (fst (chat_failed b e c m ts), WorkerIdle))
      | _ \<Rightarrow> let e = chat_error F out remaining in (fst (chat_failed b e c m ts), worker_after e))"

inductive bstep :: "pyfmt \<Rightarrow> nat \<Rightarrow> sys \<Rightarrow> sys \<Rightarrow> bool" for F where
  Activate: "sy_tasks s i = Absent \<Longrightarrow> i \<noteq> 0 \<Longrightarrow> activate_guard F (sy_broker s) now now2 = (b, r) \<Longrightarrow>
     bstep F i s (goto i (case r of Inr _ \<Rightarrow> ActWait Direct k | Inl _ \<Rightarrow> Absent) b s)"
| ActReady: "sy_tasks s i = ActWait p k \<Longrightarrow> sy_life s = None \<Longrightarrow>
     activate_enter (sy_broker s) k ts = (b, None) \<Longrightarrow> bstep F i s (goto i (after_activation p k) b s)"
| ActEnter: "sy_tasks s i = ActWait p k \<Longrightarrow> sy_life s = None \<Longrightarrow>
     activate_enter (sy_broker s) k ts = (b, Some prev) \<Longrightarrow>
     bstep F i s (goto i (ActRuntime p k (map_option fst prev)) b s)"
| ActAcquire: "sy_tasks s i = ActRuntime p k prev \<Longrightarrow> sy_rt s = None \<Longrightarrow>
     bstep F i s (goto i (case prev of None \<Rightarrow> ActStart p k | Some k' \<Rightarrow> ActStop p k k') (sy_broker s) s)"
| ActStopped: "sy_tasks s i = ActStop p k k' \<Longrightarrow>
     bstep F i s (goto i (ActStart p k) (activate_stopped (sy_broker s)) (s\<lparr>sy_loaded := sy_loaded s - {k'}\<rparr>))"
| ActStopFailed: "sy_tasks s i = ActStop p k k' \<Longrightarrow> out \<noteq> Returned () \<Longrightarrow>
     activate_failed F (sy_broker s) k ''stop'' out now ts = (b, e) \<Longrightarrow>
     leave_activation p b e c m ts2 = (b', t) \<Longrightarrow> bstep F i s (goto i t b' s)"
| ActStarted: "sy_tasks s i = ActStart p k \<Longrightarrow>
     bstep F i s (goto i (after_activation p k) (activate_started (sy_broker s) k ts) (s\<lparr>sy_loaded := insert k (sy_loaded s)\<rparr>))"
| ActStartFailed: "sy_tasks s i = ActStart p k \<Longrightarrow> out \<noteq> Returned () \<Longrightarrow>
     activate_failed F (sy_broker s) k ''start'' out now ts = (b, e) \<Longrightarrow>
     leave_activation p b e c m ts2 = (b', t) \<Longrightarrow> bstep F i s (goto i t b' s)"
| ChatEnqueue: "chat_enqueue F (sy_broker s) request now = (b, r) \<Longrightarrow> sy_tasks s 0 = Absent \<Longrightarrow>
     bstep F 0 s (goto 0 (case r of Inr _ \<Rightarrow> WorkerIdle | Inl _ \<Rightarrow> Absent) b s)"
| ChatEnqueueBusy: "chat_enqueue F (sy_broker s) request now = (b, r) \<Longrightarrow> sy_tasks s 0 \<noteq> Absent \<Longrightarrow>
     bstep F 0 s (s\<lparr>sy_broker := b\<rparr>)"
| ChatGone: "j < length (br_queue (sy_broker s)) \<Longrightarrow>
     bstep F 0 s (s\<lparr>sy_broker := (sy_broker s)\<lparr>br_queue :=
        (br_queue (sy_broker s))[j := (br_queue (sy_broker s) ! j)\<lparr>qc_done := True\<rparr>]\<rparr>\<rparr>)"
| ChatSkip: "sy_tasks s 0 = WorkerIdle \<Longrightarrow> br_queue (sy_broker s) = q # qs \<Longrightarrow> qc_done q \<Longrightarrow>
     bstep F 0 s (s\<lparr>sy_broker := (sy_broker s)\<lparr>br_queue := qs\<rparr>\<rparr>)"
| ChatTake: "sy_tasks s 0 = WorkerIdle \<Longrightarrow> br_queue (sy_broker s) = q # qs \<Longrightarrow> \<not> qc_done q \<Longrightarrow>
     activation_round F ((sy_broker s)\<lparr>br_queue := qs\<rparr>) (ForChat q) LLM (qc_deadline q) now now2 now3 c m ts = (b, t) \<Longrightarrow>
     bstep F 0 s (goto 0 t b s)"
| ChatClaim: "sy_tasks s 0 = ChatWait q \<Longrightarrow> sy_life s = None \<Longrightarrow>
     chat_claim (sy_broker s) (qc_deadline q) now ts = (b, Inr (Some remaining)) \<Longrightarrow>
     bstep F 0 s (goto 0 (if sy_rt s = None then ChatCall q else ChatRuntime q) b s)"
| ChatRetry: "sy_tasks s 0 = ChatWait q \<Longrightarrow> sy_life s = None \<Longrightarrow>
     chat_claim (sy_broker s) (qc_deadline q) now ts = (b, Inr None) \<Longrightarrow>
     activation_round F b (ForChat q) LLM (qc_deadline q) now1 now2 now3 c m ts2 = (b', t) \<Longrightarrow>
     bstep F 0 s (goto 0 t b' s)"
| ChatLate: "sy_tasks s 0 = ChatWait q \<Longrightarrow> sy_life s = None \<Longrightarrow>
     chat_claim (sy_broker s) (qc_deadline q) now ts = (b, Inl e) \<Longrightarrow>
     bstep F 0 s (goto 0 WorkerIdle (fst (chat_failed b e c m ts2)) s)"
| ChatAcquire: "sy_tasks s 0 = ChatRuntime q \<Longrightarrow> sy_rt s = None \<Longrightarrow> bstep F 0 s (goto 0 (ChatCall q) (sy_broker s) s)"
| ChatReturn: "sy_tasks s 0 = ChatCall q \<Longrightarrow> bstep F 0 s (goto 0 (ChatFinish q out) (sy_broker s) s)"
| ChatDone: "sy_tasks s 0 = ChatFinish q out \<Longrightarrow> sy_life s = None \<Longrightarrow>
     chat_settle F (chat_finish (sy_broker s) ts) q out elapsed remaining c m ts2 = (b, t) \<Longrightarrow>
     bstep F 0 s (goto 0 t b s)"
| Use: "sy_tasks s i = Absent \<Longrightarrow> i \<noteq> 0 \<Longrightarrow> use_guard (sy_broker s) kind is_callable timeout_arg = Inr (k, timeout) \<Longrightarrow>
     activation_round F (sy_broker s) (ForUse deadline) k deadline now now2 now3 c m ts = (b, t) \<Longrightarrow>
     bstep F i s (goto i t b s)"
| UseRetry: "sy_tasks s i = UseWait k deadline \<Longrightarrow> sy_life s = None \<Longrightarrow>
     use_claim (sy_broker s) k deadline now = Inr None \<Longrightarrow>
     activation_round F (sy_broker s) (ForUse deadline) k deadline now1 now2 now3 c m ts = (b, t) \<Longrightarrow>
     bstep F i s (goto i t b s)"
| UseLate: "sy_tasks s i = UseWait k deadline \<Longrightarrow> sy_life s = None \<Longrightarrow>
     use_claim (sy_broker s) k deadline now = Inl e \<Longrightarrow> bstep F i s (goto i Absent (sy_broker s) s)"
| UseClaim: "sy_tasks s i = UseWait k deadline \<Longrightarrow> sy_life s = None \<Longrightarrow>
     use_claim (sy_broker s) k deadline now = Inr (Some remaining) \<Longrightarrow>
     bstep F i s (goto i (UseRuntime k remaining) (sy_broker s) s)"
| UseAcquire: "sy_tasks s i = UseRuntime k remaining \<Longrightarrow> sy_rt s = None \<Longrightarrow>
     bstep F i s (goto i (UseCall k remaining) (sy_broker s) s)"
| UseDone: "sy_tasks s i = UseCall k remaining \<Longrightarrow> bstep F i s (goto i Absent (sy_broker s) s)"
| UseTimeout: "sy_tasks s i = UseCall k remaining \<Longrightarrow> use_timed_out F (sy_broker s) k timeout ts = (b, e) \<Longrightarrow>
     bstep F i s (goto i Absent b s)"
| Unload: "sy_tasks s i = Absent \<Longrightarrow> i \<noteq> 0 \<Longrightarrow> unload_guard (sy_broker s) timeout_arg = Inr timeout \<Longrightarrow>
     bstep F i s (goto i (StopWait timeout) (sy_broker s) s)"
| CloseStop: "sy_tasks s i = Absent \<Longrightarrow> i \<noteq> 0 \<Longrightarrow> bstep F i s (goto i (StopWait timeout) (sy_broker s) s)"
| StopNone: "sy_tasks s i = StopWait timeout \<Longrightarrow> sy_life s = None \<Longrightarrow>
     deactivate_enter (sy_broker s) ts = (b, r) \<Longrightarrow> r = Inr None \<or> r = Inl e \<Longrightarrow> bstep F i s (goto i Absent b s)"
| StopEnter: "sy_tasks s i = StopWait timeout \<Longrightarrow> sy_life s = None \<Longrightarrow>
     deactivate_enter (sy_broker s) ts = (b, Inr (Some (k, model))) \<Longrightarrow> bstep F i s (goto i (StopRuntime timeout k) b s)"
| StopAcquire: "sy_tasks s i = StopRuntime timeout k \<Longrightarrow> sy_rt s = None \<Longrightarrow>
     bstep F i s (goto i (StopCall timeout k) (sy_broker s) s)"
| StopDone: "sy_tasks s i = StopCall timeout k \<Longrightarrow>
     bstep F i s (goto i Absent (deactivate_stopped (sy_broker s) ts) (s\<lparr>sy_loaded := sy_loaded s - {k}\<rparr>))"
| StopFailed: "sy_tasks s i = StopCall timeout k \<Longrightarrow> out \<noteq> Returned () \<Longrightarrow>
     deactivate_failed F (sy_broker s) k timeout out now ts = (b, e) \<Longrightarrow> bstep F i s (goto i Absent b s)"
| Drain: "drain_begin (sy_broker s) timeout_arg = (b, r) \<Longrightarrow> bstep F i s (s\<lparr>sy_broker := b\<rparr>)"
| DrainTimeout: "drain_timed_out F (sy_broker s) timeout ts = (b, e) \<Longrightarrow> bstep F i s (s\<lparr>sy_broker := b\<rparr>)"
| CloseFailed: "close_failed (sy_broker s) d e c m ts = (b, r) \<Longrightarrow> bstep F i s (s\<lparr>sy_broker := b\<rparr>)"
| CloseFinally: "bstep F i s (s\<lparr>sy_broker := close_finally (sy_broker s)\<rparr>)"

text \<open>A task is cancelled at its await: by its caller, by \<open>close\<close> (the worker), or by the deadline
  of \<open>wait_for\<close> around an activation. It leaves its locks; \<open>e\<close> is what its caller sees. (A
  cancelled call of \<open>chat\<close>, \<open>stop\<close> or a \<open>use_model\<close> operation is an outcome of that call.)\<close>

fun cancel_task :: "task \<Rightarrow> broker \<Rightarrow> broker_error \<Rightarrow> string \<Rightarrow> string \<Rightarrow> string \<Rightarrow> broker \<times> task" where
  "cancel_task (ActWait p k) b e c m ts = leave_activation p b e c m ts"
| "cancel_task (ActRuntime p k prev) b e c m ts = leave_activation p b e c m ts"
| "cancel_task t b e c m ts = (b, Absent)"

inductive cstep :: "pyfmt \<Rightarrow> nat \<Rightarrow> sys \<Rightarrow> sys \<Rightarrow> bool" for F where
  CancelWait: "\<not> in_call (sy_tasks s i) \<Longrightarrow> e = BrokerCancelled \<or> e = BrokerTimeout msg \<Longrightarrow>
     cancel_task (sy_tasks s i) (sy_broker s) e c m ts = (b, t) \<Longrightarrow> cstep F i s (goto i t b s)"
| CancelStop: "sy_tasks s i = ActStop p k k' \<Longrightarrow> e = BrokerCancelled \<or> e = BrokerTimeout msg \<Longrightarrow>
     activate_failed F (sy_broker s) k ''stop'' (Cancelled :: unit outcome) now ts = (b, e') \<Longrightarrow>
     leave_activation p b e c m ts2 = (b', t) \<Longrightarrow> cstep F i s (goto i t b' s)"
| CancelStart: "sy_tasks s i = ActStart p k \<Longrightarrow> e = BrokerCancelled \<or> e = BrokerTimeout msg \<Longrightarrow>
     activate_failed F (sy_broker s) k ''start'' (Cancelled :: unit outcome) now ts = (b, e') \<Longrightarrow>
     leave_activation p b e c m ts2 = (b', t) \<Longrightarrow> cstep F i s (goto i t b' s)"

inductive_cases bstepE: "bstep F i s s'"
inductive_cases cstepE: "cstep F i s s'"

text \<open>Runs of all tasks, and runs in which nothing is cancelled.\<close>

definition sys_step :: "pyfmt \<Rightarrow> sys \<Rightarrow> sys \<Rightarrow> bool" where
  "sys_step F s s' = (\<exists>i. bstep F i s s' \<or> cstep F i s s')"

definition own_step :: "pyfmt \<Rightarrow> sys \<Rightarrow> sys \<Rightarrow> bool" where
  "own_step F s s' = (\<exists>i. bstep F i s s')"

section \<open>The invariant\<close>

definition ready_ok :: "broker \<Rightarrow> bool" where
  "ready_ok b = ((br_state b = BLlmReady \<longrightarrow> br_kind b = Some LLM) \<and> (br_state b = BVlmReady \<longrightarrow> br_kind b = Some VLM))"

definition unready :: "broker \<Rightarrow> bool" where
  "unready b = (br_state b \<noteq> BLlmReady \<and> br_state b \<noteq> BVlmReady)"

text \<open>What a change of the broker that does not touch the active role keeps.\<close>

definition keeps :: "broker \<Rightarrow> broker \<Rightarrow> bool" where
  "keeps b b' = (br_kind b' = br_kind b \<and> (ready_ok b \<longrightarrow> ready_ok b') \<and> (unready b \<longrightarrow> unready b'))"

lemma keeps_refl [simp]: "keeps b b"
  by (simp add: keeps_def)

lemma keeps_trans: "keeps a b \<Longrightarrow> keeps b c \<Longrightarrow> keeps a c"
  by (simp add: keeps_def)

lemma keeps_fields [simp]:
  "keeps b (b\<lparr>br_circuit := x\<rparr>)" "keeps b (b\<lparr>br_error := y\<rparr>)" "keeps b (b\<lparr>br_queue := z\<rparr>)"
  "keeps b (b\<lparr>br_in_flight := n\<rparr>)" "keeps b (b\<lparr>br_accepting := p, br_draining := q\<rparr>)"
  "keeps b (b\<lparr>br_closed := p, br_accepting := q, br_draining := r\<rparr>)"
  by (simp_all add: keeps_def ready_ok_def unready_def)

lemma keeps_set_state: "st \<noteq> BLlmReady \<Longrightarrow> st \<noteq> BVlmReady \<Longrightarrow> keeps b (set_state st ts b)"
  by (auto simp: keeps_def ready_ok_def unready_def set_state_def)

lemma set_state_kind [simp]: "br_kind (set_state st ts b) = br_kind b"
  by (simp add: set_state_def)

lemma set_state_state [simp]: "br_state (set_state st ts b) = st"
  by (simp add: set_state_def)

lemma keeps_set_fault [simp]: "keeps b (set_fault c m ts b)" "keeps b (set_fault_text m ts b)"
  unfolding set_fault_def set_fault_text_def Let_def by (rule keeps_trans [OF _ keeps_set_state]; simp)+

lemma keeps_guard: "activate_guard F b now now2 = (b', r) \<Longrightarrow> keeps b b'"
  by (auto simp: activate_guard_def Let_def split: sum.splits prod.splits if_splits)

lemma keeps_enter: "activate_enter b k ts = (b', r) \<Longrightarrow> keeps b b'"
  by (cases k) (auto simp: activate_enter_def Let_def intro: keeps_set_state split: if_splits)

lemma keeps_failed: "activate_failed F b k method out now ts = (b', e) \<Longrightarrow> keeps b b'"
  by (auto simp: activate_failed_def Let_def intro: keeps_trans [OF keeps_fields(1) keeps_set_fault(1)]
      keeps_trans [OF keeps_fields(1) keeps_set_fault(2)] split: prod.splits sum.splits outcome.splits)

lemma keeps_chat_failed [simp]: "keeps b (fst (chat_failed b e c m ts))"
  by (cases e) (simp_all add: chat_failed_def)

lemma keeps_leave: "leave_activation p b e c m ts = (b', t) \<Longrightarrow> keeps b b'"
  by (cases p) (auto dest!: arg_cong [where f = fst])

lemma keeps_round: "activation_round F b p k d n1 n2 n3 c m ts = (b', t) \<Longrightarrow> keeps b b'"
  by (auto simp: activation_round_def dest: keeps_guard keeps_leave intro: keeps_trans split: if_splits prod.splits sum.splits)

lemma keeps_enqueue: "chat_enqueue F b request now = (b', r) \<Longrightarrow> keeps b b'"
  by (auto simp: chat_enqueue_def Let_def split: sum.splits if_splits)

lemma keeps_claim: "chat_claim b d now ts = (b', r) \<Longrightarrow> keeps b b'"
  by (auto simp: chat_claim_def Let_def intro: keeps_trans [OF keeps_fields(4) keeps_set_state] split: if_splits)

lemma keeps_settle: "chat_settle F b q out el rem c m ts = (b', t) \<Longrightarrow> keeps b b'"
  by (cases out) (auto simp: chat_settle_def Let_def split: sum.splits)

lemma keeps_use: "use_timed_out F b k t ts = (b', e) \<Longrightarrow> keeps b b'"
  by (auto simp: use_timed_out_def Let_def)

lemma keeps_deactivate_enter: "deactivate_enter b ts = (b', r) \<Longrightarrow> keeps b b'"
  by (auto simp: deactivate_enter_def Let_def intro: keeps_set_state split: option.splits if_splits)

lemma keeps_deactivate_failed: "deactivate_failed F b k t out now ts = (b', e) \<Longrightarrow> keeps b b'"
  by (auto simp: deactivate_failed_def Let_def intro: keeps_trans [OF keeps_fields(1) keeps_set_fault(1)]
      split: prod.splits sum.splits if_splits)

lemma keeps_drain: "drain_begin b t = (b', r) \<Longrightarrow> keeps b b'"
  by (auto simp: drain_begin_def Let_def split: if_splits)

lemma keeps_drain_timeout: "drain_timed_out F b t ts = (b', e) \<Longrightarrow> keeps b b'"
  by (auto simp: drain_timed_out_def Let_def)

lemma keeps_close: "close_failed b d e c m ts = (b', r) \<Longrightarrow> keeps b b'" "keeps b (close_finally b)"
  by (auto simp: close_failed_def close_finally_def)

lemma keeps_cancel: "cancel_task t b e c m ts = (b', t') \<Longrightarrow> keeps b b'"
  by (cases t) (auto dest: keeps_leave)

lemmas keeps_intros = keeps_guard keeps_enter keeps_failed keeps_leave keeps_round keeps_enqueue keeps_claim keeps_settle
  keeps_use keeps_deactivate_enter keeps_deactivate_failed keeps_drain keeps_drain_timeout keeps_close keeps_cancel

fun purpose_ok :: "nat \<Rightarrow> purpose \<Rightarrow> bool" where
  "purpose_ok i (ForChat q) = (i = 0)"
| "purpose_ok i p = (i \<noteq> 0)"

text \<open>What a task relies on at its await.\<close>

fun task_ok :: "broker \<Rightarrow> nat \<Rightarrow> task \<Rightarrow> bool" where
  "task_ok b i Absent = True"
| "task_ok b i WorkerIdle = (i = 0)"
| "task_ok b i (ActWait p k) = purpose_ok i p"
| "task_ok b i (ActRuntime p k prev) = (purpose_ok i p \<and> prev = br_kind b \<and> unready b)"
| "task_ok b i (ActStop p k k') = (purpose_ok i p \<and> br_kind b = Some k' \<and> unready b)"
| "task_ok b i (ActStart p k) = (purpose_ok i p \<and> br_kind b = None \<and> unready b)"
| "task_ok b i (ChatWait q) = (i = 0)"
| "task_ok b i (ChatRuntime q) = False"
| "task_ok b i (ChatCall q) = (i = 0 \<and> br_kind b = Some LLM \<and> unready b)"
| "task_ok b i (ChatFinish q out) = (i = 0)"
| "task_ok b i (UseWait k d) = (i \<noteq> 0)"
| "task_ok b i (UseRuntime k d) = (i \<noteq> 0 \<and> br_kind b = Some k)"
| "task_ok b i (UseCall k d) = (i \<noteq> 0 \<and> br_kind b = Some k)"
| "task_ok b i (StopWait t) = (i \<noteq> 0)"
| "task_ok b i (StopRuntime t k) = (i \<noteq> 0 \<and> br_kind b = Some k \<and> unready b)"
| "task_ok b i (StopCall t k) = (i \<noteq> 0 \<and> br_kind b = Some k \<and> unready b)"

definition sys_ok :: "sys \<Rightarrow> bool" where
  "sys_ok s = ((\<forall>i. holds_life (sy_tasks s i) = (sy_life s = Some i))
     \<and> (\<forall>i. holds_rt (sy_tasks s i) = (sy_rt s = Some i))
     \<and> sy_loaded s = set_option (br_kind (sy_broker s))
     \<and> ready_ok (sy_broker s)
     \<and> (\<forall>i. task_ok (sy_broker s) i (sy_tasks s i)))"

lemma task_ok_keeps: "keeps b b' \<Longrightarrow> task_ok b i t \<Longrightarrow> task_ok b' i t"
  by (cases t) (auto simp: keeps_def)

lemma task_ok_no_lock: "\<not> holds_life t \<Longrightarrow> br_kind b' = br_kind b \<Longrightarrow> i \<noteq> 0 \<Longrightarrow> task_ok b i t \<Longrightarrow> task_ok b' i t"
  by (cases t) auto

lemma task_ok_no_locks: "\<not> holds_life t \<Longrightarrow> \<not> holds_rt t \<Longrightarrow> task_ok b i t \<Longrightarrow> task_ok b' i t"
  by (cases t) auto

lemma sys_ok_task: "sys_ok s \<Longrightarrow> sy_tasks s i = t \<Longrightarrow> task_ok (sy_broker s) i t"
  by (auto simp: sys_ok_def)

lemma sys_ok_life: "sys_ok s \<Longrightarrow> sy_tasks s i = t \<Longrightarrow> holds_life t \<Longrightarrow> sy_life s = Some i"
  by (auto simp: sys_ok_def)

lemma sys_ok_rt: "sys_ok s \<Longrightarrow> sy_tasks s i = t \<Longrightarrow> holds_rt t \<Longrightarrow> sy_rt s = Some i"
  by (auto simp: sys_ok_def)

text \<open>A task moves on: it takes a lock only when it is free, and it changes the active role only
  with both locks.\<close>

lemma goto_ok:
  assumes ok: "sys_ok s" and t: "task_ok b i t" and l: "holds_life t \<Longrightarrow> free_for i (sy_life s)"
    and r: "holds_rt t \<Longrightarrow> free_for i (sy_rt s)" and rdy: "ready_ok b" and ld: "loaded = set_option (br_kind b)"
    and k: "keeps (sy_broker s) b \<or> (i = 0 \<and> free_for i (sy_life s) \<and> br_kind b = br_kind (sy_broker s))
      \<or> (sy_life s = Some i \<and> sy_rt s = Some i)"
  shows "sys_ok (goto i t b (s\<lparr>sy_loaded := loaded\<rparr>))"
proof -
  have hl: "holds_life (sy_tasks s j) = (sy_life s = Some j)" and hr: "holds_rt (sy_tasks s j) = (sy_rt s = Some j)"
    and tk: "task_ok (sy_broker s) j (sy_tasks s j)" for j
    using ok by (simp_all add: sys_ok_def)
  have "task_ok b j (sy_tasks s j)" if "j \<noteq> i" for j
    using k
  proof (elim disjE)
    assume "keeps (sy_broker s) b"
    then show ?thesis using tk by (rule task_ok_keeps)
  next
    assume a: "i = 0 \<and> free_for i (sy_life s) \<and> br_kind b = br_kind (sy_broker s)"
    then have "\<not> holds_life (sy_tasks s j)" using hl that by (auto simp: free_for_def)
    then show ?thesis using task_ok_no_lock a tk that by blast
  next
    assume a: "sy_life s = Some i \<and> sy_rt s = Some i"
    then have "\<not> holds_life (sy_tasks s j)" "\<not> holds_rt (sy_tasks s j)" using hl hr that by auto
    then show ?thesis using task_ok_no_locks tk by blast
  qed
  then show ?thesis
    using hl hr t l r rdy ld unfolding sys_ok_def goto_def
    by (auto simp: owner_after_def free_for_def)
qed

lemma goto_keeps:
  assumes "sys_ok s" and "task_ok b i t" and "holds_life t \<Longrightarrow> free_for i (sy_life s)"
    and "holds_rt t \<Longrightarrow> free_for i (sy_rt s)" and k: "keeps (sy_broker s) b"
  shows "sys_ok (goto i t b s)"
proof -
  have "ready_ok b" "sy_loaded s = set_option (br_kind b)" using assms(1) k by (auto simp: sys_ok_def keeps_def)
  then have "sys_ok (goto i t b (s\<lparr>sy_loaded := sy_loaded s\<rparr>))"
    using k by (intro goto_ok [OF assms(1-4)]) auto
  then show ?thesis by simp
qed

lemma broker_keeps: "sys_ok s \<Longrightarrow> keeps (sy_broker s) b \<Longrightarrow> sys_ok (s\<lparr>sy_broker := b\<rparr>)"
  using task_ok_keeps [of "sy_broker s" b] by (simp add: sys_ok_def) (simp add: keeps_def)

text \<open>Tasks without locks, as the rounds of the loops leave them.\<close>

definition lockfree :: "task \<Rightarrow> bool" where
  "lockfree t = (\<not> holds_life t \<and> \<not> holds_rt t)"

lemma after_activation_ok:
  "purpose_ok i p \<Longrightarrow> task_ok b i (after_activation p k) \<and> lockfree (after_activation p k)"
  by (cases p) (auto simp: lockfree_def)

lemma worker_after_ok [simp]: "lockfree (worker_after e)" "task_ok b 0 (worker_after e)"
  by (simp_all add: lockfree_def worker_after_def)

lemma leave_activation_ok:
  "leave_activation p b e c m ts = (b', t) \<Longrightarrow> purpose_ok i p \<Longrightarrow> task_ok b'' i t \<and> lockfree t"
  by (cases p) (auto, auto simp: lockfree_def)

lemma activation_round_ok:
  "activation_round F b p k d n1 n2 n3 c m ts = (b', t) \<Longrightarrow> purpose_ok i p \<Longrightarrow> task_ok b'' i t \<and> lockfree t"
  by (auto simp: activation_round_def lockfree_def dest: leave_activation_ok [of _ _ _ _ _ _ _ _ i b'']
      split: if_splits prod.splits sum.splits)

lemma chat_settle_ok: "chat_settle F b q out el rem c m ts = (b', t) \<Longrightarrow> task_ok b'' 0 t \<and> lockfree t"
  by (cases out) (auto simp: chat_settle_def Let_def split: sum.splits if_splits, auto simp: lockfree_def)

lemma cancel_task_ok:
  "cancel_task t b e c m ts = (b', t') \<Longrightarrow> task_ok b i t \<Longrightarrow> task_ok b'' i t' \<and> lockfree t'"
  by (cases t) (auto simp: lockfree_def dest: leave_activation_ok [of _ _ _ _ _ _ _ _ i b''])

lemma goto_lockfree:
  "sys_ok s \<Longrightarrow> task_ok b i t \<and> lockfree t \<Longrightarrow> keeps (sy_broker s) b \<Longrightarrow> sys_ok (goto i t b s)"
  by (rule goto_keeps) (auto simp: lockfree_def)

lemma activate_enter_prev:
  "activate_enter b k ts = (b', Some prev) \<Longrightarrow> map_option fst prev = br_kind b \<and> unready b'"
  by (cases k; cases "br_kind b") (auto simp: activate_enter_def Let_def unready_def split: if_splits)

lemma deactivate_enter_prev:
  "deactivate_enter b ts = (b', Inr (Some (k, m))) \<Longrightarrow> br_kind b = Some k \<and> unready b'"
  by (auto simp: deactivate_enter_def Let_def unready_def split: option.splits if_splits)

lemma chat_claim_kind: "chat_claim b d now ts = (b', Inr (Some r)) \<Longrightarrow> br_kind b = Some LLM \<and> unready b'"
  by (auto simp: chat_claim_def unready_def Let_def split: if_splits)

lemma use_claim_kind: "use_claim b k d now = Inr (Some r) \<Longrightarrow> br_kind b = Some k"
  by (auto simp: use_claim_def Let_def split: if_splits)

lemma chat_finish_kind: "br_kind (chat_finish b ts) = br_kind b" "ready_ok b \<Longrightarrow> ready_ok (chat_finish b ts)"
  by (auto simp: chat_finish_def Let_def ready_ok_def set_state_def)

lemma goto_own:
  assumes "sys_ok s" "sy_life s = Some i" "sy_rt s = Some i" "task_ok b i t" "ready_ok b"
    "loaded = set_option (br_kind b)"
  shows "sys_ok (goto i t b (s\<lparr>sy_loaded := loaded\<rparr>))"
  using assms by (intro goto_ok) (auto simp: free_for_def)

lemma goto_idle_life:
  assumes "sys_ok s" "sy_life s = None" "i = 0" "br_kind b = br_kind (sy_broker s)" "ready_ok b"
    "task_ok b i t" "lockfree t"
  shows "sys_ok (goto i t b s)"
proof -
  have "sys_ok (goto i t b (s\<lparr>sy_loaded := sy_loaded s\<rparr>))"
    using assms by (intro goto_ok) (auto simp: lockfree_def free_for_def sys_ok_def)
  then show ?thesis by simp
qed

lemma started_ok:
  "ready_ok (activate_started b k ts)" "br_kind (activate_started b k ts) = Some k"
  by (cases k; simp add: activate_started_def ready_ok_def set_state_def)+

lemma stopped_ok: "unready b \<Longrightarrow> ready_ok (activate_stopped b) \<and> br_kind (activate_stopped b) = None \<and> unready (activate_stopped b)"
  by (simp add: activate_stopped_def ready_ok_def unready_def)

lemma deactivated_ok: "ready_ok (deactivate_stopped b ts)" "br_kind (deactivate_stopped b ts) = None"
  by (simp_all add: deactivate_stopped_def ready_ok_def set_state_def)

lemma loadedD: "sys_ok s \<Longrightarrow> sy_loaded s = set_option (br_kind (sy_broker s))"
  by (simp add: sys_ok_def)

lemma sys_ok_ready: "sys_ok s \<Longrightarrow> ready_ok (sy_broker s)"
  by (simp add: sys_ok_def)

lemmas locks_of = sys_ok_life sys_ok_rt

lemma act_step_ok:
  assumes ok: "sys_ok s"
  shows "sy_tasks s i = ActStop p k k' \<Longrightarrow>
      sys_ok (goto i (ActStart p k) (activate_stopped (sy_broker s)) (s\<lparr>sy_loaded := sy_loaded s - {k'}\<rparr>))"
    and "sy_tasks s i = ActStart p k \<Longrightarrow>
      sys_ok (goto i (after_activation p k) (activate_started (sy_broker s) k ts) (s\<lparr>sy_loaded := insert k (sy_loaded s)\<rparr>))"
    and "sy_tasks s i = StopCall t k \<Longrightarrow>
      sys_ok (goto i Absent (deactivate_stopped (sy_broker s) ts) (s\<lparr>sy_loaded := sy_loaded s - {k}\<rparr>))"
proof -
  assume t: "sy_tasks s i = ActStop p k k'"
  then have a: "br_kind (sy_broker s) = Some k'" "purpose_ok i p" "unready (sy_broker s)"
    using sys_ok_task [OF ok t] by auto
  show "sys_ok (goto i (ActStart p k) (activate_stopped (sy_broker s)) (s\<lparr>sy_loaded := sy_loaded s - {k'}\<rparr>))"
    using a loadedD [OF ok] stopped_ok [OF a(3)]
    by (intro goto_own [OF ok sys_ok_life [OF ok t] sys_ok_rt [OF ok t]]) auto
next
  assume t: "sy_tasks s i = ActStart p k"
  then have a: "br_kind (sy_broker s) = None" "purpose_ok i p" using sys_ok_task [OF ok t] by auto
  show "sys_ok (goto i (after_activation p k) (activate_started (sy_broker s) k ts) (s\<lparr>sy_loaded := insert k (sy_loaded s)\<rparr>))"
    using a loadedD [OF ok] started_ok after_activation_ok
    by (intro goto_own [OF ok sys_ok_life [OF ok t] sys_ok_rt [OF ok t]]) auto
next
  assume t: "sy_tasks s i = StopCall t k"
  then have a: "br_kind (sy_broker s) = Some k" using sys_ok_task [OF ok t] by auto
  show "sys_ok (goto i Absent (deactivate_stopped (sy_broker s) ts) (s\<lparr>sy_loaded := sy_loaded s - {k}\<rparr>))"
    using a loadedD [OF ok] deactivated_ok
    by (intro goto_own [OF ok sys_ok_life [OF ok t] sys_ok_rt [OF ok t]]) auto
qed

lemma bstep_ok:
  assumes "bstep F i s s'" and ok: "sys_ok s"
  shows "sys_ok s'"
  using assms(1)
proof cases
  case (Activate now now2 b r k)
  then show ?thesis
    by (auto intro!: goto_lockfree [OF ok] keeps_guard simp: lockfree_def split: sum.splits)
next
  case (ActReady p k ts b)
  then show ?thesis
    using sys_ok_task [OF ok ActReady(2)] by (auto intro!: goto_lockfree [OF ok] after_activation_ok keeps_enter)
next
  case (ActEnter p k ts b prev)
  have k: "keeps (sy_broker s) b" using ActEnter(4) by (rule keeps_enter)
  show ?thesis
    unfolding ActEnter(1) using sys_ok_task [OF ok ActEnter(2)] activate_enter_prev [OF ActEnter(4)] ActEnter(3) k
    by (intro goto_keeps [OF ok]) (auto simp: free_for_def keeps_def)
next
  case (ActAcquire p k prev)
  have l: "sy_life s = Some i" using sys_ok_life [OF ok ActAcquire(2)] by simp
  show ?thesis
    unfolding ActAcquire(1) using sys_ok_task [OF ok ActAcquire(2)] ActAcquire(3) l
    by (intro goto_keeps [OF ok]) (auto simp: free_for_def split: option.splits)
next
  case (ActStopped p k k')
  show ?thesis unfolding ActStopped(1) using ActStopped(2) by (rule act_step_ok(1) [OF ok])
next
  case (ActStopFailed p k k' out now ts b e c m ts2 b' t)
  show ?thesis
    unfolding ActStopFailed(1) using sys_ok_task [OF ok ActStopFailed(2)]
    by (intro goto_lockfree [OF ok] leave_activation_ok [OF ActStopFailed(5)]
        keeps_trans [OF keeps_failed [OF ActStopFailed(4)] keeps_leave [OF ActStopFailed(5)]]) simp
next
  case (ActStarted p k ts)
  show ?thesis unfolding ActStarted(1) using ActStarted(2) by (rule act_step_ok(2) [OF ok])
next
  case (ActStartFailed p k out now ts b e c m ts2 b' t)
  show ?thesis
    unfolding ActStartFailed(1) using sys_ok_task [OF ok ActStartFailed(2)]
    by (intro goto_lockfree [OF ok] leave_activation_ok [OF ActStartFailed(5)]
        keeps_trans [OF keeps_failed [OF ActStartFailed(4)] keeps_leave [OF ActStartFailed(5)]]) simp
next
  case (ChatEnqueue request now b r)
  then show ?thesis
    by (auto intro!: goto_lockfree [OF ok] keeps_enqueue simp: lockfree_def split: sum.splits)
next
  case (ChatEnqueueBusy request now b r)
  then show ?thesis by (auto intro: broker_keeps [OF ok] keeps_enqueue)
next
  case (ChatGone j)
  then show ?thesis by (auto intro: broker_keeps [OF ok])
next
  case (ChatSkip q qs)
  then show ?thesis by (auto intro: broker_keeps [OF ok])
next
  case (ChatTake q qs now now2 now3 c m ts b t)
  show ?thesis
    unfolding ChatTake(2)
    by (rule goto_lockfree [OF ok activation_round_ok [OF ChatTake(6)] keeps_trans [OF keeps_fields(3) keeps_round [OF ChatTake(6)]]]) simp
next
  case (ChatClaim q now ts b remaining)
  have k: "keeps (sy_broker s) b" using ChatClaim(5) by (rule keeps_claim)
  have "sy_rt s = None"
  proof (rule ccontr)
    assume "sy_rt s \<noteq> None"
    then obtain j where j: "sy_rt s = Some j" by blast
    then have "holds_rt (sy_tasks s j)" "\<not> holds_life (sy_tasks s j)" using ok ChatClaim(4) by (auto simp: sys_ok_def)
    then show False using sys_ok_task [OF ok refl, of j] ChatClaim(3) by (cases "sy_tasks s j") auto
  qed
  then show ?thesis
    unfolding ChatClaim(2) using chat_claim_kind [OF ChatClaim(5)] k
    by (intro goto_keeps [OF ok]) (auto simp: free_for_def keeps_def)
next
  case (ChatRetry q now ts b now1 now2 now3 c m ts2 b' t)
  show ?thesis
    unfolding ChatRetry(2)
    by (rule goto_lockfree [OF ok activation_round_ok [OF ChatRetry(6)]
        keeps_trans [OF keeps_claim [OF ChatRetry(5)] keeps_round [OF ChatRetry(6)]]]) simp
next
  case (ChatLate q now ts b e c m ts2)
  show ?thesis
    unfolding ChatLate(2)
    by (rule goto_lockfree [OF ok _ keeps_trans [OF keeps_claim [OF ChatLate(5)] keeps_chat_failed]]) (simp add: lockfree_def)
next
  case (ChatAcquire q)
  then show ?thesis using sys_ok_task [OF ok, of 0 "ChatRuntime q"] by simp
next
  case (ChatReturn q out)
  have "sy_rt s = Some 0" using sys_ok_rt [OF ok ChatReturn(3)] by simp
  then show ?thesis unfolding ChatReturn(2) by (intro goto_keeps [OF ok]) (auto simp: free_for_def)
next
  case (ChatDone q out ts elapsed remaining c m ts2 b t)
  have k: "keeps (chat_finish (sy_broker s) ts) b" using ChatDone(5) by (rule keeps_settle)
  have "ready_ok (chat_finish (sy_broker s) ts)" using chat_finish_kind(2) sys_ok_ready [OF ok] by blast
  then show ?thesis
    unfolding ChatDone(2) using k chat_settle_ok [OF ChatDone(5)] chat_finish_kind(1)
    by (intro goto_idle_life [OF ok ChatDone(4) refl]) (auto simp: keeps_def)
next
  case (Use kind is_callable timeout_arg k timeout deadline now now2 now3 c m ts b t)
  show ?thesis
    unfolding Use(1) using Use(3)
    by (intro goto_lockfree [OF ok activation_round_ok [OF Use(5)] keeps_round [OF Use(5)]]) simp
next
  case (UseRetry k deadline now now1 now2 now3 c m ts b t)
  show ?thesis
    unfolding UseRetry(1) using sys_ok_task [OF ok UseRetry(2)]
    by (intro goto_lockfree [OF ok activation_round_ok [OF UseRetry(5)] keeps_round [OF UseRetry(5)]]) simp
next
  case (UseLate k deadline now e)
  then show ?thesis by (auto intro!: goto_lockfree [OF ok] simp: lockfree_def)
next
  case (UseClaim k deadline now remaining)
  show ?thesis
    unfolding UseClaim(1) using sys_ok_task [OF ok UseClaim(2)] use_claim_kind [OF UseClaim(4)] UseClaim(3)
    by (intro goto_keeps [OF ok]) (auto simp: free_for_def)
next
  case (UseAcquire k remaining)
  have "sy_life s = Some i" using sys_ok_life [OF ok UseAcquire(2)] by simp
  then show ?thesis
    unfolding UseAcquire(1) using sys_ok_task [OF ok UseAcquire(2)] UseAcquire(3)
    by (intro goto_keeps [OF ok]) (auto simp: free_for_def)
next
  case (UseDone k remaining)
  then show ?thesis by (auto intro!: goto_lockfree [OF ok] simp: lockfree_def)
next
  case (UseTimeout k remaining ts b e)
  then show ?thesis by (auto intro!: goto_lockfree [OF ok] keeps_use simp: lockfree_def)
next
  case (Unload timeout_arg timeout)
  then show ?thesis by (auto intro!: goto_lockfree [OF ok] simp: lockfree_def)
next
  case (CloseStop timeout)
  then show ?thesis by (auto intro!: goto_lockfree [OF ok] simp: lockfree_def)
next
  case (StopNone timeout ts b r e)
  show ?thesis
    unfolding StopNone(1) by (rule goto_lockfree [OF ok _ keeps_deactivate_enter [OF StopNone(4)]]) (simp add: lockfree_def)
next
  case (StopEnter timeout ts b k model)
  have k: "keeps (sy_broker s) b" using StopEnter(4) by (rule keeps_deactivate_enter)
  show ?thesis
    unfolding StopEnter(1) using sys_ok_task [OF ok StopEnter(2)] deactivate_enter_prev [OF StopEnter(4)] StopEnter(3) k
    by (intro goto_keeps [OF ok]) (auto simp: free_for_def keeps_def)
next
  case (StopAcquire timeout k)
  have "sy_life s = Some i" using sys_ok_life [OF ok StopAcquire(2)] by simp
  then show ?thesis
    unfolding StopAcquire(1) using sys_ok_task [OF ok StopAcquire(2)] StopAcquire(3)
    by (intro goto_keeps [OF ok]) (auto simp: free_for_def)
next
  case (StopDone timeout k ts)
  show ?thesis unfolding StopDone(1) using StopDone(2) by (rule act_step_ok(3) [OF ok])
next
  case (StopFailed timeout k out now ts b e)
  then show ?thesis by (auto intro!: goto_lockfree [OF ok] keeps_deactivate_failed simp: lockfree_def)
next
  case (Drain timeout_arg b r)
  then show ?thesis by (auto intro: broker_keeps [OF ok] keeps_drain)
next
  case (DrainTimeout timeout ts b e)
  then show ?thesis by (auto intro: broker_keeps [OF ok] keeps_drain_timeout)
next
  case (CloseFailed d e c m ts b r)
  then show ?thesis by (auto intro: broker_keeps [OF ok] keeps_close)
next
  case CloseFinally
  then show ?thesis by (auto intro: broker_keeps [OF ok] keeps_close)
qed

lemma cstep_ok:
  assumes "cstep F i s s'" and ok: "sys_ok s"
  shows "sys_ok s'"
  using assms(1)
proof cases
  case (CancelWait e msg c m ts b t)
  show ?thesis
    unfolding CancelWait(1)
    by (rule goto_lockfree [OF ok cancel_task_ok [OF CancelWait(4) sys_ok_task [OF ok refl]] keeps_cancel [OF CancelWait(4)]])
next
  case (CancelStop p k k' e msg now ts b e' c m ts2 b' t)
  show ?thesis
    unfolding CancelStop(1) using sys_ok_task [OF ok CancelStop(2)]
    by (intro goto_lockfree [OF ok] leave_activation_ok [OF CancelStop(5)]
        keeps_trans [OF keeps_failed [OF CancelStop(4)] keeps_leave [OF CancelStop(5)]]) simp
next
  case (CancelStart p k e msg now ts b e' c m ts2 b' t)
  show ?thesis
    unfolding CancelStart(1) using sys_ok_task [OF ok CancelStart(2)]
    by (intro goto_lockfree [OF ok] leave_activation_ok [OF CancelStart(5)]
        keeps_trans [OF keeps_failed [OF CancelStart(4)] keeps_leave [OF CancelStart(5)]]) simp
qed

lemma start_ok: "make_broker llm vlm cap t d ts = Inr b \<Longrightarrow> sys_ok (start_sys b)"
  by (auto simp: make_broker_def bindE_Inr_iff sys_ok_def start_sys_def ready_ok_def)

interpretation broker_run: step_invariant "sys_step F" sys_ok for F
  by unfold_locales (auto simp: sys_step_def intro: bstep_ok cstep_ok)

section \<open>The deadlock\<close>

text \<open>The worker has both ends of a chat call but the lifecycle lock, an activation has the lifecycle
  lock and waits for the runtime lock of the worker.\<close>

definition deadlocked :: "nat \<Rightarrow> sys \<Rightarrow> bool" where
  "deadlocked i s = (i \<noteq> 0 \<and> (\<exists>q out. sy_tasks s 0 = ChatFinish q out) \<and> (\<exists>p k prev. sy_tasks s i = ActRuntime p k prev)
     \<and> sy_life s = Some i \<and> sy_rt s = Some 0)"

lemma bstep_other: "bstep F j s s' \<Longrightarrow> k \<noteq> j \<Longrightarrow> sy_tasks s' k = sy_tasks s k"
  by (erule bstep.cases) (auto simp: goto_def)

lemma bstep_finish:
  "bstep F 0 s s' \<Longrightarrow> sy_tasks s 0 = ChatFinish q out \<Longrightarrow> sy_life s \<noteq> None \<Longrightarrow> sy_tasks s' 0 = ChatFinish q out"
  by (erule bstep.cases) (auto simp: goto_def)

lemma bstep_act_runtime:
  "bstep F i s s' \<Longrightarrow> sy_tasks s i = ActRuntime p k prev \<Longrightarrow> sy_rt s \<noteq> None \<Longrightarrow> i \<noteq> 0 \<Longrightarrow>
     sy_tasks s' i = ActRuntime p k prev"
  by (erule bstep.cases) (auto simp: goto_def)

lemma deadlocked_step:
  assumes st: "bstep F j s s'" and ok: "sys_ok s" and d: "deadlocked i s"
  shows "deadlocked i s'"
proof -
  obtain q out p k prev where t: "sy_tasks s 0 = ChatFinish q out" "sy_tasks s i = ActRuntime p k prev"
    and i: "i \<noteq> 0" "sy_life s = Some i" "sy_rt s = Some 0" using d by (auto simp: deadlocked_def)
  have t0: "sy_tasks s' 0 = ChatFinish q out"
    using bstep_other [OF st, of 0] bstep_finish [of F s s' q out] st t i by (cases "j = 0") auto
  have ti: "sy_tasks s' i = ActRuntime p k prev"
    using bstep_other [OF st, of i] bstep_act_runtime [of F i s s' p k prev] st t i by (cases "j = i") auto
  have ok': "sys_ok s'" using bstep_ok [OF st ok] .
  show ?thesis
    using t0 ti i(1) sys_ok_life [OF ok' ti] sys_ok_rt [OF ok' t0] by (auto simp: deadlocked_def)
qed

interpretation deadlock_run: step_invariant "own_step F" "\<lambda>s. sys_ok s \<and> deadlocked i s" for F i
  by unfold_locales (auto simp: own_step_def intro: bstep_ok deadlocked_step)

definition stuck_forever :: "pyfmt \<Rightarrow> nat \<Rightarrow> sys \<Rightarrow> bool" where
  "stuck_forever F i s = (\<forall>s'. (own_step F)\<^sup>*\<^sup>* s s' \<longrightarrow> deadlocked i s')"

lemma deadlocked_stuck: "sys_ok s \<Longrightarrow> deadlocked i s \<Longrightarrow> stuck_forever F i s"
  using deadlock_run.reached by (auto simp: stuck_forever_def)

lemma activate_enter_unready:
  assumes "unready b"
  shows "\<exists>b' prev. activate_enter b k ts = (b', Some prev)"
  using assms by (cases k) (auto simp: activate_enter_def unready_def Let_def)

lemma activation_deadlocks:
  assumes ok: "sys_ok s" and c: "sy_tasks s 0 = ChatCall q" and l: "sy_life s = None"
    and i: "sy_tasks s i = Absent" "i \<noteq> 0" and g: "activate_guard F (sy_broker s) now now2 = (b, Inr ())"
  shows "\<exists>s1 s2 s3. bstep F i s s1 \<and> sy_tasks s1 i = ActWait Direct k \<and> bstep F i s1 s2 \<and> bstep F 0 s2 s3
     \<and> sys_ok s3 \<and> deadlocked i s3"
proof -
  have r: "sy_rt s = Some 0" using sys_ok_rt [OF ok c] by simp
  have u: "unready (sy_broker s)" using sys_ok_task [OF ok c] by simp
  then have "unready b" using keeps_guard [OF g] by (simp add: keeps_def)
  then obtain b' prev where e: "activate_enter b k [] = (b', Some prev)"
    using activate_enter_unready by blast
  let ?s1 = "goto i (ActWait Direct k) b s"
  let ?s2 = "goto i (ActRuntime Direct k (map_option fst prev)) b' ?s1"
  let ?s3 = "goto 0 (ChatFinish q TimedOut) b' ?s2"
  have 1: "bstep F i s ?s1" using bstep.Activate [OF i g, of k] by simp
  have t1: "sy_tasks ?s1 i = ActWait Direct k" "sy_life ?s1 = None" "sy_broker ?s1 = b"
    using l by (simp_all add: goto_def owner_after_def)
  have 2: "bstep F i ?s1 ?s2" using bstep.ActEnter [OF t1(1,2), of "[]" b' prev F] e t1(3) by simp
  have t2: "sy_tasks ?s2 0 = ChatCall q" "sy_broker ?s2 = b'" using c i(2) by (simp_all add: goto_def)
  have 3: "bstep F 0 ?s2 ?s3" using bstep.ChatReturn [OF t2(1), of F TimedOut] t2(2) by simp
  have ok3: "sys_ok ?s3" using bstep_ok [OF 3 bstep_ok [OF 2 bstep_ok [OF 1 ok]]] .
  have "deadlocked i ?s3"
    using i(2) r by (auto simp: deadlocked_def goto_def owner_after_def)
  then show ?thesis using 1 t1(1) 2 3 ok3 by blast
qed

end
