(* ===== verification/BrokerClaims.thy ===== *)
theory BrokerClaims
  imports BrokerRun
begin

text \<open>
  The properties of the model broker under every interleaving: exclusive use of the runtime,
  and the deadlock of a chat call with an activation.
\<close>

subsection \<open>A sample run up to a chat call in progress\<close>

definition sample_fmt :: pyfmt where
  "sample_fmt = \<lparr>fixed = (\<lambda>n x. ''0.0''), str_of = (\<lambda>v. ''value'')\<rparr>"

definition sample_broker :: broker where
  "sample_broker = \<lparr>br_llm_model = ''a'', br_vlm_model = ''b'', br_capacity = 8, br_timeout = Fin 120,
     br_drain_timeout = Fin 15, br_state = BIdle, br_since = ''t'', br_kind = None, br_model = None, br_error = None,
     br_accepting = True, br_draining = False, br_closed = False, br_queue = [], br_changed = False,
     br_in_flight = 0, br_circuit = default_breaker\<rparr>"

definition sample_request :: chat_request where
  "sample_request = \<lparr>rq_messages = [PDict [(''role'', PStr ''user''), (''content'', PStr ''hi'')]], rq_id = ''r'', rq_timeout = None\<rparr>"

definition sample_queued :: queued_chat where
  "sample_queued = \<lparr>qc_request = sample_request, qc_deadline = Fin 120, qc_done = False\<rparr>"

lemma sample_broker_made: "make_broker ''a'' ''b'' 8 (Fin 120) (Fin 15) ''t'' = Inr sample_broker"
  by (simp add: make_broker_def sample_broker_def guardE_def py_strip_def strip_list_def cp_space_def cont_byte_def py_space_def)

lemma sample_request_made: "make_request sample_fmt (rq_messages sample_request) ''r'' None = Inr sample_request"
  by (simp add: make_request_def check_message_def sample_request_def guardE_def str_text_def py_strip_def strip_list_def
      cp_space_def cont_byte_def py_space_def)

lemma default_allows: "allow_attempt default_breaker now = (default_breaker, True)"
  by (simp add: allow_attempt_def default_breaker_def)

lemma sample_guard:
  "br_circuit b = default_breaker \<Longrightarrow> \<not> br_closed b \<Longrightarrow> \<not> br_draining b \<Longrightarrow> br_accepting b \<Longrightarrow>
     activate_guard F b now now2 = (b, Inr ())"
  by (simp add: activate_guard_def ensure_open_def default_allows)

lemma sample_enqueue:
  "chat_enqueue sample_fmt sample_broker sample_request (Fin 0) = (sample_broker\<lparr>br_queue := [sample_queued]\<rparr>, Inr (Fin 120))"
  by (simp add: chat_enqueue_def ensure_open_def or_float_def sample_broker_def sample_request_def sample_queued_def Let_def)

lemma sample_round:
  "activation_round sample_fmt sample_broker (ForChat sample_queued) LLM (Fin 120) (Fin 1) (Fin 1) (Fin 1) [] [] [] =
     (sample_broker, ActWait (ForChat sample_queued) LLM)"
proof -
  have "activate_guard sample_fmt sample_broker (Fin 1) (Fin 1) = (sample_broker, Inr ())"
    by (rule sample_guard) (simp_all add: sample_broker_def)
  then show ?thesis by (simp add: activation_round_def fsub_def)
qed

definition loading_broker :: broker where
  "loading_broker = set_state BLlmLoading ''t1'' sample_broker"

lemma sample_enter: "activate_enter sample_broker LLM ''t1'' = (loading_broker, Some None)"
  by (simp add: activate_enter_def loading_broker_def sample_broker_def)

definition ready_broker :: broker where
  "ready_broker = activate_started loading_broker LLM ''t2''"

lemma ready_broker_fields:
  "br_kind ready_broker = Some LLM" "br_state ready_broker = BLlmReady" "br_accepting ready_broker" "\<not> br_draining ready_broker"
  "\<not> br_closed ready_broker" "br_in_flight ready_broker = 0"
  "br_circuit ready_broker = default_breaker\<lparr>cb_successes := 1\<rparr>"
  by (simp_all add: ready_broker_def loading_broker_def activate_started_def set_state_def sample_broker_def
      record_success_def default_breaker_def)

definition busy_broker :: broker where
  "busy_broker = set_state BBusy ''t3'' (ready_broker\<lparr>br_in_flight := 1\<rparr>)"

lemma sample_claim: "chat_claim ready_broker (Fin 120) (Fin 2) ''t3'' = (busy_broker, Inr (Some (Fin 118)))"
  by (simp add: chat_claim_def ready_broker_fields busy_broker_def fsub_def)

definition sample_calling :: sys where
  "sample_calling = \<lparr>sy_broker = busy_broker, sy_life = None, sy_rt = Some 0,
     sy_tasks = (\<lambda>_. Absent)(0 := ChatCall sample_queued), sy_loaded = {LLM}\<rparr>"

lemma own_sys: "bstep F i s s' \<Longrightarrow> sys_step F s s'"
  by (auto simp: sys_step_def)

lemma sample_run: "(sys_step sample_fmt)\<^sup>*\<^sup>* (start_sys sample_broker) sample_calling"
proof -
  let ?S = "\<lambda>b l r t ld. \<lparr>sy_broker = b, sy_life = l, sy_rt = r, sy_tasks = (\<lambda>_. Absent)(0 := t), sy_loaded = ld\<rparr>"
  let ?q = "sample_broker\<lparr>br_queue := [sample_queued]\<rparr>"
  have d: "qc_deadline sample_queued = Fin 120" "\<not> qc_done sample_queued" by (simp_all add: sample_queued_def)
  have e: "br_queue ?q = [sample_queued]" "?q\<lparr>br_queue := []\<rparr> = sample_broker" by (simp_all add: sample_broker_def)
  have 1: "sys_step sample_fmt (start_sys sample_broker) (?S ?q None None WorkerIdle {})"
    using own_sys [OF bstep.ChatEnqueue [of sample_fmt "start_sys sample_broker" sample_request "Fin 0"]] sample_enqueue
    by (simp add: start_sys_def goto_def owner_after_def)
  have 2: "sys_step sample_fmt (?S ?q None None WorkerIdle {}) (?S sample_broker None None (ActWait (ForChat sample_queued) LLM) {})"
    using own_sys [OF bstep.ChatTake [of "?S ?q None None WorkerIdle {}" sample_queued "[]" sample_fmt "Fin 1" "Fin 1" "Fin 1" "[]" "[]" "[]"]]
      sample_round d e by (simp add: goto_def owner_after_def)
  have 3: "sys_step sample_fmt (?S sample_broker None None (ActWait (ForChat sample_queued) LLM) {})
      (?S loading_broker (Some 0) None (ActRuntime (ForChat sample_queued) LLM None) {})"
    using own_sys [OF bstep.ActEnter [of "?S sample_broker None None (ActWait (ForChat sample_queued) LLM) {}" 0 "ForChat sample_queued" LLM "''t1''" loading_broker None sample_fmt]]
      sample_enter by (simp add: goto_def owner_after_def)
  have 4: "sys_step sample_fmt (?S loading_broker (Some 0) None (ActRuntime (ForChat sample_queued) LLM None) {})
      (?S loading_broker (Some 0) (Some 0) (ActStart (ForChat sample_queued) LLM) {})"
    using own_sys [OF bstep.ActAcquire [of "?S loading_broker (Some 0) None (ActRuntime (ForChat sample_queued) LLM None) {}" 0 "ForChat sample_queued" LLM None sample_fmt]]
    by (simp add: goto_def owner_after_def)
  have 5: "sys_step sample_fmt (?S loading_broker (Some 0) (Some 0) (ActStart (ForChat sample_queued) LLM) {})
      (?S ready_broker None None (ChatWait sample_queued) {LLM})"
    using own_sys [OF bstep.ActStarted [of "?S loading_broker (Some 0) (Some 0) (ActStart (ForChat sample_queued) LLM) {}" 0 "ForChat sample_queued" LLM sample_fmt "''t2''"]]
    by (simp add: goto_def owner_after_def ready_broker_def)
  have 6: "sys_step sample_fmt (?S ready_broker None None (ChatWait sample_queued) {LLM}) sample_calling"
    using own_sys [OF bstep.ChatClaim [of "?S ready_broker None None (ChatWait sample_queued) {LLM}" sample_queued "Fin 2" "''t3''" busy_broker "Fin 118" sample_fmt]]
      sample_claim d by (simp add: goto_def owner_after_def sample_calling_def)
  show ?thesis
    using 1 2 3 4 5 6 by (meson converse_rtranclp_into_rtranclp rtranclp.rtrancl_refl)
qed

lemma in_call_rt: "in_call t \<Longrightarrow> holds_rt t"
  by (cases t) simp_all

text \<open>C3. The broker serialises the runtime and keeps one role active, under every interleaving of
  its operations, failures and cancellations: at most one call of the runtime (or operation of
  \<open>use_model\<close>) is in progress; the roles whose start returned and that were not stopped since are
  exactly the active role, so never two; a role is started only when none is left; a ready state
  names the active role; a chat call runs only with the LLM active, and an operation of
  \<open>use_model\<close> only with its own role active.\<close>

theorem broker_exclusive:
  assumes "make_broker llm vlm capacity t d ts = Inr b0" and "(sys_step F)\<^sup>*\<^sup>* (start_sys b0) s"
  shows "(\<forall>i j. in_call (sy_tasks s i) \<and> in_call (sy_tasks s j) \<longrightarrow> i = j)
     \<and> sy_loaded s = set_option (br_kind (sy_broker s))
     \<and> (\<forall>i p k. sy_tasks s i = ActStart p k \<longrightarrow> sy_loaded s = {})
     \<and> (\<forall>k. br_state (sy_broker s) = ready_state k \<longrightarrow> br_kind (sy_broker s) = Some k)
     \<and> (\<forall>q. sy_tasks s 0 = ChatCall q \<longrightarrow> br_kind (sy_broker s) = Some LLM)
     \<and> (\<forall>i k r. sy_tasks s i = UseCall k r \<longrightarrow> br_kind (sy_broker s) = Some k)"
proof -
  have ok: "sys_ok s" using broker_run.reached [OF assms(2) start_ok [OF assms(1)]] .
  have rt: "i = j" if "in_call (sy_tasks s i)" "in_call (sy_tasks s j)" for i j
    using sys_ok_rt [OF ok refl, of i] sys_ok_rt [OF ok refl, of j] that by (simp add: in_call_rt)
  have r: "br_kind (sy_broker s) = Some k" if "br_state (sy_broker s) = ready_state k" for k
    using sys_ok_ready [OF ok] that by (cases k) (simp_all add: ready_ok_def)
  have t: "task_ok (sy_broker s) i (sy_tasks s i)" for i using sys_ok_task [OF ok refl] .
  have a: "sy_loaded s = {}" if "sy_tasks s i = ActStart p k" for i p k using t [of i] that loadedD [OF ok] by simp
  have c: "br_kind (sy_broker s) = Some LLM" if "sy_tasks s 0 = ChatCall q" for q using t [of 0] that by simp
  have u: "br_kind (sy_broker s) = Some k" if "sy_tasks s i = UseCall k x" for i k x using t [of i] that by simp
  show ?thesis
    by (intro conjI allI impI loadedD [OF ok]) (elim conjE, erule (1) rt, erule a, erule r, erule c, erule u)
qed

theorem broker_exclusive_witness:
  "br_kind (sy_broker sample_calling) = Some LLM \<and> sy_loaded sample_calling = {LLM}
     \<and> (\<forall>i. in_call (sy_tasks sample_calling i) = (i = 0))"
proof -
  note e = broker_exclusive [OF sample_broker_made sample_run]
  have c: "sy_tasks sample_calling 0 = ChatCall sample_queued" by (simp add: sample_calling_def)
  have k: "br_kind (sy_broker sample_calling) = Some LLM" using e c by blast
  have l: "sy_loaded sample_calling = set_option (br_kind (sy_broker sample_calling))" using e by blast
  have "in_call (sy_tasks sample_calling i) = (i = 0)" for i by (simp add: sample_calling_def)
  then show ?thesis using k l by simp
qed

text \<open>C11. A chat call in progress and one activation deadlock the broker. In every reachable state
  with a chat call in progress, the lifecycle lock free and the guard of \<open>activate\<close> passed: when a
  task calls \<open>activate\<close>, for either role, and the runtime call of the chat ends after the task
  took the lifecycle lock, then for ever (unless a task is cancelled) the worker waits for the
  lifecycle lock with the runtime lock held and the task waits for the runtime lock with the
  lifecycle lock held. The steps are those of the code: three, of which one is the call
  returning.\<close>

theorem broker_deadlock:
  assumes "make_broker llm vlm capacity t d ts = Inr b0" and "(sys_step F)\<^sup>*\<^sup>* (start_sys b0) s"
    and "sy_tasks s 0 = ChatCall q" and "sy_life s = None" and "sy_tasks s i = Absent" and "i \<noteq> 0"
    and "activate_guard F (sy_broker s) now now2 = (b, Inr ())"
  shows "\<exists>s1 s2 s3. bstep F i s s1 \<and> sy_tasks s1 i = ActWait Direct k \<and> bstep F i s1 s2 \<and> bstep F 0 s2 s3
     \<and> stuck_forever F i s3"
proof -
  have ok: "sys_ok s" using broker_run.reached [OF assms(2) start_ok [OF assms(1)]] .
  from activation_deadlocks [OF ok assms(3-7), of k] show ?thesis
    using deadlocked_stuck by blast
qed

theorem broker_deadlock_witness:
  "\<exists>s1 s2 s3. bstep sample_fmt 1 sample_calling s1 \<and> bstep sample_fmt 1 s1 s2 \<and> bstep sample_fmt 0 s2 s3
     \<and> stuck_forever sample_fmt 1 s3 \<and> deadlocked 1 s3"
proof -
  have c: "sy_tasks sample_calling 0 = ChatCall sample_queued" "sy_life sample_calling = None"
    "sy_tasks sample_calling 1 = Absent" "sy_broker sample_calling = busy_broker" by (simp_all add: sample_calling_def)
  have b: "br_circuit busy_broker = default_breaker\<lparr>cb_successes := 1\<rparr>" "\<not> br_closed busy_broker"
    "\<not> br_draining busy_broker" "br_accepting busy_broker"
    using ready_broker_fields by (simp_all add: busy_broker_def set_state_def)
  then have g: "activate_guard sample_fmt (sy_broker sample_calling) (Fin 3) (Fin 3) = (busy_broker, Inr ())"
    unfolding c(4) by (simp add: activate_guard_def ensure_open_def allow_attempt_def default_breaker_def)
  obtain s1 s2 s3 where s: "bstep sample_fmt 1 sample_calling s1" "bstep sample_fmt 1 s1 s2" "bstep sample_fmt 0 s2 s3"
    "stuck_forever sample_fmt 1 s3"
    using broker_deadlock [OF sample_broker_made sample_run c(1-3) _ g, of VLM] by auto
  then show ?thesis unfolding stuck_forever_def by blast
qed

end
