(* ===== verification/Arrival.thy ===== *)
theory Arrival
  imports ContractMotion NavSegment NavGround
begin

text \<open>
  The arrival fast path (\<open>arrival_pose_epoch_fast_path_v1.py\<close>): from an initial certification,
  two fresh captures, a fresh map and the arrived feedback it decides whether an arrival
  passes, falls back to the semantic check, or fails hard. It composes the validators of the
  contract, the projection of depth samples and the collision report. Keys of a dictionary are
  strings. The pose matcher and the surface digest are those of \<open>visual_navigation.py\<close>.
\<close>

section \<open>Decisions\<close>

datatype fp_outcome = FpPass | FpFallback | FpHardFail

fun outcome_value :: "fp_outcome \<Rightarrow> string" where
  "outcome_value FpPass = ''pass''"
| "outcome_value FpFallback = ''fallback_eligible''"
| "outcome_value FpHardFail = ''hard_fail''"

text \<open>How a check ends early: with a decision (\<open>_Decision\<close>), or with another exception.\<close>

datatype fp_stop = Decide fp_outcome string "(string \<times> pyval) list" | Uncaught py_exc

definition hard_fail :: "string \<Rightarrow> (string \<times> pyval) list \<Rightarrow> fp_stop + 'a" where
  "hard_fail reason details = Inl (Decide FpHardFail reason details)"

definition fallback :: "string \<Rightarrow> (string \<times> pyval) list \<Rightarrow> fp_stop + 'a" where
  "fallback reason details = Inl (Decide FpFallback reason details)"

definition contract_invalid :: "string \<Rightarrow> pyval \<Rightarrow> (string \<times> pyval) list \<Rightarrow> fp_stop + 'a" where
  "contract_invalid code detail details =
     hard_fail ''contract_invalid''
       ([(''contract_error'', PStr code)] @ details @ (if detail = PNone then [] else [(''contract_detail'', detail)]))"

definition liftF :: "py_exc + 'a \<Rightarrow> fp_stop + 'a" where
  "liftF m = (case m of Inl e \<Rightarrow> Inl (Uncaught e) | Inr x \<Rightarrow> Inr x)"

text \<open>\<open>except PortableNavigationContractError\<close> (and the error of the core where \<open>core\<close> holds)
  around a call.\<close>

definition catch_contract :: "bool \<Rightarrow> bool \<Rightarrow> (string \<times> pyval) list \<Rightarrow> py_exc + 'a \<Rightarrow> fp_stop + 'a" where
  "catch_contract contract core details m =
     (case m of Inr x \<Rightarrow> Inr x
      | Inl (ContractError code detail) \<Rightarrow>
          if contract then contract_invalid code (PStr detail) details else Inl (Uncaught (ContractError code detail))
      | Inl (CoreError code detail) \<Rightarrow>
          if core then contract_invalid code (PStr detail) details else Inl (Uncaught (CoreError code detail))
      | Inl e \<Rightarrow> Inl (Uncaught e))"

definition check :: "bool \<Rightarrow> fp_stop + unit \<Rightarrow> fp_stop + unit" where
  "check ok failure = (if ok then Inr () else failure)"

section \<open>Constants\<close>

definition REQUIRED_SURFACE_ROLE :: string where "REQUIRED_SURFACE_ROLE = ''navigation_obstacle''"
definition INITIAL_CERTIFICATION_REVISION :: string where
  "INITIAL_CERTIFICATION_REVISION = ''arrival_pose_epoch_initial_certification_v2''"
definition MINIMUM_EXACT_REFERENCE_RAYS :: nat where "MINIMUM_EXACT_REFERENCE_RAYS = 3"
definition MINIMUM_RAY_CONFIDENCE :: rat where "MINIMUM_RAY_CONFIDENCE = 1/4"
definition AGENT_ADDITIONAL_INFLATION_M :: rat where "AGENT_ADDITIONAL_INFLATION_M = lit (1/10)"
definition FRESH_MAP_RESOLUTION_M :: rat where "FRESH_MAP_RESOLUTION_M = lit (1/5)"
definition FRESH_MAP_MINIMUM_FOOTPRINT_M :: rat where "FRESH_MAP_MINIMUM_FOOTPRINT_M = lit (35/100)"
definition MAX_FEEDBACK_DIVERGENCE_M :: rat where "MAX_FEEDBACK_DIVERGENCE_M = lit (1/5)"
definition MAX_ARRIVED_SPEED_MPS :: rat where "MAX_ARRIVED_SPEED_MPS = lit (5/100)"
definition MINIMUM_ARRIVED_CLEARANCE_M :: rat where "MINIMUM_ARRIVED_CLEARANCE_M = lit (1/10)"
definition FP_EPSILON :: pyfloat where "FP_EPSILON = Fin (lit (1/10^9))"
definition REFERENCE_MAX_DISTANCE_M :: pyfloat where "REFERENCE_MAX_DISTANCE_M = Fin (lit (1/5))"
definition ARRIVAL_TOLERANCE_M :: pyfloat where "ARRIVAL_TOLERANCE_M = Fin (lit (8/100))"

definition CERTIFICATION_IDENTIFIERS :: "string list" where
  "CERTIFICATION_IDENTIFIERS = [''environment_id'', ''session_id'', ''coordinate_frame_id'', ''semantic_frame_id'',
     ''semantic_capture_request_id'', ''post_inference_frame_id'', ''post_inference_capture_request_id'',
     ''semantic_map_id'', ''semantic_map_request_id'', ''navigation_map_id'', ''navigation_map_request_id'',
     ''semantic_ground_request_id'', ''post_inference_ground_request_id'']"

definition CERTIFICATION_REQUEST_IDS :: "string list" where
  "CERTIFICATION_REQUEST_IDS = [''semantic_capture_request_id'', ''post_inference_capture_request_id'',
     ''semantic_map_request_id'', ''navigation_map_request_id'', ''semantic_ground_request_id'',
     ''post_inference_ground_request_id'']"

definition CERTIFICATION_BOOLEANS :: "string list" where
  "CERTIFICATION_BOOLEANS = [''dual_grounding_surface_id_match'', ''dual_grounding_surface_role_match'',
     ''dual_grounding_semantics_revision_match'']"

definition CERTIFICATION_DIGEST_FIELDS :: "string list" where
  "CERTIFICATION_DIGEST_FIELDS = [''certification_revision'', ''certified_unix'', ''environment_id'', ''session_id'',
     ''coordinate_frame_id'', ''target_id'', ''expected_surface_role'', ''surface_id'', ''surface_role'',
     ''surface_id_semantics_revision'', ''surface_points_m'', ''surface_sha256'', ''semantic_frame_id'',
     ''semantic_capture_request_id'', ''post_inference_frame_id'', ''post_inference_capture_request_id'',
     ''semantic_map_id'', ''semantic_map_request_id'', ''navigation_map_id'', ''navigation_map_request_id'',
     ''semantic_ground_request_id'', ''post_inference_ground_request_id'', ''dual_grounding_surface_id_match'',
     ''dual_grounding_surface_role_match'', ''dual_grounding_semantics_revision_match'']"

definition CERTIFICATION_FIELDS :: "string list" where
  "CERTIFICATION_FIELDS = CERTIFICATION_DIGEST_FIELDS @ [''certification_sha256'']"

definition PASS_REASON :: string where "PASS_REASON = ''dual_fresh_exact_reference_rays_within_arrival_threshold''"

definition HARD_FAIL_REASONS :: "string list" where
  "HARD_FAIL_REASONS = [''contract_invalid'', ''initial_certification_digest_mismatch'',
     ''surface_id_semantics_revision_mismatch'', ''dual_grounding_mismatch'', ''certification_role_inconsistent'',
     ''future_dated_observation'', ''environment_mismatch'', ''session_mismatch'', ''request_id_duplicate'',
     ''request_replay'', ''frame_reused'', ''frame_timestamps_not_monotonic'', ''fresh_frame_predates_certification'',
     ''fresh_frame_predates_arrival_window'', ''coordinate_frame_changed'', ''camera_pose_changed_between_frames'',
     ''map_lineage_mismatch'', ''map_policy_mismatch'', ''agent_position_out_of_bounds'',
     ''agent_position_blocked_after_inflation'', ''feedback_collision_detected'', ''feedback_clearance_violation'',
     ''cutoff_predates_feedback'', ''agent_not_stationary'', ''agent_position_inconsistent_with_feedback'',
     ''surface_role_contradiction'']"

definition FALLBACK_REASONS :: "string list" where
  "FALLBACK_REASONS = [''certification_surface_identity_unavailable'', ''certification_surface_role_unavailable'',
     ''expected_surface_role_unavailable'', ''fast_path_role_not_supported'', ''depth_unavailable'',
     ''surface_identity_unavailable'', ''reference_surface_not_observed'', ''insufficient_exact_reference_rays'',
     ''arrival_distance_not_confirmed'']"

fun reasons_of :: "fp_outcome \<Rightarrow> string list" where
  "reasons_of FpPass = [PASS_REASON]"
| "reasons_of FpHardFail = HARD_FAIL_REASONS"
| "reasons_of FpFallback = FALLBACK_REASONS"

section \<open>Values\<close>

text \<open>\<open>_finite_number\<close>: \<open>math.isfinite\<close> of an integer beyond the float range raises.\<close>

definition finite_number :: "pyval \<Rightarrow> py_exc + bool" where
  "finite_number v =
     (case v of PInt n \<Rightarrow> bindE (float_of_int n) (\<lambda>_. Inr True)
      | PFloat x \<Rightarrow> Inr (is_finite x)
      | _ \<Rightarrow> Inr False)"

definition number_value :: "pyval \<Rightarrow> pyfloat" where
  "number_value v = (case v of PFloat x \<Rightarrow> x | PInt n \<Rightarrow> fint n | _ \<Rightarrow> NaN)"

fun all_finite :: "pyval list \<Rightarrow> py_exc + bool" where
  "all_finite [] = Inr True"
| "all_finite (v # vs) = bindE (finite_number v) (\<lambda>ok. if ok then all_finite vs else Inr False)"

definition vector3_of :: "pyval \<Rightarrow> py_exc + fvec3 option" where
  "vector3_of v =
     (case seq_elems v of
        Some [x, y, z] \<Rightarrow> bindE (all_finite [x, y, z]) (\<lambda>ok.
          Inr (if ok then Some (number_value x, number_value y, number_value z) else None))
      | _ \<Rightarrow> Inr None)"

text \<open>The patterns end in \<open>$\<close> and are matched with \<open>match\<close>, which accepts a final newline.\<close>

definition fp_identifier :: "pyval \<Rightarrow> bool" where
  "fp_identifier v = (case v of PStr s \<Rightarrow> re_match_dollar id_pattern s | _ \<Rightarrow> False)"

definition certification_digest :: "pylib \<Rightarrow> (string \<times> pyval) list \<Rightarrow> py_exc + string" where
  "certification_digest L d = canonical_digest L (PDict (map (\<lambda>k. (k, dget d k)) CERTIFICATION_DIGEST_FIELDS))"

text \<open>\<open>portable_surface_sha256\<close> of points that are vectors.\<close>

definition surface_sha256 :: "pylib \<Rightarrow> fvec3 list \<Rightarrow> py_exc + string" where
  "surface_sha256 L points = canonical_digest L (PList (map point3_val points))"

section \<open>The initial certification\<close>

record certification =
  ce_certified_unix :: pyfloat
  ce_environment_id :: string
  ce_session_id :: string
  ce_coordinate_frame_id :: string
  ce_target_id :: string
  ce_expected_role :: "string option"
  ce_surface_id :: "string option"
  ce_surface_role :: "string option"
  ce_semantics_revision :: "string option"
  ce_surface_points :: "fvec3 list"
  ce_frame_ids :: "string list"
  ce_map_ids :: "string list"
  ce_request_ids :: "string list"

definition opt_pstr :: "pyval \<Rightarrow> string option" where
  "opt_pstr v = (case v of PStr s \<Rightarrow> Some s | _ \<Rightarrow> None)"

definition field_str :: "(string \<times> pyval) list \<Rightarrow> string \<Rightarrow> string" where
  "field_str d k = pstr (dget d k)"

text \<open>String order by code units, for \<open>sorted(unknown | missing)\<close>.\<close>

fun str_less :: "string \<Rightarrow> string \<Rightarrow> bool" where
  "str_less xs [] = False"
| "str_less [] (y # ys) = True"
| "str_less (x # xs) (y # ys) =
     (if x = y then str_less xs ys else (of_char x :: nat) < of_char y)"

definition certification_shape :: "pyval \<Rightarrow> fp_stop + (string \<times> pyval) list" where
  "certification_shape v =
     (case v of
        PDict d \<Rightarrow>
          let keys = map fst d;
              wrong = filter (\<lambda>k. k \<notin> set CERTIFICATION_FIELDS) keys @ filter (\<lambda>k. k \<notin> set keys) CERTIFICATION_FIELDS in
          if wrong \<noteq> [] then contract_invalid ''CERTIFICATION_FIELDS_INVALID'' (PList (map PStr (py_sort str_less wrong))) []
          else if dget d ''certification_revision'' \<noteq> PStr INITIAL_CERTIFICATION_REVISION
          then contract_invalid ''CERTIFICATION_REVISION_UNSUPPORTED'' PNone []
          else Inr d
      | _ \<Rightarrow> contract_invalid ''CERTIFICATION_OBJECT_REQUIRED'' PNone [])"

definition first_bad :: "(string \<Rightarrow> bool) \<Rightarrow> string \<Rightarrow> string list \<Rightarrow> fp_stop + unit" where
  "first_bad P code names =
     (case filter (\<lambda>f. \<not> P f) names of [] \<Rightarrow> Inr () | f # _ \<Rightarrow> contract_invalid code (PStr f) [])"

definition certification_identifiers :: "(string \<times> pyval) list \<Rightarrow> fp_stop + string list" where
  "certification_identifiers d =
     bindE (liftF (finite_number (dget d ''certified_unix''))) (\<lambda>ok.
     bindE (check (ok \<and> \<not> flt (number_value (dget d ''certified_unix'')) (Fin 0))
              (contract_invalid ''CERTIFICATION_TIMESTAMP_INVALID'' PNone [])) (\<lambda>_.
     bindE (first_bad (\<lambda>f. fp_identifier (dget d f)) ''CERTIFICATION_IDENTIFIER_INVALID'' CERTIFICATION_IDENTIFIERS) (\<lambda>_.
     let request_ids = map (field_str d) CERTIFICATION_REQUEST_IDS in
     bindE (check (distinct request_ids) (contract_invalid ''CERTIFICATION_REQUEST_IDS_NOT_DISTINCT'' PNone [])) (\<lambda>_.
     bindE (check (field_str d ''semantic_frame_id'' \<noteq> field_str d ''post_inference_frame_id'')
              (contract_invalid ''CERTIFICATION_FRAME_IDS_NOT_DISTINCT'' PNone [])) (\<lambda>_.
     bindE (check (field_str d ''semantic_map_id'' \<noteq> field_str d ''navigation_map_id'')
              (contract_invalid ''CERTIFICATION_MAP_IDS_NOT_DISTINCT'' PNone [])) (\<lambda>_.
     bindE (first_bad (\<lambda>f. case dget d f of PBool _ \<Rightarrow> True | _ \<Rightarrow> False) ''CERTIFICATION_BOOLEAN_INVALID''
              CERTIFICATION_BOOLEANS) (\<lambda>_.
     Inr request_ids)))))))"

text \<open>\<open>v not in SURFACE_ROLES\<close> hashes the value first.\<close>

definition role_field :: "pyval \<Rightarrow> string \<Rightarrow> fp_stop + string option" where
  "role_field v code =
     (if v = PNone then Inr None
      else bindE (liftF (in_str_setE v SURFACE_ROLES)) (\<lambda>known.
           if known then Inr (opt_pstr v) else contract_invalid code PNone []))"

definition certification_roles ::
  "(string \<times> pyval) list \<Rightarrow> fp_stop + string \<times> string option \<times> string option \<times> string option \<times> string option" where
  "certification_roles d =
     bindE (check (case dget d ''target_id'' of PStr s \<Rightarrow> re_match_dollar target_id_pattern s | _ \<Rightarrow> False)
              (contract_invalid ''CERTIFICATION_IDENTIFIER_INVALID'' (PStr ''target_id'') [])) (\<lambda>_.
     bindE (role_field (dget d ''expected_surface_role'') ''CERTIFICATION_EXPECTED_SURFACE_ROLE_INVALID'') (\<lambda>expected.
     let sid = dget d ''surface_id''; revision = dget d ''surface_id_semantics_revision'' in
     bindE (check (case sid of PNone \<Rightarrow> True | PStr s \<Rightarrow> re_match_dollar surface_id_pattern s | _ \<Rightarrow> False)
              (contract_invalid ''CERTIFICATION_SURFACE_ID_INVALID'' PNone [])) (\<lambda>_.
     bindE (role_field (dget d ''surface_role'') ''CERTIFICATION_SURFACE_ROLE_INVALID'') (\<lambda>role.
     bindE (check (\<not> (role \<noteq> None \<and> sid = PNone))
              (contract_invalid ''CERTIFICATION_SURFACE_ROLE_REQUIRES_SURFACE_ID'' PNone [])) (\<lambda>_.
     bindE (check (case revision of PNone \<Rightarrow> True | PStr _ \<Rightarrow> True | _ \<Rightarrow> False)
              (contract_invalid ''CERTIFICATION_SEMANTICS_REVISION_INVALID'' PNone [])) (\<lambda>_.
     Inr (field_str d ''target_id'', expected, opt_pstr sid, role, opt_pstr revision)))))))"

fun points_of :: "pyval list \<Rightarrow> fp_stop + fvec3 list" where
  "points_of [] = Inr []"
| "points_of (v # vs) =
     bindE (liftF (vector3_of v)) (\<lambda>p.
     case p of None \<Rightarrow> contract_invalid ''CERTIFICATION_SURFACE_POINTS_INVALID'' PNone []
     | Some q \<Rightarrow> bindE (points_of vs) (\<lambda>qs. Inr (q # qs)))"

definition certification_points :: "(string \<times> pyval) list \<Rightarrow> fp_stop + fvec3 list" where
  "certification_points d =
     (case seq_elems (dget d ''surface_points_m'') of
        Some (v # vs) \<Rightarrow>
          if MAX_GROUND_SURFACE_POINTS < length (v # vs)
          then contract_invalid ''CERTIFICATION_SURFACE_POINTS_TOO_MANY''
                 (PStr (show_nat (length (v # vs)) @ '' > '' @ show_nat MAX_GROUND_SURFACE_POINTS)) []
          else points_of (v # vs)
      | _ \<Rightarrow> contract_invalid ''CERTIFICATION_SURFACE_POINTS_INVALID'' PNone [])"

definition digest_details :: "bool \<Rightarrow> bool \<Rightarrow> (string \<times> pyval) list" where
  "digest_details surface cert =
     [(''initial_surface_digest_match'', PBool surface), (''initial_certification_digest_match'', PBool cert)]"

definition certification_digests :: "pylib \<Rightarrow> (string \<times> pyval) list \<Rightarrow> fvec3 list \<Rightarrow> fp_stop + unit" where
  "certification_digests L d points =
     bindE (check (case (dget d ''surface_sha256'', dget d ''certification_sha256'') of (PStr _, PStr _) \<Rightarrow> True | _ \<Rightarrow> False)
              (contract_invalid ''CERTIFICATION_DIGEST_INVALID'' PNone [])) (\<lambda>_.
     bindE (liftF (surface_sha256 L points)) (\<lambda>s.
     bindE (liftF (certification_digest L d)) (\<lambda>c.
     let surface = (s = field_str d ''surface_sha256''); cert = (c = field_str d ''certification_sha256'') in
     check (surface \<and> cert) (hard_fail ''initial_certification_digest_mismatch'' (digest_details surface cert)))))"

definition certification_agreement ::
  "(string \<times> pyval) list \<Rightarrow> string option \<Rightarrow> string option \<Rightarrow> string option \<Rightarrow> string option \<Rightarrow> fp_stop + unit" where
  "certification_agreement d sid revision expected role =
     bindE (check (\<not> (sid \<noteq> None \<and> revision \<noteq> Some SURFACE_ID_SEMANTICS_REVISION))
              (hard_fail ''surface_id_semantics_revision_mismatch''
                 ((''semantics_revision_source'', PStr ''initial_certification'') # digest_details True True))) (\<lambda>_.
     bindE (case filter (\<lambda>f. dget d f \<noteq> PBool True) CERTIFICATION_BOOLEANS of
              [] \<Rightarrow> Inr ()
            | f # _ \<Rightarrow> hard_fail ''dual_grounding_mismatch'' ((''dual_grounding_field'', PStr f) # digest_details True True)) (\<lambda>_.
     check (\<not> (expected \<noteq> None \<and> role \<noteq> None \<and> expected \<noteq> role))
       (hard_fail ''certification_role_inconsistent'' (digest_details True True))))"

definition validate_certification :: "pylib \<Rightarrow> pyval \<Rightarrow> fp_stop + certification" where
  "validate_certification L v =
     bindE (certification_shape v) (\<lambda>d.
     bindE (certification_identifiers d) (\<lambda>request_ids.
     bindE (certification_roles d) (\<lambda>(target, expected, sid, role, revision).
     bindE (certification_points d) (\<lambda>points.
     bindE (certification_digests L d points) (\<lambda>_.
     bindE (certification_agreement d sid revision expected role) (\<lambda>_.
     Inr \<lparr>ce_certified_unix = number_value (dget d ''certified_unix''),
          ce_environment_id = field_str d ''environment_id'', ce_session_id = field_str d ''session_id'',
          ce_coordinate_frame_id = field_str d ''coordinate_frame_id'', ce_target_id = target,
          ce_expected_role = expected, ce_surface_id = sid, ce_surface_role = role, ce_semantics_revision = revision,
          ce_surface_points = points,
          ce_frame_ids = [field_str d ''semantic_frame_id'', field_str d ''post_inference_frame_id''],
          ce_map_ids = [field_str d ''semantic_map_id'', field_str d ''navigation_map_id''],
          ce_request_ids = request_ids\<rparr>))))))"

section \<open>The fresh envelopes\<close>

definition future_dated :: "rat \<Rightarrow> pyfloat \<Rightarrow> bool" where
  "future_dated t now = flt (fadd now (Fin MAX_CLOCK_SKEW_SECONDS)) (Fin t)"

definition frame_label :: "nat \<Rightarrow> string" where
  "frame_label i = ''fresh_frame['' @ show_nat i @ '']''"

fun validate_each :: "pylib \<Rightarrow> nat \<Rightarrow> pyval list \<Rightarrow> fp_stop + capture_result list" where
  "validate_each L i [] = Inr []"
| "validate_each L i (v # vs) =
     bindE (catch_contract True False [(''frame_index'', PInt (int i))] (validate_capture_result L v PNone PNone)) (\<lambda>f.
     bindE (validate_each L (Suc i) vs) (\<lambda>fs. Inr (f # fs)))"

fun frames_dated :: "pyfloat \<Rightarrow> nat \<Rightarrow> capture_result list \<Rightarrow> fp_stop + unit" where
  "frames_dated now i [] = Inr ()"
| "frames_dated now i (f # fs) =
     bindE (check (\<not> future_dated (cap_captured_unix f) now)
              (hard_fail ''future_dated_observation'' [(''future_dated_source'', PStr (frame_label i))])) (\<lambda>_.
     frames_dated now (Suc i) fs)"

definition validate_frames :: "pylib \<Rightarrow> pyval \<Rightarrow> pyfloat \<Rightarrow> fp_stop + capture_result \<times> capture_result" where
  "validate_frames L v now =
     (case seq_elems v of
        Some [a, b] \<Rightarrow>
          bindE (validate_each L 0 [a, b]) (\<lambda>fs.
          bindE (frames_dated now 0 fs) (\<lambda>_. Inr (fs ! 0, fs ! 1)))
      | _ \<Rightarrow> contract_invalid ''FRESH_FRAME_COUNT_INVALID'' (PStr ''expected exactly 2 fresh frames'') [])"

definition validate_fresh_map :: "pylib \<Rightarrow> pyval \<Rightarrow> pyval \<Rightarrow> pyfloat \<Rightarrow> fp_stop + map_request \<times> map_result" where
  "validate_fresh_map L fresh_map fresh_map_request now =
     bindE (catch_contract True False [(''source'', PStr ''fresh_map'')]
              (bindE (validate_map_request fresh_map_request) (\<lambda>q.
               bindE (validate_map_result L fresh_map (map_request_val q) PNone) (\<lambda>r. Inr (q, r))))) (\<lambda>(q, r).
     bindE (check (\<not> future_dated (mr_created_unix r) now)
              (hard_fail ''future_dated_observation'' [(''future_dated_source'', PStr ''fresh_map'')])) (\<lambda>_.
     bindE (check (\<not> future_dated (rq_requested_unix q) now)
              (hard_fail ''future_dated_observation'' [(''future_dated_source'', PStr ''fresh_map_request'')])) (\<lambda>_.
     Inr (q, r))))"

definition speed_of :: "vec3 \<Rightarrow> py_exc + pyfloat" where
  "speed_of v = fsqrt (fsum (map (\<lambda>x. fmul x x) (v3_list (f3 v))))"

definition validate_feedback :: "pyval \<Rightarrow> pyval \<Rightarrow> pyfloat \<Rightarrow> fp_stop + feedback_result \<times> pyfloat" where
  "validate_feedback feedback feedback_request now =
     bindE (case bindE (validate_feedback_request feedback_request) (\<lambda>q.
                 validate_feedback_result feedback (feedback_request_val q) (PFloat now)) of
              Inr r \<Rightarrow> Inr r
            | Inl (ContractError code detail) \<Rightarrow>
                if code = ''PORTABLE_TIMESTAMP_IN_FUTURE''
                then hard_fail ''future_dated_observation'' [(''future_dated_source'', PStr ''arrived_feedback'')]
                else contract_invalid code (PStr detail) [(''source'', PStr ''arrived_feedback'')]
            | Inl e \<Rightarrow> Inl (Uncaught e)) (\<lambda>r.
     bindE (check (fr_status r = ''arrived'' \<and> fr_target_reached r)
              (contract_invalid ''ARRIVED_FEEDBACK_STATUS_INVALID'' PNone [(''source'', PStr ''arrived_feedback'')])) (\<lambda>_.
     bindE (liftF (speed_of (fr_velocity_mps r))) (\<lambda>speed. Inr (r, speed))))"

section \<open>Identity and time of the envelopes\<close>

record envelope =
  ev_source :: string
  ev_environment :: string
  ev_session :: string
  ev_request :: string

definition envelope_of :: "string \<Rightarrow> 'a result_head_scheme \<Rightarrow> envelope" where
  "envelope_of source r = \<lparr>ev_source = source, ev_environment = rs_environment_id r, ev_session = rs_session_id r,
     ev_request = rs_request_id r\<rparr>"

definition envelopes :: "capture_result \<times> capture_result \<Rightarrow> map_result \<Rightarrow> feedback_result \<Rightarrow> envelope list" where
  "envelopes frames m fb =
     [envelope_of (frame_label 0) (fst frames), envelope_of (frame_label 1) (snd frames),
      envelope_of ''fresh_map'' m, envelope_of ''arrived_feedback'' fb]"

fun same_world :: "certification \<Rightarrow> envelope list \<Rightarrow> fp_stop + unit" where
  "same_world c [] = Inr ()"
| "same_world c (e # es) =
     bindE (check (ev_environment e = ce_environment_id c)
              (hard_fail ''environment_mismatch'' [(''mismatch_source'', PStr (ev_source e))])) (\<lambda>_.
     bindE (check (ev_session e = ce_session_id c)
              (hard_fail ''session_mismatch'' [(''mismatch_source'', PStr (ev_source e))])) (\<lambda>_.
     same_world c es))"

fun no_replay :: "certification \<Rightarrow> envelope list \<Rightarrow> fp_stop + unit" where
  "no_replay c [] = Inr ()"
| "no_replay c (e # es) =
     bindE (check (ev_request e \<notin> set (ce_request_ids c))
              (hard_fail ''request_replay'' [(''replay_source'', PStr (ev_source e))])) (\<lambda>_.
     no_replay c es)"

definition fresh_frame :: "certification \<Rightarrow> nat \<Rightarrow> capture_result \<Rightarrow> fp_stop + unit" where
  "fresh_frame c i f =
     check (cap_frame_id f \<notin> set (ce_frame_ids c))
       (hard_fail ''frame_reused'' [(''lineage_detail'', PStr ''certification frame presented as fresh''),
          (''reuse_source'', PStr (frame_label i))])"

definition check_envelope_identity ::
  "capture_result \<times> capture_result \<Rightarrow> map_result \<Rightarrow> feedback_result \<Rightarrow> certification \<Rightarrow> fp_stop + unit" where
  "check_envelope_identity frames m fb c =
     bindE (same_world c (envelopes frames m fb)) (\<lambda>_.
     bindE (check (distinct (map ev_request (envelopes frames m fb))) (hard_fail ''request_id_duplicate'' [])) (\<lambda>_.
     bindE (no_replay c (envelopes frames m fb)) (\<lambda>_.
     bindE (fresh_frame c 0 (fst frames)) (\<lambda>_.
     bindE (fresh_frame c 1 (snd frames)) (\<lambda>_.
     check (mr_map_id m \<notin> set (ce_map_ids c))
       (hard_fail ''map_lineage_mismatch''
          [(''lineage_detail'', PStr ''fresh_map.map_id reuses a certification map id'')]))))))"

definition identity_checks :: "(string \<times> bool) list" where
  "identity_checks = [(''environment_match'', True), (''session_match'', True), (''request_ids_distinct'', True),
     (''request_replay_detected'', False)]"

text \<open>\<open>portable_pose_matches\<close> of two validated captures; \<open>math.cos(math.radians(2.5))\<close> is a
  constant. An overflowing square is not caught.\<close>

definition is_close :: "pyfloat \<Rightarrow> pyfloat \<Rightarrow> pyfloat \<Rightarrow> bool" where
  "is_close a b tolerance = (feq a b \<or> fle (fabs (fsub b a)) tolerance)"

definition nav_vector4 :: "fvec4 \<Rightarrow> py_exc + bool" where
  "nav_vector4 q = (case q of (x, y, z, w) \<Rightarrow>
     bindE (fsqrt (fsum (map (\<lambda>n. fmul n n) [x, y, z, w]))) (\<lambda>norm.
     Inr (\<not> (flt norm (Fin (lit (999/1000))) \<or> flt (Fin (lit (1001/1000))) norm))))"

definition quaternion_dot :: "fvec4 \<Rightarrow> fvec4 \<Rightarrow> pyfloat" where
  "quaternion_dot p q = (case (p, q) of ((a, b, c, d), (x, y, z, w)) \<Rightarrow>
     fabs (fsum [fmul a x, fmul b y, fmul c z, fmul d w]))"

definition nav_distance :: "fvec3 \<Rightarrow> fvec3 \<Rightarrow> py_exc + pyfloat" where
  "nav_distance a b = (case (a, b) of ((a0, a1, a2), (b0, b1, b2)) \<Rightarrow>
     bindE (fsquare (fsub a0 b0)) (\<lambda>x. bindE (fsquare (fsub a1 b1)) (\<lambda>y. bindE (fsquare (fsub a2 b2)) (\<lambda>z.
     fsqrt (fsum [x, y, z])))))"

definition COS_POSE_LIMIT :: pyfloat where "COS_POSE_LIMIT = Fin (lit (9990482215818578 / 10^16))"

definition pose_matches :: "capture_result \<Rightarrow> capture_result \<Rightarrow> py_exc + bool" where
  "pose_matches a b =
     (let ca = cap_camera a; cb = cap_camera b; ia = cam_intrinsics ca; ib = cam_intrinsics cb;
          qa = f4 (cam_orientation_xyzw ca); qb = f4 (cam_orientation_xyzw cb);
          close = (\<lambda>f. is_close (Fin (f ia)) (Fin (f ib)) (Fin (lit (1/10^6)))) in
      if cam_coordinate_frame_id ca \<noteq> cam_coordinate_frame_id cb then Inr False
      else if rgb_width_px (cap_rgb a) \<noteq> rgb_width_px (cap_rgb b) \<or> rgb_height_px (cap_rgb a) \<noteq> rgb_height_px (cap_rgb b)
      then Inr False
      else if \<not> (close fx_px \<and> close fy_px \<and> close cx_px \<and> close cy_px) then Inr False
      else
        bindE (nav_vector4 qa) (\<lambda>oka. if \<not> oka then Inr False else
        bindE (nav_vector4 qb) (\<lambda>okb. if \<not> okb then Inr False else
        bindE (nav_distance (f3 (cam_position_m ca)) (f3 (cam_position_m cb))) (\<lambda>d.
        Inr (fle d (Fin (lit (8/100))) \<and> fle COS_POSE_LIMIT (quaternion_dot qa qb))))))"

definition depth_digest :: "capture_result \<Rightarrow> string option" where
  "depth_digest f =
     (case cap_depth f of None \<Rightarrow> None
      | Some (SparseDepth s) \<Rightarrow> Some (sd_samples_sha256 s)
      | Some (DenseDepth d) \<Rightarrow> Some (dd_sha256 d))"

definition same_frame :: "certification \<Rightarrow> nat \<Rightarrow> capture_result \<Rightarrow> fp_stop + unit" where
  "same_frame c i f =
     check (cam_coordinate_frame_id (cap_camera f) = ce_coordinate_frame_id c)
       (hard_fail ''coordinate_frame_changed'' [(''coordinate_frame_source'', PStr (frame_label i))])"

definition check_frame_pair :: "capture_result \<times> capture_result \<Rightarrow> certification \<Rightarrow> pyfloat \<Rightarrow> fp_stop + (string \<times> bool) list" where
  "check_frame_pair frames c not_before =
     (case frames of (a, b) \<Rightarrow>
       bindE (check (cap_frame_id a \<noteq> cap_frame_id b) (hard_fail ''frame_reused'' [(''frame_ids_distinct'', PBool False)])) (\<lambda>_.
       bindE (check (cap_captured_unix a < cap_captured_unix b)
                (hard_fail ''frame_timestamps_not_monotonic''
                   [(''frame_ids_distinct'', PBool True), (''timestamps_monotonic'', PBool False)])) (\<lambda>_.
       bindE (check (flt (ce_certified_unix c) (Fin (cap_captured_unix a)))
                (hard_fail ''fresh_frame_predates_certification'' [])) (\<lambda>_.
       bindE (check (flt not_before (Fin (cap_captured_unix a)))
                (hard_fail ''fresh_frame_predates_arrival_window'' [])) (\<lambda>_.
       bindE (same_frame c 0 a) (\<lambda>_.
       bindE (same_frame c 1 b) (\<lambda>_.
       bindE (liftF (pose_matches a b)) (\<lambda>same.
       bindE (check same (hard_fail ''camera_pose_changed_between_frames'' [])) (\<lambda>_.
       Inr [(''frame_ids_distinct'', True), (''timestamps_monotonic'', True), (''fresh_frames_after_cutoff'', True),
            (''synchronized_camera_match'', True),
            (''frame_content_identical'', rgb_sha256 (cap_rgb a) = rgb_sha256 (cap_rgb b) \<and> depth_digest a = depth_digest b)])))))))))"

section \<open>The fresh map and the feedback\<close>

definition planar_distance :: "fvec3 \<Rightarrow> fvec3 \<Rightarrow> pyfloat" where
  "planar_distance a p = fhypot [fsub (fst a) (fst p), fsub (fst (snd a)) (fst (snd p))]"

definition agent_position :: "map_result \<Rightarrow> fvec3" where
  "agent_position m = f3 (agent_position_m (mr_agent m))"

record occupancy_proof =
  op_footprint_m :: rat
  op_cell_free :: bool
  op_reason :: "string option"

definition proof_val :: "occupancy_proof \<Rightarrow> pyval" where
  "proof_val p = PDict [(''kind'', PStr ''binary_inflated_occupancy_proof''),
     (''additional_inflation_m'', num_val AGENT_ADDITIONAL_INFLATION_M), (''footprint_radius_m'', num_val (op_footprint_m p)),
     (''numeric_clearance_measured'', PBool False), (''agent_cell_free'', PBool (op_cell_free p)),
     (''reason'', opt_str_val (op_reason p))]"

definition agent_report :: "pylib \<Rightarrow> map_result \<Rightarrow> py_exc + collision_report" where
  "agent_report L m =
     path_collision_report L (map_items m) (PList [point3_val (agent_position m), point3_val (agent_position m)])
       (num_val AGENT_ADDITIONAL_INFLATION_M)"

definition map_policy :: "map_result \<Rightarrow> map_request \<Rightarrow> fp_stop + unit" where
  "map_policy m q =
     bindE (check (isclose_nano (mq_resolution_m q) FRESH_MAP_RESOLUTION_M
                   \<and> isclose_nano (resolution_m (mr_grid m)) FRESH_MAP_RESOLUTION_M)
              (hard_fail ''map_policy_mismatch'' [(''map_policy_field'', PStr ''resolution_m'')])) (\<lambda>_.
     let least = fsub (Fin FRESH_MAP_MINIMUM_FOOTPRINT_M) FP_EPSILON in
     check (\<not> (flt (Fin (mq_footprint_radius_m q)) least \<or> flt (Fin (agent_footprint_radius_m (mr_agent m))) least))
       (hard_fail ''map_policy_mismatch'' [(''map_policy_field'', PStr ''footprint_radius_m'')]))"

definition map_lineage :: "map_result \<Rightarrow> capture_result \<Rightarrow> certification \<Rightarrow> fp_stop + unit" where
  "map_lineage m newest c =
     bindE (check (mr_coordinate_frame_id m = ce_coordinate_frame_id c)
              (hard_fail ''coordinate_frame_changed'' [(''coordinate_frame_source'', PStr ''fresh_map'')])) (\<lambda>_.
     bindE (check (mr_source_frame_id m = cap_frame_id newest)
              (hard_fail ''map_lineage_mismatch''
                 [(''lineage_detail'', PStr ''fresh_map.source_frame_id != newest fresh frame_id'')])) (\<lambda>_.
     check (\<not> flt (Fin (mr_created_unix m)) (fsub (Fin (cap_captured_unix newest)) (Fin MAX_CLOCK_SKEW_SECONDS)))
       (hard_fail ''map_lineage_mismatch''
          [(''lineage_detail'', PStr ''fresh_map.created_unix predates its source frame'')])))"

definition check_fresh_map ::
  "pylib \<Rightarrow> map_result \<Rightarrow> map_request \<Rightarrow> capture_result \<Rightarrow> certification \<Rightarrow> fp_stop + occupancy_proof" where
  "check_fresh_map L m q newest c =
     bindE (map_lineage m newest c) (\<lambda>_.
     bindE (map_policy m q) (\<lambda>_.
     bindE (catch_contract False True [(''source'', PStr ''fresh_map'')] (agent_report L m)) (\<lambda>r.
     let evidence = \<lparr>op_footprint_m = agent_footprint_radius_m (mr_agent m), op_cell_free = cr_valid r,
                  op_reason = cr_reason r\<rparr> in
     if cr_valid r then Inr evidence
     else hard_fail (if cr_reason r = Some ''out_of_bounds'' then ''agent_position_out_of_bounds''
                     else ''agent_position_blocked_after_inflation'')
            [(''map_safety_reason'', opt_str_val (cr_reason r)), (''inflated_occupancy_proof'', proof_val evidence)])))"

definition map_checks :: "(string \<times> bool) list" where
  "map_checks = [(''map_coordinate_frame_match'', True), (''map_lineage_match'', True), (''map_policy_match'', True),
     (''agent_cell_free_after_additional_inflation'', True)]"

definition check_feedback ::
  "feedback_result \<Rightarrow> pyfloat \<Rightarrow> certification \<Rightarrow> fvec3 \<Rightarrow> pyfloat \<Rightarrow> fp_stop + unit" where
  "check_feedback fb speed c position not_before =
     bindE (check (rs_environment_id fb = ce_environment_id c)
              (hard_fail ''environment_mismatch'' [(''mismatch_source'', PStr ''arrived_feedback'')])) (\<lambda>_.
     bindE (check (rs_session_id fb = ce_session_id c)
              (hard_fail ''session_mismatch'' [(''mismatch_source'', PStr ''arrived_feedback'')])) (\<lambda>_.
     bindE (check (\<not> fr_collision_detected fb) (hard_fail ''feedback_collision_detected'' [])) (\<lambda>_.
     bindE (check (\<not> flt (Fin (fr_minimum_clearance_m fb)) (fsub (Fin MINIMUM_ARRIVED_CLEARANCE_M) FP_EPSILON))
              (hard_fail ''feedback_clearance_violation''
                 [(''feedback_minimum_clearance_m'', num_val (fr_minimum_clearance_m fb))])) (\<lambda>_.
     bindE (check (\<not> flt not_before (fsub (Fin (fr_observed_unix fb)) FP_EPSILON))
              (hard_fail ''cutoff_predates_feedback'' [])) (\<lambda>_.
     let divergence = planar_distance position (f3 (fr_position_m fb));
         details = [(''arrived_feedback_speed_mps'', PFloat speed),
                    (''feedback_agent_planar_divergence_m'', PFloat divergence)] in
     bindE (check (\<not> flt (fadd (Fin MAX_ARRIVED_SPEED_MPS) FP_EPSILON) speed) (hard_fail ''agent_not_stationary'' details)) (\<lambda>_.
     check (\<not> flt (fadd (Fin MAX_FEEDBACK_DIVERGENCE_M) FP_EPSILON) divergence)
       (hard_fail ''agent_position_inconsistent_with_feedback'' details)))))))"

definition feedback_checks :: "(string \<times> bool) list" where
  "feedback_checks = [(''feedback_environment_session_match'', True), (''feedback_collision_free'', True),
     (''feedback_clearance_ok'', True), (''cutoff_not_before_feedback'', True), (''agent_stationary'', True),
     (''agent_position_consistent_with_feedback'', True)]"

section \<open>Exact reference rays\<close>

text \<open>\<open>count_exact_reference_rays\<close>: the rays kept, by their image coordinates, and the counts of
  those left out.\<close>

record ray_counts =
  rc_rays :: "(fvec2 \<times> fvec3 \<times> pyfloat) list"
  rc_duplicate :: int
  rc_far :: int
  rc_other :: int
  rc_unidentified :: int
  rc_role_missing :: int
  rc_role_conflict :: int

definition no_rays :: ray_counts where
  "no_rays = \<lparr>rc_rays = [], rc_duplicate = 0, rc_far = 0, rc_other = 0, rc_unidentified = 0, rc_role_missing = 0,
     rc_role_conflict = 0\<rparr>"

definition uv_eq :: "fvec2 \<Rightarrow> fvec2 \<Rightarrow> bool" where
  "uv_eq a b = (feq (fst a) (fst b) \<and> feq (snd a) (snd b))"

definition nearest_distance :: "fvec3 \<Rightarrow> fvec3 list \<Rightarrow> py_exc + pyfloat" where
  "nearest_distance p refs = bindE (mapE (\<lambda>r. fdist (v3_list p) (v3_list r)) refs) fmin_list"

definition count_ray ::
  "string option \<Rightarrow> string option \<Rightarrow> fvec3 list \<Rightarrow> pyfloat \<Rightarrow> ray_counts \<Rightarrow> depth_point \<Rightarrow> py_exc + ray_counts" where
  "count_ray sid role refs maximum c ray =
     (if pt_surface_id ray = None then Inr (c\<lparr>rc_unidentified := rc_unidentified c + 1\<rparr>)
      else if pt_surface_id ray \<noteq> sid then Inr (c\<lparr>rc_other := rc_other c + 1\<rparr>)
      else if pt_surface_role ray = None then Inr (c\<lparr>rc_role_missing := rc_role_missing c + 1\<rparr>)
      else if pt_surface_role ray \<noteq> role then Inr (c\<lparr>rc_role_conflict := rc_role_conflict c + 1\<rparr>)
      else
        bindE (nearest_distance (pt_position_m ray) refs) (\<lambda>nearest.
        if flt (fadd maximum FP_EPSILON) nearest then Inr (c\<lparr>rc_far := rc_far c + 1\<rparr>)
        else if list_ex (\<lambda>r. uv_eq (fst r) (pt_uv_norm ray)) (rc_rays c) then Inr (c\<lparr>rc_duplicate := rc_duplicate c + 1\<rparr>)
        else Inr (c\<lparr>rc_rays := rc_rays c @ [(pt_uv_norm ray, pt_position_m ray, nearest)]\<rparr>)))"

definition count_exact_reference_rays ::
  "depth_point list \<Rightarrow> string option \<Rightarrow> string option \<Rightarrow> fvec3 list \<Rightarrow> pyfloat \<Rightarrow> py_exc + ray_counts" where
  "count_exact_reference_rays rays sid role refs maximum = foldE (count_ray sid role refs maximum) no_rays rays"

definition surface_id_match :: "ray_counts \<Rightarrow> bool" where
  "surface_id_match c = (rc_rays c \<noteq> [] \<or> 0 < rc_far c \<or> 0 < rc_role_missing c \<or> 0 < rc_role_conflict c)"

definition surface_role_match :: "ray_counts \<Rightarrow> bool" where
  "surface_role_match c = (rc_rays c \<noteq> [] \<or> 0 < rc_far c)"

record frame_audit =
  fa_index :: nat
  fa_frame_id :: string
  fa_captured_unix :: rat
  fa_depth_available :: bool
  fa_semantics_match :: bool
  fa_low_confidence :: "int option"
  fa_projected :: int
  fa_counts :: ray_counts
  fa_contradiction :: bool
  fa_insufficiency :: "string option"

definition depth_revision :: "depth_plane \<Rightarrow> string option" where
  "depth_revision d = (case d of SparseDepth s \<Rightarrow> sd_semantics_revision s | DenseDepth _ \<Rightarrow> None)"

definition frame_verdict :: "bool \<Rightarrow> ray_counts \<Rightarrow> bool \<times> string option" where
  "frame_verdict semantics_match c =
     (if 0 < rc_role_conflict c then (True, None)
      else if \<not> semantics_match then (False, Some ''surface_identity_unavailable'')
      else if length (rc_rays c) < MINIMUM_EXACT_REFERENCE_RAYS
      then (False, Some (if rc_rays c = [] \<and> \<not> surface_id_match c then ''reference_surface_not_observed''
                         else ''insufficient_exact_reference_rays''))
      else (False, None))"

definition evaluate_frame_rays :: "pylib \<Rightarrow> nat \<Rightarrow> capture_result \<Rightarrow> certification \<Rightarrow> fp_stop + frame_audit" where
  "evaluate_frame_rays L i f c =
     (let audit = \<lparr>fa_index = i, fa_frame_id = cap_frame_id f, fa_captured_unix = cap_captured_unix f,
        fa_depth_available = (cap_depth f \<noteq> None), fa_semantics_match = False, fa_low_confidence = None,
        fa_projected = 0, fa_counts = no_rays, fa_contradiction = False, fa_insufficiency = None\<rparr> in
      case cap_depth f of
        None \<Rightarrow> Inr (audit\<lparr>fa_insufficiency := Some ''depth_unavailable''\<rparr>)
      | Some depth \<Rightarrow>
          let semantics = (depth_revision depth = Some SURFACE_ID_SEMANTICS_REVISION
                           \<and> depth_revision depth = ce_semantics_revision c) in
          bindE (catch_contract True True [(''frame_index'', PInt (int i))]
                   (project_depth_samples L (capture_result_val f) PNone (num_val MINIMUM_RAY_CONFIDENCE)
                      (num_val (lit (1/1000))) (num_val 10000))) (\<lambda>projected.
          bindE (liftF (count_exact_reference_rays projected (ce_surface_id c) (ce_surface_role c) (ce_surface_points c)
                   REFERENCE_MAX_DISTANCE_M)) (\<lambda>counts.
          case frame_verdict semantics counts of (contradiction, insufficiency) \<Rightarrow>
          Inr (audit\<lparr>fa_semantics_match := semantics,
            fa_low_confidence := (case depth of SparseDepth s \<Rightarrow> Some (int (length (sd_samples s)) - int (length projected))
                                  | DenseDepth _ \<Rightarrow> None),
            fa_projected := int (length projected), fa_counts := counts, fa_contradiction := contradiction,
            fa_insufficiency := insufficiency\<rparr>))))"

section \<open>The decision\<close>

record fp_result =
  fp_outcome :: "fp_outcome option"
  fp_reason :: string
  fp_details :: "(string \<times> pyval) list"
  fp_checks :: "(string \<times> bool) list"
  fp_frames :: "frame_audit list"
  fp_maximum :: "pyfloat option"
  fp_proof :: "occupancy_proof option"
  fp_position :: "fvec3 option"
  fp_divergence :: "pyfloat option"
  fp_speed :: "pyfloat option"
  fp_clearance :: "rat option"
  fp_distance :: "pyfloat option"
  fp_ray_count :: "nat option"
  fp_qwen_allowed :: bool
  fp_confirmed :: bool

definition blank_result :: fp_result where
  "blank_result = \<lparr>fp_outcome = None, fp_reason = [], fp_details = [], fp_checks = [], fp_frames = [], fp_maximum = None,
     fp_proof = None, fp_position = None, fp_divergence = None, fp_speed = None, fp_clearance = None, fp_distance = None,
     fp_ray_count = None, fp_qwen_allowed = False, fp_confirmed = False\<rparr>"

text \<open>The body runs on the result it fills: a stop keeps what was filled in before it.\<close>

type_synonym 'a fp_step = "fp_result \<Rightarrow> (fp_stop + 'a) \<times> fp_result"

definition fp_bind :: "'a fp_step \<Rightarrow> ('a \<Rightarrow> 'b fp_step) \<Rightarrow> 'b fp_step" where
  "fp_bind m f r = (case m r of (Inl e, r') \<Rightarrow> (Inl e, r') | (Inr x, r') \<Rightarrow> f x r')"

definition fp_do :: "(fp_stop + 'a) \<Rightarrow> 'a fp_step" where
  "fp_do m r = (m, r)"

definition fp_set :: "(fp_result \<Rightarrow> fp_result) \<Rightarrow> unit fp_step" where
  "fp_set g r = (Inr (), g r)"

definition add_checks :: "(string \<times> bool) list \<Rightarrow> unit fp_step" where
  "add_checks cs = fp_set (\<lambda>r. r\<lparr>fp_checks := fp_checks r @ cs\<rparr>)"

definition fp_inputs :: "pyval \<Rightarrow> pyval \<Rightarrow> pyval \<Rightarrow> fp_stop + unit" where
  "fp_inputs radius not_before now =
     bindE (liftF (finite_number radius)) (\<lambda>ok.
     bindE (check (ok \<and> flt (Fin 0) (number_value radius)) (contract_invalid ''ARRIVAL_RADIUS_INVALID'' PNone [])) (\<lambda>_.
     bindE (liftF (finite_number not_before)) (\<lambda>ok.
     bindE (check ok (contract_invalid ''NOT_BEFORE_UNIX_INVALID'' PNone [])) (\<lambda>_.
     bindE (liftF (finite_number now)) (\<lambda>ok.
     check ok (contract_invalid ''NOW_UNIX_INVALID'' PNone []))))))"

definition certification_supported :: "certification \<Rightarrow> fp_stop + unit" where
  "certification_supported c =
     (if ce_surface_id c = None then fallback ''certification_surface_identity_unavailable'' []
      else if ce_surface_role c = None then fallback ''certification_surface_role_unavailable'' []
      else if ce_expected_role c = None then fallback ''expected_surface_role_unavailable'' []
      else check (ce_surface_role c = Some REQUIRED_SURFACE_ROLE \<and> ce_expected_role c = Some REQUIRED_SURFACE_ROLE)
             (fallback ''fast_path_role_not_supported''
                [(''certification_surface_role'', opt_str_val (ce_surface_role c)),
                 (''certification_expected_surface_role'', opt_str_val (ce_expected_role c))]))"

text \<open>Everything up to the line after which, by its comment, only a pass or a fallback can follow.\<close>

definition safety_part ::
  "pylib \<Rightarrow> pyval \<Rightarrow> pyval \<Rightarrow> pyval \<Rightarrow> pyval \<Rightarrow> pyval \<Rightarrow> pyval \<Rightarrow> pyfloat \<Rightarrow> pyfloat \<Rightarrow> pyfloat
     \<Rightarrow> (certification \<times> (capture_result \<times> capture_result) \<times> map_result) fp_step" where
  "safety_part L cert frames fresh_map fresh_map_request feedback feedback_request radius not_before now =
     fp_bind (fp_set (\<lambda>r. r\<lparr>fp_maximum := Some (fadd radius ARRIVAL_TOLERANCE_M)\<rparr>)) (\<lambda>_.
     fp_bind (fp_do (validate_certification L cert)) (\<lambda>c.
     fp_bind (add_checks [(''initial_certification_digest_match'', True), (''initial_surface_digest_match'', True)]) (\<lambda>_.
     fp_bind (fp_do (validate_frames L frames now)) (\<lambda>fs.
     fp_bind (fp_do (validate_fresh_map L fresh_map fresh_map_request now)) (\<lambda>(q, m).
     fp_bind (fp_do (validate_feedback feedback feedback_request now)) (\<lambda>(fb, speed).
     fp_bind (add_checks [(''contract_valid'', True), (''not_future_dated'', True)]) (\<lambda>_.
     fp_bind (fp_do (check_envelope_identity fs m fb c)) (\<lambda>_.
     fp_bind (add_checks identity_checks) (\<lambda>_.
     fp_bind (fp_do (check_frame_pair fs c not_before)) (\<lambda>pair_checks.
     fp_bind (add_checks (pair_checks @ [(''coordinate_frame_match'', True)])) (\<lambda>_.
     fp_bind (fp_do (check_fresh_map L m q (snd fs) c)) (\<lambda>evidence.
     fp_bind (add_checks map_checks) (\<lambda>_.
     fp_bind (fp_set (\<lambda>r. r\<lparr>fp_proof := Some evidence, fp_position := Some (agent_position m),
        fp_divergence := Some (planar_distance (agent_position m) (f3 (fr_position_m fb))),
        fp_speed := Some speed, fp_clearance := Some (fr_minimum_clearance_m fb)\<rparr>)) (\<lambda>_.
     fp_bind (fp_do (check_feedback fb speed c (agent_position m) not_before)) (\<lambda>_.
     fp_bind (add_checks feedback_checks) (\<lambda>_.
     fp_do (Inr (c, fs, m))))))))))))))))))"

definition audits_decided :: "frame_audit \<Rightarrow> frame_audit \<Rightarrow> unit fp_step" where
  "audits_decided a b =
     fp_bind (fp_do (case filter fa_contradiction [a, b] of [] \<Rightarrow> Inr ()
        | x # _ \<Rightarrow> hard_fail ''surface_role_contradiction'' [(''frame_index'', PInt (int (fa_index x)))])) (\<lambda>_.
     fp_bind (add_checks [(''surface_role_consistent'', True),
        (''semantics_revision_match_all_frames'', list_all fa_semantics_match [a, b]),
        (''surface_id_match_all_frames'', list_all (\<lambda>x. surface_id_match (fa_counts x)) [a, b]),
        (''surface_role_match_all_frames'', list_all (\<lambda>x. surface_role_match (fa_counts x)) [a, b])]) (\<lambda>_.
     fp_do (case filter (\<lambda>x. fa_insufficiency x \<noteq> None) [a, b] of [] \<Rightarrow> Inr ()
        | x # _ \<Rightarrow> fallback (the (fa_insufficiency x)) [(''frame_index'', PInt (int (fa_index x)))])))"

definition arrival_distance :: "map_result \<Rightarrow> frame_audit \<Rightarrow> pyfloat" where
  "arrival_distance m newest =
     hd (py_sort flt (map (\<lambda>r. planar_distance (agent_position m) (fst (snd r))) (rc_rays (fa_counts newest))))"

definition observation_part ::
  "pylib \<Rightarrow> pyfloat \<Rightarrow> certification \<times> (capture_result \<times> capture_result) \<times> map_result \<Rightarrow> unit fp_step" where
  "observation_part L radius x = (case x of (c, fs, m) \<Rightarrow>
     fp_bind (fp_do (certification_supported c)) (\<lambda>_.
     fp_bind (add_checks [(''certification_surface_role_supported'', True),
        (''expected_and_actual_role_match_required_role'', True)]) (\<lambda>_.
     fp_bind (fp_do (evaluate_frame_rays L 0 (fst fs) c)) (\<lambda>a.
     fp_bind (fp_do (evaluate_frame_rays L 1 (snd fs) c)) (\<lambda>b.
     fp_bind (fp_set (\<lambda>r. r\<lparr>fp_frames := [a, b]\<rparr>)) (\<lambda>_.
     fp_bind (audits_decided a b) (\<lambda>_.
     fp_bind (add_checks [(''dual_fresh_exact_reference_rays'', True)]) (\<lambda>_.
     let d = arrival_distance m b in
     fp_bind (fp_set (\<lambda>r. r\<lparr>fp_distance := Some d, fp_ray_count := Some (length (rc_rays (fa_counts b)))\<rparr>)) (\<lambda>_.
     fp_bind (fp_do (check (\<not> flt (fadd (fadd radius ARRIVAL_TOLERANCE_M) FP_EPSILON) d)
                       (fallback ''arrival_distance_not_confirmed'' []))) (\<lambda>_.
     fp_bind (add_checks [(''arrival_distance_within_unchanged_threshold'', True)]) (\<lambda>_.
     fp_set (\<lambda>r. r\<lparr>fp_outcome := Some FpPass, fp_reason := PASS_REASON\<rparr>))))))))))))"

definition fp_body ::
  "pylib \<Rightarrow> pyval \<Rightarrow> pyval \<Rightarrow> pyval \<Rightarrow> pyval \<Rightarrow> pyval \<Rightarrow> pyval \<Rightarrow> pyval \<Rightarrow> pyval \<Rightarrow> pyval \<Rightarrow> unit fp_step" where
  "fp_body L cert frames fresh_map fresh_map_request feedback feedback_request radius not_before now =
     fp_bind (fp_do (fp_inputs radius not_before now)) (\<lambda>_.
     fp_bind (safety_part L cert frames fresh_map fresh_map_request feedback feedback_request
                (number_value radius) (number_value not_before) (number_value now)) (\<lambda>x.
     observation_part L (number_value radius) x))"

text \<open>The handler of \<open>_Decision\<close> and the end of the function; the last assertion is that the reason
  is registered for the outcome.\<close>

definition decided :: "fp_outcome \<Rightarrow> string \<Rightarrow> (string \<times> pyval) list \<Rightarrow> fp_result \<Rightarrow> fp_result" where
  "decided outcome reason details r =
     r\<lparr>fp_outcome := Some outcome, fp_reason := reason, fp_details := details,
       fp_checks := fp_checks r @ (if outcome = FpHardFail
          then concat (map (\<lambda>k. case dget details k of PBool b \<Rightarrow> [(k, b)] | _ \<Rightarrow> [])
                 [''initial_certification_digest_match'', ''initial_surface_digest_match'']) else [])\<rparr>"

datatype fp_error = Raises py_exc | AssertionFails

definition finish_result :: "fp_result \<Rightarrow> fp_error + fp_result" where
  "finish_result r =
     (case fp_outcome r of
        None \<Rightarrow> Inl AssertionFails
      | Some outcome \<Rightarrow>
          if fp_reason r \<in> set (reasons_of outcome)
          then Inr (r\<lparr>fp_qwen_allowed := (outcome = FpFallback), fp_confirmed := (outcome = FpPass)\<rparr>)
          else Inl AssertionFails)"

definition evaluate_fast_path ::
  "pylib \<Rightarrow> pyval \<Rightarrow> pyval \<Rightarrow> pyval \<Rightarrow> pyval \<Rightarrow> pyval \<Rightarrow> pyval \<Rightarrow> pyval \<Rightarrow> pyval \<Rightarrow> pyval \<Rightarrow> fp_error + fp_result" where
  "evaluate_fast_path L cert frames fresh_map fresh_map_request feedback feedback_request radius not_before now =
     (case fp_body L cert frames fresh_map fresh_map_request feedback feedback_request radius not_before now blank_result of
        (Inr _, r) \<Rightarrow> finish_result r
      | (Inl (Decide outcome reason details), r) \<Rightarrow> finish_result (decided outcome reason details r)
      | (Inl (Uncaught e), r) \<Rightarrow> Inl (Raises e))"

end
