(* ===== verification/ArrivalChecks.thy ===== *)
theory ArrivalChecks
  imports Arrival
begin

text \<open>
  Lemmas on the arrival fast path: the stops of every check are registered, what each check
  guarantees when it does not stop, and the count of exact reference rays.
\<close>

section \<open>The registry of reasons\<close>

text \<open>A stop of a check is never a pass, and its reason is registered for its outcome; without
  \<open>fb\<close> it is no fallback either.\<close>

definition registered :: "bool \<Rightarrow> fp_stop \<Rightarrow> bool" where
  "registered fb e = (case e of
     Decide o' r d \<Rightarrow> (o' = FpHardFail \<or> fb \<and> o' = FpFallback) \<and> r \<in> set (reasons_of o') | Uncaught _ \<Rightarrow> True)"

definition stops_in :: "bool \<Rightarrow> fp_stop + 'a \<Rightarrow> bool" where
  "stops_in fb m = (case m of Inl e \<Rightarrow> registered fb e | Inr _ \<Rightarrow> True)"

named_theorems stops "checks whose stops are registered"

lemma stops_Inr [stops, simp]: "stops_in fb (Inr x)"
  by (simp add: stops_in_def)

lemma stops_bindE [stops]: "stops_in fb m \<Longrightarrow> (\<And>x. stops_in fb (f x)) \<Longrightarrow> stops_in fb (bindE m f)"
  by (cases m) (simp_all add: stops_in_def)

lemma stops_check [stops]: "stops_in fb m \<Longrightarrow> stops_in fb (check b m)"
  by (simp add: check_def)

lemma stops_liftF [stops, simp]: "stops_in fb (liftF m)"
  by (cases m) (simp_all add: liftF_def stops_in_def registered_def)

lemma stops_hard_fail [stops]: "r \<in> set HARD_FAIL_REASONS \<Longrightarrow> stops_in fb (hard_fail r d)"
  by (simp add: hard_fail_def stops_in_def registered_def)

lemma stops_fallback [stops]: "r \<in> set FALLBACK_REASONS \<Longrightarrow> stops_in True (fallback r d)"
  by (simp add: fallback_def stops_in_def registered_def)

lemma stops_contract_invalid [stops, simp]: "stops_in fb (contract_invalid c x d)"
  unfolding contract_invalid_def by (rule stops_hard_fail) (simp add: HARD_FAIL_REASONS_def)

lemma stops_catch [stops, simp]: "stops_in fb (catch_contract c k d m)"
proof (cases m)
  case (Inl e)
  then show ?thesis by (cases e) (auto simp: catch_contract_def stops_in_def registered_def
    contract_invalid_def hard_fail_def HARD_FAIL_REASONS_def)
qed (simp add: catch_contract_def)

lemma stops_if [stops]: "(b \<Longrightarrow> stops_in fb x) \<Longrightarrow> (\<not> b \<Longrightarrow> stops_in fb y) \<Longrightarrow> stops_in fb (if b then x else y)"
  by simp

lemma stops_prod [stops]: "(\<And>a b. stops_in fb (f a b)) \<Longrightarrow> stops_in fb (case p of (a, b) \<Rightarrow> f a b)"
  by (cases p) simp

lemma stops_Let [stops]: "(\<And>x. stops_in fb (f x)) \<Longrightarrow> stops_in fb (Let a f)"
  by simp

lemma stops_list [stops]: "stops_in fb a \<Longrightarrow> (\<And>x xs. stops_in fb (f x xs)) \<Longrightarrow> stops_in fb (case xs of [] \<Rightarrow> a | x # xs \<Rightarrow> f x xs)"
  by (cases xs) simp_all

lemma stops_option [stops]: "stops_in fb a \<Longrightarrow> (\<And>x. stops_in fb (f x)) \<Longrightarrow> stops_in fb (case x of None \<Rightarrow> a | Some x \<Rightarrow> f x)"
  by (cases x) simp_all

lemma hard_reasons [simp]: "r \<in> set HARD_FAIL_REASONS \<Longrightarrow> stops_in fb (hard_fail r d)"
  by (rule stops_hard_fail)

lemma stops_points [stops, simp]: "stops_in fb (points_of vs)"
  by (induction vs) (auto intro!: stops)

lemma stops_first_bad [stops, simp]: "stops_in fb (first_bad P code names)"
  unfolding first_bad_def by (intro stops)

lemma stops_role [stops, simp]: "stops_in fb (role_field v code)"
  unfolding role_field_def by (intro stops)

lemma stops_certification [stops, simp]: "stops_in fb (validate_certification L v)"
proof -
  have a: "stops_in fb (certification_shape v)"
    unfolding certification_shape_def by (cases v) (simp_all add: stops_if stops_Let)
  have b: "stops_in fb (certification_identifiers d)" for d
    unfolding certification_identifiers_def by (intro stops)
  have c: "stops_in fb (certification_roles d)" for d
    unfolding certification_roles_def by (intro stops)
  have p: "stops_in fb (certification_points d)" for d
    unfolding certification_points_def by (auto intro!: stops split: option.splits list.splits)
  have g: "stops_in fb (certification_digests L d points)" for d points
    unfolding certification_digests_def by (intro stops) (simp add: HARD_FAIL_REASONS_def)
  have h: "stops_in fb (certification_agreement d sid revision expected role)" for d sid revision expected role
    unfolding certification_agreement_def by (intro stops) (simp_all add: HARD_FAIL_REASONS_def)
  show ?thesis
    unfolding validate_certification_def by (intro stops a b c p g h)
qed

lemma stops_each [stops, simp]: "stops_in fb (validate_each L i vs)"
  by (induction vs arbitrary: i) (auto intro!: stops)

lemma stops_dated [stops, simp]: "stops_in fb (frames_dated now i fs)"
  by (induction fs arbitrary: i) (auto intro!: stops simp: HARD_FAIL_REASONS_def)

lemma stops_frames [stops, simp]: "stops_in fb (validate_frames L v now)"
  unfolding validate_frames_def by (auto intro!: stops split: option.splits list.splits)

lemma stops_map [stops, simp]: "stops_in fb (validate_fresh_map L m q now)"
  unfolding validate_fresh_map_def by (intro stops) (simp_all add: HARD_FAIL_REASONS_def)

lemma stops_feedback [stops, simp]: "stops_in fb (validate_feedback v q now)"
proof -
  have "stops_in fb (case m of Inr r \<Rightarrow> Inr r
      | Inl (ContractError code detail) \<Rightarrow>
          if code = c then hard_fail ''future_dated_observation'' d else contract_invalid code (PStr detail) d'
      | Inl e \<Rightarrow> Inl (Uncaught e))" for m :: "py_exc + 'x" and c d d'
  proof (cases m)
    case (Inl e)
    then show ?thesis by (cases e) (auto simp: stops_in_def registered_def contract_invalid_def hard_fail_def HARD_FAIL_REASONS_def)
  qed simp
  then show ?thesis unfolding validate_feedback_def by (intro stops)
qed

lemma stops_world [stops, simp]: "stops_in fb (same_world c es)" "stops_in fb (no_replay c es)"
  by (induction es) (auto intro!: stops simp: HARD_FAIL_REASONS_def)

lemma stops_identity [stops, simp]: "stops_in fb (check_envelope_identity fs m x c)"
  unfolding check_envelope_identity_def fresh_frame_def by (intro stops) (simp_all add: HARD_FAIL_REASONS_def)

lemma stops_pair [stops, simp]: "stops_in fb (check_frame_pair fs c t)"
  unfolding check_frame_pair_def same_frame_def by (intro stops) (simp_all add: HARD_FAIL_REASONS_def)

lemma stops_fresh_map [stops, simp]: "stops_in fb (check_fresh_map L m q f c)"
  unfolding check_fresh_map_def map_lineage_def map_policy_def by (intro stops) (simp_all add: HARD_FAIL_REASONS_def)

lemma stops_check_feedback [stops, simp]: "stops_in fb (check_feedback x speed c p t)"
  unfolding check_feedback_def by (intro stops) (simp_all add: HARD_FAIL_REASONS_def)

lemma stops_supported [stops, simp]: "stops_in True (certification_supported c)"
  unfolding certification_supported_def by (intro stops) (simp_all add: FALLBACK_REASONS_def)

lemma stops_inputs [stops, simp]: "stops_in fb (fp_inputs a b c)"
  unfolding fp_inputs_def by (intro stops)

lemma stops_rays [stops, simp]: "stops_in fb (evaluate_frame_rays L i f c)"
  unfolding evaluate_frame_rays_def by (intro stops)

definition steps_in :: "bool \<Rightarrow> 'a fp_step \<Rightarrow> bool" where
  "steps_in fb m = (\<forall>r. stops_in fb (fst (m r)))"

lemma steps_bind:
  assumes "steps_in fb m" and "\<And>x r r'. m r = (Inr x, r') \<Longrightarrow> steps_in fb (f x)"
  shows "steps_in fb (fp_bind m f)"
  unfolding steps_in_def
proof
  fix r
  show "stops_in fb (fst (fp_bind m f r))"
  proof (cases "m r")
    case (Pair a r')
    have "stops_in fb a" using assms(1) Pair by (metis fst_conv steps_in_def)
    then show ?thesis using assms(2) [of r _ r'] Pair
      by (cases a) (auto simp: fp_bind_def stops_in_def steps_in_def)
  qed
qed

lemma steps_do [simp]: "steps_in fb (fp_do m) = stops_in fb m"
  by (simp add: steps_in_def fp_do_def)

lemma steps_set [simp]: "steps_in fb (fp_set g)" "steps_in fb (add_checks cs)"
  by (simp_all add: steps_in_def fp_set_def add_checks_def)

lemma steps_prod: "(\<And>a b. steps_in fb (f a b)) \<Longrightarrow> steps_in fb (case p of (a, b) \<Rightarrow> f a b)"
  by (cases p) simp

lemma fp_do_Inr: "fp_do m r = (Inr x, r') \<longleftrightarrow> m = Inr x \<and> r' = r"
  by (auto simp: fp_do_def)

lemma steps_safety: "steps_in fb (safety_part L cert fs m mq v fq radius nb now)"
  unfolding safety_part_def by (intro steps_bind steps_prod) simp_all

text \<open>What an insufficient frame is reported as.\<close>

lemma frame_verdict_cases:
  "frame_verdict s c = (k, x) \<Longrightarrow> k = (0 < rc_role_conflict c) \<and> (x = None \<or> x \<in> Some ` set FALLBACK_REASONS)
     \<and> (\<not> k \<and> x = None \<longrightarrow> s \<and> MINIMUM_EXACT_REFERENCE_RAYS \<le> length (rc_rays c))"
  by (auto simp: frame_verdict_def FALLBACK_REASONS_def split: if_splits)

lemma catch_contract_Inr [simp]: "catch_contract u v d m = Inr y \<longleftrightarrow> m = Inr y"
proof (cases m)
  case (Inl e)
  then show ?thesis by (cases e) (auto simp: catch_contract_def contract_invalid_def hard_fail_def)
qed (simp add: catch_contract_def)

lemma liftF_Inr [simp]: "liftF m = Inr y \<longleftrightarrow> m = Inr y"
  by (cases m) (simp_all add: liftF_def)

text \<open>An audit that neither contradicts nor lacks anything.\<close>

definition audit_ok :: "pylib \<Rightarrow> capture_result \<Rightarrow> certification \<Rightarrow> frame_audit \<Rightarrow> bool" where
  "audit_ok L f c a = (\<exists>depth projected. cap_depth f = Some depth
     \<and> depth_revision depth = Some SURFACE_ID_SEMANTICS_REVISION
     \<and> depth_revision depth = ce_semantics_revision c
     \<and> project_depth_samples L (capture_result_val f) PNone (num_val MINIMUM_RAY_CONFIDENCE)
          (num_val (lit (1/1000))) (num_val 10000) = Inr projected
     \<and> count_exact_reference_rays projected (ce_surface_id c) (ce_surface_role c) (ce_surface_points c)
          REFERENCE_MAX_DISTANCE_M = Inr (fa_counts a)
     \<and> rc_role_conflict (fa_counts a) \<le> 0
     \<and> MINIMUM_EXACT_REFERENCE_RAYS \<le> length (rc_rays (fa_counts a)))"

lemma frame_rays_Inr:
  assumes e: "evaluate_frame_rays L i f c = Inr a"
  shows "fa_insufficiency a = None \<or> fa_insufficiency a \<in> Some ` set FALLBACK_REASONS"
    and "fa_insufficiency a = None \<Longrightarrow> \<not> fa_contradiction a \<Longrightarrow> audit_ok L f c a"
proof -
  have "(fa_insufficiency a = None \<or> fa_insufficiency a \<in> Some ` set FALLBACK_REASONS)
    \<and> (fa_insufficiency a = None \<and> \<not> fa_contradiction a \<longrightarrow> audit_ok L f c a)"
  proof (cases "cap_depth f")
    case None
    then show ?thesis using e by (auto simp: evaluate_frame_rays_def Let_def FALLBACK_REASONS_def)
  next
    case (Some depth)
    define semantics where "semantics = (depth_revision depth = Some SURFACE_ID_SEMANTICS_REVISION
      \<and> depth_revision depth = ce_semantics_revision c)"
    obtain projected counts where p: "project_depth_samples L (capture_result_val f) PNone (num_val MINIMUM_RAY_CONFIDENCE)
          (num_val (lit (1/1000))) (num_val 10000) = Inr projected"
      "count_exact_reference_rays projected (ce_surface_id c) (ce_surface_role c) (ce_surface_points c)
          REFERENCE_MAX_DISTANCE_M = Inr counts"
      and k: "fa_counts a = counts" "frame_verdict semantics counts = (fa_contradiction a, fa_insufficiency a)"
      using e Some by (auto simp: evaluate_frame_rays_def Let_def bindE_Inr_iff semantics_def case_prod_beta)
    show ?thesis
      using frame_verdict_cases [OF k(2)] p k(1) Some unfolding audit_ok_def semantics_def by auto
  qed
  then show "fa_insufficiency a = None \<or> fa_insufficiency a \<in> Some ` set FALLBACK_REASONS"
    "fa_insufficiency a = None \<Longrightarrow> \<not> fa_contradiction a \<Longrightarrow> audit_ok L f c a" by simp_all
qed

lemma steps_audits:
  assumes "fa_insufficiency a = None \<or> fa_insufficiency a \<in> Some ` set FALLBACK_REASONS"
    and "fa_insufficiency b = None \<or> fa_insufficiency b \<in> Some ` set FALLBACK_REASONS"
  shows "steps_in True (audits_decided a b)"
proof -
  have f: "stops_in True (fallback (the (fa_insufficiency x)) d)" if "x = a \<or> x = b" "fa_insufficiency x \<noteq> None" for x d
    using assms that by (intro stops_fallback) auto
  show ?thesis
    unfolding audits_decided_def
    by (intro steps_bind) (auto simp: f intro!: stops simp: HARD_FAIL_REASONS_def)
qed

lemma steps_observation: "steps_in True (observation_part L radius x)"
proof -
  obtain c fs m where x: "x = (c, fs, m)" by (cases x)
  have d: "stops_in True (check b (fallback ''arrival_distance_not_confirmed'' []))" for b
    by (intro stops) (simp add: FALLBACK_REASONS_def)
  show ?thesis
    unfolding observation_part_def x prod.case Let_def
    by (intro steps_bind) (auto simp: fp_do_Inr d dest!: frame_rays_Inr(1) intro!: steps_audits)
qed

section \<open>Inversion of the checks\<close>

lemma stop_not_Inr [simp]:
  "hard_fail r d \<noteq> Inr x" "Inr x \<noteq> hard_fail r d" "fallback r d \<noteq> Inr x" "Inr x \<noteq> fallback r d"
  "contract_invalid code v d \<noteq> Inr x" "Inr x \<noteq> contract_invalid code v d"
  by (simp_all add: hard_fail_def fallback_def contract_invalid_def)

lemma check_hard [simp]: "check b (hard_fail r d) = Inr u \<longleftrightarrow> b" "check b (contract_invalid code v d) = Inr u \<longleftrightarrow> b"
  "check b (fallback r d) = Inr u \<longleftrightarrow> b"
  by (simp_all add: check_def)

lemma same_world_Inr [simp]: "same_world c es = Inr u \<longleftrightarrow>
    (\<forall>e \<in> set es. ev_environment e = ce_environment_id c \<and> ev_session e = ce_session_id c)"
  by (induction es) (auto simp: bindE_Inr_iff)

lemma no_replay_Inr [simp]: "no_replay c es = Inr u \<longleftrightarrow> (\<forall>e \<in> set es. ev_request e \<notin> set (ce_request_ids c))"
  by (induction es) (auto simp: bindE_Inr_iff)

text \<open>What the two captures, the map and the feedback of a decision that is no hard failure satisfy.\<close>

definition lineage_ok :: "certification \<Rightarrow> capture_result \<Rightarrow> capture_result \<Rightarrow> map_result \<Rightarrow> feedback_result \<Rightarrow> bool" where
  "lineage_ok c a b m fb =
     ((\<forall>e \<in> set (envelopes (a, b) m fb). ev_environment e = ce_environment_id c \<and> ev_session e = ce_session_id c
         \<and> ev_request e \<notin> set (ce_request_ids c))
      \<and> distinct (map ev_request (envelopes (a, b) m fb))
      \<and> cap_frame_id a \<noteq> cap_frame_id b
      \<and> cap_frame_id a \<notin> set (ce_frame_ids c) \<and> cap_frame_id b \<notin> set (ce_frame_ids c)
      \<and> mr_map_id m \<notin> set (ce_map_ids c) \<and> mr_source_frame_id m = cap_frame_id b
      \<and> mr_coordinate_frame_id m = ce_coordinate_frame_id c
      \<and> cam_coordinate_frame_id (cap_camera a) = ce_coordinate_frame_id c
      \<and> cam_coordinate_frame_id (cap_camera b) = ce_coordinate_frame_id c)"

definition epoch_ok :: "certification \<Rightarrow> capture_result \<Rightarrow> capture_result \<Rightarrow> pyfloat \<Rightarrow> bool" where
  "epoch_ok c a b not_before =
     (flt (ce_certified_unix c) (Fin (cap_captured_unix a)) \<and> flt not_before (Fin (cap_captured_unix a))
      \<and> cap_captured_unix a < cap_captured_unix b \<and> pose_matches a b = Inr True)"

definition standing_ok :: "pylib \<Rightarrow> map_result \<Rightarrow> feedback_result \<Rightarrow> pyfloat \<Rightarrow> pyfloat \<Rightarrow> bool" where
  "standing_ok L m fb speed not_before =
     ((\<exists>rep. agent_report L m = Inr rep \<and> cr_valid rep)
      \<and> \<not> fr_collision_detected fb
      \<and> \<not> flt (Fin (fr_minimum_clearance_m fb)) (fsub (Fin MINIMUM_ARRIVED_CLEARANCE_M) FP_EPSILON)
      \<and> \<not> flt not_before (fsub (Fin (fr_observed_unix fb)) FP_EPSILON)
      \<and> \<not> flt (fadd (Fin MAX_ARRIVED_SPEED_MPS) FP_EPSILON) speed
      \<and> \<not> flt (fadd (Fin MAX_FEEDBACK_DIVERGENCE_M) FP_EPSILON) (planar_distance (agent_position m) (f3 (fr_position_m fb))))"

lemma identity_Inr:
  "check_envelope_identity (a, b) m fb c = Inr u \<Longrightarrow> check_frame_pair (a, b) c nb = Inr cs \<Longrightarrow>
   check_fresh_map L m q b c = Inr p \<Longrightarrow> lineage_ok c a b m fb"
  by (auto simp: check_envelope_identity_def check_frame_pair_def check_fresh_map_def map_lineage_def fresh_frame_def
      same_frame_def lineage_ok_def bindE_Inr_iff)

lemma pair_Inr: "check_frame_pair (a, b) c nb = Inr cs \<Longrightarrow> epoch_ok c a b nb"
  by (auto simp: check_frame_pair_def epoch_ok_def bindE_Inr_iff)

lemma standing_Inr:
  "check_fresh_map L m q b c = Inr p \<Longrightarrow> check_feedback fb speed c (agent_position m) nb = Inr u \<Longrightarrow>
   standing_ok L m fb speed nb"
  by (auto simp: check_fresh_map_def check_feedback_def standing_ok_def bindE_Inr_iff Let_def split: if_splits)

lemma fp_bind_Inr: "fp_bind m f r = (Inr y, r') \<longleftrightarrow> (\<exists>x r1. m r = (Inr x, r1) \<and> f x r1 = (Inr y, r'))"
  by (auto simp: fp_bind_def split: prod.splits sum.splits)

lemma fp_bind_Inl: "fp_bind m f r = (Inl e, r') \<longleftrightarrow>
    m r = (Inl e, r') \<or> (\<exists>x r1. m r = (Inr x, r1) \<and> f x r1 = (Inl e, r'))"
  by (auto simp: fp_bind_def split: prod.splits sum.splits)

lemma fp_set_Inr: "fp_set g r = (Inr u, r') \<longleftrightarrow> r' = g r"
  by (auto simp: fp_set_def)

lemma add_checks_Inr: "add_checks cs r = (Inr u, r') \<longleftrightarrow> r' = r\<lparr>fp_checks := fp_checks r @ cs\<rparr>"
  by (auto simp: add_checks_def fp_set_def)

lemmas fp_inversion = fp_bind_Inr fp_do_Inr fp_set_Inr add_checks_Inr

lemma safety_Inr:
  assumes "safety_part L cert frames fresh_map map_req feedback fb_req radius nb now r = (Inr (c, fs, m), r')"
  shows "\<exists>a b fb speed. fs = (a, b) \<and> validate_certification L cert = Inr c \<and> validate_frames L frames now = Inr (a, b)
     \<and> (\<exists>q. validate_fresh_map L fresh_map map_req now = Inr (q, m)) \<and> validate_feedback feedback fb_req now = Inr (fb, speed)
     \<and> lineage_ok c a b m fb \<and> epoch_ok c a b nb \<and> standing_ok L m fb speed nb"
proof -
  obtain a b where fs: "fs = (a, b)" by (cases fs)
  obtain q fb speed cs p where 1: "validate_certification L cert = Inr c" "validate_frames L frames now = Inr (a, b)"
    "validate_fresh_map L fresh_map map_req now = Inr (q, m)" "validate_feedback feedback fb_req now = Inr (fb, speed)"
    "check_envelope_identity (a, b) m fb c = Inr ()" "check_frame_pair (a, b) c nb = Inr cs"
    "check_fresh_map L m q b c = Inr p" "check_feedback fb speed c (agent_position m) nb = Inr ()"
    using assms unfolding fs safety_part_def by (auto simp: fp_inversion)
  show ?thesis
    using fs 1(1-4) identity_Inr [OF 1(5-7)] pair_Inr [OF 1(6)] standing_Inr [OF 1(7,8)] by blast
qed

section \<open>Exact rays\<close>

definition exact_ray :: "string option \<Rightarrow> string option \<Rightarrow> fvec3 list \<Rightarrow> pyfloat \<Rightarrow> depth_point \<Rightarrow> fvec2 \<times> fvec3 \<times> pyfloat \<Rightarrow> bool" where
  "exact_ray sid role refs maximum p x =
     (pt_surface_id p = sid \<and> pt_surface_role p = role \<and> pt_surface_id p \<noteq> None \<and> pt_surface_role p \<noteq> None
      \<and> x = (pt_uv_norm p, pt_position_m p, snd (snd x))
      \<and> nearest_distance (pt_position_m p) refs = Inr (snd (snd x)) \<and> \<not> flt (fadd maximum FP_EPSILON) (snd (snd x)))"

definition role_conflict :: "string option \<Rightarrow> string option \<Rightarrow> depth_point \<Rightarrow> bool" where
  "role_conflict sid role p =
     (pt_surface_id p \<noteq> None \<and> pt_surface_id p = sid \<and> pt_surface_role p \<noteq> None \<and> pt_surface_role p \<noteq> role)"

lemma count_ray_step:
  assumes "count_ray sid role refs mx c p = Inr c'"
  shows "(rc_rays c' = rc_rays c \<or> (\<exists>x. rc_rays c' = rc_rays c @ [x] \<and> exact_ray sid role refs mx p x
           \<and> (\<forall>y \<in> set (rc_rays c). \<not> uv_eq (fst y) (fst x))))
     \<and> rc_role_conflict c' = rc_role_conflict c + (if role_conflict sid role p then 1 else 0)"
proof (cases "pt_surface_id p \<noteq> None \<and> pt_surface_id p = sid \<and> pt_surface_role p \<noteq> None \<and> pt_surface_role p = role")
  case False
  then show ?thesis using assms by (auto simp: count_ray_def role_conflict_def split: if_splits)
next
  case True
  then obtain n where n: "nearest_distance (pt_position_m p) refs = Inr n"
    and c': "c' = (if flt (fadd mx FP_EPSILON) n then c\<lparr>rc_far := rc_far c + 1\<rparr>
        else if list_ex (\<lambda>r. uv_eq (fst r) (pt_uv_norm p)) (rc_rays c) then c\<lparr>rc_duplicate := rc_duplicate c + 1\<rparr>
        else c\<lparr>rc_rays := rc_rays c @ [(pt_uv_norm p, pt_position_m p, n)]\<rparr>)"
    using assms by (auto simp: count_ray_def bindE_Inr_iff split: if_splits)
  let ?x = "(pt_uv_norm p, pt_position_m p, n)"
  have nc: "\<not> role_conflict sid role p" "rc_role_conflict c' = rc_role_conflict c" using True c' by (simp_all add: role_conflict_def)
  have ex: "rc_rays c' = rc_rays c \<or> rc_rays c' = rc_rays c @ [?x] \<and> exact_ray sid role refs mx p ?x
      \<and> (\<forall>y \<in> set (rc_rays c). \<not> uv_eq (fst y) (fst ?x))"
    using c' n True by (auto simp: exact_ray_def list_ex_iff simp del: split_paired_All split_paired_Ex)
  have "rc_rays c' = rc_rays c \<or> (\<exists>x. rc_rays c' = rc_rays c @ [x] \<and> exact_ray sid role refs mx p x
           \<and> (\<forall>y \<in> set (rc_rays c). \<not> uv_eq (fst y) (fst x)))"
    by (rule disjE [OF ex]) (erule disjI1, rule disjI2, erule exI)
  then show ?thesis using nc by (simp del: split_paired_All split_paired_Ex)
qed

lemma count_rays_fold:
  "foldE (count_ray sid role refs mx) c ps = Inr c' \<Longrightarrow>
     (\<forall>x \<in> set (rc_rays c') - set (rc_rays c). \<exists>p \<in> set ps. exact_ray sid role refs mx p x)
     \<and> (sorted_wrt (\<lambda>x y. \<not> uv_eq (fst x) (fst y)) (rc_rays c) \<longrightarrow> sorted_wrt (\<lambda>x y. \<not> uv_eq (fst x) (fst y)) (rc_rays c'))
     \<and> rc_role_conflict c' = rc_role_conflict c + int (length (filter (role_conflict sid role) ps))"
proof (induction ps arbitrary: c)
  case (Cons p ps)
  then obtain c1 where 1: "count_ray sid role refs mx c p = Inr c1" "foldE (count_ray sid role refs mx) c1 ps = Inr c'"
    by (auto simp: bindE_Inr_iff)
  note step = count_ray_step [OF 1(1)] and ih = Cons.IH [OF 1(2)]
  have "sorted_wrt (\<lambda>x y. \<not> uv_eq (fst x) (fst y)) (rc_rays c1)" if "sorted_wrt (\<lambda>x y. \<not> uv_eq (fst x) (fst y)) (rc_rays c)"
    using step that by (auto simp: sorted_wrt_append)
  moreover have "\<exists>q \<in> set (p # ps). exact_ray sid role refs mx q x" if "x \<in> set (rc_rays c')" "x \<notin> set (rc_rays c)" for x
    using step ih that by (cases "x \<in> set (rc_rays c1)") auto
  ultimately show ?case using step ih by auto
qed simp

text \<open>The evidence of one frame.\<close>

definition rays_exact :: "pylib \<Rightarrow> capture_result \<Rightarrow> certification \<Rightarrow> frame_audit \<Rightarrow> bool" where
  "rays_exact L f c x =
     (\<exists>projected. project_depth_samples L (capture_result_val f) PNone (num_val MINIMUM_RAY_CONFIDENCE)
          (num_val (lit (1/1000))) (num_val 10000) = Inr projected
      \<and> 3 \<le> length (rc_rays (fa_counts x))
      \<and> (\<forall>r \<in> set (rc_rays (fa_counts x)). \<exists>p \<in> set projected.
           exact_ray (ce_surface_id c) (ce_surface_role c) (ce_surface_points c) REFERENCE_MAX_DISTANCE_M p r)
      \<and> sorted_wrt (\<lambda>r s. \<not> uv_eq (fst r) (fst s)) (rc_rays (fa_counts x))
      \<and> (\<forall>p \<in> set projected. \<not> role_conflict (ce_surface_id c) (ce_surface_role c) p))"

lemma audit_rays: "audit_ok L f c a \<Longrightarrow> rays_exact L f c a"
proof -
  assume "audit_ok L f c a"
  then obtain projected where p: "project_depth_samples L (capture_result_val f) PNone (num_val MINIMUM_RAY_CONFIDENCE)
          (num_val (lit (1/1000))) (num_val 10000) = Inr projected"
    "foldE (count_ray (ce_surface_id c) (ce_surface_role c) (ce_surface_points c) REFERENCE_MAX_DISTANCE_M) no_rays projected
       = Inr (fa_counts a)"
    "rc_role_conflict (fa_counts a) \<le> 0" "MINIMUM_EXACT_REFERENCE_RAYS \<le> length (rc_rays (fa_counts a))"
    by (auto simp: audit_ok_def count_exact_reference_rays_def)
  have "filter (role_conflict (ce_surface_id c) (ce_surface_role c)) projected = []"
    using count_rays_fold [OF p(2)] p(3) by (simp add: no_rays_def)
  then show ?thesis
    using count_rays_fold [OF p(2)] p(1,4) unfolding rays_exact_def
    by (auto simp: no_rays_def MINIMUM_EXACT_REFERENCE_RAYS_def filter_empty_conv)
qed

end
