(* ===== verification/ArrivalSample.thy ===== *)
theory ArrivalSample
  imports Arrival RaySample
begin

text \<open>
  A concrete run of the arrival fast path that passes: a certification of one surface point, two
  captures with three rays each, a free map and the arrived feedback. Every part is evaluated
  on its own, and the parts are put together at the end.
\<close>

section \<open>The envelopes\<close>

definition sample_fresh_frames :: pyval where
  "sample_fresh_frames = PList [sample_fresh_capture ''q5'' ''f5'' 20, sample_fresh_capture ''q6'' ''f6'' 21]"

definition sample_fresh_map_request :: pyval where
  "sample_fresh_map_request = PDict [(''schema_version'', PStr MAP_REQUEST_SCHEMA), (''request_id'', PStr ''q7''),
   (''environment_id'', PStr ''env''), (''session_id'', PStr ''s1''), (''requested_unix'', PInt 21),
   (''source_frame_id'', PStr ''f6''), (''resolution_m'', PFloat (Fin FRESH_MAP_RESOLUTION_M)), (''footprint_radius_m'', PInt 1)]"

definition sample_fresh_map :: pyval where
  "sample_fresh_map = PDict [(''schema_version'', PStr MAP_RESULT_SCHEMA), (''request_id'', PStr ''q7''),
   (''environment_id'', PStr ''env''), (''session_id'', PStr ''s1''), (''map_id'', PStr ''rays_seen''),
   (''source_frame_id'', PStr ''f6''), (''created_unix'', PInt 22), (''coordinate_frame_id'', PStr ''world''),
   (''coordinate_convention'', PStr COORDINATE_CONVENTION),
   (''grid'', PDict [(''width_cells'', PInt 2), (''height_cells'', PInt 2), (''resolution_m'', PFloat (Fin FRESH_MAP_RESOLUTION_M)),
      (''origin_position_m'', PList [PInt 0, PInt 0, PInt 0]),
      (''origin_orientation_xyzw'', PList [PInt 0, PInt 0, PInt 0, PInt 1]),
      (''occupancy_encoding'', PStr ''u8_probability''), (''occupancy_base64'', PStr (map char_of [0::nat, 0, 0, 0])),
      (''occupancy_sha256'', PStr sample_digest), (''unknown_value'', PInt 127), (''occupied_threshold'', PInt 200)]),
   (''agent'', PDict [(''position_m'', PList [PFloat (Fin (1/8)), PFloat (Fin (1/8)), PInt 0]),
      (''orientation_xyzw'', PList [PInt 0, PInt 0, PInt 0, PInt 1]), (''footprint_radius_m'', PInt 1)])]"

definition sample_arrived_request :: pyval where
  "sample_arrived_request = PDict [(''schema_version'', PStr FEEDBACK_REQUEST_SCHEMA), (''request_id'', PStr ''q8''),
   (''environment_id'', PStr ''env''), (''session_id'', PStr ''s1''), (''requested_unix'', PInt 11),
   (''command_id'', PStr ''c1''), (''after_sequence'', PInt 3)]"

definition sample_arrived :: pyval where
  "sample_arrived = PDict [(''schema_version'', PStr FEEDBACK_RESULT_SCHEMA), (''request_id'', PStr ''q8''),
   (''environment_id'', PStr ''env''), (''session_id'', PStr ''s1''), (''command_id'', PStr ''c1''),
   (''sequence'', PInt 4), (''observed_unix'', PInt 12), (''status'', PStr ''arrived''),
   (''position_m'', PList [PFloat (Fin (1/8)), PFloat (Fin (1/8)), PInt 0]), (''velocity_mps'', PList [PInt 0, PInt 0, PInt 0]),
   (''remaining_distance_m'', PInt 0), (''minimum_clearance_m'', PInt 1), (''collision_detected'', PBool False),
   (''target_reached'', PBool True), (''reason'', PNone)]"

definition sample_certification :: pyval where
  "sample_certification = PDict [(''certification_revision'', PStr INITIAL_CERTIFICATION_REVISION), (''certified_unix'', PInt 10),
   (''environment_id'', PStr ''env''), (''session_id'', PStr ''s1''), (''coordinate_frame_id'', PStr ''world''),
   (''target_id'', PStr ''target:0123456789abcdef''), (''expected_surface_role'', PStr ''navigation_obstacle''),
   (''surface_id'', PStr sample_surface), (''surface_role'', PStr ''navigation_obstacle''),
   (''surface_id_semantics_revision'', PStr SURFACE_ID_SEMANTICS_REVISION),
   (''surface_points_m'', PList [PList [PInt 0, PInt 0, PInt 1]]), (''surface_sha256'', PStr sample_digest),
   (''semantic_frame_id'', PStr ''f1''), (''semantic_capture_request_id'', PStr ''q1''),
   (''post_inference_frame_id'', PStr ''f2''), (''post_inference_capture_request_id'', PStr ''q2''),
   (''semantic_map_id'', PStr ''m1''), (''semantic_map_request_id'', PStr ''q3''), (''navigation_map_id'', PStr ''standing_points''),
   (''navigation_map_request_id'', PStr ''q4''), (''semantic_ground_request_id'', PStr ''g1''),
   (''post_inference_ground_request_id'', PStr ''g2''), (''dual_grounding_surface_id_match'', PBool True),
   (''dual_grounding_surface_role_match'', PBool True), (''dual_grounding_semantics_revision_match'', PBool True),
   (''certification_sha256'', PStr sample_digest)]"

section \<open>What they are validated to\<close>

definition certified :: certification where
  "certified = \<lparr>ce_certified_unix = Fin 10, ce_environment_id = ''env'', ce_session_id = ''s1'', ce_coordinate_frame_id = ''world'',
     ce_target_id = ''target:0123456789abcdef'', ce_expected_role = Some ''navigation_obstacle'',
     ce_surface_id = Some sample_surface, ce_surface_role = Some ''navigation_obstacle'',
     ce_semantics_revision = Some SURFACE_ID_SEMANTICS_REVISION, ce_surface_points = [(Fin 0, Fin 0, Fin 1)],
     ce_frame_ids = [''f1'', ''f2''], ce_map_ids = [''m1'', ''standing_points''],
     ce_request_ids = [''q1'', ''q2'', ''q3'', ''q4'', ''g1'', ''g2'']\<rparr>"

definition mapped_request :: map_request where
  "mapped_request = \<lparr>rq_request_id = ''q7'', rq_environment_id = ''env'', rq_session_id = ''s1'', rq_requested_unix = 21,
     mq_source_frame_id = ''f6'', mq_resolution_m = FRESH_MAP_RESOLUTION_M, mq_footprint_radius_m = 1\<rparr>"

definition mapped :: map_result where
  "mapped = \<lparr>rs_request_id = ''q7'', rs_environment_id = ''env'', rs_session_id = ''s1'', mr_map_id = ''rays_seen'',
     mr_source_frame_id = ''f6'', mr_created_unix = 22, mr_coordinate_frame_id = ''world'',
     mr_grid = \<lparr>width_cells = 2, height_cells = 2, resolution_m = FRESH_MAP_RESOLUTION_M, origin_position_m = (0, 0, 0),
       origin_orientation_xyzw = (0, 0, 0, 1), occupancy_base64 = map char_of [0::nat, 0, 0, 0],
       occupancy_sha256 = sample_digest, unknown_value = 127, occupied_threshold = 200\<rparr>,
     mr_agent = \<lparr>agent_position_m = (1/8, 1/8, 0), agent_orientation_xyzw = (0, 0, 0, 1), agent_footprint_radius_m = 1\<rparr>\<rparr>"

definition arrived :: feedback_result where
  "arrived = \<lparr>rs_request_id = ''q8'', rs_environment_id = ''env'', rs_session_id = ''s1'', fr_command_id = ''c1'', fr_sequence = 4,
     fr_observed_unix = 12, fr_status = ''arrived'', fr_position_m = (1/8, 1/8, 0), fr_velocity_mps = (0, 0, 0),
     fr_remaining_distance_m = 0, fr_minimum_clearance_m = 1, fr_collision_detected = False, fr_target_reached = True,
     fr_reason = None\<rparr>"

definition mapped_view :: grid_view where
  "mapped_view = \<lparr>gv_width = 2, gv_height = 2, gv_resolution = FRESH_MAP_RESOLUTION_M, gv_origin = (0, 0, 0),
     gv_orientation = (Fin 0, Fin 0, Fin 0, Fin 1), gv_occupancy = [0, 0, 0, 0], gv_unknown = 127, gv_threshold = 200\<rparr>"

definition seen_counts :: ray_counts where
  "seen_counts = no_rays\<lparr>rc_rays := [((Fin (1/2), Fin (1/2)), (Fin 0, Fin 0, Fin 1), Fin 0),
     ((Fin (1/4), Fin (1/2)), (Fin (- (1/1099511627776)), Fin 0, Fin 1), Fin (1/1099511627776)),
     ((Fin (3/4), Fin (1/2)), (Fin (1/1099511627776), Fin 0, Fin 1), Fin (1/1099511627776))]\<rparr>"

section \<open>The rays counted\<close>

lemma nearest_centre: "nearest_distance (Fin 0, Fin 0, Fin 1) [(Fin 0, Fin 0, Fin 1)] = Inr (Fin 0)"
  by code_simp
lemma nearest_right: "nearest_distance (Fin tiny_step, Fin 0, Fin 1) [(Fin 0, Fin 0, Fin 1)] = Inr (Fin tiny_step)"
  by code_simp
lemma nearest_left: "nearest_distance (Fin (- tiny_step), Fin 0, Fin 1) [(Fin 0, Fin 0, Fin 1)] = Inr (Fin tiny_step)"
  by code_simp
lemma reference_near: "\<not> flt (fadd REFERENCE_MAX_DISTANCE_M FP_EPSILON) (Fin 0)" "\<not> flt (fadd REFERENCE_MAX_DISTANCE_M FP_EPSILON) (Fin tiny_step)"
  by code_simp+
lemma ray_columns: "\<not> feq (Fin (1/2)) (Fin (1/4))" "\<not> feq (Fin (1/2)) (Fin (3/4))" "\<not> feq (Fin (1/4)) (Fin (3/4))"
  by code_simp+
lemma rays_counted: "count_exact_reference_rays seen_rays (Some sample_surface) (Some ''navigation_obstacle'') [(Fin 0, Fin 0, Fin 1)] REFERENCE_MAX_DISTANCE_M = Inr seen_counts"
  using reference_near by (simp add: count_exact_reference_rays_def seen_rays_def seen_ray_def count_ray_def no_rays_def nearest_centre nearest_right nearest_left uv_eq_def seen_counts_def ray_columns)
lemma certified_ok: "validate_certification sample_lib sample_certification = Inr certified" by code_simp
lemma arrived_ok: "validate_feedback sample_arrived sample_arrived_request (Fin 23) = Inr (arrived, Fin 0)"
  by code_simp
lemma mapped_ok: "validate_fresh_map sample_lib sample_fresh_map sample_fresh_map_request (Fin 23) = Inr (mapped_request, mapped)"
  by code_simp
lemma dated_ok: "frames_dated (Fin 23) 0 [captured ''q5'' ''f5'' 20, captured ''q6'' ''f6'' 21] = Inr ()"
  by code_simp
lemma inputs_ok: "fp_inputs (PInt 1) (PInt 13) (PInt 23) = Inr ()" by code_simp
lemma pair_ok: "check_frame_pair (captured ''q5'' ''f5'' 20, captured ''q6'' ''f6'' 21) certified (Fin 13) = Inr [(''frame_ids_distinct'', True), (''timestamps_monotonic'', True), (''fresh_frames_after_cutoff'', True),
            (''synchronized_camera_match'', True),
            (''frame_content_identical'', True)]" by code_simp
lemma identity_ok: "check_envelope_identity (captured ''q5'' ''f5'' 20, captured ''q6'' ''f6'' 21) mapped arrived certified = Inr ()"
  by code_simp
lemma lineage_sample: "map_lineage mapped (captured ''q6'' ''f6'' 21) certified = Inr ()" by code_simp
lemma policy_sample: "map_policy mapped mapped_request = Inr ()" by code_simp
lemma feedback_sample: "check_feedback arrived (Fin 0) certified (agent_position mapped) (Fin 13) = Inr ()"
  by code_simp
lemma supported_sample: "certification_supported certified = Inr ()" by code_simp
lemma standing_points: "n_points [point3_val (agent_position mapped), point3_val (agent_position mapped)] ''points_m'' = Inr [(1/8, 1/8, 0), (1/8, 1/8, 0)]"
  by code_simp
lemma standing_report: "points_report mapped_view [(1/8, 1/8, 0), (1/8, 1/8, 0)] = Inr clear_report"
  by code_simp
lemma ray_window_ok: "projection_window PNone (num_val MINIMUM_RAY_CONFIDENCE) (num_val (lit (1/1000))) (num_val 10000) = Inr ray_window"
  by code_simp
lemma mapped_inflated: "inflate_occupancy [0, 0, 0, 0] 2 2 (num_val FRESH_MAP_RESOLUTION_M) (num_val AGENT_ADDITIONAL_INFLATION_M) 127 200 = Inr [0, 0, 0, 0]"
  by code_simp
lemma mapped_decoded: "decode_grid sample_lib (map_items mapped) = Inr mapped_view" by code_simp
lemma inflation_ok: "n_number (Some 0) (num_val AGENT_ADDITIONAL_INFLATION_M) ''additional_radius_m'' = Inr AGENT_ADDITIONAL_INFLATION_M"
  "\<not> fle (Fin AGENT_ADDITIONAL_INFLATION_M) EPSILON" by code_simp+
lemma arrival_near: "\<not> flt (fadd (fadd (Fin 1) ARRIVAL_TOLERANCE_M) FP_EPSILON) (hd (py_sort flt (map (\<lambda>r. planar_distance (agent_position mapped) (fst (snd r))) (rc_rays seen_counts))))"
  by code_simp

section \<open>The run\<close>

abbreviation "first_frame \<equiv> captured ''q5'' ''f5'' 20"
abbreviation "second_frame \<equiv> captured ''q6'' ''f6'' 21"

lemma sample_frames_ok: "validate_frames sample_lib sample_fresh_frames (Fin 23) = Inr (first_frame, second_frame)"
  by (simp add: validate_frames_def sample_fresh_frames_def sample_frame_validated catch_contract_def dated_ok del: frames_dated.simps)

lemma sample_free: "check_fresh_map sample_lib mapped mapped_request second_frame certified =
   Inr \<lparr>op_footprint_m = 1, op_cell_free = True, op_reason = None\<rparr>"
proof -
  have "grid_with_inflation sample_lib (map_items mapped) (num_val AGENT_ADDITIONAL_INFLATION_M) = Inr mapped_view"
    unfolding grid_with_inflation_def mapped_decoded using mapped_inflated inflation_ok by (simp add: mapped_view_def)
  then have "agent_report sample_lib mapped = Inr clear_report"
    by (simp add: agent_report_def path_collision_report_def standing_points standing_report)
  then show ?thesis using lineage_sample policy_sample by (simp add: check_fresh_map_def catch_contract_def clear_report_def) (simp add: mapped_def)
qed

definition sample_audit :: "nat \<Rightarrow> capture_result \<Rightarrow> frame_audit" where
  "sample_audit i f = \<lparr>fa_index = i, fa_frame_id = cap_frame_id f, fa_captured_unix = cap_captured_unix f,
     fa_depth_available = True, fa_semantics_match = True, fa_low_confidence = Some 0, fa_projected = 3,
     fa_counts = seen_counts, fa_contradiction = False, fa_insufficiency = None\<rparr>"

lemma sample_projected:
  assumes "validate_capture_result sample_lib (sample_fresh_capture request frame t) PNone PNone = Inr (captured request frame u)"
  shows "evaluate_frame_rays sample_lib i (captured request frame u) certified = Inr (sample_audit i (captured request frame u))"
proof -
  let ?f = "captured request frame u"
  have d: "cap_depth ?f = Some (SparseDepth \<lparr>sd_alignment = ''registered_normalized_to_rgb'',
       sd_samples = [captured_ray (1/2), captured_ray (1/4), captured_ray (3/4)], sd_samples_sha256 = sample_digest,
       sd_semantics_revision = Some SURFACE_ID_SEMANTICS_REVISION\<rparr>)"
    by (simp add: captured_def)
  have "project_depth_samples sample_lib (capture_result_val ?f) PNone (num_val MINIMUM_RAY_CONFIDENCE)
      (num_val (lit (1/1000))) (num_val 10000) = Inr seen_rays"
    using capture_result_refeed [OF assms] rays_seen by (simp add: project_depth_samples_def d ray_window_ok project_window_def)
  moreover have "frame_verdict True seen_counts = (False, None)" "length seen_rays = 3"
    by (simp_all add: frame_verdict_def seen_counts_def no_rays_def MINIMUM_EXACT_REFERENCE_RAYS_def seen_rays_def)
  moreover have "ce_semantics_revision certified = Some SURFACE_ID_SEMANTICS_REVISION" "ce_surface_id certified = Some sample_surface"
     "ce_surface_role certified = Some ''navigation_obstacle''" "ce_surface_points certified = [(Fin 0, Fin 0, Fin 1)]"
    by (simp_all add: certified_def)
  ultimately show ?thesis using rays_counted
    by (simp add: evaluate_frame_rays_def d depth_revision_def catch_contract_def liftF_def sample_audit_def Let_def)
qed

lemma sample_near: "\<not> flt (fadd (fadd (Fin 1) ARRIVAL_TOLERANCE_M) FP_EPSILON) (arrival_distance mapped (sample_audit 1 second_frame))"
proof -
  have "arrival_distance mapped (sample_audit 1 second_frame)
      = hd (py_sort flt (map (\<lambda>r. planar_distance (agent_position mapped) (fst (snd r))) (rc_rays seen_counts)))"
    by (simp add: arrival_distance_def sample_audit_def)
  then show ?thesis using arrival_near by simp
qed

lemmas fp_eval = fp_bind_def fp_do_def fp_set_def add_checks_def

lemma sample_safe:
  "\<exists>r. safety_part sample_lib sample_certification sample_fresh_frames sample_fresh_map sample_fresh_map_request sample_arrived
     sample_arrived_request (Fin 1) (Fin 13) (Fin 23) blank_result = (Inr (certified, (first_frame, second_frame), mapped), r)"
  by (simp add: safety_part_def fp_eval certified_ok sample_frames_ok mapped_ok arrived_ok identity_ok pair_ok sample_free feedback_sample)

lemma sample_observed: "\<exists>r'. observation_part sample_lib (Fin 1) (certified, (first_frame, second_frame), mapped) r = (Inr (), r')
   \<and> fp_outcome r' = Some FpPass \<and> fp_reason r' = PASS_REASON"
  using sample_near by (simp add: observation_part_def fp_eval supported_sample sample_projected [OF sample_frame_validated(1)]
    sample_projected [OF sample_frame_validated(2)] audits_decided_def sample_audit_def Let_def check_def)

lemma sample_fast_path:
  "\<exists>r. evaluate_fast_path sample_lib sample_certification sample_fresh_frames sample_fresh_map sample_fresh_map_request sample_arrived
     sample_arrived_request (PInt 1) (PInt 13) (PInt 23) = Inr r \<and> fp_outcome r = Some FpPass"
proof -
  obtain r1 where r1: "safety_part sample_lib sample_certification sample_fresh_frames sample_fresh_map sample_fresh_map_request sample_arrived
     sample_arrived_request (Fin 1) (Fin 13) (Fin 23) blank_result = (Inr (certified, (first_frame, second_frame), mapped), r1)"
    using sample_safe by blast
  obtain r2 where r2: "observation_part sample_lib (Fin 1) (certified, (first_frame, second_frame), mapped) r1 = (Inr (), r2)"
    "fp_outcome r2 = Some FpPass" "fp_reason r2 = PASS_REASON" using sample_observed by blast
  have n: "number_value (PInt 1) = Fin 1" "number_value (PInt 13) = Fin 13" "number_value (PInt 23) = Fin 23" by code_simp+
  show ?thesis using r2 by (simp add: evaluate_fast_path_def fp_body_def fp_bind_def fp_do_def inputs_ok n r1 finish_result_def)
qed

end
