(* ===== verification/ArrivalClaims.thy ===== *)
theory ArrivalClaims
  imports ArrivalChecks ArrivalSample
begin

text \<open>
  The properties of the arrival fast path, and a concrete run that passes.
\<close>

lemma supported_Inr: "certification_supported c = Inr u \<Longrightarrow>
    ce_surface_id c \<noteq> None \<and> ce_surface_role c = Some REQUIRED_SURFACE_ROLE \<and> ce_expected_role c = Some REQUIRED_SURFACE_ROLE"
  by (auto simp: certification_supported_def split: if_splits)

lemma audits_decided_Inr:
  assumes "audits_decided a b r = (Inr u, r')"
  shows "\<not> fa_contradiction a" and "\<not> fa_contradiction b" and "fa_insufficiency a = None" and "fa_insufficiency b = None"
    and "\<exists>cs. r' = r\<lparr>fp_checks := cs\<rparr>"
  using assms by (auto simp: audits_decided_def fp_inversion split: if_splits)

lemma observation_Inr:
  assumes "observation_part L radius (c, (a, b), m) r = (Inr u, r')"
  shows "fp_outcome r' = Some FpPass \<and> fp_reason r' = PASS_REASON
     \<and> ce_surface_id c \<noteq> None \<and> ce_surface_role c = Some REQUIRED_SURFACE_ROLE \<and> ce_expected_role c = Some REQUIRED_SURFACE_ROLE
     \<and> (\<exists>x y. fp_frames r' = [x, y] \<and> rays_exact L a c x \<and> rays_exact L b c y
          \<and> fp_distance r' = Some (arrival_distance m y)
          \<and> \<not> flt (fadd (fadd radius ARRIVAL_TOLERANCE_M) FP_EPSILON) (arrival_distance m y))"
proof -
  obtain x y r1 r2 where out: "certification_supported c = Inr ()"
    "evaluate_frame_rays L 0 a c = Inr x" "evaluate_frame_rays L 1 b c = Inr y"
    "audits_decided x y (r1\<lparr>fp_frames := [x, y]\<rparr>) = (Inr (), r2)"
    "\<not> flt (fadd (fadd radius ARRIVAL_TOLERANCE_M) FP_EPSILON) (arrival_distance m y)"
    and r': "fp_frames r' = fp_frames r2" "fp_distance r' = Some (arrival_distance m y)" "fp_outcome r' = Some FpPass"
      "fp_reason r' = PASS_REASON"
    using assms unfolding observation_part_def prod.case fst_conv snd_conv Let_def
    by (auto simp: fp_inversion)
  note k = audits_decided_Inr [OF out(4)]
  have "fp_frames r2 = [x, y]" using k(5) by auto
  moreover have "rays_exact L a c x" "rays_exact L b c y"
    using frame_rays_Inr(2) [OF out(2) k(3,1)] frame_rays_Inr(2) [OF out(3) k(4,2)] by (simp_all add: audit_rays)
  ultimately show ?thesis using supported_Inr [OF out(1)] out(5) r' by (intro conjI exI [of _ x] exI [of _ y]) simp_all
qed

lemma body_steps: "steps_in True (fp_body L cert fs m mq v fq radius nb now)"
proof -
  have "steps_in True (safety_part L cert fs m mq v fq x y z)" for x y z by (rule steps_safety)
  then show ?thesis
    unfolding fp_body_def by (intro steps_bind) (auto intro: steps_observation)
qed

lemma body_registered:
  assumes "fp_body L cert fs m mq v fq radius nb now r = (Inl e, r')"
  shows "registered True e"
proof -
  have "stops_in True (fst (fp_body L cert fs m mq v fq radius nb now r))"
    using body_steps unfolding steps_in_def by blast
  then show ?thesis unfolding assms by (simp add: stops_in_def)
qed

text \<open>C26. The assertion that closes the fast path never fails: every result has an outcome, and its
  reason is in the closed registry of that outcome, for every certification, capture, map,
  feedback and number, and for every base64, hash and JSON function.\<close>

theorem fast_path_registry:
  "evaluate_fast_path L cert frames fresh_map map_request feedback feedback_request radius not_before now \<noteq> Inl AssertionFails"
proof (cases "fp_body L cert frames fresh_map map_request feedback feedback_request radius not_before now blank_result")
  case (Pair a r)
  show ?thesis
  proof (cases a)
    case (Inl e)
    have "registered True e"
      using body_registered [OF Pair [unfolded Inl]] .
    then show ?thesis
      using Pair Inl by (cases e) (auto simp: evaluate_fast_path_def finish_result_def decided_def registered_def)
  next
    case (Inr u)
    then obtain c fs m r1 where "observation_part L (number_value radius) (c, fs, m) r1 = (Inr u, r)"
      using Pair by (auto simp: fp_body_def fp_bind_Inr)
    then have "fp_outcome r = Some FpPass" "fp_reason r = PASS_REASON"
      using observation_Inr by (metis prod.collapse)+
    then show ?thesis using Pair Inr by (simp add: evaluate_fast_path_def finish_result_def)
  qed
qed

lemma safety_not_fallback:
  assumes "safety_part L cert fs m mq v fq x y z r = (Inl (Decide oc rs d), r')"
  shows "oc = FpHardFail"
proof -
  have "stops_in False (fst (safety_part L cert fs m mq v fq x y z r))"
    using steps_safety unfolding steps_in_def by blast
  then show ?thesis unfolding assms by (simp add: stops_in_def registered_def)
qed

lemma inputs_not_fallback: "fp_inputs x y z = Inl (Decide out' rs d) \<Longrightarrow> out' = FpHardFail"
  using stops_inputs [of False x y z] by (auto simp: stops_in_def registered_def)

lemma finish_outcome: "finish_result r0 = Inr r \<Longrightarrow> fp_outcome r = fp_outcome r0 \<and> fp_frames r = fp_frames r0 \<and> fp_distance r = fp_distance r0"
  by (auto simp: finish_result_def split: option.splits if_splits)

text \<open>A result that is no hard failure went through the safety part.\<close>

lemma not_hard_fail:
  assumes e: "evaluate_fast_path L cert frames fresh_map map_request feedback feedback_request radius not_before now = Inr r"
    and h: "fp_outcome r \<noteq> Some FpHardFail"
  shows "\<exists>x r1 r2 out. safety_part L cert frames fresh_map map_request feedback feedback_request
        (number_value radius) (number_value not_before) (number_value now) blank_result = (Inr x, r1)
     \<and> observation_part L (number_value radius) x r1 = (out, r2)
     \<and> (fp_outcome r = Some FpPass \<longrightarrow> (\<exists>u. out = Inr u) \<and> fp_frames r = fp_frames r2 \<and> fp_distance r = fp_distance r2)"
proof -
  let ?s = "safety_part L cert frames fresh_map map_request feedback feedback_request
        (number_value radius) (number_value not_before) (number_value now) blank_result"
  obtain out r2 where b: "fp_body L cert frames fresh_map map_request feedback feedback_request radius not_before now blank_result = (out, r2)"
    by fastforce
  have out: "(\<exists>u. out = Inr u) \<and> finish_result r2 = Inr r \<or> (\<exists>rs d. out = Inl (Decide FpFallback rs d)) \<and> fp_outcome r = Some FpFallback"
  proof (cases out)
    case (Inl st)
    then obtain oc rs d where st: "st = Decide oc rs d" "finish_result (decided oc rs d r2) = Inr r"
      using e b by (cases st) (auto simp: evaluate_fast_path_def)
    have oc: "fp_outcome r = Some oc" using finish_outcome [OF st(2)] by (simp add: decided_def)
    have "registered True st" using body_registered [OF b [unfolded Inl]] .
    then show ?thesis using st(1) h oc Inl by (auto simp: registered_def)
  next
    case (Inr u)
    then show ?thesis using e b by (auto simp: evaluate_fast_path_def)
  qed
  have i: "fp_inputs radius not_before now = Inr ()"
  proof (cases "fp_inputs radius not_before now")
    case (Inl st)
    then have "out = Inl st" using b by (auto simp: fp_body_def fp_bind_def fp_do_def)
    then show ?thesis using out Inl inputs_not_fallback by blast
  qed simp
  obtain so r1 where s: "?s = (so, r1)" by fastforce
  have ob: "(case so of Inl st \<Rightarrow> (Inl st, r1) | Inr x \<Rightarrow> observation_part L (number_value radius) x r1) = (out, r2)"
    using b s i by (simp add: fp_body_def fp_bind_def fp_do_def)
  show ?thesis
  proof (cases so)
    case (Inl st)
    then show ?thesis using ob out s safety_not_fallback by fastforce
  next
    case (Inr x)
    have "fp_outcome r = Some FpPass \<longrightarrow> (\<exists>u. out = Inr u) \<and> fp_frames r = fp_frames r2 \<and> fp_distance r = fp_distance r2"
      using out finish_outcome by auto
    then show ?thesis using s Inr ob by auto
  qed
qed

text \<open>C2. What every result that is no hard failure guarantees, and what a pass guarantees. When the
  fast path returns a result that is no hard failure, the certification, the captures, the map and
  the feedback are valid; all belong to the certified environment and session and carry distinct
  request ids, none used by the certification; the captures are new, later than the certification
  and the cut-off, in order and from one pose; the map was built from the newest capture; the cell
  of the agent is free after the additional inflation; and the feedback reports no collision,
  enough clearance and a standing agent near the position of the map. When the outcome is a pass,
  moreover, both roles of the certification are the required one, each frame has at least three
  rays at different image points, each with the certified identity and role and within the
  reference distance of a certified point, no ray of the certified identity has another role, and
  the least planar distance of the newest frame's rays is within the arrival radius and its
  tolerance. (A contradiction of roles excludes a pass; whether it is reported as a hard failure
  or as a fallback is not stated here: the fallbacks of the certification come before it.)\<close>

theorem fast_path_sound:
  assumes "evaluate_fast_path L cert frames fresh_map map_request feedback feedback_request radius not_before now = Inr r"
    and "fp_outcome r \<noteq> Some FpHardFail"
  shows "\<exists>c a b m fb speed. validate_certification L cert = Inr c
     \<and> validate_frames L frames (number_value now) = Inr (a, b)
     \<and> (\<exists>q. validate_fresh_map L fresh_map map_request (number_value now) = Inr (q, m))
     \<and> validate_feedback feedback feedback_request (number_value now) = Inr (fb, speed)
     \<and> lineage_ok c a b m fb \<and> epoch_ok c a b (number_value not_before) \<and> standing_ok L m fb speed (number_value not_before)
     \<and> (fp_outcome r = Some FpPass \<longrightarrow>
          ce_surface_id c \<noteq> None \<and> ce_surface_role c = Some REQUIRED_SURFACE_ROLE
          \<and> ce_expected_role c = Some REQUIRED_SURFACE_ROLE
          \<and> (\<exists>x y. fp_frames r = [x, y] \<and> rays_exact L a c x \<and> rays_exact L b c y
               \<and> fp_distance r = Some (arrival_distance m y)
               \<and> \<not> flt (fadd (fadd (number_value radius) ARRIVAL_TOLERANCE_M) FP_EPSILON) (arrival_distance m y)))"
proof -
  obtain x r1 r2 out where n: "safety_part L cert frames fresh_map map_request feedback feedback_request
        (number_value radius) (number_value not_before) (number_value now) blank_result = (Inr x, r1)"
    "observation_part L (number_value radius) x r1 = (out, r2)"
    "fp_outcome r = Some FpPass \<longrightarrow> (\<exists>u. out = Inr u) \<and> fp_frames r = fp_frames r2 \<and> fp_distance r = fp_distance r2"
    using not_hard_fail [OF assms] by blast
  obtain c fs m where x: "x = (c, fs, m)" by (cases x)
  obtain a b fb speed where s: "fs = (a, b)" "validate_certification L cert = Inr c"
    "validate_frames L frames (number_value now) = Inr (a, b)"
    "\<exists>q. validate_fresh_map L fresh_map map_request (number_value now) = Inr (q, m)"
    "validate_feedback feedback feedback_request (number_value now) = Inr (fb, speed)"
    "lineage_ok c a b m fb" "epoch_ok c a b (number_value not_before)" "standing_ok L m fb speed (number_value not_before)"
    using safety_Inr [OF n(1) [unfolded x]] by blast
  have p: "ce_surface_id c \<noteq> None \<and> ce_surface_role c = Some REQUIRED_SURFACE_ROLE
          \<and> ce_expected_role c = Some REQUIRED_SURFACE_ROLE
          \<and> (\<exists>x y. fp_frames r = [x, y] \<and> rays_exact L a c x \<and> rays_exact L b c y
               \<and> fp_distance r = Some (arrival_distance m y)
               \<and> \<not> flt (fadd (fadd (number_value radius) ARRIVAL_TOLERANCE_M) FP_EPSILON) (arrival_distance m y))"
    if pass: "fp_outcome r = Some FpPass"
  proof -
    obtain u where u: "observation_part L (number_value radius) (c, (a, b), m) r1 = (Inr u, r2)"
      using n(2,3) pass x s(1) by auto
    show ?thesis using observation_Inr [OF u] n(3) pass by auto
  qed
  show ?thesis
    by (rule exI [of _ c], rule exI [of _ a], rule exI [of _ b], rule exI [of _ m], rule exI [of _ fb], rule exI [of _ speed],
        intro conjI impI s p)
qed

theorem fast_path_sound_witness:
  "\<exists>c a b. validate_certification sample_lib sample_certification = Inr c
     \<and> validate_frames sample_lib sample_fresh_frames (number_value (PInt 23)) = Inr (a, b)
     \<and> ce_surface_role c = Some REQUIRED_SURFACE_ROLE \<and> (\<exists>x y. rays_exact sample_lib a c x \<and> rays_exact sample_lib b c y)"
proof -
  obtain r where r: "evaluate_fast_path sample_lib sample_certification sample_fresh_frames sample_fresh_map
      sample_fresh_map_request sample_arrived sample_arrived_request (PInt 1) (PInt 13) (PInt 23) = Inr r"
    and o': "fp_outcome r = Some FpPass"
    using sample_fast_path by blast
  have "fp_outcome r \<noteq> Some FpHardFail" using o' by simp
  from fast_path_sound [OF r this] show ?thesis using o' by blast
qed

end
