(* ===== verification/RiskPolicy.thy ===== *)
theory RiskPolicy
  imports PyText
begin

text \<open>
  The risk policy (\<open>risk_policy_v1.py\<close>): the validation of an action request, the check of
  an approval receipt against it, and the decision. A time is the number of microseconds since
  1970-01-01 UTC; \<open>from_iso\<close> is \<open>datetime.fromisoformat(s.replace("Z", "+00:00"))\<close> and
  \<open>zulu\<close> the reverse rendering. Keys of a mapping are strings.
\<close>

type_synonym pydict = "(string \<times> pyval) list"

section \<open>Times and failures\<close>

datatype iso_time = BadTime | NaiveTime | AwareTime int

text \<open>A \<open>datetime\<close> argument: without a zone, or a point in time.\<close>

datatype moment = NaiveMoment | Moment int

record pystd =
  from_iso :: "string \<Rightarrow> iso_time"
  zulu :: "int \<Rightarrow> string"
  text_of :: "pyval \<Rightarrow> string"

datatype policy_exc =
    RiskError string string
  | PermissionError string string
  | WatchdogError string string
  | ConsentError string string
  | LoopError string string
  | PolicyRaised py_exc

definition second :: int where "second = 1000000"
definition MIN_TIME :: int where "MIN_TIME = - 62135596800000000"
definition MAX_TIME :: int where "MAX_TIME = 253402300799999999"

text \<open>A \<open>datetime\<close> outside the years 1 to 9999 raises.\<close>

definition in_years :: "int \<Rightarrow> policy_exc + int" where
  "in_years t = (if MIN_TIME \<le> t \<and> t \<le> MAX_TIME then Inr t else Inl (PolicyRaised PyOverflowError))"

definition add_seconds :: "int \<Rightarrow> int \<Rightarrow> policy_exc + int" where
  "add_seconds t s = in_years (t + s * second)"

definition total_seconds :: "int \<Rightarrow> pyfloat" where
  "total_seconds d = round64 (of_int d / of_int second)"

text \<open>The helpers that the three modules repeat with their own exception.\<close>

definition canonical_id :: "(string \<Rightarrow> policy_exc) \<Rightarrow> pyval \<Rightarrow> string \<Rightarrow> policy_exc + string" where
  "canonical_id err v field =
     (case v of PStr s \<Rightarrow> if id_pattern s then Inr s else Inl (err field) | _ \<Rightarrow> Inl (err field))"

definition iso_timestamp :: "(string \<Rightarrow> string \<Rightarrow> policy_exc) \<Rightarrow> string \<Rightarrow> pystd \<Rightarrow> pyval \<Rightarrow> string \<Rightarrow> policy_exc + int" where
  "iso_timestamp err prefix T v field =
     (case v of
        PStr s \<Rightarrow>
          if s = [] then Inl (err (prefix @ ''_TIMESTAMP_REQUIRED'') field)
          else (case from_iso T s of
             BadTime \<Rightarrow> Inl (err (prefix @ ''_TIMESTAMP_INVALID'') field)
           | NaiveTime \<Rightarrow> Inl (err (prefix @ ''_TIMESTAMP_TIMEZONE_REQUIRED'') field)
           | AwareTime t \<Rightarrow> in_years t)
      | _ \<Rightarrow> Inl (err (prefix @ ''_TIMESTAMP_REQUIRED'') field))"

definition utc_now :: "policy_exc \<Rightarrow> moment \<Rightarrow> policy_exc + int" where
  "utc_now err m = (case m of NaiveMoment \<Rightarrow> Inl err | Moment t \<Rightarrow> in_years t)"

definition json_sha :: "pylib \<Rightarrow> pyval \<Rightarrow> string" where
  "json_sha L v = sha256hex L (json_text L v)"

text \<open>A step that can raise before it changes the state of its object.\<close>

definition state_step :: "(policy_exc + 's \<times> 'a) \<Rightarrow> 's \<Rightarrow> 's \<times> (policy_exc + 'a)" where
  "state_step m r = (case m of Inl e \<Rightarrow> (r, Inl e) | Inr (r', x) \<Rightarrow> (r', Inr x))"

section \<open>The action request\<close>

definition ACTION_REQUEST_SCHEMA :: string where "ACTION_REQUEST_SCHEMA = ''lumina.action.request.v1''"
definition APPROVAL_RECEIPT_SCHEMA :: string where "APPROVAL_RECEIPT_SCHEMA = ''lumina.action.approval.v1''"
definition POLICY_DECISION_SCHEMA :: string where "POLICY_DECISION_SCHEMA = ''lumina.action.policy.decision.v1''"
definition POLICY_VERSION :: string where "POLICY_VERSION = ''lumina.risk.policy.v1''"

record effect_policy =
  ep_risk :: string
  ep_approval :: bool
  ep_rollback :: bool

definition EFFECT_POLICIES :: "(string \<times> effect_policy) list" where
  "EFFECT_POLICIES =
     [(''read_public'', \<lparr>ep_risk = ''LOW'', ep_approval = False, ep_rollback = False\<rparr>),
      (''write_local_reversible'', \<lparr>ep_risk = ''MEDIUM'', ep_approval = False, ep_rollback = True\<rparr>),
      (''external_communication'', \<lparr>ep_risk = ''HIGH'', ep_approval = True, ep_rollback = False\<rparr>),
      (''delete_data'', \<lparr>ep_risk = ''CRITICAL'', ep_approval = True, ep_rollback = True\<rparr>),
      (''financial_transaction'', \<lparr>ep_risk = ''CRITICAL'', ep_approval = True, ep_rollback = False\<rparr>),
      (''privilege_change'', \<lparr>ep_risk = ''CRITICAL'', ep_approval = True, ep_rollback = True\<rparr>),
      (''sensor_capture'', \<lparr>ep_risk = ''HIGH'', ep_approval = True, ep_rollback = False\<rparr>)]"

definition HARD_PROHIBITED_ACTION_TYPES :: "string list" where
  "HARD_PROHIBITED_ACTION_TYPES =
     [''bypass_safety'', ''credential_exfiltration'', ''hidden_recording'', ''self_modify_policy'', ''disable_kill_switch'']"

record action_request =
  ar_request_id :: string
  ar_correlation_id :: string
  ar_user_id :: string
  ar_action_type :: string
  ar_effect_class :: string
  ar_target_scope :: string
  ar_requested_at :: string
  ar_payload :: "(string \<times> pyval) list"
  ar_rollback_ref :: "string option"
  ar_receipt :: "(string \<times> pyval) list option"

definition opt_dict_val :: "(string \<times> pyval) list option \<Rightarrow> pyval" where
  "opt_dict_val d = (case d of None \<Rightarrow> PNone | Some kvs \<Rightarrow> PDict kvs)"

definition action_request_items :: "action_request \<Rightarrow> (string \<times> pyval) list" where
  "action_request_items r = [(''schema_version'', PStr ACTION_REQUEST_SCHEMA), (''request_id'', PStr (ar_request_id r)),
     (''correlation_id'', PStr (ar_correlation_id r)), (''user_id'', PStr (ar_user_id r)),
     (''action_type'', PStr (ar_action_type r)), (''effect_class'', PStr (ar_effect_class r)),
     (''target_scope'', PStr (ar_target_scope r)), (''requested_at'', PStr (ar_requested_at r)),
     (''payload'', PDict (ar_payload r)), (''rollback_ref'', opt_text_val (ar_rollback_ref r)),
     (''approval_receipt'', opt_dict_val (ar_receipt r))]"

definition action_request_val :: "action_request \<Rightarrow> pyval" where
  "action_request_val r = PDict (action_request_items r)"

definition REQUEST_FIELDS :: "string list" where
  "REQUEST_FIELDS = [''schema_version'', ''request_id'', ''correlation_id'', ''user_id'', ''action_type'', ''effect_class'',
     ''target_scope'', ''requested_at'', ''payload'', ''rollback_ref'', ''approval_receipt'']"

definition bad_id :: "string \<Rightarrow> policy_exc" where
  "bad_id field = RiskError ''RISK_ID_INVALID'' (field @ '' must be a canonical identifier'')"

definition risk_timestamp :: "pystd \<Rightarrow> pyval \<Rightarrow> string \<Rightarrow> policy_exc + int" where
  "risk_timestamp = iso_timestamp RiskError ''RISK''"

definition unknown_fields :: "string list \<Rightarrow> (string \<times> pyval) list \<Rightarrow> string list" where
  "unknown_fields allowed d = py_sort (\<lambda>a b. a < b) (filter (\<lambda>k. k \<notin> set allowed) (map fst d))"

definition optional_id :: "pyval \<Rightarrow> policy_exc + string option" where
  "optional_id v = (if v = PNone then Inr None else bindE (canonical_id bad_id v ''rollback_ref'') (\<lambda>s. Inr (Some s)))"

definition validate_action_request :: "pystd \<Rightarrow> pyval \<Rightarrow> policy_exc + action_request" where
  "validate_action_request T v =
     (case v of
        PDict d \<Rightarrow>
          bindE (guardE (unknown_fields REQUEST_FIELDS d = [])
                   (RiskError ''RISK_UNKNOWN_REQUEST_FIELDS'' (join '','' (unknown_fields REQUEST_FIELDS d)))) (\<lambda>_.
          bindE (guardE (dget d ''schema_version'' = PStr ACTION_REQUEST_SCHEMA)
                   (RiskError ''RISK_REQUEST_SCHEMA_MISMATCH'' ''schema_version'')) (\<lambda>_.
          bindE (canonical_id bad_id (dget d ''request_id'') ''request_id'') (\<lambda>request.
          bindE (canonical_id bad_id (dget d ''correlation_id'') ''correlation_id'') (\<lambda>correlation.
          bindE (canonical_id bad_id (dget d ''user_id'') ''user_id'') (\<lambda>user.
          bindE (canonical_id bad_id (dget d ''action_type'') ''action_type'') (\<lambda>action.
          bindE (canonical_id bad_id (dget d ''effect_class'') ''effect_class'') (\<lambda>effect.
          bindE (canonical_id bad_id (dget d ''target_scope'') ''target_scope'') (\<lambda>scope.
          bindE (risk_timestamp T (dget d ''requested_at'') ''requested_at'') (\<lambda>requested.
          bindE (case if has_key d ''payload'' then dget d ''payload'' else PDict [] of
                   PDict p \<Rightarrow> Inr p | _ \<Rightarrow> Inl (RiskError ''RISK_PAYLOAD_OBJECT_REQUIRED'' ''payload'')) (\<lambda>payload.
          bindE (optional_id (dget d ''rollback_ref'')) (\<lambda>rollback.
          bindE (case dget d ''approval_receipt'' of
                   PNone \<Rightarrow> Inr None | PDict r \<Rightarrow> Inr (Some r)
                 | _ \<Rightarrow> Inl (RiskError ''RISK_RECEIPT_OBJECT_REQUIRED'' ''approval_receipt'')) (\<lambda>receipt.
          let r = \<lparr>ar_request_id = request, ar_correlation_id = correlation, ar_user_id = user, ar_action_type = action,
             ar_effect_class = effect, ar_target_scope = scope, ar_requested_at = zulu T requested, ar_payload = payload,
             ar_rollback_ref = rollback, ar_receipt = receipt\<rparr> in
          bindE (guardE (json_ok (action_request_val r))
                   (RiskError ''RISK_NONCANONICAL_JSON'' ''payload must be finite canonical JSON'')) (\<lambda>_.
          Inr r)))))))))))))
      | _ \<Rightarrow> Inl (RiskError ''RISK_REQUEST_OBJECT_REQUIRED'' ''request''))"

section \<open>The decision\<close>

datatype verdict = Allow | RequireConfirmation | Block

fun verdict_value :: "verdict \<Rightarrow> string" where
  "verdict_value Allow = ''ALLOW''"
| "verdict_value RequireConfirmation = ''REQUIRE_CONFIRMATION''"
| "verdict_value Block = ''BLOCK''"

record policy_decision =
  pd_request_id :: string
  pd_correlation_id :: string
  pd_effect_class :: string
  pd_risk :: string
  pd_verdict :: verdict
  pd_permitted :: bool
  pd_reason :: string
  pd_receipt_id :: "string option"
  pd_request_sha :: string
  pd_decision_sha :: string

definition decision_items :: "policy_decision \<Rightarrow> (string \<times> pyval) list" where
  "decision_items p = [(''schema_version'', PStr POLICY_DECISION_SCHEMA), (''policy_version'', PStr POLICY_VERSION),
     (''request_id'', PStr (pd_request_id p)), (''correlation_id'', PStr (pd_correlation_id p)),
     (''effect_class'', PStr (pd_effect_class p)), (''risk_level'', PStr (pd_risk p)),
     (''decision'', PStr (verdict_value (pd_verdict p))), (''execution_permitted'', PBool (pd_permitted p)),
     (''reason'', PStr (pd_reason p)), (''approval_receipt_id'', opt_text_val (pd_receipt_id p)),
     (''request_sha256'', PStr (pd_request_sha p))]"

definition make_decision ::
  "pylib \<Rightarrow> action_request \<Rightarrow> verdict \<Rightarrow> string \<Rightarrow> string \<Rightarrow> string option \<Rightarrow> policy_decision" where
  "make_decision L r v risk reason receipt_id =
     (let p = \<lparr>pd_request_id = ar_request_id r, pd_correlation_id = ar_correlation_id r,
        pd_effect_class = ar_effect_class r, pd_risk = risk, pd_verdict = v, pd_permitted = (v = Allow),
        pd_reason = reason, pd_receipt_id = receipt_id, pd_request_sha = json_sha L (action_request_val r),
        pd_decision_sha = []\<rparr>
      in p\<lparr>pd_decision_sha := json_sha L (PDict (decision_items p))\<rparr>)"

text \<open>A number for the cost check: \<open>None\<close> where the test of type or finiteness fails.\<close>

definition cost_number :: "pyval \<Rightarrow> policy_exc + pyfloat option" where
  "cost_number v =
     (case v of
        PInt n \<Rightarrow> (case float_of_int n of Inl e \<Rightarrow> Inl (PolicyRaised e) | Inr x \<Rightarrow> Inr (Some x))
      | PFloat x \<Rightarrow> Inr (if is_finite x then Some x else None)
      | _ \<Rightarrow> Inr None)"

definition cost_within :: "pyval \<Rightarrow> pyval \<Rightarrow> policy_exc + bool" where
  "cost_within cost max_cost =
     bindE (cost_number cost) (\<lambda>c.
     case c of None \<Rightarrow> Inr False
     | Some x \<Rightarrow> if flt x (Fin 0) then Inr False else
         bindE (cost_number max_cost) (\<lambda>m.
         case m of None \<Rightarrow> Inr False | Some y \<Rightarrow> Inr (\<not> flt y x)))"

definition receipt_bindings :: "action_request \<Rightarrow> (string \<times> string) list" where
  "receipt_bindings r = [(''user_id'', ar_user_id r), (''correlation_id'', ar_correlation_id r),
     (''request_id'', ar_request_id r), (''effect_class'', ar_effect_class r), (''target_scope'', ar_target_scope r)]"

definition failed_bindings :: "(string \<times> pyval) list \<Rightarrow> action_request \<Rightarrow> (string \<times> string) list" where
  "failed_bindings receipt r = filter (\<lambda>b. dget receipt (fst b) \<noteq> PStr (snd b)) (receipt_bindings r)"

text \<open>\<open>except RiskPolicyError\<close> around the two times of the receipt.\<close>

definition receipt_times :: "pystd \<Rightarrow> (string \<times> pyval) list \<Rightarrow> policy_exc + string + int \<times> int" where
  "receipt_times T receipt =
     (case bindE (risk_timestamp T (dget receipt ''issued_at'') ''issued_at'') (\<lambda>issued.
           bindE (risk_timestamp T (dget receipt ''expires_at'') ''expires_at'') (\<lambda>expires. Inr (issued, expires))) of
        Inr x \<Rightarrow> Inr (Inr x)
      | Inl (RiskError code detail) \<Rightarrow> Inr (Inl (ascii_lower code))
      | Inl e \<Rightarrow> Inl e)"

definition extra_limits :: "action_request \<Rightarrow> (string \<times> pyval) list \<Rightarrow> policy_exc + string option" where
  "extra_limits r receipt =
     bindE (if ar_effect_class r = ''financial_transaction''
            then cost_within (dget (ar_payload r) ''estimated_cost'') (dget receipt ''max_cost'') else Inr True) (\<lambda>ok.
     if \<not> ok then Inr (Some ''approval_cost_limit_invalid'')
     else if ar_effect_class r = ''delete_data''
       \<and> \<not> (case dget (ar_payload r) ''confirmation_sha256'' of
              PStr s \<Rightarrow> dget receipt ''confirmation_sha256'' = PStr s | _ \<Rightarrow> False)
     then Inr (Some ''approval_delete_confirmation_mismatch'')
     else Inr None)"

definition validate_receipt :: "pystd \<Rightarrow> action_request \<Rightarrow> int \<Rightarrow> policy_exc + bool \<times> string \<times> string option" where
  "validate_receipt T r current =
     (case ar_receipt r of
        None \<Rightarrow> Inr (False, ''approval_required'', None)
      | Some receipt \<Rightarrow>
          (case canonical_id bad_id (dget receipt ''receipt_id'') ''receipt_id'' of
             Inl _ \<Rightarrow> Inr (False, ''approval_receipt_id_invalid'', None)
           | Inr rid \<Rightarrow>
               if dget receipt ''schema_version'' \<noteq> PStr APPROVAL_RECEIPT_SCHEMA
               then Inr (False, ''approval_receipt_schema_mismatch'', Some rid)
               else if dget receipt ''decision'' \<noteq> PStr ''APPROVE'' then Inr (False, ''approval_not_granted'', Some rid)
               else if failed_bindings receipt r \<noteq> []
               then Inr (False, ''approval_'' @ fst (hd (failed_bindings receipt r)) @ ''_mismatch'', Some rid)
               else bindE (receipt_times T receipt) (\<lambda>times.
                 case times of
                   Inl code \<Rightarrow> Inr (False, code, Some rid)
                 | Inr (issued, expires) \<Rightarrow>
                     if current < issued then Inr (False, ''approval_from_future'', Some rid)
                     else if expires \<le> current \<or> expires \<le> issued then Inr (False, ''approval_expired'', Some rid)
                     else if dget receipt ''one_time'' \<noteq> PBool True then Inr (False, ''approval_not_one_time'', Some rid)
                     else bindE (extra_limits r receipt) (\<lambda>failure.
                       case failure of Some reason \<Rightarrow> Inr (False, reason, Some rid)
                       | None \<Rightarrow> Inr (True, ''approval_bound_and_current'', Some rid)))))"

definition current_time :: "pystd \<Rightarrow> moment option \<Rightarrow> int \<Rightarrow> policy_exc + int" where
  "current_time T now requested =
     (case now of None \<Rightarrow> Inr requested | Some m \<Rightarrow> utc_now (RiskError ''RISK_NOW_TIMEZONE_REQUIRED'' ''now'') m)"

definition decide_request :: "pylib \<Rightarrow> pystd \<Rightarrow> action_request \<Rightarrow> int \<Rightarrow> policy_exc + policy_decision" where
  "decide_request L T r current =
     (if ar_action_type r \<in> set HARD_PROHIBITED_ACTION_TYPES
      then Inr (make_decision L r Block ''PROHIBITED'' ''hard_prohibited_action_type'' None)
      else case map_of EFFECT_POLICIES (ar_effect_class r) of
        None \<Rightarrow> Inr (make_decision L r Block ''UNKNOWN'' ''unknown_effect_class'' None)
      | Some p \<Rightarrow>
          if ep_rollback p \<and> ar_rollback_ref r = None
          then Inr (make_decision L r Block (ep_risk p) ''rollback_required'' None)
          else if \<not> ep_approval p then Inr (make_decision L r Allow (ep_risk p) ''policy_allows_local_effect'' None)
          else bindE (validate_receipt T r current) (\<lambda>(approved, reason, rid).
            Inr (make_decision L r (if approved then Allow else if reason = ''approval_required'' then RequireConfirmation else Block)
                   (ep_risk p) reason rid)))"

definition evaluate_action_request :: "pylib \<Rightarrow> pystd \<Rightarrow> pyval \<Rightarrow> moment option \<Rightarrow> policy_exc + policy_decision" where
  "evaluate_action_request L T v now =
     bindE (validate_action_request T v) (\<lambda>r.
     bindE (risk_timestamp T (PStr (ar_requested_at r)) ''requested_at'') (\<lambda>requested.
     bindE (current_time T now requested) (\<lambda>current.
     decide_request L T r current)))"

fun evaluate_batch ::
  "pylib \<Rightarrow> pystd \<Rightarrow> moment option \<Rightarrow> string list \<Rightarrow> pyval list \<Rightarrow> policy_exc + policy_decision list" where
  "evaluate_batch L T now seen [] = Inr []"
| "evaluate_batch L T now seen (v # vs) =
     bindE (validate_action_request T v) (\<lambda>r.
     bindE (guardE (ar_request_id r \<notin> set seen) (RiskError ''RISK_DUPLICATE_REQUEST_ID'' (ar_request_id r))) (\<lambda>_.
     bindE (evaluate_action_request L T (action_request_val r) now) (\<lambda>p.
     bindE (evaluate_batch L T now (ar_request_id r # seen) vs) (\<lambda>ps. Inr (p # ps)))))"

definition evaluate_action_batch :: "pylib \<Rightarrow> pystd \<Rightarrow> pyval list \<Rightarrow> moment option \<Rightarrow> policy_exc + policy_decision list" where
  "evaluate_action_batch L T vs now = evaluate_batch L T now [] vs"

end
