(* ===== verification/Permissions.thy ===== *)
theory Permissions
  imports RiskPolicy
begin

text \<open>
  The permission registry (\<open>permission_modes_v1.py\<close>): modes, grants, revocation and the
  issuing of receipts. An operation returns the new registry and its result or exception.
\<close>

section \<open>The registry\<close>

definition PERMISSION_MODE_SCHEMA :: string where "PERMISSION_MODE_SCHEMA = ''lumina.permission.mode.v1''"
definition PERMISSION_GRANT_SCHEMA :: string where "PERMISSION_GRANT_SCHEMA = ''lumina.permission.grant.v1''"
definition PERMISSION_EVENT_SCHEMA :: string where "PERMISSION_EVENT_SCHEMA = ''lumina.permission.event.v1''"
definition MODES :: "string list" where "MODES = [''PROPOSE_ONLY'', ''CONFIRM_EACH'', ''LIMITED_AUTO'']"
definition LIMITED_AUTO_EFFECTS :: "string list" where
  "LIMITED_AUTO_EFFECTS = [''external_communication'', ''sensor_capture'']"
definition ALWAYS_CONFIRM_EFFECTS :: "string list" where
  "ALWAYS_CONFIRM_EFFECTS = [''delete_data'', ''financial_transaction'', ''privilege_change'']"
definition MAX_RECEIPT_TTL_SECONDS :: int where "MAX_RECEIPT_TTL_SECONDS = 60"

record grant =
  gr_id :: string
  gr_user :: string
  gr_effect :: string
  gr_scope :: string
  gr_created :: string
  gr_expires :: string
  gr_max_cost :: pyval
  gr_revoked :: "string option"
  gr_requested :: "string option"

definition grant_val :: "grant \<Rightarrow> pyval" where
  "grant_val g = PDict [(''schema_version'', PStr PERMISSION_GRANT_SCHEMA), (''grant_id'', PStr (gr_id g)),
     (''user_id'', PStr (gr_user g)), (''effect_class'', PStr (gr_effect g)), (''target_scope'', PStr (gr_scope g)),
     (''created_at'', PStr (gr_created g)), (''expires_at'', PStr (gr_expires g)), (''max_cost'', gr_max_cost g),
     (''revoked_at'', opt_text_val (gr_revoked g)), (''revocation_requested_at'', opt_text_val (gr_requested g))]"

record permission_event =
  pe_sequence :: nat
  pe_user :: string
  pe_type :: string
  pe_at :: string
  pe_detail :: pyval
  pe_sha :: string

record registry =
  rg_modes :: "string \<rightharpoonup> string"
  rg_grants :: "(string \<times> grant) list"
  rg_events :: "permission_event list"
  rg_sequence :: nat

definition new_registry :: registry where
  "new_registry = \<lparr>rg_modes = Map.empty, rg_grants = [], rg_events = [], rg_sequence = 0\<rparr>"

definition bad_permission_id :: "string \<Rightarrow> policy_exc" where
  "bad_permission_id field = PermissionError ''PERMISSION_ID_INVALID'' field"

definition permission_now :: "moment \<Rightarrow> policy_exc + int" where
  "permission_now m = utc_now (PermissionError ''PERMISSION_TIMEZONE_REQUIRED'' ''now'') m"

definition event_items :: "permission_event \<Rightarrow> (string \<times> pyval) list" where
  "event_items e = [(''schema_version'', PStr PERMISSION_EVENT_SCHEMA),
     (''event_id'', PStr (''permission-event:'' @ show_nat (pe_sequence e))), (''sequence'', PInt (int (pe_sequence e))),
     (''user_id'', PStr (pe_user e)), (''event_type'', PStr (pe_type e)), (''occurred_at'', PStr (pe_at e)),
     (''detail'', pe_detail e)]"

definition log_event :: "pylib \<Rightarrow> pystd \<Rightarrow> string \<Rightarrow> string \<Rightarrow> int \<Rightarrow> (string \<times> pyval) list \<Rightarrow> registry \<Rightarrow> registry" where
  "log_event L T user event_type now detail r =
     (let n = rg_sequence r + 1;
          e = \<lparr>pe_sequence = n, pe_user = user, pe_type = event_type, pe_at = zulu T now, pe_detail = PDict detail, pe_sha = []\<rparr> in
      r\<lparr>rg_sequence := n, rg_events := rg_events r @ [e\<lparr>pe_sha := json_sha L (PDict (event_items e))\<rparr>]\<rparr>)"

section \<open>Modes and grants\<close>

definition mode_of :: "registry \<Rightarrow> string \<Rightarrow> string" where
  "mode_of r user = (case rg_modes r user of None \<Rightarrow> ''PROPOSE_ONLY'' | Some m \<Rightarrow> m)"

definition get_mode :: "registry \<Rightarrow> pyval \<Rightarrow> policy_exc + string" where
  "get_mode r user_id = bindE (canonical_id bad_permission_id user_id ''user_id'') (\<lambda>u. Inr (mode_of r u))"

text \<open>\<open>grant["revoked_at"] is None and datetime.fromisoformat(grant["expires_at"]...) > now\<close>: a
  time without a zone cannot be compared.\<close>

definition grant_live :: "pystd \<Rightarrow> int \<Rightarrow> grant \<Rightarrow> policy_exc + bool" where
  "grant_live T now g =
     (if gr_revoked g \<noteq> None then Inr False
      else case from_iso T (gr_expires g) of
        BadTime \<Rightarrow> Inl (PolicyRaised PyValueError)
      | NaiveTime \<Rightarrow> Inl (PolicyRaised PyTypeError)
      | AwareTime t \<Rightarrow> Inr (now < t))"

fun live_grants :: "pystd \<Rightarrow> int \<Rightarrow> (grant \<Rightarrow> bool) \<Rightarrow> grant list \<Rightarrow> policy_exc + grant list" where
  "live_grants T now P [] = Inr []"
| "live_grants T now P (g # gs) =
     bindE (if P g then grant_live T now g else Inr False) (\<lambda>ok.
     bindE (live_grants T now P gs) (\<lambda>rest. Inr (if ok then g # rest else rest)))"

definition grant_less :: "grant \<Rightarrow> grant \<Rightarrow> bool" where
  "grant_less a b = (gr_id a < gr_id b)"

record mode_report =
  mr_user :: string
  mr_mode :: string
  mr_active :: "grant list"

definition mode_report_val :: "mode_report \<Rightarrow> pyval" where
  "mode_report_val m = PDict [(''schema_version'', PStr PERMISSION_MODE_SCHEMA), (''user_id'', PStr (mr_user m)),
     (''mode'', PStr (mr_mode m)), (''active_grants'', PList (map grant_val (mr_active m))),
     (''can_revoke'', PList (map (\<lambda>g. PStr (gr_id g)) (mr_active m))),
     (''default_behavior'', PStr ''no receipt; no elevated execution'')]"

definition describe :: "pystd \<Rightarrow> registry \<Rightarrow> pyval \<Rightarrow> moment \<Rightarrow> policy_exc + mode_report" where
  "describe T r user_id now =
     bindE (canonical_id bad_permission_id user_id ''user_id'') (\<lambda>user.
     bindE (permission_now now) (\<lambda>current.
     bindE (live_grants T current (\<lambda>g. gr_user g = user) (map snd (rg_grants r))) (\<lambda>active.
     Inr \<lparr>mr_user = user, mr_mode = mode_of r user, mr_active = py_sort grant_less active\<rparr>)))"

definition mode_request :: "pyval \<Rightarrow> string \<Rightarrow> moment \<Rightarrow> pyval \<Rightarrow> policy_exc + string \<times> int \<times> string" where
  "mode_request user_id mode now reason =
     bindE (canonical_id bad_permission_id user_id ''user_id'') (\<lambda>user.
     bindE (permission_now now) (\<lambda>current.
     bindE (guardE (mode \<in> set MODES) (PermissionError ''PERMISSION_MODE_UNKNOWN'' mode)) (\<lambda>_.
     case reason of
       PStr s \<Rightarrow> if py_strip s = [] then Inl (PermissionError ''PERMISSION_REASON_REQUIRED'' ''reason'')
                 else Inr (user, current, py_strip s)
     | _ \<Rightarrow> Inl (PermissionError ''PERMISSION_REASON_REQUIRED'' ''reason''))))"

definition set_mode ::
  "pylib \<Rightarrow> pystd \<Rightarrow> registry \<Rightarrow> pyval \<Rightarrow> string \<Rightarrow> moment \<Rightarrow> pyval \<Rightarrow> registry \<times> (policy_exc + mode_report)" where
  "set_mode L T r user_id mode now reason =
     (case mode_request user_id mode now reason of
        Inl e \<Rightarrow> (r, Inl e)
      | Inr (user, current, text) \<Rightarrow>
          let r' = log_event L T user ''MODE_CHANGED'' current
                     [(''previous'', PStr (mode_of r user)), (''current'', PStr mode), (''reason'', PStr text)]
                     (r\<lparr>rg_modes := (rg_modes r)(user \<mapsto> mode)\<rparr>) in
          (r', describe T r' (PStr user) (Moment current)))"

definition ttl_of :: "pystd \<Rightarrow> pyval \<Rightarrow> policy_exc + int" where
  "ttl_of T v =
     (case v of PInt n \<Rightarrow> if 1 \<le> n \<and> n \<le> 86400 then Inr n else Inl (PermissionError ''PERMISSION_GRANT_TTL_INVALID'' (text_of T v))
      | _ \<Rightarrow> Inl (PermissionError ''PERMISSION_GRANT_TTL_INVALID'' (text_of T v)))"

definition create_grant ::
  "pylib \<Rightarrow> pystd \<Rightarrow> registry \<Rightarrow> pyval \<Rightarrow> pyval \<Rightarrow> string \<Rightarrow> pyval \<Rightarrow> moment \<Rightarrow> pyval \<Rightarrow> pyval \<Rightarrow> registry \<times> (policy_exc + grant)" where
  "create_grant L T r grant_id user_id effect target_scope now ttl max_cost = state_step
     (bindE (canonical_id bad_permission_id grant_id ''grant_id'') (\<lambda>gid.
      bindE (canonical_id bad_permission_id user_id ''user_id'') (\<lambda>user.
      bindE (canonical_id bad_permission_id target_scope ''target_scope'') (\<lambda>scope.
      bindE (permission_now now) (\<lambda>current.
      bindE (guardE (gid \<notin> fst ` set (rg_grants r)) (PermissionError ''PERMISSION_GRANT_DUPLICATE'' gid)) (\<lambda>_.
      bindE (guardE (effect \<in> set LIMITED_AUTO_EFFECTS) (PermissionError ''PERMISSION_EFFECT_NOT_LIMITED_AUTO'' effect)) (\<lambda>_.
      bindE (ttl_of T ttl) (\<lambda>seconds.
      bindE (add_seconds current seconds) (\<lambda>expires.
      let g = \<lparr>gr_id = gid, gr_user = user, gr_effect = effect, gr_scope = scope, gr_created = zulu T current,
            gr_expires = zulu T expires, gr_max_cost = max_cost, gr_revoked = None, gr_requested = None\<rparr> in
      bindE (guardE (json_ok (grant_val g)) (PermissionError ''PERMISSION_NONCANONICAL_JSON'' ''payload'')) (\<lambda>_.
      Inr (log_event L T user ''GRANT_CREATED'' current
             [(''grant_id'', PStr gid), (''effect_class'', PStr effect), (''target_scope'', PStr scope)]
             (r\<lparr>rg_grants := rg_grants r @ [(gid, g)]\<rparr>), g))))))))))) r"

record revocation =
  rv_grant :: string
  rv_at :: string
  rv_latency :: pyfloat

definition mark_revoked :: "string \<Rightarrow> string \<Rightarrow> (string \<times> grant) list \<Rightarrow> (string \<times> grant) list" where
  "mark_revoked gid stamp = map (\<lambda>(k, g). (k, if k = gid then g\<lparr>gr_requested := Some stamp, gr_revoked := Some stamp\<rparr> else g))"

definition revoke :: "pylib \<Rightarrow> pystd \<Rightarrow> registry \<Rightarrow> pyval \<Rightarrow> pyval \<Rightarrow> moment \<Rightarrow> registry \<times> (policy_exc + revocation)" where
  "revoke L T r grant_id user_id now = state_step
     (bindE (canonical_id bad_permission_id grant_id ''grant_id'') (\<lambda>gid.
      bindE (canonical_id bad_permission_id user_id ''user_id'') (\<lambda>user.
      bindE (permission_now now) (\<lambda>current.
      case map_of (rg_grants r) gid of
        None \<Rightarrow> Inl (PermissionError ''PERMISSION_GRANT_NOT_FOUND'' gid)
      | Some g \<Rightarrow>
          if gr_user g \<noteq> user then Inl (PermissionError ''PERMISSION_GRANT_NOT_FOUND'' gid)
          else if gr_revoked g \<noteq> None then Inl (PermissionError ''PERMISSION_GRANT_ALREADY_REVOKED'' gid)
          else
            let latency = total_seconds (current - current) in
            Inr (log_event L T user ''GRANT_REVOKED'' current
                   [(''grant_id'', PStr gid), (''revocation_latency_seconds'', PFloat latency)]
                   (r\<lparr>rg_grants := mark_revoked gid (zulu T current) (rg_grants r)\<rparr>),
                 \<lparr>rv_grant = gid, rv_at = zulu T current, rv_latency = latency\<rparr>))))) r"

section \<open>Receipts\<close>

definition active_grant :: "pystd \<Rightarrow> registry \<Rightarrow> string \<Rightarrow> string \<Rightarrow> string \<Rightarrow> int \<Rightarrow> policy_exc + grant option" where
  "active_grant T r user effect scope now =
     bindE (live_grants T now (\<lambda>g. gr_user g = user \<and> gr_effect g = effect \<and> gr_scope g = scope) (map snd (rg_grants r))) (\<lambda>gs.
     Inr (case py_sort grant_less gs of [] \<Rightarrow> None | g # _ \<Rightarrow> Some g))"

datatype receipt_status = NotRequired | Blocked | Issued

record issue_result =
  is_status :: receipt_status
  is_reason :: string
  is_receipt :: "(string \<times> pyval) list option"

text \<open>Whether a receipt may be issued, and why.\<close>

definition permission_reason :: "string \<Rightarrow> string \<Rightarrow> grant option \<Rightarrow> bool \<Rightarrow> bool \<times> string" where
  "permission_reason mode effect g confirmed =
     (if effect \<in> set ALWAYS_CONFIRM_EFFECTS \<and> \<not> confirmed
      then (False, ''destructive_financial_or_privilege_requires_confirmation'')
      else if confirmed then (True, ''per_action_confirmation'')
      else if mode = ''LIMITED_AUTO'' \<and> effect \<in> set LIMITED_AUTO_EFFECTS \<and> g \<noteq> None
      then (True, ''active_limited_auto_grant'')
      else (False, ''confirmation_required''))"

definition receipt_id_of :: "registry \<Rightarrow> action_request \<Rightarrow> string" where
  "receipt_id_of r a = ''receipt:'' @ ar_request_id a @ '':'' @ show_nat (rg_sequence r + 1)"

definition make_receipt :: "pystd \<Rightarrow> registry \<Rightarrow> action_request \<Rightarrow> grant option \<Rightarrow> int \<Rightarrow> int \<Rightarrow> (string \<times> pyval) list" where
  "make_receipt T r a g issued expires =
     [(''schema_version'', PStr APPROVAL_RECEIPT_SCHEMA), (''receipt_id'', PStr (receipt_id_of r a)),
      (''decision'', PStr ''APPROVE''), (''user_id'', PStr (ar_user_id a)), (''correlation_id'', PStr (ar_correlation_id a)),
      (''request_id'', PStr (ar_request_id a)), (''effect_class'', PStr (ar_effect_class a)),
      (''target_scope'', PStr (ar_target_scope a)), (''issued_at'', PStr (zulu T issued)),
      (''expires_at'', PStr (zulu T expires)), (''one_time'', PBool True),
      (''max_cost'', dget (ar_payload a) ''estimated_cost''),
      (''confirmation_sha256'', dget (ar_payload a) ''confirmation_sha256''),
      (''grant_id'', opt_text_val (map_option gr_id g))]"

definition needs_receipt :: "string \<Rightarrow> bool" where
  "needs_receipt effect = (case map_of EFFECT_POLICIES effect of None \<Rightarrow> False | Some p \<Rightarrow> ep_approval p)"

definition issue_receipt ::
  "pylib \<Rightarrow> pystd \<Rightarrow> registry \<Rightarrow> pyval \<Rightarrow> moment \<Rightarrow> bool \<Rightarrow> registry \<times> (policy_exc + issue_result)" where
  "issue_receipt L T r request now confirmed = state_step
     (bindE (validate_action_request T request) (\<lambda>a.
      bindE (permission_now now) (\<lambda>current.
      let mode = mode_of r (ar_user_id a); effect = ar_effect_class a in
      if \<not> needs_receipt effect
      then Inr (r, \<lparr>is_status = NotRequired, is_reason = ''effect_does_not_require_receipt'', is_receipt = None\<rparr>)
      else if mode = ''PROPOSE_ONLY''
      then Inr (r, \<lparr>is_status = Blocked, is_reason = ''mode_propose_only'', is_receipt = None\<rparr>)
      else
        bindE (active_grant T r (ar_user_id a) effect (ar_target_scope a) current) (\<lambda>g.
        case permission_reason mode effect g confirmed of (allowed, reason) \<Rightarrow>
        if \<not> allowed then Inr (r, \<lparr>is_status = Blocked, is_reason = reason, is_receipt = None\<rparr>)
        else bindE (add_seconds current MAX_RECEIPT_TTL_SECONDS) (\<lambda>expires.
          Inr (log_event L T (ar_user_id a) ''RECEIPT_ISSUED'' current
                 [(''receipt_id'', PStr (receipt_id_of r a)), (''request_id'', PStr (ar_request_id a)),
                  (''reason'', PStr reason), (''grant_id'', opt_text_val (map_option gr_id g))] r,
               \<lparr>is_status = Issued, is_reason = reason, is_receipt = Some (make_receipt T r a g current expires)\<rparr>)))))) r"

definition audit_events :: "registry \<Rightarrow> pyval \<Rightarrow> policy_exc + permission_event list" where
  "audit_events r user_id =
     (if user_id = PNone then Inr (rg_events r)
      else bindE (canonical_id bad_permission_id user_id ''user_id'') (\<lambda>user. Inr (filter (\<lambda>e. pe_user e = user) (rg_events r))))"

end
