(* ===== verification/AuthClaims.thy ===== *)
theory AuthClaims
  imports Permissions
begin

text \<open>
  What the risk policy and the permission registry guarantee: an allowed action is covered by its
  policy and receipt, a receipt is issued only under the mode, grant or confirmation that allows
  it, an issued receipt is the one the policy accepts, and the history of the registry.
\<close>

section \<open>Inversions\<close>

lemma canonical_id_Inr [err_simps]: "canonical_id err v f = Inr s \<longleftrightarrow> v = PStr s \<and> id_pattern s"
  by (auto simp: canonical_id_def split: pyval.splits if_splits)

lemma canonical_id_ok [simp]: "id_pattern s \<Longrightarrow> canonical_id err (PStr s) f = Inr s"
  by (simp add: canonical_id_def)

lemma in_years_Inr [err_simps]: "in_years t = Inr u \<longleftrightarrow> u = t \<and> MIN_TIME \<le> t \<and> t \<le> MAX_TIME"
  by (auto simp: in_years_def)

lemma utc_now_Inr [err_simps]: "utc_now e m = Inr t \<longleftrightarrow> m = Moment t \<and> MIN_TIME \<le> t \<and> t \<le> MAX_TIME"
  by (auto simp: utc_now_def in_years_Inr split: moment.splits)

lemma add_seconds_Inr [err_simps]:
  "add_seconds t s = Inr u \<longleftrightarrow> u = t + s * second \<and> MIN_TIME \<le> u \<and> u \<le> MAX_TIME"
  by (auto simp: add_seconds_def in_years_Inr)

lemma risk_timestamp_Inr [err_simps]:
  "risk_timestamp T v f = Inr t \<longleftrightarrow>
     (\<exists>s. v = PStr s \<and> s \<noteq> [] \<and> from_iso T s = AwareTime t \<and> MIN_TIME \<le> t \<and> t \<le> MAX_TIME)"
  by (auto simp: risk_timestamp_def iso_timestamp_def in_years_Inr split: pyval.splits if_splits iso_time.splits)

text \<open>The documented behaviour of \<open>datetime\<close>: \<open>fromisoformat\<close> reads back what \<open>isoformat\<close> wrote.\<close>

definition clock_ok :: "pystd \<Rightarrow> bool" where
  "clock_ok T = (\<forall>t. MIN_TIME \<le> t \<and> t \<le> MAX_TIME \<longrightarrow> zulu T t \<noteq> [] \<and> from_iso T (zulu T t) = AwareTime t)"

lemma clock_timestamp: "clock_ok T \<Longrightarrow> MIN_TIME \<le> t \<Longrightarrow> t \<le> MAX_TIME \<Longrightarrow> risk_timestamp T (PStr (zulu T t)) f = Inr t"
  by (simp add: risk_timestamp_Inr clock_ok_def)

section \<open>Requests\<close>

definition request_ok :: "pystd \<Rightarrow> action_request \<Rightarrow> bool" where
  "request_ok T a = (id_pattern (ar_request_id a) \<and> id_pattern (ar_correlation_id a) \<and> id_pattern (ar_user_id a)
     \<and> id_pattern (ar_action_type a) \<and> id_pattern (ar_effect_class a) \<and> id_pattern (ar_target_scope a)
     \<and> (\<exists>t. ar_requested_at a = zulu T t \<and> MIN_TIME \<le> t \<and> t \<le> MAX_TIME)
     \<and> pred_option id_pattern (ar_rollback_ref a) \<and> json_ok (action_request_val a))"

lemma optional_id_Inr: "optional_id v = Inr r \<longleftrightarrow> v = opt_text_val r \<and> pred_option id_pattern r"
  by (cases r) (auto simp: optional_id_def opt_text_val_def bindE_Inr_iff canonical_id_Inr)

lemma validated_request: "validate_action_request T v = Inr a \<Longrightarrow> request_ok T a"
  by (cases v; simp only: validate_action_request_def pyval.case err_simps Let_def sum.distinct)
    (elim exE conjE, auto simp: request_ok_def optional_id_Inr risk_timestamp_Inr)

lemma unknown_none: "unknown_fields allowed d = [] \<longleftrightarrow> set (map fst d) \<subseteq> set allowed"
  by (auto simp: unknown_fields_def filter_empty_conv)

lemma request_revalidated:
  assumes "clock_ok T" and "request_ok T a"
  shows "validate_action_request T (action_request_val a) = Inr a"
proof -
  obtain t where t: "ar_requested_at a = zulu T t" "MIN_TIME \<le> t" "t \<le> MAX_TIME"
    using assms(2) by (auto simp: request_ok_def)
  have r: "optional_id (opt_text_val (ar_rollback_ref a)) = Inr (ar_rollback_ref a)"
    using assms(2) by (simp add: optional_id_Inr request_ok_def)
  have k: "unknown_fields REQUEST_FIELDS (action_request_items a) = []"
    by (simp add: unknown_none action_request_items_def REQUEST_FIELDS_def)
  have p: "(case opt_dict_val (ar_receipt a) of PNone \<Rightarrow> Inr None | PDict r \<Rightarrow> Inr (Some r)
      | _ \<Rightarrow> Inl (RiskError ''RISK_RECEIPT_OBJECT_REQUIRED'' ''approval_receipt'')) = (Inr (ar_receipt a) :: policy_exc + _)"
    by (cases "ar_receipt a") (simp_all add: opt_dict_val_def)
  show ?thesis
    using assms(2) k r p clock_timestamp [OF assms(1) t(2,3)] t(1)
    by (simp add: request_ok_def validate_action_request_def action_request_val_def action_request_items_def)
qed

section \<open>Receipts and decisions\<close>

text \<open>The receipt of a request covers it at a time.\<close>

definition receipt_covers :: "pystd \<Rightarrow> action_request \<Rightarrow> (string \<times> pyval) list \<Rightarrow> int \<Rightarrow> bool" where
  "receipt_covers T a receipt current =
     ((\<forall>(f, x) \<in> set (receipt_bindings a). dget receipt f = PStr x)
      \<and> dget receipt ''decision'' = PStr ''APPROVE'' \<and> dget receipt ''one_time'' = PBool True
      \<and> (\<exists>issued expires. risk_timestamp T (dget receipt ''issued_at'') ''issued_at'' = Inr issued
           \<and> risk_timestamp T (dget receipt ''expires_at'') ''expires_at'' = Inr expires
           \<and> issued \<le> current \<and> current < expires)
      \<and> (ar_effect_class a = ''financial_transaction'' \<longrightarrow>
           cost_within (dget (ar_payload a) ''estimated_cost'') (dget receipt ''max_cost'') = Inr True)
      \<and> (ar_effect_class a = ''delete_data'' \<longrightarrow>
           (\<exists>s. dget (ar_payload a) ''confirmation_sha256'' = PStr s \<and> dget receipt ''confirmation_sha256'' = PStr s)))"

lemma bindings_ok: "failed_bindings receipt a = [] \<longleftrightarrow> (\<forall>(f, x) \<in> set (receipt_bindings a). dget receipt f = PStr x)"
  by (auto simp: failed_bindings_def filter_empty_conv)

lemma receipt_times_Inr: "receipt_times T receipt = Inr (Inr (issued, expires)) \<longleftrightarrow>
    risk_timestamp T (dget receipt ''issued_at'') ''issued_at'' = Inr issued
    \<and> risk_timestamp T (dget receipt ''expires_at'') ''expires_at'' = Inr expires"
  unfolding receipt_times_def
  by (cases "risk_timestamp T (dget receipt ''issued_at'') ''issued_at''";
      cases "risk_timestamp T (dget receipt ''expires_at'') ''expires_at''")
    (auto split: policy_exc.splits)

lemma extra_limits_None: "extra_limits a receipt = Inr None \<longleftrightarrow>
    (ar_effect_class a = ''financial_transaction'' \<longrightarrow>
       cost_within (dget (ar_payload a) ''estimated_cost'') (dget receipt ''max_cost'') = Inr True)
    \<and> (ar_effect_class a = ''delete_data'' \<longrightarrow>
       (\<exists>s. dget (ar_payload a) ''confirmation_sha256'' = PStr s \<and> dget receipt ''confirmation_sha256'' = PStr s))"
  by (cases "cost_within (dget (ar_payload a) ''estimated_cost'') (dget receipt ''max_cost'')")
    (auto simp: extra_limits_def split: pyval.splits)

lemma receipt_covers_iff: "receipt_covers T a receipt current \<longleftrightarrow>
    failed_bindings receipt a = [] \<and> dget receipt ''decision'' = PStr ''APPROVE'' \<and> dget receipt ''one_time'' = PBool True
    \<and> (\<exists>issued expires. receipt_times T receipt = Inr (Inr (issued, expires)) \<and> issued \<le> current \<and> current < expires)
    \<and> extra_limits a receipt = Inr None"
  unfolding receipt_covers_def bindings_ok [symmetric] extra_limits_None receipt_times_Inr by blast

lemma receipt_approved:
  "validate_receipt T a current = Inr (True, reason, rid) \<longleftrightarrow>
     (\<exists>receipt x. ar_receipt a = Some receipt \<and> rid = Some x \<and> reason = ''approval_bound_and_current''
        \<and> dget receipt ''receipt_id'' = PStr x \<and> id_pattern x
        \<and> dget receipt ''schema_version'' = PStr APPROVAL_RECEIPT_SCHEMA \<and> receipt_covers T a receipt current)"
proof (cases "ar_receipt a")
  case None
  then show ?thesis by (simp add: validate_receipt_def)
next
  case (Some receipt)
  show ?thesis
  proof (cases "\<exists>x. dget receipt ''receipt_id'' = PStr x \<and> id_pattern x")
    case False
    then show ?thesis using Some
      by (cases "canonical_id bad_id (dget receipt ''receipt_id'') ''receipt_id''") (auto simp: validate_receipt_def canonical_id_Inr)
  next
    case True
    then obtain x where x: "dget receipt ''receipt_id'' = PStr x" "id_pattern x" by blast
    have l: "(bindE (extra_limits a receipt) (\<lambda>failure. case failure of Some reason \<Rightarrow> Inr (False, reason, Some x)
         | None \<Rightarrow> Inr (True, ''approval_bound_and_current'', Some x)) = Inr (True, reason, rid))
       \<longleftrightarrow> extra_limits a receipt = Inr None \<and> reason = ''approval_bound_and_current'' \<and> rid = Some x"
      by (auto simp: bindE_Inr_iff split: option.splits)
    show ?thesis
    proof (cases "receipt_times T receipt")
      case (Inl e)
      then show ?thesis using Some x by (simp add: validate_receipt_def receipt_covers_iff)
    next
      case (Inr times)
      show ?thesis
      proof (cases times)
        case (Inl code)
        then show ?thesis using Some x Inr by (simp add: validate_receipt_def receipt_covers_iff)
      next
        fix b assume b: "times = Inr b"
        show ?thesis using Some x Inr b l
          by (cases b) (auto simp add: validate_receipt_def receipt_covers_iff)
      qed
    qed
  qed
qed

lemma decided_allow:
  assumes "decide_request L T a current = Inr p" and "pd_permitted p"
  shows "ar_action_type a \<notin> set HARD_PROHIBITED_ACTION_TYPES
    \<and> (\<exists>e. map_of EFFECT_POLICIES (ar_effect_class a) = Some e
         \<and> (ep_rollback e \<longrightarrow> ar_rollback_ref a \<noteq> None)
         \<and> (ep_approval e \<longrightarrow> (\<exists>receipt. ar_receipt a = Some receipt \<and> receipt_covers T a receipt current)))"
  using assms
  by (auto simp: decide_request_def make_decision_def Let_def bindE_Inr_iff receipt_approved
      split: if_splits option.splits)

section \<open>Properties of the policy\<close>

text \<open>C12. Whatever is allowed is covered. When the policy permits a request, its action type is not
  prohibited, its effect is known, a rollback reference is present where the effect needs one,
  and where it needs approval the receipt of the request approves it: it is bound to the same
  user, correlation, request, effect and scope, was issued not after and expires after the time
  of the decision, is marked one-time, covers the cost of a payment and repeats the confirmation
  of a deletion.\<close>

theorem policy_allow_sound:
  assumes "evaluate_action_request L T v now = Inr p" and "pd_permitted p"
  shows "\<exists>a current requested. validate_action_request T v = Inr a
    \<and> risk_timestamp T (PStr (ar_requested_at a)) ''requested_at'' = Inr requested
    \<and> current_time T now requested = Inr current
    \<and> ar_action_type a \<notin> set HARD_PROHIBITED_ACTION_TYPES
    \<and> (\<exists>e. map_of EFFECT_POLICIES (ar_effect_class a) = Some e
         \<and> (ep_rollback e \<longrightarrow> ar_rollback_ref a \<noteq> None)
         \<and> (ep_approval e \<longrightarrow> (\<exists>receipt. ar_receipt a = Some receipt \<and> receipt_covers T a receipt current)))"
proof -
  obtain a requested current where s: "validate_action_request T v = Inr a"
    "risk_timestamp T (PStr (ar_requested_at a)) ''requested_at'' = Inr requested"
    "current_time T now requested = Inr current" "decide_request L T a current = Inr p"
    using assms(1) by (auto simp: evaluate_action_request_def bindE_Inr_iff)
  show ?thesis using s(1-3) decided_allow [OF s(4) assms(2)] by blast
qed

section \<open>Issuing a receipt\<close>

lemma live_grants_mem:
  "live_grants T now P gs = Inr xs \<Longrightarrow> g \<in> set xs \<longleftrightarrow> g \<in> set gs \<and> P g \<and> grant_live T now g = Inr True"
  by (induction gs arbitrary: xs) (auto simp: bindE_Inr_iff split: if_splits)

lemma grant_live_True: "grant_live T now g = Inr True \<longleftrightarrow>
    gr_revoked g = None \<and> (\<exists>t. from_iso T (gr_expires g) = AwareTime t \<and> now < t)"
  by (auto simp: grant_live_def split: iso_time.splits)

lemma active_grant_Some:
  assumes "active_grant T r user effect scope now = Inr (Some g)"
  shows "g \<in> snd ` set (rg_grants r) \<and> gr_user g = user \<and> gr_effect g = effect \<and> gr_scope g = scope
    \<and> gr_revoked g = None \<and> (\<exists>t. from_iso T (gr_expires g) = AwareTime t \<and> now < t)"
proof -
  obtain gs where gs: "live_grants T now (\<lambda>g. gr_user g = user \<and> gr_effect g = effect \<and> gr_scope g = scope) (map snd (rg_grants r)) = Inr gs"
    and g: "(case py_sort grant_less gs of [] \<Rightarrow> None | g # _ \<Rightarrow> Some g) = Some g"
    using assms by (auto simp: active_grant_def bindE_Inr_iff)
  have "g \<in> set (py_sort grant_less gs)" using g by (cases "py_sort grant_less gs") simp_all
  then show ?thesis using live_grants_mem [OF gs, of g] by (auto simp: grant_live_True)
qed

lemma state_step_Inr: "state_step m r = (r', Inr x) \<longleftrightarrow> m = Inr (r', x)"
  by (auto simp: state_step_def split: sum.splits)

lemma log_event_fields [simp]:
  "rg_modes (log_event L T u ty t d r) = rg_modes r" "rg_grants (log_event L T u ty t d r) = rg_grants r"
  "rg_sequence (log_event L T u ty t d r) = rg_sequence r + 1"
  "\<exists>e. rg_events (log_event L T u ty t d r) = rg_events r @ [e] \<and> pe_sequence e = rg_sequence r + 1 \<and> pe_type e = ty \<and> pe_user e = u"
  by (simp_all add: log_event_def Let_def)

text \<open>What an issued receipt comes from.\<close>

lemma issued_from:
  assumes "issue_receipt L T r v now confirmed = (r', Inr x)" and "is_receipt x = Some receipt"
  shows "\<exists>a t g. validate_action_request T v = Inr a \<and> now = Moment t \<and> MIN_TIME \<le> t \<and> t + 60 * second \<le> MAX_TIME
    \<and> needs_receipt (ar_effect_class a) \<and> mode_of r (ar_user_id a) \<noteq> ''PROPOSE_ONLY''
    \<and> active_grant T r (ar_user_id a) (ar_effect_class a) (ar_target_scope a) t = Inr g
    \<and> permission_reason (mode_of r (ar_user_id a)) (ar_effect_class a) g confirmed = (True, is_reason x)
    \<and> receipt = make_receipt T r a g t (t + 60 * second)
    \<and> r' = log_event L T (ar_user_id a) ''RECEIPT_ISSUED'' t
         [(''receipt_id'', PStr (receipt_id_of r a)), (''request_id'', PStr (ar_request_id a)),
          (''reason'', PStr (is_reason x)), (''grant_id'', opt_text_val (map_option gr_id g))] r"
proof -
  obtain a t where a: "validate_action_request T v = Inr a" "now = Moment t" "MIN_TIME \<le> t"
    and body: "(let mode = mode_of r (ar_user_id a); effect = ar_effect_class a in
      if \<not> needs_receipt effect
      then Inr (r, \<lparr>is_status = NotRequired, is_reason = ''effect_does_not_require_receipt'', is_receipt = None\<rparr>)
      else if mode = ''PROPOSE_ONLY''
      then Inr (r, \<lparr>is_status = Blocked, is_reason = ''mode_propose_only'', is_receipt = None\<rparr>)
      else
        bindE (active_grant T r (ar_user_id a) effect (ar_target_scope a) t) (\<lambda>g.
        case permission_reason mode effect g confirmed of (allowed, reason) \<Rightarrow>
        if \<not> allowed then Inr (r, \<lparr>is_status = Blocked, is_reason = reason, is_receipt = None\<rparr>)
        else bindE (add_seconds t MAX_RECEIPT_TTL_SECONDS) (\<lambda>expires.
          Inr (log_event L T (ar_user_id a) ''RECEIPT_ISSUED'' t
                 [(''receipt_id'', PStr (receipt_id_of r a)), (''request_id'', PStr (ar_request_id a)),
                  (''reason'', PStr reason), (''grant_id'', opt_text_val (map_option gr_id g))] r,
               \<lparr>is_status = Issued, is_reason = reason, is_receipt = Some (make_receipt T r a g t expires)\<rparr>)))) = Inr (r', x)"
    using assms(1) unfolding issue_receipt_def state_step_Inr permission_now_def
    by (auto simp: bindE_Inr_iff utc_now_Inr)
  have n: "needs_receipt (ar_effect_class a)" "mode_of r (ar_user_id a) \<noteq> ''PROPOSE_ONLY''"
    using body assms(2) by (auto simp: Let_def split: if_splits)
  obtain g allowed reason where g: "active_grant T r (ar_user_id a) (ar_effect_class a) (ar_target_scope a) t = Inr g"
    "permission_reason (mode_of r (ar_user_id a)) (ar_effect_class a) g confirmed = (allowed, reason)"
    using body n by (auto simp: Let_def bindE_Inr_iff intro: prod.exhaust)
  have "allowed" using body n g assms(2) by (auto simp: Let_def split: if_splits)
  then show ?thesis using a body n g assms(2)
    by (auto simp: Let_def bindE_Inr_iff add_seconds_Inr MAX_RECEIPT_TTL_SECONDS_def)
qed

lemma permission_granted:
  "permission_reason mode effect g confirmed = (True, reason) \<Longrightarrow>
     (confirmed \<or> (mode = ''LIMITED_AUTO'' \<and> effect \<in> set LIMITED_AUTO_EFFECTS \<and> g \<noteq> None))
     \<and> (effect \<in> set ALWAYS_CONFIRM_EFFECTS \<longrightarrow> confirmed)"
  by (auto simp: permission_reason_def split: if_splits)

text \<open>C13. No receipt without permission. A receipt is issued only for an effect that needs one, for a
  user whose mode is not PROPOSE_ONLY (the default), and either with a confirmation of this
  action or, in LIMITED_AUTO and for the two limited effects, under a grant of this user, effect
  and scope that is neither revoked nor expired. Destructive, financial and privilege effects
  always need the confirmation. The registry changes only by one more event.\<close>

theorem issue_receipt_sound:
  assumes "issue_receipt L T r v now confirmed = (r', Inr x)" and "is_receipt x = Some receipt"
  shows "\<exists>a t. validate_action_request T v = Inr a \<and> now = Moment t
    \<and> needs_receipt (ar_effect_class a) \<and> mode_of r (ar_user_id a) \<noteq> ''PROPOSE_ONLY''
    \<and> (confirmed \<or> (mode_of r (ar_user_id a) = ''LIMITED_AUTO'' \<and> ar_effect_class a \<in> set LIMITED_AUTO_EFFECTS
         \<and> (\<exists>g \<in> snd ` set (rg_grants r). gr_user g = ar_user_id a \<and> gr_effect g = ar_effect_class a
              \<and> gr_scope g = ar_target_scope a \<and> gr_revoked g = None
              \<and> (\<exists>u. from_iso T (gr_expires g) = AwareTime u \<and> t < u))))
    \<and> (ar_effect_class a \<in> set ALWAYS_CONFIRM_EFFECTS \<longrightarrow> confirmed)
    \<and> rg_modes r' = rg_modes r \<and> rg_grants r' = rg_grants r
    \<and> (\<exists>e. rg_events r' = rg_events r @ [e] \<and> pe_type e = ''RECEIPT_ISSUED'')"
proof -
  obtain a t g where i: "validate_action_request T v = Inr a" "now = Moment t" "needs_receipt (ar_effect_class a)"
    "mode_of r (ar_user_id a) \<noteq> ''PROPOSE_ONLY''"
    "active_grant T r (ar_user_id a) (ar_effect_class a) (ar_target_scope a) t = Inr g"
    "permission_reason (mode_of r (ar_user_id a)) (ar_effect_class a) g confirmed = (True, is_reason x)"
    "\<exists>d. r' = log_event L T (ar_user_id a) ''RECEIPT_ISSUED'' t d r"
    using issued_from [OF assms] by blast
  have g: "\<exists>g \<in> snd ` set (rg_grants r). gr_user g = ar_user_id a \<and> gr_effect g = ar_effect_class a
              \<and> gr_scope g = ar_target_scope a \<and> gr_revoked g = None
              \<and> (\<exists>u. from_iso T (gr_expires g) = AwareTime u \<and> t < u)" if some: "g \<noteq> None"
  proof -
    obtain h where "g = Some h" using some by blast
    then show ?thesis using active_grant_Some i(5) by blast
  qed
  have "\<exists>e. rg_events r' = rg_events r @ [e] \<and> pe_type e = ''RECEIPT_ISSUED''" "rg_modes r' = rg_modes r" "rg_grants r' = rg_grants r"
    using i(7) log_event_fields(4) by fastforce+
  then show ?thesis using i(1-4) permission_granted [OF i(6)] g by blast
qed

section \<open>The two components together\<close>

lemma show_nat_digits: "list_all is_digit (show_nat n)"
proof (induction n rule: show_nat.induct)
  case (1 n)
  have d: "is_digit (char_of (48 + k))" if "k < 10" for k :: nat
  proof -
    have "k \<in> {0, 1, 2, 3, 4, 5, 6, 7, 8, 9}" using that by auto
    then show ?thesis by (auto simp: is_digit_def less_eq_char_def)
  qed
  show ?case
  proof (cases "n < 10")
    case True
    then show ?thesis by (subst show_nat.simps) (simp add: d)
  next
    case False
    then show ?thesis using 1 by (subst show_nat.simps) (simp add: d)
  qed
qed

lemma id_chars: "id_pattern s \<Longrightarrow> list_all is_id_char s"
  by (cases s) (simp_all add: is_id_char_def)

lemma receipt_id_pattern:
  assumes "id_pattern (ar_request_id a)"
  shows "id_pattern (receipt_id_of r a) \<longleftrightarrow> length (ar_request_id a) + length (show_nat (rg_sequence r + 1)) \<le> 119"
proof -
  have "list_all is_id_char (show_nat (rg_sequence r + 1))"
    using show_nat_digits by (rule list.pred_mono_strong) (simp add: is_id_char_def is_alnum_def)
  then show ?thesis using id_chars [OF assms]
    by (auto simp: receipt_id_of_def is_id_char_def is_alnum_def is_digit_def less_eq_char_def)
qed

lemma json_ok_dget: "json_ok (PDict d) \<Longrightarrow> json_ok (dget d k)"
  by (induction d) auto

lemma receipt_json: "request_ok T a \<Longrightarrow> json_ok (PDict (make_receipt T r a g t u))"
  using json_ok_dget [of "ar_payload a"]
  by (cases g) (auto simp: request_ok_def action_request_val_def action_request_items_def make_receipt_def opt_text_val_def)

lemma attached_ok:
  assumes "request_ok T a"
  shows "request_ok T (a\<lparr>ar_receipt := Some (make_receipt T r a g t u)\<rparr>)"
  using assms receipt_json [OF assms]
  by (auto simp: request_ok_def action_request_val_def action_request_items_def opt_dict_val_def)

text \<open>The cost and the confirmation that the payload must give.\<close>

definition payload_complete :: "action_request \<Rightarrow> bool" where
  "payload_complete a =
     ((ar_effect_class a = ''financial_transaction'' \<longrightarrow>
         (\<exists>x. cost_number (dget (ar_payload a) ''estimated_cost'') = Inr (Some x) \<and> \<not> flt x (Fin 0)))
      \<and> (ar_effect_class a = ''delete_data'' \<longrightarrow> (\<exists>s. dget (ar_payload a) ''confirmation_sha256'' = PStr s)))"

lemma issued_covers:
  assumes "clock_ok T" and "payload_complete a" and "MIN_TIME \<le> t" and "t + 60 * second \<le> MAX_TIME"
    and "t \<le> now" and "now < t + 60 * second"
  shows "receipt_covers T (a\<lparr>ar_receipt := q\<rparr>) (make_receipt T r a g t (t + 60 * second)) now"
proof -
  have b: "MIN_TIME \<le> t + 60 * second" "t \<le> MAX_TIME" using assms(3,4) by (simp_all add: second_def)
  have "cost_within c c = Inr True" if "cost_number c = Inr (Some x)" "\<not> flt x (Fin 0)" for c x
    using that by (simp add: cost_within_def flt_irrefl)
  then show ?thesis
    using assms clock_timestamp [OF assms(1), of t] clock_timestamp [OF assms(1), of "t + 60 * second"] b
    by (auto simp: receipt_covers_def receipt_bindings_def make_receipt_def payload_complete_def)
qed

text \<open>C14. What the registry issues the policy accepts, and for its whole lifetime. A receipt that the
  registry issued for a request, attached to that request and presented at any time from its
  issue to just before 60 seconds later, lets the policy permit the request: provided the action
  type is not prohibited, the rollback reference and the payload fields of the effect are there,
  and the request id is short enough that \<open>receipt:<request id>:<number>\<close> is itself an
  identifier; with a longer request id the receipt is refused. Neither a revocation, nor a change
  of mode, nor an earlier use of the receipt changes this, since the policy looks only at the
  request.\<close>

theorem issued_receipt_accepted:
  assumes "clock_ok T" and "issue_receipt L T r v (Moment t) confirmed = (r', Inr x)" and "is_receipt x = Some receipt"
    and "validate_action_request T v = Inr a"
    and "ar_action_type a \<notin> set HARD_PROHIBITED_ACTION_TYPES" and "payload_complete a"
    and "\<forall>e. map_of EFFECT_POLICIES (ar_effect_class a) = Some e \<longrightarrow> ep_rollback e \<longrightarrow> ar_rollback_ref a \<noteq> None"
    and "t \<le> now" and "now < t + 60 * second"
  shows "\<exists>p. evaluate_action_request L T (action_request_val (a\<lparr>ar_receipt := Some receipt\<rparr>)) (Some (Moment now)) = Inr p
    \<and> (pd_permitted p \<longleftrightarrow> length (ar_request_id a) + length (show_nat (rg_sequence r + 1)) \<le> 119)
    \<and> (\<not> pd_permitted p \<longrightarrow> pd_reason p = ''approval_receipt_id_invalid'')"
proof -
  obtain g where i: "MIN_TIME \<le> t" "t + 60 * second \<le> MAX_TIME" "needs_receipt (ar_effect_class a)"
    "receipt = make_receipt T r a g t (t + 60 * second)"
    using issued_from [OF assms(2,3)] assms(4) by auto
  let ?b = "a\<lparr>ar_receipt := Some receipt\<rparr>"
  have ok: "request_ok T a" using validated_request [OF assms(4)] .
  have v: "validate_action_request T (action_request_val ?b) = Inr ?b"
    using request_revalidated [OF assms(1) attached_ok [OF ok]] i(4) by simp
  obtain u where u: "ar_requested_at a = zulu T u" "MIN_TIME \<le> u" "u \<le> MAX_TIME" using ok by (auto simp: request_ok_def)
  obtain e where e: "map_of EFFECT_POLICIES (ar_effect_class a) = Some e" "ep_approval e"
    using i(3) by (auto simp: needs_receipt_def split: option.splits)
  have rid: "dget receipt ''receipt_id'' = PStr (receipt_id_of r a)" "dget receipt ''schema_version'' = PStr APPROVAL_RECEIPT_SCHEMA"
    by (simp_all add: i(4) make_receipt_def)
  have c: "receipt_covers T ?b receipt now"
    unfolding i(4) by (rule issued_covers [OF assms(1,6) i(1,2) assms(8,9)])
  have d: "decide_request L T ?b now = bindE (validate_receipt T ?b now) (\<lambda>(approved, reason, rid).
      Inr (make_decision L ?b (if approved then Allow else if reason = ''approval_required'' then RequireConfirmation else Block)
        (ep_risk e) reason rid))"
  proof -
    have "\<not> (ep_rollback e \<and> ar_rollback_ref ?b = None)" using assms(7) e by auto
    then show ?thesis using assms(5) e by (auto simp add: decide_request_def)
  qed
  have n: "current_time T (Some (Moment now)) u = Inr now"
    using i(1,2) assms(8,9) by (simp add: current_time_def utc_now_Inr)
  have ev: "evaluate_action_request L T (action_request_val ?b) (Some (Moment now)) = decide_request L T ?b now"
    using v u clock_timestamp [OF assms(1) u(2,3)] n by (simp add: evaluate_action_request_def)
  have idp: "id_pattern (receipt_id_of r a) \<longleftrightarrow> length (ar_request_id a) + length (show_nat (rg_sequence r + 1)) \<le> 119"
    using ok by (intro receipt_id_pattern) (simp add: request_ok_def)
  show ?thesis
  proof (cases "id_pattern (receipt_id_of r a)")
    case True
    then have "validate_receipt T ?b now = Inr (True, ''approval_bound_and_current'', Some (receipt_id_of r a))"
      using rid c by (simp add: receipt_approved)
    then show ?thesis using ev d True idp by (simp add: make_decision_def Let_def)
  next
    case False
    then have "validate_receipt T ?b now = Inr (False, ''approval_receipt_id_invalid'', None)"
      using rid by (simp add: validate_receipt_def canonical_id_def)
    then show ?thesis using ev d False idp by (simp add: make_decision_def Let_def)
  qed
qed

section \<open>The history of the registry\<close>

text \<open>One call of an operation that can change the registry.\<close>

inductive registry_call :: "pylib \<Rightarrow> pystd \<Rightarrow> registry \<Rightarrow> registry \<Rightarrow> bool" for L T where
  SetMode: "set_mode L T r user mode now reason = (r', x) \<Longrightarrow> registry_call L T r r'"
| Grant: "create_grant L T r gid user effect scope now ttl cost = (r', x) \<Longrightarrow> registry_call L T r r'"
| Revoke: "revoke L T r gid user now = (r', x) \<Longrightarrow> registry_call L T r r'"
| Issue: "issue_receipt L T r v now confirmed = (r', x) \<Longrightarrow> registry_call L T r r'"

inductive_cases registry_callE: "registry_call L T r r'"

definition registry_ok :: "registry \<Rightarrow> bool" where
  "registry_ok r = (map pe_sequence (rg_events r) = [1..<Suc (rg_sequence r)]
     \<and> distinct (map fst (rg_grants r)) \<and> ran (rg_modes r) \<subseteq> set MODES
     \<and> (\<forall>(k, g) \<in> set (rg_grants r). gr_id g = k \<and> gr_effect g \<in> set LIMITED_AUTO_EFFECTS))"

text \<open>What only grows: the log, the grants, and their revocations.\<close>

definition extends :: "registry \<Rightarrow> registry \<Rightarrow> bool" where
  "extends r r' = ((\<exists>es. rg_events r' = rg_events r @ es)
     \<and> (\<forall>k g. map_of (rg_grants r) k = Some g \<longrightarrow> (\<exists>g'. map_of (rg_grants r') k = Some g'
          \<and> gr_user g' = gr_user g \<and> gr_effect g' = gr_effect g \<and> gr_scope g' = gr_scope g \<and> gr_expires g' = gr_expires g
          \<and> (gr_revoked g \<noteq> None \<longrightarrow> gr_revoked g' = gr_revoked g))))"

lemma extends_trans: "extends r s \<Longrightarrow> extends s t \<Longrightarrow> extends r t"
  unfolding extends_def
proof (elim conjE, intro conjI allI impI)
  fix k g
  assume a: "\<forall>k g. map_of (rg_grants r) k = Some g \<longrightarrow> (\<exists>g'. map_of (rg_grants s) k = Some g'
          \<and> gr_user g' = gr_user g \<and> gr_effect g' = gr_effect g \<and> gr_scope g' = gr_scope g \<and> gr_expires g' = gr_expires g
          \<and> (gr_revoked g \<noteq> None \<longrightarrow> gr_revoked g' = gr_revoked g))"
    and b: "\<forall>k g. map_of (rg_grants s) k = Some g \<longrightarrow> (\<exists>g'. map_of (rg_grants t) k = Some g'
          \<and> gr_user g' = gr_user g \<and> gr_effect g' = gr_effect g \<and> gr_scope g' = gr_scope g \<and> gr_expires g' = gr_expires g
          \<and> (gr_revoked g \<noteq> None \<longrightarrow> gr_revoked g' = gr_revoked g))"
    and g: "map_of (rg_grants r) k = Some g"
  obtain h where h: "map_of (rg_grants s) k = Some h" "gr_user h = gr_user g" "gr_effect h = gr_effect g" "gr_scope h = gr_scope g"
    "gr_expires h = gr_expires g" "gr_revoked g \<noteq> None \<longrightarrow> gr_revoked h = gr_revoked g" using a g by blast
  obtain j where "map_of (rg_grants t) k = Some j" "gr_user j = gr_user h" "gr_effect j = gr_effect h" "gr_scope j = gr_scope h"
    "gr_expires j = gr_expires h" "gr_revoked h \<noteq> None \<longrightarrow> gr_revoked j = gr_revoked h" using b h(1) by blast
  then show "\<exists>g'. map_of (rg_grants t) k = Some g' \<and> gr_user g' = gr_user g \<and> gr_effect g' = gr_effect g
      \<and> gr_scope g' = gr_scope g \<and> gr_expires g' = gr_expires g \<and> (gr_revoked g \<noteq> None \<longrightarrow> gr_revoked g' = gr_revoked g)"
    using h by simp
qed auto

lemma extends_refl: "extends r r"
  by (simp add: extends_def)

lemma logged:
  assumes "registry_ok r"
  shows "registry_ok (log_event L T u ty t d r)" and "extends r (log_event L T u ty t d r)"
  using assms by (simp_all add: registry_ok_def extends_def log_event_def Let_def)

lemma state_step_cases: "state_step m r = (r', x) \<Longrightarrow> (r' = r \<or> (\<exists>y. m = Inr (r', y)))"
  by (auto simp: state_step_def split: sum.splits)

lemma set_mode_call:
  assumes "set_mode L T r user mode now reason = (r', x)" and "registry_ok r"
  shows "registry_ok r' \<and> extends r r'"
proof (cases "mode_request user mode now reason")
  case (Inl e)
  then show ?thesis using assms extends_refl by (simp add: set_mode_def)
next
  case (Inr y)
  obtain u t s where y: "y = (u, t, s)" by (cases y)
  have m: "mode \<in> set MODES" using Inr by (auto simp: mode_request_def bindE_Inr_iff guardE_Inr_iff)
  let ?r = "r\<lparr>rg_modes := (rg_modes r)(u \<mapsto> mode)\<rparr>"
  have "registry_ok ?r" "extends r ?r"
    using assms(2) m by (auto simp: registry_ok_def extends_def ran_def)
  then show ?thesis using assms(1) Inr y logged [of ?r] extends_trans by (auto simp: set_mode_def Let_def)
qed

lemma grant_call:
  assumes "create_grant L T r gid user effect scope now ttl cost = (r', x)" and "registry_ok r"
  shows "registry_ok r' \<and> extends r r'"
proof (cases "r' = r")
  case True
  then show ?thesis using assms extends_refl by auto
next
  case False
  then obtain u ty t d k g where r': "r' = log_event L T u ty t d (r\<lparr>rg_grants := rg_grants r @ [(k, g)]\<rparr>)"
    and k: "k \<notin> fst ` set (rg_grants r)" "gr_id g = k" "gr_effect g \<in> set LIMITED_AUTO_EFFECTS"
    using state_step_cases [OF assms(1) [unfolded create_grant_def]]
    by (auto simp: bindE_Inr_iff guardE_Inr_iff Let_def)
  let ?r = "r\<lparr>rg_grants := rg_grants r @ [(k, g)]\<rparr>"
  have "registry_ok ?r" "extends r ?r"
    using assms(2) k by (auto simp: registry_ok_def extends_def map_add_def)
  then show ?thesis using r' logged [of ?r] extends_trans by blast
qed

lemma mark_revoked_keys [simp]: "map fst (mark_revoked k s gs) = map fst gs"
  by (auto simp: mark_revoked_def)

lemma map_of_mark_revoked: "map_of (mark_revoked k s gs) j =
    map_option (\<lambda>g. if j = k then g\<lparr>gr_requested := Some s, gr_revoked := Some s\<rparr> else g) (map_of gs j)"
  by (induction gs) (auto simp: mark_revoked_def)

lemma revoke_call:
  assumes "revoke L T r gid user now = (r', x)" and "registry_ok r"
  shows "registry_ok r' \<and> extends r r'"
proof (cases "r' = r")
  case True
  then show ?thesis using assms extends_refl by auto
next
  case False
  then obtain k u t y where b: "(case map_of (rg_grants r) k of
        None \<Rightarrow> Inl (PermissionError ''PERMISSION_GRANT_NOT_FOUND'' k)
      | Some g \<Rightarrow>
          if gr_user g \<noteq> u then Inl (PermissionError ''PERMISSION_GRANT_NOT_FOUND'' k)
          else if gr_revoked g \<noteq> None then Inl (PermissionError ''PERMISSION_GRANT_ALREADY_REVOKED'' k)
          else
            let latency = total_seconds (t - t) in
            Inr (log_event L T u ''GRANT_REVOKED'' t
                   [(''grant_id'', PStr k), (''revocation_latency_seconds'', PFloat latency)]
                   (r\<lparr>rg_grants := mark_revoked k (zulu T t) (rg_grants r)\<rparr>),
                 \<lparr>rv_grant = k, rv_at = zulu T t, rv_latency = latency\<rparr>)) = Inr (r', y)"
    using state_step_cases [OF assms(1) [unfolded revoke_def]] unfolding bindE_Inr_iff by blast
  then obtain g where g: "map_of (rg_grants r) k = Some g" by (cases "map_of (rg_grants r) k") auto
  have n: "gr_revoked g = None" using b g by (auto split: if_split_asm)
  let ?r = "r\<lparr>rg_grants := mark_revoked k (zulu T t) (rg_grants r)\<rparr>"
  have r': "\<exists>ty d. r' = log_event L T u ty t d ?r"
    using b g n by (auto simp: Let_def split: if_split_asm)
  have "gr_id g' = j \<and> gr_effect g' \<in> set LIMITED_AUTO_EFFECTS" if "(j, g') \<in> set (mark_revoked k (zulu T t) (rg_grants r))" for j g'
    using that assms(2) by (fastforce simp: mark_revoked_def registry_ok_def split: if_splits)
  then have "registry_ok ?r" using assms(2) by (auto simp: registry_ok_def)
  moreover have "extends r ?r" using g n by (auto simp: extends_def map_of_mark_revoked)
  ultimately show ?thesis using r' logged [of ?r] extends_trans by blast
qed

lemma issue_call:
  assumes "issue_receipt L T r v now confirmed = (r', x)" and "registry_ok r"
  shows "registry_ok r' \<and> extends r r'"
proof -
  have "r' = r \<or> (\<exists>u ty t d. r' = log_event L T u ty t d r)"
    using state_step_cases [OF assms(1) [unfolded issue_receipt_def]]
    by (auto simp: bindE_Inr_iff Let_def case_prod_beta split: if_split_asm)
  then show ?thesis using assms(2) logged extends_refl by blast
qed

lemma registry_call_ok: "registry_call L T r r' \<Longrightarrow> registry_ok r \<Longrightarrow> registry_ok r' \<and> extends r r'"
  using set_mode_call grant_call revoke_call issue_call by (elim registry_callE) metis+

interpretation registry_run: step_invariant "registry_call L T" registry_ok for L T
  by unfold_locales (simp add: registry_call_ok)

lemma new_registry_ok: "registry_ok new_registry"
  by (simp add: registry_ok_def new_registry_def)

lemma registry_extends: "(registry_call L T)\<^sup>*\<^sup>* r r' \<Longrightarrow> registry_ok r \<Longrightarrow> extends r r'"
  by (induction rule: rtranclp_induct)
    (auto intro: extends_refl extends_trans dest: registry_call_ok registry_run.reached)

text \<open>C22. The history of the registry is append-only. In every run from an empty registry the events are
  numbered 1, 2, 3 and so on without a gap, grant ids are unique, every grant is for one of the
  two limited effects and every mode set is a known mode. Between any two moments of the run, the
  earlier log is a prefix of the later one, no grant disappears or changes its user, effect,
  scope or expiry, and a revoked grant stays revoked.\<close>

theorem registry_history:
  assumes "(registry_call L T)\<^sup>*\<^sup>* new_registry r" and "(registry_call L T)\<^sup>*\<^sup>* r r'"
  shows "registry_ok r' \<and> extends r r'"
  using assms registry_run.reached [OF assms(1) new_registry_ok] registry_run.reached registry_extends by blast

section \<open>A concrete run\<close>

text \<open>A clock that writes a time in unary, after its sign.\<close>

definition unary_time :: "int \<Rightarrow> string" where
  "unary_time t = (if t < 0 then CHR ''-'' else CHR ''+'') # replicate (nat \<bar>t\<bar>) (CHR ''0'')"

definition unary_read :: "string \<Rightarrow> iso_time" where
  "unary_read s = (case s of [] \<Rightarrow> BadTime
     | c # cs \<Rightarrow> AwareTime (if c = CHR ''-'' then - int (length cs) else int (length cs)))"

definition sample_std :: pystd where
  "sample_std = \<lparr>from_iso = unary_read, zulu = unary_time, text_of = (\<lambda>_. ''value'')\<rparr>"

definition plain_lib :: pylib where
  "plain_lib = \<lparr>b64decode = Some, b64encode = id, sha256hex = id, json_text = (\<lambda>_. ''json'')\<rparr>"

lemma sample_clock: "clock_ok sample_std"
  by (auto simp: clock_ok_def sample_std_def unary_time_def unary_read_def)

definition sample_action :: action_request where
  "sample_action = \<lparr>ar_request_id = ''r1'', ar_correlation_id = ''c1'', ar_user_id = ''u1'', ar_action_type = ''send'',
     ar_effect_class = ''external_communication'', ar_target_scope = ''mail'', ar_requested_at = zulu sample_std 0,
     ar_payload = [], ar_rollback_ref = None, ar_receipt = None\<rparr>"

definition sample_registry :: registry where
  "sample_registry = new_registry\<lparr>rg_modes := [''u1'' \<mapsto> ''CONFIRM_EACH'']\<rparr>"

definition sample_receipt :: "(string \<times> pyval) list" where
  "sample_receipt = make_receipt sample_std sample_registry sample_action None 0 (60 * second)"

lemma sample_action_ok: "request_ok sample_std sample_action"
proof -
  have "id_pattern ''r1'' \<and> id_pattern ''c1'' \<and> id_pattern ''u1'' \<and> id_pattern ''send''
      \<and> id_pattern ''external_communication'' \<and> id_pattern ''mail''" by code_simp
  moreover have "MIN_TIME \<le> 0" "0 \<le> MAX_TIME" by (simp_all add: MIN_TIME_def MAX_TIME_def)
  moreover have "json_ok (action_request_val sample_action)"
    by (simp add: sample_action_def action_request_val_def action_request_items_def opt_text_val_def opt_dict_val_def)
  ultimately show ?thesis by (auto simp: request_ok_def sample_action_def)
qed

lemma sample_validated: "validate_action_request sample_std (action_request_val sample_action) = Inr sample_action"
  by (rule request_revalidated [OF sample_clock sample_action_ok])

lemma sample_needs: "needs_receipt ''external_communication''"
  "map_of EFFECT_POLICIES ''external_communication'' = Some \<lparr>ep_risk = ''HIGH'', ep_approval = True, ep_rollback = False\<rparr>"
  by (simp_all add: needs_receipt_def EFFECT_POLICIES_def)

lemma sample_issued:
  "\<exists>r'. issue_receipt plain_lib sample_std sample_registry (action_request_val sample_action) (Moment 0) True
     = (r', Inr \<lparr>is_status = Issued, is_reason = ''per_action_confirmation'', is_receipt = Some sample_receipt\<rparr>)"
proof -
  have m: "mode_of sample_registry (ar_user_id sample_action) = ''CONFIRM_EACH''"
    by (simp add: mode_of_def sample_registry_def sample_action_def)
  have g: "active_grant sample_std sample_registry u e s t = Inr None" for u e s t
    by (simp add: active_grant_def sample_registry_def new_registry_def)
  have e: "ar_effect_class sample_action = ''external_communication''" by (simp add: sample_action_def)
  have t: "permission_now (Moment 0) = Inr 0" "add_seconds 0 MAX_RECEIPT_TTL_SECONDS = Inr (60 * second)"
    by (simp_all add: permission_now_def utc_now_def in_years_def add_seconds_def MIN_TIME_def MAX_TIME_def MAX_RECEIPT_TTL_SECONDS_def second_def)
  have p: "permission_reason ''CONFIRM_EACH'' ''external_communication'' None True = (True, ''per_action_confirmation'')"
    by (simp add: permission_reason_def)
  show ?thesis
    by (simp add: issue_receipt_def sample_validated t m g e p sample_needs Let_def state_step_def sample_receipt_def)
qed

lemma sample_times: "MIN_TIME \<le> 0" "0 + 60 * second \<le> MAX_TIME" "0 < 0 + 60 * second"
  by (simp_all add: MIN_TIME_def MAX_TIME_def second_def)

lemma sample_allowed: "\<exists>p. evaluate_action_request plain_lib sample_std
    (action_request_val (sample_action\<lparr>ar_receipt := Some sample_receipt\<rparr>)) (Some (Moment 0)) = Inr p \<and> pd_permitted p"
proof -
  let ?b = "sample_action\<lparr>ar_receipt := Some sample_receipt\<rparr>"
  have v: "validate_action_request sample_std (action_request_val ?b) = Inr ?b"
    unfolding sample_receipt_def by (rule request_revalidated [OF sample_clock attached_ok [OF sample_action_ok]])
  have "payload_complete sample_action" by (simp add: payload_complete_def sample_action_def)
  then have "receipt_covers sample_std ?b sample_receipt 0"
    using issued_covers [OF sample_clock, of sample_action 0 0] sample_times by (simp add: sample_receipt_def)
  moreover have "id_pattern (receipt_id_of sample_registry sample_action)"
  proof -
    have "show_nat 1 = ''1''" by code_simp
    moreover have "id_pattern ''receipt:r1:1''" by code_simp
    ultimately show ?thesis by (simp add: receipt_id_of_def sample_registry_def new_registry_def sample_action_def)
  qed
  ultimately have "validate_receipt sample_std ?b 0
      = Inr (True, ''approval_bound_and_current'', Some (receipt_id_of sample_registry sample_action))"
    by (simp add: receipt_approved) (simp add: sample_receipt_def make_receipt_def)
  moreover have "risk_timestamp sample_std (PStr (ar_requested_at ?b)) ''requested_at'' = Inr 0"
    using clock_timestamp [OF sample_clock, of 0] by (simp add: sample_action_def MIN_TIME_def MAX_TIME_def)
  moreover have "current_time sample_std (Some (Moment 0)) 0 = Inr 0"
    by (simp add: current_time_def utc_now_def in_years_def MIN_TIME_def MAX_TIME_def)
  moreover have "ar_effect_class ?b = ''external_communication''" "ar_action_type ?b = ''send''" by (simp_all add: sample_action_def)
  ultimately show ?thesis
    using v sample_needs(2) by (simp add: evaluate_action_request_def decide_request_def HARD_PROHIBITED_ACTION_TYPES_def make_decision_def Let_def)
qed

theorem policy_allow_sound_witness:
  "receipt_covers sample_std (sample_action\<lparr>ar_receipt := Some sample_receipt\<rparr>) sample_receipt 0"
proof -
  obtain p where p: "evaluate_action_request plain_lib sample_std
    (action_request_val (sample_action\<lparr>ar_receipt := Some sample_receipt\<rparr>)) (Some (Moment 0)) = Inr p" "pd_permitted p"
    using sample_allowed by blast
  have "validate_action_request sample_std (action_request_val (sample_action\<lparr>ar_receipt := Some sample_receipt\<rparr>))
      = Inr (sample_action\<lparr>ar_receipt := Some sample_receipt\<rparr>)"
    unfolding sample_receipt_def by (rule request_revalidated [OF sample_clock attached_ok [OF sample_action_ok]])
  then show ?thesis using policy_allow_sound [OF p] sample_needs(2)
    by (auto simp: sample_action_def current_time_def utc_now_Inr)
qed

theorem issue_receipt_sound_witness:
  "\<exists>a t. validate_action_request sample_std (action_request_val sample_action) = Inr a \<and> Moment 0 = Moment t
     \<and> mode_of sample_registry (ar_user_id a) \<noteq> ''PROPOSE_ONLY''"
proof -
  obtain r' where "issue_receipt plain_lib sample_std sample_registry (action_request_val sample_action) (Moment 0) True
     = (r', Inr \<lparr>is_status = Issued, is_reason = ''per_action_confirmation'', is_receipt = Some sample_receipt\<rparr>)"
    using sample_issued by blast
  from issue_receipt_sound [OF this, of sample_receipt] show ?thesis by auto
qed

theorem issued_receipt_accepted_witness:
  "\<exists>p. evaluate_action_request plain_lib sample_std
    (action_request_val (sample_action\<lparr>ar_receipt := Some sample_receipt\<rparr>)) (Some (Moment 0)) = Inr p \<and> pd_permitted p"
proof -
  obtain r' where r': "issue_receipt plain_lib sample_std sample_registry (action_request_val sample_action) (Moment 0) True
     = (r', Inr \<lparr>is_status = Issued, is_reason = ''per_action_confirmation'', is_receipt = Some sample_receipt\<rparr>)"
    using sample_issued by blast
  have h: "ar_action_type sample_action \<notin> set HARD_PROHIBITED_ACTION_TYPES" "payload_complete sample_action"
    "\<forall>e. map_of EFFECT_POLICIES (ar_effect_class sample_action) = Some e \<longrightarrow> ep_rollback e \<longrightarrow> ar_rollback_ref sample_action \<noteq> None"
    using sample_needs(2) by (simp_all add: sample_action_def HARD_PROHIBITED_ACTION_TYPES_def payload_complete_def)
  have "show_nat 1 = ''1''" by code_simp
  then show ?thesis
    using issued_receipt_accepted [OF sample_clock r' _ sample_validated h, of sample_receipt 0] sample_times(3)
    by (auto simp: sample_action_def sample_registry_def new_registry_def)
qed

lemma sample_ids: "canonical_id e (PStr ''u1'') f = Inr ''u1''" "canonical_id e (PStr ''g1'') f = Inr ''g1''"
  "canonical_id e (PStr ''cam'') f = Inr ''cam''"
proof -
  have "id_pattern ''u1''" "id_pattern ''g1''" "id_pattern ''cam''" by code_simp+
  then show "canonical_id e (PStr ''u1'') f = Inr ''u1''" "canonical_id e (PStr ''g1'') f = Inr ''g1''"
    "canonical_id e (PStr ''cam'') f = Inr ''cam''" by (simp_all only: canonical_id_ok)
qed

definition granted_registry :: registry where
  "granted_registry = fst (create_grant plain_lib sample_std new_registry (PStr ''g1'') (PStr ''u1'') ''sensor_capture''
     (PStr ''cam'') (Moment 0) (PInt 60) PNone)"

definition revoked_registry :: registry where
  "revoked_registry = fst (revoke plain_lib sample_std granted_registry (PStr ''g1'') (PStr ''u1'') (Moment 0))"

lemma granted: "rg_sequence granted_registry = 1"
  "\<exists>g. rg_grants granted_registry = [(''g1'', g)] \<and> gr_user g = ''u1'' \<and> gr_revoked g = None"
proof -
  have t: "permission_now (Moment 0) = Inr 0" "add_seconds 0 60 = Inr (60 * second)"
    by (simp_all add: permission_now_def utc_now_def in_years_def add_seconds_def MIN_TIME_def MAX_TIME_def second_def)
  show "rg_sequence granted_registry = 1"
    "\<exists>g. rg_grants granted_registry = [(''g1'', g)] \<and> gr_user g = ''u1'' \<and> gr_revoked g = None"
    by (simp_all add: granted_registry_def create_grant_def sample_ids t ttl_of_def LIMITED_AUTO_EFFECTS_def Let_def new_registry_def
        state_step_def grant_val_def opt_text_val_def)
qed

theorem registry_history_witness:
  "extends granted_registry revoked_registry \<and> registry_ok revoked_registry \<and> rg_sequence revoked_registry = 2"
proof -
  have c: "registry_call plain_lib sample_std new_registry granted_registry"
    "registry_call plain_lib sample_std granted_registry revoked_registry"
    unfolding granted_registry_def revoked_registry_def
    by (rule registry_call.Grant registry_call.Revoke, rule prod.collapse [symmetric])+
  obtain g where g: "rg_grants granted_registry = [(''g1'', g)]" "gr_user g = ''u1''" "gr_revoked g = None" using granted(2) by blast
  have "permission_now (Moment 0) = Inr 0"
    by (simp add: permission_now_def utc_now_def in_years_def MIN_TIME_def MAX_TIME_def)
  then have "rg_sequence revoked_registry = 2"
    using granted(1) g by (simp add: revoked_registry_def revoke_def sample_ids Let_def state_step_def)
  then show ?thesis using registry_history [of plain_lib sample_std granted_registry revoked_registry] c by blast
qed

end
