(* ===== verification/Watchdog.thy ===== *)
theory Watchdog
  imports RiskPolicy
begin

text \<open>
  The autonomy watchdog (\<open>autonomy_watchdog_v1.py\<close>): samples, the decision on each of them, the
  latched kill switch and the reset. Times and library functions are those of \<open>RiskPolicy\<close>.
\<close>

section \<open>Samples\<close>

definition WATCHDOG_SAMPLE_SCHEMA :: string where "WATCHDOG_SAMPLE_SCHEMA = ''lumina.autonomy.watchdog.sample.v1''"
definition WATCHDOG_DECISION_SCHEMA :: string where "WATCHDOG_DECISION_SCHEMA = ''lumina.autonomy.watchdog.decision.v1''"
definition WATCHDOG_EVENT_SCHEMA :: string where "WATCHDOG_EVENT_SCHEMA = ''lumina.autonomy.watchdog.event.v1''"

record watch_config =
  wc_heartbeat_timeout :: pyfloat
  wc_max_repeated :: int
  wc_cpu_max :: pyfloat
  wc_memory_max :: pyfloat
  wc_resource_limit :: int
  wc_recovery_max :: rat

definition default_watch :: watch_config where
  "default_watch = \<lparr>wc_heartbeat_timeout = Fin 5, wc_max_repeated = 3, wc_cpu_max = Fin 90, wc_memory_max = Fin 90,
     wc_resource_limit = 3, wc_recovery_max = 30\<rparr>"

record watch_sample =
  ws_sample_id :: string
  ws_loop_id :: string
  ws_correlation_id :: string
  ws_sampled_at :: string
  ws_heartbeat_at :: string
  ws_action_id :: string
  ws_trace_complete :: bool
  ws_cpu :: pyfloat
  ws_memory :: pyfloat
  ws_stop :: bool

definition watch_sample_val :: "watch_sample \<Rightarrow> pyval" where
  "watch_sample_val s = PDict [(''schema_version'', PStr WATCHDOG_SAMPLE_SCHEMA), (''sample_id'', PStr (ws_sample_id s)),
     (''loop_id'', PStr (ws_loop_id s)), (''correlation_id'', PStr (ws_correlation_id s)),
     (''sampled_at'', PStr (ws_sampled_at s)), (''heartbeat_at'', PStr (ws_heartbeat_at s)),
     (''action_id'', PStr (ws_action_id s)), (''trace_complete'', PBool (ws_trace_complete s)),
     (''cpu_percent'', PFloat (ws_cpu s)), (''memory_percent'', PFloat (ws_memory s)), (''stop_requested'', PBool (ws_stop s))]"

definition SAMPLE_FIELDS :: "string list" where
  "SAMPLE_FIELDS = [''schema_version'', ''sample_id'', ''loop_id'', ''correlation_id'', ''sampled_at'', ''heartbeat_at'',
     ''action_id'', ''trace_complete'', ''cpu_percent'', ''memory_percent'', ''stop_requested'']"

definition bad_watch_id :: "string \<Rightarrow> policy_exc" where
  "bad_watch_id field = WatchdogError ''WATCHDOG_ID_INVALID'' field"

definition watch_time :: "pystd \<Rightarrow> pyval \<Rightarrow> string \<Rightarrow> policy_exc + int" where
  "watch_time = iso_timestamp WatchdogError ''WATCHDOG''"

definition watch_now :: "moment \<Rightarrow> policy_exc + int" where
  "watch_now m = utc_now (WatchdogError ''WATCHDOG_NOW_TIMEZONE_REQUIRED'' ''now'') m"

definition percent_field :: "pyval \<Rightarrow> string \<Rightarrow> policy_exc + pyfloat" where
  "percent_field v field =
     (let bad = Inl (WatchdogError ''WATCHDOG_RESOURCE_VALUE_INVALID'' field);
          ranged = (\<lambda>x. if is_finite x \<and> fle (Fin 0) x \<and> fle x (Fin 100) then Inr x else bad) in
      case v of
        PInt n \<Rightarrow> (case float_of_int n of Inl e \<Rightarrow> Inl (PolicyRaised e) | Inr x \<Rightarrow> ranged x)
      | PFloat x \<Rightarrow> ranged x
      | _ \<Rightarrow> bad)"

definition validate_watchdog_sample :: "pystd \<Rightarrow> pyval \<Rightarrow> policy_exc + watch_sample" where
  "validate_watchdog_sample T v =
     (case v of
        PDict d \<Rightarrow>
          bindE (guardE (unknown_fields SAMPLE_FIELDS d = [])
                   (WatchdogError ''WATCHDOG_UNKNOWN_SAMPLE_FIELDS'' (join '','' (unknown_fields SAMPLE_FIELDS d)))) (\<lambda>_.
          bindE (guardE (dget d ''schema_version'' = PStr WATCHDOG_SAMPLE_SCHEMA)
                   (WatchdogError ''WATCHDOG_SAMPLE_SCHEMA_MISMATCH'' ''schema_version'')) (\<lambda>_.
          bindE (percent_field (dget d ''cpu_percent'') ''cpu_percent'') (\<lambda>cpu.
          bindE (percent_field (dget d ''memory_percent'') ''memory_percent'') (\<lambda>memory.
          bindE (case (dget d ''trace_complete'', dget d ''stop_requested'') of
                   (PBool b, PBool c) \<Rightarrow> Inr (b, c)
                 | _ \<Rightarrow> Inl (WatchdogError ''WATCHDOG_BOOLEAN_REQUIRED'' ''trace_complete/stop_requested'')) (\<lambda>(complete, stop).
          bindE (canonical_id bad_watch_id (dget d ''sample_id'') ''sample_id'') (\<lambda>sample.
          bindE (canonical_id bad_watch_id (dget d ''loop_id'') ''loop_id'') (\<lambda>loop.
          bindE (canonical_id bad_watch_id (dget d ''correlation_id'') ''correlation_id'') (\<lambda>correlation.
          bindE (watch_time T (dget d ''sampled_at'') ''sampled_at'') (\<lambda>sampled.
          bindE (watch_time T (dget d ''heartbeat_at'') ''heartbeat_at'') (\<lambda>heartbeat.
          bindE (canonical_id bad_watch_id (dget d ''action_id'') ''action_id'') (\<lambda>action.
          let s = \<lparr>ws_sample_id = sample, ws_loop_id = loop, ws_correlation_id = correlation, ws_sampled_at = zulu T sampled,
             ws_heartbeat_at = zulu T heartbeat, ws_action_id = action, ws_trace_complete = complete, ws_cpu = cpu,
             ws_memory = memory, ws_stop = stop\<rparr> in
          bindE (guardE (json_ok (watch_sample_val s)) (WatchdogError ''WATCHDOG_NONCANONICAL_JSON'' ''payload'')) (\<lambda>_.
          Inr s))))))))))))
      | _ \<Rightarrow> Inl (WatchdogError ''WATCHDOG_SAMPLE_OBJECT_REQUIRED'' ''sample''))"

section \<open>The watchdog\<close>

datatype watch_state = Running | SafeIdle | Killed

fun watch_state_value :: "watch_state \<Rightarrow> string" where
  "watch_state_value Running = ''RUNNING''"
| "watch_state_value SafeIdle = ''SAFE_IDLE''"
| "watch_state_value Killed = ''KILLED''"

text \<open>The states in the order in which they stop the loop.\<close>

fun watch_rank :: "watch_state \<Rightarrow> nat" where
  "watch_rank Running = 0"
| "watch_rank SafeIdle = 1"
| "watch_rank Killed = 2"

lemma watch_rank_inject: "watch_rank a = watch_rank b \<longleftrightarrow> a = b"
  by (cases a; cases b) simp_all

instantiation watch_state :: linorder
begin

definition less_eq_watch_state :: "watch_state \<Rightarrow> watch_state \<Rightarrow> bool" where
  "less_eq_watch_state a b = (watch_rank a \<le> watch_rank b)"

definition less_watch_state :: "watch_state \<Rightarrow> watch_state \<Rightarrow> bool" where
  "less_watch_state a b = (watch_rank a < watch_rank b)"

instance
  by standard (auto simp: less_eq_watch_state_def less_watch_state_def watch_rank_inject [symmetric])

end

lemma watch_state_order [simp]: "Running \<le> a" "a \<le> Killed" "a \<le> Running \<longleftrightarrow> a = Running" "Killed \<le> a \<longleftrightarrow> a = Killed"
  by (cases a; simp add: less_eq_watch_state_def)+

record watch_event =
  we_sequence :: nat
  we_type :: string
  we_at :: string
  we_detail :: pyval
  we_sha :: string

record watchdog =
  wd_config :: watch_config
  wd_state :: watch_state
  wd_last_action :: "string option"
  wd_repeats :: int
  wd_pressure :: int
  wd_events :: "watch_event list"
  wd_sequence :: nat

definition new_watchdog :: "watch_config \<Rightarrow> watchdog" where
  "new_watchdog c = \<lparr>wd_config = c, wd_state = Running, wd_last_action = None, wd_repeats = 0, wd_pressure = 0,
     wd_events = [], wd_sequence = 0\<rparr>"

definition watch_event_items :: "watch_event \<Rightarrow> (string \<times> pyval) list" where
  "watch_event_items e = [(''schema_version'', PStr WATCHDOG_EVENT_SCHEMA),
     (''event_id'', PStr (''watchdog-event:'' @ show_nat (we_sequence e))), (''sequence'', PInt (int (we_sequence e))),
     (''event_type'', PStr (we_type e)), (''occurred_at'', PStr (we_at e)), (''detail'', we_detail e)]"

definition watch_log :: "pylib \<Rightarrow> pystd \<Rightarrow> string \<Rightarrow> int \<Rightarrow> (string \<times> pyval) list \<Rightarrow> watchdog \<Rightarrow> watchdog" where
  "watch_log L T event_type now detail w =
     (let n = wd_sequence w + 1;
          e = \<lparr>we_sequence = n, we_type = event_type, we_at = zulu T now, we_detail = PDict detail, we_sha = []\<rparr> in
      w\<lparr>wd_sequence := n, wd_events := wd_events w @ [e\<lparr>we_sha := json_sha L (PDict (watch_event_items e))\<rparr>]\<rparr>)"

record watch_decision =
  wk_sample_id :: string
  wk_loop_id :: string
  wk_correlation_id :: string
  wk_state :: watch_state
  wk_safe_idle :: bool
  wk_permitted :: bool
  wk_reasons :: "string list"
  wk_latency :: pyfloat
  wk_deadline :: rat
  wk_sha :: string

definition watch_decision_items :: "watch_decision \<Rightarrow> (string \<times> pyval) list" where
  "watch_decision_items k = [(''schema_version'', PStr WATCHDOG_DECISION_SCHEMA), (''sample_id'', PStr (wk_sample_id k)),
     (''loop_id'', PStr (wk_loop_id k)), (''correlation_id'', PStr (wk_correlation_id k)),
     (''state'', PStr (watch_state_value (wk_state k))), (''safe_idle_required'', PBool (wk_safe_idle k)),
     (''action_execution_permitted'', PBool (wk_permitted k)), (''reasons'', PList (map PStr (wk_reasons k))),
     (''recovery_latency_seconds'', PFloat (wk_latency k)), (''recovery_deadline_seconds'', PFloat (Fin (wk_deadline k)))]"

definition watch_decide :: "pylib \<Rightarrow> watchdog \<Rightarrow> watch_sample \<Rightarrow> int \<Rightarrow> string list \<Rightarrow> int option \<Rightarrow> watch_decision" where
  "watch_decide L w s now reasons detected =
     (let latency = (case detected of None \<Rightarrow> Fin 0 | Some t \<Rightarrow> fmax (Fin 0) (total_seconds (now - t)));
          k = \<lparr>wk_sample_id = ws_sample_id s, wk_loop_id = ws_loop_id s, wk_correlation_id = ws_correlation_id s,
            wk_state = wd_state w, wk_safe_idle = (wd_state w = SafeIdle \<or> wd_state w = Killed),
            wk_permitted = (wd_state w = Running), wk_reasons = reasons, wk_latency = latency,
            wk_deadline = wc_recovery_max (wd_config w), wk_sha = []\<rparr>
      in k\<lparr>wk_sha := json_sha L (PDict (watch_decision_items k))\<rparr>)"

text \<open>The two counters of \<open>ingest\<close>.\<close>

definition pressured :: "watch_config \<Rightarrow> watch_sample \<Rightarrow> bool" where
  "pressured c s = (flt (wc_cpu_max c) (ws_cpu s) \<or> flt (wc_memory_max c) (ws_memory s))"

definition count_sample :: "watch_sample \<Rightarrow> watchdog \<Rightarrow> watchdog" where
  "count_sample s w =
     (let w' = (if wd_last_action w = Some (ws_action_id s) then w\<lparr>wd_repeats := wd_repeats w + 1\<rparr>
                else w\<lparr>wd_last_action := Some (ws_action_id s), wd_repeats := 1\<rparr>)
      in w'\<lparr>wd_pressure := (if pressured (wd_config w) s then wd_pressure w + 1 else 0)\<rparr>)"

definition watch_reasons :: "watchdog \<Rightarrow> watch_sample \<Rightarrow> int \<Rightarrow> int \<Rightarrow> string list" where
  "watch_reasons w s now heartbeat =
     (if ws_stop s then [''stop_requested''] else [])
     @ (if \<not> ws_trace_complete s then [''trace_incomplete''] else [])
     @ (if flt (wc_heartbeat_timeout (wd_config w)) (total_seconds (now - heartbeat)) then [''heartbeat_timeout''] else [])
     @ (if wc_max_repeated (wd_config w) < wd_repeats w then [''action_repetition''] else [])
     @ (if wc_resource_limit (wd_config w) \<le> wd_pressure w then [''sustained_resource_pressure''] else [])"

text \<open>The times of a sample; nothing has changed yet when one of them is refused.\<close>

definition admit_sample :: "pystd \<Rightarrow> pyval \<Rightarrow> moment \<Rightarrow> policy_exc + watch_sample \<times> int \<times> int" where
  "admit_sample T v now =
     bindE (validate_watchdog_sample T v) (\<lambda>s.
     bindE (watch_now now) (\<lambda>current.
     bindE (watch_time T (PStr (ws_sampled_at s)) ''sampled_at'') (\<lambda>sampled.
     bindE (watch_time T (PStr (ws_heartbeat_at s)) ''heartbeat_at'') (\<lambda>heartbeat.
     bindE (add_seconds current 2) (\<lambda>latest.
     bindE (guardE (\<not> (latest < sampled \<or> latest < heartbeat))
              (WatchdogError ''WATCHDOG_SAMPLE_FROM_FUTURE'' (ws_sample_id s))) (\<lambda>_.
     Inr (s, current, heartbeat)))))))"

definition ingest_sample :: "pylib \<Rightarrow> pystd \<Rightarrow> watchdog \<Rightarrow> watch_sample \<Rightarrow> int \<Rightarrow> int \<Rightarrow> watchdog \<times> watch_decision" where
  "ingest_sample L T w s now heartbeat =
     (if wd_state w = Killed then (w, watch_decide L w s now [''kill_switch_latched''] (Some now))
      else
        let w1 = count_sample s w; reasons = watch_reasons w1 s now heartbeat in
        if reasons \<noteq> [] then
          let w2 = watch_log L T ''SAFE_IDLE_ENTERED'' now
                     [(''sample_id'', PStr (ws_sample_id s)), (''reasons'', PList (map PStr reasons))]
                     (w1\<lparr>wd_state := SafeIdle\<rparr>)
          in (w2, watch_decide L w2 s now reasons (Some now))
        else if wd_state w1 = SafeIdle then (w1, watch_decide L w1 s now [''safe_idle_latched_until_reset''] None)
        else (w1\<lparr>wd_state := Running\<rparr>, watch_decide L (w1\<lparr>wd_state := Running\<rparr>) s now [] None))"

definition ingest :: "pylib \<Rightarrow> pystd \<Rightarrow> watchdog \<Rightarrow> pyval \<Rightarrow> moment \<Rightarrow> watchdog \<times> (policy_exc + watch_decision)" where
  "ingest L T w v now =
     (case admit_sample T v now of
        Inl e \<Rightarrow> (w, Inl e)
      | Inr (s, current, heartbeat) \<Rightarrow> (case ingest_sample L T w s current heartbeat of (w', k) \<Rightarrow> (w', Inr k)))"

definition trigger_kill_switch ::
  "pylib \<Rightarrow> pystd \<Rightarrow> watchdog \<Rightarrow> pyval \<Rightarrow> pyval \<Rightarrow> pyval \<Rightarrow> moment \<Rightarrow> watchdog \<times> (policy_exc + watch_event)" where
  "trigger_kill_switch L T w loop_id correlation_id requested_by now =
     (case bindE (watch_now now) (\<lambda>current.
           bindE (canonical_id bad_watch_id loop_id ''loop_id'') (\<lambda>loop.
           bindE (canonical_id bad_watch_id correlation_id ''correlation_id'') (\<lambda>correlation.
           bindE (canonical_id bad_watch_id requested_by ''requested_by'') (\<lambda>requester.
           Inr (current, loop, correlation, requester))))) of
        Inl e \<Rightarrow> (w, Inl e)
      | Inr (current, loop, correlation, requester) \<Rightarrow>
          let w' = watch_log L T ''KILL_SWITCH_TRIGGERED'' current
                     [(''loop_id'', PStr loop), (''correlation_id'', PStr correlation), (''requested_by'', PStr requester)]
                     (w\<lparr>wd_state := Killed\<rparr>)
          in (w', Inr (last (wd_events w'))))"

definition residual_of :: "pystd \<Rightarrow> pyval \<Rightarrow> policy_exc + unit" where
  "residual_of T v =
     (case v of
        PInt n \<Rightarrow>
          if n < 0 then Inl (WatchdogError ''WATCHDOG_RESIDUAL_COUNT_INVALID'' (text_of T v))
          else if n \<noteq> 0 then Inl (WatchdogError ''WATCHDOG_RESET_RESIDUAL_ACTIONS'' (text_of T v)) else Inr ()
      | _ \<Rightarrow> Inl (WatchdogError ''WATCHDOG_RESIDUAL_COUNT_INVALID'' (text_of T v)))"

text \<open>The result of a reset is the previous state.\<close>

definition reset_safe_idle ::
  "pylib \<Rightarrow> pystd \<Rightarrow> watchdog \<Rightarrow> pyval \<Rightarrow> moment \<Rightarrow> pyval \<Rightarrow> watchdog \<times> (policy_exc + watch_state)" where
  "reset_safe_idle L T w requested_by now residual =
     (case bindE (watch_now now) (\<lambda>current.
           bindE (canonical_id bad_watch_id requested_by ''requested_by'') (\<lambda>requester.
           bindE (residual_of T residual) (\<lambda>_. Inr (current, requester)))) of
        Inl e \<Rightarrow> (w, Inl e)
      | Inr (current, requester) \<Rightarrow>
          (watch_log L T ''WATCHDOG_RESET'' current
             [(''previous'', PStr (watch_state_value (wd_state w))), (''requested_by'', PStr requester), (''residual_actions'', PInt 0)]
             (w\<lparr>wd_state := Running, wd_last_action := None, wd_repeats := 0, wd_pressure := 0\<rparr>),
           Inr (wd_state w)))"

end
