(* ===== verification/WatchClaims.thy ===== *)
theory WatchClaims
  imports Watchdog AuthClaims
begin

text \<open>
  What the watchdog guarantees: the exact condition of the safe state over the history of the
  samples, the latch of the safe and the killed state, and the state as a function of the log.
\<close>

section \<open>One operation\<close>

inductive watch_step :: "pylib \<Rightarrow> pystd \<Rightarrow> watchdog \<Rightarrow> watchdog \<Rightarrow> bool" for L T where
  Ingest: "ingest L T w v now = (w', x) \<Longrightarrow> watch_step L T w w'"
| Kill: "trigger_kill_switch L T w loop correlation requester now = (w', y) \<Longrightarrow> watch_step L T w w'"
| FailedReset: "reset_safe_idle L T w requester now residual = (w', Inl e) \<Longrightarrow> watch_step L T w w'"

inductive watch_call :: "pylib \<Rightarrow> pystd \<Rightarrow> watchdog \<Rightarrow> watchdog \<Rightarrow> bool" for L T where
  Step: "watch_step L T w w' \<Longrightarrow> watch_call L T w w'"
| Reset: "reset_safe_idle L T w requester now residual = (w', Inr previous) \<Longrightarrow> watch_call L T w w'"

inductive_cases watch_stepE: "watch_step L T w w'"
inductive_cases watch_callE: "watch_call L T w w'"

lemma count_sample_fields [simp]:
  "wd_state (count_sample s w) = wd_state w" "wd_events (count_sample s w) = wd_events w"
  "wd_sequence (count_sample s w) = wd_sequence w" "wd_config (count_sample s w) = wd_config w"
  "wd_last_action (count_sample s w) = Some (ws_action_id s)"
  "wd_repeats (count_sample s w) = (if wd_last_action w = Some (ws_action_id s) then wd_repeats w + 1 else 1)"
  "wd_pressure (count_sample s w) = (if pressured (wd_config w) s then wd_pressure w + 1 else 0)"
  by (auto simp: count_sample_def Let_def)

lemma watch_log_fields [simp]:
  "wd_state (watch_log L T ty t d w) = wd_state w" "wd_config (watch_log L T ty t d w) = wd_config w"
  "wd_last_action (watch_log L T ty t d w) = wd_last_action w" "wd_repeats (watch_log L T ty t d w) = wd_repeats w"
  "wd_pressure (watch_log L T ty t d w) = wd_pressure w" "wd_sequence (watch_log L T ty t d w) = wd_sequence w + 1"
  "we_type (last (wd_events (watch_log L T ty t d w))) = ty" "wd_events (watch_log L T ty t d w) \<noteq> []"
  "map we_sequence (wd_events (watch_log L T ty t d w)) = map we_sequence (wd_events w) @ [wd_sequence w + 1]"
  by (simp_all add: watch_log_def Let_def)

lemma watch_decide_fields [simp]:
  "wk_permitted (watch_decide L w s t r d) = (wd_state w = Running)"
  "wk_safe_idle (watch_decide L w s t r d) = (wd_state w \<noteq> Running)" "wk_reasons (watch_decide L w s t r d) = r"
  by (cases "wd_state w"; simp add: watch_decide_def Let_def)+

text \<open>The three outcomes of an accepted sample.\<close>

lemma ingest_killed: "wd_state w = Killed \<Longrightarrow>
    ingest_sample L T w s t h = (w, watch_decide L w s t [''kill_switch_latched''] (Some t))"
  by (simp add: ingest_sample_def)

lemma ingest_state: "wd_state (fst (ingest_sample L T w s t h)) =
    (if wd_state w = Killed then Killed
     else if watch_reasons (count_sample s w) s t h \<noteq> [] then SafeIdle else wd_state w)"
  by (cases "wd_state w") (simp_all add: ingest_sample_def Let_def)

lemma ingest_counters: "wd_state w \<noteq> Killed \<Longrightarrow>
    wd_last_action (fst (ingest_sample L T w s t h)) = Some (ws_action_id s)
    \<and> wd_repeats (fst (ingest_sample L T w s t h)) = wd_repeats (count_sample s w)
    \<and> wd_pressure (fst (ingest_sample L T w s t h)) = wd_pressure (count_sample s w)
    \<and> wd_config (fst (ingest_sample L T w s t h)) = wd_config w
    \<and> wd_sequence (fst (ingest_sample L T w s t h)) = wd_sequence w + (if watch_reasons (count_sample s w) s t h = [] then 0 else 1)"
  by (simp add: ingest_sample_def Let_def)

lemma ingest_permitted: "wk_permitted (snd (ingest_sample L T w s t h)) = (wd_state (fst (ingest_sample L T w s t h)) = Running)"
  by (simp add: ingest_sample_def Let_def)

lemma ingest_Inr: "ingest L T w v now = (w', Inr k) \<longleftrightarrow>
    (\<exists>s t h. admit_sample T v now = Inr (s, t, h) \<and> w' = fst (ingest_sample L T w s t h) \<and> k = snd (ingest_sample L T w s t h))"
  by (cases "admit_sample T v now") (auto simp: ingest_def split: prod.splits)

lemma ingest_Inl: "ingest L T w v now = (w', Inl e) \<Longrightarrow> w' = w"
  by (auto simp: ingest_def split: sum.splits prod.splits)

section \<open>The log and the state\<close>

definition state_of_log :: "watch_event list \<Rightarrow> watch_state" where
  "state_of_log es = (if es = [] \<or> we_type (last es) = ''WATCHDOG_RESET'' then Running
     else if we_type (last es) = ''KILL_SWITCH_TRIGGERED'' then Killed else SafeIdle)"

definition watch_ok :: "watchdog \<Rightarrow> bool" where
  "watch_ok w = (wd_state w = state_of_log (wd_events w) \<and> map we_sequence (wd_events w) = [1..<Suc (wd_sequence w)])"

lemma logged_ok:
  assumes "watch_ok w" and "wd_events v = wd_events w" "wd_sequence v = wd_sequence w"
    and "wd_state v = (if ty = ''WATCHDOG_RESET'' then Running else if ty = ''KILL_SWITCH_TRIGGERED'' then Killed else SafeIdle)"
  shows "watch_ok (watch_log L T ty t d v)"
  using assms by (simp add: watch_ok_def state_of_log_def)

lemma ingest_ok: "watch_ok w \<Longrightarrow> watch_ok (fst (ingest_sample L T w s t h))"
proof -
  assume w: "watch_ok w"
  show ?thesis
  proof (cases "wd_state w \<noteq> Killed \<and> watch_reasons (count_sample s w) s t h \<noteq> []")
    case True
    then show ?thesis using w by (simp add: ingest_sample_def Let_def logged_ok [OF w])
  next
    case False
    then show ?thesis using w by (cases "wd_state w") (auto simp: ingest_sample_def Let_def watch_ok_def)
  qed
qed

lemma kill_ok: "watch_ok w \<Longrightarrow> watch_ok (fst (trigger_kill_switch L T w loop correlation requester now))"
  by (auto simp: trigger_kill_switch_def Let_def split: sum.splits intro!: logged_ok)

lemma reset_ok: "watch_ok w \<Longrightarrow> watch_ok (fst (reset_safe_idle L T w requester now residual))"
  by (auto simp: reset_safe_idle_def Let_def split: sum.splits intro!: logged_ok)

lemma watch_step_ok: "watch_step L T w w' \<Longrightarrow> watch_ok w \<Longrightarrow> watch_ok w'"
proof (erule watch_stepE)
  fix v now x
  assume w: "watch_ok w" and i: "ingest L T w v now = (w', x)"
  show "watch_ok w'"
  proof (cases x)
    case (Inl e)
    then show ?thesis using ingest_Inl i w by blast
  next
    case (Inr k)
    then show ?thesis using i w ingest_ok by (auto simp: ingest_Inr)
  qed
next
  fix loop correlation requester now y
  assume "watch_ok w" and "trigger_kill_switch L T w loop correlation requester now = (w', y)"
  then show "watch_ok w'" using kill_ok fst_conv by metis
next
  fix requester now residual e
  assume "watch_ok w" and "reset_safe_idle L T w requester now residual = (w', Inl e)"
  then show "watch_ok w'" using reset_ok fst_conv by metis
qed

lemma watch_call_ok: "watch_call L T w w' \<Longrightarrow> watch_ok w \<Longrightarrow> watch_ok w'"
  by (erule watch_callE) (use watch_step_ok reset_ok fst_conv in metis)+

interpretation watch_run: step_invariant "watch_call L T" watch_ok for L T
  by unfold_locales (rule watch_call_ok)

lemma new_watchdog_ok: "watch_ok (new_watchdog c)"
  by (simp add: watch_ok_def new_watchdog_def state_of_log_def)

text \<open>C23. The audit log determines the state. In every run of samples, kill switch and resets from a new
  watchdog, the events are numbered 1, 2, 3 and so on without a gap, and the state is the one
  that the last event names: running when there is none or it is a reset, killed when it is the
  kill switch, and the safe state otherwise. No call changes the state without an event.\<close>

theorem watchdog_log_state:
  assumes "(watch_call L T)\<^sup>*\<^sup>* (new_watchdog c) w"
  shows "wd_state w = state_of_log (wd_events w) \<and> map we_sequence (wd_events w) = [1..<Suc (wd_sequence w)]"
  using watch_run.reached [OF assms new_watchdog_ok] by (simp add: watch_ok_def)

section \<open>The latch\<close>

lemma kill_state: "wd_state (fst (trigger_kill_switch L T w loop correlation requester now)) \<in> {wd_state w, Killed}"
  by (auto simp: trigger_kill_switch_def Let_def split: sum.splits)

lemma failed_reset: "reset_safe_idle L T w requester now residual = (w', Inl e) \<Longrightarrow> w' = w"
  by (auto simp: reset_safe_idle_def Let_def split: sum.splits)

text \<open>Short of a successful reset, the state only moves up in the order.\<close>

lemma watch_step_mono:
  assumes "watch_step L T w w'"
  shows "wd_state w \<le> wd_state w'"
  using assms
proof (cases rule: watch_step.cases)
  case (Ingest v now x)
  have "wd_state u \<le> wd_state (fst (ingest_sample L T u s t h))" for u s t h
    by (cases "wd_state u") (simp_all add: ingest_state)
  then show ?thesis using Ingest by (cases x) (auto simp: ingest_Inr dest: ingest_Inl)
next
  case (Kill loop correlation requester now y)
  then show ?thesis using kill_state [of L T w loop correlation requester now] by auto
next
  case (FailedReset requester now residual e)
  then show ?thesis using failed_reset by blast
qed

interpretation above: step_invariant "watch_step L T" "\<lambda>w. s \<le> wd_state w" for L T s
  by unfold_locales (use watch_step_mono order_trans in blast)

text \<open>C20. The stop is latched. Once the watchdog has left the running state, no sequence of samples,
  kill switches and refused resets lets it permit an action again; after the kill switch every
  accepted sample is answered with \<open>kill_switch_latched\<close> alone and changes nothing at all.\<close>

theorem watchdog_latched:
  assumes "wd_state w \<noteq> Running" and "(watch_step L T)\<^sup>*\<^sup>* w w'" and "ingest L T w' v now = (w'', Inr k)"
  shows "\<not> wk_permitted k \<and> wk_safe_idle k \<and> wd_state w'' \<noteq> Running
    \<and> (wd_state w = Killed \<longrightarrow> wk_reasons k = [''kill_switch_latched''] \<and> w'' = w')"
proof -
  obtain s t h where i: "w'' = fst (ingest_sample L T w' s t h)" "k = snd (ingest_sample L T w' s t h)"
    using assms(3) by (auto simp: ingest_Inr)
  have r: "wd_state w' \<noteq> Running" using above.reached [OF assms(2), of "wd_state w"] assms(1) by auto
  then have "wd_state w'' \<noteq> Running" by (simp add: i ingest_state)
  moreover have "wk_safe_idle k = (\<not> wk_permitted k)" by (simp add: i ingest_sample_def Let_def)
  moreover have "wd_state w' = Killed" if "wd_state w = Killed" using above.reached [OF assms(2), of Killed] that by simp
  ultimately show ?thesis using i ingest_permitted by (auto simp: ingest_killed)
qed

section \<open>The exact condition\<close>

text \<open>An admitted sample, with the time of the call and of its heartbeat.\<close>

type_synonym observation = "watch_sample \<times> int \<times> int"

definition ingest_all :: "pylib \<Rightarrow> pystd \<Rightarrow> observation list \<Rightarrow> watchdog \<Rightarrow> watchdog" where
  "ingest_all L T xs w = foldl (\<lambda>w (s, t, h). fst (ingest_sample L T w s t h)) w xs"

definition last_run :: "('a \<Rightarrow> bool) \<Rightarrow> 'a list \<Rightarrow> int" where
  "last_run P xs = int (length (takeWhile P (rev xs)))"

text \<open>The last observation of a history must stop the loop.\<close>

definition trips :: "watch_config \<Rightarrow> observation list \<Rightarrow> bool" where
  "trips c xs = (case last xs of (s, t, h) \<Rightarrow>
     ws_stop s \<or> \<not> ws_trace_complete s \<or> flt (wc_heartbeat_timeout c) (total_seconds (t - h))
     \<or> wc_max_repeated c < last_run (\<lambda>x. ws_action_id (fst x) = ws_action_id s) xs
     \<or> wc_resource_limit c \<le> last_run (\<lambda>x. pressured c (fst x)) xs)"

definition tripped :: "watch_config \<Rightarrow> observation list \<Rightarrow> nat list" where
  "tripped c xs = filter (\<lambda>n. trips c (take n xs)) [1..<Suc (length xs)]"

definition fresh_watchdog :: "watchdog \<Rightarrow> bool" where
  "fresh_watchdog w = (wd_state w = Running \<and> wd_last_action w = None \<and> wd_repeats w = 0 \<and> wd_pressure w = 0)"

lemma last_run_snoc [simp]: "last_run P (xs @ [x]) = (if P x then last_run P xs + 1 else 0)"
  by (simp add: last_run_def)

lemma last_run_nil [simp]: "last_run P [] = 0"
  by (simp add: last_run_def)

lemma tripped_snoc: "tripped c (xs @ [x]) = tripped c xs @ (if trips c (xs @ [x]) then [Suc (length xs)] else [])"
proof -
  have "filter (\<lambda>n. trips c (take n (xs @ [x]))) [1..<Suc (length xs)] = tripped c xs"
    unfolding tripped_def by (rule filter_cong) auto
  then show ?thesis by (simp add: tripped_def)
qed

lemma watch_reasons_nil: "watch_reasons w s t h = [] \<longleftrightarrow>
    \<not> ws_stop s \<and> ws_trace_complete s \<and> \<not> flt (wc_heartbeat_timeout (wd_config w)) (total_seconds (t - h))
    \<and> \<not> wc_max_repeated (wd_config w) < wd_repeats w \<and> \<not> wc_resource_limit (wd_config w) \<le> wd_pressure w"
  by (simp add: watch_reasons_def)

text \<open>The counters of the watchdog are the run lengths of the history.\<close>

definition tracks :: "watchdog \<Rightarrow> observation list \<Rightarrow> watchdog \<Rightarrow> bool" where
  "tracks w xs v = (wd_config v = wd_config w
     \<and> wd_last_action v = (if xs = [] then None else Some (ws_action_id (fst (last xs))))
     \<and> wd_repeats v = (if xs = [] then 0 else last_run (\<lambda>x. ws_action_id (fst x) = ws_action_id (fst (last xs))) xs)
     \<and> wd_pressure v = last_run (\<lambda>x. pressured (wd_config w) (fst x)) xs
     \<and> wd_state v = (if tripped (wd_config w) xs = [] then Running else SafeIdle)
     \<and> wd_sequence v = wd_sequence w + length (tripped (wd_config w) xs))"

lemma tracks_counted:
  assumes "tracks w xs v"
  shows "wd_repeats (count_sample s v) = last_run (\<lambda>x. ws_action_id (fst x) = ws_action_id s) (xs @ [(s, t, h)])"
    and "wd_pressure (count_sample s v) = last_run (\<lambda>x. pressured (wd_config w) (fst x)) (xs @ [(s, t, h)])"
proof -
  have "last_run (\<lambda>x. ws_action_id (fst x) = ws_action_id s) xs = 0"
    if "xs \<noteq> []" "ws_action_id (fst (last xs)) \<noteq> ws_action_id s"
    using that by (cases xs rule: rev_cases) simp_all
  then show "wd_repeats (count_sample s v) = last_run (\<lambda>x. ws_action_id (fst x) = ws_action_id s) (xs @ [(s, t, h)])"
    using assms by (auto simp: tracks_def)
  show "wd_pressure (count_sample s v) = last_run (\<lambda>x. pressured (wd_config w) (fst x)) (xs @ [(s, t, h)])"
    using assms by (simp add: tracks_def)
qed

lemma tracks_step:
  assumes "tracks w xs v"
  shows "tracks w (xs @ [(s, t, h)]) (fst (ingest_sample L T v s t h))"
proof -
  have k: "wd_state v \<noteq> Killed" "wd_config v = wd_config w" using assms by (auto simp: tracks_def)
  have "watch_reasons (count_sample s v) s t h = [] \<longleftrightarrow> \<not> trips (wd_config w) (xs @ [(s, t, h)])"
    unfolding watch_reasons_nil tracks_counted [OF assms, of s t h] by (auto simp: trips_def k(2))
  then show ?thesis
    using assms k ingest_counters [OF k(1), of L T s t h] tracks_counted [OF assms, of s t h]
    by (auto simp: tracks_def ingest_state tripped_snoc)
qed

text \<open>C21. The watchdog stops exactly when the history says so. After any list of admitted samples from a
  fresh watchdog (a new one, or one just reset), the state is the safe one if and only if at some
  point a sample asked to stop, had an incomplete trace, came with a heartbeat that was too old,
  ended a run of one action longer than the limit, or ended a run of samples above the resource
  limits that reached its limit; the counters are the lengths of those runs; and one event was
  logged for every point that tripped.\<close>

theorem watchdog_exact:
  assumes "fresh_watchdog w" and "w' = ingest_all L T xs w" and "c = wd_config w"
  shows "wd_state w' = (if \<exists>n \<in> {1..length xs}. trips c (take n xs) then SafeIdle else Running)
    \<and> wd_pressure w' = last_run (\<lambda>x. pressured c (fst x)) xs
    \<and> wd_repeats w' = (if xs = [] then 0 else last_run (\<lambda>x. ws_action_id (fst x) = ws_action_id (fst (last xs))) xs)
    \<and> wd_sequence w' = wd_sequence w + card {n \<in> {1..length xs}. trips c (take n xs)}"
proof -
  have "tracks w xs (ingest_all L T xs w)"
  proof (induction xs rule: rev_induct)
    case Nil
    then show ?case using assms(1) by (simp add: tracks_def fresh_watchdog_def ingest_all_def tripped_def)
  next
    case (snoc x xs)
    then show ?case using tracks_step by (cases x) (simp add: ingest_all_def)
  qed
  moreover have "tripped c xs \<noteq> [] \<longleftrightarrow> (\<exists>n \<in> {1..length xs}. trips c (take n xs))"
    by (auto simp: tripped_def filter_empty_conv)
  moreover have "length (tripped c xs) = card {n \<in> {1..length xs}. trips c (take n xs)}"
  proof -
    have "set (tripped c xs) = {n \<in> {1..length xs}. trips c (take n xs)}" by (auto simp: tripped_def)
    moreover have "distinct (tripped c xs)" by (simp add: tripped_def)
    ultimately show ?thesis by (metis distinct_card)
  qed
  ultimately show ?thesis using assms(2,3) by (auto simp: tracks_def)
qed

section \<open>A concrete run\<close>

definition killed_watchdog :: watchdog where
  "killed_watchdog = fst (trigger_kill_switch plain_lib sample_std (new_watchdog default_watch) (PStr ''u1'') (PStr ''g1'')
     (PStr ''cam'') (Moment 0))"

lemma killed_sample: "wd_state killed_watchdog = Killed" "wd_sequence killed_watchdog = 1"
  by (simp_all add: killed_watchdog_def trigger_kill_switch_def watch_now_def utc_now_def in_years_def MIN_TIME_def MAX_TIME_def
      sample_ids Let_def new_watchdog_def)

theorem watchdog_log_state_witness: "state_of_log (wd_events killed_watchdog) = Killed \<and> length (wd_events killed_watchdog) = 1"
proof -
  have "watch_call plain_lib sample_std (new_watchdog default_watch) killed_watchdog"
    unfolding killed_watchdog_def by (intro watch_call.Step watch_step.Kill, rule prod.collapse [symmetric])
  then have r: "(watch_call plain_lib sample_std)\<^sup>*\<^sup>* (new_watchdog default_watch) killed_watchdog" by blast
  have "map we_sequence (wd_events killed_watchdog) = [1..<Suc 1]"
    using watchdog_log_state [OF r] killed_sample(2) by metis
  then have "length (wd_events killed_watchdog) = 1" by (metis length_map length_upt diff_Suc_1)
  then show ?thesis using watchdog_log_state [OF r] killed_sample(1) by simp
qed

definition sample_watch :: watch_sample where
  "sample_watch = \<lparr>ws_sample_id = ''g1'', ws_loop_id = ''u1'', ws_correlation_id = ''cam'', ws_sampled_at = zulu sample_std 0,
     ws_heartbeat_at = zulu sample_std 0, ws_action_id = ''u1'', ws_trace_complete = True, ws_cpu = Fin 10, ws_memory = Fin 10,
     ws_stop = False\<rparr>"

lemma sample_watch_admitted: "admit_sample sample_std (watch_sample_val sample_watch) (Moment 0) = Inr (sample_watch, 0, 0)"
proof -
  have t: "watch_time sample_std (PStr (zulu sample_std 0)) f = Inr 0" for f
    using sample_clock by (simp add: watch_time_def iso_timestamp_def in_years_def clock_ok_def MIN_TIME_def MAX_TIME_def)
  have v: "validate_watchdog_sample sample_std (watch_sample_val sample_watch) = Inr sample_watch"
    by (simp add: validate_watchdog_sample_def watch_sample_val_def sample_watch_def unknown_none SAMPLE_FIELDS_def percent_field_def
        sample_ids t Let_def)
  show ?thesis unfolding admit_sample_def v
    by (simp add: sample_watch_def t watch_now_def utc_now_def add_seconds_def in_years_def MIN_TIME_def MAX_TIME_def second_def)
qed

theorem watchdog_latched_witness:
  "\<exists>k. ingest plain_lib sample_std killed_watchdog (watch_sample_val sample_watch) (Moment 0) = (killed_watchdog, Inr k)
     \<and> \<not> wk_permitted k \<and> wk_reasons k = [''kill_switch_latched'']"
proof -
  have "wd_state killed_watchdog \<noteq> Running" by (simp add: killed_sample)
  moreover have i: "ingest plain_lib sample_std killed_watchdog (watch_sample_val sample_watch) (Moment 0) =
      (killed_watchdog, Inr (watch_decide plain_lib killed_watchdog sample_watch 0 [''kill_switch_latched''] (Some 0)))"
    by (simp add: ingest_def sample_watch_admitted ingest_killed killed_sample)
  ultimately show ?thesis using watchdog_latched [OF _ rtranclp.rtrancl_refl i] killed_sample(1) by blast
qed

theorem watchdog_exact_witness:
  "wd_state (ingest_all plain_lib sample_std (replicate 4 (sample_watch, 0, 0)) (new_watchdog default_watch)) = SafeIdle
   \<and> wd_state (ingest_all plain_lib sample_std (replicate 3 (sample_watch, 0, 0)) (new_watchdog default_watch)) = Running"
proof -
  have f: "fresh_watchdog (new_watchdog default_watch)" by (simp add: fresh_watchdog_def new_watchdog_def)
  have c: "wd_config (new_watchdog default_watch) = default_watch" by (simp add: new_watchdog_def)
  have "total_seconds 0 = Fin 0" by code_simp
  then have t: "trips default_watch (replicate n (sample_watch, 0, 0)) \<longleftrightarrow> 3 < n" if "0 < n" for n
    using that by (auto simp: trips_def last_run_def takeWhile_replicate default_watch_def sample_watch_def pressured_def)
  have four: "\<exists>n \<in> {1..length (replicate 4 (sample_watch, 0::int, 0::int))}. trips default_watch (take n (replicate 4 (sample_watch, 0, 0)))"
    using t [of 4] by (intro bexI [of _ 4]) simp_all
  have three: "\<not> (\<exists>n \<in> {1..length (replicate 3 (sample_watch, 0::int, 0::int))}. trips default_watch (take n (replicate 3 (sample_watch, 0, 0))))"
    using t by auto
  show ?thesis
    using watchdog_exact [OF f refl c [symmetric], of plain_lib sample_std "replicate 4 (sample_watch, 0, 0)"] four
      watchdog_exact [OF f refl c [symmetric], of plain_lib sample_std "replicate 3 (sample_watch, 0, 0)"] three
    by simp
qed

end
