(* ===== verification/MemoryConsent.thy ===== *)
theory MemoryConsent
  imports RiskPolicy "HOL-Library.AList"
begin

text \<open>
  The memory consent controller (\<open>memory_consent_v1.py\<close>): the consent of each user, the receipts
  for deletion and export, and the snapshot of the controller. Stored states and events are the
  dictionaries of the source, since a restored snapshot may carry further fields. Texts in
  arguments declared as \<open>str\<close> are strings.
\<close>

section \<open>The controller\<close>

definition MEMORY_CONSENT_SCHEMA :: string where "MEMORY_CONSENT_SCHEMA = ''lumina.memory.consent.v1''"
definition MEMORY_CONTROL_RECEIPT_SCHEMA :: string where
  "MEMORY_CONTROL_RECEIPT_SCHEMA = ''lumina.memory.control.receipt.v1''"
definition MEMORY_CONTROL_EVENT_SCHEMA :: string where "MEMORY_CONTROL_EVENT_SCHEMA = ''lumina.memory.control.event.v1''"
definition MEMORY_CONTROLLER_SNAPSHOT_SCHEMA :: string where
  "MEMORY_CONTROLLER_SNAPSHOT_SCHEMA = ''lumina.memory.consent.controller-snapshot.v1''"
definition MEMORY_EXPORT_SCHEMA :: string where "MEMORY_EXPORT_SCHEMA = ''lumina.memory.export.v1''"
definition MEMORY_LAYERS :: "string list" where
  "MEMORY_LAYERS = [''working'', ''episodic'', ''semantic'', ''profile'', ''relationship'']"
definition CONTROL_OPERATIONS :: "string list" where "CONTROL_OPERATIONS = [''DELETE'', ''EXPORT'']"

record controller =
  mc_states :: "(string \<times> pydict) list"
  mc_events :: "pydict list"
  mc_consumed :: "string set"
  mc_sequence :: nat

definition new_controller :: controller where
  "new_controller = \<lparr>mc_states = [], mc_events = [], mc_consumed = {}, mc_sequence = 0\<rparr>"

definition bad_consent_id :: "string \<Rightarrow> policy_exc" where
  "bad_consent_id field = ConsentError ''MEMORY_CONSENT_ID_INVALID'' field"

definition consent_now :: "moment \<Rightarrow> policy_exc + int" where
  "consent_now m = utc_now (ConsentError ''MEMORY_CONSENT_TIMEZONE_REQUIRED'' ''now'') m"

text \<open>\<open>_sha256\<close>: a value that is no canonical JSON raises.\<close>

definition consent_sha :: "pylib \<Rightarrow> pyval \<Rightarrow> policy_exc + string" where
  "consent_sha L v = (if json_ok v then Inr (json_sha L v) else Inl (ConsentError ''MEMORY_CONSENT_NONCANONICAL_JSON'' ''payload''))"

text \<open>\<open>{key: value for key, value in d.items() if key != k}\<close>.\<close>

definition without :: "string \<Rightarrow> pydict \<Rightarrow> pydict" where
  "without k d = filter (\<lambda>(j, v). j \<noteq> k) d"

definition consent_event :: "pylib \<Rightarrow> pystd \<Rightarrow> string \<Rightarrow> string \<Rightarrow> int \<Rightarrow> pydict \<Rightarrow> controller \<Rightarrow> controller" where
  "consent_event L T user event_type now detail c =
     (let n = mc_sequence c + 1;
          e = [(''schema_version'', PStr MEMORY_CONTROL_EVENT_SCHEMA), (''event_id'', PStr (''memory-control-event:'' @ show_nat n)),
            (''sequence'', PInt (int n)), (''user_id'', PStr user), (''event_type'', PStr event_type),
            (''occurred_at'', PStr (zulu T now)), (''detail'', PDict detail)] in
      c\<lparr>mc_sequence := n, mc_events := mc_events c @ [e @ [(''event_sha256'', PStr (json_sha L (PDict e)))]]\<rparr>)"

section \<open>Consent\<close>

definition consent_dict :: "string \<Rightarrow> bool \<Rightarrow> string list \<Rightarrow> pyval \<Rightarrow> pyval \<Rightarrow> pydict" where
  "consent_dict user allowed layers granted revoked =
     [(''schema_version'', PStr MEMORY_CONSENT_SCHEMA), (''user_id'', PStr user), (''storage_allowed'', PBool allowed),
      (''allowed_layers'', PList (map PStr layers)), (''granted_at'', granted), (''revoked_at'', revoked),
      (''default_deny'', PBool True)]"

definition state_of :: "controller \<Rightarrow> string \<Rightarrow> pydict" where
  "state_of c user =
     (case map_of (mc_states c) user of None \<Rightarrow> consent_dict user False [] PNone PNone | Some d \<Rightarrow> d)"

definition describe_consent :: "controller \<Rightarrow> pyval \<Rightarrow> policy_exc + pydict" where
  "describe_consent c user_id = bindE (canonical_id bad_consent_id user_id ''user_id'') (\<lambda>user. Inr (state_of c user))"

text \<open>\<open>sorted(set(xs))\<close>.\<close>

definition sorted_set :: "string list \<Rightarrow> string list" where
  "sorted_set xs = sort (remdups xs)"

definition consent_request ::
  "pyval \<Rightarrow> pyval \<Rightarrow> string list \<Rightarrow> pyval \<Rightarrow> moment \<Rightarrow> policy_exc + string \<times> bool \<times> string list \<times> int" where
  "consent_request user_id storage_allowed allowed_layers confirmed now =
     bindE (canonical_id bad_consent_id user_id ''user_id'') (\<lambda>user.
     bindE (consent_now now) (\<lambda>current.
     bindE (case storage_allowed of
              PBool b \<Rightarrow> if confirmed = PBool True then Inr b
                else Inl (ConsentError ''MEMORY_CONSENT_EXPLICIT_CONFIRMATION_REQUIRED'' user)
            | _ \<Rightarrow> Inl (ConsentError ''MEMORY_CONSENT_EXPLICIT_CONFIRMATION_REQUIRED'' user)) (\<lambda>allowed.
     let layers = sorted_set allowed_layers in
     bindE (guardE (set layers \<subseteq> set MEMORY_LAYERS) (ConsentError ''MEMORY_CONSENT_LAYER_UNKNOWN'' (join '','' layers))) (\<lambda>_.
     bindE (guardE (\<not> (allowed \<and> layers = [])) (ConsentError ''MEMORY_CONSENT_LAYER_REQUIRED'' user)) (\<lambda>_.
     Inr (user, allowed, if allowed then layers else [], current))))))"

definition set_storage_consent ::
  "pylib \<Rightarrow> pystd \<Rightarrow> controller \<Rightarrow> pyval \<Rightarrow> pyval \<Rightarrow> string list \<Rightarrow> pyval \<Rightarrow> moment \<Rightarrow> controller \<times> (policy_exc + pydict)" where
  "set_storage_consent L T c user_id storage_allowed allowed_layers confirmed now = state_step
     (bindE (consent_request user_id storage_allowed allowed_layers confirmed now) (\<lambda>(user, allowed, layers, current).
      let state = consent_dict user allowed layers
            (if allowed then PStr (zulu T current) else dget (state_of c user) ''granted_at'')
            (if allowed then PNone else PStr (zulu T current)) in
      Inr (consent_event L T user (if allowed then ''CONSENT_GRANTED'' else ''CONSENT_REVOKED'') current
             [(''allowed_layers'', PList (map PStr layers))]
             (c\<lparr>mc_states := AList.update user state (mc_states c)\<rparr>), state))) c"

text \<open>The answer of \<open>can_save\<close>: whether the write is allowed, and why. Every stored state has the two
  fields that are read.\<close>

definition can_save :: "controller \<Rightarrow> pyval \<Rightarrow> string \<Rightarrow> policy_exc + bool \<times> string" where
  "can_save c user_id layer =
     bindE (canonical_id bad_consent_id user_id ''user_id'') (\<lambda>user.
     if layer \<notin> set MEMORY_LAYERS then Inr (False, ''unknown_layer'')
     else
       let d = state_of c user;
           allowed = (dget d ''storage_allowed'' = PBool True
             \<and> (case dget d ''allowed_layers'' of PList vs \<Rightarrow> PStr layer \<in> set vs | _ \<Rightarrow> False)) in
       Inr (allowed, if allowed then ''explicit_consent'' else ''consent_absent_or_scope_denied''))"

section \<open>Control receipts\<close>

definition item_set :: "pyval list \<Rightarrow> policy_exc + string list" where
  "item_set item_ids = bindE (mapE (\<lambda>v. canonical_id bad_consent_id v ''item_id'') item_ids) (\<lambda>xs. Inr (sorted_set xs))"

definition control_ttl :: "pystd \<Rightarrow> pyval \<Rightarrow> policy_exc + int" where
  "control_ttl T v =
     (case v of PInt n \<Rightarrow> if 1 \<le> n \<and> n \<le> 300 then Inr n else Inl (ConsentError ''MEMORY_CONTROL_TTL_INVALID'' (text_of T v))
      | _ \<Rightarrow> Inl (ConsentError ''MEMORY_CONTROL_TTL_INVALID'' (text_of T v)))"

definition confirmation_for :: "string \<Rightarrow> string list \<Rightarrow> string" where
  "confirmation_for operation items = operation @ '' '' @ show_nat (length items) @ '' MEMORY ITEMS''"

definition control_items :: "pylib \<Rightarrow> pystd \<Rightarrow> nat \<Rightarrow> string \<Rightarrow> string \<Rightarrow> string list \<Rightarrow> string \<Rightarrow> int \<Rightarrow> int \<Rightarrow> pydict" where
  "control_items L T n user operation items confirmation issued expires =
     [(''schema_version'', PStr MEMORY_CONTROL_RECEIPT_SCHEMA), (''receipt_id'', PStr (''memory-receipt:'' @ show_nat n)),
      (''user_id'', PStr user), (''operation'', PStr operation), (''item_ids'', PList (map PStr items)),
      (''item_set_sha256'', PStr (json_sha L (PList (map PStr items)))), (''confirmation_sha256'', PStr (sha256hex L confirmation)),
      (''issued_at'', PStr (zulu T issued)), (''expires_at'', PStr (zulu T expires)), (''one_time'', PBool True)]"

definition sealed :: "pylib \<Rightarrow> string \<Rightarrow> pydict \<Rightarrow> pydict" where
  "sealed L k d = d @ [(k, PStr (json_sha L (PDict d)))]"

definition issue_control_receipt ::
  "pylib \<Rightarrow> pystd \<Rightarrow> controller \<Rightarrow> pyval \<Rightarrow> string \<Rightarrow> pyval list \<Rightarrow> string \<Rightarrow> moment \<Rightarrow> pyval \<Rightarrow> controller \<times> (policy_exc + pydict)" where
  "issue_control_receipt L T c user_id operation item_ids confirmation_text now ttl = state_step
     (bindE (canonical_id bad_consent_id user_id ''user_id'') (\<lambda>user.
      bindE (consent_now now) (\<lambda>current.
      bindE (guardE (operation \<in> set CONTROL_OPERATIONS) (ConsentError ''MEMORY_CONTROL_OPERATION_UNKNOWN'' operation)) (\<lambda>_.
      bindE (item_set item_ids) (\<lambda>items.
      bindE (guardE (items \<noteq> []) (ConsentError ''MEMORY_CONTROL_ITEMS_REQUIRED'' operation)) (\<lambda>_.
      bindE (control_ttl T ttl) (\<lambda>seconds.
      bindE (guardE (confirmation_text = confirmation_for operation items)
               (ConsentError ''MEMORY_CONTROL_CONFIRMATION_MISMATCH'' (confirmation_for operation items))) (\<lambda>_.
      bindE (add_seconds current seconds) (\<lambda>expires.
      let n = mc_sequence c + 1;
          receipt = sealed L ''receipt_sha256'' (control_items L T n user operation items confirmation_text current expires) in
      Inr (consent_event L T user ''CONTROL_RECEIPT_ISSUED'' current
             [(''receipt_id'', PStr (''memory-receipt:'' @ show_nat n)), (''operation'', PStr operation),
              (''item_count'', PInt (int (length items)))] c, receipt)))))))))) c"

text \<open>\<open>datetime.fromisoformat(str(v)...) <= current\<close>.\<close>

definition receipt_expired :: "pystd \<Rightarrow> pyval \<Rightarrow> int \<Rightarrow> policy_exc + bool" where
  "receipt_expired T v current =
     (case from_iso T (case v of PStr s \<Rightarrow> s | _ \<Rightarrow> text_of T v) of
        BadTime \<Rightarrow> Inl (PolicyRaised PyValueError)
      | NaiveTime \<Rightarrow> Inl (PolicyRaised PyTypeError)
      | AwareTime t \<Rightarrow> Inr (t \<le> current))"

definition check_control_receipt ::
  "pylib \<Rightarrow> pystd \<Rightarrow> controller \<Rightarrow> pyval \<Rightarrow> pyval \<Rightarrow> string \<Rightarrow> pyval list \<Rightarrow> moment \<Rightarrow> policy_exc + string \<times> string \<times> string list \<times> int" where
  "check_control_receipt L T c receipt user_id operation item_ids now =
     (case receipt of
        PDict d \<Rightarrow>
          bindE (guardE (dget d ''schema_version'' = PStr MEMORY_CONTROL_RECEIPT_SCHEMA)
                   (ConsentError ''MEMORY_CONTROL_RECEIPT_SCHEMA_MISMATCH'' ''receipt'')) (\<lambda>_.
          bindE (canonical_id bad_consent_id user_id ''user_id'') (\<lambda>user.
          bindE (consent_now now) (\<lambda>current.
          bindE (item_set item_ids) (\<lambda>items.
          bindE (canonical_id bad_consent_id (dget d ''receipt_id'') ''receipt_id'') (\<lambda>rid.
          bindE (guardE (rid \<notin> mc_consumed c) (ConsentError ''MEMORY_CONTROL_RECEIPT_REPLAYED'' rid)) (\<lambda>_.
          bindE (consent_sha L (PDict (without ''receipt_sha256'' d))) (\<lambda>sha.
          bindE (guardE (dget d ''receipt_sha256'' = PStr sha) (ConsentError ''MEMORY_CONTROL_RECEIPT_TAMPERED'' rid)) (\<lambda>_.
          bindE (guardE (dget d ''user_id'' = PStr user \<and> dget d ''operation'' = PStr operation)
                   (ConsentError ''MEMORY_CONTROL_RECEIPT_BINDING_MISMATCH'' rid)) (\<lambda>_.
          bindE (guardE (dget d ''item_ids'' = PList (map PStr items)
                      \<and> dget d ''item_set_sha256'' = PStr (json_sha L (PList (map PStr items))))
                   (ConsentError ''MEMORY_CONTROL_RECEIPT_ITEM_MISMATCH'' rid)) (\<lambda>_.
          bindE (receipt_expired T (dget d ''expires_at'') current) (\<lambda>expired.
          bindE (guardE (\<not> expired) (ConsentError ''MEMORY_CONTROL_RECEIPT_EXPIRED'' rid)) (\<lambda>_.
          bindE (guardE (dget d ''one_time'' = PBool True) (ConsentError ''MEMORY_CONTROL_RECEIPT_NOT_ONE_TIME'' rid)) (\<lambda>_.
          Inr (rid, user, items, current))))))))))))))
      | _ \<Rightarrow> Inl (ConsentError ''MEMORY_CONTROL_RECEIPT_SCHEMA_MISMATCH'' ''receipt''))"

text \<open>The result names the receipt and the items.\<close>

definition consume_control_receipt ::
  "pylib \<Rightarrow> pystd \<Rightarrow> controller \<Rightarrow> pyval \<Rightarrow> pyval \<Rightarrow> string \<Rightarrow> pyval list \<Rightarrow> moment \<Rightarrow> controller \<times> (policy_exc + string \<times> string list)" where
  "consume_control_receipt L T c receipt user_id operation item_ids now = state_step
     (bindE (check_control_receipt L T c receipt user_id operation item_ids now) (\<lambda>(rid, user, items, current).
      Inr (consent_event L T user ''CONTROL_RECEIPT_CONSUMED'' current
             [(''receipt_id'', PStr rid), (''operation'', PStr operation), (''item_count'', PInt (int (length items)))]
             (c\<lparr>mc_consumed := insert rid (mc_consumed c)\<rparr>), (rid, items)))) c"

text \<open>The receipt is consumed before the records are hashed.\<close>

definition export_user_records ::
  "pylib \<Rightarrow> pystd \<Rightarrow> controller \<Rightarrow> pydict list \<Rightarrow> pyval \<Rightarrow> pyval \<Rightarrow> moment \<Rightarrow> controller \<times> (policy_exc + pydict)" where
  "export_user_records L T c records user_id receipt now =
     (case canonical_id bad_consent_id user_id ''user_id'' of
        Inl e \<Rightarrow> (c, Inl e)
      | Inr user \<Rightarrow>
          let mine = filter (\<lambda>d. dget d ''user_id'' = PStr user) records;
              item_ids = map (\<lambda>d. case dget d ''item_id'' of PStr s \<Rightarrow> PStr s | v \<Rightarrow> PStr (text_of T v)) mine in
          (case consume_control_receipt L T c receipt (PStr user) ''EXPORT'' item_ids now of
             (c', Inl e) \<Rightarrow> (c', Inl e)
           | (c', Inr _) \<Rightarrow>
               let payload = [(''schema_version'', PStr MEMORY_EXPORT_SCHEMA), (''user_id'', PStr user),
                     (''records'', PList (map PDict mine))] in
               (c', bindE (consent_sha L (PDict payload)) (\<lambda>sha. Inr (payload @ [(''export_sha256'', PStr sha)])))))"

definition consent_audit :: "controller \<Rightarrow> pyval \<Rightarrow> policy_exc + pydict list" where
  "consent_audit c user_id =
     (if user_id = PNone then Inr (mc_events c)
      else bindE (canonical_id bad_consent_id user_id ''user_id'') (\<lambda>user.
        Inr (filter (\<lambda>e. dget e ''user_id'' = PStr user) (mc_events c))))"

section \<open>Snapshots\<close>

definition snapshot_items :: "controller \<Rightarrow> pydict" where
  "snapshot_items c = [(''schema_version'', PStr MEMORY_CONTROLLER_SNAPSHOT_SCHEMA),
     (''states'', PDict (map (\<lambda>(u, d). (u, PDict d)) (mc_states c))), (''events'', PList (map PDict (mc_events c))),
     (''consumed_receipts'', PList (map PStr (sorted_list_of_set (mc_consumed c)))), (''sequence'', PInt (int (mc_sequence c)))]"

definition controller_snapshot :: "pylib \<Rightarrow> controller \<Rightarrow> policy_exc + pyval" where
  "controller_snapshot L c = bindE (consent_sha L (PDict (snapshot_items c))) (\<lambda>sha.
     Inr (PDict (snapshot_items c @ [(''snapshot_sha256'', PStr sha)])))"

definition restore_state :: "string \<times> pyval \<Rightarrow> policy_exc + string \<times> pydict" where
  "restore_state kv = (case kv of (raw_user, raw_state) \<Rightarrow>
     bindE (canonical_id bad_consent_id (PStr raw_user) ''state.user_id'') (\<lambda>user.
     let bad = ConsentError ''MEMORY_CONTROLLER_SNAPSHOT_STATE_INVALID'' user in
     case raw_state of
       PDict d \<Rightarrow>
         (if dget d ''user_id'' \<noteq> PStr user then Inl bad
          else case (dget d ''storage_allowed'', dget d ''allowed_layers'') of
            (PBool allowed, PList layers) \<Rightarrow>
              bindE (guardE (\<not> ((\<exists>v \<in> set layers. v \<notin> PStr ` set MEMORY_LAYERS) \<or> \<not> allowed \<and> layers \<noteq> [])) bad) (\<lambda>_. Inr (user, d))
          | _ \<Rightarrow> Inl bad)
     | _ \<Rightarrow> Inl bad))"

fun restore_events :: "pylib \<Rightarrow> pystd \<Rightarrow> int \<Rightarrow> pyval list \<Rightarrow> policy_exc + pydict list \<times> int" where
  "restore_events L T last_sequence [] = Inr ([], last_sequence)"
| "restore_events L T last_sequence (PDict e # es) =
     bindE (case dget e ''sequence'' of
              PInt n \<Rightarrow> if n \<le> last_sequence
                then Inl (ConsentError ''MEMORY_CONTROLLER_SNAPSHOT_EVENT_SEQUENCE_INVALID'' ''event'') else Inr n
            | _ \<Rightarrow> Inl (ConsentError ''MEMORY_CONTROLLER_SNAPSHOT_EVENT_SEQUENCE_INVALID'' ''event'')) (\<lambda>n.
     bindE (canonical_id bad_consent_id (dget e ''user_id'') ''event.user_id'') (\<lambda>_.
     bindE (consent_sha L (PDict (without ''event_sha256'' e))) (\<lambda>sha.
     bindE (guardE (dget e ''event_sha256'' = PStr sha)
              (ConsentError ''MEMORY_CONTROLLER_SNAPSHOT_EVENT_TAMPERED'' (text_of T (PInt n)))) (\<lambda>_.
     bindE (restore_events L T n es) (\<lambda>(rest, last). Inr (e # rest, last))))))"
| "restore_events L T last_sequence (_ # es) = Inl (ConsentError ''MEMORY_CONTROLLER_SNAPSHOT_EVENT_INVALID'' ''event'')"

definition from_snapshot :: "pylib \<Rightarrow> pystd \<Rightarrow> pyval \<Rightarrow> policy_exc + controller" where
  "from_snapshot L T v =
     (case v of
        PDict d \<Rightarrow>
          bindE (guardE (dget d ''schema_version'' = PStr MEMORY_CONTROLLER_SNAPSHOT_SCHEMA)
                   (ConsentError ''MEMORY_CONTROLLER_SNAPSHOT_SCHEMA_MISMATCH'' ''snapshot'')) (\<lambda>_.
          bindE (consent_sha L (PDict (without ''snapshot_sha256'' d))) (\<lambda>sha.
          bindE (guardE (dget d ''snapshot_sha256'' = PStr sha)
                   (ConsentError ''MEMORY_CONTROLLER_SNAPSHOT_TAMPERED'' ''snapshot'')) (\<lambda>_.
          case (dget d ''states'', dget d ''events'', dget d ''consumed_receipts'') of
            (PDict states, PList events, PList receipts) \<Rightarrow>
              (case dget d ''sequence'' of
                 PInt n \<Rightarrow>
                   bindE (guardE (0 \<le> n) (ConsentError ''MEMORY_CONTROLLER_SNAPSHOT_SEQUENCE_INVALID'' ''sequence'')) (\<lambda>_.
                   bindE (mapE restore_state states) (\<lambda>normalized.
                   bindE (restore_events L T 0 events) (\<lambda>(log, last_sequence).
                   bindE (guardE (last_sequence \<le> n)
                            (ConsentError ''MEMORY_CONTROLLER_SNAPSHOT_SEQUENCE_ROLLBACK'' ''sequence'')) (\<lambda>_.
                   bindE (mapE (\<lambda>x. canonical_id bad_consent_id x ''consumed_receipt'') receipts) (\<lambda>ids.
                   Inr \<lparr>mc_states = normalized, mc_events = log, mc_consumed = set ids, mc_sequence = nat n\<rparr>)))))
               | _ \<Rightarrow> Inl (ConsentError ''MEMORY_CONTROLLER_SNAPSHOT_SEQUENCE_INVALID'' ''sequence''))
          | _ \<Rightarrow> Inl (ConsentError ''MEMORY_CONTROLLER_SNAPSHOT_SHAPE_INVALID'' ''snapshot''))))
      | _ \<Rightarrow> Inl (ConsentError ''MEMORY_CONTROLLER_SNAPSHOT_SCHEMA_MISMATCH'' ''snapshot''))"

end
