(* ===== verification/MemoryClaims.thy ===== *)
theory MemoryClaims
  imports MemoryConsent AuthClaims
begin

text \<open>
  What the memory consent controller guarantees: a write is allowed exactly by the last accepted
  consent of its user, a control receipt works once, and a snapshot restores its controller.
\<close>

section \<open>Inversions\<close>

lemma consent_sha_Inr [err_simps]: "consent_sha L v = Inr s \<longleftrightarrow> json_ok v \<and> s = json_sha L v"
  by (auto simp: consent_sha_def)

lemma set_sorted_set [simp]: "set (sorted_set xs) = set xs"
  by (simp add: sorted_set_def)

lemma sorted_set_nil [simp]: "sorted_set xs = [] \<longleftrightarrow> xs = []"
  using set_sorted_set [of xs] by (cases "sorted_set xs"; cases xs) auto

lemma sorted_set_eq: "set xs = set ys \<Longrightarrow> sorted_set xs = sorted_set ys"
  by (simp add: sorted_set_def sorted_list_of_set_sort_remdups [symmetric])

lemma mapE_ids: "mapE (\<lambda>v. canonical_id err v f) vs = Inr xs \<longleftrightarrow> vs = map PStr xs \<and> list_all id_pattern xs"
proof (induction vs arbitrary: xs)
  case (Cons v vs)
  show ?case by (cases xs) (simp_all add: bindE_Inr_iff canonical_id_Inr Cons.IH, blast)
qed auto

lemma item_set_Inr: "item_set vs = Inr items \<longleftrightarrow> (\<exists>xs. vs = map PStr xs \<and> list_all id_pattern xs \<and> items = sorted_set xs)"
  by (auto simp: item_set_def bindE_Inr_iff mapE_ids)

lemma consent_event_fields [simp]:
  "mc_states (consent_event L T u ty t d c) = mc_states c" "mc_consumed (consent_event L T u ty t d c) = mc_consumed c"
  "mc_sequence (consent_event L T u ty t d c) = mc_sequence c + 1"
  by (simp_all add: consent_event_def Let_def)

section \<open>Consent\<close>

text \<open>One call of \<open>set_storage_consent\<close>, and what an accepted call asks for.\<close>

type_synonym consent_call = "pyval \<times> pyval \<times> string list \<times> pyval \<times> moment"

definition consent_calls :: "pylib \<Rightarrow> pystd \<Rightarrow> consent_call list \<Rightarrow> controller \<Rightarrow> controller" where
  "consent_calls L T calls c =
     foldl (\<lambda>c (user, allowed, layers, confirmed, now). fst (set_storage_consent L T c user allowed layers confirmed now)) c calls"

definition asked :: "consent_call \<Rightarrow> (string \<times> bool \<times> string set) option" where
  "asked call = (case call of
     (PStr u, PBool allowed, layers, PBool True, Moment t) \<Rightarrow>
       if id_pattern u \<and> MIN_TIME \<le> t \<and> t \<le> MAX_TIME \<and> set layers \<subseteq> set MEMORY_LAYERS \<and> (allowed \<longrightarrow> layers \<noteq> [])
       then Some (u, allowed, if allowed then set layers else {}) else None
   | _ \<Rightarrow> None)"

text \<open>The layers that the last accepted call of a user allows.\<close>

definition allowed_layers :: "consent_call list \<Rightarrow> string \<Rightarrow> string set" where
  "allowed_layers calls u = foldl (\<lambda>S call. case asked call of Some (v, allowed, layers) \<Rightarrow> if v = u then layers else S | None \<Rightarrow> S) {} calls"

definition layers_of :: "controller \<Rightarrow> string \<Rightarrow> string set" where
  "layers_of c u = (let d = state_of c u in
     if dget d ''storage_allowed'' = PBool True
     then (case dget d ''allowed_layers'' of PList vs \<Rightarrow> {s. PStr s \<in> set vs} | _ \<Rightarrow> {}) else {})"

lemma consent_request_Inr: "consent_request user allowed ls confirmed now = Inr (u, b, layers, t) \<longleftrightarrow>
    user = PStr u \<and> id_pattern u \<and> allowed = PBool b \<and> confirmed = PBool True \<and> now = Moment t \<and> MIN_TIME \<le> t \<and> t \<le> MAX_TIME
    \<and> set ls \<subseteq> set MEMORY_LAYERS \<and> (b \<longrightarrow> ls \<noteq> []) \<and> layers = (if b then sorted_set ls else [])"
proof -
  have "(case allowed of PBool c \<Rightarrow> if confirmed = PBool True then Inr c else Inl e | _ \<Rightarrow> Inl e) = Inr b
      \<longleftrightarrow> allowed = PBool b \<and> confirmed = PBool True" for e :: policy_exc and b
    by (cases allowed) auto
  then show ?thesis
    by (auto simp: consent_request_def bindE_Inr_iff guardE_Inr_iff canonical_id_Inr consent_now_def utc_now_Inr Let_def)
qed

lemma asked_Some: "asked (user, allowed, ls, confirmed, now) = Some (u, b, S) \<longleftrightarrow>
    (\<exists>t. user = PStr u \<and> id_pattern u \<and> allowed = PBool b \<and> confirmed = PBool True \<and> now = Moment t \<and> MIN_TIME \<le> t \<and> t \<le> MAX_TIME
    \<and> set ls \<subseteq> set MEMORY_LAYERS \<and> (b \<longrightarrow> ls \<noteq> []) \<and> S = (if b then set ls else {}))"
  unfolding asked_def prod.case
  by (auto split: pyval.split_asm bool.split_asm moment.split_asm if_split_asm)

lemma consent_request_asked:
  "(\<exists>t layers. consent_request user allowed ls confirmed now = Inr (u, b, layers, t) \<and> set layers = S)
     \<longleftrightarrow> asked (user, allowed, ls, confirmed, now) = Some (u, b, S)"
  unfolding consent_request_Inr asked_Some by auto

lemma layers_update:
  "layers_of (c\<lparr>mc_states := AList.update u (consent_dict u b layers g v) s\<rparr>) w =
     (if w = u then (if b then set layers else {}) else layers_of (c\<lparr>mc_states := s\<rparr>) w)"
  by (auto simp: layers_of_def state_of_def consent_dict_def Let_def update_conv)

lemma layers_event [simp]: "layers_of (consent_event L T u ty t d c) w = layers_of c w"
  by (simp add: layers_of_def state_of_def)

lemma layers_call:
  "layers_of (fst (set_storage_consent L T c user allowed ls confirmed now)) w =
     (case asked (user, allowed, ls, confirmed, now) of Some (v, b, S) \<Rightarrow> if v = w then S else layers_of c w | None \<Rightarrow> layers_of c w)"
proof (cases "consent_request user allowed ls confirmed now")
  case (Inl e)
  then have "asked (user, allowed, ls, confirmed, now) = None"
    using consent_request_asked [of user allowed ls confirmed now] by (cases "asked (user, allowed, ls, confirmed, now)") auto
  then show ?thesis using Inl by (simp add: set_storage_consent_def state_step_def)
next
  case (Inr x)
  obtain u b layers t where x: "x = (u, b, layers, t)" by (cases x)
  have a: "asked (user, allowed, ls, confirmed, now) = Some (u, b, set layers)"
    using consent_request_asked [of user allowed ls confirmed now u b "set layers"] Inr x by auto
  moreover have "\<not> b \<Longrightarrow> layers = []" using Inr x by (simp add: consent_request_Inr)
  ultimately show ?thesis using Inr x by (auto simp: set_storage_consent_def state_step_def Let_def layers_update)
qed

lemma layers_calls: "layers_of (consent_calls L T calls c) u =
    foldl (\<lambda>S call. case asked call of Some (v, b, layers) \<Rightarrow> if v = u then layers else S | None \<Rightarrow> S) (layers_of c u) calls"
proof (induction calls arbitrary: c)
  case Nil
  then show ?case by (simp add: consent_calls_def)
next
  case (Cons call calls)
  obtain user allowed ls confirmed now where call: "call = (user, allowed, ls, confirmed, now)" by (cases call)
  have "consent_calls L T (call # calls) c
      = consent_calls L T calls (fst (set_storage_consent L T c user allowed ls confirmed now))"
    by (simp add: consent_calls_def call)
  then show ?case using Cons.IH by (simp add: layers_call call)
qed

lemma can_save_layers: "id_pattern u \<Longrightarrow> layer \<in> set MEMORY_LAYERS \<Longrightarrow>
    can_save c (PStr u) layer = Inr (layer \<in> layers_of c u, if layer \<in> layers_of c u then ''explicit_consent'' else ''consent_absent_or_scope_denied'')"
  by (auto simp: can_save_def layers_of_def Let_def split: pyval.splits)

text \<open>C19. A write is allowed exactly by the last accepted consent. After any list of calls of
  \<open>set_storage_consent\<close> on a new controller, refused ones among them, \<open>can_save\<close> allows a layer to a user
  if and only if it is a known layer and the last accepted call for this user (explicitly
  confirmed, with a valid id and time and only known layers) grants it; a revocation, or no call
  at all, denies every layer.\<close>

theorem consent_exact:
  assumes "id_pattern u"
  shows "(\<exists>reason. can_save (consent_calls L T calls new_controller) (PStr u) layer = Inr (True, reason))
     \<longleftrightarrow> layer \<in> set MEMORY_LAYERS \<and> layer \<in> allowed_layers calls u"
proof (cases "layer \<in> set MEMORY_LAYERS")
  case True
  have "layers_of new_controller u = {}"
    by (simp add: layers_of_def state_of_def new_controller_def consent_dict_def)
  then show ?thesis using can_save_layers [OF assms True] True by (simp add: layers_calls allowed_layers_def)
next
  case False
  then show ?thesis using assms by (simp add: can_save_def)
qed

section \<open>One operation\<close>

inductive controller_call :: "pylib \<Rightarrow> pystd \<Rightarrow> controller \<Rightarrow> controller \<Rightarrow> bool" for L T where
  Consent: "set_storage_consent L T c user allowed layers confirmed now = (c', x) \<Longrightarrow> controller_call L T c c'"
| Issue: "issue_control_receipt L T c user operation ids text now ttl = (c', y) \<Longrightarrow> controller_call L T c c'"
| Consume: "consume_control_receipt L T c receipt user operation ids now = (c', z) \<Longrightarrow> controller_call L T c c'"
| Export: "export_user_records L T c records user receipt now = (c', w) \<Longrightarrow> controller_call L T c c'"

text \<open>What a call does to the controller.\<close>

inductive controller_change :: "pylib \<Rightarrow> pystd \<Rightarrow> controller \<Rightarrow> controller \<Rightarrow> bool" for L T where
  Same: "controller_change L T c c"
| Event: "id_pattern u \<Longrightarrow> json_ok (PDict d) \<Longrightarrow> controller_change L T c (consent_event L T u ty t d c)"
| State: "id_pattern u \<Longrightarrow> json_ok (PDict d) \<Longrightarrow> set layers \<subseteq> set MEMORY_LAYERS \<Longrightarrow> \<not> b \<longrightarrow> layers = [] \<Longrightarrow>
    json_ok g \<or> g = dget (state_of c u) ''granted_at'' \<Longrightarrow> json_ok v \<Longrightarrow>
    controller_change L T c (consent_event L T u ty t d (c\<lparr>mc_states := AList.update u (consent_dict u b layers g v) (mc_states c)\<rparr>))"
| Used: "id_pattern u \<Longrightarrow> id_pattern x \<Longrightarrow> json_ok (PDict d) \<Longrightarrow>
    controller_change L T c (consent_event L T u ty t d (c\<lparr>mc_consumed := insert x (mc_consumed c)\<rparr>))"

lemma consent_change: "set_storage_consent L T c user allowed layers confirmed now = (c', x) \<Longrightarrow> controller_change L T c c'"
proof (cases "consent_request user allowed layers confirmed now")
  case (Inl e)
  then show "set_storage_consent L T c user allowed layers confirmed now = (c', x) \<Longrightarrow> controller_change L T c c'"
    by (auto simp: set_storage_consent_def state_step_def intro: Same)
next
  case (Inr y)
  obtain u b ls t where y: "y = (u, b, ls, t)" by (cases y)
  have p: "id_pattern u" "set ls \<subseteq> set MEMORY_LAYERS" "\<not> b \<longrightarrow> ls = []"
    using Inr y by (auto simp: consent_request_Inr)
  have j: "json_ok (PDict [(''allowed_layers'', PList (map PStr ls))])" by (simp add: list_all_iff)
  assume "set_storage_consent L T c user allowed layers confirmed now = (c', x)"
  then show "controller_change L T c c'"
    using Inr y by (auto simp: set_storage_consent_def state_step_def Let_def intro!: State p j)
qed

lemma issue_Inr: "issue_control_receipt L T c user operation ids text now ttl = (c', Inr y) \<longleftrightarrow>
    (\<exists>u t items seconds. canonical_id bad_consent_id user ''user_id'' = Inr u \<and> consent_now now = Inr t
       \<and> operation \<in> set CONTROL_OPERATIONS \<and> item_set ids = Inr items \<and> items \<noteq> [] \<and> control_ttl T ttl = Inr seconds
       \<and> text = confirmation_for operation items \<and> MIN_TIME \<le> t + seconds * second \<and> t + seconds * second \<le> MAX_TIME
       \<and> y = sealed L ''receipt_sha256'' (control_items L T (mc_sequence c + 1) u operation items text t (t + seconds * second))
       \<and> c' = consent_event L T u ''CONTROL_RECEIPT_ISSUED'' t
             [(''receipt_id'', PStr (''memory-receipt:'' @ show_nat (mc_sequence c + 1))), (''operation'', PStr operation),
              (''item_count'', PInt (int (length items)))] c)"
  unfolding issue_control_receipt_def state_step_Inr bindE_Inr_iff guardE_Inr_iff add_seconds_Inr Let_def by auto

lemma step_Inl: "state_step m c = (c', Inl e) \<Longrightarrow> c' = c"
  by (auto simp: state_step_def split: sum.splits)

lemma issue_Inl: "issue_control_receipt L T c user operation ids text now ttl = (c', Inl e) \<Longrightarrow> c' = c"
  unfolding issue_control_receipt_def by (rule step_Inl)

lemma issue_change: "issue_control_receipt L T c user operation ids text now ttl = (c', y) \<Longrightarrow> controller_change L T c c'"
  by (cases y) (auto simp: issue_Inr canonical_id_Inr intro!: Event intro: Same dest: issue_Inl)

lemma consume_Inr: "consume_control_receipt L T c receipt user operation ids now = (c', Inr z) \<longleftrightarrow>
    (\<exists>rid u items t. check_control_receipt L T c receipt user operation ids now = Inr (rid, u, items, t) \<and> z = (rid, items)
       \<and> c' = consent_event L T u ''CONTROL_RECEIPT_CONSUMED'' t
            [(''receipt_id'', PStr rid), (''operation'', PStr operation), (''item_count'', PInt (int (length items)))]
            (c\<lparr>mc_consumed := insert rid (mc_consumed c)\<rparr>))"
  by (auto simp: consume_control_receipt_def state_step_Inr bindE_Inr_iff)

lemma consume_Inl: "consume_control_receipt L T c receipt user operation ids now = (c', Inl e) \<Longrightarrow> c' = c"
  by (auto simp: consume_control_receipt_def state_step_def split: sum.splits)

lemma checked: "check_control_receipt L T c receipt user operation ids now = Inr (rid, u, items, t) \<Longrightarrow>
    id_pattern rid \<and> id_pattern u \<and> rid \<notin> mc_consumed c \<and> (\<exists>d. receipt = PDict d \<and> dget d ''receipt_id'' = PStr rid)"
  by (cases receipt) (auto simp: check_control_receipt_def bindE_Inr_iff guardE_Inr_iff canonical_id_Inr)

lemma consume_change: "consume_control_receipt L T c receipt user operation ids now = (c', z) \<Longrightarrow> controller_change L T c c'"
  by (cases z) (auto dest: consume_Inl checked simp: consume_Inr intro: Same intro!: Used)

lemma export_change: "export_user_records L T c records user receipt now = (c', w) \<Longrightarrow> controller_change L T c c'"
  by (auto simp: export_user_records_def Let_def intro: Same consume_change split: sum.splits prod.splits)

lemma controller_call_change: "controller_call L T c c' \<Longrightarrow> controller_change L T c c'"
  by (erule controller_call.cases) (blast intro: consent_change issue_change consume_change export_change)+

section \<open>Receipts\<close>

lemma consumed_grows: "controller_call L T c c' \<Longrightarrow> mc_consumed c \<subseteq> mc_consumed c'"
  by (drule controller_call_change, erule controller_change.cases) auto

interpretation consumed: step_invariant "controller_call L T" "\<lambda>c. x \<in> mc_consumed c" for L T x
  by unfold_locales (use consumed_grows in blast)

lemma memory_receipt_id: "id_pattern (''memory-receipt:'' @ show_nat n) \<longleftrightarrow> length (show_nat n) \<le> 113"
proof -
  have "list_all is_id_char (show_nat n)"
    using show_nat_digits by (rule list.pred_mono_strong) (simp add: is_id_char_def is_alnum_def)
  then show ?thesis by (auto simp: is_id_char_def is_alnum_def less_eq_char_def)
qed

lemma control_items_fields:
  "without ''receipt_sha256'' (sealed L ''receipt_sha256'' (control_items L T n u op items text t e)) = control_items L T n u op items text t e"
  "json_ok (PDict (control_items L T n u op items text t e))"
  by (simp_all add: without_def sealed_def control_items_def list_all_iff)

text \<open>C18. A control receipt works once. A receipt that was issued for a set of items, presented to any
  controller that has not consumed its id, by the same user, for the same operation and the same
  items in any order, before it expires, is accepted; and from then on, whatever calls come in
  between, every receipt with this id is refused without a change. The hypothesis on the length
  is that the number of the receipt leaves its id an identifier.\<close>

theorem control_receipt_once:
  assumes "clock_ok T"
    and "issue_control_receipt L T c (PStr u) operation ids text (Moment t) (PInt seconds) = (c1, Inr r)"
    and "dget r ''receipt_id'' = PStr x" and "x \<notin> mc_consumed c2" and "length (show_nat (mc_sequence c + 1)) \<le> 113"
    and "set ids' = set ids" and "MIN_TIME \<le> now" and "now \<le> MAX_TIME" and "now < t + seconds * second"
  shows "\<exists>c3 items. consume_control_receipt L T c2 (PDict r) (PStr u) operation ids' (Moment now) = (c3, Inr (x, items))
    \<and> set (map PStr items) = set ids
    \<and> (\<forall>c4 d user op js m. (controller_call L T)\<^sup>*\<^sup>* c3 c4 \<and> dget d ''receipt_id'' = PStr x \<longrightarrow>
         (\<exists>e. consume_control_receipt L T c4 (PDict d) user op js m = (c4, Inl e)))"
proof -
  obtain items where i: "id_pattern u" "item_set ids = Inr items" "MIN_TIME \<le> t + seconds * second" "t + seconds * second \<le> MAX_TIME"
    "r = sealed L ''receipt_sha256'' (control_items L T (mc_sequence c + 1) u operation items text t (t + seconds * second))"
    using assms(2) by (auto simp: issue_Inr canonical_id_Inr consent_now_def utc_now_Inr control_ttl_def split: if_splits)
  obtain xs where xs: "ids = map PStr xs" "list_all id_pattern xs" "items = sorted_set xs"
    using i(2) by (auto simp: item_set_Inr)
  have "\<exists>ys. ids' = map PStr ys"
    using assms(6) xs(1) by (intro ex_map_conv [THEN iffD2]) auto
  then obtain ys where ys: "ids' = map PStr ys" by blast
  then have "set ys = set xs" using assms(6) xs(1) by (auto simp: inj_image_eq_iff inj_def)
  then have j: "item_set ids' = Inr items"
    using ys xs sorted_set_eq [of ys xs] by (auto simp: item_set_Inr list_all_iff)
  have x1: "x = ''memory-receipt:'' @ show_nat (mc_sequence c + 1)" using assms(3) by (simp add: i(5) sealed_def control_items_def)
  have x: "id_pattern x" unfolding x1 by (rule memory_receipt_id [THEN iffD2, OF assms(5)])
  have e: "receipt_expired T (PStr (zulu T (t + seconds * second))) now = Inr False"
    using assms(1,9) i(3,4) by (simp add: receipt_expired_def clock_ok_def)
  have n: "consent_now (Moment now) = Inr now" using assms(7,8) by (simp add: consent_now_def utc_now_def in_years_def)
  have "check_control_receipt L T c2 (PDict r) (PStr u) operation ids' (Moment now) = Inr (x, u, items, now)"
    using assms(3,4,7,8) i(1) j x e control_items_fields
    using n unfolding check_control_receipt_def i(5)
    by (simp add: consent_sha_def) (simp add: sealed_def control_items_def)
  then obtain c3 where c3: "consume_control_receipt L T c2 (PDict r) (PStr u) operation ids' (Moment now) = (c3, Inr (x, items))"
    "x \<in> mc_consumed c3"
    by (auto simp: consume_Inr)
  have "\<exists>e. consume_control_receipt L T c4 (PDict d) user op js m = (c4, Inl e)"
    if "(controller_call L T)\<^sup>*\<^sup>* c3 c4" "dget d ''receipt_id'' = PStr x" for c4 d user op js m
  proof -
    obtain c5 z where z: "consume_control_receipt L T c4 (PDict d) user op js m = (c5, z)" by fastforce
    show ?thesis
    proof (cases z)
      case (Inl e)
      then show ?thesis using consume_Inl z by blast
    next
      case (Inr y)
      then show ?thesis using z checked consumed.reached [OF that(1) c3(2)] that(2) by (fastforce simp: consume_Inr)
    qed
  qed
  then show ?thesis using c3(1) xs by (intro exI [of _ c3] exI [of _ items]) auto
qed

section \<open>Snapshots\<close>

definition controller_ok :: "pylib \<Rightarrow> pystd \<Rightarrow> controller \<Rightarrow> bool" where
  "controller_ok L T c =
     ((\<forall>(u, d) \<in> set (mc_states c). restore_state (u, PDict d) = Inr (u, d) \<and> json_ok (PDict d))
      \<and> (\<exists>n. restore_events L T 0 (map PDict (mc_events c)) = Inr (mc_events c, n) \<and> n \<le> int (mc_sequence c))
      \<and> (\<forall>e \<in> set (mc_events c). json_ok (PDict e)) \<and> finite (mc_consumed c) \<and> (\<forall>x \<in> mc_consumed c. id_pattern x))"

lemma restore_state_Inr: "restore_state kv = Inr (u, d) \<longleftrightarrow>
    kv = (u, PDict d) \<and> id_pattern u \<and> dget d ''user_id'' = PStr u
    \<and> (\<exists>b vs. dget d ''storage_allowed'' = PBool b \<and> dget d ''allowed_layers'' = PList vs
         \<and> set vs \<subseteq> PStr ` set MEMORY_LAYERS \<and> (b \<or> vs = []))" (is "_ = ?R")
proof
  assume r: "restore_state kv = Inr (u, d)"
  obtain w e where kv: "kv = (w, PDict e)"
    using r by (cases kv; cases "snd kv") (auto simp: restore_state_def bindE_Inr_iff Let_def)
  obtain b vs where "dget e ''storage_allowed'' = PBool b" "dget e ''allowed_layers'' = PList vs"
    using r kv by (cases "dget e ''storage_allowed''"; cases "dget e ''allowed_layers''"; simp add: restore_state_def bindE_Inr_iff Let_def split: if_split_asm)
  then show ?R using r kv
    by (auto simp: restore_state_def bindE_Inr_iff guardE_Inr_iff canonical_id_Inr Let_def split: if_split_asm)
next
  assume ?R
  then show "restore_state kv = Inr (u, d)"
    by (auto simp: restore_state_def bindE_Inr_iff guardE_Inr_iff canonical_id_Inr Let_def)
qed

lemma restore_events_Cons: "restore_events L T l (v # es) = Inr (kept, n) \<longleftrightarrow>
    (\<exists>e m rest u. v = PDict e \<and> kept = e # rest \<and> dget e ''sequence'' = PInt m \<and> l < m \<and> dget e ''user_id'' = PStr u \<and> id_pattern u
       \<and> json_ok (PDict (without ''event_sha256'' e)) \<and> dget e ''event_sha256'' = PStr (json_sha L (PDict (without ''event_sha256'' e)))
       \<and> restore_events L T m es = Inr (rest, n))"
proof (cases "\<exists>e m. v = PDict e \<and> dget e ''sequence'' = PInt m")
  case True
  then obtain e m where "v = PDict e" "dget e ''sequence'' = PInt m" by blast
  then show ?thesis by (cases "m \<le> l") (auto simp: bindE_Inr_iff guardE_Inr_iff canonical_id_Inr consent_sha_Inr)
next
  case False
  then have "\<exists>x. restore_events L T l (v # es) = Inl x"
    by (cases v; cases "dget (case v of PDict e \<Rightarrow> e | _ \<Rightarrow> []) ''sequence''") auto
  then show ?thesis using False by fastforce
qed

lemma restore_events_Inr: "restore_events L T l es = Inr (kept, n) \<Longrightarrow> es = map PDict kept \<and> l \<le> n"
proof (induction es arbitrary: l kept)
  case (Cons v es)
  then show ?case unfolding restore_events_Cons by fastforce
qed simp

lemma restore_events_snoc:
  "restore_events L T l es = Inr (kept, n) \<Longrightarrow> restore_events L T n [PDict e] = Inr ([e], m) \<Longrightarrow>
     restore_events L T l (es @ [PDict e]) = Inr (kept @ [e], m)"
proof (induction es arbitrary: l kept)
  case (Cons v es)
  then show ?case unfolding append_Cons restore_events_Cons by fastforce
qed simp

lemma without_dget: "k \<noteq> j \<Longrightarrow> dget (without j d) k = dget d k"
  by (induction d) (auto simp: without_def)

lemma json_ok_without: "json_ok (PDict (without j d)) \<Longrightarrow> k \<noteq> j \<Longrightarrow> json_ok (dget d k)"
  using json_ok_dget [of "without j d" k] by (simp add: without_dget)

lemma mapE_states: "mapE restore_state kvs = Inr xs \<longleftrightarrow>
    kvs = map (\<lambda>(u, d). (u, PDict d)) xs \<and> (\<forall>(u, d) \<in> set xs. restore_state (u, PDict d) = Inr (u, d))"
proof (induction kvs arbitrary: xs)
  case (Cons kv kvs)
  have "restore_state kv = Inr x \<longleftrightarrow> kv = (fst x, PDict (snd x)) \<and> restore_state (fst x, PDict (snd x)) = Inr x" for x
    by (cases x) (auto simp: restore_state_Inr)
  then show ?case by (cases xs) (auto simp: bindE_Inr_iff Cons.IH)
qed auto

lemma from_snapshot_Inr: "from_snapshot L T v = Inr c \<longleftrightarrow>
    (\<exists>d ids n m. v = PDict d \<and> dget d ''schema_version'' = PStr MEMORY_CONTROLLER_SNAPSHOT_SCHEMA
       \<and> json_ok (PDict (without ''snapshot_sha256'' d))
       \<and> dget d ''snapshot_sha256'' = PStr (json_sha L (PDict (without ''snapshot_sha256'' d)))
       \<and> dget d ''states'' = PDict (map (\<lambda>(u, d). (u, PDict d)) (mc_states c))
       \<and> (\<forall>(u, d) \<in> set (mc_states c). restore_state (u, PDict d) = Inr (u, d))
       \<and> dget d ''events'' = PList (map PDict (mc_events c))
       \<and> restore_events L T 0 (map PDict (mc_events c)) = Inr (mc_events c, m) \<and> m \<le> n
       \<and> dget d ''consumed_receipts'' = PList (map PStr ids) \<and> list_all id_pattern ids \<and> mc_consumed c = set ids
       \<and> dget d ''sequence'' = PInt n \<and> 0 \<le> n \<and> mc_sequence c = nat n)" (is "_ = ?R")
proof
  assume f: "from_snapshot L T v = Inr c"
  obtain d where v: "v = PDict d" using f by (cases v) (simp_all add: from_snapshot_def)
  obtain states where s: "dget d ''states'' = PDict states"
    using f v by (cases "dget d ''states''") (auto simp: from_snapshot_def bindE_Inr_iff)
  obtain events where e: "dget d ''events'' = PList events"
    using f v s by (cases "dget d ''events''") (auto simp: from_snapshot_def bindE_Inr_iff)
  obtain receipts where r: "dget d ''consumed_receipts'' = PList receipts"
    using f v s e by (cases "dget d ''consumed_receipts''") (auto simp: from_snapshot_def bindE_Inr_iff)
  obtain n where n: "dget d ''sequence'' = PInt n"
    using f v s e r by (cases "dget d ''sequence''") (auto simp: from_snapshot_def bindE_Inr_iff)
  obtain normalized where a: "mapE restore_state states = Inr normalized"
    using f unfolding from_snapshot_def v pyval.case s e r n prod.case bindE_Inr_iff by blast
  obtain es m where b: "restore_events L T 0 events = Inr (es, m)"
    using f unfolding from_snapshot_def v pyval.case s e r n prod.case bindE_Inr_iff by fast
  obtain ids where p: "dget d ''schema_version'' = PStr MEMORY_CONTROLLER_SNAPSHOT_SCHEMA"
    "json_ok (PDict (without ''snapshot_sha256'' d))" "0 \<le> n" "m \<le> n"
    "dget d ''snapshot_sha256'' = PStr (json_sha L (PDict (without ''snapshot_sha256'' d)))"
    "mapE restore_state states = Inr normalized" "restore_events L T 0 events = Inr (es, m)"
    "mapE (\<lambda>x. canonical_id bad_consent_id x ''consumed_receipt'') receipts = Inr ids"
    "c = \<lparr>mc_states = normalized, mc_events = es, mc_consumed = set ids, mc_sequence = nat n\<rparr>"
    using f unfolding from_snapshot_def v pyval.case s e r n prod.case a b
    by (auto simp: bindE_Inr_iff guardE_Inr_iff consent_sha_Inr)
  have q: "states = map (\<lambda>(u, d). (u, PDict d)) normalized" "\<forall>(u, d) \<in> set normalized. restore_state (u, PDict d) = Inr (u, d)"
    "events = map PDict es" "receipts = map PStr ids" "list_all id_pattern ids"
    using a [unfolded mapE_states] p(8) restore_events_Inr [OF b] by (simp_all add: mapE_ids)
  show ?R
    by (rule exI [of _ d], rule exI [of _ ids], rule exI [of _ n], rule exI [of _ m], intro conjI)
      (use p q v s e r n in simp_all)
next
  assume ?R
  then obtain d ids n m where h: "v = PDict d" "dget d ''schema_version'' = PStr MEMORY_CONTROLLER_SNAPSHOT_SCHEMA"
    "json_ok (PDict (without ''snapshot_sha256'' d))"
    "dget d ''snapshot_sha256'' = PStr (json_sha L (PDict (without ''snapshot_sha256'' d)))"
    "dget d ''states'' = PDict (map (\<lambda>(u, d). (u, PDict d)) (mc_states c))"
    "\<forall>(u, d) \<in> set (mc_states c). restore_state (u, PDict d) = Inr (u, d)"
    "dget d ''events'' = PList (map PDict (mc_events c))"
    "restore_events L T 0 (map PDict (mc_events c)) = Inr (mc_events c, m)" "m \<le> n"
    "dget d ''consumed_receipts'' = PList (map PStr ids)" "list_all id_pattern ids" "mc_consumed c = set ids"
    "dget d ''sequence'' = PInt n" "0 \<le> n" "mc_sequence c = nat n"
    by blast
  have "mapE restore_state (map (\<lambda>(u, d). (u, PDict d)) (mc_states c)) = Inr (mc_states c)" using h(6) by (simp add: mapE_states)
  moreover have "mapE (\<lambda>x. canonical_id bad_consent_id x ''consumed_receipt'') (map PStr ids) = Inr ids"
    using h(11) by (simp add: mapE_ids)
  ultimately show "from_snapshot L T v = Inr c"
    using h unfolding from_snapshot_def h(1) pyval.case h(5,7,10,13) prod.case by (simp add: consent_sha_def)
qed

lemma restored_ok:
  assumes "from_snapshot L T v = Inr c"
  shows "controller_ok L T c"
proof -
  obtain d ids n m where h: "json_ok (PDict (without ''snapshot_sha256'' d))"
    "dget d ''states'' = PDict (map (\<lambda>(u, d). (u, PDict d)) (mc_states c))"
    "\<forall>(u, d) \<in> set (mc_states c). restore_state (u, PDict d) = Inr (u, d)"
    "dget d ''events'' = PList (map PDict (mc_events c))"
    "restore_events L T 0 (map PDict (mc_events c)) = Inr (mc_events c, m)" "m \<le> n"
    "list_all id_pattern ids" "mc_consumed c = set ids" "0 \<le> n" "mc_sequence c = nat n"
    using from_snapshot_Inr [THEN iffD1, OF assms] by (elim exE conjE) (rule that; assumption)
  have "json_ok (PDict (map (\<lambda>(u, d). (u, PDict d)) (mc_states c)))" "json_ok (PList (map PDict (mc_events c)))"
    using json_ok_without [OF h(1), of "''states''"] json_ok_without [OF h(1), of "''events''"] h(2,4) by simp_all
  then have "\<forall>(u, d) \<in> set (mc_states c). json_ok (PDict d)" "\<forall>e \<in> set (mc_events c). json_ok (PDict e)"
    by (fastforce simp: list_all_iff)+
  then show ?thesis using h by (auto simp: controller_ok_def list_all_iff)
qed

lemma state_json: "controller_ok L T c \<Longrightarrow> json_ok (PDict (state_of c u))"
  by (fastforce simp: controller_ok_def state_of_def consent_dict_def split: option.splits dest: map_of_SomeD)

lemma consent_event_logged:
  "\<exists>e. mc_events (consent_event L T u ty t d c) = mc_events c @ [e] \<and> dget e ''sequence'' = PInt (int (mc_sequence c + 1))
     \<and> dget e ''user_id'' = PStr u \<and> dget e ''event_sha256'' = PStr (json_sha L (PDict (without ''event_sha256'' e)))
     \<and> (json_ok (PDict d) \<longrightarrow> json_ok (PDict e) \<and> json_ok (PDict (without ''event_sha256'' e)))"
  by (simp add: consent_event_def Let_def without_def)

lemma event_ok:
  assumes "controller_ok L T c" and "id_pattern u" and "json_ok (PDict d)"
  shows "controller_ok L T (consent_event L T u ty t d c)"
proof -
  obtain n where n: "restore_events L T 0 (map PDict (mc_events c)) = Inr (mc_events c, n)" "n \<le> int (mc_sequence c)"
    using assms(1) by (auto simp: controller_ok_def)
  obtain e where e: "mc_events (consent_event L T u ty t d c) = mc_events c @ [e]"
    "dget e ''sequence'' = PInt (int (mc_sequence c + 1))" "dget e ''user_id'' = PStr u"
    "dget e ''event_sha256'' = PStr (json_sha L (PDict (without ''event_sha256'' e)))"
    "json_ok (PDict e)" "json_ok (PDict (without ''event_sha256'' e))"
    using consent_event_logged [of L T u ty t d c] assms(3) by blast
  have "restore_events L T n [PDict e] = Inr ([e], int (mc_sequence c + 1))"
    unfolding restore_events_Cons using e(2-6) assms(2) n(2) by auto
  from restore_events_snoc [OF n(1) this] show ?thesis
    using assms(1) e(1,5) by (auto simp: controller_ok_def)
qed

lemma update_subset: "set (AList.update k v kvs) \<subseteq> insert (k, v) (set kvs)"
  by (induction kvs) auto

lemma change_ok:
  assumes "controller_change L T c c'" and "controller_ok L T c"
  shows "controller_ok L T c'"
  using assms(1)
proof (cases rule: controller_change.cases)
  case Same
  then show ?thesis using assms(2) by simp
next
  case (Event u d ty t)
  then show ?thesis using event_ok [OF assms(2)] by simp
next
  case (State u d layers b g v ty t)
  let ?s = "consent_dict u b layers g v"
  have g: "json_ok g" using State(6) json_ok_dget [OF state_json [OF assms(2)]] by blast
  have "restore_state (u, PDict ?s) = Inr (u, ?s)" "json_ok (PDict ?s)"
    using State g by (auto simp: restore_state_Inr consent_dict_def list_all_iff)
  moreover have "set (AList.update u ?s (mc_states c)) \<subseteq> insert (u, ?s) (set (mc_states c))"
    by (rule update_subset)
  ultimately have "controller_ok L T (c\<lparr>mc_states := AList.update u ?s (mc_states c)\<rparr>)"
    using assms(2) by (auto simp: controller_ok_def)
  from event_ok [OF this State(2,3)] show ?thesis using State(1) by simp
next
  case (Used u x d ty t)
  have "controller_ok L T (c\<lparr>mc_consumed := insert x (mc_consumed c)\<rparr>)"
    using assms(2) Used by (auto simp: controller_ok_def)
  from event_ok [OF this Used(2,4)] show ?thesis using Used(1) by simp
qed

text \<open>A controller in use: calls, and restarts from any snapshot that is accepted.\<close>

inductive controller_life :: "pylib \<Rightarrow> pystd \<Rightarrow> controller \<Rightarrow> controller \<Rightarrow> bool" for L T where
  Call: "controller_call L T c c' \<Longrightarrow> controller_life L T c c'"
| Restore: "from_snapshot L T v = Inr c' \<Longrightarrow> controller_life L T c c'"

interpretation controller_run: step_invariant "controller_life L T" "controller_ok L T" for L T
  by unfold_locales (auto elim!: controller_life.cases intro: change_ok controller_call_change restored_ok)

lemma new_controller_ok: "controller_ok L T new_controller"
  by (simp add: controller_ok_def new_controller_def)

text \<open>C17. A snapshot restores its controller. At every moment of the life of a controller, through any
  calls and restarts from any accepted snapshots, taking a snapshot succeeds and restoring it
  gives back exactly this controller: its consents, its log, its consumed receipts and its
  counter.\<close>

theorem snapshot_roundtrip:
  assumes "(controller_life L T)\<^sup>*\<^sup>* new_controller c"
  shows "\<exists>v. controller_snapshot L c = Inr v \<and> from_snapshot L T v = Inr c"
proof -
  have ok: "controller_ok L T c" using controller_run.reached [OF assms new_controller_ok] .
  let ?d = "snapshot_items c @ [(''snapshot_sha256'', PStr (json_sha L (PDict (snapshot_items c))))]"
  have "list_all (\<lambda>kv. json_ok (snd kv)) (map (\<lambda>(u, d). (u, PDict d)) (mc_states c))"
    "list_all json_ok (map PDict (mc_events c))"
    using ok by (auto simp: controller_ok_def list_all_iff)
  then have j: "json_ok (PDict (snapshot_items c))" by (simp add: snapshot_items_def list_all_iff)
  have w: "without ''snapshot_sha256'' ?d = snapshot_items c" by (simp add: without_def snapshot_items_def)
  obtain n where n: "restore_events L T 0 (map PDict (mc_events c)) = Inr (mc_events c, n)" "n \<le> int (mc_sequence c)"
    using ok by (auto simp: controller_ok_def)
  have "from_snapshot L T (PDict ?d) = Inr c"
    unfolding from_snapshot_Inr
    by (rule exI [of _ ?d], rule exI [of _ "sorted_list_of_set (mc_consumed c)"], rule exI [of _ "int (mc_sequence c)"],
        rule exI [of _ n], intro conjI)
      (use j w n ok in \<open>auto simp: snapshot_items_def controller_ok_def list_all_iff\<close>)
  then show ?thesis using j by (simp add: controller_snapshot_def consent_sha_def)
qed

section \<open>A concrete run\<close>

lemma sample_moment: "consent_now (Moment 0) = Inr 0"
  by (simp add: consent_now_def utc_now_def in_years_def MIN_TIME_def MAX_TIME_def)

lemma sample_id: "id_pattern ''u1''" "id_pattern ''g1''"
  by code_simp+

theorem consent_exact_witness:
  "\<exists>reason. can_save (consent_calls plain_lib sample_std
     [(PStr ''u1'', PBool True, [''profile'', ''semantic''], PBool True, Moment 0),
      (PStr ''u1'', PBool True, [''profile''], PBool False, Moment 0)] new_controller) (PStr ''u1'') ''semantic'' = Inr (True, reason)"
proof -
  have "asked (PStr ''u1'', PBool True, [''profile'', ''semantic''], PBool True, Moment 0) = Some (''u1'', True, {''profile'', ''semantic''})"
    unfolding asked_Some using sample_id(1) by (simp add: MEMORY_LAYERS_def MIN_TIME_def MAX_TIME_def)
  moreover have "asked (PStr ''u1'', PBool True, [''profile''], PBool False, Moment 0) = None" by (simp add: asked_def)
  ultimately show ?thesis
    by (intro consent_exact [OF sample_id(1), THEN iffD2]) (simp add: allowed_layers_def MEMORY_LAYERS_def)
qed

definition sample_control_receipt :: pydict where
  "sample_control_receipt = sealed plain_lib ''receipt_sha256'' (control_items plain_lib sample_std 1 ''u1'' ''DELETE'' [''g1'']
     ''DELETE 1 MEMORY ITEMS'' 0 (60 * second))"

lemma sample_control_issued: "\<exists>c. issue_control_receipt plain_lib sample_std new_controller (PStr ''u1'') ''DELETE'' [PStr ''g1'']
    ''DELETE 1 MEMORY ITEMS'' (Moment 0) (PInt 60) = (c, Inr sample_control_receipt)"
proof -
  have "show_nat 1 = ''1''" by code_simp
  then have "''DELETE 1 MEMORY ITEMS'' = confirmation_for ''DELETE'' [''g1'']" by (simp add: confirmation_for_def)
  moreover have "item_set [PStr ''g1''] = Inr [''g1'']"
    unfolding item_set_Inr using sample_id(2) by (intro exI [of _ "[''g1'']"]) (simp add: sorted_set_def)
  ultimately show ?thesis
    unfolding issue_Inr
    using sample_id(1) sample_moment sample_times
    by (simp add: canonical_id_def CONTROL_OPERATIONS_def control_ttl_def sample_control_receipt_def new_controller_def MIN_TIME_def second_def MAX_TIME_def)
qed

theorem control_receipt_once_witness:
  "\<exists>c items. consume_control_receipt plain_lib sample_std new_controller (PDict sample_control_receipt) (PStr ''u1'') ''DELETE''
     [PStr ''g1'', PStr ''g1''] (Moment 0) = (c, Inr (''memory-receipt:1'', items))
   \<and> (\<exists>e. consume_control_receipt plain_lib sample_std c (PDict sample_control_receipt) (PStr ''u1'') ''DELETE'' [PStr ''g1''] (Moment 0)
        = (c, Inl e))"
proof -
  obtain c1 where c1: "issue_control_receipt plain_lib sample_std new_controller (PStr ''u1'') ''DELETE'' [PStr ''g1'']
    ''DELETE 1 MEMORY ITEMS'' (Moment 0) (PInt 60) = (c1, Inr sample_control_receipt)" using sample_control_issued by blast
  have s: "show_nat 1 = ''1''" by code_simp
  then have r: "dget sample_control_receipt ''receipt_id'' = PStr ''memory-receipt:1''"
    by (simp add: sample_control_receipt_def sealed_def control_items_def)
  have n: "''memory-receipt:1'' \<notin> mc_consumed new_controller" "length (show_nat (mc_sequence new_controller + 1)) \<le> 113"
    using s by (simp_all add: new_controller_def)
  have t: "MIN_TIME \<le> 0" "0 \<le> MAX_TIME" "0 < 0 + 60 * second" by (simp_all add: MIN_TIME_def MAX_TIME_def second_def)
  have "set [PStr ''g1'', PStr ''g1''] = set [PStr ''g1'']" by simp
  from control_receipt_once [OF sample_clock c1 r n this t]
  show ?thesis using r by (elim exE conjE) (rule exI, rule exI, rule conjI, assumption, blast)
qed

definition consenting :: controller where
  "consenting = fst (set_storage_consent plain_lib sample_std new_controller (PStr ''u1'') (PBool True) [''profile''] (PBool True) (Moment 0))"

theorem snapshot_roundtrip_witness:
  "mc_sequence consenting = 1 \<and> (\<exists>v. controller_snapshot plain_lib consenting = Inr v \<and> from_snapshot plain_lib sample_std v = Inr consenting)"
proof -
  have "controller_life plain_lib sample_std new_controller consenting"
    unfolding consenting_def by (intro controller_life.Call controller_call.Consent, rule prod.collapse [symmetric])
  then have r: "(controller_life plain_lib sample_std)\<^sup>*\<^sup>* new_controller consenting" by blast
  have "consent_request (PStr ''u1'') (PBool True) [''profile''] (PBool True) (Moment 0) = Inr (''u1'', True, sorted_set [''profile''], 0)"
    unfolding consent_request_Inr using sample_id(1) by (simp add: MEMORY_LAYERS_def MIN_TIME_def MAX_TIME_def)
  then have "mc_sequence consenting = 1" by (simp add: consenting_def set_storage_consent_def state_step_def Let_def new_controller_def)
  then show ?thesis using snapshot_roundtrip [OF r] by blast
qed

end
