(* ===== verification/Orchestrator.thy ===== *)
theory Orchestrator
  imports RiskPolicy
begin

text \<open>
  The autonomy loop (\<open>autonomy_orchestrator_v1.py\<close>): one pass from an observation to a reflection,
  with the handlers of the caller. A pass returns the invocations of the action adapter, which
  happened whatever comes after, beside its result or exception.
\<close>

section \<open>The input\<close>

definition AUTONOMY_INPUT_SCHEMA :: string where "AUTONOMY_INPUT_SCHEMA = ''lumina.autonomy.input.v1''"
definition AUTONOMY_TRACE_SCHEMA :: string where "AUTONOMY_TRACE_SCHEMA = ''lumina.autonomy.trace.v1''"
definition PERMISSION_SCHEMA :: string where "PERMISSION_SCHEMA = ''lumina.permission.decision.v1''"
definition STAGES :: "string list" where
  "STAGES = [''observe'', ''interpret'', ''goal'', ''plan'', ''act'', ''reflect'']"
definition LOOP_MODES :: "string list" where "LOOP_MODES = [''observe_only'', ''dry_run'', ''execute_local'']"

definition bad_loop_id :: "string \<Rightarrow> policy_exc" where
  "bad_loop_id field = LoopError ''AUTONOMY_ID_INVALID'' (field @ '' must be a canonical identifier'')"

definition loop_sha :: "pylib \<Rightarrow> pyval \<Rightarrow> policy_exc + string" where
  "loop_sha L v = (if json_ok v then Inr (json_sha L v)
     else Inl (LoopError ''AUTONOMY_NONCANONICAL_JSON'' ''payload must be finite canonical JSON''))"

definition loop_mapping :: "pyval \<Rightarrow> string \<Rightarrow> string \<Rightarrow> policy_exc + pydict" where
  "loop_mapping v code detail = (case v of PDict d \<Rightarrow> Inr d | _ \<Rightarrow> Inl (LoopError code detail))"

definition loop_time :: "pystd \<Rightarrow> pyval \<Rightarrow> policy_exc + string" where
  "loop_time T v =
     (case v of
        PStr s \<Rightarrow>
          if s = [] then Inl (LoopError ''AUTONOMY_TIMESTAMP_REQUIRED'' ''observed_at is required'')
          else (case from_iso T s of
             BadTime \<Rightarrow> Inl (LoopError ''AUTONOMY_TIMESTAMP_INVALID'' ''observed_at must be ISO-8601'')
           | NaiveTime \<Rightarrow> Inl (LoopError ''AUTONOMY_TIMESTAMP_TIMEZONE_REQUIRED'' ''observed_at must include a timezone'')
           | AwareTime t \<Rightarrow> bindE (in_years t) (\<lambda>u. Inr (zulu T u)))
      | _ \<Rightarrow> Inl (LoopError ''AUTONOMY_TIMESTAMP_REQUIRED'' ''observed_at is required''))"

record loop_input =
  li_loop :: string
  li_correlation :: string
  li_observed :: string
  li_world :: pydict
  li_relationship :: pydict
  li_mode :: string
  li_goal :: "string option"
  li_permission :: "pydict option"

definition loop_input_items :: "loop_input \<Rightarrow> pydict" where
  "loop_input_items s = [(''schema_version'', PStr AUTONOMY_INPUT_SCHEMA), (''loop_id'', PStr (li_loop s)),
     (''correlation_id'', PStr (li_correlation s)), (''observed_at'', PStr (li_observed s)), (''world_state'', PDict (li_world s)),
     (''relationship_state'', PDict (li_relationship s)), (''requested_mode'', PStr (li_mode s)),
     (''requested_goal'', opt_text_val (li_goal s)), (''permission_decision'', opt_dict_val (li_permission s))]"

definition LOOP_FIELDS :: "string list" where
  "LOOP_FIELDS = [''schema_version'', ''loop_id'', ''correlation_id'', ''observed_at'', ''world_state'', ''relationship_state'',
     ''requested_mode'', ''requested_goal'', ''permission_decision'']"

definition loop_mode :: "pyval \<Rightarrow> policy_exc + string" where
  "loop_mode v =
     (case v of
        PStr m \<Rightarrow> if m \<in> set LOOP_MODES then Inr m else Inl (LoopError ''AUTONOMY_MODE_UNKNOWN'' ''requested_mode is unsupported'')
      | _ \<Rightarrow> Inl (LoopError ''AUTONOMY_MODE_UNKNOWN'' ''requested_mode is unsupported''))"

definition loop_goal :: "pyval \<Rightarrow> policy_exc + string option" where
  "loop_goal v = (if v = PNone then Inr None else bindE (canonical_id bad_loop_id v ''requested_goal'') (\<lambda>g. Inr (Some g)))"

definition loop_permission :: "pyval \<Rightarrow> policy_exc + pydict option" where
  "loop_permission v =
     (if v = PNone then Inr None
      else bindE (loop_mapping v ''AUTONOMY_PERMISSION_INVALID'' ''permission_decision must be an object'') (\<lambda>p. Inr (Some p)))"

definition validate_autonomy_input :: "pystd \<Rightarrow> pyval \<Rightarrow> policy_exc + loop_input" where
  "validate_autonomy_input T v =
     bindE (loop_mapping v ''AUTONOMY_INPUT_OBJECT_REQUIRED'' ''loop input must be an object'') (\<lambda>d.
     bindE (guardE (unknown_fields LOOP_FIELDS d = [])
              (LoopError ''AUTONOMY_UNKNOWN_INPUT_FIELDS'' (join '','' (unknown_fields LOOP_FIELDS d)))) (\<lambda>_.
     bindE (guardE (dget d ''schema_version'' = PStr AUTONOMY_INPUT_SCHEMA)
              (LoopError ''AUTONOMY_INPUT_SCHEMA_MISMATCH'' ''unsupported schema_version'')) (\<lambda>_.
     bindE (canonical_id bad_loop_id (dget d ''loop_id'') ''loop_id'') (\<lambda>loop.
     bindE (canonical_id bad_loop_id (dget d ''correlation_id'') ''correlation_id'') (\<lambda>correlation.
     bindE (loop_time T (dget d ''observed_at'')) (\<lambda>observed.
     bindE (loop_mapping (dget d ''world_state'') ''AUTONOMY_WORLD_STATE_REQUIRED'' ''world_state must be an object'') (\<lambda>world.
     bindE (loop_mapping (if has_key d ''relationship_state'' then dget d ''relationship_state'' else PDict [])
              ''AUTONOMY_RELATIONSHIP_STATE_INVALID'' ''relationship_state must be an object'') (\<lambda>relationship.
     bindE (loop_mode (dget d ''requested_mode'')) (\<lambda>mode.
     bindE (loop_goal (dget d ''requested_goal'')) (\<lambda>goal.
     bindE (loop_permission (dget d ''permission_decision'')) (\<lambda>permission.
     bindE (guardE (json_ok (PDict d)) (LoopError ''AUTONOMY_NONCANONICAL_JSON'' ''payload must be finite canonical JSON'')) (\<lambda>_.
     Inr \<lparr>li_loop = loop, li_correlation = correlation, li_observed = observed, li_world = world,
          li_relationship = relationship, li_mode = mode, li_goal = goal, li_permission = permission\<rparr>))))))))))))"

section \<open>The default handlers\<close>

text \<open>\<open>d[k]\<close>.\<close>

definition loop_item :: "pydict \<Rightarrow> string \<Rightarrow> policy_exc + pyval" where
  "loop_item d k = (case map_of d k of None \<Rightarrow> Inl (PolicyRaised PyKeyError) | Some v \<Rightarrow> Inr v)"

definition dict_of :: "pyval \<Rightarrow> policy_exc + pydict" where
  "dict_of v = (case v of PDict d \<Rightarrow> Inr d | _ \<Rightarrow> Inl (PolicyRaised PyTypeError))"

definition default_interpreter :: "pydict \<Rightarrow> policy_exc + pyval" where
  "default_interpreter context =
     bindE (bindE (loop_item context ''observe'') dict_of) (\<lambda>observed.
     bindE (bindE (loop_item observed ''world_state'') dict_of) (\<lambda>world.
     bindE (loop_item observed ''relationship_state'') (\<lambda>relationship.
     let safe = (dget world ''safe_to_use'' = PBool True);
         count = (case dget world ''facts'' of PList xs \<Rightarrow> length xs | _ \<Rightarrow> 0) in
     Inr (PDict [(''world_state_safe'', PBool safe), (''fact_count'', PInt (int count)),
       (''relationship_state_present'', PBool (py_truthy relationship)),
       (''explanation'', PStr (if safe then ''current world state accepted''
          else ''world state absent, stale, conflicted, or not explicitly safe''))]))))"

definition goal_dict :: "pyval \<Rightarrow> string \<Rightarrow> pyval" where
  "goal_dict goal reason = PDict [(''goal_id'', goal), (''reason'', PStr reason)]"

definition default_goal_selector :: "pydict \<Rightarrow> policy_exc + pyval" where
  "default_goal_selector context =
     bindE (bindE (loop_item context ''interpret'') dict_of) (\<lambda>interpreted.
     bindE (bindE (loop_item context ''input'') dict_of) (\<lambda>source.
     bindE (loop_item interpreted ''world_state_safe'') (\<lambda>safe.
     Inr (if \<not> py_truthy safe then goal_dict (PStr ''safe_idle'') ''world_state_fail_closed''
          else if py_truthy (dget source ''requested_goal'') then goal_dict (dget source ''requested_goal'') ''validated_user_request''
          else goal_dict (PStr ''assist_user'') ''safe_default_assistance''))))"

definition default_actions :: "pyval \<Rightarrow> pyval list" where
  "default_actions goal =
     (if goal = PStr ''safe_idle''
      then [PDict [(''action_id'', PStr ''safe_idle''), (''effect_class'', PStr ''local_no_side_effect''), (''reason'', PStr ''fail_closed'')]]
      else [PDict [(''action_id'', PStr ''present_assistance''), (''effect_class'', PStr ''local_no_side_effect''), (''reason'', goal)]])"

definition default_planner :: "pystd \<Rightarrow> pydict \<Rightarrow> policy_exc + pyval" where
  "default_planner T context =
     bindE (bindE (loop_item context ''goal'') dict_of) (\<lambda>goal.
     bindE (loop_item goal ''goal_id'') (\<lambda>goal_id.
     Inr (PDict [(''plan_id'', PStr (''plan:'' @ (case goal_id of PStr s \<Rightarrow> s | _ \<Rightarrow> text_of T goal_id))),
       (''actions'', PList (default_actions goal_id))])))"

section \<open>Acting\<close>

record handlers =
  hd_interpreter :: "pydict \<Rightarrow> policy_exc + pyval"
  hd_goal_selector :: "pydict \<Rightarrow> policy_exc + pyval"
  hd_planner :: "pydict \<Rightarrow> policy_exc + pyval"
  hd_executor :: "(pyval list \<Rightarrow> pydict \<Rightarrow> policy_exc + pyval) option"

definition default_handlers :: "pystd \<Rightarrow> handlers" where
  "default_handlers T = \<lparr>hd_interpreter = default_interpreter, hd_goal_selector = default_goal_selector,
     hd_planner = default_planner T, hd_executor = None\<rparr>"

definition step_output :: "string \<Rightarrow> pyval \<Rightarrow> policy_exc + pydict" where
  "step_output stage v =
     (case v of
        PDict d \<Rightarrow> if json_ok v then Inr d
          else Inl (LoopError ''AUTONOMY_NONCANONICAL_JSON'' ''payload must be finite canonical JSON'')
      | _ \<Rightarrow> Inl (LoopError ''AUTONOMY_STEP_OUTPUT_INVALID'' (stage @ '' output must be an object'')))"

definition permission_allows_local :: "pydict option \<Rightarrow> bool \<times> string" where
  "permission_allows_local p =
     (case p of
        None \<Rightarrow> (False, ''permission_missing'')
      | Some d \<Rightarrow>
          if dget d ''schema_version'' \<noteq> PStr PERMISSION_SCHEMA then (False, ''permission_schema_mismatch'')
          else if dget d ''decision'' \<noteq> PStr ''ALLOW'' then (False, ''permission_not_allowed'')
          else if dget d ''scope'' \<noteq> PStr ''local_no_side_effect'' then (False, ''permission_scope_mismatch'')
          else (case canonical_id bad_loop_id (dget d ''receipt_id'') ''receipt_id'' of
             Inl _ \<Rightarrow> (False, ''permission_receipt_invalid'')
           | Inr _ \<Rightarrow> (True, ''permission_verified'')))"

definition local_action :: "pyval \<Rightarrow> bool" where
  "local_action a = (case a of PDict d \<Rightarrow> dget d ''effect_class'' = PStr ''local_no_side_effect'' | _ \<Rightarrow> False)"

definition act_report :: "string \<Rightarrow> string \<Rightarrow> nat \<Rightarrow> pydict" where
  "act_report status reason executed =
     [(''status'', PStr status), (''reason'', PStr reason), (''executed_action_count'', PInt (int executed))]"

type_synonym invocation = "pyval list \<times> pydict"

definition act :: "handlers \<Rightarrow> loop_input \<Rightarrow> pydict \<Rightarrow> invocation list \<times> (policy_exc + pydict)" where
  "act H s plan =
     (case dget plan ''actions'' of
        PList (a # as) \<Rightarrow>
          if \<not> list_all local_action (a # as) then ([], Inr (act_report ''BLOCKED'' ''nonlocal_effect_requires_p4_03_policy'' 0))
          else if li_mode s = ''observe_only'' then ([], Inr (act_report ''SKIPPED'' ''observe_only'' 0))
          else if li_mode s = ''dry_run''
          then ([], Inr (act_report ''DRY_RUN'' ''side_effect_free_preview'' 0 @ [(''proposed_actions'', PList (a # as))]))
          else (case permission_allows_local (li_permission s) of (allowed, reason) \<Rightarrow>
            if \<not> allowed then ([], Inr (act_report ''BLOCKED'' reason 0))
            else (case hd_executor H of
                None \<Rightarrow> ([], Inr (act_report ''BLOCKED'' ''local_action_adapter_missing'' 0))
              | Some f \<Rightarrow>
                  (let permission = the (li_permission s) in
                   ([(a # as, permission)],
                    bindE (f (a # as) permission) (\<lambda>v.
                    bindE (step_output ''action_executor'' v) (\<lambda>d.
                    Inr (act_report ''EXECUTED'' reason (length (a # as)) @ [(''adapter_result'', PDict d)])))))))
      | _ \<Rightarrow> ([], Inr (act_report ''BLOCKED'' ''plan_has_no_actions'' 0)))"

section \<open>The trace\<close>

definition event_id_of :: "string \<Rightarrow> nat \<Rightarrow> string \<Rightarrow> string" where
  "event_id_of correlation n stage = correlation @ '':'' @ show_nat n @ '':'' @ stage"

definition trace_event :: "pylib \<Rightarrow> loop_input \<Rightarrow> nat \<Rightarrow> string \<Rightarrow> string \<Rightarrow> pydict \<Rightarrow> pydict" where
  "trace_event L s n stage context_sha output =
     [(''schema_version'', PStr AUTONOMY_TRACE_SCHEMA), (''event_id'', PStr (event_id_of (li_correlation s) n stage)),
      (''loop_id'', PStr (li_loop s)), (''correlation_id'', PStr (li_correlation s)), (''sequence'', PInt (int n)),
      (''stage'', PStr stage), (''observed_at'', PStr (li_observed s)), (''input_context_sha256'', PStr context_sha),
      (''output'', PDict output), (''output_sha256'', PStr (json_sha L (PDict output)))]"

text \<open>The context and the trace so far.\<close>

type_synonym loop_state = "pydict \<times> pydict list"

definition record_stage :: "pylib \<Rightarrow> loop_input \<Rightarrow> loop_state \<Rightarrow> string \<Rightarrow> pyval \<Rightarrow> policy_exc + loop_state" where
  "record_stage L s st stage output = (case st of (context, trace) \<Rightarrow>
     bindE (step_output stage output) (\<lambda>d.
     bindE (loop_sha L (PDict context)) (\<lambda>sha.
     Inr (context @ [(stage, PDict d)], trace @ [trace_event L s (length trace + 1) stage sha d]))))"

text \<open>\<open>event.get("sequence") == n\<close>: a \<open>bool\<close> or \<open>float\<close> may be equal to the number.\<close>

definition equals_nat :: "pyval \<Rightarrow> nat \<Rightarrow> bool" where
  "equals_nat v n = (case v of PInt k \<Rightarrow> k = int n | PBool b \<Rightarrow> (if b then 1 else 0) = n | PFloat x \<Rightarrow> x = Fin (of_nat n) | _ \<Rightarrow> False)"

fun check_events :: "pylib \<Rightarrow> string \<Rightarrow> nat \<Rightarrow> string list \<Rightarrow> (pyval \<times> string) list \<Rightarrow> policy_exc + unit" where
  "check_events L correlation n seen [] = Inr ()"
| "check_events L correlation n seen ((v, stage) # es) =
     (case v of
        PDict e \<Rightarrow>
          bindE (guardE (dget e ''schema_version'' = PStr AUTONOMY_TRACE_SCHEMA) (LoopError ''AUTONOMY_TRACE_EVENT_SCHEMA_MISMATCH'' stage)) (\<lambda>_.
          bindE (guardE (equals_nat (dget e ''sequence'') n \<and> dget e ''stage'' = PStr stage)
                   (LoopError ''AUTONOMY_TRACE_STAGE_ORDER_INVALID'' stage)) (\<lambda>_.
          bindE (guardE (dget e ''correlation_id'' = PStr correlation) (LoopError ''AUTONOMY_TRACE_CORRELATION_MISMATCH'' stage)) (\<lambda>_.
          bindE (canonical_id bad_loop_id (dget e ''event_id'') ''event_id'') (\<lambda>i.
          bindE (guardE (i \<notin> set seen) (LoopError ''AUTONOMY_TRACE_EVENT_ID_DUPLICATE'' i)) (\<lambda>_.
          bindE (loop_sha L (dget e ''output'')) (\<lambda>sha.
          bindE (guardE (dget e ''output_sha256'' = PStr sha) (LoopError ''AUTONOMY_TRACE_OUTPUT_TAMPERED'' stage)) (\<lambda>_.
          check_events L correlation (n + 1) (i # seen) es)))))))
      | _ \<Rightarrow> Inl (LoopError ''AUTONOMY_TRACE_EVENT_INVALID'' stage))"

definition validate_autonomy_trace :: "pylib \<Rightarrow> pyval \<Rightarrow> policy_exc + pydict" where
  "validate_autonomy_trace L v =
     bindE (loop_mapping v ''AUTONOMY_TRACE_OBJECT_REQUIRED'' ''trace result must be an object'') (\<lambda>d.
     bindE (guardE (dget d ''schema_version'' = PStr AUTONOMY_TRACE_SCHEMA)
              (LoopError ''AUTONOMY_TRACE_SCHEMA_MISMATCH'' ''unsupported trace schema'')) (\<lambda>_.
     bindE (canonical_id bad_loop_id (dget d ''correlation_id'') ''correlation_id'') (\<lambda>correlation.
     bindE (case dget d ''trace'' of
              PList es \<Rightarrow> if length es = length STAGES then Inr es
                else Inl (LoopError ''AUTONOMY_TRACE_INCOMPLETE'' ''exactly six stage events are required'')
            | _ \<Rightarrow> Inl (LoopError ''AUTONOMY_TRACE_INCOMPLETE'' ''exactly six stage events are required'')) (\<lambda>trace.
     bindE (check_events L correlation 1 [] (zip trace STAGES)) (\<lambda>_.
     bindE (loop_sha L (PList trace)) (\<lambda>sha.
     bindE (guardE (dget d ''trace_sha256'' = PStr sha) (LoopError ''AUTONOMY_TRACE_TAMPERED'' ''trace hash mismatch'')) (\<lambda>_.
     Inr d)))))))"

section \<open>One pass\<close>

definition observe_output :: "loop_input \<Rightarrow> pyval" where
  "observe_output s = PDict [(''world_state'', PDict (li_world s)), (''relationship_state'', PDict (li_relationship s))]"

definition reflection :: "pydict \<Rightarrow> pydict \<Rightarrow> pyval" where
  "reflection goal acted =
     (let status = dget acted ''status'' in
      PDict [(''goal_id'', dget goal ''goal_id''), (''action_status'', status),
        (''safe_to_continue'', PBool (status \<in> {PStr ''SKIPPED'', PStr ''DRY_RUN'', PStr ''EXECUTED'', PStr ''BLOCKED''})),
        (''next_state'', PStr (if status \<noteq> PStr ''BLOCKED'' then ''await_observation'' else ''safe_idle''))])"

text \<open>The stages before the action: the state, the goal and the plan.\<close>

definition deliberate :: "pylib \<Rightarrow> handlers \<Rightarrow> loop_input \<Rightarrow> policy_exc + loop_state \<times> pydict \<times> pydict" where
  "deliberate L H s =
     bindE (record_stage L s ([(''input'', PDict (loop_input_items s))], []) ''observe'' (observe_output s)) (\<lambda>s1.
     bindE (hd_interpreter H (fst s1)) (\<lambda>v. bindE (record_stage L s s1 ''interpret'' v) (\<lambda>s2.
     bindE (hd_goal_selector H (fst s2)) (\<lambda>v. bindE (record_stage L s s2 ''goal'' v) (\<lambda>s3.
     bindE (hd_planner H (fst s3)) (\<lambda>v. bindE (record_stage L s s3 ''plan'' v) (\<lambda>s4.
     bindE (bindE (loop_item (fst s4) ''goal'') dict_of) (\<lambda>goal.
     bindE (bindE (loop_item (fst s4) ''plan'') dict_of) (\<lambda>plan.
     Inr (s4, goal, plan))))))))))"

definition conclude :: "pylib \<Rightarrow> loop_input \<Rightarrow> loop_state \<Rightarrow> pydict \<Rightarrow> pydict \<Rightarrow> policy_exc + pydict" where
  "conclude L s s4 goal acted =
     bindE (record_stage L s s4 ''act'' (PDict acted)) (\<lambda>s5.
     bindE (record_stage L s s5 ''reflect'' (reflection goal acted)) (\<lambda>s6.
     bindE (loop_item goal ''goal_id'') (\<lambda>goal_id.
     let trace = PList (map PDict (snd s6)) in
     bindE (loop_sha L trace) (\<lambda>sha.
     let result = [(''schema_version'', PStr AUTONOMY_TRACE_SCHEMA), (''loop_id'', PStr (li_loop s)),
           (''correlation_id'', PStr (li_correlation s)), (''trace'', trace), (''stage_count'', PInt (int (length (snd s6)))),
           (''trace_complete'', PBool True), (''act_status'', dget acted ''status''), (''goal_id'', goal_id),
           (''trace_sha256'', PStr sha)] in
     bindE (validate_autonomy_trace L (PDict result)) (\<lambda>_. Inr result)))))"

definition run_loop :: "pylib \<Rightarrow> pystd \<Rightarrow> handlers \<Rightarrow> pyval \<Rightarrow> invocation list \<times> (policy_exc + pydict)" where
  "run_loop L T H v =
     (case bindE (validate_autonomy_input T v) (\<lambda>s. bindE (deliberate L H s) (\<lambda>x. Inr (s, x))) of
        Inl e \<Rightarrow> ([], Inl e)
      | Inr (s, s4, goal, plan) \<Rightarrow>
          (case act H s plan of (calls, acted) \<Rightarrow> (calls, bindE acted (conclude L s s4 goal))))"

fun run_batch :: "pylib \<Rightarrow> pystd \<Rightarrow> handlers \<Rightarrow> string list \<Rightarrow> pyval list \<Rightarrow> invocation list \<times> (policy_exc + pydict list)" where
  "run_batch L T H seen [] = ([], Inr [])"
| "run_batch L T H seen (v # vs) =
     (case validate_autonomy_input T v of
        Inl e \<Rightarrow> ([], Inl e)
      | Inr s \<Rightarrow>
          if li_correlation s \<in> set seen
          then ([], Inl (LoopError ''AUTONOMY_BATCH_CORRELATION_DUPLICATE'' (li_correlation s)))
          else (case run_loop L T H (PDict (loop_input_items s)) of
              (calls, Inl e) \<Rightarrow> (calls, Inl e)
            | (calls, Inr r) \<Rightarrow>
                (case run_batch L T H (li_correlation s # seen) vs of
                   (later, rs) \<Rightarrow> (calls @ later, bindE rs (\<lambda>xs. Inr (r # xs))))))"

definition run_autonomy_batch :: "pylib \<Rightarrow> pystd \<Rightarrow> handlers \<Rightarrow> pyval list \<Rightarrow> invocation list \<times> (policy_exc + pydict list)" where
  "run_autonomy_batch L T H vs = run_batch L T H [] vs"

end
