(* ===== verification/LoopClaims.thy ===== *)
theory LoopClaims
  imports Orchestrator AuthClaims
begin

text \<open>
  What the autonomy loop guarantees: when the action adapter is invoked and with what, and the
  exact outcome of a pass with the default handlers, whose trace is refused for a long
  correlation id after the action was taken.
\<close>

section \<open>The guard of the action\<close>

lemma permission_allowed: "fst (permission_allows_local p) \<longleftrightarrow>
    (\<exists>d x. p = Some d \<and> dget d ''schema_version'' = PStr PERMISSION_SCHEMA \<and> dget d ''decision'' = PStr ''ALLOW''
       \<and> dget d ''scope'' = PStr ''local_no_side_effect'' \<and> dget d ''receipt_id'' = PStr x \<and> id_pattern x)"
proof (cases p)
  case None
  then show ?thesis by (simp add: permission_allows_local_def)
next
  case (Some d)
  then show ?thesis
    by (cases "canonical_id bad_loop_id (dget d ''receipt_id'') ''receipt_id''")
      (auto simp: permission_allows_local_def canonical_id_Inr)
qed

lemma act_calls:
  assumes "(actions, permission) \<in> set (fst (act H s plan))"
  shows "fst (act H s plan) = [(actions, permission)] \<and> actions \<noteq> [] \<and> list_all local_action actions
    \<and> dget plan ''actions'' = PList actions \<and> li_mode s \<notin> {''observe_only'', ''dry_run''}
    \<and> fst (permission_allows_local (li_permission s)) \<and> li_permission s = Some permission \<and> hd_executor H \<noteq> None"
proof -
  obtain a as where p: "dget plan ''actions'' = PList (a # as)"
    using assms by (auto simp: act_def split: pyval.splits list.splits)
  obtain ok reason where r: "permission_allows_local (li_permission s) = (ok, reason)" by fastforce
  have "list_all local_action (a # as)" "li_mode s \<noteq> ''observe_only''" "li_mode s \<noteq> ''dry_run''" "ok" "hd_executor H \<noteq> None"
    using assms p r by (auto simp: act_def split: if_split_asm option.split_asm)
  moreover from this have "\<exists>d. li_permission s = Some d" using r permission_allowed [of "li_permission s"] by auto
  ultimately show ?thesis using assms p r by (auto simp: act_def Let_def)
qed

section \<open>Valid inputs\<close>

definition input_ok :: "loop_input \<Rightarrow> bool" where
  "input_ok s = (id_pattern (li_loop s) \<and> id_pattern (li_correlation s) \<and> li_mode s \<in> set LOOP_MODES
     \<and> pred_option id_pattern (li_goal s) \<and> json_ok (PDict (loop_input_items s)))"

lemma loop_mapping_Inr: "loop_mapping v c e = Inr d \<longleftrightarrow> v = PDict d"
  by (auto simp: loop_mapping_def split: pyval.splits)

lemma loop_mode_Inr: "loop_mode v = Inr m \<longleftrightarrow> v = PStr m \<and> m \<in> set LOOP_MODES"
  by (cases v) (auto simp: loop_mode_def)

lemma loop_goal_Inr: "loop_goal v = Inr g \<longleftrightarrow> v = opt_text_val g \<and> pred_option id_pattern g"
  by (cases g) (auto simp: loop_goal_def opt_text_val_def bindE_Inr_iff canonical_id_Inr)

lemma loop_permission_Inr: "loop_permission v = Inr p \<longleftrightarrow> v = opt_dict_val p"
  by (cases p) (auto simp: loop_permission_def opt_dict_val_def bindE_Inr_iff loop_mapping_Inr)

lemma validated_input:
  assumes "validate_autonomy_input T v = Inr s"
  shows "input_ok s"
proof -
  obtain d where d: "v = PDict d" "json_ok (PDict d)" and f: "id_pattern (li_loop s)" "id_pattern (li_correlation s)"
    "dget d ''world_state'' = PDict (li_world s)"
    "(if has_key d ''relationship_state'' then dget d ''relationship_state'' else PDict []) = PDict (li_relationship s)"
    "li_mode s \<in> set LOOP_MODES" "pred_option id_pattern (li_goal s)" "opt_dict_val (li_permission s) = dget d ''permission_decision''"
    using assms unfolding validate_autonomy_input_def bindE_Inr_iff guardE_Inr_iff loop_mapping_Inr canonical_id_Inr
      loop_mode_Inr loop_goal_Inr loop_permission_Inr
    by (elim exE conjE) (rule that, assumption, auto)
  have "json_ok (PDict (li_relationship s))"
    using json_ok_dget [OF d(2), of "''relationship_state''"] f(4) by (auto split: if_split_asm)
  moreover have "json_ok (PDict (li_world s))" using json_ok_dget [OF d(2), of "''world_state''"] f(3) by simp
  moreover have "json_ok (opt_dict_val (li_permission s))" unfolding f(7) by (rule json_ok_dget [OF d(2)])
  moreover have "json_ok (opt_text_val (li_goal s))" by (cases "li_goal s") (simp_all add: opt_text_val_def)
  ultimately show ?thesis using f by (simp add: input_ok_def loop_input_items_def)
qed

text \<open>C15. The adapter acts only with permission. Whatever the handlers are, if a pass invokes the action
  adapter, then its input was valid and asked for local execution, it carries a permission that
  allows local actions under a receipt, and the adapter gets this permission and the actions of
  the plan, all of them declared local; and it is invoked once.\<close>

theorem loop_act_guarded:
  assumes "(actions, permission) \<in> set (fst (run_loop L T H v))"
  shows "\<exists>s. validate_autonomy_input T v = Inr s \<and> li_mode s = ''execute_local'' \<and> li_permission s = Some permission
    \<and> dget permission ''decision'' = PStr ''ALLOW'' \<and> dget permission ''scope'' = PStr ''local_no_side_effect''
    \<and> (\<exists>x. dget permission ''receipt_id'' = PStr x \<and> id_pattern x)
    \<and> actions \<noteq> [] \<and> list_all local_action actions \<and> fst (run_loop L T H v) = [(actions, permission)]"
proof -
  obtain s s4 goal plan where s: "validate_autonomy_input T v = Inr s" "deliberate L H s = Inr (s4, goal, plan)"
    using assms by (cases "validate_autonomy_input T v"; cases "deliberate L H (projr (validate_autonomy_input T v))")
      (auto simp: run_loop_def)
  have r: "fst (run_loop L T H v) = fst (act H s plan)" using s by (simp add: run_loop_def case_prod_beta)
  note a = act_calls [OF assms [unfolded r]]
  have "li_mode s \<in> set LOOP_MODES" using validated_input [OF s(1)] by (simp add: input_ok_def)
  then have "li_mode s = ''execute_local''" using a by (simp add: LOOP_MODES_def)
  then show ?thesis using s(1) a r permission_allowed [of "li_permission s"] by auto
qed

section \<open>A pass with the default handlers\<close>

definition goal_of :: "loop_input \<Rightarrow> string" where
  "goal_of s = (if dget (li_world s) ''safe_to_use'' \<noteq> PBool True then ''safe_idle''
     else case li_goal s of Some g \<Rightarrow> g | None \<Rightarrow> ''assist_user'')"

lemma record_ok: "json_ok (PDict ctx) \<Longrightarrow> json_ok (PDict d) \<Longrightarrow> record_stage L s (ctx, tr) st (PDict d) =
    Inr (ctx @ [(st, PDict d)], tr @ [trace_event L s (length tr + 1) st (json_sha L (PDict ctx)) d])"
  by (simp add: record_stage_def step_output_def loop_sha_def)

lemma default_local: "list_all local_action (default_actions g)" "default_actions g \<noteq> []" "json_ok g \<Longrightarrow> json_ok (PList (default_actions g))"
  by (auto simp: default_actions_def local_action_def)

lemma deliberate_default:
  assumes "input_ok s" and "hd_interpreter H = default_interpreter" "hd_goal_selector H = default_goal_selector"
    "hd_planner H = default_planner T"
  shows "\<exists>ctx h1 d1 h2 d2 h3 goal h4 plan. deliberate L H s = Inr ((ctx, [trace_event L s 1 ''observe'' h1 d1,
      trace_event L s 2 ''interpret'' h2 d2, trace_event L s 3 ''goal'' h3 goal, trace_event L s 4 ''plan'' h4 plan]), goal, plan)
    \<and> json_ok (PDict ctx) \<and> json_ok (PDict d1) \<and> json_ok (PDict d2) \<and> json_ok (PDict goal) \<and> json_ok (PDict plan)
    \<and> map_of goal ''goal_id'' = Some (PStr (goal_of s)) \<and> dget plan ''actions'' = PList (default_actions (PStr (goal_of s)))"
proof -
  have j: "json_ok (PDict (li_world s))" "json_ok (PDict (li_relationship s))" "json_ok (PDict (loop_input_items s))"
    using assms(1) by (simp_all add: input_ok_def loop_input_items_def)
  let ?c0 = "[(''input'', PDict (loop_input_items s))]"
  let ?d1 = "[(''world_state'', PDict (li_world s)), (''relationship_state'', PDict (li_relationship s))]"
  let ?c1 = "?c0 @ [(''observe'', PDict ?d1)]"
  have c1: "json_ok (PDict ?c1)" "json_ok (PDict ?d1)" "json_ok (PDict ?c0)" using j by simp_all
  obtain d2 where d2: "default_interpreter ?c1 = Inr (PDict d2)" "json_ok (PDict d2)"
    "map_of d2 ''world_state_safe'' = Some (PBool (dget (li_world s) ''safe_to_use'' = PBool True))"
    by (simp add: default_interpreter_def loop_item_def dict_of_def Let_def)
  let ?c2 = "?c1 @ [(''interpret'', PDict d2)]"
  have g: "dget (loop_input_items s) ''requested_goal'' = opt_text_val (li_goal s)" by (simp add: loop_input_items_def)
  have t: "py_truthy (opt_text_val (li_goal s)) \<longleftrightarrow> li_goal s \<noteq> None"
    using assms(1) by (cases "li_goal s") (auto simp: opt_text_val_def input_ok_def)
  obtain goal where goal: "default_goal_selector ?c2 = Inr (PDict goal)" "json_ok (PDict goal)"
    "map_of goal ''goal_id'' = Some (PStr (goal_of s))"
    using d2(3) g t
    by (cases "dget (li_world s) ''safe_to_use'' = PBool True"; cases "li_goal s")
      (auto simp: default_goal_selector_def loop_item_def dict_of_def goal_dict_def goal_of_def opt_text_val_def)
  let ?c3 = "?c2 @ [(''goal'', PDict goal)]"
  obtain plan where plan: "default_planner T ?c3 = Inr (PDict plan)" "json_ok (PDict plan)"
    "dget plan ''actions'' = PList (default_actions (PStr (goal_of s)))"
    using goal(3) default_local(3) [of "PStr (goal_of s)"] by (simp add: default_planner_def loop_item_def dict_of_def)
  let ?c4 = "?c3 @ [(''plan'', PDict plan)]"
  have c: "json_ok (PDict ?c2)" "json_ok (PDict ?c3)" "json_ok (PDict ?c4)" using c1 d2 goal plan by simp_all
  have k: "bindE (loop_item ?c4 ''goal'') dict_of = Inr goal" "bindE (loop_item ?c4 ''plan'') dict_of = Inr plan"
    by (simp_all add: loop_item_def dict_of_def)
  show ?thesis
    unfolding deliberate_def observe_output_def record_ok [OF c1(3,2)] bindE_simps fst_conv assms(2-4) d2(1) record_ok [OF c1(1) d2(2)]
      goal(1) record_ok [OF c(1) goal(2)] plan(1) record_ok [OF c(2) plan(2)] k
    by (rule exI [of _ ?c4], rule exI [of _ "json_sha L (PDict ?c0)"], rule exI [of _ ?d1],
        rule exI [of _ "json_sha L (PDict ?c1)"], rule exI [of _ d2], rule exI [of _ "json_sha L (PDict ?c2)"], rule exI [of _ goal],
        rule exI [of _ "json_sha L (PDict ?c3)"], rule exI [of _ plan])
      (use c(3) c1(2) d2(2) goal(2,3) plan(2,3) in \<open>simp add: eval_nat_numeral\<close>)
qed

section \<open>The trace of a pass\<close>

lemma id_pattern_append: "id_pattern c \<Longrightarrow> list_all is_id_char x \<Longrightarrow> id_pattern (c @ x) \<longleftrightarrow> length c + length x \<le> 128"
  using id_chars [of c] by (cases c) auto

lemma loop_event_id: "id_pattern c \<Longrightarrow> stage \<in> set STAGES \<Longrightarrow> list_all is_id_char (show_nat n) \<Longrightarrow>
    id_pattern (event_id_of c n stage) \<longleftrightarrow> length c + length (show_nat n) + length stage \<le> 126"
  using id_pattern_append [of c "'':'' @ show_nat n @ '':'' @ stage"]
  by (auto simp: event_id_of_def STAGES_def is_id_char_def is_alnum_def is_digit_def less_eq_char_def)

lemma small_numbers: "show_nat 1 = ''1''" "show_nat 2 = ''2''" "show_nat 3 = ''3''" "show_nat 4 = ''4''" "show_nat 5 = ''5''" "show_nat 6 = ''6''"
  by code_simp+

lemma trace_event_fields [simp]:
  "dget (trace_event L s n st h d) ''schema_version'' = PStr AUTONOMY_TRACE_SCHEMA"
  "dget (trace_event L s n st h d) ''sequence'' = PInt (int n)" "dget (trace_event L s n st h d) ''stage'' = PStr st"
  "dget (trace_event L s n st h d) ''correlation_id'' = PStr (li_correlation s)"
  "dget (trace_event L s n st h d) ''event_id'' = PStr (event_id_of (li_correlation s) n st)"
  "dget (trace_event L s n st h d) ''output'' = PDict d"
  "dget (trace_event L s n st h d) ''output_sha256'' = PStr (json_sha L (PDict d))"
  by (simp_all add: trace_event_def)

text \<open>The check of one event that the loop wrote.\<close>

lemma check_events_step: "json_ok (PDict d) \<Longrightarrow> event_id_of (li_correlation s) n st \<notin> set seen \<Longrightarrow>
    check_events L (li_correlation s) n seen ((PDict (trace_event L s n st h d), st) # es) =
      (if id_pattern (event_id_of (li_correlation s) n st)
       then check_events L (li_correlation s) (n + 1) (event_id_of (li_correlation s) n st # seen) es
       else Inl (bad_loop_id ''event_id''))"
  by (simp add: equals_nat_def loop_sha_def canonical_id_def)

lemma check_pass:
  assumes "id_pattern (li_correlation s)" and "json_ok (PDict d1)" "json_ok (PDict d2)" "json_ok (PDict d3)" "json_ok (PDict d4)"
    "json_ok (PDict d5)" "json_ok (PDict d6)"
  shows "check_events L (li_correlation s) 1 [] (zip (map PDict [trace_event L s 1 ''observe'' h1 d1, trace_event L s 2 ''interpret'' h2 d2,
      trace_event L s 3 ''goal'' h3 d3, trace_event L s 4 ''plan'' h4 d4, trace_event L s 5 ''act'' h5 d5,
      trace_event L s 6 ''reflect'' h6 d6]) STAGES)
    = (if length (li_correlation s) \<le> 116 then Inr () else Inl (bad_loop_id ''event_id''))"
proof -
  let ?i = "event_id_of (li_correlation s)"
  have c: "list_all is_id_char (show_nat n)" for n
    using show_nat_digits by (rule list.pred_mono_strong) (simp add: is_id_char_def is_alnum_def)
  have p: "id_pattern (?i 1 ''observe'') \<longleftrightarrow> length (li_correlation s) \<le> 118"
    "id_pattern (?i 2 ''interpret'') \<longleftrightarrow> length (li_correlation s) \<le> 116" "id_pattern (?i 3 ''goal'') \<longleftrightarrow> length (li_correlation s) \<le> 121"
    "id_pattern (?i 4 ''plan'') \<longleftrightarrow> length (li_correlation s) \<le> 121" "id_pattern (?i 5 ''act'') \<longleftrightarrow> length (li_correlation s) \<le> 122"
    "id_pattern (?i 6 ''reflect'') \<longleftrightarrow> length (li_correlation s) \<le> 118"
    using loop_event_id [OF assms(1) _ c] by (simp_all add: STAGES_def small_numbers [simplified])
  have d: "distinct [?i 1 ''observe'', ?i 2 ''interpret'', ?i 3 ''goal'', ?i 4 ''plan'', ?i 5 ''act'', ?i 6 ''reflect'']"
    by (simp add: event_id_of_def small_numbers [simplified])
  have d': "distinct [?i 6 ''reflect'', ?i 5 ''act'', ?i 4 ''plan'', ?i 3 ''goal'', ?i 2 ''interpret'', ?i 1 ''observe'']"
    using d by auto
  have s: "zip (map PDict [e1, e2, e3, e4, e5, e6]) STAGES = [(PDict e1, ''observe''), (PDict e2, ''interpret''), (PDict e3, ''goal''),
      (PDict e4, ''plan''), (PDict e5, ''act''), (PDict e6, ''reflect'')]" for e1 e2 e3 e4 e5 e6 :: pydict
    by (simp add: STAGES_def)
  have n: "(1::nat) + 1 = 2" "(2::nat) + 1 = 3" "(3::nat) + 1 = 4" "(4::nat) + 1 = 5" "(5::nat) + 1 = 6" by simp_all
  show ?thesis
  proof (cases "length (li_correlation s) \<le> 116")
    case True
    then show ?thesis unfolding s
      using d' by (simp add: check_events_step assms p n del: check_events.simps(2) json_ok.simps One_nat_def)
  next
    case False
    then show ?thesis unfolding s
      using d' by (simp add: check_events_step assms p n del: check_events.simps(2) json_ok.simps One_nat_def)
  qed
qed

lemma json_ok_list: "json_ok (PList (map PDict ds)) \<longleftrightarrow> (\<forall>d \<in> set ds. json_ok (PDict d))"
  by (simp add: list_all_iff)

lemma trace_event_json: "json_ok (PDict d) \<Longrightarrow> json_ok (PDict (trace_event L s n st h d))"
  by (simp add: trace_event_def)

lemma conclude_pass:
  assumes "input_ok s" and "json_ok (PDict ctx)" "json_ok (PDict d1)" "json_ok (PDict d2)" "json_ok (PDict goal)" "json_ok (PDict plan)"
    "json_ok (PDict acted)" and "map_of goal ''goal_id'' = Some (PStr g)" and "dget acted ''status'' = PStr status"
  shows "\<exists>r es. conclude L s (ctx, [trace_event L s 1 ''observe'' h1 d1, trace_event L s 2 ''interpret'' h2 d2,
      trace_event L s 3 ''goal'' h3 goal, trace_event L s 4 ''plan'' h4 plan]) goal acted
      = (if length (li_correlation s) \<le> 116 then Inr r else Inl (bad_loop_id ''event_id''))
    \<and> (length (li_correlation s) \<le> 116 \<longrightarrow> validate_autonomy_trace L (PDict r) = Inr r)
    \<and> dget r ''trace'' = PList (map PDict es) \<and> map (\<lambda>e. dget e ''stage'') es = map PStr STAGES
    \<and> dget r ''goal_id'' = PStr g \<and> dget r ''act_status'' = PStr status"
proof -
  obtain d6 where d6: "reflection goal acted = PDict d6" "json_ok (PDict d6)"
    using assms(8,9) by (simp add: reflection_def Let_def dget_def)
  define h5 where "h5 = json_sha L (PDict ctx)"
  define h6 where "h6 = json_sha L (PDict (ctx @ [(''act'', PDict acted)]))"
  define es where "es = [trace_event L s 1 ''observe'' h1 d1, trace_event L s 2 ''interpret'' h2 d2, trace_event L s 3 ''goal'' h3 goal,
      trace_event L s 4 ''plan'' h4 plan, trace_event L s 5 ''act'' h5 acted, trace_event L s 6 ''reflect'' h6 d6]"
  define r where "r = [(''schema_version'', PStr AUTONOMY_TRACE_SCHEMA), (''loop_id'', PStr (li_loop s)),
           (''correlation_id'', PStr (li_correlation s)), (''trace'', PList (map PDict es)), (''stage_count'', PInt 6),
           (''trace_complete'', PBool True), (''act_status'', PStr status), (''goal_id'', PStr g),
           (''trace_sha256'', PStr (json_sha L (PList (map PDict es))))]"
  have j: "json_ok (PList (map PDict es))"
    unfolding json_ok_list es_def using assms(3-7) d6(2) by (auto simp: trace_event_json simp del: json_ok.simps)
  have c: "json_ok (PDict (ctx @ [(''act'', PDict acted)]))" using assms(2,7) by simp
  have i: "id_pattern (li_correlation s)" using assms(1) by (simp add: input_ok_def)
  have e: "check_events L (li_correlation s) 1 [] (zip (map PDict es) STAGES)
      = (if length (li_correlation s) \<le> 116 then Inr () else Inl (bad_loop_id ''event_id''))"
    unfolding es_def by (rule check_pass [OF i assms(3-7) d6(2)])
  have v: "validate_autonomy_trace L (PDict r) = (if length (li_correlation s) \<le> 116 then Inr r else Inl (bad_loop_id ''event_id''))"
    unfolding validate_autonomy_trace_def loop_mapping_def pyval.case bindE_simps
    using e i j by (simp add: r_def canonical_id_def loop_sha_def) (simp add: es_def STAGES_def)
  have k: "conclude L s (ctx, [trace_event L s 1 ''observe'' h1 d1, trace_event L s 2 ''interpret'' h2 d2,
      trace_event L s 3 ''goal'' h3 goal, trace_event L s 4 ''plan'' h4 plan]) goal acted = bindE (validate_autonomy_trace L (PDict r)) (\<lambda>_. Inr r)"
    unfolding conclude_def record_ok [OF assms(2,7)] bindE_simps d6(1) record_ok [OF c d6(2)]
    using j assms(8,9) by (simp add: loop_item_def Let_def loop_sha_def r_def es_def h5_def h6_def eval_nat_numeral)
  show ?thesis
    by (rule exI [of _ r], rule exI [of _ es], unfold k v, simp) (simp add: r_def es_def STAGES_def)
qed

section \<open>The outcome\<close>

lemma act_report_fields [simp]: "json_ok (PDict (act_report a b n @ xs)) \<longleftrightarrow> json_ok (PDict xs)"
  "json_ok (PDict (act_report a b n))" "dget (act_report a b n @ xs) ''status'' = PStr a" "dget (act_report a b n) ''status'' = PStr a"
  by (simp_all add: act_report_def)

lemma act_default:
  assumes "dget plan ''actions'' = PList (default_actions (PStr g))" and "li_mode s \<in> set LOOP_MODES"
    and "\<And>f as p. hd_executor H = Some f \<Longrightarrow> \<exists>d. f as p = Inr (PDict d) \<and> json_ok (PDict d)"
  shows "fst (act H s plan) = (if li_mode s = ''execute_local'' \<and> fst (permission_allows_local (li_permission s)) \<and> hd_executor H \<noteq> None
      then [(default_actions (PStr g), the (li_permission s))] else [])"
    and "\<exists>acted status. snd (act H s plan) = Inr acted \<and> json_ok (PDict acted) \<and> dget acted ''status'' = PStr status"
proof -
  obtain a as where a: "default_actions (PStr g) = a # as" using default_local(2) by (cases "default_actions (PStr g)") auto
  have l: "list_all local_action (a # as)" "json_ok (PList (a # as))"
    using default_local(1,3) [of "PStr g"] a by simp_all
  obtain ok reason where r: "permission_allows_local (li_permission s) = (ok, reason)" by fastforce
  have m: "li_mode s = ''observe_only'' \<or> li_mode s = ''dry_run'' \<or> li_mode s = ''execute_local''"
    using assms(2) by (simp add: LOOP_MODES_def)
  show "fst (act H s plan) = (if li_mode s = ''execute_local'' \<and> fst (permission_allows_local (li_permission s)) \<and> hd_executor H \<noteq> None
      then [(default_actions (PStr g), the (li_permission s))] else [])"
    using m l(1) r unfolding act_def assms(1) a by (auto simp: Let_def split: option.split)
  show "\<exists>acted status. snd (act H s plan) = Inr acted \<and> json_ok (PDict acted) \<and> dget acted ''status'' = PStr status"
  proof (cases "li_mode s = ''execute_local'' \<and> ok \<and> hd_executor H \<noteq> None")
    case True
    then obtain f where f: "hd_executor H = Some f" by blast
    obtain d where d: "f (a # as) (the (li_permission s)) = Inr (PDict d)" "json_ok (PDict d)" using assms(3) [OF f] by blast
    show ?thesis using True l r d f unfolding act_def assms(1) a
      by (simp add: Let_def step_output_def del: json_ok.simps) (simp add: act_report_def)
  next
    case False
    then show ?thesis using m l r unfolding act_def assms(1) a
      by (elim disjE) (auto simp: Let_def act_report_def split: option.split)
  qed
qed

lemma default_pass:
  assumes "validate_autonomy_input T v = Inr s" and "H = (default_handlers T)\<lparr>hd_executor := adapter\<rparr>"
    and "\<forall>f as p. adapter = Some f \<longrightarrow> (\<exists>d. f as p = Inr (PDict d) \<and> json_ok (PDict d))"
  shows "fst (run_loop L T H v) =
      (if li_mode s = ''execute_local'' \<and> fst (permission_allows_local (li_permission s)) \<and> adapter \<noteq> None
       then [(default_actions (PStr (goal_of s)), the (li_permission s))] else [])
    \<and> (\<exists>r es. snd (run_loop L T H v) = (if length (li_correlation s) \<le> 116 then Inr r else Inl (bad_loop_id ''event_id''))
         \<and> (length (li_correlation s) \<le> 116 \<longrightarrow> validate_autonomy_trace L (PDict r) = Inr r)
         \<and> dget r ''trace'' = PList (map PDict es) \<and> map (\<lambda>e. dget e ''stage'') es = map PStr STAGES
         \<and> dget r ''goal_id'' = PStr (goal_of s))"
proof -
  have ok: "input_ok s" using validated_input [OF assms(1)] .
  have h: "hd_interpreter H = default_interpreter" "hd_goal_selector H = default_goal_selector" "hd_planner H = default_planner T"
    "hd_executor H = adapter" using assms(2) by (simp_all add: default_handlers_def)
  obtain ctx h1 d1 h2 d2 h3 goal h4 plan where d: "deliberate L H s = Inr ((ctx, [trace_event L s 1 ''observe'' h1 d1,
      trace_event L s 2 ''interpret'' h2 d2, trace_event L s 3 ''goal'' h3 goal, trace_event L s 4 ''plan'' h4 plan]), goal, plan)"
    and j: "json_ok (PDict ctx)" "json_ok (PDict d1)" "json_ok (PDict d2)" "json_ok (PDict goal)" "json_ok (PDict plan)"
    and g: "map_of goal ''goal_id'' = Some (PStr (goal_of s))" "dget plan ''actions'' = PList (default_actions (PStr (goal_of s)))"
    using deliberate_default [OF ok h(1-3)] by blast
  have m: "li_mode s \<in> set LOOP_MODES" using ok by (simp add: input_ok_def)
  have e: "\<And>f as p. hd_executor H = Some f \<Longrightarrow> \<exists>d. f as p = Inr (PDict d) \<and> json_ok (PDict d)" using assms(3) h(4) by simp
  have act: "fst (act H s plan) = (if li_mode s = ''execute_local'' \<and> fst (permission_allows_local (li_permission s)) \<and> hd_executor H \<noteq> None
      then [(default_actions (PStr (goal_of s)), the (li_permission s))] else [])"
    "\<exists>acted status. snd (act H s plan) = Inr acted \<and> json_ok (PDict acted) \<and> dget acted ''status'' = PStr status"
    by (rule act_default [OF g(2) m], erule e)+
  obtain acted status where a: "snd (act H s plan) = Inr acted" "json_ok (PDict acted)" "dget acted ''status'' = PStr status"
    using act(2) by blast
  have f: "fst (run_loop L T H v) = fst (act H s plan)" using assms(1) d by (simp add: run_loop_def case_prod_beta)
  have s: "snd (run_loop L T H v) = conclude L s (ctx, [trace_event L s 1 ''observe'' h1 d1, trace_event L s 2 ''interpret'' h2 d2,
      trace_event L s 3 ''goal'' h3 goal, trace_event L s 4 ''plan'' h4 plan]) goal acted"
    using assms(1) d a(1) by (simp add: run_loop_def case_prod_beta)
  show ?thesis
    unfolding f s act(1) h(4) using conclude_pass [OF ok j a(2) g(1) a(3), of L h1 h2 h3 h4] by blast
qed

text \<open>C16. A pass with the default handlers acts first and may fail afterwards. For every valid input, with
  any action adapter that returns a JSON object: the adapter is invoked, on the default plan for
  the goal of the input, exactly when the mode is local execution, the permission allows it and
  there is an adapter; and the pass returns a complete trace of the six stages, which its own
  validator accepts, exactly when the correlation id has at most 116 characters. With a longer
  one, which the input validator accepts up to 128, the event ids are too long for the trace
  validator, and the pass raises after the adapter was invoked.\<close>

theorem loop_outcome:
  assumes "validate_autonomy_input T v = Inr s" and "H = (default_handlers T)\<lparr>hd_executor := adapter\<rparr>"
    and "\<forall>f as p. adapter = Some f \<longrightarrow> (\<exists>d. f as p = Inr (PDict d) \<and> json_ok (PDict d))"
  shows "fst (run_loop L T H v) =
      (if li_mode s = ''execute_local'' \<and> fst (permission_allows_local (li_permission s)) \<and> adapter \<noteq> None
       then [(default_actions (PStr (goal_of s)), the (li_permission s))] else [])
    \<and> (if length (li_correlation s) \<le> 116
       then \<exists>r es. snd (run_loop L T H v) = Inr r \<and> validate_autonomy_trace L (PDict r) = Inr r
         \<and> dget r ''trace'' = PList (map PDict es) \<and> map (\<lambda>e. dget e ''stage'') es = map PStr STAGES
         \<and> dget r ''goal_id'' = PStr (goal_of s)
       else snd (run_loop L T H v) = Inl (bad_loop_id ''event_id''))"
proof -
  obtain r es where o: "snd (run_loop L T H v) = (if length (li_correlation s) \<le> 116 then Inr r else Inl (bad_loop_id ''event_id''))"
    "length (li_correlation s) \<le> 116 \<longrightarrow> validate_autonomy_trace L (PDict r) = Inr r"
    "dget r ''trace'' = PList (map PDict es)" "map (\<lambda>e. dget e ''stage'') es = map PStr STAGES" "dget r ''goal_id'' = PStr (goal_of s)"
    and c: "fst (run_loop L T H v) = (if li_mode s = ''execute_local'' \<and> fst (permission_allows_local (li_permission s)) \<and> adapter \<noteq> None
       then [(default_actions (PStr (goal_of s)), the (li_permission s))] else [])"
    using default_pass [OF assms(1-3)] by blast
  show ?thesis using c o by (cases "length (li_correlation s) \<le> 116") auto
qed

section \<open>A concrete run\<close>

definition sample_loop_permission :: pydict where
  "sample_loop_permission = [(''schema_version'', PStr PERMISSION_SCHEMA), (''decision'', PStr ''ALLOW''),
     (''scope'', PStr ''local_no_side_effect''), (''receipt_id'', PStr ''g1'')]"

definition sample_loop_input :: "string \<Rightarrow> loop_input" where
  "sample_loop_input c = \<lparr>li_loop = ''u1'', li_correlation = c, li_observed = zulu sample_std 0, li_world = [(''safe_to_use'', PBool True)],
     li_relationship = [], li_mode = ''execute_local'', li_goal = Some ''g1'', li_permission = Some sample_loop_permission\<rparr>"

definition sample_handlers :: handlers where
  "sample_handlers = (default_handlers sample_std)\<lparr>hd_executor := Some (\<lambda>as p. Inr (PDict []))\<rparr>"

lemma sample_loop_valid: "id_pattern c \<Longrightarrow>
    validate_autonomy_input sample_std (PDict (loop_input_items (sample_loop_input c))) = Inr (sample_loop_input c)"
proof -
  assume c: "id_pattern c"
  have "id_pattern ''u1''" "id_pattern ''g1''" by code_simp+
  then have i: "canonical_id e (PStr ''u1'') f = Inr ''u1''" "loop_goal (PStr ''g1'') = Inr (Some ''g1'')"
    "canonical_id e (PStr c) f = Inr c" for e f
    using c by (simp_all only: canonical_id_ok loop_goal_Inr opt_text_val_def option.case option.pred_inject)
  have t: "loop_time sample_std (PStr (zulu sample_std 0)) = Inr (zulu sample_std 0)"
    using sample_clock by (simp add: loop_time_def in_years_def clock_ok_def MIN_TIME_def MAX_TIME_def)
  have m: "loop_mode (PStr ''execute_local'') = Inr ''execute_local''" by (simp add: loop_mode_def LOOP_MODES_def)
  have p: "loop_permission (PDict sample_loop_permission) = Inr (Some sample_loop_permission)"
    by (simp add: loop_permission_def loop_mapping_def)
  have j: "json_ok (PDict sample_loop_permission)" by (simp add: sample_loop_permission_def)
  show ?thesis
    using j by (simp add: validate_autonomy_input_def loop_input_items_def sample_loop_input_def unknown_none LOOP_FIELDS_def
        opt_text_val_def opt_dict_val_def i t m p loop_mapping_def)
qed

lemma sample_loop_fields: "li_mode (sample_loop_input c) = ''execute_local''" "li_correlation (sample_loop_input c) = c"
  "li_permission (sample_loop_input c) = Some sample_loop_permission" "goal_of (sample_loop_input c) = ''g1''"
  by (simp_all add: sample_loop_input_def goal_of_def)

lemma sample_loop_allowed: "fst (permission_allows_local (Some sample_loop_permission))"
proof -
  have "id_pattern ''g1''" by code_simp
  then show ?thesis unfolding permission_allowed
    by (intro exI [of _ sample_loop_permission] exI [of _ "''g1''"]) (simp add: sample_loop_permission_def del: id_pattern.simps)
qed

lemma sample_adapter: "\<forall>f as p. Some (\<lambda>as p. Inr (PDict [])) = Some f \<longrightarrow> (\<exists>d. f as p = Inr (PDict d) \<and> json_ok (PDict d))"
  by auto

theorem loop_act_guarded_witness:
  "fst (run_loop plain_lib sample_std sample_handlers (PDict (loop_input_items (sample_loop_input ''u1''))))
     = [(default_actions (PStr ''g1''), sample_loop_permission)]"
proof -
  have u: "id_pattern ''u1''" by code_simp
  have "(default_actions (PStr ''g1''), sample_loop_permission)
      \<in> set (fst (run_loop plain_lib sample_std sample_handlers (PDict (loop_input_items (sample_loop_input ''u1'')))))"
    using default_pass [OF sample_loop_valid [OF u] sample_handlers_def sample_adapter, of plain_lib] sample_loop_allowed
    by (simp add: sample_loop_fields)
  from loop_act_guarded [OF this] show ?thesis by blast
qed

theorem loop_outcome_witness:
  "fst (run_loop plain_lib sample_std sample_handlers (PDict (loop_input_items (sample_loop_input (replicate 117 (CHR ''a''))))))
     = [(default_actions (PStr ''g1''), sample_loop_permission)]
   \<and> snd (run_loop plain_lib sample_std sample_handlers (PDict (loop_input_items (sample_loop_input (replicate 117 (CHR ''a''))))))
     = Inl (bad_loop_id ''event_id'')"
proof -
  have "id_pattern (CHR ''a'' # replicate 116 (CHR ''a''))"
    by (simp add: list_all_iff is_id_char_def is_alnum_def less_eq_char_def)
  then have c: "id_pattern (replicate 117 (CHR ''a''))" by (simp only: replicate_Suc [symmetric]) (simp add: numeral_eq_Suc)
  show ?thesis
    using loop_outcome [OF sample_loop_valid [OF c] sample_handlers_def sample_adapter, of plain_lib] sample_loop_allowed
    by (simp add: sample_loop_fields)
qed

end
