(* ===== verification/Spec2Isabelle.thy ===== *)
theory Spec2Isabelle
  imports Prelude PyFloat FloatEval PyValue ContractBase ContractSensor ContractTarget ContractMotion
    ContractClaims NavGeometry NavGrid NavGround NavSegment NavPlan NavSearch NavMap NavPath NavStraight
    FloatBounds NavClearance NavClaims PathClaims NavPlanning PlanClaims NavGrounding GroundClaims
    PyText Lifecycle Breaker ControlClaims Governor GovernorClaims ResourcePolicy PolicyClaims
    Broker BrokerRun BrokerClaims Arrival ArrivalChecks RaySample ArrivalSample ArrivalClaims RiskPolicy
    Permissions AuthClaims Watchdog WatchClaims MemoryConsent MemoryClaims Orchestrator LoopClaims
begin

text \<open>
  Verification of the deterministic core of Lumina (\<open>src/lumina_next/\<close>, Python).

  \<^bold>\<open>The program.\<close> Lumina drives an embodied companion. Four groups of modules decide without calling a
  model or a service, and they are what is verified here.

  \<^item> Navigation. An engine sends observations (captures with depth rays, occupancy maps, motion
    feedback); \<open>portable_navigation_contract_v1.py\<close> validates every envelope,
    \<open>portable_navigation_core_v1.py\<close> builds the grid, grounds an image box to a place, searches a
    path and checks it, and \<open>arrival_pose_epoch_fast_path_v1.py\<close> decides whether the agent has
    arrived. The last uses the validators, the grid and a few helpers of \<open>visual_navigation.py\<close>.
  \<^item> Model runtime. \<open>model_broker.py\<close> gives one role at a time (language or vision) to tasks that
    run interleaved, reports its phase through \<open>model_lifecycle_fsm.py\<close> and stops trying through
    \<open>circuit_breaker.py\<close>.
  \<^item> Resources. \<open>resource_governor.py\<close> decides from two system reports which heavy models stay
    loaded, and \<open>resource_policy.py\<close> which requests and contexts fit.
  \<^item> Authorization. \<open>risk_policy_v1.py\<close> decides on an action request, \<open>permission_modes_v1.py\<close>
    issues the receipts that it asks for, \<open>autonomy_watchdog_v1.py\<close> stops the loop,
    \<open>autonomy_orchestrator_v1.py\<close> runs one pass of it from an observation to a local action, and
    \<open>memory_consent_v1.py\<close> keeps the consent of a user and the receipts for deletion and export.

  \<^bold>\<open>Theories and code.\<close> Definitions keep the names of the source, less a leading underscore; a name that
  would clash has a suffix or prefix. A class or dictionary of fixed keys is a record, an
  enumeration a datatype, an exception a value of a sum type: \<open>bindE\<close>, \<open>guardE\<close>, \<open>mapE\<close>, \<open>foldE\<close>
  and \<open>catchE\<close> of \<open>Prelude\<close> are the sequencing that \<open>raise\<close>, \<open>if ...: raise\<close>, comprehensions, loops
  and \<open>try\<close> do. An object with state is passed in and returned.

  \<^item> \<open>Prelude\<close>: the error monad, the insertion sort that stands for \<open>sorted\<close> (any stable sort gives
    the same list), text of numbers.
  \<^item> Interfaces: \<open>step_invariant\<close> (\<open>Prelude\<close>: an invariant that every step keeps holds in every
    reachable state) is interpreted for the breaker, the broker, the permission registry and the
    watchdog; \<open>field_codec\<close> (\<open>ContractBase\<close>: what a validator accepts it accepts again, rendered) for the
    validators of fields; \<open>priority_queue\<close> and \<open>search_graph\<close> (\<open>NavSearch\<close>) for the heap and the grid,
    which the correctness of the search rests on.
  \<^item> \<open>PyFloat\<close>: \<open>float\<close> as IEEE binary64 over rationals (infinities, NaN, rounding to nearest even with
    subnormals and overflow; comparison, arithmetic, \<open>sqrt\<close>, \<open>floor\<close>, \<open>round\<close>, \<open>hypot\<close>, \<open>dist\<close> and the
    compensated \<open>sum\<close>). \<open>PyValue\<close>: the values a caller may pass. \<open>PyText\<close>: \<open>strip\<close>, \<open>lower\<close>, \<open>int()\<close> and
    \<open>float()\<close> of text. \<open>FloatBounds\<close>: relative errors of rounding and of the square root. \<open>FloatEval\<close>:
    rounding by shifts and one division, proved equal to the definition; the samples evaluate with it.
  \<^item> \<open>ContractBase\<close>, \<open>ContractSensor\<close>, \<open>ContractTarget\<close>, \<open>ContractMotion\<close>: all validators of the contract:
    common fields; capture and map; semantic and grounding; navigation, feedback and stop.
    \<open>ContractClaims\<close>: accepted results belong to their request and are well formed, sequences
    cannot be replayed, a surface identity has one role, and two inputs whose exceptions escape the
    contract's own codes.
  \<^item> \<open>NavGeometry\<close>, \<open>NavGrid\<close>, \<open>NavMap\<close>, \<open>NavGround\<close>, \<open>NavSegment\<close>, \<open>NavPlan\<close>: the navigation core, by its
    sections. \<open>NavClearance\<close>, \<open>NavClaims\<close>: inflation computes exactly its reference set of cells and
    keeps a metric clearance. \<open>NavPath\<close>, \<open>NavStraight\<close>, \<open>PathClaims\<close>: what the segment
    traversal visits, when it returns (always, parallel to an axis) and when it does not, collision
    reports, and string pulling, which is greedy and never needs its final validation. \<open>NavSearch\<close>,
    \<open>NavPlanning\<close>, \<open>PlanClaims\<close>: the search and the whole planner against reachability on the grid.
    \<open>NavGrounding\<close>, \<open>GroundSample\<close>, \<open>GroundClaims\<close>: clusters, identities, where the points of a grounded
    surface lie, and the outcome of grounding; \<open>RaySample\<close>: captures with three rays for the samples.
  \<^item> \<open>Arrival\<close>, \<open>ArrivalChecks\<close>, \<open>ArrivalSample\<close>, \<open>ArrivalClaims\<close>: the fast path. Its exceptions that
    carry a decision are the constructors of \<open>fp_stop\<close>; the result that the code fills in as it
    goes is the state of the computation. The claims: the outcome and its reason are always
    registered together, and what a pass proves about its observations.
  \<^item> \<open>Lifecycle\<close>, \<open>Breaker\<close>, \<open>ControlClaims\<close>: the two state machines and their runs.
  \<^item> \<open>Broker\<close>: the synchronous pieces of each coroutine, cut at its awaits. \<open>BrokerRun\<close>: tasks standing
    at their awaits, the two locks, the queue, and a step relation with every interleaving,
    outcome and cancellation. \<open>BrokerClaims\<close>: mutual exclusion, and the deadlock.
  \<^item> \<open>Governor\<close>, \<open>GovernorClaims\<close>, \<open>ResourcePolicy\<close>, \<open>PolicyClaims\<close>: parsing of the reports, the decision,
    the trimming of messages.
  \<^item> \<open>RiskPolicy\<close>, \<open>Permissions\<close>, \<open>AuthClaims\<close>, \<open>Watchdog\<close>, \<open>WatchClaims\<close>: authorization. The claims join
    the first two modules: what the registry issues is what the policy accepts, and for how long.
    The states of the watchdog are a linear order, in which only a reset moves down.
  \<^item> \<open>MemoryConsent\<close>, \<open>MemoryClaims\<close>: consent as the last accepted call grants it, receipts that work
    once, snapshots that restore their controller.
  \<^item> \<open>Orchestrator\<close>, \<open>LoopClaims\<close>: the loop with arbitrary handlers. Its result is a pair of the
    invocations of the action adapter and the trace or exception, so that what was done before an
    exception is visible. The claims: no action without permission, and the exact outcome of a
    pass with the default handlers.

  \<^bold>\<open>Loops and bounds.\<close> Recursion is structural except where the code has a \<open>while\<close>. The
  traversal of a segment can run for ever, so it is run with fuel: \<open>segment_bound\<close> is computed from
  the ends, and the traversal returns for some fuel if and only if it returns within that bound
  (\<open>segment_no_return_exact\<close>); \<open>straight_segment_cells\<close> shows that it does for every segment parallel to
  an axis, \<open>segment_never_returns\<close> an oblique one for which it never does. The search is
  bounded by the code's own limit of expansions; the heap is the list of its entries, of which the
  least is taken (a heap returns the least entry, and entries never compare equal, since each has
  its own serial number \<open>se_serial\<close>). Costs are floats; the claims on the search assume a limit of
  at most \<open>2 ^ 51\<close> expansions, which is beyond every grid that the contract accepts.

  \<^bold>\<open>Assumptions.\<close> \<open>math.hypot\<close> and \<open>math.dist\<close> are correctly rounded. The two zeros of \<open>float\<close> are one value,
  and \<open>sorted\<close> is applied to numbers that are not NaN. Keys of dictionaries are strings; the
  contract reads a required key only after it checked the set of keys, so reading one is total. Digits,
  spaces and letter case are those of ASCII where the code applies \<open>strip\<close>, \<open>lower\<close>, \<open>int()\<close>, \<open>float()\<close> and
  regular expressions to text; \<open>str\<close> is given as its UTF-8 bytes where a length is checked. The
  limit on the number of digits of an integer literal is ignored. The constant
  \<open>cos(radians(0.1) / 2)\<close> of the pose matcher is the number \<open>COS_POSE_LIMIT\<close>. Code outside the
  repository is a parameter: \<open>pylib\<close> holds Base64, SHA-256 and the JSON text, \<open>pyfmt\<close> \<open>str\<close> and the fixed-point text of
  values, \<open>pystd\<close> reading and writing of time stamps. A claim that needs a law of these states
  it as a hypothesis (\<open>clock_ok\<close>: a time that was written is read back), and its witness
  instantiates it with a concrete function. Readings of the clock, outcomes of runtime calls and
  the choice of the next task are arguments or choices of a step, so they are arbitrary.

  \<^bold>\<open>What the claims show to be wrong.\<close> Some claims state behaviour that is hardly intended:
  \<open>segment_never_returns\<close> (the traversal misses its last cell and never ends),
  \<open>broker_deadlock\<close> (two locks in opposite orders), \<open>drain_forgets\<close> (draining resets the count of
  running requests), \<open>record_failure_overflow\<close>, \<open>contract_failure_escapes\<close>, \<open>effective_level_exact\<close> (a moderate
  growth of swap lowers a critical level), \<open>issued_receipt_accepted\<close> (no revocation reaches a
  receipt once issued), \<open>loop_outcome\<close> (a long correlation id raises after the action) and
  \<open>control_receipt_once\<close> (any controller accepts the receipt, since none checks who issued it).

  \<^bold>\<open>Not modelled.\<close> The live job of \<open>visual_navigation.py\<close>, the engine adapter, perception, speech, memory
  stores, conversation, the servers and the operations tools: they are input and output, storage,
  prompts for language models, heuristics over Unicode text or reports over fixtures. Of the
  modelled modules, log messages, \<open>__all__\<close>, abstract base classes, \<open>wait_for_state\<close> of the broker (it
  only observes) and constant fields of the fast path's result are left out. Texts inside
  exceptions are kept where the code builds them from its inputs.
\<close>

end
